(* ===== verification/Prelude.thy ===== *)
theory Prelude
  imports Main "HOL-Library.Word"
begin

text \<open>
  Shared vocabulary of the development.

  A Python operation that may raise is a value of the sum type \<open>'e + 'a\<close>: \<open>Inl e\<close> is the
  exception that leaves the operation, \<open>Inr x\<close> its result. \<open>rbind\<close> sequences two such
  operations and \<open>traverse\<close> runs one over a list from left to right and stops at the first
  exception, as a comprehension or a generator does. A Python \<open>dict\<close> is an association list
  in insertion order with distinct keys (\<open>dict_ok\<close>): \<open>dict_set\<close> replaces in place or
  appends, \<open>dict_pop\<close> deletes, and both leave the order of the other keys alone.
\<close>

named_theorems result_simps "equations of the result combinators"
named_theorems dict_simps "lookups after a dictionary update"

subsection \<open>Results\<close>

definition rbind :: "'e + 'a \<Rightarrow> ('a \<Rightarrow> 'e + 'b) \<Rightarrow> 'e + 'b" where
  "rbind m f = (case m of Inl e \<Rightarrow> Inl e | Inr x \<Rightarrow> f x)"

definition rmap :: "('a \<Rightarrow> 'b) \<Rightarrow> 'e + 'a \<Rightarrow> 'e + 'b" where
  "rmap f m = (case m of Inl e \<Rightarrow> Inl e | Inr x \<Rightarrow> Inr (f x))"

definition rcatch :: "'e + 'a \<Rightarrow> ('e \<Rightarrow> 'f) \<Rightarrow> 'f + 'a" where
  "rcatch m h = (case m of Inl e \<Rightarrow> Inl (h e) | Inr x \<Rightarrow> Inr x)"

definition returns :: "'e + 'a \<Rightarrow> bool" where
  "returns m = (case m of Inl _ \<Rightarrow> False | Inr _ \<Rightarrow> True)"

lemma rbind_simps [simp, result_simps]:
  "rbind (Inl e) f = Inl e"
  "rbind (Inr x) f = f x"
  by (simp_all add: rbind_def)

lemma rmap_simps [simp, result_simps]:
  "rmap f (Inl e) = Inl e"
  "rmap f (Inr x) = Inr (f x)"
  by (simp_all add: rmap_def)

lemma rcatch_simps [simp, result_simps]:
  "rcatch (Inl e) h = Inl (h e)"
  "rcatch (Inr x) h = Inr x"
  by (simp_all add: rcatch_def)

lemma returns_simps [simp, result_simps]:
  "returns (Inl e) = False"
  "returns (Inr x) = True"
  by (simp_all add: returns_def)

lemma returns_iff: "returns m \<longleftrightarrow> (\<exists>x. m = Inr x)"
  by (cases m) auto

lemma rbind_eq_Inr: "rbind m f = Inr y \<longleftrightarrow> (\<exists>x. m = Inr x \<and> f x = Inr y)"
  by (cases m) auto

lemma rbind_eq_Inl: "rbind m f = Inl e \<longleftrightarrow> m = Inl e \<or> (\<exists>x. m = Inr x \<and> f x = Inl e)"
  by (cases m) auto

lemma rmap_eq_Inr: "rmap f m = Inr y \<longleftrightarrow> (\<exists>x. m = Inr x \<and> y = f x)"
  by (cases m) auto

lemma rbind_assoc: "rbind (rbind m f) g = rbind m (\<lambda>x. rbind (f x) g)"
  by (cases m) auto

text \<open>
  Reading a chain of checks backwards: a result came out of the last branch, so every guard
  before it was false. These are the rules that take a successful run of an operation apart.
\<close>

lemma guard_eq_Inr [result_simps]:
  "(if c then Inl e else m) = Inr y \<longleftrightarrow> \<not> c \<and> m = Inr y"
  by simp

lemma guard_eq_Inr' [result_simps]:
  "(if c then m else Inl e) = Inr y \<longleftrightarrow> c \<and> m = Inr y"
  by simp

lemma case_option_eq_Inr [result_simps]:
  "(case z of None \<Rightarrow> Inl e | Some x \<Rightarrow> f x) = Inr y \<longleftrightarrow> (\<exists>x. z = Some x \<and> f x = Inr y)"
  by (cases z) simp_all

lemma rcatch_eq_Inr [result_simps]: "rcatch m h = Inr y \<longleftrightarrow> m = Inr y"
  by (cases m) simp_all

declare rbind_eq_Inr [result_simps] rmap_eq_Inr [result_simps]

fun traverse :: "('a \<Rightarrow> 'e + 'b) \<Rightarrow> 'a list \<Rightarrow> 'e + 'b list" where
  "traverse f [] = Inr []"
| "traverse f (x # xs) = rbind (f x) (\<lambda>y. rbind (traverse f xs) (\<lambda>ys. Inr (y # ys)))"

lemma traverse_eq_Inr:
  "traverse f xs = Inr ys \<longleftrightarrow> list_all2 (\<lambda>x y. f x = Inr y) xs ys"
proof (induction xs arbitrary: ys)
  case Nil
  then show ?case by auto
next
  case (Cons x xs)
  then show ?case by (cases ys) (auto simp: rbind_eq_Inr)
qed

lemma traverse_map_Inr: "(\<And>x. x \<in> set xs \<Longrightarrow> f x = Inr (g x)) \<Longrightarrow> traverse f xs = Inr (map g xs)"
  by (induction xs) auto

lemma traverse_length: "traverse f xs = Inr ys \<Longrightarrow> length ys = length xs"
  by (auto simp: traverse_eq_Inr dest: list_all2_lengthD)

lemma traverse_append:
  "traverse f (xs @ ys) = rbind (traverse f xs) (\<lambda>us. rbind (traverse f ys) (\<lambda>vs. Inr (us @ vs)))"
  by (induction xs) (auto simp: rbind_assoc rbind_def split: sum.splits)

subsection \<open>Dictionaries\<close>

type_synonym ('k, 'v) dict = "('k \<times> 'v) list"

abbreviation dict_ok :: "('k, 'v) dict \<Rightarrow> bool" where
  "dict_ok d \<equiv> distinct (map fst d)"

abbreviation dict_get :: "('k, 'v) dict \<Rightarrow> 'k \<Rightarrow> 'v option" where
  "dict_get d k \<equiv> map_of d k"

abbreviation dict_has :: "('k, 'v) dict \<Rightarrow> 'k \<Rightarrow> bool" where
  "dict_has d k \<equiv> k \<in> fst ` set d"

fun dict_set :: "('k, 'v) dict \<Rightarrow> 'k \<Rightarrow> 'v \<Rightarrow> ('k, 'v) dict" where
  "dict_set [] k v = [(k, v)]"
| "dict_set ((k', v') # d) k v = (if k' = k then (k, v) # d else (k', v') # dict_set d k v)"

definition dict_pop :: "('k, 'v) dict \<Rightarrow> 'k \<Rightarrow> ('k, 'v) dict" where
  "dict_pop d k = filter (\<lambda>p. fst p \<noteq> k) d"

definition dict_update :: "('k, 'v) dict \<Rightarrow> ('k, 'v) dict \<Rightarrow> ('k, 'v) dict" where
  "dict_update d e = foldl (\<lambda>acc p. dict_set acc (fst p) (snd p)) d e"

definition dict_setdefault :: "('k, 'v) dict \<Rightarrow> 'k \<Rightarrow> 'v \<Rightarrow> ('k, 'v) dict" where
  "dict_setdefault d k v = (case dict_get d k of None \<Rightarrow> dict_set d k v | Some _ \<Rightarrow> d)"

lemma dict_get_set [simp, dict_simps]: "dict_get (dict_set d k v) = (dict_get d)(k \<mapsto> v)"
  by (induction d k v rule: dict_set.induct) (auto simp: fun_eq_iff)

lemma dict_keys_set [simp, dict_simps]: "fst ` set (dict_set d k v) = insert k (fst ` set d)"
  by (induction d k v rule: dict_set.induct) auto

lemma dict_ok_set [simp]: "dict_ok d \<Longrightarrow> dict_ok (dict_set d k v)"
  by (induction d k v rule: dict_set.induct) auto

lemma dict_get_pop [simp, dict_simps]: "dict_get (dict_pop d k) = (dict_get d)(k := None)"
  by (induction d) (auto simp: dict_pop_def fun_eq_iff)

lemma dict_keys_pop [simp, dict_simps]: "fst ` set (dict_pop d k) = fst ` set d - {k}"
  by (auto simp: dict_pop_def)

lemma dict_ok_pop [simp]: "dict_ok d \<Longrightarrow> dict_ok (dict_pop d k)"
  by (induction d) (auto simp: dict_pop_def)

lemma dict_get_None: "dict_get d k = None \<longleftrightarrow> \<not> dict_has d k"
  by (induction d) auto

lemma dict_get_Some_has: "dict_get d k = Some v \<Longrightarrow> dict_has d k"
  by (metis dict_get_None option.distinct(1))

lemma dict_set_new: "\<not> dict_has d k \<Longrightarrow> dict_set d k v = d @ [(k, v)]"
  by (induction d k v rule: dict_set.induct) auto

lemma dict_pop_absent: "\<not> dict_has d k \<Longrightarrow> dict_pop d k = d"
  by (induction d) (auto simp: dict_pop_def)

lemma dict_pop_set_new:
  assumes "\<not> dict_has d k"
  shows "dict_pop (dict_set d k v) k = d"
proof -
  have "dict_pop (dict_set d k v) k = dict_pop d k"
    by (simp only: dict_set_new [OF assms] dict_pop_def filter_append) simp
  also have "\<dots> = d" by (rule dict_pop_absent [OF assms])
  finally show ?thesis .
qed

lemma dict_update_Nil [simp]: "dict_update d [] = d"
  by (simp add: dict_update_def)

lemma dict_update_Cons: "dict_update d ((k, v) # e) = dict_update (dict_set d k v) e"
  by (simp add: dict_update_def)

lemma dict_update_ok: "dict_ok d \<Longrightarrow> dict_ok (dict_update d e)"
  by (induction e arbitrary: d) (simp_all add: dict_update_def)

lemma dict_update_fresh:
  "dict_ok e \<Longrightarrow> fst ` set d \<inter> fst ` set e = {} \<Longrightarrow> dict_update d e = d @ e"
proof (induction e arbitrary: d)
  case Nil
  then show ?case by simp
next
  case (Cons p e)
  obtain k v where p: "p = (k, v)" by force
  have "dict_update d (p # e) = dict_update (d @ [(k, v)]) e"
    using Cons.prems(2) by (simp add: p dict_update_Cons dict_set_new)
  also have "\<dots> = (d @ [(k, v)]) @ e"
    using Cons.prems by (intro Cons.IH) (auto simp: p)
  finally show ?case by (simp add: p)
qed

subsection \<open>Lists\<close>

text \<open>The slice \<open>xs[a:b]\<close> of a sequence, for non-negative bounds.\<close>

definition pyslice :: "'a list \<Rightarrow> nat \<Rightarrow> nat \<Rightarrow> 'a list" where
  "pyslice xs a b = take (b - a) (drop a xs)"

lemma length_pyslice: "b \<le> length xs \<Longrightarrow> length (pyslice xs a b) = b - a"
  by (simp add: pyslice_def)

lemma slice_append_exact: "pyslice (pre @ xs @ post) (length pre) (length pre + length xs) = xs"
  by (simp add: pyslice_def)

lemma take_append_pyslice: "a \<le> b \<Longrightarrow> take a xs @ pyslice xs a b = take b xs"
  using take_add [of a "b - a" xs] by (simp add: pyslice_def)

lemma pyslice_drop: "a \<le> b \<Longrightarrow> pyslice xs a b @ drop b xs = drop a xs"
  using append_take_drop_id [of "b - a" "drop a xs"] by (simp add: pyslice_def)

lemma pyslice_join: "a \<le> b \<Longrightarrow> b \<le> c \<Longrightarrow> pyslice xs a b @ pyslice xs b c = pyslice xs a c"
  using take_add [of "b - a" "c - b" "drop a xs"] by (simp add: pyslice_def add.commute)

lemma pyslice_from_0: "pyslice xs 0 b = take b xs"
  by (simp add: pyslice_def)

text \<open>\<open>split_on d xs\<close> is \<open>xs.split(d)\<close> for a one-element separator.\<close>

fun split_on :: "'a \<Rightarrow> 'a list \<Rightarrow> 'a list list" where
  "split_on d [] = [[]]"
| "split_on d (x # xs) =
     (if x = d then [] # split_on d xs
      else (case split_on d xs of [] \<Rightarrow> [[x]] | p # ps \<Rightarrow> (x # p) # ps))"

lemma split_on_ne: "split_on d xs \<noteq> []"
  by (induction xs) (auto split: list.splits)

lemma split_on_free: "d \<notin> set xs \<Longrightarrow> split_on d xs = [xs]"
  by (induction xs) auto

lemma split_on_append: "d \<notin> set xs \<Longrightarrow> split_on d (xs @ d # ys) = xs # split_on d ys"
  by (induction xs) auto

lemma split_on_parts_free: "p \<in> set (split_on d xs) \<Longrightarrow> d \<notin> set p"
proof (induction xs arbitrary: p)
  case Nil
  then show ?case by simp
next
  case (Cons x xs)
  then show ?case using split_on_ne [of d xs]
    by (auto split: if_splits list.splits)
qed

text \<open>Consecutive blocks of \<open>n\<close> elements: \<open>xs[o:o+n] for o in range(0, len(xs), n)\<close>.\<close>

function blocks :: "nat \<Rightarrow> 'a list \<Rightarrow> 'a list list" where
  "blocks n xs = (if n = 0 \<or> xs = [] then [] else take n xs # blocks n (drop n xs))"
  by pat_completeness auto
termination
  by (relation "measure (\<lambda>(n, xs). length xs)") auto

declare blocks.simps [simp del]

lemma blocks_Nil [simp]: "blocks n [] = []"
  by (simp add: blocks.simps)

lemma concat_blocks: "0 < n \<Longrightarrow> concat (blocks n xs) = xs"
proof (induction n xs rule: blocks.induct)
  case (1 n xs)
  then show ?case by (cases "xs = []") (simp_all add: blocks.simps [of n xs])
qed

lemma blocks_bound: "b \<in> set (blocks n xs) \<Longrightarrow> length b \<le> n"
proof (induction n xs rule: blocks.induct)
  case (1 n xs)
  then show ?case by (auto simp: blocks.simps [of n xs] split: if_splits)
qed

lemma length_blocks:
  "0 < n \<Longrightarrow> length (blocks n xs) = (if xs = [] then 0 else Suc ((length xs - 1) div n))"
proof (induction n xs rule: blocks.induct)
  case (1 n xs)
  show ?case
  proof (cases "n < length xs")
    case True
    then have "(length xs - 1) div n = ((length xs - n - 1) + n) div n" by simp
    also have "\<dots> = Suc ((length xs - n - 1) div n)" using 1(2) by (simp add: div_add_self2)
    finally have "(length xs - 1) div n = Suc ((length xs - n - 1) div n)" .
    then show ?thesis using True 1 by (auto simp add: blocks.simps [of n xs])
  next
    case False
    then have "xs \<noteq> [] \<Longrightarrow> (length xs - 1) div n = 0" using 1(2) by simp
    then show ?thesis using False 1(2) by (simp add: blocks.simps [of n xs])
  qed
qed

end
