(* ===== verification/Bytes.thy ===== *)
theory Bytes
  imports Prelude
begin

text \<open>
  Byte strings and the part of Python's \<^verbatim>\<open>struct\<close> that the bridge codec uses:
  little-endian unsigned fields (\<open>le_bytes\<close>, \<open>le_nat\<close>: the formats \<^verbatim>\<open><B\<close>, \<^verbatim>\<open><H\<close>, \<^verbatim>\<open><I\<close> and
  \<^verbatim>\<open>int.from_bytes(.., "little")\<close>). A Python
  \<open>bytes\<close> value is a list of 8-bit words, so every element is in range by type.
\<close>

type_synonym byte = "8 word"
type_synonym bytes = "8 word list"

subsection \<open>Little-endian fields\<close>

primrec le_bytes :: "nat \<Rightarrow> nat \<Rightarrow> bytes" where
  "le_bytes 0 n = []"
| "le_bytes (Suc k) n = word_of_nat n # le_bytes k (n div 256)"

fun le_nat :: "bytes \<Rightarrow> nat" where
  "le_nat [] = 0"
| "le_nat (b # bs) = unat b + 256 * le_nat bs"

lemma length_le_bytes [simp]: "length (le_bytes k n) = k"
  by (induction k arbitrary: n) auto

lemma unat_byte: "unat (word_of_nat n :: byte) = n mod 256"
  by (simp add: unat_of_nat)

lemma unat_byte_small: "n < 256 \<Longrightarrow> unat (word_of_nat n :: byte) = n"
  by (simp add: unat_byte)

lemma unat_byte_lt [simp]: "unat (b :: byte) < 256"
  using unsigned_less [of b, where ?'a = nat] by simp

lemma le_nat_le_bytes [simp]: "n < 256 ^ k \<Longrightarrow> le_nat (le_bytes k n) = n"
proof (induction k arbitrary: n)
  case 0
  then show ?case by simp
next
  case (Suc k)
  then have "n div 256 < 256 ^ k"
    by (simp add: div_less_iff_less_mult mult.commute)
  then have "le_nat (le_bytes k (n div 256)) = n div 256" by (rule Suc.IH)
  then show ?case by (simp add: unat_byte)
qed

lemma le_nat_bound: "le_nat bs < 256 ^ length bs"
proof (induction bs)
  case Nil
  then show ?case by simp
next
  case (Cons b bs)
  have "le_nat (b # bs) < 256 * Suc (le_nat bs)" by simp
  also have "\<dots> \<le> 256 * 256 ^ length bs"
    using Cons by (intro mult_le_mono2) (simp add: Suc_le_eq)
  finally show ?case by simp
qed

lemma le_bytes_le_nat [simp]: "le_bytes (length bs) (le_nat bs) = bs"
proof (induction bs)
  case Nil
  then show ?case by simp
next
  case (Cons b bs)
  have "(unat b + 256 * le_nat bs) div 256 = le_nat bs"
    by simp
  moreover have "(word_of_nat (unat b + 256 * le_nat bs) :: byte) = b"
  proof (rule unsigned_word_eqI)
    have "unat (word_of_nat (unat b + 256 * le_nat bs) :: byte) = (unat b + 256 * le_nat bs) mod 256"
      by (rule unat_byte)
    also have "\<dots> = unat b" by simp
    finally show "unat (word_of_nat (unat b + 256 * le_nat bs) :: byte) = unat b" .
  qed
  ultimately show ?case using Cons by simp
qed

lemma le_bytes_inj: "a < 256 ^ k \<Longrightarrow> b < 256 ^ k \<Longrightarrow> le_bytes k a = le_bytes k b \<Longrightarrow> a = b"
  by (metis le_nat_le_bytes)

lemma le_bytes_of_field: "length bs = k \<Longrightarrow> le_bytes k (le_nat bs) = bs"
  by (metis le_bytes_le_nat)

text \<open>Two fixed instances: \<^verbatim>\<open>struct.unpack_from\<close> reads two and four bytes at a time.\<close>

lemma le_nat_bound2: "length bs = 2 \<Longrightarrow> le_nat bs < 65536"
  using le_nat_bound [of bs] by simp

lemma le_nat_bound4: "length bs = 4 \<Longrightarrow> le_nat bs < 4294967296"
  using le_nat_bound [of bs] by simp

end
