(* ===== verification/Crc.thy ===== *)
theory Crc
  imports Bytes
begin

text \<open>
  The reflected CRC-32 of \<^verbatim>\<open>zlib.crc32\<close>, bit by bit, and what it detects: changing at most four
  consecutive bytes of a message always changes its CRC.
\<close>

unbundle bit_operations_syntax

definition crc32_bit :: "32 word \<Rightarrow> 32 word" where
  "crc32_bit c = (if bit c 0 then drop_bit 1 c XOR 0xEDB88320 else drop_bit 1 c)"

definition crc32_byte :: "32 word \<Rightarrow> byte \<Rightarrow> 32 word" where
  "crc32_byte c b = foldl (\<lambda>r _. crc32_bit r) (c XOR ucast b) [0 ..< 8]"

definition crc32 :: "bytes \<Rightarrow> 32 word" where
  "crc32 bs = NOT (foldl crc32_byte 0xFFFFFFFF bs)"

text \<open>The published CRC-32 of the one-byte message \<^verbatim>\<open>a\<close>.\<close>

lemma crc32_letter_a: "crc32 [97] = 0xE8B7BE43"
  by code_simp

lemma crc32_bound: "unat (crc32 bs) < 4294967296"
  using unsigned_less [of "crc32 bs", where ?'a = nat] by simp

subsection \<open>The register is a linear bijection\<close>

lemma crc32_bit_top: "bit (crc32_bit c) 31 = bit c 0"
  by (auto simp: crc32_bit_def bit_xor_iff bit_drop_bit_eq dest: bit_imp_le_length)

lemma drop_bit_1_eqD:
  fixes a b :: "32 word"
  assumes "drop_bit 1 a = drop_bit 1 b" "bit a 0 = bit b 0"
  shows "a = b"
proof (rule bit_word_eqI)
  fix n
  show "bit a n = bit b n"
  proof (cases n)
    case (Suc m)
    have "bit (drop_bit 1 a) m = bit (drop_bit 1 b) m" using assms(1) by simp
    then show ?thesis by (simp add: bit_drop_bit_eq Suc)
  qed (use assms(2) in simp)
qed

lemma crc32_bit_inv:
  "drop_bit 1 c = crc32_bit c XOR (if bit c 0 then 0xEDB88320 else 0)"
  by (simp add: crc32_bit_def xor.assoc)

lemma crc32_bit_inj: "crc32_bit a = crc32_bit b \<Longrightarrow> a = b"
proof -
  assume eq: "crc32_bit a = crc32_bit b"
  then have low: "bit a 0 = bit b 0" using crc32_bit_top [of a] crc32_bit_top [of b] by metis
  have "drop_bit 1 a = drop_bit 1 b"
    unfolding crc32_bit_inv by (simp only: eq low)
  then show "a = b" using low by (rule drop_bit_1_eqD)
qed

lemma crc32_bit_xor: "crc32_bit (a XOR b) = crc32_bit a XOR crc32_bit b"
  by (simp add: crc32_bit_def bit_xor_iff drop_bit_xor ac_simps)

lemma crc32_bits_inj: "(crc32_bit ^^ n) a = (crc32_bit ^^ n) b \<Longrightarrow> a = b"
  by (induction n) (auto dest: crc32_bit_inj)

lemma crc32_bits_xor: "(crc32_bit ^^ n) (a XOR b) = (crc32_bit ^^ n) a XOR (crc32_bit ^^ n) b"
  by (induction n) (auto simp: crc32_bit_xor)

lemma crc32_byte_bits: "crc32_byte c b = (crc32_bit ^^ 8) (c XOR ucast b)"
  by (simp add: crc32_byte_def upt_rec_numeral numeral_eq_Suc)

subsection \<open>Four consecutive bytes\<close>

text \<open>The register bits that \<open>bs\<close> contributes, before it is shifted through.\<close>

fun le_word :: "bytes \<Rightarrow> 32 word" where
  "le_word [] = 0"
| "le_word (b # bs) = ucast b XOR push_bit 8 (le_word bs)"

lemma bit_le_word: "bit (le_word bs) n \<Longrightarrow> n < 8 * length bs"
proof (induction bs arbitrary: n)
  case Nil
  then show ?case by simp
next
  case (Cons b bs)
  show ?case
  proof (cases "n < 8")
    case True
    then show ?thesis by simp
  next
    case False
    then have "\<not> bit (ucast b :: 32 word) n"
      by (auto simp: bit_ucast_iff dest: bit_imp_le_length)
    then have "bit (le_word bs) (n - 8)"
      using Cons.prems by (auto simp: bit_xor_iff bit_push_bit_iff)
    then show ?thesis using Cons.IH False by fastforce
  qed
qed

lemma crc32_bits_shift:
  "(\<And>i. bit x i \<Longrightarrow> i + n < 32) \<Longrightarrow> (crc32_bit ^^ n) (push_bit n x) = x"
proof (induction n arbitrary: x)
  case 0
  then show ?case by simp
next
  case (Suc n)
  have "\<not> bit (push_bit (Suc n) x) 0" by (simp only: bit_push_bit_iff) simp
  then have drop: "crc32_bit (push_bit (Suc n) x) = drop_bit 1 (push_bit (Suc n) x)"
    unfolding crc32_bit_def by (rule if_not_P)
  have "crc32_bit (push_bit (Suc n) x) = push_bit n x"
    unfolding drop
  proof (rule bit_word_eqI)
    fix i assume "i < LENGTH(32)"
    then show "bit (drop_bit 1 (push_bit (Suc n) x)) i = bit (push_bit n x) i"
      using Suc.prems [of "i - n"] by (auto simp: bit_drop_bit_eq bit_push_bit_iff simp del: push_bit_Suc)
  qed
  moreover have "(crc32_bit ^^ n) (push_bit n x) = x"
    using Suc.prems by (intro Suc.IH) fastforce
  ultimately show ?case by (simp add: funpow_Suc_right del: funpow.simps)
qed

lemma crc32_bytes_le_word:
  "length bs \<le> 4 \<Longrightarrow> foldl crc32_byte c bs = (crc32_bit ^^ (8 * length bs)) (c XOR le_word bs)"
proof (induction bs arbitrary: c)
  case Nil
  then show ?case by simp
next
  case (Cons b bs)
  have small: "i + 8 < 32" if "bit (le_word bs) i" for i
    using bit_le_word [OF that] Cons.prems by simp
  let ?A = "c XOR ucast b" and ?B = "push_bit 8 (le_word bs)" and ?f = "\<lambda>k. crc32_bit ^^ k"
  have w: "?f 8 ?B = le_word bs" using small by (intro crc32_bits_shift) simp
  have "foldl crc32_byte c (b # bs) = ?f (8 * length bs) (?f 8 ?A XOR le_word bs)"
    using Cons.prems by (simp add: Cons.IH) (simp add: crc32_byte_bits)
  also have "\<dots> = ?f (8 * length bs) (?f 8 (?A XOR ?B))"
    by (simp only: crc32_bits_xor w)
  also have "\<dots> = ?f (8 * length bs + 8) (?A XOR ?B)"
    by (simp only: funpow_add o_apply)
  also have "?A XOR ?B = c XOR le_word (b # bs)" by (simp add: xor.assoc)
  finally show ?case by (simp only: list.size mult_Suc_right add.commute add_0_left)  simp
qed

lemma le_word_inj: "length u = length w \<Longrightarrow> length u \<le> 4 \<Longrightarrow> le_word u = le_word w \<Longrightarrow> u = w"
proof (induction u w rule: list_induct2)
  case Nil
  then show ?case by simp
next
  case (Cons a u b w)
  have bits: "bit (le_word (a # u)) n = bit (le_word (b # w)) n" for n
    using Cons.prems(2) by simp
  have "a = b"
  proof (rule bit_word_eqI)
    fix n assume "n < LENGTH(8)"
    then show "bit a n = bit b n"
      using bits [of n] by (simp add: bit_xor_iff bit_push_bit_iff bit_ucast_iff)
  qed
  moreover have "le_word u = le_word w"
  proof (rule bit_word_eqI)
    fix n assume n: "n < LENGTH(32)"
    have hi: "\<not> bit (le_word u) n \<and> \<not> bit (le_word w) n" if "24 \<le> n"
      using bit_le_word [of u n] bit_le_word [of w n] Cons.prems(1) Cons.hyps that by auto
    show "bit (le_word u) n = bit (le_word w) n"
    proof (cases "24 \<le> n")
      case False
      have "\<not> bit (ucast a :: 32 word) (n + 8)" "\<not> bit (ucast b :: 32 word) (n + 8)"
        by (auto simp: bit_ucast_iff dest: bit_imp_le_length)
      then show ?thesis
        using bits [of "n + 8"] False by (simp add: bit_xor_iff bit_push_bit_iff)
    qed (use hi in simp)
  qed
  ultimately show ?case using Cons by simp
qed

lemma xor_right_cancel: "a XOR x = b XOR x \<Longrightarrow> a = (b :: 32 word)"
proof -
  assume "a XOR x = b XOR x"
  then have "(a XOR x) XOR x = (b XOR x) XOR x" by (rule arg_cong)
  then show "a = b" by (simp add: xor.assoc)
qed

lemma crc32_bytes_inj_state: "foldl crc32_byte a bs = foldl crc32_byte b bs \<Longrightarrow> a = b"
proof (induction bs arbitrary: a b)
  case Nil
  then show ?case by simp
next
  case (Cons x bs)
  then have "crc32_byte a x = crc32_byte b x" by - (rule Cons.IH, simp)
  then have "a XOR ucast x = b XOR ucast x"
    unfolding crc32_byte_bits by (rule crc32_bits_inj)
  then have "a = b" by (rule xor_right_cancel)
  then show ?case .
qed

lemma crc32_burst:
  assumes "length u = length w" "length u \<le> 4" "crc32 (pre @ u @ post) = crc32 (pre @ w @ post)"
  shows "u = w"
proof -
  let ?c = "foldl crc32_byte 0xFFFFFFFF pre"
  have "foldl crc32_byte (foldl crc32_byte ?c u) post = foldl crc32_byte (foldl crc32_byte ?c w) post"
    using assms(3) by (simp add: crc32_def)
  then have "foldl crc32_byte ?c u = foldl crc32_byte ?c w" by (rule crc32_bytes_inj_state)
  then have "(crc32_bit ^^ (8 * length w)) (?c XOR le_word u) = (crc32_bit ^^ (8 * length w)) (?c XOR le_word w)"
    using assms(1,2) by (simp only: crc32_bytes_le_word)
  then have "?c XOR le_word u = ?c XOR le_word w" by (rule crc32_bits_inj)
  then have "le_word u = le_word w" unfolding xor.commute [of ?c] by (rule xor_right_cancel)
  then show ?thesis using assms(1,2) by (intro le_word_inj)
qed

end
