(* ===== verification/Cobs.thy ===== *)
theory Cobs
  imports Crc
begin

text \<open>
  Consistent-overhead byte stuffing: \<open>cobs_encode\<close> and \<open>cobs_decode\<close> of
  \<^verbatim>\<open>wire.py\<close>. The encoder is the code's in-place algorithm: an output buffer with a placeholder
  at \<open>code_index\<close> that is patched when a group closes. \<open>cobs_groups\<close> is the reference
  definition (the list of closed groups); the two are equal. The decoder is the index loop of
  the code with each \<open>raise\<close> as an error value.
\<close>

datatype cobs_error =
    CobsEmptyOrDelimiter   \<comment> \<open>COBS frame is empty or contains a delimiter\<close>
  | CobsZeroCode           \<comment> \<open>COBS code byte cannot be zero\<close>
  | CobsCodeOverrun        \<comment> \<open>COBS code exceeds encoded frame\<close>

subsection \<open>The encoder\<close>

fun cobs_step :: "bytes \<times> nat \<times> nat \<Rightarrow> byte \<Rightarrow> bytes \<times> nat \<times> nat" where
  "cobs_step (out, code_index, code) value =
     (if value = 0 then (out[code_index := word_of_nat code] @ [0], length out, 1)
      else if code + 1 = 0xFF
        then ((out @ [value])[code_index := word_of_nat (code + 1)] @ [0], length (out @ [value]), 1)
      else (out @ [value], code_index, code + 1))"

definition cobs_encode :: "bytes \<Rightarrow> bytes" where
  "cobs_encode data =
     (case foldl cobs_step ([0], 0, 1) data of
        (out, code_index, code) \<Rightarrow> out[code_index := word_of_nat code])"

subsection \<open>The reference definition\<close>

text \<open>\<open>run\<close> is the open group: the non-zero bytes since the last code byte.\<close>

fun cobs_groups :: "bytes \<Rightarrow> bytes \<Rightarrow> bytes" where
  "cobs_groups run [] = word_of_nat (length run + 1) # run"
| "cobs_groups run (v # vs) =
     (if v = 0 then word_of_nat (length run + 1) # run @ cobs_groups [] vs
      else if length run + 2 = 255 then 255 # run @ v # cobs_groups [] vs
      else cobs_groups (run @ [v]) vs)"

text \<open>The state of the code's loop after the closed groups \<open>done\<close> and the open group \<open>run\<close>.\<close>

definition cobs_state :: "bytes \<Rightarrow> bytes \<Rightarrow> bytes \<times> nat \<times> nat" where
  "cobs_state closed run = (closed @ 0 # run, length closed, length run + 1)"

lemma cobs_step_state:
  "cobs_step (cobs_state closed run) v =
     (if v = 0 then cobs_state (closed @ word_of_nat (length run + 1) # run) []
      else if length run + 2 = 255 then cobs_state (closed @ 255 # run @ [v]) []
      else cobs_state closed (run @ [v]))"
  by (auto simp: cobs_state_def list_update_append)

lemma cobs_loop_groups:
  "(case foldl cobs_step (cobs_state closed run) data of
      (out, ci, code) \<Rightarrow> out[ci := word_of_nat code]) = closed @ cobs_groups run data"
proof (induction data arbitrary: closed run)
  case Nil
  then show ?case by (simp add: cobs_state_def)
next
  case (Cons v vs)
  show ?case using Cons.IH by (auto simp: cobs_step_state simp del: cobs_step.simps)
qed

lemma cobs_encode_groups: "cobs_encode data = cobs_groups [] data"
  using cobs_loop_groups [of "[]" "[]" data] by (simp add: cobs_encode_def cobs_state_def)

subsection \<open>The decoder\<close>

function cobs_decode_loop :: "bytes \<Rightarrow> nat \<Rightarrow> bytes \<Rightarrow> cobs_error + bytes" where
  "cobs_decode_loop data index acc =
     (if index < length data then
        (let code = unat (data ! index) in
         if code = 0 then Inl CobsZeroCode
         else
           let start = index + 1; stop = start + code - 1 in
           if stop > length data then Inl CobsCodeOverrun
           else
             let acc' = acc @ pyslice data start stop in
             cobs_decode_loop data stop
               (if code \<noteq> 0xFF \<and> stop < length data then acc' @ [0] else acc'))
      else Inr acc)"
  by pat_completeness auto
termination
  by (relation "measure (\<lambda>(data, index, acc). length data - index)") auto

declare cobs_decode_loop.simps [simp del]

definition cobs_decode :: "bytes \<Rightarrow> cobs_error + bytes" where
  "cobs_decode data =
     (if data = [] \<or> 0 \<in> set data then Inl CobsEmptyOrDelimiter
      else cobs_decode_loop data 0 [])"

subsection \<open>The encoding has no delimiter and bounded length\<close>

lemma word_byte_ne_0:
  assumes "0 < n" "n < 256"
  shows "(word_of_nat n :: byte) \<noteq> 0"
proof
  assume "(word_of_nat n :: byte) = 0"
  then have "unat (word_of_nat n :: byte) = 0" by simp
  then show False using assms by (simp add: unat_byte_small)
qed

lemma cobs_groups_zero_free:
  "0 \<notin> set run \<Longrightarrow> length run < 254 \<Longrightarrow> 0 \<notin> set (cobs_groups run data)"
proof (induction run data rule: cobs_groups.induct)
  case (1 run)
  have "(word_of_nat (length run + 1) :: byte) \<noteq> 0"
    using "1.prems" by (intro word_byte_ne_0) auto
  then show ?case using "1.prems" by simp
next
  case (2 run v vs)
  have "(word_of_nat (length run + 1) :: byte) \<noteq> 0"
    using "2.prems" by (intro word_byte_ne_0) auto
  then show ?case using 2 by auto
qed

lemma cobs_groups_ne [simp]: "cobs_groups run data \<noteq> []"
  by (induction run data rule: cobs_groups.induct) auto

lemma cobs_groups_length:
  "length run < 254 \<Longrightarrow>
   length (cobs_groups run data) \<le> length run + length data + 1 + (length run + length data) div 254"
proof (induction run data rule: cobs_groups.induct)
  case (1 run)
  then show ?case by simp
next
  case (2 run v vs)
  show ?case
  proof (cases "v = 0")
    case True
    then have "length (cobs_groups [] vs) \<le> length vs + 1 + length vs div 254"
      using 2 by simp
    moreover have "length vs div 254 \<le> (length run + length (v # vs)) div 254"
      by (intro div_le_mono) simp
    ultimately show ?thesis using True by simp
  next
    case nz: False
    show ?thesis
    proof (cases "length run + 2 = 255")
      case True
      then have "length (cobs_groups [] vs) \<le> length vs + 1 + length vs div 254"
        using nz 2 by simp
      moreover have "(length run + length (v # vs)) div 254 = Suc (length vs div 254)"
        using True by (simp add: div_add_self1)
      ultimately show ?thesis using nz True by simp
    next
      case False
      then show ?thesis using nz 2 by simp
    qed
  qed
qed

subsection \<open>Decoding what the encoder emits\<close>

text \<open>
  One group of the encoding, read at its code byte: the decoder appends the group's bytes, and
  the zero it stands for unless the group is full or ends the frame.
\<close>

lemma cobs_decode_group:
  assumes "length g < 255"
  shows "cobs_decode_loop (pre @ word_of_nat (length g + 1) # g @ post) (length pre) acc =
    cobs_decode_loop (pre @ word_of_nat (length g + 1) # g @ post) (length pre + 1 + length g)
      (acc @ g @ (if length g \<noteq> 254 \<and> post \<noteq> [] then [0] else []))"
proof -
  let ?d = "pre @ word_of_nat (length g + 1) # g @ post"
  let ?c = "word_of_nat (length g + 1) :: byte"
  have code: "unat ?c = length g + 1"
    using assms by (intro unat_byte_small) simp
  have sl: "pyslice ?d (length pre + 1) (length pre + 1 + length g) = g"
    using slice_append_exact [of "pre @ [word_of_nat (length g + 1)]" g post] by simp
  show ?thesis
    using code sl by (subst cobs_decode_loop.simps) (simp add: Let_def del: of_nat_Suc of_nat_add)
qed

lemma cobs_decode_loop_end: "length data \<le> index \<Longrightarrow> cobs_decode_loop data index acc = Inr acc"
  by (subst cobs_decode_loop.simps) simp

lemma cobs_decode_groups:
  "length run < 254 \<Longrightarrow>
   cobs_decode_loop (pre @ cobs_groups run data) (length pre) acc = Inr (acc @ run @ data)"
proof (induction run data arbitrary: pre acc rule: cobs_groups.induct)
  case (1 run)
  then show ?case
    using cobs_decode_group [of run pre "[]" acc]
    by (simp add: cobs_decode_loop_end del: of_nat_Suc of_nat_add)
next
  case (2 run v vs)
  show ?case
  proof (cases "v = 0")
    case True
    let ?pre = "pre @ word_of_nat (length run + 1) # run"
    have "cobs_decode_loop (?pre @ cobs_groups [] vs) (length ?pre) (acc @ run @ [0])
        = Inr ((acc @ run @ [0]) @ [] @ vs)"
      using True by (intro "2.IH"(1)) auto
    then show ?thesis
      using True "2.prems" cobs_decode_group [of run pre "cobs_groups [] vs" acc]
      by (simp del: of_nat_Suc of_nat_add)
  next
    case nz: False
    show ?thesis
    proof (cases "length run + 2 = 255")
      case True
      let ?pre = "pre @ 255 # run @ [v]"
      have "cobs_decode_loop (?pre @ cobs_groups [] vs) (length ?pre) (acc @ run @ [v])
          = Inr ((acc @ run @ [v]) @ [] @ vs)"
        using nz True by (intro "2.IH"(2)) auto
      then show ?thesis
        using nz True cobs_decode_group [of "run @ [v]" pre "cobs_groups [] vs" acc]
        by simp
    next
      case False
      then have "cobs_decode_loop (pre @ cobs_groups (run @ [v]) vs) (length pre) acc
          = Inr (acc @ (run @ [v]) @ vs)"
        using nz "2.prems" by (intro "2.IH"(3)) auto
      then show ?thesis using nz False by simp
    qed
  qed
qed

text \<open>What the rest of the codec uses of the encoder.\<close>

lemma cobs_encode_zero_free: "0 \<notin> set (cobs_encode data)"
  by (simp add: cobs_encode_groups cobs_groups_zero_free)

lemma cobs_encode_ne: "cobs_encode data \<noteq> []"
  by (simp add: cobs_encode_groups)

lemma cobs_encode_length: "length (cobs_encode data) \<le> length data + 1 + length data div 254"
  using cobs_groups_length [of "[]" data] by (simp add: cobs_encode_groups)

lemma cobs_decode_encode: "cobs_decode (cobs_encode data) = Inr data"
  using cobs_decode_groups [of "[]" "[]" data "[]"] cobs_encode_zero_free [of data] cobs_encode_ne [of data]
  by (simp add: cobs_decode_def cobs_encode_groups)

text \<open>A decoded frame is strictly shorter than its encoding.\<close>

lemma cobs_decode_loop_length:
  "cobs_decode_loop data index acc = Inr r \<Longrightarrow> index < length data \<Longrightarrow>
   length r + index < length acc + length data"
proof (induction data index acc rule: cobs_decode_loop.induct)
  case (1 data index acc)
  define code where "code = unat (data ! index)"
  define stop where "stop = index + 1 + code - 1"
  define out' where "out' = acc @ pyslice data (index + 1) stop"
  have step: "code \<noteq> 0" "stop \<le> length data"
      "cobs_decode_loop data stop (if code \<noteq> 0xFF \<and> stop < length data then out' @ [0] else out') = Inr r"
    using "1.prems" by (auto simp: cobs_decode_loop.simps [of data index acc]
        code_def stop_def out'_def Let_def split: if_splits)
  have len: "length out' = length acc + code - 1"
    using step by (simp add: out'_def length_pyslice stop_def)
  show ?case
  proof (cases "stop < length data")
    case True
    have "length r + stop <
        length (if code \<noteq> 0xFF \<and> stop < length data then out' @ [0] else out') + length data"
      by (rule "1.IH" [OF "1.prems"(2) code_def _ refl _ _ out'_def step(3) True])
        (use step in \<open>simp_all add: stop_def\<close>)
    then show ?thesis using len step(1) by (auto simp: stop_def split: if_splits)
  next
    case False
    then have "r = out'" using step by (simp add: cobs_decode_loop_end)
    then show ?thesis using len step by (simp add: stop_def)
  qed
qed

lemma cobs_decode_length: "cobs_decode data = Inr r \<Longrightarrow> length r < length data"
  using cobs_decode_loop_length [of data 0 "[]" r] by (auto simp: cobs_decode_def split: if_splits)

end
