(* ===== verification/Frames.thy ===== *)
theory Frames
  imports Cobs
begin

text \<open>
  Segmented frames of the bridge protocol (\<^verbatim>\<open>wire.py\<close>): \<open>encode_frame\<close>, \<open>decode_frame\<close>,
  \<open>encode_message\<close>, \<open>decode_stream\<close> and \<open>reassemble_frames\<close>. Every \<^verbatim>\<open>raise\<close> is a constructor of
  \<open>wire_error\<close>, and \<open>wire_error_class\<close> gives the exception class it raises. The numeric fields
  of a frame are Python integers, so a frame can be built that no header can hold; the checks of
  \<open>encode_frame\<close> are what keeps such a frame off the wire.

  The locale \<open>delimited_codec\<close> is the contract between the frame layer and the stream layer: an
  encoding is a non-empty body without the delimiter, then the delimiter, and the body decodes
  to what was encoded. Stream decoding is proved from the contract and reaches the frames by
  interpretation.
\<close>

subsection \<open>Constants and data\<close>

definition MAGIC :: bytes where
  "MAGIC = [0x4A, 0x4C, 0x50, 0x42]"   \<comment> \<open>the ASCII bytes \<open>JLPB\<close>\<close>

definition BRIDGE_WIRE_VERSION :: int where "BRIDGE_WIRE_VERSION = 1"
definition MAX_BRIDGE_PAYLOAD :: nat where "MAX_BRIDGE_PAYLOAD = 64 * 1024"
definition MAX_TRANSPORT_FRAME :: nat where "MAX_TRANSPORT_FRAME = 4096"

text \<open>The sizes of \<^verbatim>\<open>struct\<close> formats \<^verbatim>\<open><4sBBIHHH\<close> and \<^verbatim>\<open><4sBBIHHHI\<close>.\<close>

definition HEADER_WITHOUT_CRC_size :: nat where "HEADER_WITHOUT_CRC_size = 16"
definition HEADER_size :: nat where "HEADER_size = 20"

definition MAX_SEGMENT_PAYLOAD :: nat where
  "MAX_SEGMENT_PAYLOAD = MAX_TRANSPORT_FRAME - HEADER_size"

definition MAX_COBS_FRAME :: nat where
  "MAX_COBS_FRAME = MAX_TRANSPORT_FRAME + MAX_TRANSPORT_FRAME div 254 + 2"

lemmas wire_constants = BRIDGE_WIRE_VERSION_def MAX_BRIDGE_PAYLOAD_def MAX_TRANSPORT_FRAME_def
  HEADER_WITHOUT_CRC_size_def HEADER_size_def MAX_SEGMENT_PAYLOAD_def MAX_COBS_FRAME_def

datatype message_type = REQUEST | RESPONSE | ERROR

fun message_code :: "message_type \<Rightarrow> nat" where
  "message_code REQUEST = 1"
| "message_code RESPONSE = 2"
| "message_code ERROR = 3"

definition message_of_code :: "nat \<Rightarrow> message_type option" where
  "message_of_code n = (if n = 1 then Some REQUEST else if n = 2 then Some RESPONSE
                        else if n = 3 then Some ERROR else None)"

record wire_frame =
  frame_type :: message_type
  frame_request_id :: int
  segment_index :: int
  segment_count :: int
  frame_payload :: bytes
  frame_version :: int

datatype wire_error =
    CobsError cobs_error
  | EncodeVersion                  \<comment> \<open>unsupported bridge wire version (encoder)\<close>
  | RequestIdOutsideUint32
  | EncodeSegment                  \<comment> \<open>invalid segment index/count (encoder)\<close>
  | SegmentTooLarge
  | DecodedFrameTooLarge
  | EncodedFrameTooLarge
  | FrameShorterThanHeader
  | MagicMismatch
  | DecodeVersion nat
  | PayloadLengthMismatch
  | DecodeSegment
  | CrcMismatch "32 word" "32 word"
  | UnknownMessageType nat
  | MessageTooLarge
  | PartialCobsFrame
  | NoCompleteFrames
  | SegmentCountMismatch nat int
  | StaleOrOutOfOrder
  | AssembledTooLarge

datatype wire_class = BridgeWireError | BridgeCrcError | BridgeSequenceError

fun wire_error_class :: "wire_error \<Rightarrow> wire_class" where
  "wire_error_class (CrcMismatch _ _) = BridgeCrcError"
| "wire_error_class EncodeSegment = BridgeSequenceError"
| "wire_error_class DecodeSegment = BridgeSequenceError"
| "wire_error_class NoCompleteFrames = BridgeSequenceError"
| "wire_error_class (SegmentCountMismatch _ _) = BridgeSequenceError"
| "wire_error_class StaleOrOutOfOrder = BridgeSequenceError"
| "wire_error_class AssembledTooLarge = BridgeSequenceError"
| "wire_error_class _ = BridgeWireError"

subsection \<open>One frame\<close>

definition pack_prefix :: "wire_frame \<Rightarrow> bytes" where
  "pack_prefix f =
     MAGIC @ le_bytes 1 (nat (frame_version f)) @ le_bytes 1 (message_code (frame_type f))
     @ le_bytes 4 (nat (frame_request_id f)) @ le_bytes 2 (nat (segment_index f))
     @ le_bytes 2 (nat (segment_count f)) @ le_bytes 2 (length (frame_payload f))"

definition pack_frame :: "wire_frame \<Rightarrow> bytes" where
  "pack_frame f =
     (let prefix = pack_prefix f; crc = crc32 (prefix @ frame_payload f)
      in prefix @ le_bytes 4 (unat crc) @ frame_payload f)"

definition encode_frame :: "wire_frame \<Rightarrow> wire_error + bytes" where
  "encode_frame f =
     (if frame_version f \<noteq> BRIDGE_WIRE_VERSION then Inl EncodeVersion
      else if \<not> (0 \<le> frame_request_id f \<and> frame_request_id f \<le> 0xFFFFFFFF)
        then Inl RequestIdOutsideUint32
      else if \<not> (0 \<le> segment_index f \<and> segment_index f < segment_count f
                 \<and> segment_count f \<le> 0xFFFF) then Inl EncodeSegment
      else if length (frame_payload f) > MAX_SEGMENT_PAYLOAD then Inl SegmentTooLarge
      else
        let decoded = pack_frame f in
        if length decoded > MAX_TRANSPORT_FRAME then Inl DecodedFrameTooLarge
        else Inr (cobs_encode decoded @ [0]))"

definition parse_frame :: "bytes \<Rightarrow> wire_error + wire_frame" where
  "parse_frame decoded =
     (if length decoded < HEADER_size then Inl FrameShorterThanHeader
      else
        let magic = pyslice decoded 0 4;
            version = le_nat (pyslice decoded 4 5);
            message_type = le_nat (pyslice decoded 5 6);
            request_id = le_nat (pyslice decoded 6 10);
            segment_index = le_nat (pyslice decoded 10 12);
            segment_count = le_nat (pyslice decoded 12 14);
            payload_length = le_nat (pyslice decoded 14 16);
            expected_crc = (word_of_nat (le_nat (pyslice decoded 16 20)) :: 32 word)
        in
        if magic \<noteq> MAGIC then Inl MagicMismatch
        else if int version \<noteq> BRIDGE_WIRE_VERSION then Inl (DecodeVersion version)
        else if length decoded \<noteq> HEADER_size + payload_length then Inl PayloadLengthMismatch
        else if \<not> segment_index < segment_count then Inl DecodeSegment
        else
          let payload = drop HEADER_size decoded;
              actual_crc = crc32 (take HEADER_WITHOUT_CRC_size decoded @ payload)
          in
          if actual_crc \<noteq> expected_crc then Inl (CrcMismatch expected_crc actual_crc)
          else case message_of_code message_type of
              None \<Rightarrow> Inl (UnknownMessageType message_type)
            | Some kind \<Rightarrow> Inr \<lparr> frame_type = kind, frame_request_id = int request_id,
                segment_index = int segment_index, segment_count = int segment_count,
                frame_payload = payload, frame_version = int version \<rparr>)"

definition strip_delimiter :: "bytes \<Rightarrow> bytes" where
  "strip_delimiter encoded =
     (if encoded \<noteq> [] \<and> last encoded = 0 then butlast encoded else encoded)"

definition decode_frame :: "bytes \<Rightarrow> wire_error + wire_frame" where
  "decode_frame encoded0 =
     (let encoded = strip_delimiter encoded0 in
      if length encoded > MAX_COBS_FRAME then Inl EncodedFrameTooLarge
      else rbind (rcatch (cobs_decode encoded) CobsError) parse_frame)"

subsection \<open>Messages and streams\<close>

definition message_chunks :: "bytes \<Rightarrow> bytes list" where
  "message_chunks payload =
     (case blocks MAX_SEGMENT_PAYLOAD payload of [] \<Rightarrow> [[]] | c # cs \<Rightarrow> c # cs)"

definition message_frames :: "bytes \<Rightarrow> message_type \<Rightarrow> int \<Rightarrow> wire_frame list" where
  "message_frames payload mt rid =
     (let chunks = message_chunks payload in
      map (\<lambda>(index, chunk). \<lparr> frame_type = mt, frame_request_id = rid,
             segment_index = int index, segment_count = int (length chunks),
             frame_payload = chunk, frame_version = BRIDGE_WIRE_VERSION \<rparr>)
        (enumerate 0 chunks))"

definition encode_message :: "bytes \<Rightarrow> message_type \<Rightarrow> int \<Rightarrow> wire_error + bytes" where
  "encode_message payload mt rid =
     (if length payload > MAX_BRIDGE_PAYLOAD then Inl MessageTooLarge
      else rmap concat (traverse encode_frame (message_frames payload mt rid)))"

definition decode_stream :: "bytes \<Rightarrow> wire_error + wire_frame list" where
  "decode_stream data =
     (if data \<noteq> [] \<and> last data \<noteq> 0 then Inl PartialCobsFrame
      else traverse decode_frame (filter (\<lambda>part. part \<noteq> []) (split_on 0 data)))"

definition frame_matches :: "int \<Rightarrow> message_type \<Rightarrow> int \<Rightarrow> nat \<Rightarrow> wire_frame \<Rightarrow> bool" where
  "frame_matches rid mt count index f \<longleftrightarrow>
     \<not> (frame_request_id f \<noteq> rid \<or> frame_type f \<noteq> mt \<or> segment_count f \<noteq> count
        \<or> segment_index f \<noteq> int index)"

definition reassemble_frames ::
    "wire_frame list \<Rightarrow> int option \<Rightarrow> message_type option \<Rightarrow> wire_error + bytes" where
  "reassemble_frames frames request_id message_type =
     (case frames of
        [] \<Rightarrow> Inl NoCompleteFrames
      | first # _ \<Rightarrow>
        let expected_request = (case request_id of None \<Rightarrow> frame_request_id first | Some r \<Rightarrow> r);
            expected_type = (case message_type of None \<Rightarrow> frame_type first | Some t \<Rightarrow> t);
            count = segment_count first
        in
        if int (length frames) \<noteq> count then Inl (SegmentCountMismatch (length frames) count)
        else if \<not> list_all (\<lambda>(index, f). frame_matches expected_request expected_type count index f)
                   (enumerate 0 frames) then Inl StaleOrOutOfOrder
        else
          let payload = concat (map frame_payload frames) in
          if length payload > MAX_BRIDGE_PAYLOAD then Inl AssembledTooLarge else Inr payload)"

subsection \<open>Frames that the encoder accepts\<close>

definition frame_ok :: "wire_frame \<Rightarrow> bool" where
  "frame_ok f \<longleftrightarrow> frame_version f = 1 \<and> 0 \<le> frame_request_id f \<and> frame_request_id f < 2 ^ 32
     \<and> 0 \<le> segment_index f \<and> segment_index f < segment_count f \<and> segment_count f < 2 ^ 16
     \<and> length (frame_payload f) \<le> 4076"

lemma length_MAGIC [simp]: "length MAGIC = 4"
  by (simp add: MAGIC_def)

lemma length_pack_prefix [simp]: "length (pack_prefix f) = 16"
  by (simp add: pack_prefix_def)

lemma length_pack_frame: "length (pack_frame f) = 20 + length (frame_payload f)"
  by (simp add: pack_frame_def Let_def)

lemma encode_frame_ok:
  "frame_ok f \<Longrightarrow> encode_frame f = Inr (cobs_encode (pack_frame f) @ [0])"
  by (auto simp: encode_frame_def frame_ok_def wire_constants Let_def length_pack_frame)

lemma encode_frame_returns: "returns (encode_frame f) \<longleftrightarrow> frame_ok f"
  by (auto simp: encode_frame_def frame_ok_def wire_constants Let_def length_pack_frame)

lemma encode_frame_Inr:
  "encode_frame f = Inr bs \<longleftrightarrow> frame_ok f \<and> bs = cobs_encode (pack_frame f) @ [0]"
  using encode_frame_ok [of f] encode_frame_returns [of f] by (auto simp: returns_iff)

lemma message_of_code_code [simp]: "message_of_code (message_code t) = Some t"
  by (cases t) (simp_all add: message_of_code_def)

lemma message_code_small: "message_code t < 256"
  by (cases t) simp_all

lemma message_of_code_Some: "message_of_code n = Some t \<Longrightarrow> message_code t = n"
  by (auto simp: message_of_code_def split: if_splits)

subsection \<open>Reading back a packed header\<close>

text \<open>The fields of a header at their offsets, for any field values of the right widths.\<close>

lemma header_fields:
  assumes "length v = 1" "length t = 1" "length r = 4" "length i = 2" "length c = 2"
    "length l = 2" "length k = 4"
    and "raw = MAGIC @ v @ t @ r @ i @ c @ l @ k @ p"
  shows "pyslice raw 0 4 = MAGIC" "pyslice raw 4 5 = v" "pyslice raw 5 6 = t"
    "pyslice raw 6 10 = r" "pyslice raw 10 12 = i" "pyslice raw 12 14 = c"
    "pyslice raw 14 16 = l" "pyslice raw 16 20 = k" "drop 20 raw = p"
    "take 16 raw = MAGIC @ v @ t @ r @ i @ c @ l" "length raw = 20 + length p"
  using assms by (simp_all add: pyslice_def)

lemma word32_of_le_bytes: "(word_of_nat (le_nat (le_bytes 4 (unat c))) :: 32 word) = c"
  using unsigned_less [of c, where ?'a = nat] by simp

lemma parse_pack_frame:
  assumes "frame_version f = 1" "0 \<le> frame_request_id f" "frame_request_id f < 2 ^ 32"
    "0 \<le> segment_index f" "segment_index f < segment_count f" "segment_count f < 2 ^ 16"
    "length (frame_payload f) < 2 ^ 16"
  shows "parse_frame (pack_frame f) = Inr f"
proof -
  let ?crc = "crc32 (pack_prefix f @ frame_payload f)"
  have raw: "pack_frame f = MAGIC @ le_bytes 1 (nat (frame_version f))
      @ le_bytes 1 (message_code (frame_type f)) @ le_bytes 4 (nat (frame_request_id f))
      @ le_bytes 2 (nat (segment_index f)) @ le_bytes 2 (nat (segment_count f))
      @ le_bytes 2 (length (frame_payload f)) @ le_bytes 4 (unat ?crc) @ frame_payload f"
    by (simp add: pack_frame_def pack_prefix_def Let_def)
  have pre: "MAGIC @ le_bytes 1 (nat (frame_version f))
      @ le_bytes 1 (message_code (frame_type f)) @ le_bytes 4 (nat (frame_request_id f))
      @ le_bytes 2 (nat (segment_index f)) @ le_bytes 2 (nat (segment_count f))
      @ le_bytes 2 (length (frame_payload f)) = pack_prefix f"
    by (simp add: pack_prefix_def)
  have vals: "le_nat (le_bytes 1 (nat (frame_version f))) = 1"
      "le_nat (le_bytes 1 (message_code (frame_type f))) = message_code (frame_type f)"
      "le_nat (le_bytes 4 (nat (frame_request_id f))) = nat (frame_request_id f)"
      "le_nat (le_bytes 2 (nat (segment_index f))) = nat (segment_index f)"
      "le_nat (le_bytes 2 (nat (segment_count f))) = nat (segment_count f)"
      "le_nat (le_bytes 2 (length (frame_payload f))) = length (frame_payload f)"
    using assms message_code_small [of "frame_type f"]
    by (simp_all add: nat_less_iff del: le_bytes.simps One_nat_def)
  note fields = header_fields [OF length_le_bytes length_le_bytes length_le_bytes length_le_bytes
      length_le_bytes length_le_bytes length_le_bytes raw]
  have tk: "take 16 (pack_frame f) = pack_prefix f"
    using fields(10) pre by (simp only:)
  show ?thesis
    unfolding parse_frame_def wire_constants
    using assms vals by (simp add: Let_def fields(1-9,11) tk word32_of_le_bytes
        unat_byte_small [OF message_code_small])
qed

text \<open>Conversely, a frame that parses is the packed form of its result.\<close>

lemma header_split:
  "raw = pyslice raw 0 4 @ pyslice raw 4 5 @ pyslice raw 5 6 @ pyslice raw 6 10
    @ pyslice raw 10 12 @ pyslice raw 12 14 @ pyslice raw 14 16 @ pyslice raw 16 20 @ drop 20 raw"
  by (simp add: pyslice_drop)

lemma word32_le_nat:
  assumes "length k = 4"
  shows "le_bytes 4 (unat (word_of_nat (le_nat k) :: 32 word)) = k"
proof -
  have "unat (word_of_nat (le_nat k) :: 32 word) = le_nat k"
    using le_nat_bound4 [OF assms] by (simp add: unat_of_nat)
  then show ?thesis using assms by (simp add: le_bytes_of_field)
qed

text \<open>The fields that \<open>parse_frame\<close> read, when it returned a frame.\<close>

lemma parse_frame_Inr:
  "parse_frame raw = Inr f \<longleftrightarrow>
     20 \<le> length raw \<and> pyslice raw 0 4 = MAGIC \<and> le_nat (pyslice raw 4 5) = 1
     \<and> length raw = 20 + le_nat (pyslice raw 14 16)
     \<and> le_nat (pyslice raw 10 12) < le_nat (pyslice raw 12 14)
     \<and> crc32 (take 16 raw @ drop 20 raw) = word_of_nat (le_nat (pyslice raw 16 20))
     \<and> (\<exists>kind. message_of_code (le_nat (pyslice raw 5 6)) = Some kind
          \<and> f = \<lparr> frame_type = kind, frame_request_id = int (le_nat (pyslice raw 6 10)),
                segment_index = int (le_nat (pyslice raw 10 12)),
                segment_count = int (le_nat (pyslice raw 12 14)),
                frame_payload = drop 20 raw, frame_version = int (le_nat (pyslice raw 4 5)) \<rparr>)"
  by (simp only: parse_frame_def Let_def wire_constants result_simps not_less not_le not_not
      sum.inject of_nat_eq_1_iff eq_commute [of f])

lemma parse_frame_sound:
  assumes ok: "parse_frame raw = Inr f"
  shows "pack_frame f = raw" and "frame_version f = 1"
    and "0 \<le> frame_request_id f \<and> frame_request_id f < 2 ^ 32"
    and "0 \<le> segment_index f \<and> segment_index f < segment_count f \<and> segment_count f < 2 ^ 16"
    and "length (frame_payload f) + 20 = length raw"
proof -
  obtain kind where kind: "message_of_code (le_nat (pyslice raw 5 6)) = Some kind"
    and f: "f = \<lparr> frame_type = kind, frame_request_id = int (le_nat (pyslice raw 6 10)),
              segment_index = int (le_nat (pyslice raw 10 12)),
              segment_count = int (le_nat (pyslice raw 12 14)),
              frame_payload = drop 20 raw, frame_version = int (le_nat (pyslice raw 4 5)) \<rparr>"
    and hdr: "20 \<le> length raw" "pyslice raw 0 4 = MAGIC" "le_nat (pyslice raw 4 5) = 1"
      "length raw = 20 + le_nat (pyslice raw 14 16)"
      "le_nat (pyslice raw 10 12) < le_nat (pyslice raw 12 14)"
      "crc32 (take 16 raw @ drop 20 raw) = word_of_nat (le_nat (pyslice raw 16 20))"
    using ok unfolding parse_frame_Inr by (elim conjE exE) rule
  have len: "length (pyslice raw 4 5) = 1" "length (pyslice raw 5 6) = 1"
      "length (pyslice raw 6 10) = 4" "length (pyslice raw 10 12) = 2"
      "length (pyslice raw 12 14) = 2" "length (pyslice raw 14 16) = 2"
      "length (pyslice raw 16 20) = 4"
    using hdr(1) by (simp_all add: length_pyslice)
  have take16: "MAGIC @ pyslice raw 4 5 @ pyslice raw 5 6 @ pyslice raw 6 10
      @ pyslice raw 10 12 @ pyslice raw 12 14 @ pyslice raw 14 16 = take 16 raw"
    unfolding hdr(2) [symmetric] by (simp add: pyslice_join) (simp add: pyslice_from_0)
  have prefix: "pack_prefix f = take 16 raw"
    unfolding take16 [symmetric] pack_prefix_def
    using message_of_code_Some [OF kind] hdr(4) le_bytes_of_field [OF len(1)]
      le_bytes_of_field [OF len(2)] le_bytes_of_field [OF len(3)] le_bytes_of_field [OF len(4)]
      le_bytes_of_field [OF len(5)] le_bytes_of_field [OF len(6)]
    by (simp add: f del: le_bytes.simps One_nat_def)
  have "pack_frame f = take 16 raw @ le_bytes 4 (unat (crc32 (take 16 raw @ drop 20 raw))) @ drop 20 raw"
    by (simp add: pack_frame_def Let_def prefix) (simp add: f)
  also have "\<dots> = take 16 raw @ pyslice raw 16 20 @ drop 20 raw"
    using len(7) by (simp add: hdr(6) word32_le_nat)
  also have "\<dots> = raw" by (simp add: pyslice_drop)
  finally show "pack_frame f = raw" .
  show "frame_version f = 1" by (simp add: f hdr(3))
  show "0 \<le> frame_request_id f \<and> frame_request_id f < 2 ^ 32"
    using le_nat_bound4 [of "pyslice raw 6 10"] len(3) by (simp add: f)
  show "0 \<le> segment_index f \<and> segment_index f < segment_count f \<and> segment_count f < 2 ^ 16"
    using le_nat_bound2 [of "pyslice raw 12 14"] len(5) hdr(5) by (simp add: f)
  show "length (frame_payload f) + 20 = length raw" using hdr(1) by (simp add: f)
qed

subsection \<open>The contract of a delimited codec\<close>

locale delimited_codec =
  fixes enc :: "'a \<Rightarrow> 'e + 'b list" and dec :: "'b list \<Rightarrow> 'e + 'a" and delim :: 'b
  assumes enc_shape:
    "enc x = Inr bs \<Longrightarrow> \<exists>body. bs = body @ [delim] \<and> body \<noteq> [] \<and> delim \<notin> set body \<and> dec body = Inr x"
begin

lemma encodings_end: "traverse enc xs = Inr bss \<Longrightarrow> concat bss = [] \<or> last (concat bss) = delim"
proof (induction xs arbitrary: bss)
  case Nil
  then show ?case by simp
next
  case (Cons x xs)
  then obtain bs bss' where b: "enc x = Inr bs" "traverse enc xs = Inr bss'" "bss = bs # bss'"
    by (auto simp: rbind_eq_Inr)
  from enc_shape [OF b(1)] obtain body where "bs = body @ [delim]" by blast
  then show ?case using Cons.IH [OF b(2)] b(3) by auto
qed

lemma parts_decode:
  "traverse enc xs = Inr bss \<Longrightarrow>
   traverse dec (filter (\<lambda>part. part \<noteq> []) (split_on delim (concat bss))) = Inr xs"
proof (induction xs arbitrary: bss)
  case Nil
  then show ?case by simp
next
  case (Cons x xs)
  then obtain bs bss' where b: "enc x = Inr bs" "traverse enc xs = Inr bss'" "bss = bs # bss'"
    by (auto simp: rbind_eq_Inr)
  from enc_shape [OF b(1)] obtain body where
    body: "bs = body @ [delim]" "body \<noteq> []" "delim \<notin> set body" "dec body = Inr x" by blast
  have "split_on delim (concat bss) = body # split_on delim (concat bss')"
    using split_on_append [OF body(3)] b(3) body(1) by simp
  then show ?case using Cons.IH [OF b(2)] body by simp
qed

end

subsection \<open>Frames are a delimited codec\<close>

lemma strip_delimiter_snoc [simp]: "strip_delimiter (body @ [0]) = body"
  by (simp add: strip_delimiter_def)

lemma strip_delimiter_free [simp]: "0 \<notin> set body \<Longrightarrow> strip_delimiter body = body"
  by (metis last_in_set strip_delimiter_def)

lemma encoded_frame_fits: "frame_ok f \<Longrightarrow> length (cobs_encode (pack_frame f)) \<le> MAX_COBS_FRAME"
proof -
  assume "frame_ok f"
  then have len: "length (pack_frame f) \<le> 4096"
    by (simp add: length_pack_frame frame_ok_def)
  then have "length (pack_frame f) div 254 \<le> 4096 div 254" by (rule div_le_mono)
  then show ?thesis
    using len cobs_encode_length [of "pack_frame f"] by (simp add: wire_constants)
qed

lemma parse_frame_pack: "frame_ok f \<Longrightarrow> parse_frame (pack_frame f) = Inr f"
  by (rule parse_pack_frame) (auto simp: frame_ok_def)

lemma decode_frame_body:
  "frame_ok f \<Longrightarrow> decode_frame (cobs_encode (pack_frame f)) = Inr f"
  using encoded_frame_fits [of f]
  by (simp add: decode_frame_def Let_def cobs_encode_zero_free cobs_decode_encode parse_frame_pack
      not_less)

lemma decode_frame_delimited:
  "frame_ok f \<Longrightarrow> decode_frame (cobs_encode (pack_frame f) @ [0]) = Inr f"
  using decode_frame_body [of f] by (simp add: decode_frame_def cobs_encode_zero_free)

interpretation frames: delimited_codec encode_frame decode_frame 0
  by unfold_locales
    (auto simp: encode_frame_Inr decode_frame_body cobs_encode_zero_free cobs_encode_ne)

subsection \<open>Messages\<close>

lemma message_chunks_ne [simp]: "message_chunks payload \<noteq> []"
  by (simp add: message_chunks_def split: list.splits)

lemma concat_message_chunks [simp]: "concat (message_chunks payload) = payload"
  using concat_blocks [of MAX_SEGMENT_PAYLOAD payload]
  by (auto simp: message_chunks_def wire_constants split: list.splits)

lemma message_chunks_bound: "c \<in> set (message_chunks payload) \<Longrightarrow> length c \<le> 4076"
  using blocks_bound [of c MAX_SEGMENT_PAYLOAD payload]
  by (auto simp: message_chunks_def wire_constants split: list.splits)

lemma length_message_chunks:
  "length (message_chunks payload) = Suc ((length payload - 1) div 4076)"
  using length_blocks [of MAX_SEGMENT_PAYLOAD payload]
  by (cases "payload = []") (auto simp: message_chunks_def wire_constants split: list.splits)

lemma message_chunks_count:
  assumes "length payload \<le> MAX_BRIDGE_PAYLOAD"
  shows "length (message_chunks payload) \<le> 17"
proof -
  have "(length payload - 1) div 4076 \<le> 65535 div 4076"
    using assms by (intro div_le_mono) (simp add: wire_constants)
  then show ?thesis by (simp add: length_message_chunks)
qed

lemma length_message_frames [simp]:
  "length (message_frames payload mt rid) = length (message_chunks payload)"
  by (simp add: message_frames_def Let_def)

lemma message_frames_nth:
  assumes "i < length (message_chunks payload)"
  shows "message_frames payload mt rid ! i = \<lparr> frame_type = mt, frame_request_id = rid,
    segment_index = int i, segment_count = int (length (message_chunks payload)),
    frame_payload = message_chunks payload ! i, frame_version = 1 \<rparr>"
  using assms by (simp add: message_frames_def Let_def nth_enumerate_eq wire_constants)

lemma message_frames_payloads: "map frame_payload (message_frames payload mt rid) = message_chunks payload"
  by (rule nth_equalityI) (simp_all add: message_frames_nth)

lemma message_frames_ok:
  assumes "length payload \<le> MAX_BRIDGE_PAYLOAD" "0 \<le> rid" "rid < 2 ^ 32"
    and "f \<in> set (message_frames payload mt rid)"
  shows "frame_ok f"
proof -
  from assms(4) obtain i where i: "i < length (message_chunks payload)"
    and f: "f = message_frames payload mt rid ! i"
    by (auto simp: in_set_conv_nth)
  then show ?thesis
    using assms message_chunks_count [of payload] message_chunks_bound [OF nth_mem [OF i]]
    by (simp add: message_frames_nth frame_ok_def)
qed

lemma reassemble_message:
  assumes "length payload \<le> MAX_BRIDGE_PAYLOAD"
  shows "reassemble_frames (message_frames payload mt rid) (Some rid) (Some mt) = Inr payload"
proof -
  let ?fs = "message_frames payload mt rid"
  have ne: "0 < length (message_chunks payload)" by simp
  then obtain first rest where fs: "?fs = first # rest"
    by (metis length_message_frames length_greater_0_conv neq_Nil_conv)
  have first: "segment_count first = int (length (message_chunks payload))"
    using message_frames_nth [OF ne, of mt rid] fs by simp
  have all: "list_all (\<lambda>(index, f). frame_matches rid mt (segment_count first) index f)
      (enumerate 0 ?fs)"
    unfolding first
    by (auto simp: list_all_length nth_enumerate_eq message_frames_nth frame_matches_def)
  have cat: "concat (map frame_payload ?fs) = payload" by (simp add: message_frames_payloads)
  have len: "int (length ?fs) = segment_count first" by (simp add: first)
  show ?thesis
    using all cat len assms unfolding reassemble_frames_def fs list.case option.case Let_def
    by (simp only: simp_thms if_False not_less [symmetric])
qed

lemma encode_message_frames:
  assumes "length payload \<le> MAX_BRIDGE_PAYLOAD" "0 \<le> rid" "rid < 2 ^ 32"
  shows "\<exists>bss. traverse encode_frame (message_frames payload mt rid) = Inr bss
    \<and> encode_message payload mt rid = Inr (concat bss)"
proof -
  have "traverse encode_frame (message_frames payload mt rid) =
      Inr (map (\<lambda>f. cobs_encode (pack_frame f) @ [0]) (message_frames payload mt rid))"
    using message_frames_ok [OF assms] by (intro traverse_map_Inr encode_frame_ok)
  then show ?thesis using assms by (simp add: encode_message_def)
qed

lemma decode_stream_frames:
  "traverse encode_frame fs = Inr bss \<Longrightarrow> decode_stream (concat bss) = Inr fs"
  using frames.encodings_end [of fs bss] frames.parts_decode [of fs bss]
  by (auto simp: decode_stream_def)

end
