(* ===== verification/Tlv.thy ===== *)
theory Tlv
  imports Frames
begin

text \<open>
  Typed fields of a message body: \<open>encode_tlvs\<close> and \<open>decode_tlvs\<close> of \<^verbatim>\<open>wire.py\<close>. A body is a
  sequence of fields, each a 16-bit kind, a 16-bit length and the value. The encoder takes
  Python integers as kinds, checks duplicates before bounds, and checks the size of the body
  last; the decoder is the offset loop of the code.
\<close>

datatype tlv_error =
    DuplicateTlv int
  | TlvOutsideUint16
  | TlvBodyTooLarge
  | TruncatedTlvHeader
  | TruncatedTlvValue
  | UnknownTlv nat

fun encode_tlvs_loop ::
    "(int \<times> bytes) list \<Rightarrow> int set \<Rightarrow> bytes \<Rightarrow> tlv_error + bytes" where
  "encode_tlvs_loop [] seen out = Inr out"
| "encode_tlvs_loop ((kind, value) # items) seen out =
     (if kind \<in> seen then Inl (DuplicateTlv kind)
      else if \<not> (0 \<le> kind \<and> kind \<le> 0xFFFF) \<or> length value > 0xFFFF then Inl TlvOutsideUint16
      else encode_tlvs_loop items (insert kind seen)
             (out @ le_bytes 2 (nat kind) @ le_bytes 2 (length value) @ value))"

definition encode_tlvs :: "(int \<times> bytes) list \<Rightarrow> tlv_error + bytes" where
  "encode_tlvs items =
     rbind (encode_tlvs_loop items {} [])
       (\<lambda>out. if length out > MAX_BRIDGE_PAYLOAD then Inl TlvBodyTooLarge else Inr out)"

definition TLV_size :: nat where "TLV_size = 4"

text \<open>\<open>allowed\<close> is the optional set of kinds; without it every kind is taken.\<close>

definition tlv_allowed :: "nat set option \<Rightarrow> nat \<Rightarrow> bool" where
  "tlv_allowed allowed kind = (case allowed of None \<Rightarrow> True | Some kinds \<Rightarrow> kind \<in> kinds)"

function decode_tlvs_loop ::
    "bytes \<Rightarrow> nat set option \<Rightarrow> nat \<Rightarrow> (nat, bytes) dict \<Rightarrow> tlv_error + (nat, bytes) dict" where
  "decode_tlvs_loop payload allowed offset result =
     (if offset < length payload then
        if length payload - offset < TLV_size then Inl TruncatedTlvHeader
        else
          let kind = le_nat (pyslice payload offset (offset + 2));
              len = le_nat (pyslice payload (offset + 2) (offset + 4));
              start = offset + TLV_size;
              stop = start + len
          in
          if stop > length payload then Inl TruncatedTlvValue
          else if dict_has result kind then Inl (DuplicateTlv (int kind))
          else if \<not> tlv_allowed allowed kind then Inl (UnknownTlv kind)
          else decode_tlvs_loop payload allowed stop (dict_set result kind (pyslice payload start stop))
      else Inr result)"
  by pat_completeness auto
termination
  by (relation "measure (\<lambda>(payload, allowed, offset, result). length payload - offset)")
    (auto simp: TLV_size_def)

declare decode_tlvs_loop.simps [simp del]

definition decode_tlvs :: "bytes \<Rightarrow> nat set option \<Rightarrow> tlv_error + (nat, bytes) dict" where
  "decode_tlvs payload allowed = decode_tlvs_loop payload allowed 0 []"

subsection \<open>The bytes of a field list\<close>

definition tlv_bytes :: "nat \<times> bytes \<Rightarrow> bytes" where
  "tlv_bytes p = le_bytes 2 (fst p) @ le_bytes 2 (length (snd p)) @ snd p"

definition tlv_ok :: "nat \<times> bytes \<Rightarrow> bool" where
  "tlv_ok p \<longleftrightarrow> fst p < 65536 \<and> length (snd p) < 65536"

lemma length_tlv_bytes: "length (tlv_bytes p) = 4 + length (snd p)"
  by (simp add: tlv_bytes_def)

lemma tlv_bytes_fields:
  assumes "tlv_ok (k, v)" and "payload = pre @ tlv_bytes (k, v) @ post"
  shows "le_nat (pyslice payload (length pre) (length pre + 2)) = k"
    "le_nat (pyslice payload (length pre + 2) (length pre + 4)) = length v"
    "pyslice payload (length pre + 4) (length pre + 4 + length v) = v"
    "length payload = length pre + 4 + length v + length post"
  using assms by (simp_all add: tlv_bytes_def tlv_ok_def pyslice_def)

lemma decode_tlvs_step:
  assumes "tlv_ok (k, v)" "\<not> dict_has result k" "tlv_allowed allowed k"
  shows "decode_tlvs_loop (pre @ tlv_bytes (k, v) @ post) allowed (length pre) result
    = decode_tlvs_loop ((pre @ tlv_bytes (k, v)) @ post) allowed (length (pre @ tlv_bytes (k, v)))
        (result @ [(k, v)])"
proof -
  note F = tlv_bytes_fields [OF assms(1) refl, of pre post]
  have l: "length (pre @ tlv_bytes (k, v)) = length pre + 4 + length v"
    by (simp add: length_tlv_bytes)
  have "decode_tlvs_loop (pre @ tlv_bytes (k, v) @ post) allowed (length pre) result
    = decode_tlvs_loop (pre @ tlv_bytes (k, v) @ post) allowed (length pre + 4 + length v)
        (result @ [(k, v)])"
    by (subst decode_tlvs_loop.simps)
      (use assms(2,3) F(4) in \<open>simp add: Let_def TLV_size_def F(1-3) dict_set_new del: add_2_eq_Suc'\<close>)
  then show ?thesis by (simp only: l append_assoc)
qed

lemma decode_tlvs_fields:
  "\<forall>p \<in> set items. tlv_ok p \<Longrightarrow> dict_ok (result @ items) \<Longrightarrow>
   \<forall>p \<in> set items. tlv_allowed allowed (fst p) \<Longrightarrow>
   decode_tlvs_loop (pre @ concat (map tlv_bytes items)) allowed (length pre) result
     = Inr (result @ items)"
proof (induction items arbitrary: pre result)
  case Nil
  then show ?case by (simp add: decode_tlvs_loop.simps)
next
  case (Cons p items)
  obtain k v where p: "p = (k, v)" by (cases p)
  have "decode_tlvs_loop (pre @ tlv_bytes (k, v) @ concat (map tlv_bytes items)) allowed (length pre) result
    = decode_tlvs_loop ((pre @ tlv_bytes (k, v)) @ concat (map tlv_bytes items)) allowed
        (length (pre @ tlv_bytes (k, v))) (result @ [(k, v)])"
    using Cons.prems by (intro decode_tlvs_step) (auto simp: p)
  also have "\<dots> = Inr ((result @ [(k, v)]) @ items)"
    using Cons.prems by (intro Cons.IH) (auto simp: p)
  finally show ?case by (simp add: p)
qed

lemma encode_tlvs_loop_Inr:
  "encode_tlvs_loop items seen out = Inr bs \<longleftrightarrow>
     (\<forall>(k, v) \<in> set items. 0 \<le> k \<and> k < 65536 \<and> length v < 65536)
     \<and> dict_ok items \<and> fst ` set items \<inter> seen = {}
     \<and> bs = out @ concat (map (\<lambda>(k, v). tlv_bytes (nat k, v)) items)"
proof (induction items seen out rule: encode_tlvs_loop.induct)
  case (1 seen out)
  then show ?case by auto
next
  case (2 kind val items seen out)
  show ?case
  proof (cases "kind \<in> seen \<or> \<not> (0 \<le> kind \<and> kind \<le> 0xFFFF) \<or> length val > 0xFFFF")
    case True
    then show ?thesis by auto
  next
    case False
    then show ?thesis using 2 by (auto simp: tlv_bytes_def)
  qed
qed

text \<open>A field list the encoder accepts: distinct 16-bit kinds, values and body in bounds.\<close>

definition tlvs_ok :: "(nat, bytes) dict \<Rightarrow> bool" where
  "tlvs_ok d \<longleftrightarrow> (\<forall>p \<in> set d. tlv_ok p) \<and> dict_ok d
     \<and> length (concat (map tlv_bytes d)) \<le> MAX_BRIDGE_PAYLOAD"

definition int_keys :: "(nat, bytes) dict \<Rightarrow> (int \<times> bytes) list" where
  "int_keys d = map (\<lambda>(k, v). (int k, v)) d"

lemma encode_tlvs_int_keys:
  "encode_tlvs (int_keys d) = Inr bs \<longleftrightarrow> tlvs_ok d \<and> bs = concat (map tlv_bytes d)"
proof -
  have m: "map (\<lambda>(k, v). tlv_bytes (nat k, v)) (int_keys d) = map tlv_bytes d"
    by (auto simp: int_keys_def)
  have k: "dict_ok (int_keys d) \<longleftrightarrow> dict_ok d"
    by (auto simp: int_keys_def comp_def case_prod_beta distinct_map inj_on_def)
  have r: "(\<forall>(k, v) \<in> set (int_keys d). 0 \<le> k \<and> k < 65536 \<and> length v < 65536)
      \<longleftrightarrow> (\<forall>p \<in> set d. tlv_ok p)"
    by (auto simp: int_keys_def tlv_ok_def)
  show ?thesis
    by (auto simp: encode_tlvs_def rbind_eq_Inr encode_tlvs_loop_Inr m k r tlvs_ok_def not_less)
qed

lemma encode_tlvs_Inr:
  "encode_tlvs items = Inr bs \<longleftrightarrow>
     (\<exists>d. items = int_keys d \<and> tlvs_ok d \<and> bs = concat (map tlv_bytes d))"
proof
  assume ok: "encode_tlvs items = Inr bs"
  then have nn: "\<forall>(k, v) \<in> set items. 0 \<le> k"
    by (auto simp: encode_tlvs_def rbind_eq_Inr encode_tlvs_loop_Inr)
  define d where "d = map (\<lambda>(k, v). (nat k, v)) items"
  have "items = int_keys d"
    unfolding d_def int_keys_def using nn by (induction items) auto
  then show "\<exists>d. items = int_keys d \<and> tlvs_ok d \<and> bs = concat (map tlv_bytes d)"
    using ok encode_tlvs_int_keys by blast
qed (use encode_tlvs_int_keys in blast)

subsection \<open>What the decoder accepts\<close>

lemma decode_tlvs_loop_Inr:
  assumes "offset < length payload"
  defines "kind \<equiv> le_nat (pyslice payload offset (offset + 2))"
    and "stop \<equiv> offset + 4 + le_nat (pyslice payload (offset + 2) (offset + 4))"
  shows "decode_tlvs_loop payload allowed offset result = Inr d \<longleftrightarrow>
    4 \<le> length payload - offset \<and> stop \<le> length payload \<and> \<not> dict_has result kind
    \<and> tlv_allowed allowed kind
    \<and> decode_tlvs_loop payload allowed stop (dict_set result kind (pyslice payload (offset + 4) stop)) = Inr d"
  unfolding kind_def stop_def
  by (subst decode_tlvs_loop.simps)
    (simp only: assms(1) if_True Let_def TLV_size_def result_simps not_less not_not)

lemma decode_tlvs_loop_sound:
  "decode_tlvs_loop payload allowed offset result = Inr d \<Longrightarrow> offset \<le> length payload \<Longrightarrow>
   dict_ok result \<Longrightarrow>
   \<exists>items. d = result @ items \<and> dict_ok d \<and> (\<forall>p \<in> set items. tlv_ok p)
     \<and> (\<forall>p \<in> set items. tlv_allowed allowed (fst p))
     \<and> drop offset payload = concat (map tlv_bytes items)"
proof (induction "length payload - offset" arbitrary: offset result rule: less_induct)
  case less
  show ?case
  proof (cases "offset < length payload")
    case False
    then show ?thesis using less.prems by (simp add: decode_tlvs_loop.simps [of payload])
  next
    case True
    define kind where "kind = le_nat (pyslice payload offset (offset + 2))"
    define len where "len = le_nat (pyslice payload (offset + 2) (offset + 4))"
    define stop where "stop = offset + 4 + len"
    define v where "v = pyslice payload (offset + 4) stop"
    have ok: "4 \<le> length payload - offset" "stop \<le> length payload" "\<not> dict_has result kind"
        "tlv_allowed allowed kind"
        "decode_tlvs_loop payload allowed stop (dict_set result kind v) = Inr d"
      using less.prems(1) unfolding decode_tlvs_loop_Inr [OF True] kind_def len_def stop_def v_def
      by blast+
    have shorter: "length payload - stop < length payload - offset"
      using True by (simp add: stop_def)
    have "\<exists>items. d = dict_set result kind v @ items \<and> dict_ok d \<and> (\<forall>p \<in> set items. tlv_ok p)
        \<and> (\<forall>p \<in> set items. tlv_allowed allowed (fst p))
        \<and> drop stop payload = concat (map tlv_bytes items)"
      by (rule less.hyps [OF shorter ok(5,2)]) (simp add: less.prems(3))
    then obtain items where items: "d = result @ (kind, v) # items" "dict_ok d"
        "\<forall>p \<in> set items. tlv_ok p" "\<forall>p \<in> set items. tlv_allowed allowed (fst p)"
        "drop stop payload = concat (map tlv_bytes items)"
      unfolding dict_set_new [OF ok(3)] append_assoc append_Cons append_Nil by blast
    have l2: "length (pyslice payload offset (offset + 2)) = 2"
        "length (pyslice payload (offset + 2) (offset + 4)) = 2"
      using ok(1) by (simp_all add: length_pyslice)
    have lv: "length v = len" using ok(2) by (simp add: v_def length_pyslice stop_def)
    have bounds: "kind < 65536" "len < 65536"
      using le_nat_bound2 [OF l2(1)] le_nat_bound2 [OF l2(2)] by (simp_all add: kind_def len_def)
    have "tlv_bytes (kind, v) = pyslice payload offset (offset + 2)
        @ pyslice payload (offset + 2) (offset + 4) @ v"
      using le_bytes_of_field [OF l2(1)] le_bytes_of_field [OF l2(2)]
      by (simp add: tlv_bytes_def lv kind_def len_def)
    then have "tlv_bytes (kind, v) @ drop stop payload = drop offset payload"
      by (simp add: v_def pyslice_drop stop_def)
    then show ?thesis
      using items bounds ok(4) lv by (intro exI [of _ "(kind, v) # items"]) (auto simp: tlv_ok_def)
  qed
qed

lemma decode_tlvs_sound:
  "decode_tlvs payload allowed = Inr d \<Longrightarrow>
   dict_ok d \<and> (\<forall>p \<in> set d. tlv_ok p) \<and> (\<forall>p \<in> set d. tlv_allowed allowed (fst p))
   \<and> payload = concat (map tlv_bytes d)"
  using decode_tlvs_loop_sound [of payload allowed 0 "[]" d] by (auto simp: decode_tlvs_def)

lemma decode_tlvs_complete:
  "\<forall>p \<in> set d. tlv_ok p \<Longrightarrow> dict_ok d \<Longrightarrow> \<forall>p \<in> set d. tlv_allowed allowed (fst p) \<Longrightarrow>
   decode_tlvs (concat (map tlv_bytes d)) allowed = Inr d"
  using decode_tlvs_fields [of d "[]" allowed "[]"] by (simp add: decode_tlvs_def)

end
