(* ===== verification/Wire.thy ===== *)
theory Wire
  imports Tlv
begin

text \<open>
  The guarantees of the wire layer, over the definitions of \<open>Cobs\<close>, \<open>Frames\<close> and \<open>Tlv\<close>:
  what is sent is what arrives, what is accepted is what an encoder could have sent, and
  corruption, loss, duplication and reordering are refused.
\<close>

subsection \<open>Stuffing\<close>

text \<open>COBS encoding is inverted by decoding, never contains the delimiter and is never empty,
  and costs at most one byte plus one per 254 bytes.\<close>

theorem cobs_roundtrip:
  "cobs_decode (cobs_encode data) = Inr data \<and> 0 \<notin> set (cobs_encode data)
   \<and> cobs_encode data \<noteq> [] \<and> length (cobs_encode data) \<le> length data + 1 + length data div 254"
  using cobs_decode_encode cobs_encode_zero_free cobs_encode_ne cobs_encode_length by blast

subsection \<open>Frames\<close>

text \<open>\<open>encode_frame\<close> accepts exactly the frames whose fields fit the header, and decoding what it
  emits gives the frame back; the emitted bytes end with the only delimiter and fit the decoder's
  size limit.\<close>

theorem frame_roundtrip:
  "(returns (encode_frame f) \<longleftrightarrow> frame_ok f)
   \<and> (\<forall>bs. encode_frame f = Inr bs \<longrightarrow>
        decode_frame bs = Inr f \<and> (\<exists>body. bs = body @ [0] \<and> 0 \<notin> set body \<and> length body \<le> MAX_COBS_FRAME))"
  using encoded_frame_fits [of f]
  by (auto simp: encode_frame_returns encode_frame_Inr decode_frame_delimited cobs_encode_zero_free)

theorem frame_roundtrip_witness:
  "\<exists>bs. encode_frame \<lparr> frame_type = REQUEST, frame_request_id = 7, segment_index = 0,
      segment_count = 1, frame_payload = [0, 255], frame_version = 1 \<rparr> = Inr bs
    \<and> decode_frame bs = Inr \<lparr> frame_type = REQUEST, frame_request_id = 7, segment_index = 0,
      segment_count = 1, frame_payload = [0, 255], frame_version = 1 \<rparr>"
proof -
  let ?f = "\<lparr> frame_type = REQUEST, frame_request_id = 7, segment_index = 0,
      segment_count = 1, frame_payload = [0, 255], frame_version = 1 \<rparr>"
  have "frame_ok ?f" by (simp add: frame_ok_def)
  then obtain bs where bs: "encode_frame ?f = Inr bs"
    using frame_roundtrip [of ?f] by (auto simp: returns_iff)
  then have "decode_frame bs = Inr ?f" using frame_roundtrip [of ?f] by blast
  with bs show ?thesis by blast
qed

text \<open>A frame that \<open>decode_frame\<close> accepts is exactly the frame its bytes spell: the unstuffed
  bytes are the packed header, CRC and payload of the result, the fields are in range, and unless
  it is longer than the transport frame the encoder emits it again.\<close>

theorem decode_frame_sound:
  assumes "decode_frame bs = Inr f"
  shows "cobs_decode (strip_delimiter bs) = Inr (pack_frame f)
    \<and> 0 \<le> segment_index f \<and> segment_index f < segment_count f
    \<and> (length (pack_frame f) \<le> MAX_TRANSPORT_FRAME \<longrightarrow>
         encode_frame f = Inr (cobs_encode (pack_frame f) @ [0]))"
proof -
  from assms obtain raw where raw: "cobs_decode (strip_delimiter bs) = Inr raw" "parse_frame raw = Inr f"
    by (auto simp: decode_frame_def Let_def result_simps)
  note P = parse_frame_sound [OF raw(2)]
  have "frame_ok f" if "length (pack_frame f) \<le> MAX_TRANSPORT_FRAME"
    using that P(2-5) by (simp add: frame_ok_def length_pack_frame wire_constants)
  then show ?thesis using raw(1) P(1,4) encode_frame_ok by auto
qed

theorem decode_frame_sound_witness:
  "cobs_decode (strip_delimiter (cobs_encode (pack_frame
      \<lparr> frame_type = ERROR, frame_request_id = 9, segment_index = 0, segment_count = 1,
        frame_payload = [], frame_version = 1 \<rparr>) @ [0]))
   = Inr (pack_frame \<lparr> frame_type = ERROR, frame_request_id = 9, segment_index = 0,
       segment_count = 1, frame_payload = [], frame_version = 1 \<rparr>)"
  by (rule decode_frame_sound [OF decode_frame_delimited, THEN conjunct1]) (simp add: frame_ok_def)

lemma parse_frame_crc_mismatch:
  assumes "20 \<le> length raw" "pyslice raw 0 4 = MAGIC" "le_nat (pyslice raw 4 5) = 1"
    "length raw = 20 + le_nat (pyslice raw 14 16)"
    "le_nat (pyslice raw 10 12) < le_nat (pyslice raw 12 14)"
    "crc32 (take 16 raw @ drop 20 raw) = got" "word_of_nat (le_nat (pyslice raw 16 20)) = want"
    "got \<noteq> want"
  shows "parse_frame raw = Inl (CrcMismatch want got)"
  using assms by (simp add: parse_frame_def wire_constants Let_def)

text \<open>Damage to at most four consecutive payload bytes of a frame on the wire is refused with the
  CRC error, whatever the frame and wherever the damage is.\<close>

theorem payload_damage_detected:
  assumes "frame_ok f" and "frame_payload f = pre @ u @ post"
    and "length w = length u" and "length u \<le> 4" and "w \<noteq> u"
  shows "\<exists>want got. decode_frame (cobs_encode (take 20 (pack_frame f) @ pre @ w @ post) @ [0])
      = Inl (CrcMismatch want got) \<and> want \<noteq> got"
proof -
  let ?g = "f\<lparr>frame_payload := pre @ w @ post\<rparr>"
  let ?raw = "take 20 (pack_frame f) @ pre @ w @ post"
  let ?crc = "crc32 (pack_prefix f @ pre @ u @ post)" and ?crc' = "crc32 (pack_prefix f @ pre @ w @ post)"
  have raw: "?raw = pack_prefix f @ le_bytes 4 (unat ?crc) @ pre @ w @ post"
    using assms(2) by (simp add: pack_frame_def Let_def)
  have ok: "frame_ok ?g" using assms(1-3) by (simp add: frame_ok_def)
  have same_prefix: "pack_prefix ?g = pack_prefix f"
    using assms(2,3) by (simp add: pack_prefix_def)
  have fields: "take 16 ?raw = pack_prefix f" "drop 20 ?raw = pre @ w @ post"
      "pyslice ?raw 16 20 = le_bytes 4 (unat ?crc)"
    unfolding raw by (simp_all add: pyslice_def)
  have prefix_of: "pyslice ?raw a b = pyslice (pack_frame ?g) a b" if "b \<le> 16" for a b
    using that unfolding raw
    by (simp add: pyslice_def pack_frame_def Let_def same_prefix take_drop)
  note same = prefix_of [of 4 0, simplified] prefix_of [of 5 4, simplified]
    prefix_of [of 12 10, simplified] prefix_of [of 14 12, simplified] prefix_of [of 16 14, simplified]
  have "parse_frame (pack_frame ?g) = Inr ?g" using ok by (rule parse_frame_pack)
  then have good: "20 \<le> length (pack_frame ?g)" "pyslice (pack_frame ?g) 0 4 = MAGIC"
      "le_nat (pyslice (pack_frame ?g) 4 5) = 1"
      "length (pack_frame ?g) = 20 + le_nat (pyslice (pack_frame ?g) 14 16)"
      "le_nat (pyslice (pack_frame ?g) 10 12) < le_nat (pyslice (pack_frame ?g) 12 14)"
    unfolding parse_frame_Inr by blast+
  have len: "length ?raw = length (pack_frame ?g)"
    unfolding raw by (simp add: length_pack_frame)
  have ne: "?crc' \<noteq> ?crc"
    using crc32_burst [of u w "pack_prefix f @ pre" post] assms(3-5) by auto
  have "parse_frame ?raw = Inl (CrcMismatch ?crc ?crc')"
  proof (rule parse_frame_crc_mismatch)
    show "crc32 (take 16 ?raw @ drop 20 ?raw) = ?crc'" by (simp only: fields append_assoc)
    show "word_of_nat (le_nat (pyslice ?raw 16 20)) = ?crc"
      by (simp only: fields word32_of_le_bytes)
  qed (use good ne in \<open>simp_all only: len same simp_thms\<close>)
  moreover have "length (cobs_encode ?raw) \<le> MAX_COBS_FRAME"
  proof -
    have "length ?raw \<le> 4096" using len ok by (simp add: length_pack_frame frame_ok_def)
    then have "length ?raw div 254 \<le> 4096 div 254" by (rule div_le_mono)
    then show ?thesis
      using \<open>length ?raw \<le> 4096\<close> cobs_encode_length [of ?raw] by (simp add: wire_constants)
  qed
  ultimately have "decode_frame (cobs_encode ?raw @ [0]) = Inl (CrcMismatch ?crc ?crc')"
    by (simp add: decode_frame_def Let_def cobs_decode_encode not_less)
  then show ?thesis using ne [symmetric] by (intro exI conjI)
qed

theorem payload_damage_detected_witness:
  "\<exists>want got. decode_frame (cobs_encode (take 20 (pack_frame
      \<lparr> frame_type = RESPONSE, frame_request_id = 1, segment_index = 0, segment_count = 1,
        frame_payload = [1, 2, 3], frame_version = 1 \<rparr>) @ [1] @ [9] @ [3]) @ [0])
    = Inl (CrcMismatch want got) \<and> want \<noteq> got"
  by (rule payload_damage_detected [of _ "[1]" "[2]" "[3]" "[9]"]) (simp_all add: frame_ok_def)

subsection \<open>Messages\<close>

text \<open>C13: Every message up to 64 KiB is delivered: the segments that \<open>encode_message\<close> emits decode as
  a stream and reassemble, under the same request id and type, to exactly the payload.\<close>

theorem message_roundtrip:
  assumes "length payload \<le> MAX_BRIDGE_PAYLOAD" and "0 \<le> rid" and "rid < 2 ^ 32"
  shows "rbind (encode_message payload mt rid) (\<lambda>bs.
           rbind (decode_stream bs) (\<lambda>frames. reassemble_frames frames (Some rid) (Some mt)))
         = Inr payload"
proof -
  obtain bss where "traverse encode_frame (message_frames payload mt rid) = Inr bss"
    and "encode_message payload mt rid = Inr (concat bss)"
    using encode_message_frames [OF assms, of mt] by blast
  then show ?thesis using reassemble_message [OF assms(1)] by (simp add: decode_stream_frames)
qed

theorem message_roundtrip_witness:
  "rbind (encode_message [1, 0, 2] RESPONSE 7) (\<lambda>bs.
     rbind (decode_stream bs) (\<lambda>frames. reassemble_frames frames (Some 7) (Some RESPONSE)))
   = Inr [1, 0, 2]"
  by (rule message_roundtrip) (simp_all add: wire_constants)

text \<open>The encoder refuses, with its own error, every message it cannot deliver: a payload above
  64 KiB, or a request id outside 32 bits.\<close>

theorem encode_message_refuses:
  "(length payload > MAX_BRIDGE_PAYLOAD \<longrightarrow> encode_message payload mt rid = Inl MessageTooLarge)
   \<and> (length payload \<le> MAX_BRIDGE_PAYLOAD \<and> (rid < 0 \<or> 2 ^ 32 \<le> rid)
      \<longrightarrow> encode_message payload mt rid = Inl RequestIdOutsideUint32)"
proof -
  have "traverse encode_frame (message_frames payload mt rid) = Inl RequestIdOutsideUint32"
    if "rid < 0 \<or> 2 ^ 32 \<le> rid"
  proof -
    have "0 < length (message_chunks payload)" by simp
    then obtain g gs where g: "message_frames payload mt rid = g # gs"
      by (metis length_message_frames length_greater_0_conv neq_Nil_conv)
    have "g = message_frames payload mt rid ! 0" by (simp add: g)
    also have "frame_request_id \<dots> = rid \<and> frame_version (message_frames payload mt rid ! 0) = 1"
      by (subst message_frames_nth, simp)+ simp
    finally have "encode_frame g = Inl RequestIdOutsideUint32"
      using that by (auto simp: encode_frame_def wire_constants)
    then show ?thesis by (simp add: g)
  qed
  then show ?thesis by (auto simp: encode_message_def)
qed

theorem encode_message_refuses_witness:
  "encode_message [5] REQUEST (-1) = Inl RequestIdOutsideUint32"
  using encode_message_refuses [of "[5]" REQUEST "-1"] by (simp add: wire_constants)


lemma reassemble_Inr:
  "reassemble_frames fs (Some rid) (Some mt) = Inr p \<longleftrightarrow>
     fs \<noteq> [] \<and> int (length fs) = segment_count (hd fs)
     \<and> (\<forall>i < length fs. frame_matches rid mt (segment_count (hd fs)) i (fs ! i))
     \<and> length (concat (map frame_payload fs)) \<le> MAX_BRIDGE_PAYLOAD
     \<and> p = concat (map frame_payload fs)"
proof (cases fs)
  case Nil
  then show ?thesis by (simp add: reassemble_frames_def)
next
  case (Cons f gs)
  have all: "list_all (\<lambda>(index, f). P index f) (enumerate 0 xs) \<longleftrightarrow> (\<forall>i < length xs. P i (xs ! i))"
    for P and xs :: "wire_frame list"
    by (simp add: list_all_length nth_enumerate_eq)
  show ?thesis
    by (simp only: reassemble_frames_def Let_def Cons list.case option.case result_simps all
        not_not not_less list.sel simp_thms list.distinct sum.inject eq_commute [of p])
qed

text \<open>A segment of a message carries its index, so a list of segments that matches the indices
  \<open>0, 1, \<dots>\<close> and has the right length is the whole message in order.\<close>

lemma message_frames_by_index:
  assumes "f \<in> set (message_frames payload mt rid)" and "segment_index f = int i"
  shows "i < length (message_chunks payload) \<and> f = message_frames payload mt rid ! i"
proof -
  from assms(1) obtain j where j: "j < length (message_chunks payload)"
    and f: "f = message_frames payload mt rid ! j"
    by (auto simp: in_set_conv_nth)
  moreover have "segment_index f = int j" using j by (simp add: f message_frames_nth)
  ultimately show ?thesis using assms(2) by simp
qed

lemma message_frames_count:
  "f \<in> set (message_frames payload mt rid) \<Longrightarrow> segment_count f = int (length (message_chunks payload))"
  by (auto simp: in_set_conv_nth message_frames_nth)

text \<open>Reassembly never mixes segments up: from any selection of the segments of a message, in any
  order and with any repetitions, a result is the payload, and there is a result only when every
  segment was given once and in order.\<close>

theorem reassemble_exact:
  assumes "set fs \<subseteq> set (message_frames payload mt rid)"
    and "reassemble_frames fs (Some rid) (Some mt) = Inr p"
  shows "fs = message_frames payload mt rid \<and> p = payload"
proof -
  note R = assms(2) [unfolded reassemble_Inr]
  have at: "fs ! i = message_frames payload mt rid ! i" if "i < length fs" for i
  proof -
    have "segment_index (fs ! i) = int i" using R that by (simp add: frame_matches_def)
    moreover have "fs ! i \<in> set (message_frames payload mt rid)" using assms(1) that by auto
    ultimately show ?thesis using message_frames_by_index by blast
  qed
  have "hd fs \<in> set (message_frames payload mt rid)" using R assms(1) by auto
  then have "segment_count (hd fs) = int (length (message_chunks payload))"
    by (rule message_frames_count)
  then have len: "length fs = length (message_frames payload mt rid)" using R by simp
  then have "fs = message_frames payload mt rid" using at by (intro nth_equalityI) auto
  then show ?thesis using R message_frames_payloads [of payload mt rid] by simp
qed

theorem reassemble_exact_witness:
  "reassemble_frames (message_frames [3, 0] REQUEST 5) (Some 5) (Some REQUEST) = Inr [3, 0]
   \<and> message_frames [3, 0] REQUEST 5 = message_frames [3, 0] REQUEST 5 \<and> [3, 0] = ([3, 0] :: bytes)"
proof -
  have r: "reassemble_frames (message_frames [3, 0] REQUEST 5) (Some 5) (Some REQUEST) = Inr [3, 0]"
    by (rule reassemble_message) (simp add: wire_constants)
  with reassemble_exact [OF subset_refl r] show ?thesis by blast
qed

subsection \<open>The size limit of the decoder\<close>

text \<open>With zeros after a short prefix the stuffing costs one byte in all.\<close>

lemma cobs_groups_length_zeros: "length (cobs_groups run (replicate n 0)) = length run + n + 1"
  by (induction n arbitrary: run) simp_all

lemma cobs_groups_length_prefix:
  "length run + length xs < 254 \<Longrightarrow>
   length (cobs_groups run (xs @ replicate n 0)) = length run + length xs + n + 1"
  by (induction run xs rule: cobs_groups.induct) (simp_all add: cobs_groups_length_zeros)

definition oversized_frame :: wire_frame where
  "oversized_frame = \<lparr> frame_type = RESPONSE, frame_request_id = 1, segment_index = 0,
     segment_count = 1, frame_payload = replicate 4080 0, frame_version = 1 \<rparr>"

text \<open>The decoder bounds only the stuffed length of a frame, so it accepts frames that are longer
  than the transport frame and that the encoder refuses: here one of 4100 bytes, over the limit of
  4096.\<close>

theorem decode_frame_accepts_oversized:
  "decode_frame (cobs_encode (pack_frame oversized_frame) @ [0]) = Inr oversized_frame
   \<and> length (pack_frame oversized_frame) = 4100 \<and> 4100 > MAX_TRANSPORT_FRAME
   \<and> encode_frame oversized_frame = Inl SegmentTooLarge"
proof -
  have len: "length (pack_frame oversized_frame) = 4100"
    by (simp add: length_pack_frame oversized_frame_def)
  have "pack_frame oversized_frame = take 20 (pack_frame oversized_frame) @ replicate 4080 0"
    by (simp add: pack_frame_def Let_def oversized_frame_def)
  then have "length (cobs_encode (pack_frame oversized_frame)) = 4101"
    using cobs_groups_length_prefix [of "[]" "take 20 (pack_frame oversized_frame)" 4080] len
    by (simp add: cobs_encode_groups)
  moreover have "parse_frame (pack_frame oversized_frame) = Inr oversized_frame"
    by (rule parse_pack_frame) (simp_all add: oversized_frame_def)
  ultimately have "decode_frame (cobs_encode (pack_frame oversized_frame) @ [0]) = Inr oversized_frame"
    by (simp add: decode_frame_def Let_def cobs_decode_encode wire_constants)
  then show ?thesis
    using len by (simp add: wire_constants encode_frame_def oversized_frame_def)
qed

subsection \<open>Typed fields\<close>

text \<open>A field list that \<open>encode_tlvs\<close> accepts is read back by \<open>decode_tlvs\<close> with the same fields in
  the same order; it accepts exactly the lists with distinct 16-bit kinds, values below 64 KiB and a
  body of at most 64 KiB.\<close>

theorem tlv_roundtrip:
  "(returns (encode_tlvs (int_keys d)) \<longleftrightarrow> tlvs_ok d)
   \<and> (\<forall>bs. encode_tlvs (int_keys d) = Inr bs \<longrightarrow> decode_tlvs bs None = Inr d)"
  using decode_tlvs_complete [of d None]
  by (auto simp: returns_iff encode_tlvs_int_keys tlvs_ok_def tlv_allowed_def)

theorem tlv_roundtrip_witness:
  "decode_tlvs [1, 0, 2, 0, 10, 0, 7, 0, 0, 0] None = Inr [(1, [10, 0]), (7, [])]"
proof -
  have "encode_tlvs (int_keys [(1, [10, 0]), (7, [])]) = Inr [1, 0, 2, 0, 10, 0, 7, 0, 0, 0]"
    by (simp add: encode_tlvs_def int_keys_def wire_constants numeral_2_eq_2)
  then show ?thesis using tlv_roundtrip [of "[(1, [10, 0]), (7, [])]"] by blast
qed

text \<open>The field encoding is canonical: a body that \<open>decode_tlvs\<close> accepts has distinct kinds, all of
  them allowed, and unless it is over 64 KiB encoding the decoded fields gives the same bytes.\<close>

theorem tlv_canonical:
  assumes "decode_tlvs payload allowed = Inr d"
  shows "dict_ok d \<and> (\<forall>k. dict_has d k \<longrightarrow> tlv_allowed allowed k)
    \<and> (length payload \<le> MAX_BRIDGE_PAYLOAD \<longrightarrow> encode_tlvs (int_keys d) = Inr payload)"
  using decode_tlvs_sound [OF assms] by (auto simp: encode_tlvs_int_keys tlvs_ok_def)

theorem tlv_canonical_witness:
  "encode_tlvs (int_keys [(3, [1])]) = Inr [3, 0, 1, 0, 1]"
proof -
  have "decode_tlvs (concat (map tlv_bytes [(3, [1])])) (Some {3}) = Inr [(3, [1])]"
    by (rule decode_tlvs_complete) (simp_all add: tlv_ok_def tlv_allowed_def)
  then have "decode_tlvs [3, 0, 1, 0, 1] (Some {3}) = Inr [(3, [1])]"
    by (simp add: tlv_bytes_def numeral_2_eq_2)
  from tlv_canonical [OF this] show ?thesis by (simp add: wire_constants)
qed

end
