(* ===== verification/Pystr.thy ===== *)
theory Pystr
  imports Bytes
begin

text \<open>
  Python strings. A \<^verbatim>\<open>str\<close> is modelled as a list of characters with code points below 256
  (Isabelle's \<open>char\<close>); the character classes below agree with Python's on that range, and
  code points above it are outside the model. \<open>utf8\<close> is the two-byte encoding of the range.
  \<open>show_nat\<close> and \<open>parse_nat\<close> are the decimal \<^verbatim>\<open>str(n)\<close> and \<^verbatim>\<open>int(s)\<close> on ASCII digits.
\<close>

abbreviation code :: "char \<Rightarrow> nat" where
  "code c \<equiv> of_char c"

definition py_isspace :: "char \<Rightarrow> bool" where
  "py_isspace c = (9 \<le> code c \<and> code c \<le> 13 \<or> 28 \<le> code c \<and> code c \<le> 32
                   \<or> code c = 133 \<or> code c = 160)"

definition ascii_digit :: "char \<Rightarrow> bool" where
  "ascii_digit c = (48 \<le> code c \<and> code c \<le> 57)"

definition ascii_upper :: "char \<Rightarrow> bool" where
  "ascii_upper c = (65 \<le> code c \<and> code c \<le> 90)"

definition ascii_lower :: "char \<Rightarrow> bool" where
  "ascii_lower c = (97 \<le> code c \<and> code c \<le> 122)"

text \<open>\<^verbatim>\<open>str.isdigit\<close>: the ASCII digits and the superscripts two, three and one.\<close>

definition py_isdigit :: "char \<Rightarrow> bool" where
  "py_isdigit c = (ascii_digit c \<or> code c \<in> {178, 179, 185})"

text \<open>\<^verbatim>\<open>str.isalnum\<close>: letters, digits and the numeric fractions.\<close>

definition py_isalnum :: "char \<Rightarrow> bool" where
  "py_isalnum c = (ascii_upper c \<or> ascii_lower c \<or> py_isdigit c \<or> code c \<in> {170, 181, 186, 188, 189, 190}
     \<or> 192 \<le> code c \<and> code c \<noteq> 215 \<and> code c \<noteq> 247)"

text \<open>The string methods are true only of non-empty strings.\<close>

definition str_isdigit :: "string \<Rightarrow> bool" where
  "str_isdigit s = (s \<noteq> [] \<and> list_all py_isdigit s)"

definition str_isalnum :: "string \<Rightarrow> bool" where
  "str_isalnum s = (s \<noteq> [] \<and> list_all py_isalnum s)"

definition str_strip :: "string \<Rightarrow> string" where
  "str_strip s = rev (dropWhile py_isspace (rev (dropWhile py_isspace s)))"

definition str_remove :: "char \<Rightarrow> string \<Rightarrow> string" where
  "str_remove c s = filter (\<lambda>d. d \<noteq> c) s"   \<comment> \<open>\<^verbatim>\<open>s.replace(c, "")\<close>\<close>

definition str_startswith :: "string \<Rightarrow> string \<Rightarrow> bool" where
  "str_startswith s p = (take (length p) s = p)"

text \<open>Case mapping. The three letters of the range whose upper case lies outside it (the sharp s, the
  micro sign and y with diaeresis) are left alone.\<close>

definition char_upper :: "char \<Rightarrow> char" where
  "char_upper c = (if ascii_lower c \<or> 224 \<le> code c \<and> code c \<le> 254 \<and> code c \<noteq> 247
     then char_of (code c - 32) else c)"

definition char_lower :: "char \<Rightarrow> char" where
  "char_lower c = (if ascii_upper c \<or> 192 \<le> code c \<and> code c \<le> 222 \<and> code c \<noteq> 215
     then char_of (code c + 32) else c)"

text \<open>Lowering sets one bit, which is how it is evaluated.\<close>

lemma char_lower_bits [code]:
  "char_lower (Char b0 b1 b2 b3 b4 b5 b6 b7) = Char b0 b1 b2 b3 b4
     (b5 \<or> b6 \<and> (if b7 then \<not> (b0 \<and> b1 \<and> b2 \<and> b3 \<and> b4) \<and> \<not> (b0 \<and> b1 \<and> b2 \<and> \<not> b3 \<and> b4)
        else (b0 \<or> b1 \<or> b2 \<or> b3 \<or> b4) \<and> \<not> (b4 \<and> b3 \<and> (b2 \<or> b1 \<and> b0)))) b6 b7"
  by (cases b7; cases b6; cases b5; cases b4; cases b3; cases b2; cases b1; cases b0)
    (simp_all add: char_lower_def ascii_upper_def char_of_def bit_iff_odd)

definition utf8 :: "string \<Rightarrow> bytes" where
  "utf8 s = concat (map (\<lambda>c. if code c < 128 then [word_of_nat (code c)]
      else [word_of_nat (192 + code c div 64), word_of_nat (128 + code c mod 64)]) s)"

lemma length_utf8: "length (utf8 s) \<le> 2 * length s"
  by (induction s) (auto simp: utf8_def)

lemma utf8_Cons:
  "utf8 (c # s) = (if code c < 128 then [word_of_nat (code c)]
      else [word_of_nat (192 + code c div 64), word_of_nat (128 + code c mod 64)]) @ utf8 s"
  by (simp add: utf8_def)

lemma utf8_char_inj:
  assumes "utf8 (c # s) = utf8 (d # t)"
  shows "c = d \<and> utf8 s = utf8 t"
proof -
  have lt: "code c < 256" "code d < 256" by simp_all
  have q: "code x div 64 < 4" for x :: char
    using less_mult_imp_div_less [of "code x" 4 64] by simp
  have small: "code x < 128 \<Longrightarrow> unat (word_of_nat (code x) :: byte) = code x" for x :: char
    by (rule unat_byte_small) simp
  have hi: "unat (word_of_nat (192 + code x div 64) :: byte) = 192 + code x div 64" for x :: char
    by (rule unat_byte_small) (use q [of x] in simp)
  have lo: "unat (word_of_nat (128 + code x mod 64) :: byte) = 128 + code x mod 64" for x :: char
    by (rule unat_byte_small) (use mod_less_divisor [of 64 "code x"] in linarith)
  have eq: "code c = code d \<Longrightarrow> c = d" by simp
  show ?thesis
  proof (cases "code c < 128"; cases "code d < 128")
    assume a: "code c < 128" "code d < 128"
    then have "word_of_nat (code c) = (word_of_nat (code d) :: byte)" "utf8 s = utf8 t"
      using assms by (simp_all only: utf8_Cons if_True append_Cons append_Nil list.inject)
    then show ?thesis using small [OF a(1)] small [OF a(2)] eq by metis
  next
    assume a: "code c < 128" "\<not> code d < 128"
    then have "word_of_nat (code c) = (word_of_nat (192 + code d div 64) :: byte)"
      using assms by (simp only: utf8_Cons if_True if_False append_Cons append_Nil list.inject)
    then have "code c = 192 + code d div 64" using small [OF a(1)] hi [of d] by metis
    then show ?thesis using a(1) by linarith
  next
    assume a: "\<not> code c < 128" "code d < 128"
    then have "word_of_nat (192 + code c div 64) = (word_of_nat (code d) :: byte)"
      using assms by (simp only: utf8_Cons if_True if_False append_Cons append_Nil list.inject)
    then have "code d = 192 + code c div 64" using small [OF a(2)] hi [of c] by metis
    then show ?thesis using a(2) by linarith
  next
    assume a: "\<not> code c < 128" "\<not> code d < 128"
    then have "word_of_nat (192 + code c div 64) = (word_of_nat (192 + code d div 64) :: byte)"
      "word_of_nat (128 + code c mod 64) = (word_of_nat (128 + code d mod 64) :: byte)" "utf8 s = utf8 t"
      using assms by (simp_all only: utf8_Cons if_False append_Cons append_Nil list.inject)
    then have "192 + code c div 64 = 192 + code d div 64" "128 + code c mod 64 = 128 + code d mod 64" "utf8 s = utf8 t"
      using hi [of c] hi [of d] lo [of c] lo [of d] by metis+
    then have "code c = code d" using div_mult_mod_eq [of "code c" 64] div_mult_mod_eq [of "code d" 64] by linarith
    then show ?thesis using \<open>utf8 s = utf8 t\<close> eq by blast
  qed
qed

lemma utf8_inj: "utf8 s = utf8 t \<longleftrightarrow> s = t"
proof (induction s arbitrary: t)
  case Nil
  show ?case by (cases t) (auto simp: utf8_def)
next
  case (Cons c s)
  show ?case
  proof (cases t)
    case Nil
    then show ?thesis by (auto simp: utf8_def)
  next
    case (Cons d t')
    then show ?thesis using Cons.IH [of t'] utf8_char_inj [of c s d t'] by auto
  qed
qed

subsection \<open>Stripping\<close>

lemma str_strip_idem [simp]: "str_strip (str_strip s) = str_strip s"
proof -
  define t where "t = dropWhile py_isspace s"
  have hd: "t = [] \<or> \<not> py_isspace (hd t)" unfolding t_def using hd_dropWhile by blast
  define u where "u = rev (dropWhile py_isspace (rev t))"
  have "u = [] \<or> \<not> py_isspace (hd u)"
  proof (cases "u = []")
    case False
    have "\<exists>w. t = u @ w" unfolding u_def
      by (metis rev_append rev_rev_ident takeWhile_dropWhile_id)
    then show ?thesis using hd False by auto
  qed simp
  then have "dropWhile py_isspace u = u" by (cases u) auto
  moreover have "rev (dropWhile py_isspace (rev u)) = u"
    by (simp add: u_def dropWhile_idem)
  ultimately show ?thesis by (simp add: str_strip_def t_def [symmetric] u_def [symmetric])
qed

lemma set_str_strip: "set (str_strip s) \<subseteq> set s"
  by (auto simp: str_strip_def dest!: set_dropWhileD)

subsection \<open>Decimal numbers\<close>

definition digit_char :: "nat \<Rightarrow> char" where
  "digit_char d = char_of (48 + d)"

fun show_nat :: "nat \<Rightarrow> string" where
  "show_nat n = (if n < 10 then [digit_char n] else show_nat (n div 10) @ [digit_char (n mod 10)])"

declare show_nat.simps [simp del]

definition parse_nat :: "string \<Rightarrow> nat option" where
  "parse_nat s = (if s \<noteq> [] \<and> list_all ascii_digit s
     then Some (foldl (\<lambda>n c. 10 * n + (code c - 48)) 0 s) else None)"

lemma code_digit_char: "d < 10 \<Longrightarrow> code (digit_char d) = 48 + d"
  by (simp add: digit_char_def)

lemma ascii_digit_char: "d < 10 \<Longrightarrow> ascii_digit (digit_char d)"
  by (simp add: ascii_digit_def code_digit_char)

lemma show_nat_digits: "show_nat n \<noteq> [] \<and> list_all ascii_digit (show_nat n)"
proof (induction n rule: show_nat.induct)
  case (1 n)
  then show ?case by (auto simp: show_nat.simps [of n] ascii_digit_char)
qed

lemma show_nat_value: "foldl (\<lambda>n c. 10 * n + (code c - 48)) 0 (show_nat n) = n"
proof (induction n rule: show_nat.induct)
  case (1 n)
  then show ?case by (auto simp: show_nat.simps [of n] code_digit_char)
qed

lemma parse_show_nat [simp]: "parse_nat (show_nat n) = Some n"
  using show_nat_digits [of n] by (simp add: parse_nat_def show_nat_value)

lemma show_nat_inj: "show_nat m = show_nat n \<Longrightarrow> m = n"
  by (metis option.inject parse_show_nat)

lemma show_nat_one: "n < 10 \<Longrightarrow> show_nat n = [digit_char n]"
  by (simp add: show_nat.simps [of n])

lemma show_nat_two: "10 \<le> n \<Longrightarrow> n < 100 \<Longrightarrow> show_nat n = [digit_char (n div 10), digit_char (n mod 10)]"
  by (simp add: show_nat.simps [of n] show_nat_one)

lemma str_strip_plain: "list_all (\<lambda>c. \<not> py_isspace c) s \<Longrightarrow> str_strip s = s"
proof -
  assume a: "list_all (\<lambda>c. \<not> py_isspace c) s"
  have *: "list_all (\<lambda>c. \<not> py_isspace c) t \<Longrightarrow> dropWhile py_isspace t = t" for t
    by (cases t) auto
  show ?thesis unfolding str_strip_def using * [OF a] * [of "rev s"] a by (simp add: list_all_rev)
qed

lemma digit_not_space: "ascii_digit c \<Longrightarrow> \<not> py_isspace c"
  by (auto simp: ascii_digit_def py_isspace_def)

lemma digit_upper: "ascii_digit c \<Longrightarrow> char_upper c = c"
  by (auto simp: ascii_digit_def ascii_lower_def char_upper_def)

end
