(* ===== verification/Base64.thy ===== *)
theory Base64
  imports Pystr
begin

text \<open>
  RFC 4648 base64 as Python's \<^verbatim>\<open>base64.b64encode\<close> and \<^verbatim>\<open>b64decode(.., validate=True)\<close> define it, and the
  bridge's \<open>decode_canonical_base64\<close> on top of it. The strict decoder takes four characters at a
  time, accepts padding in the last group only and does not look at the unused low bits, which is
  why the code compares with the re-encoded text.
\<close>

definition b64_alphabet :: string where
  "b64_alphabet = ''ABCDEFGHIJKLMNOPQRSTUVWXYZabcdefghijklmnopqrstuvwxyz0123456789+/''"

definition b64_char :: "nat \<Rightarrow> char" where
  "b64_char i = b64_alphabet ! i"

definition b64_value :: "char \<Rightarrow> nat option" where
  "b64_value c = map_of (zip b64_alphabet [0 ..< 64]) c"

definition b64_quad :: "nat \<Rightarrow> string" where
  "b64_quad n = [b64_char (n div 262144 mod 64), b64_char (n div 4096 mod 64),
                 b64_char (n div 64 mod 64), b64_char (n mod 64)]"

fun b64encode :: "bytes \<Rightarrow> string" where
  "b64encode [] = []"
| "b64encode [x] = take 2 (b64_quad (unat x * 65536)) @ ''==''"
| "b64encode [x, y] = take 3 (b64_quad (unat x * 65536 + unat y * 256)) @ ''=''"
| "b64encode (x # y # z # rest) = b64_quad (unat x * 65536 + unat y * 256 + unat z) @ b64encode rest"

definition b64_bytes :: "nat \<Rightarrow> bytes" where
  "b64_bytes n = [word_of_nat (n div 65536), word_of_nat (n div 256), word_of_nat n]"

definition b64_join :: "char \<Rightarrow> char \<Rightarrow> char \<Rightarrow> char \<Rightarrow> nat option" where
  "b64_join a b c d =
     (case (b64_value a, b64_value b, b64_value c, b64_value d) of
        (Some i, Some j, Some k, Some l) \<Rightarrow> Some (i * 262144 + j * 4096 + k * 64 + l)
      | _ \<Rightarrow> None)"

fun b64decode :: "string \<Rightarrow> bytes option" where
  "b64decode [] = Some []"
| "b64decode (a # b # c # d # rest) =
     (if rest = [] \<and> d = CHR ''='' then
        (if c = CHR ''='' then map_option (take 1 \<circ> b64_bytes) (b64_join a b (CHR ''A'') (CHR ''A''))
         else map_option (take 2 \<circ> b64_bytes) (b64_join a b c (CHR ''A'')))
      else case b64_join a b c d of
          None \<Rightarrow> None
        | Some n \<Rightarrow> map_option (\<lambda>bs. b64_bytes n @ bs) (b64decode rest))"
| "b64decode _ = None"

datatype payload_error =
    NotCanonicalBase64      \<comment> \<open>payload must be canonical RFC 4648 base64\<close>
  | NotCanonicalPadding     \<comment> \<open>payload must use canonical padded RFC 4648 base64\<close>
  | PayloadExceeds nat      \<comment> \<open>decoded payload exceeds the maximum\<close>

definition decode_canonical_base64 :: "string \<Rightarrow> nat \<Rightarrow> payload_error + bytes" where
  "decode_canonical_base64 val maximum =
     (case b64decode val of
        None \<Rightarrow> Inl NotCanonicalBase64
      | Some decoded \<Rightarrow>
          if b64encode decoded \<noteq> val then Inl NotCanonicalPadding
          else if length decoded > maximum then Inl (PayloadExceeds maximum)
          else Inr decoded)"

definition encode_canonical_base64 :: "bytes \<Rightarrow> string" where
  "encode_canonical_base64 val = b64encode val"

subsection \<open>Round trip\<close>

lemma b64_alphabet_values: "list_all (\<lambda>i. b64_value (b64_char i) = Some i \<and> b64_char i \<noteq> CHR ''='') [0 ..< 64]"
  by code_simp

lemma b64_value_char [simp]: "i < 64 \<Longrightarrow> b64_value (b64_char i) = Some i"
  and b64_char_not_pad [simp]: "i < 64 \<Longrightarrow> b64_char i \<noteq> CHR ''=''"
  using b64_alphabet_values by (simp_all add: list_all_iff)

lemma b64_value_A: "b64_value (CHR ''A'') = Some 0"
  by code_simp

lemma b64_digits:
  assumes "n < 16777216"
  shows "n div 262144 mod 64 * 262144 + n div 4096 mod 64 * 4096 + n div 64 mod 64 * 64 + n mod 64 = (n :: nat)"
proof -
  have d: "n div 64 div 64 = n div 4096" "n div 4096 div 64 = n div 262144"
    by (simp_all flip: div_mult2_eq)
  have "n div 262144 < 64" using assms by (simp add: div_less_iff_less_mult)
  then have 1: "n div 262144 mod 64 = n div 262144" by simp
  have 2: "n div 4096 = n div 262144 * 64 + n div 4096 mod 64"
    using div_mult_mod_eq [of "n div 4096" 64] by (simp only: d)
  have 3: "n div 64 = n div 4096 * 64 + n div 64 mod 64"
    using div_mult_mod_eq [of "n div 64" 64] by (simp only: d)
  have 4: "n = n div 64 * 64 + n mod 64" by (simp only: div_mult_mod_eq)
  show ?thesis unfolding 1 using 2 3 4 by linarith
qed

lemma b64_join_quad:
  assumes "n < 16777216"
  shows "b64_join (b64_char (n div 262144 mod 64)) (b64_char (n div 4096 mod 64))
     (b64_char (n div 64 mod 64)) (b64_char (n mod 64)) = Some n"
  unfolding b64_join_def using b64_digits [OF assms] by (simp only: b64_value_char mod_less_divisor
      zero_less_numeral option.case prod.case)

lemma b64_char_0: "b64_char 0 = CHR ''A''"
  by code_simp

lemma b64_join_quad_A:
  assumes "n < 16777216" "n mod 64 = 0"
  shows "b64_join (b64_char (n div 262144 mod 64)) (b64_char (n div 4096 mod 64))
     (b64_char (n div 64 mod 64)) (CHR ''A'') = Some n"
  using b64_join_quad [OF assms(1)] unfolding assms(2) b64_char_0 .

lemma b64_join_quad_AA:
  assumes "n < 16777216" "n mod 64 = 0" "n div 64 mod 64 = 0"
  shows "b64_join (b64_char (n div 262144 mod 64)) (b64_char (n div 4096 mod 64)) (CHR ''A'') (CHR ''A'') = Some n"
  using b64_join_quad [OF assms(1)] unfolding assms(2,3) b64_char_0 .

lemma b64_bytes_of_bytes:
  "b64_bytes (unat x * 65536 + unat y * 256 + unat z) = [x, y, z :: byte]"
proof -
  have byte: "(word_of_nat (256 * m + unat b) :: byte) = b" for m b
    by (simp only: word_unat_eq_iff unat_byte mod_mult_self4 mod_less unat_byte_lt)
  define n where "n = unat x * 65536 + unat y * 256 + unat z"
  have base: "(256 :: nat) \<noteq> 0" by simp
  have 0: "n = 256 * (256 * unat x + unat y) + unat z" by (simp add: n_def)
  have 1: "n div 256 = 256 * unat x + unat y"
    by (simp only: 0 div_mult_self4 [OF base] div_less [OF unat_byte_lt] add_0_right)
  have "n div 65536 = n div 256 div 256" by (simp flip: div_mult2_eq)
  also have "\<dots> = 256 * 0 + unat x"
    by (simp only: 1 div_mult_self4 [OF base] div_less [OF unat_byte_lt] add_0_right)
  finally have 2: "n div 65536 = 256 * 0 + unat x" .
  have "b64_bytes n = [x, y, z]"
    unfolding b64_bytes_def 2 1 by (simp only: byte) (simp only: 0 byte)
  then show ?thesis by (simp only: n_def)
qed

lemma b64_24bit: "unat (x :: byte) * 65536 + unat (y :: byte) * 256 + unat (z :: byte) < 16777216"
  using unat_byte_lt [of x] unat_byte_lt [of y] unat_byte_lt [of z] by linarith

lemma b64decode_1: "b64decode (take 2 (b64_quad (unat x * 65536)) @ ''=='') = Some [x :: byte]"
proof -
  define n where "n = unat x * 65536"
  have n: "n = unat x * 65536 + unat (0 :: byte) * 256 + unat (0 :: byte)" by (simp add: n_def)
  have "n = 64 * (1024 * unat x)" by (simp add: n_def)
  then have "n mod 64 = 0" by (simp only: mod_mult_self1_is_0)
  moreover have "n div 64 = 64 * (16 * unat x)" by (simp add: n_def)
  then have "n div 64 mod 64 = 0" by (simp only: mod_mult_self1_is_0)
  ultimately have "b64_join (b64_char (n div 262144 mod 64)) (b64_char (n div 4096 mod 64))
      (CHR ''A'') (CHR ''A'') = Some n"
    using b64_24bit [of x 0 0] by (intro b64_join_quad_AA) (simp_all only: n)
  moreover have "b64_bytes n = [x, 0, 0]" unfolding n by (rule b64_bytes_of_bytes)
  ultimately have "b64decode (take 2 (b64_quad n) @ ''=='') = Some [x]"
    by (simp add: b64_quad_def)
  then show ?thesis by (simp only: n_def)
qed

lemma b64decode_2:
  "b64decode (take 3 (b64_quad (unat x * 65536 + unat y * 256)) @ ''='') = Some [x, y :: byte]"
proof -
  define n where "n = unat x * 65536 + unat y * 256"
  have n: "n = unat x * 65536 + unat y * 256 + unat (0 :: byte)" by (simp add: n_def)
  have "n = 64 * (1024 * unat x + 4 * unat y)" by (simp add: n_def)
  then have "n mod 64 = 0" by (simp only: mod_mult_self1_is_0)
  then have "b64_join (b64_char (n div 262144 mod 64)) (b64_char (n div 4096 mod 64))
      (b64_char (n div 64 mod 64)) (CHR ''A'') = Some n"
    using b64_24bit [of x y 0] by (intro b64_join_quad_A) (simp_all only: n)
  moreover have "b64_bytes n = [x, y, 0]" unfolding n by (rule b64_bytes_of_bytes)
  ultimately have "b64decode (take 3 (b64_quad n) @ ''='') = Some [x, y]"
    by (simp add: b64_quad_def)
  then show ?thesis by (simp only: n_def)
qed

lemma b64decode_quad:
  assumes "n < 16777216"
  shows "b64decode (b64_quad n @ rest) = map_option (\<lambda>bs. b64_bytes n @ bs) (b64decode rest)"
  using b64_join_quad [OF assms] by (simp add: b64_quad_def)

lemma b64decode_encode [simp]: "b64decode (b64encode bs) = Some bs"
proof (induction bs rule: b64encode.induct)
  case 1
  show ?case by simp
next
  case (2 x)
  show ?case unfolding b64encode.simps by (rule b64decode_1)
next
  case (3 x y)
  show ?case unfolding b64encode.simps by (rule b64decode_2)
next
  case (4 x y z rest)
  then show ?case unfolding b64encode.simps b64decode_quad [OF b64_24bit] b64_bytes_of_bytes by simp
qed

lemma decode_canonical_Inr:
  "decode_canonical_base64 val maximum = Inr bs \<longleftrightarrow> val = b64encode bs \<and> length bs \<le> maximum"
  by (auto simp: decode_canonical_base64_def not_less split: option.splits if_splits)

text \<open>The payload text of a request is canonical: \<open>decode_canonical_base64\<close> accepts a text exactly
  when it is the base64 encoding of some bytes within the bound, and then returns those bytes; so two
  accepted texts with equal bytes are equal.\<close>

theorem canonical_base64:
  "(decode_canonical_base64 val maximum = Inr bs
     \<longleftrightarrow> val = encode_canonical_base64 bs \<and> length bs \<le> maximum)
   \<and> (decode_canonical_base64 val maximum = Inl NotCanonicalBase64 \<longleftrightarrow> b64decode val = None)"
  by (auto simp: decode_canonical_Inr encode_canonical_base64_def decode_canonical_base64_def
      split: option.splits)

end
