(* ===== verification/Bridge_Models.thy ===== *)
theory Bridge_Models
  imports Base64 Frames
begin

text \<open>
  The typed request contracts of the bridge: \<^verbatim>\<open>models.py\<close> of the protocol bridge extension. Each request
  class is a constructor with its fields in declaration order; the operation literal is the
  constructor itself. Validation has the two stages of the source: every field is checked and the
  names of all failing fields are collected (\<open>field_errors\<close>), then, on a request whose fields are
  good, the model validator runs (\<open>model_error\<close>). Accepted pin labels are replaced by their
  normalized form. Field values already have their declared types; the coercion of other JSON
  types is left to the validation library.
\<close>

definition MAX_APPLICATION_PAYLOAD :: nat where "MAX_APPLICATION_PAYLOAD = 64000"

subsection \<open>Pins\<close>

definition SAFE_GPIO_PINS :: "string list" where
  "SAFE_GPIO_PINS = map (\<lambda>n. CHR ''D'' # show_nat n) [2 ..< 11] @ map (\<lambda>n. CHR ''D'' # show_nat n) [22 ..< 86]"

definition str_upper :: "string \<Rightarrow> string" where
  "str_upper s = map char_upper s"

text \<open>\<open>pin_re\<close> is \<^verbatim>\<open>^D([0-9]|[1-9][0-9]|10[0-2])$\<close>, matched against the whole label.\<close>

definition pin_re :: "string \<Rightarrow> bool" where
  "pin_re s =
     (case s of
        [d, a] \<Rightarrow> d = CHR ''D'' \<and> ascii_digit a
      | [d, a, b] \<Rightarrow> d = CHR ''D'' \<and> ascii_digit a \<and> a \<noteq> CHR ''0'' \<and> ascii_digit b
      | [d, a, b, c] \<Rightarrow> d = CHR ''D'' \<and> a = CHR ''1'' \<and> b = CHR ''0'' \<and> c \<in> {CHR ''0'', CHR ''1'', CHR ''2''}
      | _ \<Rightarrow> False)"

datatype validation_error = BadFields "string list" | BadModel string

definition validate_safe_pin :: "string \<Rightarrow> validation_error + string" where
  "validate_safe_pin val =
     (let label = str_upper (str_strip val) in
      if \<not> pin_re label \<or> label \<notin> set SAFE_GPIO_PINS then Inl (BadModel ''pin is not safe'')
      else Inr label)"

subsection \<open>Enumerations\<close>

datatype bit_order = MsbFirst | LsbFirst
datatype uart_parity = ParityNone | ParityEven | ParityOdd
datatype gpio_mode = GpioInput | GpioOutput
datatype gpio_pull = PullNone | PullUp | PullDown
datatype gpio_edge = EdgeNone | EdgeRising | EdgeFalling | EdgeChange
datatype socket_protocol = SocketTcp | SocketUdp
datatype usb_transfer_type = UsbControl | UsbBulk | UsbInterrupt
datatype ble_write_mode = WithResponse | WithoutResponse
datatype bridge_protocol = Spi | I2c | Uart | Can | Usb | Wifi | Ble | Gpio

primrec bit_order_value :: "bit_order \<Rightarrow> string" where
  "bit_order_value MsbFirst = ''msb_first''"
| "bit_order_value LsbFirst = ''lsb_first''"

primrec uart_parity_value :: "uart_parity \<Rightarrow> string" where
  "uart_parity_value ParityNone = ''none''"
| "uart_parity_value ParityEven = ''even''"
| "uart_parity_value ParityOdd = ''odd''"

primrec gpio_mode_value :: "gpio_mode \<Rightarrow> string" where
  "gpio_mode_value GpioInput = ''input''"
| "gpio_mode_value GpioOutput = ''output''"

primrec gpio_pull_value :: "gpio_pull \<Rightarrow> string" where
  "gpio_pull_value PullNone = ''none''"
| "gpio_pull_value PullUp = ''up''"
| "gpio_pull_value PullDown = ''down''"

primrec gpio_edge_value :: "gpio_edge \<Rightarrow> string" where
  "gpio_edge_value EdgeNone = ''none''"
| "gpio_edge_value EdgeRising = ''rising''"
| "gpio_edge_value EdgeFalling = ''falling''"
| "gpio_edge_value EdgeChange = ''change''"

primrec socket_protocol_value :: "socket_protocol \<Rightarrow> string" where
  "socket_protocol_value SocketTcp = ''tcp''"
| "socket_protocol_value SocketUdp = ''udp''"

primrec usb_transfer_type_value :: "usb_transfer_type \<Rightarrow> string" where
  "usb_transfer_type_value UsbControl = ''control''"
| "usb_transfer_type_value UsbBulk = ''bulk''"
| "usb_transfer_type_value UsbInterrupt = ''interrupt''"

primrec ble_write_mode_value :: "ble_write_mode \<Rightarrow> string" where
  "ble_write_mode_value WithResponse = ''with_response''"
| "ble_write_mode_value WithoutResponse = ''without_response''"

primrec bridge_protocol_value :: "bridge_protocol \<Rightarrow> string" where
  "bridge_protocol_value Spi = ''spi''"
| "bridge_protocol_value I2c = ''i2c''"
| "bridge_protocol_value Uart = ''uart''"
| "bridge_protocol_value Can = ''can''"
| "bridge_protocol_value Usb = ''usb''"
| "bridge_protocol_value Wifi = ''wifi''"
| "bridge_protocol_value Ble = ''ble''"
| "bridge_protocol_value Gpio = ''gpio''"

subsection \<open>Requests\<close>

datatype control_request =
    UartConfigure int int int uart_parity int        \<comment> \<open>port, baudrate, data bits, parity, stop bits\<close>
  | CanConfigure int int                             \<comment> \<open>bus, bitrate\<close>
  | UsbEnumerate
  | UsbSelect int int "string option" "int option"   \<comment> \<open>vendor, product, serial, interface number\<close>
  | UsbReset
  | UsbRelease
  | WifiConnect string                               \<comment> \<open>profile\<close>
  | WifiDisconnect
  | WifiSocketOpen socket_protocol string int "int option"   \<comment> \<open>protocol, host, port, local port\<close>
  | WifiSocketClose int                              \<comment> \<open>socket id\<close>
  | BleScan int "string option"                      \<comment> \<open>duration, service\<close>
  | BleConnect string                                \<comment> \<open>address\<close>
  | BleDisconnect
  | BlePair "string option"                          \<comment> \<open>passkey profile\<close>
  | BleDiscover "string option"                      \<comment> \<open>service\<close>
  | BleSubscribe string string bool                  \<comment> \<open>service, characteristic, enabled\<close>
  | GpioConfigure string gpio_mode gpio_pull "bool option"   \<comment> \<open>pin, mode, pull, initial value\<close>
  | GpioWatch string gpio_edge                       \<comment> \<open>pin, edge\<close>

datatype exchange_request =
    SpiExchange string int string int int bit_order int int
      \<comment> \<open>data, bus, chip select, clock, mode, bit order, fill byte, read length\<close>
  | I2cExchange string int int int bool int          \<comment> \<open>data, bus, address, read length, repeated start, clock\<close>
  | UartWrite string int                             \<comment> \<open>data, port\<close>
  | CanSend string int int bool                      \<comment> \<open>data, bus, arbitration id, extended\<close>
  | UsbTransfer string usb_transfer_type int int "int option" "int option" "int option" "int option"
      \<comment> \<open>data, type, endpoint, read length, request type, request, value, index\<close>
  | WifiSend string int                              \<comment> \<open>data, socket id\<close>
  | BleRead string string                            \<comment> \<open>service, characteristic\<close>
  | BleWrite string string string ble_write_mode     \<comment> \<open>data, service, characteristic, write mode\<close>
  | GpioRead string                                  \<comment> \<open>pin\<close>
  | GpioWrite string bool                            \<comment> \<open>pin, value\<close>
  | GpioPulse string bool int                        \<comment> \<open>pin, value, duration\<close>

datatype receive_request =
  Receive bridge_protocol int int bool int           \<comment> \<open>protocol, channel, limit, drain, timeout\<close>

subsection \<open>Field validation\<close>

definition in_range :: "int \<Rightarrow> int \<Rightarrow> int \<Rightarrow> bool" where
  "in_range lo hi n = (lo \<le> n \<and> n \<le> hi)"

definition opt_ok :: "('a \<Rightarrow> bool) \<Rightarrow> 'a option \<Rightarrow> bool" where
  "opt_ok p z = (case z of None \<Rightarrow> True | Some x \<Rightarrow> p x)"

definition length_ok :: "nat \<Rightarrow> nat \<Rightarrow> string \<Rightarrow> bool" where
  "length_ok lo hi s = (lo \<le> length s \<and> length s \<le> hi)"

text \<open>\<^verbatim>\<open>^[A-Za-z0-9_.-]+$\<close> and the colon-separated BLE address.\<close>

definition profile_name_re :: "string \<Rightarrow> bool" where
  "profile_name_re s = (s \<noteq> [] \<and> list_all (\<lambda>c. ascii_upper c \<or> ascii_lower c \<or> ascii_digit c
      \<or> c \<in> {CHR ''_'', CHR ''.'', CHR ''-''}) s)"

definition hex_char :: "char \<Rightarrow> bool" where
  "hex_char c = (ascii_digit c \<or> 65 \<le> code c \<and> code c \<le> 70 \<or> 97 \<le> code c \<and> code c \<le> 102)"

definition ble_address_re :: "string \<Rightarrow> bool" where
  "ble_address_re s = (length s = 17
     \<and> list_all (\<lambda>(i, c). if i mod 3 = 2 then c = CHR '':'' else hex_char c) (zip [0 ..< 17] s))"

definition payload_ok :: "string \<Rightarrow> bool" where
  "payload_ok s = returns (decode_canonical_base64 s MAX_APPLICATION_PAYLOAD)"

definition pin_ok :: "string \<Rightarrow> bool" where
  "pin_ok s = returns (validate_safe_pin s)"

text \<open>The checks of one request: the field names, each with whether its value is accepted.\<close>

primrec control_fields :: "control_request \<Rightarrow> (string \<times> bool) list" where
  "control_fields (UartConfigure port baudrate data_bits parity stop_bits) =
     [(''port'', in_range 0 3 port), (''baudrate'', in_range 50 4000000 baudrate),
      (''data_bits'', data_bits \<in> {7, 8}), (''stop_bits'', stop_bits \<in> {1, 2})]"
| "control_fields (CanConfigure bus bitrate) =
     [(''bus'', in_range 0 1 bus), (''bitrate'', bitrate \<in> {125000, 250000, 500000, 1000000})]"
| "control_fields UsbEnumerate = []"
| "control_fields (UsbSelect vendor_id product_id serial interface_number) =
     [(''vendor_id'', in_range 0 0xFFFF vendor_id), (''product_id'', in_range 0 0xFFFF product_id),
      (''serial'', opt_ok (length_ok 1 126) serial),
      (''interface_number'', opt_ok (in_range 0 255) interface_number)]"
| "control_fields UsbReset = []"
| "control_fields UsbRelease = []"
| "control_fields (WifiConnect profile) =
     [(''profile'', length_ok 1 64 profile \<and> profile_name_re profile)]"
| "control_fields WifiDisconnect = []"
| "control_fields (WifiSocketOpen protocol host port local_port) =
     [(''host'', length_ok 1 253 host), (''port'', in_range 1 65535 port),
      (''local_port'', opt_ok (in_range 1 65535) local_port)]"
| "control_fields (WifiSocketClose socket_id) = [(''socket_id'', in_range 0 7 socket_id)]"
| "control_fields (BleScan duration_ms service_uuid) =
     [(''duration_ms'', in_range 100 30000 duration_ms),
      (''service_uuid'', opt_ok (length_ok 4 36) service_uuid)]"
| "control_fields (BleConnect address) =
     [(''address'', length_ok 17 17 address \<and> ble_address_re address)]"
| "control_fields BleDisconnect = []"
| "control_fields (BlePair passkey_profile) =
     [(''passkey_profile'', opt_ok (\<lambda>s. length_ok 1 64 s \<and> profile_name_re s) passkey_profile)]"
| "control_fields (BleDiscover service_uuid) =
     [(''service_uuid'', opt_ok (length_ok 4 36) service_uuid)]"
| "control_fields (BleSubscribe service_uuid characteristic_uuid enabled) =
     [(''service_uuid'', length_ok 4 36 service_uuid),
      (''characteristic_uuid'', length_ok 4 36 characteristic_uuid)]"
| "control_fields (GpioConfigure pin mode pull initial_value) = [(''pin'', pin_ok pin)]"
| "control_fields (GpioWatch pin edge) = [(''pin'', pin_ok pin)]"

primrec exchange_fields :: "exchange_request \<Rightarrow> (string \<times> bool) list" where
  "exchange_fields (SpiExchange data bus chip_select clock_hz mode bit_order fill_byte read_length) =
     [(''data_base64'', payload_ok data), (''bus'', in_range 0 1 bus),
      (''chip_select'', pin_ok chip_select), (''clock_hz'', in_range 1000 50000000 clock_hz),
      (''mode'', mode \<in> {0, 1, 2, 3}), (''fill_byte'', in_range 0 255 fill_byte),
      (''read_length'', in_range 0 (int MAX_APPLICATION_PAYLOAD) read_length)]"
| "exchange_fields (I2cExchange data bus address read_length repeated_start clock_hz) =
     [(''data_base64'', payload_ok data), (''bus'', bus \<in> {0, 1}),
      (''address'', in_range 0x08 0x77 address), (''read_length'', in_range 0 32 read_length),
      (''clock_hz'', clock_hz \<in> {100000, 400000})]"
| "exchange_fields (UartWrite data port) =
     [(''data_base64'', payload_ok data), (''port'', in_range 0 3 port)]"
| "exchange_fields (CanSend data bus arbitration_id extended) =
     [(''data_base64'', payload_ok data), (''bus'', in_range 0 1 bus),
      (''arbitration_id'', in_range 0 0x1FFFFFFF arbitration_id)]"
| "exchange_fields (UsbTransfer data transfer_type endpoint read_length request_type request val index) =
     [(''data_base64'', payload_ok data), (''endpoint'', in_range 0 0x8F endpoint),
      (''read_length'', in_range 0 (int MAX_APPLICATION_PAYLOAD) read_length),
      (''request_type'', opt_ok (in_range 0 255) request_type),
      (''request'', opt_ok (in_range 0 255) request),
      (''value'', opt_ok (in_range 0 0xFFFF) val), (''index'', opt_ok (in_range 0 0xFFFF) index)]"
| "exchange_fields (WifiSend data socket_id) =
     [(''data_base64'', payload_ok data), (''socket_id'', in_range 0 7 socket_id)]"
| "exchange_fields (BleRead service_uuid characteristic_uuid) =
     [(''service_uuid'', length_ok 4 36 service_uuid),
      (''characteristic_uuid'', length_ok 4 36 characteristic_uuid)]"
| "exchange_fields (BleWrite data service_uuid characteristic_uuid write_mode) =
     [(''data_base64'', payload_ok data), (''service_uuid'', length_ok 4 36 service_uuid),
      (''characteristic_uuid'', length_ok 4 36 characteristic_uuid)]"
| "exchange_fields (GpioRead pin) = [(''pin'', pin_ok pin)]"
| "exchange_fields (GpioWrite pin val) = [(''pin'', pin_ok pin)]"
| "exchange_fields (GpioPulse pin val duration_us) =
     [(''pin'', pin_ok pin), (''duration_us'', in_range 1 1000000 duration_us)]"

primrec receive_fields :: "receive_request \<Rightarrow> (string \<times> bool) list" where
  "receive_fields (Receive protocol channel limit drain timeout_ms) =
     [(''protocol'', protocol \<in> {Uart, Can, Usb, Wifi, Ble, Gpio}),
      (''channel'', in_range 0 255 channel),
      (''limit'', in_range 1 (int MAX_APPLICATION_PAYLOAD) limit),
      (''timeout_ms'', in_range 0 300000 timeout_ms)]"

definition failing :: "(string \<times> bool) list \<Rightarrow> string list" where
  "failing checks = map fst (filter (\<lambda>c. \<not> snd c) checks)"

lemma failing_Nil: "failing checks = [] \<longleftrightarrow> list_all snd checks"
  by (induction checks) (auto simp: failing_def)

subsection \<open>Model validators\<close>

primrec control_model_error :: "control_request \<Rightarrow> string option" where
  "control_model_error (GpioConfigure pin mode pull initial_value) =
     (if mode = GpioOutput \<and> pull \<noteq> PullNone then Some ''GPIO output does not accept a pull mode''
      else if mode = GpioInput \<and> initial_value \<noteq> None then Some ''GPIO input does not accept an initial value''
      else None)"
| "control_model_error (UartConfigure _ _ _ _ _) = None"
| "control_model_error (CanConfigure _ _) = None"
| "control_model_error UsbEnumerate = None"
| "control_model_error (UsbSelect _ _ _ _) = None"
| "control_model_error UsbReset = None"
| "control_model_error UsbRelease = None"
| "control_model_error (WifiConnect _) = None"
| "control_model_error WifiDisconnect = None"
| "control_model_error (WifiSocketOpen _ _ _ _) = None"
| "control_model_error (WifiSocketClose _) = None"
| "control_model_error (BleScan _ _) = None"
| "control_model_error (BleConnect _) = None"
| "control_model_error BleDisconnect = None"
| "control_model_error (BlePair _) = None"
| "control_model_error (BleDiscover _) = None"
| "control_model_error (BleSubscribe _ _ _) = None"
| "control_model_error (GpioWatch _ _) = None"

primrec exchange_model_error :: "exchange_request \<Rightarrow> string option" where
  "exchange_model_error (SpiExchange data bus chip_select clock_hz mode bit_order fill_byte read_length) =
     (case decode_canonical_base64 data MAX_BRIDGE_PAYLOAD of
        Inl _ \<Rightarrow> Some ''payload''
      | Inr bs \<Rightarrow> if max (int (length bs)) read_length > int MAX_APPLICATION_PAYLOAD
          then Some ''SPI transfer exceeds the request limit'' else None)"
| "exchange_model_error (I2cExchange data bus address read_length repeated_start clock_hz) =
     (case decode_canonical_base64 data 32 of
        Inl _ \<Rightarrow> Some ''payload''
      | Inr bs \<Rightarrow> if length bs > 32 then Some ''I2C writes are limited'' else None)"
| "exchange_model_error (CanSend data bus arbitration_id extended) =
     (case decode_canonical_base64 data 8 of
        Inl _ \<Rightarrow> Some ''payload''
      | Inr payload \<Rightarrow>
          if \<not> extended \<and> arbitration_id > 0x7FF then Some ''standard CAN identifiers''
          else if length payload > 8 then Some ''classic CAN payloads''
          else None)"
| "exchange_model_error (UsbTransfer data transfer_type endpoint read_length request_type request val index) =
     (let control_fields = [request_type, request, val, index];
          control_error =
            (if transfer_type = UsbControl then
               if list_ex (\<lambda>v. v = None) control_fields then Some ''control USB transfers require setup packet fields''
               else if endpoint \<noteq> 0 then Some ''control transfers use endpoint zero''
               else None
             else if list_ex (\<lambda>v. v \<noteq> None) control_fields
               then Some ''USB setup packet fields are control-transfer only''
             else None)
      in if control_error \<noteq> None then control_error
         else if transfer_type = UsbInterrupt \<and> read_length > 4096
           then Some ''interrupt transfers are limited to 4096 bytes''
         else None)"
| "exchange_model_error (UartWrite _ _) = None"
| "exchange_model_error (WifiSend _ _) = None"
| "exchange_model_error (BleRead _ _) = None"
| "exchange_model_error (BleWrite _ _ _ _) = None"
| "exchange_model_error (GpioRead _) = None"
| "exchange_model_error (GpioWrite _ _) = None"
| "exchange_model_error (GpioPulse _ _ _) = None"

subsection \<open>Validation of a whole request\<close>

text \<open>A field validator returns the value the field keeps; for pins that is the normalized label.\<close>

definition normal_pin :: "string \<Rightarrow> string" where
  "normal_pin s = str_upper (str_strip s)"

primrec normal_control :: "control_request \<Rightarrow> control_request" where
  "normal_control (GpioConfigure pin mode pull initial_value) = GpioConfigure (normal_pin pin) mode pull initial_value"
| "normal_control (GpioWatch pin edge) = GpioWatch (normal_pin pin) edge"
| "normal_control (UartConfigure a b c d e) = UartConfigure a b c d e"
| "normal_control (CanConfigure a b) = CanConfigure a b"
| "normal_control UsbEnumerate = UsbEnumerate"
| "normal_control (UsbSelect a b c d) = UsbSelect a b c d"
| "normal_control UsbReset = UsbReset"
| "normal_control UsbRelease = UsbRelease"
| "normal_control (WifiConnect a) = WifiConnect a"
| "normal_control WifiDisconnect = WifiDisconnect"
| "normal_control (WifiSocketOpen a b c d) = WifiSocketOpen a b c d"
| "normal_control (WifiSocketClose a) = WifiSocketClose a"
| "normal_control (BleScan a b) = BleScan a b"
| "normal_control (BleConnect a) = BleConnect a"
| "normal_control BleDisconnect = BleDisconnect"
| "normal_control (BlePair a) = BlePair a"
| "normal_control (BleDiscover a) = BleDiscover a"
| "normal_control (BleSubscribe a b c) = BleSubscribe a b c"

primrec normal_exchange :: "exchange_request \<Rightarrow> exchange_request" where
  "normal_exchange (SpiExchange data bus chip_select clock_hz mode bit_order fill_byte read_length) =
     SpiExchange data bus (normal_pin chip_select) clock_hz mode bit_order fill_byte read_length"
| "normal_exchange (GpioRead pin) = GpioRead (normal_pin pin)"
| "normal_exchange (GpioWrite pin val) = GpioWrite (normal_pin pin) val"
| "normal_exchange (GpioPulse pin val duration_us) = GpioPulse (normal_pin pin) val duration_us"
| "normal_exchange (I2cExchange a b c d e f) = I2cExchange a b c d e f"
| "normal_exchange (UartWrite a b) = UartWrite a b"
| "normal_exchange (CanSend a b c d) = CanSend a b c d"
| "normal_exchange (UsbTransfer a b c d e f g h) = UsbTransfer a b c d e f g h"
| "normal_exchange (WifiSend a b) = WifiSend a b"
| "normal_exchange (BleRead a b) = BleRead a b"
| "normal_exchange (BleWrite a b c d) = BleWrite a b c d"

definition validate_control :: "control_request \<Rightarrow> validation_error + control_request" where
  "validate_control r =
     (if failing (control_fields r) \<noteq> [] then Inl (BadFields (failing (control_fields r)))
      else case control_model_error (normal_control r) of
          Some e \<Rightarrow> Inl (BadModel e)
        | None \<Rightarrow> Inr (normal_control r))"

definition validate_exchange :: "exchange_request \<Rightarrow> validation_error + exchange_request" where
  "validate_exchange r =
     (if failing (exchange_fields r) \<noteq> [] then Inl (BadFields (failing (exchange_fields r)))
      else case exchange_model_error (normal_exchange r) of
          Some e \<Rightarrow> Inl (BadModel e)
        | None \<Rightarrow> Inr (normal_exchange r))"

definition validate_receive :: "receive_request \<Rightarrow> validation_error + receive_request" where
  "validate_receive r =
     (if failing (receive_fields r) \<noteq> [] then Inl (BadFields (failing (receive_fields r))) else Inr r)"

text \<open>Secret profiles: lengths of the Wi-Fi credentials and the six digits of a passkey.\<close>

record wifi_credentials =
  ssid :: string
  password :: string

definition wifi_credentials_ok :: "wifi_credentials \<Rightarrow> bool" where
  "wifi_credentials_ok p = (length_ok 1 32 (ssid p) \<and> length_ok 8 63 (password p))"

definition passkey_ok :: "string \<Rightarrow> bool" where
  "passkey_ok s = (length s = 6 \<and> list_all ascii_digit s)"

record bridge_profiles =
  profiles_wifi :: "(string, wifi_credentials) dict"
  profiles_ble_passkeys :: "(string, string) dict"

definition bridge_profiles_ok :: "bridge_profiles \<Rightarrow> bool" where
  "bridge_profiles_ok p = (list_all (wifi_credentials_ok \<circ> snd) (profiles_wifi p)
     \<and> list_all (passkey_ok \<circ> snd) (profiles_ble_passkeys p))"

subsection \<open>Safe pins\<close>

definition safe_pin_number :: "nat \<Rightarrow> bool" where
  "safe_pin_number n = (2 \<le> n \<and> n \<le> 10 \<or> 22 \<le> n \<and> n \<le> 85)"

lemma SAFE_GPIO_PINS_iff: "label \<in> set SAFE_GPIO_PINS \<longleftrightarrow> (\<exists>n. safe_pin_number n \<and> label = CHR ''D'' # show_nat n)"
proof -
  have lt: "n < 11 \<longleftrightarrow> n \<le> 10" "n < 86 \<longleftrightarrow> n \<le> 85" for n :: nat by auto
  show ?thesis
    unfolding SAFE_GPIO_PINS_def safe_pin_number_def
    by (simp only: set_append set_map set_upt Un_iff image_iff Bex_def atLeastLessThan_iff lt) blast
qed

lemma safe_pin_re: "label \<in> set SAFE_GPIO_PINS \<Longrightarrow> pin_re label"
proof -
  assume "label \<in> set SAFE_GPIO_PINS"
  then obtain n where n: "safe_pin_number n" "label = CHR ''D'' # show_nat n"
    by (auto simp: SAFE_GPIO_PINS_iff)
  show "pin_re label"
  proof (cases "n < 10")
    case True
    then show ?thesis by (simp add: n(2) show_nat_one pin_re_def ascii_digit_char)
  next
    case False
    then have m: "10 \<le> n" "n < 100" "n div 10 < 10" "0 < n div 10"
      using n(1) by (auto simp: safe_pin_number_def)
    have "code (digit_char (n div 10)) \<noteq> code (CHR ''0'')"
      using m by (simp add: code_digit_char)
    then have "digit_char (n div 10) \<noteq> CHR ''0''" by metis
    with m show ?thesis by (simp add: n(2) show_nat_two pin_re_def ascii_digit_char)
  qed
qed

lemma normal_safe_pin: "label \<in> set SAFE_GPIO_PINS \<Longrightarrow> normal_pin label = label"
proof -
  assume "label \<in> set SAFE_GPIO_PINS"
  then obtain n where n: "label = CHR ''D'' # show_nat n" by (auto simp: SAFE_GPIO_PINS_iff)
  have D: "\<not> py_isspace (CHR ''D'')" "char_upper (CHR ''D'') = CHR ''D''"
    by (simp_all add: py_isspace_def char_upper_def ascii_lower_def)
  have digits: "ascii_digit c" if "c \<in> set (show_nat n)" for c
    using that show_nat_digits [of n] by (auto simp: list_all_iff)
  have "str_strip label = label"
    by (rule str_strip_plain) (simp add: n D list_all_iff digits digit_not_space)
  moreover have "map char_upper label = label"
    by (simp add: n D map_idI digits digit_upper)
  ultimately show ?thesis by (simp add: normal_pin_def str_upper_def)
qed

lemma validate_safe_pin_Inr:
  "validate_safe_pin val = Inr label \<longleftrightarrow> label = normal_pin val \<and> label \<in> set SAFE_GPIO_PINS"
  using safe_pin_re by (auto simp: validate_safe_pin_def normal_pin_def Let_def)

lemma pin_ok_iff: "pin_ok s \<longleftrightarrow> normal_pin s \<in> set SAFE_GPIO_PINS"
  by (auto simp: pin_ok_def returns_iff validate_safe_pin_Inr)

lemma pin_ok_normal: "pin_ok s \<Longrightarrow> pin_ok (normal_pin s) \<and> normal_pin (normal_pin s) = normal_pin s"
  by (simp add: pin_ok_iff normal_safe_pin)

text \<open>The pin validator accepts a label exactly when, stripped and upper-cased, it is \<open>D\<close> followed
  by the decimal number of an exposed pin, 2 to 10 or 22 to 85; it returns that normal form, which
  it accepts again unchanged, and its digits parse back to the number.\<close>

theorem safe_pin_exact:
  "(validate_safe_pin val = Inr label \<longleftrightarrow>
      label = str_upper (str_strip val) \<and>
      (\<exists>n. safe_pin_number n \<and> label = CHR ''D'' # show_nat n \<and> parse_nat (tl label) = Some n))
   \<and> (case validate_safe_pin val of Inl _ \<Rightarrow> True | Inr l \<Rightarrow> validate_safe_pin l = Inr l)"
proof (rule conjI)
  show "validate_safe_pin val = Inr label \<longleftrightarrow> label = str_upper (str_strip val) \<and>
      (\<exists>n. safe_pin_number n \<and> label = CHR ''D'' # show_nat n \<and> parse_nat (tl label) = Some n)"
    by (auto simp: validate_safe_pin_Inr SAFE_GPIO_PINS_iff normal_pin_def)
  show "case validate_safe_pin val of Inl _ \<Rightarrow> True | Inr l \<Rightarrow> validate_safe_pin l = Inr l"
    by (auto simp: validate_safe_pin_Inr normal_safe_pin split: sum.split)
qed

subsection \<open>Validated requests\<close>

lemma validate_control_Inr:
  "validate_control r = Inr r' \<longleftrightarrow>
     list_all snd (control_fields r) \<and> r' = normal_control r \<and> control_model_error r' = None"
  by (auto simp: validate_control_def failing_Nil split: option.splits)

lemma validate_exchange_Inr:
  "validate_exchange r = Inr r' \<longleftrightarrow>
     list_all snd (exchange_fields r) \<and> r' = normal_exchange r \<and> exchange_model_error r' = None"
  by (auto simp: validate_exchange_def failing_Nil split: option.splits)

lemma normal_control_fields:
  "list_all snd (control_fields r) \<Longrightarrow>
   list_all snd (control_fields (normal_control r)) \<and> normal_control (normal_control r) = normal_control r"
  by (cases r) (auto dest: pin_ok_normal)

lemma normal_exchange_fields:
  "list_all snd (exchange_fields r) \<Longrightarrow>
   list_all snd (exchange_fields (normal_exchange r)) \<and> normal_exchange (normal_exchange r) = normal_exchange r"
  by (cases r) (auto dest: pin_ok_normal)

lemma validated_control:
  assumes "validate_control r = Inr r'"
  shows "validate_control r' = Inr r'" "list_all snd (control_fields r')" "control_model_error r' = None"
  using assms normal_control_fields [of r] by (auto simp: validate_control_Inr)

lemma validated_exchange:
  assumes "validate_exchange r = Inr r'"
  shows "validate_exchange r' = Inr r'" "list_all snd (exchange_fields r')" "exchange_model_error r' = None"
  using assms normal_exchange_fields [of r] by (auto simp: validate_exchange_Inr)

end
