(* ===== verification/Bridge_Request.thy ===== *)
theory Bridge_Request
  imports Bridge_Models Tlv
begin

text \<open>
  From a validated request to the body of a bridge message: \<^verbatim>\<open>model_dump\<close> of the request classes and
  the tables, \<open>wire_scalar\<close> and \<open>encode_request_body\<close> of \<^verbatim>\<open>wire.py\<close>. A dumped request is a dictionary
  from field names to JSON scalars, in declaration order with inherited fields first and \<^verbatim>\<open>None\<close>
  left out.
\<close>

datatype pyval = PyInt int | PyBool bool | PyStr string

type_synonym fields = "(string, pyval) dict"

subsection \<open>Dumped requests\<close>

definition opt_field :: "string \<Rightarrow> ('a \<Rightarrow> pyval) \<Rightarrow> 'a option \<Rightarrow> fields" where
  "opt_field name f z = (case z of None \<Rightarrow> [] | Some x \<Rightarrow> [(name, f x)])"

primrec control_operation :: "control_request \<Rightarrow> string" where
  "control_operation (UartConfigure _ _ _ _ _) = ''uart_configure''"
| "control_operation (CanConfigure _ _) = ''can_configure''"
| "control_operation UsbEnumerate = ''usb_enumerate''"
| "control_operation (UsbSelect _ _ _ _) = ''usb_select''"
| "control_operation UsbReset = ''usb_reset''"
| "control_operation UsbRelease = ''usb_release''"
| "control_operation (WifiConnect _) = ''wifi_connect''"
| "control_operation WifiDisconnect = ''wifi_disconnect''"
| "control_operation (WifiSocketOpen _ _ _ _) = ''wifi_socket_open''"
| "control_operation (WifiSocketClose _) = ''wifi_socket_close''"
| "control_operation (BleScan _ _) = ''ble_scan''"
| "control_operation (BleConnect _) = ''ble_connect''"
| "control_operation BleDisconnect = ''ble_disconnect''"
| "control_operation (BlePair _) = ''ble_pair''"
| "control_operation (BleDiscover _) = ''ble_discover''"
| "control_operation (BleSubscribe _ _ _) = ''ble_subscribe''"
| "control_operation (GpioConfigure _ _ _ _) = ''gpio_configure''"
| "control_operation (GpioWatch _ _) = ''gpio_watch''"

primrec control_values :: "control_request \<Rightarrow> fields" where
  "control_values (UartConfigure port baudrate data_bits parity stop_bits) =
     [(''port'', PyInt port), (''baudrate'', PyInt baudrate), (''data_bits'', PyInt data_bits),
      (''parity'', PyStr (uart_parity_value parity)), (''stop_bits'', PyInt stop_bits)]"
| "control_values (CanConfigure bus bitrate) = [(''bus'', PyInt bus), (''bitrate'', PyInt bitrate)]"
| "control_values UsbEnumerate = []"
| "control_values (UsbSelect vendor_id product_id serial interface_number) =
     [(''vendor_id'', PyInt vendor_id), (''product_id'', PyInt product_id)]
     @ opt_field ''serial'' PyStr serial @ opt_field ''interface_number'' PyInt interface_number"
| "control_values UsbReset = []"
| "control_values UsbRelease = []"
| "control_values (WifiConnect profile) = [(''profile'', PyStr profile)]"
| "control_values WifiDisconnect = []"
| "control_values (WifiSocketOpen protocol host port local_port) =
     [(''protocol'', PyStr (socket_protocol_value protocol)), (''host'', PyStr host), (''port'', PyInt port)]
     @ opt_field ''local_port'' PyInt local_port"
| "control_values (WifiSocketClose socket_id) = [(''socket_id'', PyInt socket_id)]"
| "control_values (BleScan duration_ms service_uuid) =
     [(''duration_ms'', PyInt duration_ms)] @ opt_field ''service_uuid'' PyStr service_uuid"
| "control_values (BleConnect address) = [(''address'', PyStr address)]"
| "control_values BleDisconnect = []"
| "control_values (BlePair passkey_profile) = opt_field ''passkey_profile'' PyStr passkey_profile"
| "control_values (BleDiscover service_uuid) = opt_field ''service_uuid'' PyStr service_uuid"
| "control_values (BleSubscribe service_uuid characteristic_uuid enabled) =
     [(''service_uuid'', PyStr service_uuid), (''characteristic_uuid'', PyStr characteristic_uuid),
      (''enabled'', PyBool enabled)]"
| "control_values (GpioConfigure pin mode pull initial_value) =
     [(''pin'', PyStr pin), (''mode'', PyStr (gpio_mode_value mode)), (''pull'', PyStr (gpio_pull_value pull))]
     @ opt_field ''initial_value'' PyBool initial_value"
| "control_values (GpioWatch pin edge) =
     [(''pin'', PyStr pin), (''edge'', PyStr (gpio_edge_value edge))]"

definition dump_control :: "control_request \<Rightarrow> fields" where
  "dump_control r = (''operation'', PyStr (control_operation r)) # control_values r"

primrec exchange_operation :: "exchange_request \<Rightarrow> string" where
  "exchange_operation (SpiExchange _ _ _ _ _ _ _ _) = ''spi_exchange''"
| "exchange_operation (I2cExchange _ _ _ _ _ _) = ''i2c_exchange''"
| "exchange_operation (UartWrite _ _) = ''uart_write''"
| "exchange_operation (CanSend _ _ _ _) = ''can_send''"
| "exchange_operation (UsbTransfer _ _ _ _ _ _ _ _) = ''usb_transfer''"
| "exchange_operation (WifiSend _ _) = ''wifi_send''"
| "exchange_operation (BleRead _ _) = ''ble_read''"
| "exchange_operation (BleWrite _ _ _ _) = ''ble_write''"
| "exchange_operation (GpioRead _) = ''gpio_read''"
| "exchange_operation (GpioWrite _ _) = ''gpio_write''"
| "exchange_operation (GpioPulse _ _ _) = ''gpio_pulse''"

text \<open>The inherited payload field, where the class has one, and the fields after the operation.\<close>

primrec exchange_data :: "exchange_request \<Rightarrow> string option" where
  "exchange_data (SpiExchange data _ _ _ _ _ _ _) = Some data"
| "exchange_data (I2cExchange data _ _ _ _ _) = Some data"
| "exchange_data (UartWrite data _) = Some data"
| "exchange_data (CanSend data _ _ _) = Some data"
| "exchange_data (UsbTransfer data _ _ _ _ _ _ _) = Some data"
| "exchange_data (WifiSend data _) = Some data"
| "exchange_data (BleRead _ _) = None"
| "exchange_data (BleWrite data _ _ _) = Some data"
| "exchange_data (GpioRead _) = None"
| "exchange_data (GpioWrite _ _) = None"
| "exchange_data (GpioPulse _ _ _) = None"

primrec exchange_values :: "exchange_request \<Rightarrow> fields" where
  "exchange_values (SpiExchange data bus chip_select clock_hz mode bit_order fill_byte read_length) =
     [(''bus'', PyInt bus), (''chip_select'', PyStr chip_select), (''clock_hz'', PyInt clock_hz),
      (''mode'', PyInt mode), (''bit_order'', PyStr (bit_order_value bit_order)),
      (''fill_byte'', PyInt fill_byte), (''read_length'', PyInt read_length)]"
| "exchange_values (I2cExchange data bus address read_length repeated_start clock_hz) =
     [(''bus'', PyInt bus), (''address'', PyInt address), (''read_length'', PyInt read_length),
      (''repeated_start'', PyBool repeated_start), (''clock_hz'', PyInt clock_hz)]"
| "exchange_values (UartWrite data port) = [(''port'', PyInt port)]"
| "exchange_values (CanSend data bus arbitration_id extended) =
     [(''bus'', PyInt bus), (''arbitration_id'', PyInt arbitration_id), (''extended'', PyBool extended)]"
| "exchange_values (UsbTransfer data transfer_type endpoint read_length request_type request val index) =
     [(''transfer_type'', PyStr (usb_transfer_type_value transfer_type)), (''endpoint'', PyInt endpoint),
      (''read_length'', PyInt read_length)]
     @ opt_field ''request_type'' PyInt request_type @ opt_field ''request'' PyInt request
     @ opt_field ''value'' PyInt val @ opt_field ''index'' PyInt index"
| "exchange_values (WifiSend data socket_id) = [(''socket_id'', PyInt socket_id)]"
| "exchange_values (BleRead service_uuid characteristic_uuid) =
     [(''service_uuid'', PyStr service_uuid), (''characteristic_uuid'', PyStr characteristic_uuid)]"
| "exchange_values (BleWrite data service_uuid characteristic_uuid write_mode) =
     [(''service_uuid'', PyStr service_uuid), (''characteristic_uuid'', PyStr characteristic_uuid),
      (''write_mode'', PyStr (ble_write_mode_value write_mode))]"
| "exchange_values (GpioRead pin) = [(''pin'', PyStr pin)]"
| "exchange_values (GpioWrite pin val) = [(''pin'', PyStr pin), (''value'', PyBool val)]"
| "exchange_values (GpioPulse pin val duration_us) =
     [(''pin'', PyStr pin), (''value'', PyBool val), (''duration_us'', PyInt duration_us)]"

definition dump_exchange :: "exchange_request \<Rightarrow> fields" where
  "dump_exchange r =
     opt_field ''data_base64'' PyStr (exchange_data r)
     @ (''operation'', PyStr (exchange_operation r)) # exchange_values r"

primrec dump_receive :: "receive_request \<Rightarrow> fields" where
  "dump_receive (Receive protocol channel limit drain timeout_ms) =
     [(''protocol'', PyStr (bridge_protocol_value protocol)), (''channel'', PyInt channel),
      (''limit'', PyInt limit), (''drain'', PyBool drain), (''timeout_ms'', PyInt timeout_ms)]"

subsection \<open>Wire tables\<close>

definition OPERATIONS :: "(string \<times> nat) list" where
  "OPERATIONS =
     [(''get_status'', 1), (''receive'', 2), (''uart_configure'', 10), (''can_configure'', 11),
      (''usb_enumerate'', 12), (''usb_select'', 13), (''usb_reset'', 14), (''usb_release'', 15),
      (''wifi_connect'', 16), (''wifi_disconnect'', 17), (''wifi_socket_open'', 18),
      (''wifi_socket_close'', 19), (''ble_scan'', 20), (''ble_connect'', 21),
      (''ble_disconnect'', 22), (''ble_pair'', 23), (''ble_discover'', 24), (''ble_subscribe'', 25),
      (''gpio_configure'', 26), (''gpio_watch'', 27), (''spi_exchange'', 40), (''i2c_exchange'', 41),
      (''uart_write'', 42), (''can_send'', 43), (''usb_transfer'', 44), (''wifi_send'', 45),
      (''ble_read'', 46), (''ble_write'', 47), (''gpio_read'', 48), (''gpio_write'', 49),
      (''gpio_pulse'', 50)]"

definition FieldId :: "(string \<times> nat) list" where
  "FieldId =
     [(''OPERATION'', 1), (''PROTOCOL'', 2), (''BUS'', 3), (''UART_PORT'', 4), (''DATA'', 5),
      (''READ_LENGTH'', 6), (''CLOCK_HZ'', 7), (''MODE'', 8), (''BIT_ORDER'', 9), (''CHIP_SELECT'', 10),
      (''FILL_BYTE'', 11), (''I2C_ADDRESS'', 12), (''REPEATED_START'', 13), (''BAUDRATE'', 14),
      (''DATA_BITS'', 15), (''PARITY'', 16), (''STOP_BITS'', 17), (''CAN_BITRATE'', 18), (''CAN_ID'', 19),
      (''CAN_EXTENDED'', 20), (''VID'', 21), (''PID'', 22), (''SERIAL'', 23), (''USB_INTERFACE'', 24),
      (''ENDPOINT'', 25), (''TRANSFER_TYPE'', 26), (''REQUEST_TYPE'', 27), (''REQUEST'', 28),
      (''VALUE'', 29), (''INDEX'', 30), (''PROFILE'', 31), (''HOST'', 32), (''NETWORK_PORT'', 33),
      (''SOCKET_ID'', 34), (''SOCKET_PROTOCOL'', 35), (''BLE_ADDRESS'', 36), (''SERVICE_UUID'', 37),
      (''CHARACTERISTIC_UUID'', 38), (''WRITE_MODE'', 39), (''PIN'', 40), (''GPIO_MODE'', 41),
      (''GPIO_VALUE'', 42), (''PULL'', 43), (''EDGE'', 44), (''DURATION_US'', 45), (''LIMIT'', 46),
      (''DRAIN'', 47), (''TIMEOUT_MS'', 48), (''CHANNEL'', 49), (''SCAN_DURATION_MS'', 50),
      (''PASSKEY'', 51), (''SSID'', 52), (''PASSWORD'', 53), (''LOCAL_PORT'', 54), (''ENABLED'', 55),
      (''INITIAL_VALUE'', 56), (''STATUS'', 0x8001), (''RESPONSE_DATA'', 0x8002),
      (''METADATA_JSON'', 0x8003), (''QUEUE_DEPTH'', 0x8004), (''OVERFLOW_COUNT'', 0x8005),
      (''TIMESTAMP_US'', 0x8006), (''ERROR_MESSAGE'', 0x8007)]"

definition FIELD_NAMES :: "(string \<times> nat) list" where
  "FIELD_NAMES =
     [(''protocol'', 2), (''bus'', 3), (''port'', 4),
      (''data_base64'', 5), (''read_length'', 6), (''clock_hz'', 7),
      (''mode'', 8), (''bit_order'', 9), (''chip_select'', 10),
      (''fill_byte'', 11), (''address'', 12), (''repeated_start'', 13),
      (''baudrate'', 14), (''data_bits'', 15), (''parity'', 16),
      (''stop_bits'', 17), (''bitrate'', 18), (''arbitration_id'', 19),
      (''extended'', 20), (''vendor_id'', 21), (''product_id'', 22),
      (''serial'', 23), (''interface_number'', 24), (''endpoint'', 25),
      (''transfer_type'', 26), (''request_type'', 27), (''request'', 28),
      (''value'', 29), (''index'', 30), (''profile'', 31), (''host'', 32),
      (''socket_id'', 34), (''write_mode'', 39), (''service_uuid'', 37),
      (''characteristic_uuid'', 38), (''pin'', 40), (''pull'', 43),
      (''edge'', 44), (''duration_us'', 45), (''limit'', 46), (''drain'', 47),
      (''timeout_ms'', 48), (''channel'', 49), (''duration_ms'', 50),
      (''enabled'', 55), (''initial_value'', 56)]"

definition ENUM_VALUES :: "(string \<times> (string \<times> nat) list) list" where
  "ENUM_VALUES =
     [(''protocol'', [(''spi'', 0), (''i2c'', 1), (''uart'', 2), (''can'', 3), (''usb'', 4), (''wifi'', 5),
                      (''ble'', 6), (''gpio'', 7)]),
      (''bit_order'', [(''msb_first'', 0), (''lsb_first'', 1)]),
      (''parity'', [(''none'', 0), (''even'', 1), (''odd'', 2)]),
      (''transfer_type'', [(''control'', 0), (''bulk'', 1), (''interrupt'', 2)]),
      (''write_mode'', [(''with_response'', 0), (''without_response'', 1)]),
      (''pull'', [(''none'', 0), (''up'', 1), (''down'', 2)]),
      (''edge'', [(''none'', 0), (''rising'', 1), (''falling'', 2), (''change'', 3)]),
      (''mode'', [(''input'', 0), (''output'', 1)]),
      (''protocol_socket'', [(''tcp'', 0), (''udp'', 1)])]"

definition U8_FIELDS :: "string list" where
  "U8_FIELDS =
     [''bus'', ''port'', ''mode'', ''bit_order'', ''fill_byte'', ''address'', ''data_bits'', ''parity'',
      ''stop_bits'', ''extended'', ''interface_number'', ''endpoint'', ''transfer_type'',
      ''request_type'', ''request'', ''socket_id'', ''write_mode'', ''pull'', ''edge'', ''channel'',
      ''drain'', ''enabled'', ''initial_value'', ''value_gpio'', ''repeated_start'', ''protocol'']"

definition U16_FIELDS :: "string list" where
  "U16_FIELDS =
     [''vendor_id'', ''product_id'', ''value'', ''index'', ''port_network'', ''local_port'', ''limit'',
      ''pin'', ''chip_select'']"

definition U32_FIELDS :: "string list" where
  "U32_FIELDS =
     [''read_length'', ''clock_hz'', ''baudrate'', ''bitrate'', ''arbitration_id'', ''duration_us'',
      ''timeout_ms'', ''duration_ms'']"

definition field_number :: "string \<Rightarrow> nat" where
  "field_number name = (case dict_get FieldId name of None \<Rightarrow> 0 | Some n \<Rightarrow> n)"

subsection \<open>Scalars\<close>

text \<open>The first group are \<^verbatim>\<open>BridgeWireError\<close>; the others are the errors of the language that the code
  does not translate.\<close>

datatype body_error =
    BodyTlv tlv_error
  | InvalidPinLabel string
  | UnsupportedValue string string    \<comment> \<open>field, value\<close>
  | IntegerOutsideUint32 string
  | StringTooLong string
  | UnknownOperation
  | FieldNotAssigned string
  | BadPayload payload_error
  | StructError string                \<comment> \<open>\<^verbatim>\<open>struct.error\<close> of a field\<close>
  | NotAnInteger string               \<comment> \<open>\<^verbatim>\<open>ValueError\<close> of \<^verbatim>\<open>int(..)\<close>\<close>
  | NotAString                        \<comment> \<open>\<^verbatim>\<open>AttributeError\<close> or \<^verbatim>\<open>TypeError\<close>\<close>
  | MissingKey string

definition pin_number :: "pyval \<Rightarrow> body_error + int" where
  "pin_number v =
     (case v of
        PyStr s \<Rightarrow>
          if \<not> str_startswith s ''D'' \<or> \<not> str_isdigit (drop 1 s) then Inl (InvalidPinLabel s)
          else (case parse_nat (drop 1 s) of None \<Rightarrow> Inl (NotAnInteger s) | Some n \<Rightarrow> Inr (int n))
      | _ \<Rightarrow> Inl NotAString)"

definition pack_unsigned :: "string \<Rightarrow> nat \<Rightarrow> pyval \<Rightarrow> body_error + bytes" where
  "pack_unsigned field width v =
     (case v of
        PyInt n \<Rightarrow> if 0 \<le> n \<and> n < 256 ^ width then Inr (le_bytes width (nat n)) else Inl (StructError field)
      | PyBool b \<Rightarrow> Inr (le_bytes width (of_bool b))
      | PyStr _ \<Rightarrow> Inl (StructError field))"

definition enum_scalar :: "string \<Rightarrow> pyval \<Rightarrow> body_error + pyval" where
  "enum_scalar field v =
     (let enum_map_name = (if field = ''protocol'' \<and> v \<in> {PyStr ''tcp'', PyStr ''udp''}
                           then ''protocol_socket'' else field) in
      case v of
        PyStr s \<Rightarrow>
          (case dict_get ENUM_VALUES enum_map_name of
             None \<Rightarrow> Inr v
           | Some mapping \<Rightarrow>
               (case dict_get mapping s of
                  None \<Rightarrow> Inl (UnsupportedValue field s)
                | Some n \<Rightarrow> Inr (PyInt (int n))))
      | _ \<Rightarrow> Inr v)"

definition scalar_bytes :: "string \<Rightarrow> pyval \<Rightarrow> body_error + bytes" where
  "scalar_bytes field v =
     (case v of
        PyBool b \<Rightarrow> Inr [of_bool b]
      | _ \<Rightarrow>
        if field \<in> set U8_FIELDS then pack_unsigned field 1 v
        else if field \<in> set U16_FIELDS then pack_unsigned field 2 v
        else if field \<in> set U32_FIELDS then pack_unsigned field 4 v
        else (case v of
            PyInt n \<Rightarrow> if n < 0 \<or> n > 0xFFFFFFFF then Inl (IntegerOutsideUint32 field)
              else Inr (le_bytes 4 (nat n))
          | PyStr s \<Rightarrow> if length (utf8 s) > 1024 then Inl (StringTooLong field) else Inr (utf8 s)
          | PyBool b \<Rightarrow> Inr [of_bool b]))"

definition wire_scalar :: "string \<Rightarrow> pyval \<Rightarrow> body_error + bytes" where
  "wire_scalar field v =
     rbind (if field \<in> {''pin'', ''chip_select''} then rmap PyInt (pin_number v) else Inr v)
       (\<lambda>v. rbind (enum_scalar field v) (scalar_bytes field))"

subsection \<open>The request body\<close>

definition wire_field_id :: "string \<Rightarrow> string \<Rightarrow> body_error + nat" where
  "wire_field_id operation_name name =
     (if name = ''port_network'' then Inr (field_number ''NETWORK_PORT'')
      else if name = ''value_gpio'' then Inr (field_number ''GPIO_VALUE'')
      else if name = ''mode'' \<and> operation_name = ''gpio_configure'' then Inr (field_number ''GPIO_MODE'')
      else if name = ''address'' \<and> operation_name = ''ble_connect'' then Inr (field_number ''BLE_ADDRESS'')
      else if name = ''protocol'' \<and> operation_name = ''wifi_socket_open'' then Inr (field_number ''SOCKET_PROTOCOL'')
      else if name \<in> {''ssid'', ''password'', ''passkey''} then Inr (field_number (str_upper name))
      else case dict_get FIELD_NAMES name of
          None \<Rightarrow> Inl (FieldNotAssigned name)
        | Some n \<Rightarrow> Inr n)"

definition wire_item :: "string \<Rightarrow> string \<times> pyval \<Rightarrow> body_error + int \<times> bytes" where
  "wire_item operation_name p =
     (case p of (name, v) \<Rightarrow>
        rbind (wire_field_id operation_name name) (\<lambda>field_id.
        rbind (if name = ''data_base64'' then
                 (case v of
                    PyStr s \<Rightarrow> rcatch (decode_canonical_base64 s MAX_BRIDGE_PAYLOAD) BadPayload
                  | _ \<Rightarrow> Inl NotAString)
               else wire_scalar name v) (\<lambda>encoded.
        Inr (int field_id, encoded))))"

text \<open>\<open>pop_rename\<close> is \<^verbatim>\<open>values[new] = values.pop(old)\<close>.\<close>

definition pop_rename :: "fields \<Rightarrow> string \<Rightarrow> string \<Rightarrow> body_error + fields" where
  "pop_rename vals old new =
     (case dict_get vals old of
        None \<Rightarrow> Inl (MissingKey old)
      | Some v \<Rightarrow> Inr (dict_set (dict_pop vals old) new v))"

definition request_operation :: "fields \<Rightarrow> string option \<Rightarrow> pyval \<times> fields" where
  "request_operation vals op =
     (case op of
        Some (c # cs) \<Rightarrow> (PyStr (c # cs), vals)
      | _ \<Rightarrow>
          (case dict_get vals ''operation'' of
             Some v \<Rightarrow> (v, dict_pop vals ''operation'')
           | None \<Rightarrow> (PyStr (if dict_has vals ''protocol'' then ''receive'' else ''get_status''), vals)))"

definition rename_fields :: "string \<Rightarrow> fields \<Rightarrow> body_error + fields" where
  "rename_fields operation_name vals =
     rbind (if operation_name = ''wifi_socket_open'' then pop_rename vals ''port'' ''port_network'' else Inr vals)
       (\<lambda>vals. rbind (if operation_name \<in> {''gpio_write'', ''gpio_pulse''}
                      then pop_rename vals ''value'' ''value_gpio'' else Inr vals)
       (\<lambda>vals. if operation_name = ''gpio_configure'' then pop_rename vals ''mode'' ''mode'' else Inr vals))"

definition encode_request_body ::
    "fields \<Rightarrow> string option \<Rightarrow> (string, string) dict \<Rightarrow> body_error + bytes" where
  "encode_request_body request op secrets =
     (case request_operation request op of (name, vals) \<Rightarrow>
        case (case name of PyStr s \<Rightarrow> map_option (\<lambda>n. (s, n)) (dict_get OPERATIONS s) | _ \<Rightarrow> None) of
          None \<Rightarrow> Inl UnknownOperation
        | Some (operation_name, operation_code) \<Rightarrow>
            rbind (rename_fields operation_name vals) (\<lambda>vals.
            rbind (traverse (wire_item operation_name)
                     (filter (\<lambda>p. fst p \<noteq> ''passkey_profile'')
                       (dict_update vals (map (\<lambda>p. (fst p, PyStr (snd p))) secrets)))) (\<lambda>items.
            rcatch (encode_tlvs ((int (field_number ''OPERATION''), le_bytes 2 operation_code) # items)) BodyTlv)))"

end
