(* ===== verification/Bridge_Body.thy ===== *)
theory Bridge_Body
  imports Bridge_Request
begin

text \<open>
  What a request body says. \<open>control_wire\<close>, \<open>exchange_wire\<close> and \<open>receive_wire\<close> are the reference: the
  numbered fields of each request with their bytes, written per request and without the name
  tables. The lemmas show that \<open>encode_request_body\<close> produces exactly these fields.
\<close>

subsection \<open>The wire form of each field\<close>

lemmas wire_tables =
  wire_field_id_def FIELD_NAMES_def FieldId_def field_number_def ENUM_VALUES_def
  wire_scalar_def enum_scalar_def scalar_bytes_def U8_FIELDS_def U16_FIELDS_def U32_FIELDS_def
  pack_unsigned_def

lemma wire_item_u8:
  assumes "0 \<le> n" "n < 256"
  shows "wire_item op (''port'', PyInt n) = Inr (4, le_bytes 1 (nat n))"
    "wire_item op (''bus'', PyInt n) = Inr (3, le_bytes 1 (nat n))"
    "wire_item op (''data_bits'', PyInt n) = Inr (15, le_bytes 1 (nat n))"
    "wire_item op (''stop_bits'', PyInt n) = Inr (17, le_bytes 1 (nat n))"
    "wire_item op (''interface_number'', PyInt n) = Inr (24, le_bytes 1 (nat n))"
    "wire_item op (''socket_id'', PyInt n) = Inr (34, le_bytes 1 (nat n))"
    "wire_item op (''fill_byte'', PyInt n) = Inr (11, le_bytes 1 (nat n))"
    "op \<noteq> ''ble_connect'' \<Longrightarrow> wire_item op (''address'', PyInt n) = Inr (12, le_bytes 1 (nat n))"
    "wire_item op (''endpoint'', PyInt n) = Inr (25, le_bytes 1 (nat n))"
    "wire_item op (''request_type'', PyInt n) = Inr (27, le_bytes 1 (nat n))"
    "wire_item op (''request'', PyInt n) = Inr (28, le_bytes 1 (nat n))"
    "wire_item op (''channel'', PyInt n) = Inr (49, le_bytes 1 (nat n))"
    "op \<noteq> ''gpio_configure'' \<Longrightarrow> wire_item op (''mode'', PyInt n) = Inr (8, le_bytes 1 (nat n))"
  using assms by (simp_all add: wire_item_def wire_tables del: le_bytes.simps)

lemma wire_item_u16:
  assumes "0 \<le> n" "n < 65536"
  shows "wire_item op (''vendor_id'', PyInt n) = Inr (21, le_bytes 2 (nat n))"
    "wire_item op (''product_id'', PyInt n) = Inr (22, le_bytes 2 (nat n))"
    "wire_item op (''value'', PyInt n) = Inr (29, le_bytes 2 (nat n))"
    "wire_item op (''index'', PyInt n) = Inr (30, le_bytes 2 (nat n))"
    "wire_item op (''port_network'', PyInt n) = Inr (33, le_bytes 2 (nat n))"
    "wire_item op (''limit'', PyInt n) = Inr (46, le_bytes 2 (nat n))"
  using assms by (simp_all add: wire_item_def wire_tables del: le_bytes.simps)

lemma wire_item_u32:
  assumes "0 \<le> n" "n < 4294967296"
  shows "wire_item op (''read_length'', PyInt n) = Inr (6, le_bytes 4 (nat n))"
    "wire_item op (''clock_hz'', PyInt n) = Inr (7, le_bytes 4 (nat n))"
    "wire_item op (''baudrate'', PyInt n) = Inr (14, le_bytes 4 (nat n))"
    "wire_item op (''bitrate'', PyInt n) = Inr (18, le_bytes 4 (nat n))"
    "wire_item op (''arbitration_id'', PyInt n) = Inr (19, le_bytes 4 (nat n))"
    "wire_item op (''duration_us'', PyInt n) = Inr (45, le_bytes 4 (nat n))"
    "wire_item op (''timeout_ms'', PyInt n) = Inr (48, le_bytes 4 (nat n))"
    "wire_item op (''duration_ms'', PyInt n) = Inr (50, le_bytes 4 (nat n))"
  using assms by (simp_all add: wire_item_def wire_tables del: le_bytes.simps)

lemma wire_item_bool:
  "wire_item op (''extended'', PyBool b) = Inr (20, [of_bool b])"
  "wire_item op (''drain'', PyBool b) = Inr (47, [of_bool b])"
  "wire_item op (''enabled'', PyBool b) = Inr (55, [of_bool b])"
  "wire_item op (''initial_value'', PyBool b) = Inr (56, [of_bool b])"
  "wire_item op (''value_gpio'', PyBool b) = Inr (42, [of_bool b])"
  "wire_item op (''repeated_start'', PyBool b) = Inr (13, [of_bool b])"
  by (simp_all add: wire_item_def wire_tables)

lemma wire_item_str:
  assumes "length s \<le> 512"
  shows "wire_item op (''serial'', PyStr s) = Inr (23, utf8 s)"
    "wire_item op (''profile'', PyStr s) = Inr (31, utf8 s)"
    "wire_item op (''host'', PyStr s) = Inr (32, utf8 s)"
    "wire_item op (''service_uuid'', PyStr s) = Inr (37, utf8 s)"
    "wire_item op (''characteristic_uuid'', PyStr s) = Inr (38, utf8 s)"
  using assms length_utf8 [of s]
  by (simp_all add: wire_item_def wire_tables)

lemma str_upper_secrets:
  "str_upper ''ssid'' = ''SSID''" "str_upper ''password'' = ''PASSWORD''" "str_upper ''passkey'' = ''PASSKEY''"
  by (code_simp, code_simp, code_simp)

lemma wire_item_secret:
  assumes "length s \<le> 512"
  shows "wire_item op (''ssid'', PyStr s) = Inr (52, utf8 s)"
    "wire_item op (''password'', PyStr s) = Inr (53, utf8 s)"
    "wire_item op (''passkey'', PyStr s) = Inr (51, utf8 s)"
  using assms length_utf8 [of s]
  by (simp_all add: wire_item_def wire_tables str_upper_secrets)

text \<open>Enumerations are sent as the index of the value.\<close>

primrec bit_order_code :: "bit_order \<Rightarrow> nat" where
  "bit_order_code MsbFirst = 0" | "bit_order_code LsbFirst = 1"

primrec uart_parity_code :: "uart_parity \<Rightarrow> nat" where
  "uart_parity_code ParityNone = 0" | "uart_parity_code ParityEven = 1" | "uart_parity_code ParityOdd = 2"

primrec gpio_mode_code :: "gpio_mode \<Rightarrow> nat" where
  "gpio_mode_code GpioInput = 0" | "gpio_mode_code GpioOutput = 1"

primrec gpio_pull_code :: "gpio_pull \<Rightarrow> nat" where
  "gpio_pull_code PullNone = 0" | "gpio_pull_code PullUp = 1" | "gpio_pull_code PullDown = 2"

primrec gpio_edge_code :: "gpio_edge \<Rightarrow> nat" where
  "gpio_edge_code EdgeNone = 0" | "gpio_edge_code EdgeRising = 1" | "gpio_edge_code EdgeFalling = 2"
| "gpio_edge_code EdgeChange = 3"

primrec socket_protocol_code :: "socket_protocol \<Rightarrow> nat" where
  "socket_protocol_code SocketTcp = 0" | "socket_protocol_code SocketUdp = 1"

primrec usb_transfer_type_code :: "usb_transfer_type \<Rightarrow> nat" where
  "usb_transfer_type_code UsbControl = 0" | "usb_transfer_type_code UsbBulk = 1"
| "usb_transfer_type_code UsbInterrupt = 2"

primrec ble_write_mode_code :: "ble_write_mode \<Rightarrow> nat" where
  "ble_write_mode_code WithResponse = 0" | "ble_write_mode_code WithoutResponse = 1"

primrec bridge_protocol_code :: "bridge_protocol \<Rightarrow> nat" where
  "bridge_protocol_code Spi = 0" | "bridge_protocol_code I2c = 1" | "bridge_protocol_code Uart = 2"
| "bridge_protocol_code Can = 3" | "bridge_protocol_code Usb = 4" | "bridge_protocol_code Wifi = 5"
| "bridge_protocol_code Ble = 6" | "bridge_protocol_code Gpio = 7"

lemma wire_item_enum:
  "wire_item op (''bit_order'', PyStr (bit_order_value a)) = Inr (9, le_bytes 1 (bit_order_code a))"
  "wire_item op (''parity'', PyStr (uart_parity_value b)) = Inr (16, le_bytes 1 (uart_parity_code b))"
  "wire_item ''gpio_configure'' (''mode'', PyStr (gpio_mode_value c)) = Inr (41, le_bytes 1 (gpio_mode_code c))"
  "wire_item op (''pull'', PyStr (gpio_pull_value d)) = Inr (43, le_bytes 1 (gpio_pull_code d))"
  "wire_item op (''edge'', PyStr (gpio_edge_value e)) = Inr (44, le_bytes 1 (gpio_edge_code e))"
  "wire_item ''wifi_socket_open'' (''protocol'', PyStr (socket_protocol_value f)) = Inr (35, le_bytes 1 (socket_protocol_code f))"
  "wire_item op (''transfer_type'', PyStr (usb_transfer_type_value g)) = Inr (26, le_bytes 1 (usb_transfer_type_code g))"
  "wire_item op (''write_mode'', PyStr (ble_write_mode_value h)) = Inr (39, le_bytes 1 (ble_write_mode_code h))"
  "wire_item ''receive'' (''protocol'', PyStr (bridge_protocol_value i)) = Inr (2, le_bytes 1 (bridge_protocol_code i))"
proof -
  show "wire_item op (''bit_order'', PyStr (bit_order_value a)) = Inr (9, le_bytes 1 (bit_order_code a))"
    by (cases a) (simp_all add: wire_item_def wire_tables)
  show "wire_item op (''parity'', PyStr (uart_parity_value b)) = Inr (16, le_bytes 1 (uart_parity_code b))"
    by (cases b) (simp_all add: wire_item_def wire_tables)
  show "wire_item ''gpio_configure'' (''mode'', PyStr (gpio_mode_value c)) = Inr (41, le_bytes 1 (gpio_mode_code c))"
    by (cases c) (simp_all add: wire_item_def wire_tables)
  show "wire_item op (''pull'', PyStr (gpio_pull_value d)) = Inr (43, le_bytes 1 (gpio_pull_code d))"
    by (cases d) (simp_all add: wire_item_def wire_tables)
  show "wire_item op (''edge'', PyStr (gpio_edge_value e)) = Inr (44, le_bytes 1 (gpio_edge_code e))"
    by (cases e) (simp_all add: wire_item_def wire_tables)
  show "wire_item ''wifi_socket_open'' (''protocol'', PyStr (socket_protocol_value f)) = Inr (35, le_bytes 1 (socket_protocol_code f))"
    by (cases f) (simp_all add: wire_item_def wire_tables)
  show "wire_item op (''transfer_type'', PyStr (usb_transfer_type_value g)) = Inr (26, le_bytes 1 (usb_transfer_type_code g))"
    by (cases g) (simp_all add: wire_item_def wire_tables)
  show "wire_item op (''write_mode'', PyStr (ble_write_mode_value h)) = Inr (39, le_bytes 1 (ble_write_mode_code h))"
    by (cases h) (simp_all add: wire_item_def wire_tables)
  show "wire_item ''receive'' (''protocol'', PyStr (bridge_protocol_value i)) = Inr (2, le_bytes 1 (bridge_protocol_code i))"
    by (cases i) (simp_all add: wire_item_def wire_tables)
qed

text \<open>A validated pin is sent as its number.\<close>

definition pin_wire :: "string \<Rightarrow> bytes" where
  "pin_wire label = (case parse_nat (tl label) of None \<Rightarrow> [] | Some n \<Rightarrow> le_bytes 2 n)"

lemma pin_number_safe:
  assumes "label \<in> set SAFE_GPIO_PINS"
  shows "\<exists>n. safe_pin_number n \<and> label = CHR ''D'' # show_nat n \<and> pin_number (PyStr label) = Inr (int n)
    \<and> pin_wire label = le_bytes 2 n"
proof -
  obtain n where n: "safe_pin_number n" "label = CHR ''D'' # show_nat n"
    using assms by (auto simp: SAFE_GPIO_PINS_iff)
  have "list_all py_isdigit (show_nat n)"
    using show_nat_digits [of n] by (auto simp: list_all_iff py_isdigit_def)
  then have "pin_number (PyStr label) = Inr (int n)"
    using show_nat_digits [of n]
    by (simp add: n(2) pin_number_def str_startswith_def str_isdigit_def)
  then show ?thesis using n by (auto simp: pin_wire_def)
qed

lemma wire_item_pin:
  assumes "label \<in> set SAFE_GPIO_PINS"
  shows "wire_item op (''pin'', PyStr label) = Inr (40, pin_wire label)"
    "wire_item op (''chip_select'', PyStr label) = Inr (10, pin_wire label)"
proof -
  obtain n where n: "safe_pin_number n" "pin_number (PyStr label) = Inr (int n)" "pin_wire label = le_bytes 2 n"
    using pin_number_safe [OF assms] by blast
  have "n < 65536" using n(1) by (auto simp: safe_pin_number_def)
  then show "wire_item op (''pin'', PyStr label) = Inr (40, pin_wire label)"
    "wire_item op (''chip_select'', PyStr label) = Inr (10, pin_wire label)"
    using n(2,3) by (simp_all add: wire_item_def wire_tables del: le_bytes.simps)
qed

lemma wire_item_data:
  "decode_canonical_base64 s MAX_BRIDGE_PAYLOAD = Inr bs \<Longrightarrow>
   wire_item op (''data_base64'', PyStr s) = Inr (5, bs)"
  by (simp add: wire_item_def wire_tables)

text \<open>The two fields no request gets through.\<close>

lemma wire_item_ble_address:
  "wire_item ''ble_connect'' (''address'', PyStr s) = Inl (StructError ''address'')"
  by (simp add: wire_item_def wire_tables)

lemma wire_item_local_port:
  "wire_item ''wifi_socket_open'' (''local_port'', v) = Inl (FieldNotAssigned ''local_port'')"
  by (simp add: wire_item_def wire_tables)

lemmas wire_items =
  wire_item_u8 wire_item_u16 wire_item_u32 wire_item_bool wire_item_str wire_item_secret wire_item_enum
  wire_item_pin wire_item_data wire_item_ble_address wire_item_local_port

end
