(* ===== verification/Bridge_Contract.thy ===== *)
theory Bridge_Contract
  imports Bridge_Body
begin

text \<open>
  The body contract of the bridge: the reference field list of each request, the proof that
  \<open>encode_request_body\<close> emits exactly this list for every validated request (and the two requests for
  which it cannot), and that the body determines the request.
\<close>

subsection \<open>Reference field lists\<close>

definition opt_wire :: "nat \<Rightarrow> ('a \<Rightarrow> bytes) \<Rightarrow> 'a option \<Rightarrow> (nat, bytes) dict" where
  "opt_wire k f z = (case z of None \<Rightarrow> [] | Some x \<Rightarrow> [(k, f x)])"

abbreviation u8 :: "int \<Rightarrow> bytes" where "u8 n \<equiv> le_bytes 1 (nat n)"
abbreviation u16 :: "int \<Rightarrow> bytes" where "u16 n \<equiv> le_bytes 2 (nat n)"
abbreviation u32 :: "int \<Rightarrow> bytes" where "u32 n \<equiv> le_bytes 4 (nat n)"
abbreviation flag :: "bool \<Rightarrow> bytes" where "flag b \<equiv> [of_bool b]"

primrec control_code :: "control_request \<Rightarrow> nat" where
  "control_code (UartConfigure _ _ _ _ _) = 10"
| "control_code (CanConfigure _ _) = 11"
| "control_code UsbEnumerate = 12"
| "control_code (UsbSelect _ _ _ _) = 13"
| "control_code UsbReset = 14"
| "control_code UsbRelease = 15"
| "control_code (WifiConnect _) = 16"
| "control_code WifiDisconnect = 17"
| "control_code (WifiSocketOpen _ _ _ _) = 18"
| "control_code (WifiSocketClose _) = 19"
| "control_code (BleScan _ _) = 20"
| "control_code (BleConnect _) = 21"
| "control_code BleDisconnect = 22"
| "control_code (BlePair _) = 23"
| "control_code (BleDiscover _) = 24"
| "control_code (BleSubscribe _ _ _) = 25"
| "control_code (GpioConfigure _ _ _ _) = 26"
| "control_code (GpioWatch _ _) = 27"

primrec control_items :: "control_request \<Rightarrow> (nat, bytes) dict" where
  "control_items (UartConfigure port baudrate data_bits parity stop_bits) =
     [(4, u8 port), (14, u32 baudrate), (15, u8 data_bits), (16, le_bytes 1 (uart_parity_code parity)),
      (17, u8 stop_bits)]"
| "control_items (CanConfigure bus bitrate) = [(3, u8 bus), (18, u32 bitrate)]"
| "control_items UsbEnumerate = []"
| "control_items (UsbSelect vendor_id product_id serial interface_number) =
     [(21, u16 vendor_id), (22, u16 product_id)] @ opt_wire 23 utf8 serial @ opt_wire 24 u8 interface_number"
| "control_items UsbReset = []"
| "control_items UsbRelease = []"
| "control_items (WifiConnect profile) = [(31, utf8 profile)]"
| "control_items WifiDisconnect = []"
| "control_items (WifiSocketOpen protocol host port local_port) =
     [(35, le_bytes 1 (socket_protocol_code protocol)), (32, utf8 host), (33, u16 port)]"
| "control_items (WifiSocketClose socket_id) = [(34, u8 socket_id)]"
| "control_items (BleScan duration_ms service_uuid) =
     [(50, u32 duration_ms)] @ opt_wire 37 utf8 service_uuid"
| "control_items (BleConnect address) = [(36, utf8 address)]"
| "control_items BleDisconnect = []"
| "control_items (BlePair passkey_profile) = []"
| "control_items (BleDiscover service_uuid) = opt_wire 37 utf8 service_uuid"
| "control_items (BleSubscribe service_uuid characteristic_uuid enabled) =
     [(37, utf8 service_uuid), (38, utf8 characteristic_uuid), (55, flag enabled)]"
| "control_items (GpioConfigure pin mode pull initial_value) =
     [(40, pin_wire pin), (43, le_bytes 1 (gpio_pull_code pull))] @ opt_wire 56 flag initial_value
     @ [(41, le_bytes 1 (gpio_mode_code mode))]"
| "control_items (GpioWatch pin edge) = [(40, pin_wire pin), (44, le_bytes 1 (gpio_edge_code edge))]"

primrec exchange_code :: "exchange_request \<Rightarrow> nat" where
  "exchange_code (SpiExchange _ _ _ _ _ _ _ _) = 40"
| "exchange_code (I2cExchange _ _ _ _ _ _) = 41"
| "exchange_code (UartWrite _ _) = 42"
| "exchange_code (CanSend _ _ _ _) = 43"
| "exchange_code (UsbTransfer _ _ _ _ _ _ _ _) = 44"
| "exchange_code (WifiSend _ _) = 45"
| "exchange_code (BleRead _ _) = 46"
| "exchange_code (BleWrite _ _ _ _) = 47"
| "exchange_code (GpioRead _) = 48"
| "exchange_code (GpioWrite _ _) = 49"
| "exchange_code (GpioPulse _ _ _) = 50"

primrec exchange_items :: "exchange_request \<Rightarrow> (nat, bytes) dict" where
  "exchange_items (SpiExchange data bus chip_select clock_hz mode bit_order fill_byte read_length) =
     [(3, u8 bus), (10, pin_wire chip_select), (7, u32 clock_hz), (8, u8 mode),
      (9, le_bytes 1 (bit_order_code bit_order)), (11, u8 fill_byte), (6, u32 read_length)]"
| "exchange_items (I2cExchange data bus address read_length repeated_start clock_hz) =
     [(3, u8 bus), (12, u8 address), (6, u32 read_length), (13, flag repeated_start), (7, u32 clock_hz)]"
| "exchange_items (UartWrite data port) = [(4, u8 port)]"
| "exchange_items (CanSend data bus arbitration_id extended) =
     [(3, u8 bus), (19, u32 arbitration_id), (20, flag extended)]"
| "exchange_items (UsbTransfer data transfer_type endpoint read_length request_type request val index) =
     [(26, le_bytes 1 (usb_transfer_type_code transfer_type)), (25, u8 endpoint), (6, u32 read_length)]
     @ opt_wire 27 u8 request_type @ opt_wire 28 u8 request @ opt_wire 29 u16 val @ opt_wire 30 u16 index"
| "exchange_items (WifiSend data socket_id) = [(34, u8 socket_id)]"
| "exchange_items (BleRead service_uuid characteristic_uuid) =
     [(37, utf8 service_uuid), (38, utf8 characteristic_uuid)]"
| "exchange_items (BleWrite data service_uuid characteristic_uuid write_mode) =
     [(37, utf8 service_uuid), (38, utf8 characteristic_uuid), (39, le_bytes 1 (ble_write_mode_code write_mode))]"
| "exchange_items (GpioRead pin) = [(40, pin_wire pin)]"
| "exchange_items (GpioWrite pin val) = [(40, pin_wire pin), (42, flag val)]"
| "exchange_items (GpioPulse pin val duration_us) =
     [(40, pin_wire pin), (45, u32 duration_us), (42, flag val)]"

definition data_bytes :: "string \<Rightarrow> bytes" where
  "data_bytes s = (case b64decode s of None \<Rightarrow> [] | Some bs \<Rightarrow> bs)"

definition secret_wire :: "(string, string) dict \<Rightarrow> (nat, bytes) dict" where
  "secret_wire secrets = map (\<lambda>p. (if fst p = ''ssid'' then 52 else if fst p = ''password'' then 53 else 51,
       utf8 (snd p))) secrets"

definition control_wire :: "control_request \<Rightarrow> (string, string) dict \<Rightarrow> (nat, bytes) dict" where
  "control_wire r secrets = (1, le_bytes 2 (control_code r)) # control_items r @ secret_wire secrets"

definition exchange_wire :: "exchange_request \<Rightarrow> (nat, bytes) dict" where
  "exchange_wire r =
     (1, le_bytes 2 (exchange_code r)) # opt_wire 5 data_bytes (exchange_data r) @ exchange_items r"

text \<open>The secrets a control request carries: those of its profile, within the profile's bounds.\<close>

definition secrets_ok :: "(string, string) dict \<Rightarrow> bool" where
  "secrets_ok secrets \<longleftrightarrow> dict_ok secrets
     \<and> (\<forall>(k, s) \<in> set secrets. k \<in> {''ssid'', ''password'', ''passkey''} \<and> length s \<le> 63)"

text \<open>The requests the encoder cannot send, with the error it raises.\<close>

definition unsendable :: "control_request \<Rightarrow> body_error option" where
  "unsendable r =
     (case r of
        BleConnect _ \<Rightarrow> Some (StructError ''address'')
      | WifiSocketOpen _ _ _ (Some _) \<Rightarrow> Some (FieldNotAssigned ''local_port'')
      | _ \<Rightarrow> None)"

subsection \<open>Bounds and distinctness\<close>

lemma opt_simps [simp]:
  "opt_field name f None = []" "opt_field name f (Some x) = [(name, f x)]"
  "opt_wire k g None = []" "opt_wire k g (Some y) = [(k, g y)]"
  "opt_ok p None" "opt_ok p (Some z) = p z"
  by (simp_all add: opt_field_def opt_wire_def opt_ok_def)

lemma control_operation_code: "dict_get OPERATIONS (control_operation r) = Some (control_code r)"
  by (cases r) (simp_all add: OPERATIONS_def)

lemma exchange_operation_code: "dict_get OPERATIONS (exchange_operation r) = Some (exchange_code r)"
  by (cases r) (simp_all add: OPERATIONS_def)

lemma control_items_keys: "dict_ok (control_items r) \<and> (\<forall>k \<in> fst ` set (control_items r). 2 < k \<and> k < 51 \<or> 54 < k \<and> k < 57)"
  by (cases r) (auto simp: opt_wire_def split: option.splits)

lemma exchange_items_keys: "dict_ok (exchange_items r) \<and> (\<forall>k \<in> fst ` set (exchange_items r). 2 < k \<and> k \<noteq> 5 \<and> k < 51)"
  by (cases r) (auto simp: opt_wire_def split: option.splits)

subsection \<open>The encoder emits the reference fields\<close>

lemmas scalar_ranges = in_range_def length_ok_def

lemma control_values_sent:
  assumes "list_all snd (control_fields r)" "normal_control r = r" "unsendable r = None"
  shows "\<exists>vals. rename_fields (control_operation r) (control_values r) = Inr vals
    \<and> fst ` set vals \<inter> {''ssid'', ''password'', ''passkey''} = {}
    \<and> traverse (wire_item (control_operation r)) (filter (\<lambda>p. fst p \<noteq> ''passkey_profile'') vals)
        = Inr (int_keys (control_items r))"
proof (cases r)
  case (UartConfigure port baudrate data_bits parity stop_bits)
  then show ?thesis using assms
    by (auto simp: rename_fields_def wire_items scalar_ranges int_keys_def)
next
  case (UsbSelect vendor_id product_id serial interface_number)
  then show ?thesis using assms
    by (cases serial; cases interface_number)
      (simp_all add: rename_fields_def wire_items scalar_ranges int_keys_def)
next
  case (WifiSocketOpen protocol host port local_port)
  then show ?thesis using assms
    by (cases local_port)
      (simp_all add: rename_fields_def pop_rename_def dict_pop_def wire_items scalar_ranges int_keys_def unsendable_def)
next
  case (BleScan duration_ms service_uuid)
  then show ?thesis using assms
    by (cases service_uuid) (simp_all add: rename_fields_def wire_items scalar_ranges int_keys_def)
next
  case (BlePair passkey_profile)
  then show ?thesis using assms
    by (cases passkey_profile) (simp_all add: rename_fields_def int_keys_def)
next
  case (BleDiscover service_uuid)
  then show ?thesis using assms
    by (cases service_uuid) (simp_all add: rename_fields_def wire_items scalar_ranges int_keys_def)
next
  case (GpioConfigure pin mode pull initial_value)
  have "pin \<in> set SAFE_GPIO_PINS" using assms(1,2) GpioConfigure by (simp add: pin_ok_iff)
  then show ?thesis using GpioConfigure
    by (cases initial_value)
      (simp_all add: rename_fields_def pop_rename_def dict_pop_def wire_items int_keys_def)
next
  case (GpioWatch pin edge)
  have "pin \<in> set SAFE_GPIO_PINS" using assms(1,2) GpioWatch by (simp add: pin_ok_iff)
  then show ?thesis using GpioWatch
    by (simp add: rename_fields_def wire_items int_keys_def)
qed (use assms in \<open>auto simp: rename_fields_def wire_items scalar_ranges int_keys_def unsendable_def\<close>)

lemma exchange_values_sent:
  assumes "list_all snd (exchange_fields r)" "normal_exchange r = r"
  shows "\<exists>vals. rename_fields (exchange_operation r) (exchange_values r) = Inr vals
    \<and> traverse (wire_item (exchange_operation r)) (filter (\<lambda>p. fst p \<noteq> ''passkey_profile'') vals)
        = Inr (int_keys (exchange_items r))"
proof (cases r)
  case (SpiExchange data bus chip_select clock_hz mode bit_order fill_byte read_length)
  have "chip_select \<in> set SAFE_GPIO_PINS" using assms SpiExchange by (simp add: pin_ok_iff)
  moreover have "0 \<le> mode" "mode < 256" using assms SpiExchange by auto
  ultimately show ?thesis using assms SpiExchange
    by (simp add: rename_fields_def wire_items scalar_ranges int_keys_def MAX_APPLICATION_PAYLOAD_def)
next
  case (UsbTransfer data transfer_type endpoint read_length request_type request val index)
  then show ?thesis using assms
    by (cases request_type; cases request; cases val; cases index)
      (simp_all add: rename_fields_def wire_items scalar_ranges int_keys_def MAX_APPLICATION_PAYLOAD_def)
next
  case (GpioRead pin)
  have "pin \<in> set SAFE_GPIO_PINS" using assms GpioRead by (simp add: pin_ok_iff)
  then show ?thesis using GpioRead by (simp add: rename_fields_def wire_items int_keys_def)
next
  case (GpioWrite pin val)
  have "pin \<in> set SAFE_GPIO_PINS" using assms GpioWrite by (simp add: pin_ok_iff)
  then show ?thesis using GpioWrite
    by (simp add: rename_fields_def pop_rename_def dict_pop_def wire_items int_keys_def)
next
  case (GpioPulse pin val duration_us)
  have "pin \<in> set SAFE_GPIO_PINS" using assms GpioPulse by (simp add: pin_ok_iff)
  then show ?thesis using assms(1) GpioPulse
    by (simp add: rename_fields_def pop_rename_def dict_pop_def wire_items int_keys_def scalar_ranges)
qed (use assms in \<open>auto simp: rename_fields_def wire_items scalar_ranges int_keys_def MAX_APPLICATION_PAYLOAD_def\<close>)

subsection \<open>Whole bodies\<close>

lemma control_values_no_operation: "''operation'' \<notin> fst ` set (control_values r)"
  by (cases r) (auto simp: opt_field_def split: option.splits)

lemma exchange_values_no_operation: "''operation'' \<notin> fst ` set (exchange_values r)"
  by (cases r) (auto simp: opt_field_def split: option.splits)

lemma request_operation_control:
  "request_operation (dump_control r) None = (PyStr (control_operation r), control_values r)"
  using control_values_no_operation [of r]
  by (simp add: request_operation_def dump_control_def dict_pop_def filter_id_conv) (metis fst_conv rev_image_eqI)

lemma request_operation_exchange:
  "request_operation (dump_exchange r) None
     = (PyStr (exchange_operation r), opt_field ''data_base64'' PyStr (exchange_data r) @ exchange_values r)"
proof -
  have "filter (\<lambda>p. fst p \<noteq> ''operation'') (exchange_values r) = exchange_values r"
    using exchange_values_no_operation [of r] by (auto simp: filter_id_conv) (metis fst_conv rev_image_eqI)
  then show ?thesis
    by (cases "exchange_data r") (simp_all add: request_operation_def dump_exchange_def dict_pop_def)
qed

lemma int_keys_simps [simp]:
  "int_keys [] = []" "int_keys ((k, v) # d) = (int k, v) # int_keys d" "int_keys (d @ e) = int_keys d @ int_keys e"
  by (simp_all add: int_keys_def)

lemma secrets_sent:
  assumes "secrets_ok secrets"
  shows "traverse (wire_item op) (filter (\<lambda>p. fst p \<noteq> ''passkey_profile'') (map (\<lambda>p. (fst p, PyStr (snd p))) secrets))
    = Inr (int_keys (secret_wire secrets))"
  using assms unfolding secrets_ok_def
proof (induction secrets)
  case Nil
  then show ?case by (simp add: secret_wire_def)
next
  case (Cons p secrets)
  obtain k s where p: "p = (k, s)" by force
  have IH: "traverse (wire_item op) (filter (\<lambda>p. fst p \<noteq> ''passkey_profile'') (map (\<lambda>p. (fst p, PyStr (snd p))) secrets))
      = Inr (int_keys (secret_wire secrets))"
    using Cons by simp
  have ks: "k \<in> {''ssid'', ''password'', ''passkey''}" "length s \<le> 512" using Cons.prems by (auto simp: p)
  then have "wire_item op (k, PyStr s) = Inr (int (if k = ''ssid'' then 52 else if k = ''password'' then 53 else 51), utf8 s)"
    by (auto simp: wire_items)
  moreover have "k \<noteq> ''passkey_profile''" using ks(1) by auto
  ultimately show ?case using IH by (simp add: p secret_wire_def)
qed

lemma control_body_items:
  assumes "list_all snd (control_fields r)" "normal_control r = r" "unsendable r = None" "secrets_ok secrets"
  shows "encode_request_body (dump_control r) None secrets
    = rcatch (encode_tlvs (int_keys (control_wire r secrets))) BodyTlv"
proof -
  obtain vals where vals: "rename_fields (control_operation r) (control_values r) = Inr vals"
    "fst ` set vals \<inter> {''ssid'', ''password'', ''passkey''} = {}"
    "traverse (wire_item (control_operation r)) (filter (\<lambda>p. fst p \<noteq> ''passkey_profile'') vals) = Inr (int_keys (control_items r))"
    using control_values_sent [OF assms(1-3)] by blast
  let ?s = "map (\<lambda>p. (fst p, PyStr (snd p))) secrets"
  have "fst ` set ?s \<subseteq> {''ssid'', ''password'', ''passkey''}"
    using assms(4) by (auto simp: secrets_ok_def)
  then have "fst ` set vals \<inter> fst ` set ?s = {}" using vals(2) by blast
  moreover have "dict_ok ?s" using assms(4) by (simp add: secrets_ok_def comp_def)
  ultimately have "dict_update vals ?s = vals @ ?s" by (intro dict_update_fresh)
  moreover have "int (field_number ''OPERATION'') = 1" by (simp add: field_number_def FieldId_def)
  ultimately show ?thesis
    using secrets_sent [OF assms(4)] vals
    by (simp add: encode_request_body_def request_operation_control control_operation_code
        traverse_append control_wire_def)
qed

lemma rename_fields_with_data: "exchange_data r \<noteq> None \<Longrightarrow> rename_fields (exchange_operation r) vals = Inr vals"
  by (cases r) (simp_all add: rename_fields_def)

lemma exchange_payload_ok:
  assumes "list_all snd (exchange_fields r)" "exchange_data r = Some data"
  obtains bs where "b64decode data = Some bs" "length bs \<le> 64000" "data = b64encode bs"
    "decode_canonical_base64 data MAX_BRIDGE_PAYLOAD = Inr bs"
proof -
  have "payload_ok data" using assms by (cases r) auto
  then obtain bs where "decode_canonical_base64 data MAX_APPLICATION_PAYLOAD = Inr bs"
    by (auto simp: payload_ok_def returns_iff)
  then have "data = b64encode bs" "length bs \<le> 64000"
    by (auto simp: decode_canonical_Inr MAX_APPLICATION_PAYLOAD_def)
  then show thesis using that [of bs] by (simp add: decode_canonical_Inr wire_constants)
qed

lemma exchange_body_items:
  assumes "list_all snd (exchange_fields r)" "normal_exchange r = r"
  shows "encode_request_body (dump_exchange r) None []
    = rcatch (encode_tlvs (int_keys (exchange_wire r))) BodyTlv"
proof -
  obtain vals where vals: "rename_fields (exchange_operation r) (exchange_values r) = Inr vals"
    "traverse (wire_item (exchange_operation r)) (filter (\<lambda>p. fst p \<noteq> ''passkey_profile'') vals) = Inr (int_keys (exchange_items r))"
    using exchange_values_sent [OF assms] by blast
  have one: "int (field_number ''OPERATION'') = 1" by (simp add: field_number_def FieldId_def)
  show ?thesis
  proof (cases "exchange_data r")
    case None
    then show ?thesis using vals one
      by (simp add: encode_request_body_def request_operation_exchange exchange_operation_code exchange_wire_def)
  next
    case (Some data)
    obtain bs where bs: "b64decode data = Some bs" "decode_canonical_base64 data MAX_BRIDGE_PAYLOAD = Inr bs"
      using exchange_payload_ok [OF assms(1) Some] by blast
    have "vals = exchange_values r" using vals(1) Some by (simp add: rename_fields_with_data)
    then show ?thesis using vals(2) one Some bs
      by (simp add: encode_request_body_def request_operation_exchange exchange_operation_code exchange_wire_def
          rename_fields_with_data wire_item_data data_bytes_def)
  qed
qed

subsection \<open>Sizes\<close>

lemma tlv_bytes_bound:
  "\<forall>p \<in> set d. length (snd p) \<le> n \<Longrightarrow> length (concat (map tlv_bytes d)) \<le> (4 + n) * length d"
  by (induction d) (auto simp: length_tlv_bytes)

lemma length_utf8_le: "length s \<le> n \<Longrightarrow> length (utf8 s) \<le> 2 * n"
  using length_utf8 [of s] by linarith

lemma length_pin_wire: "length (pin_wire s) \<le> 2"
  by (auto simp: pin_wire_def split: option.split)

lemma control_items_size:
  assumes "list_all snd (control_fields r)"
  shows "length (control_items r) \<le> 5 \<and> (\<forall>p \<in> set (control_items r). length (snd p) \<le> 600)"
  using assms
  by (cases r)
    (auto simp: opt_wire_def scalar_ranges ble_address_re_def intro: order_trans [OF length_utf8] order_trans [OF length_pin_wire]
      split: option.splits)

lemma exchange_items_size:
  assumes "list_all snd (exchange_fields r)"
  shows "length (exchange_items r) \<le> 7 \<and> (\<forall>p \<in> set (exchange_items r). length (snd p) \<le> 80)"
  using assms
  by (cases r)
    (auto simp: opt_wire_def scalar_ranges intro: order_trans [OF length_utf8] order_trans [OF length_pin_wire]
      split: option.splits)

lemma secret_wire_facts:
  assumes "secrets_ok secrets"
  shows "dict_ok (secret_wire secrets)" "fst ` set (secret_wire secrets) \<subseteq> {51, 52, 53}"
    "length (secret_wire secrets) \<le> 3" "\<forall>p \<in> set (secret_wire secrets). length (snd p) \<le> 600"
proof -
  let ?k = "\<lambda>name. if name = ''ssid'' then 52 else if name = ''password'' then 53 else (51 :: nat)"
  have keys: "map fst (secret_wire secrets) = map ?k (map fst secrets)"
    by (simp add: secret_wire_def)
  have sub: "fst ` set secrets \<subseteq> {''ssid'', ''password'', ''passkey''}"
    using assms by (auto simp: secrets_ok_def)
  have "inj_on ?k {''ssid'', ''password'', ''passkey''}" by (auto simp: inj_on_def)
  then have "inj_on ?k (set (map fst secrets))" by (rule inj_on_subset) (use sub in simp)
  then show ok: "dict_ok (secret_wire secrets)"
    using assms by (simp only: keys distinct_map secrets_ok_def)
  show fst53: "fst ` set (secret_wire secrets) \<subseteq> {51, 52, 53}"
    unfolding secret_wire_def set_map image_image fst_conv by (auto split: if_splits)
  then have "card (set (map fst (secret_wire secrets))) \<le> card {51, 52, 53 :: nat}"
    by (intro card_mono) simp_all
  then show "length (secret_wire secrets) \<le> 3"
    using distinct_card [OF ok] by simp
  show "\<forall>p \<in> set (secret_wire secrets). length (snd p) \<le> 600"
    using assms by (auto simp: secret_wire_def secrets_ok_def intro!: order_trans [OF length_utf8])
qed

lemma tlvs_ok_small:
  assumes "dict_ok d" "\<forall>k \<in> fst ` set d. k < 65536" "length d \<le> 12" "\<forall>p \<in> set d. length (snd p) \<le> 600"
  shows "tlvs_ok d \<and> length (concat (map tlv_bytes d)) \<le> 7248"
proof -
  have "length (concat (map tlv_bytes d)) \<le> (4 + 600) * length d" by (rule tlv_bytes_bound [OF assms(4)])
  also have "\<dots> \<le> 7248" using assms(3) by simp
  finally have "length (concat (map tlv_bytes d)) \<le> 7248" .
  then show ?thesis using assms by (force simp: tlvs_ok_def tlv_ok_def wire_constants)
qed

lemma control_wire_ok:
  assumes "list_all snd (control_fields r)" "secrets_ok secrets"
  shows "tlvs_ok (control_wire r secrets)"
proof (rule tlvs_ok_small [THEN conjunct1])
  note S = secret_wire_facts [OF assms(2)] and I = control_items_size [OF assms(1)] control_items_keys [of r]
  show "dict_ok (control_wire r secrets)"
    using S(1,2) I(2) by (fastforce simp: control_wire_def)
  show "\<forall>k \<in> fst ` set (control_wire r secrets). k < 65536"
    using S(2) I(2) by (fastforce simp: control_wire_def)
  show "length (control_wire r secrets) \<le> 12" using S(3) I(1) by (simp add: control_wire_def)
  show "\<forall>p \<in> set (control_wire r secrets). length (snd p) \<le> 600"
    using S(4) I(1) by (auto simp: control_wire_def)
qed

lemma exchange_wire_ok:
  assumes "list_all snd (exchange_fields r)"
  shows "tlvs_ok (exchange_wire r)"
proof -
  let ?rest = "(1, le_bytes 2 (exchange_code r)) # exchange_items r"
  note I = exchange_items_size [OF assms] exchange_items_keys [of r]
  have "\<forall>p \<in> set ?rest. length (snd p) \<le> 80" using I(1) by auto
  then have "length (concat (map tlv_bytes ?rest)) \<le> (4 + 80) * length ?rest" by (rule tlv_bytes_bound)
  also have "\<dots> \<le> 672" using I(1) by simp
  finally have small: "length (concat (map tlv_bytes ?rest)) \<le> 672" .
  have fits: "\<forall>p \<in> set ?rest. tlv_ok p" "dict_ok ?rest" "5 \<notin> fst ` set ?rest"
    using I by (fastforce simp: tlv_ok_def)+
  show ?thesis
  proof (cases "exchange_data r")
    case None
    then show ?thesis using small fits by (simp add: exchange_wire_def tlvs_ok_def wire_constants)
  next
    case (Some data)
    obtain bs where bs: "b64decode data = Some bs" "length bs \<le> 64000"
      using exchange_payload_ok [OF assms Some] by blast
    then show ?thesis using small fits Some
      by (simp add: exchange_wire_def tlvs_ok_def wire_constants data_bytes_def tlv_ok_def length_tlv_bytes)
  qed
qed

subsection \<open>The body determines the request\<close>

lemma le_bytes_eq_iff: "m < 256 ^ k \<Longrightarrow> n < 256 ^ k \<Longrightarrow> le_bytes k m = le_bytes k n \<longleftrightarrow> m = n"
  by (metis le_nat_le_bytes)

lemma u8_inj: "0 \<le> m \<Longrightarrow> m < 256 \<Longrightarrow> 0 \<le> n \<Longrightarrow> n < 256 \<Longrightarrow> u8 m = u8 n \<longleftrightarrow> m = n"
  by (subst le_bytes_eq_iff) auto

lemma u16_inj: "0 \<le> m \<Longrightarrow> m < 65536 \<Longrightarrow> 0 \<le> n \<Longrightarrow> n < 65536 \<Longrightarrow> u16 m = u16 n \<longleftrightarrow> m = n"
  by (subst le_bytes_eq_iff) auto

lemma u32_inj:
  "0 \<le> m \<Longrightarrow> m < 4294967296 \<Longrightarrow> 0 \<le> n \<Longrightarrow> n < 4294967296 \<Longrightarrow> u32 m = u32 n \<longleftrightarrow> m = n"
  by (subst le_bytes_eq_iff) auto

lemma flag_inj: "flag a = flag b \<longleftrightarrow> a = b"
  by (cases a; cases b) auto

lemma codes_inj:
  "le_bytes 1 (bit_order_code a) = le_bytes 1 (bit_order_code a') \<longleftrightarrow> a = a'"
  "le_bytes 1 (uart_parity_code b) = le_bytes 1 (uart_parity_code b') \<longleftrightarrow> b = b'"
  "le_bytes 1 (gpio_mode_code c) = le_bytes 1 (gpio_mode_code c') \<longleftrightarrow> c = c'"
  "le_bytes 1 (gpio_pull_code d) = le_bytes 1 (gpio_pull_code d') \<longleftrightarrow> d = d'"
  "le_bytes 1 (gpio_edge_code e) = le_bytes 1 (gpio_edge_code e') \<longleftrightarrow> e = e'"
  "le_bytes 1 (socket_protocol_code f) = le_bytes 1 (socket_protocol_code f') \<longleftrightarrow> f = f'"
  "le_bytes 1 (usb_transfer_type_code g) = le_bytes 1 (usb_transfer_type_code g') \<longleftrightarrow> g = g'"
  "le_bytes 1 (ble_write_mode_code h) = le_bytes 1 (ble_write_mode_code h') \<longleftrightarrow> h = h'"
proof -
  show "le_bytes 1 (bit_order_code a) = le_bytes 1 (bit_order_code a') \<longleftrightarrow> a = a'" by (cases a; cases a') simp_all
  show "le_bytes 1 (uart_parity_code b) = le_bytes 1 (uart_parity_code b') \<longleftrightarrow> b = b'" by (cases b; cases b') simp_all
  show "le_bytes 1 (gpio_mode_code c) = le_bytes 1 (gpio_mode_code c') \<longleftrightarrow> c = c'" by (cases c; cases c') simp_all
  show "le_bytes 1 (gpio_pull_code d) = le_bytes 1 (gpio_pull_code d') \<longleftrightarrow> d = d'" by (cases d; cases d') simp_all
  show "le_bytes 1 (gpio_edge_code e) = le_bytes 1 (gpio_edge_code e') \<longleftrightarrow> e = e'" by (cases e; cases e') simp_all
  show "le_bytes 1 (socket_protocol_code f) = le_bytes 1 (socket_protocol_code f') \<longleftrightarrow> f = f'" by (cases f; cases f') simp_all
  show "le_bytes 1 (usb_transfer_type_code g) = le_bytes 1 (usb_transfer_type_code g') \<longleftrightarrow> g = g'" by (cases g; cases g') simp_all
  show "le_bytes 1 (ble_write_mode_code h) = le_bytes 1 (ble_write_mode_code h') \<longleftrightarrow> h = h'" by (cases h; cases h') simp_all
qed

lemma pin_wire_inj:
  assumes "pin_ok s" "normal_pin s = s" "pin_ok t" "normal_pin t = t" "pin_wire s = pin_wire t"
  shows "s = t"
proof -
  have "s \<in> set SAFE_GPIO_PINS" "t \<in> set SAFE_GPIO_PINS" using assms by (simp_all add: pin_ok_iff)
  then obtain m n where m: "safe_pin_number m" "s = CHR ''D'' # show_nat m" "pin_wire s = le_bytes 2 m"
    and n: "safe_pin_number n" "t = CHR ''D'' # show_nat n" "pin_wire t = le_bytes 2 n"
    using pin_number_safe by metis
  have "m < 256 ^ 2" "n < 256 ^ 2" using m(1) n(1) by (auto simp: safe_pin_number_def)
  then have "m = n" using assms(5) m(3) n(3) le_bytes_eq_iff by metis
  then show ?thesis using m(2) n(2) by simp
qed

lemma payload_ok_encode: "length bs \<le> 64000 \<Longrightarrow> payload_ok (b64encode bs)"
  by (auto simp: payload_ok_def returns_iff decode_canonical_Inr MAX_APPLICATION_PAYLOAD_def)

lemma data_bytes_inj:
  assumes "payload_ok s" "payload_ok t" "data_bytes s = data_bytes t"
  shows "s = t"
proof -
  have "s = b64encode (data_bytes s)" if "payload_ok s" for s
    using that by (auto simp: payload_ok_def returns_iff decode_canonical_Inr data_bytes_def)
  then show ?thesis using assms by metis
qed

lemma usb_control_fields:
  assumes "exchange_model_error (UsbTransfer data type endpoint read_length request_type request val index) = None"
  shows "if type = UsbControl then \<exists>q r v i. request_type = Some q \<and> request = Some r \<and> val = Some v \<and> index = Some i
         else request_type = None \<and> request = None \<and> val = None \<and> index = None"
  using assms by (auto simp: Let_def split: if_splits)

lemmas field_inj = u8_inj u16_inj u32_inj flag_inj of_bool_eq_iff codes_inj utf8_inj

lemma exchange_wire_inj:
  assumes "list_all snd (exchange_fields a)" "normal_exchange a = a" "exchange_model_error a = None"
    "list_all snd (exchange_fields b)" "normal_exchange b = b" "exchange_model_error b = None"
    "exchange_wire a = exchange_wire b"
  shows "a = b"
proof -
  have eqs: "le_bytes 2 (exchange_code a) = le_bytes 2 (exchange_code b)"
    "opt_wire 5 data_bytes (exchange_data a) @ exchange_items a = opt_wire 5 data_bytes (exchange_data b) @ exchange_items b"
    using assms(7) by (simp_all add: exchange_wire_def del: le_bytes.simps)
  have "exchange_code a < 256 ^ 2" "exchange_code b < 256 ^ 2" by (cases a; simp) (cases b; simp)
  then have code: "exchange_code a = exchange_code b" using eqs(1) le_bytes_eq_iff by metis
  note rest = eqs(2)
  show ?thesis
  proof (cases a)
    case (SpiExchange data bus cs clk mode order fill rl)
    then obtain data' bus' cs' clk' mode' order' fill' rl' where b: "b = SpiExchange data' bus' cs' clk' mode' order' fill' rl'"
      using code by (cases b) simp_all
    have "0 \<le> mode" "mode < 256" "0 \<le> mode'" "mode' < 256" using assms(1,4) SpiExchange b by auto
    then show ?thesis using assms(1,2,4,5) rest SpiExchange b
      by (auto simp: field_inj scalar_ranges MAX_APPLICATION_PAYLOAD_def simp del: le_bytes.simps One_nat_def
          intro: data_bytes_inj pin_wire_inj)
  next
    case (I2cExchange data bus address rl rs clk)
    then obtain data' bus' address' rl' rs' clk' where b: "b = I2cExchange data' bus' address' rl' rs' clk'"
      using code by (cases b) simp_all
    have "0 \<le> bus" "bus < 256" "0 \<le> bus'" "bus' < 256" "0 \<le> clk" "clk < 4294967296" "0 \<le> clk'" "clk' < 4294967296"
      using assms(1,4) I2cExchange b by auto
    then show ?thesis using assms(1,4) rest I2cExchange b
      by (auto simp: field_inj scalar_ranges simp del: le_bytes.simps One_nat_def intro: data_bytes_inj)
  next
    case (UartWrite data port)
    then obtain data' port' where b: "b = UartWrite data' port'" using code by (cases b) simp_all
    then show ?thesis using assms(1,4) rest UartWrite
      by (auto simp: field_inj scalar_ranges simp del: le_bytes.simps One_nat_def intro: data_bytes_inj)
  next
    case (CanSend data bus i ext)
    then obtain data' bus' i' ext' where b: "b = CanSend data' bus' i' ext'" using code by (cases b) simp_all
    then show ?thesis using assms(1,4) rest CanSend
      by (auto simp: field_inj scalar_ranges simp del: le_bytes.simps One_nat_def intro: data_bytes_inj)
  next
    case (UsbTransfer data type ep rl rt rq v i)
    then obtain data' type' ep' rl' rt' rq' v' i' where b: "b = UsbTransfer data' type' ep' rl' rt' rq' v' i'"
      using code by (cases b) simp_all
    have "type = type'" using rest UsbTransfer b by (simp add: codes_inj del: le_bytes.simps One_nat_def)
    then show ?thesis
      using assms(1,4) rest UsbTransfer b usb_control_fields [OF assms(3) [unfolded UsbTransfer]]
        usb_control_fields [OF assms(6) [unfolded b]]
      by (auto simp: field_inj scalar_ranges MAX_APPLICATION_PAYLOAD_def simp del: le_bytes.simps One_nat_def
          exchange_model_error.simps intro: data_bytes_inj split: if_splits)
  next
    case (WifiSend data i)
    then obtain data' i' where b: "b = WifiSend data' i'" using code by (cases b) simp_all
    then show ?thesis using assms(1,4) rest WifiSend
      by (auto simp: field_inj scalar_ranges simp del: le_bytes.simps One_nat_def intro: data_bytes_inj)
  next
    case (BleWrite data su cu m)
    then obtain data' su' cu' m' where b: "b = BleWrite data' su' cu' m'" using code by (cases b) simp_all
    then show ?thesis using assms(1,4) rest BleWrite
      by (auto simp: field_inj simp del: le_bytes.simps One_nat_def intro: data_bytes_inj)
  next
    case (BleRead su cu)
    then obtain su' cu' where b: "b = BleRead su' cu'" using code by (cases b) simp_all
    then show ?thesis using rest BleRead by (simp add: field_inj)
  next
    case (GpioRead pin)
    then obtain pin' where b: "b = GpioRead pin'" using code by (cases b) simp_all
    then show ?thesis using assms(1,2,4,5) rest GpioRead by (auto intro: pin_wire_inj)
  next
    case (GpioWrite pin v)
    then obtain pin' v' where b: "b = GpioWrite pin' v'" using code by (cases b) simp_all
    then show ?thesis using assms(1,2,4,5) rest GpioWrite by (auto simp: field_inj intro: pin_wire_inj)
  next
    case (GpioPulse pin v d)
    then obtain pin' v' d' where b: "b = GpioPulse pin' v' d'" using code by (cases b) simp_all
    then show ?thesis using assms(1,2,4,5) rest GpioPulse
      by (auto simp: field_inj scalar_ranges simp del: le_bytes.simps intro: pin_wire_inj)
  qed
qed

lemma control_wire_inj:
  assumes "list_all snd (control_fields a)" "normal_control a = a" "unsendable a = None"
    "list_all snd (control_fields b)" "normal_control b = b" "unsendable b = None"
    "control_wire a secrets = control_wire b secrets"
  shows "a = b \<or> (\<exists>p q. a = BlePair p \<and> b = BlePair q)"
proof -
  have eqs: "le_bytes 2 (control_code a) = le_bytes 2 (control_code b)" "control_items a = control_items b"
    using assms(7) by (simp_all add: control_wire_def del: le_bytes.simps)
  have "control_code a < 256 ^ 2" "control_code b < 256 ^ 2" by (cases a; simp) (cases b; simp)
  then have code: "control_code a = control_code b" using eqs(1) le_bytes_eq_iff by metis
  note rest = eqs(2)
  show ?thesis
  proof (cases a)
    case (UartConfigure port baud db par sb)
    then obtain port' baud' db' par' sb' where b: "b = UartConfigure port' baud' db' par' sb'"
      using code by (cases b) simp_all
    have "0 \<le> db" "db < 256" "0 \<le> db'" "db' < 256" "0 \<le> sb" "sb < 256" "0 \<le> sb'" "sb' < 256"
      using assms(1,4) UartConfigure b by auto
    then show ?thesis using assms(1,4) rest UartConfigure b
      by (auto simp: field_inj scalar_ranges simp del: le_bytes.simps One_nat_def)
  next
    case (CanConfigure bus rate)
    then obtain bus' rate' where b: "b = CanConfigure bus' rate'" using code by (cases b) simp_all
    have "0 \<le> rate" "rate < 4294967296" "0 \<le> rate'" "rate' < 4294967296" using assms(1,4) CanConfigure b by auto
    then show ?thesis using assms(1,4) rest CanConfigure b
      by (simp add: field_inj scalar_ranges del: le_bytes.simps One_nat_def)
  next
    case (UsbSelect v p s i)
    then obtain v' p' s' i' where b: "b = UsbSelect v' p' s' i'" using code by (cases b) simp_all
    show ?thesis using assms(1,4) rest UsbSelect b
      by (cases s; cases s'; cases i; cases i')
        (simp_all add: field_inj scalar_ranges del: le_bytes.simps One_nat_def)
  next
    case (WifiSocketOpen p h pt lp)
    then obtain p' h' pt' lp' where b: "b = WifiSocketOpen p' h' pt' lp'" using code by (cases b) simp_all
    have "lp = None" "lp' = None" using assms(3,6) WifiSocketOpen b by (auto simp: unsendable_def split: option.splits)
    then show ?thesis using assms(1,4) rest WifiSocketOpen b
      by (simp add: field_inj scalar_ranges del: le_bytes.simps One_nat_def)
  next
    case (BleScan d u)
    then obtain d' u' where b: "b = BleScan d' u'" using code by (cases b) simp_all
    then show ?thesis using assms(1,4) rest BleScan
      by (cases u; cases u') (simp_all add: field_inj scalar_ranges del: le_bytes.simps)
  next
    case (BleDiscover u)
    then obtain u' where b: "b = BleDiscover u'" using code by (cases b) simp_all
    then show ?thesis using rest BleDiscover by (cases u; cases u') (simp_all add: field_inj)
  next
    case (GpioConfigure pin mode pull iv)
    then obtain pin' mode' pull' iv' where b: "b = GpioConfigure pin' mode' pull' iv'" using code by (cases b) simp_all
    have "pin = pin'" using assms(1,2,4,5) rest GpioConfigure b by (auto intro: pin_wire_inj)
    then show ?thesis using rest GpioConfigure b
      by (cases iv; cases iv') (simp_all add: field_inj del: le_bytes.simps One_nat_def)
  next
    case (GpioWatch pin e)
    then obtain pin' e' where b: "b = GpioWatch pin' e'" using code by (cases b) simp_all
    have "pin = pin'" using assms(1,2,4,5) rest GpioWatch b by (auto intro: pin_wire_inj)
    then show ?thesis using rest GpioWatch b by (simp add: field_inj del: le_bytes.simps One_nat_def)
  qed (use code assms rest in \<open>cases b; simp add: field_inj scalar_ranges unsendable_def del: le_bytes.simps One_nat_def\<close>)+
qed

subsection \<open>The contract\<close>

lemma encode_body_decodes:
  assumes "encode_request_body request op secrets = rcatch (encode_tlvs (int_keys d)) BodyTlv" "tlvs_ok d"
  shows "encode_request_body request op secrets = Inr (concat (map tlv_bytes d))"
    "decode_tlvs (concat (map tlv_bytes d)) None = Inr d"
proof -
  have "encode_tlvs (int_keys d) = Inr (concat (map tlv_bytes d))"
    using assms(2) by (simp add: encode_tlvs_int_keys)
  then show "encode_request_body request op secrets = Inr (concat (map tlv_bytes d))"
    using assms(1) by simp
  show "decode_tlvs (concat (map tlv_bytes d)) None = Inr d"
    by (rule decode_tlvs_complete) (use assms(2) in \<open>simp_all add: tlvs_ok_def tlv_allowed_def\<close>)
qed

lemma unsendable_fails:
  assumes "list_all snd (control_fields r)" "unsendable r = Some e" "secrets_ok secrets"
  shows "encode_request_body (dump_control r) None secrets = Inl e"
proof -
  let ?s = "map (\<lambda>p. (fst p, PyStr (snd p))) secrets"
  have sub: "fst ` set ?s \<subseteq> {''ssid'', ''password'', ''passkey''}"
    using assms(3) by (auto simp: secrets_ok_def)
  have ok: "dict_ok ?s" using assms(3) by (simp add: secrets_ok_def comp_def)
  have upd: "dict_update vals ?s = vals @ ?s" if "fst ` set vals \<inter> {''ssid'', ''password'', ''passkey''} = {}" for vals
  proof (rule dict_update_fresh [OF ok])
    have "fst ` set vals \<inter> fst ` set ?s \<subseteq> fst ` set vals \<inter> {''ssid'', ''password'', ''passkey''}"
      by (rule Int_mono [OF subset_refl sub])
    then show "fst ` set vals \<inter> fst ` set ?s = {}" unfolding that by (simp only: subset_empty)
  qed
  show ?thesis
  proof (cases r)
    case (BleConnect address)
    then have e: "e = StructError ''address''" using assms(2) by (simp add: unsendable_def)
    have "dict_update [(''address'', PyStr address)] ?s = [(''address'', PyStr address)] @ ?s" by (rule upd) simp
    then show ?thesis using BleConnect control_operation_code [of r]
      by (simp add: encode_request_body_def request_operation_control rename_fields_def wire_items e)
  next
    case (WifiSocketOpen p h pt lp)
    then obtain l where l: "lp = Some l" "e = FieldNotAssigned ''local_port''"
      using assms(2) by (cases lp) (simp_all add: unsendable_def)
    let ?v = "[(''protocol'', PyStr (socket_protocol_value p)), (''host'', PyStr h), (''local_port'', PyInt l),
      (''port_network'', PyInt pt)]"
    have r: "rename_fields ''wifi_socket_open'' (control_values r) = Inr ?v"
      using WifiSocketOpen l by (simp add: rename_fields_def pop_rename_def dict_pop_def)
    have "dict_update ?v ?s = ?v @ ?s" by (rule upd) simp
    then show ?thesis using WifiSocketOpen l r control_operation_code [of r] assms(1)
      by (simp add: encode_request_body_def request_operation_control wire_items scalar_ranges)
  qed (use assms(2) in \<open>simp_all add: unsendable_def\<close>)
qed

text \<open>A validated control request is encoded into a body that decodes to exactly its reference
  fields: the operation code, then every field under its number with its bytes at the declared width,
  then the secrets. The two requests the tables cannot express fail always: a BLE connect (its
  address is packed as one byte) and a Wi-Fi socket with a local port (which has no field number).\<close>

theorem control_body_contract:
  assumes "validate_control request = Inr r" "secrets_ok secrets"
  shows "case unsendable r of
      None \<Rightarrow> (\<exists>body. encode_request_body (dump_control r) None secrets = Inr body
                \<and> decode_tlvs body None = Inr (control_wire r secrets))
    | Some e \<Rightarrow> encode_request_body (dump_control r) None secrets = Inl e"
proof (cases "unsendable r")
  case None
  have v: "list_all snd (control_fields r)" "normal_control r = r"
    using validated_control [OF assms(1)] by (auto simp: validate_control_Inr)
  show ?thesis
    using encode_body_decodes [OF control_body_items [OF v None assms(2)] control_wire_ok [OF v(1) assms(2)]] None
    by simp
next
  case (Some e)
  then show ?thesis using unsendable_fails [OF validated_control(2) [OF assms(1)] Some assms(2)] by simp
qed

theorem control_body_contract_witness:
  "encode_request_body (dump_control (BleConnect ''AA:BB:CC:DD:EE:FF'')) None [] = Inl (StructError ''address'')
   \<and> (\<exists>body. encode_request_body (dump_control (WifiSocketClose 3)) None [] = Inr body
        \<and> decode_tlvs body None = Inr [(1, [19, 0]), (34, [3])])"
proof
  have "validate_control (BleConnect ''AA:BB:CC:DD:EE:FF'') = Inr (BleConnect ''AA:BB:CC:DD:EE:FF'')"
    by code_simp
  from control_body_contract [OF this, of "[]"]
  show "encode_request_body (dump_control (BleConnect ''AA:BB:CC:DD:EE:FF'')) None [] = Inl (StructError ''address'')"
    by (simp add: unsendable_def secrets_ok_def)
  have "validate_control (WifiSocketClose 3) = Inr (WifiSocketClose 3)" by code_simp
  from control_body_contract [OF this, of "[]"]
  show "\<exists>body. encode_request_body (dump_control (WifiSocketClose 3)) None [] = Inr body
        \<and> decode_tlvs body None = Inr [(1, [19, 0]), (34, [3])]"
    by (simp add: unsendable_def secrets_ok_def control_wire_def secret_wire_def numeral_2_eq_2)
qed

text \<open>C18: A validated exchange request is always encoded, into a body of at most 64 KiB that decodes to
  exactly its reference fields, the payload bytes among them; and two validated requests with the same
  body are the same request.\<close>

theorem exchange_body_contract:
  assumes "validate_exchange request = Inr r"
  shows "\<exists>body. encode_request_body (dump_exchange r) None [] = Inr body
    \<and> length body \<le> MAX_BRIDGE_PAYLOAD \<and> decode_tlvs body None = Inr (exchange_wire r)
    \<and> (\<forall>request' r'. validate_exchange request' = Inr r' \<and> encode_request_body (dump_exchange r') None [] = Inr body \<longrightarrow> r' = r)"
proof -
  have body: "encode_request_body (dump_exchange r) None [] = Inr (concat (map tlv_bytes (exchange_wire r)))
      \<and> decode_tlvs (concat (map tlv_bytes (exchange_wire r))) None = Inr (exchange_wire r)
      \<and> tlvs_ok (exchange_wire r) \<and> list_all snd (exchange_fields r) \<and> normal_exchange r = r \<and> exchange_model_error r = None"
    if "validate_exchange request = Inr r" for request r
  proof -
    have v: "list_all snd (exchange_fields r)" "normal_exchange r = r" "exchange_model_error r = None"
      using validated_exchange [OF that] by (auto simp: validate_exchange_Inr)
    show ?thesis using encode_body_decodes [OF exchange_body_items [OF v(1,2)] exchange_wire_ok [OF v(1)]]
        exchange_wire_ok [OF v(1)] v by simp
  qed
  have "r' = r" if "validate_exchange request' = Inr r'"
    "encode_request_body (dump_exchange r') None [] = Inr (concat (map tlv_bytes (exchange_wire r)))" for request' r'
  proof -
    have "exchange_wire r' = exchange_wire r" using body [OF assms] body [OF that(1)] that(2) by simp
    then show ?thesis using exchange_wire_inj body [OF assms] body [OF that(1)] by blast
  qed
  then show ?thesis using body [OF assms] by (auto simp: tlvs_ok_def)
qed

theorem exchange_body_contract_witness:
  "\<exists>body. encode_request_body (dump_exchange (UartWrite (b64encode [1, 2]) 2)) None [] = Inr body
     \<and> decode_tlvs body None = Inr [(1, [42, 0]), (5, [1, 2]), (4, [2])]"
proof -
  have "validate_exchange (UartWrite (b64encode [1, 2]) 2) = Inr (UartWrite (b64encode [1, 2]) 2)"
    by (simp add: validate_exchange_Inr payload_ok_encode in_range_def del: b64encode.simps)
  from exchange_body_contract [OF this] show ?thesis
    by (auto simp: exchange_wire_def data_bytes_def numeral_2_eq_2 simp del: b64encode.simps)
qed

text \<open>Two validated control requests with the same body and secrets are the same request, except
  that the passkey profile of a BLE pairing is not sent, only the passkey.\<close>

theorem control_body_determines:
  assumes "validate_control request = Inr r" "validate_control request' = Inr r'" "secrets_ok secrets"
    "encode_request_body (dump_control r) None secrets = Inr body"
    "encode_request_body (dump_control r') None secrets = Inr body"
  shows "r = r' \<or> (\<exists>p q. r = BlePair p \<and> r' = BlePair q)"
proof -
  have body: "list_all snd (control_fields r) \<and> normal_control r = r \<and> unsendable r = None
      \<and> decode_tlvs body None = Inr (control_wire r secrets)"
    if v: "validate_control request = Inr r" "encode_request_body (dump_control r) None secrets = Inr body"
    for request r
  proof -
    have f: "list_all snd (control_fields r)" "normal_control r = r"
      using validated_control [OF v(1)] by (auto simp: validate_control_Inr)
    have u: "unsendable r = None" using unsendable_fails [OF f(1) _ assms(3)] v(2) by (cases "unsendable r") auto
    show ?thesis
      using encode_body_decodes [OF control_body_items [OF f u assms(3)] control_wire_ok [OF f(1) assms(3)]] v(2) f u
      by simp
  qed
  show ?thesis using control_wire_inj body [OF assms(1,4)] body [OF assms(2,5)] by auto
qed

theorem control_body_determines_witness:
  "encode_request_body (dump_control (CanConfigure 0 125000)) None []
     \<noteq> encode_request_body (dump_control (CanConfigure 0 250000)) None []"
proof
  assume eq: "encode_request_body (dump_control (CanConfigure 0 125000)) None []
     = encode_request_body (dump_control (CanConfigure 0 250000)) None []"
  have v: "validate_control (CanConfigure 0 125000) = Inr (CanConfigure 0 125000)"
    "validate_control (CanConfigure 0 250000) = Inr (CanConfigure 0 250000)" by (code_simp, code_simp)
  have s: "secrets_ok []" by (simp add: secrets_ok_def)
  obtain body where "encode_request_body (dump_control (CanConfigure 0 125000)) None [] = Inr body"
    using encode_body_decodes(1) [OF control_body_items control_wire_ok, OF _ _ _ s _ s, of "CanConfigure 0 125000"]
    by (simp add: in_range_def unsendable_def)
  then show False using control_body_determines [OF v s] eq by simp
qed

end
