(* ===== verification/Leases.thy ===== *)
theory Leases
  imports Prelude
begin

text \<open>
  Exclusive probe leases: \<^verbatim>\<open>leases.py\<close>. The state has the four dictionaries of the manager. A lock is
  the flag of an \<^verbatim>\<open>asyncio.Lock\<close>; \<open>granted\<close> holds the tasks that own a lock but have not resumed from
  \<^verbatim>\<open>wait_for\<close> yet, so that nothing is assumed about how soon a task runs after it is granted. A step
  of the relation is the code between two suspension points. Task and lease identifiers are opaque;
  \<^verbatim>\<open>uuid4\<close> appears as a lease id that is not in use.
\<close>

type_synonym task = nat

record lease_info =
  lease_id :: string
  lease_probe :: string
  lease_owner :: string
  acquired_at :: nat

record lease_state =
  locks :: "(string, bool) dict"
  active :: "(string, lease_info) dict"
  by_id :: "(string, lease_info) dict"
  lease_tasks :: "(string, task) dict"
  granted :: "(task \<times> string \<times> string) list"     \<comment> \<open>task, probe, owner\<close>

definition new_manager :: lease_state where
  "new_manager = \<lparr> locks = [], active = [], by_id = [], lease_tasks = [], granted = [] \<rparr>"

datatype lease_error = ProbeBusy string string      \<comment> \<open>probe, holder\<close>

subsection \<open>Operations\<close>

definition lock_for :: "string \<Rightarrow> lease_state \<Rightarrow> lease_state" where
  "lock_for probe st = st \<lparr> locks := dict_setdefault (locks st) probe False \<rparr>"

text \<open>\<open>grant\<close> is the moment \<^verbatim>\<open>lock.acquire()\<close> succeeds, \<open>acquire_timeout\<close> the exception when it does not in
  time, \<open>register\<close> the code after it.\<close>

definition grant :: "task \<Rightarrow> string \<Rightarrow> string \<Rightarrow> lease_state \<Rightarrow> lease_state option" where
  "grant t probe owner st =
     (if dict_get (locks st) probe = Some False
      then Some (st \<lparr> locks := dict_set (locks st) probe True, granted := granted st @ [(t, probe, owner)] \<rparr>)
      else None)"

definition acquire_timeout :: "string \<Rightarrow> lease_state \<Rightarrow> lease_error" where
  "acquire_timeout probe st =
     ProbeBusy probe (case dict_get (active st) probe of None \<Rightarrow> ''unknown'' | Some i \<Rightarrow> lease_owner i)"

definition register :: "task \<Rightarrow> string \<Rightarrow> string \<Rightarrow> string \<Rightarrow> nat \<Rightarrow> lease_state \<Rightarrow> lease_info \<times> lease_state" where
  "register t probe owner new_id now st =
     (let info = \<lparr> lease_id = new_id, lease_probe = probe, lease_owner = owner, acquired_at = now \<rparr> in
      (info, st \<lparr> active := dict_set (active st) probe info,
                  by_id := dict_set (by_id st) new_id info,
                  lease_tasks := dict_set (lease_tasks st) new_id t,
                  granted := remove1 (t, probe, owner) (granted st) \<rparr>))"

definition release :: "string \<Rightarrow> lease_state \<Rightarrow> lease_state" where
  "release lid st =
     (let info = dict_get (by_id st) lid;
          st = st \<lparr> by_id := dict_pop (by_id st) lid, lease_tasks := dict_pop (lease_tasks st) lid \<rparr> in
      case info of
        None \<Rightarrow> st
      | Some i \<Rightarrow>
          (let st = st \<lparr> active := dict_pop (active st) (lease_probe i) \<rparr> in
           if dict_get (locks st) (lease_probe i) = Some True
           then st \<lparr> locks := dict_set (locks st) (lease_probe i) False \<rparr> else st))"

text \<open>Entering the context manager: the active lease of the same task is reused and its exit does
  nothing; otherwise a lease is acquired and released on exit.\<close>

definition reentrant :: "task \<Rightarrow> string \<Rightarrow> lease_state \<Rightarrow> lease_info option" where
  "reentrant t probe st =
     (case dict_get (active st) probe of
        None \<Rightarrow> None
      | Some i \<Rightarrow> if dict_get (lease_tasks st) (lease_id i) = Some t then Some i else None)"

datatype lease_frame = Reused lease_info | Acquired lease_info

definition lease_exit :: "lease_frame \<Rightarrow> lease_state \<Rightarrow> lease_state" where
  "lease_exit f st = (case f of Reused _ \<Rightarrow> st | Acquired i \<Rightarrow> release (lease_id i) st)"

definition active_leases :: "lease_state \<Rightarrow> lease_info list" where
  "active_leases st = map snd (active st)"

subsection \<open>Steps\<close>

inductive lease_step :: "lease_state \<Rightarrow> lease_state \<Rightarrow> bool" where
  step_lock_for: "lease_step st (lock_for probe st)"
| step_grant: "grant t probe owner st = Some st' \<Longrightarrow> lease_step st st'"
| step_register: "(t, probe, owner) \<in> set (granted st) \<Longrightarrow> \<not> dict_has (by_id st) new_id \<Longrightarrow>
    lease_step st (snd (register t probe owner new_id now st))"
| step_release: "lease_step st (release lid st)"
| step_exit: "lease_step st (lease_exit f st)"

inductive lease_reachable :: "lease_state \<Rightarrow> bool" where
  reach_init: "lease_reachable new_manager"
| reach_step: "lease_reachable st \<Longrightarrow> lease_step st st' \<Longrightarrow> lease_reachable st'"

subsection \<open>Invariant\<close>

definition granted_probes :: "lease_state \<Rightarrow> string list" where
  "granted_probes st = map (fst \<circ> snd) (granted st)"

text \<open>Every lease is filed under its id and its probe, and a lock is taken exactly when a lease or a
  granted task stands for it, never two.\<close>

definition lease_inv :: "lease_state \<Rightarrow> bool" where
  "lease_inv st \<longleftrightarrow>
     dict_ok (active st) \<and> dict_ok (by_id st)
     \<and> (\<forall>lid i. dict_get (by_id st) lid = Some i \<longrightarrow> lease_id i = lid \<and> dict_get (active st) (lease_probe i) = Some i)
     \<and> (\<forall>p i. dict_get (active st) p = Some i \<longrightarrow> lease_probe i = p \<and> dict_get (by_id st) (lease_id i) = Some i)
     \<and> fst ` set (lease_tasks st) = fst ` set (by_id st)
     \<and> distinct (granted_probes st)
     \<and> (\<forall>p. p \<in> set (granted_probes st) \<longrightarrow> dict_get (active st) p = None)
     \<and> (\<forall>p. dict_get (locks st) p = Some True \<longleftrightarrow> p \<in> set (granted_probes st) \<or> dict_get (active st) p \<noteq> None)"

lemma lease_invD:
  assumes "lease_inv st"
  shows "dict_ok (active st)" "dict_ok (by_id st)"
    "\<And>lid i. dict_get (by_id st) lid = Some i \<Longrightarrow> lease_id i = lid \<and> dict_get (active st) (lease_probe i) = Some i"
    "\<And>p i. dict_get (active st) p = Some i \<Longrightarrow> lease_probe i = p \<and> dict_get (by_id st) (lease_id i) = Some i"
    "fst ` set (lease_tasks st) = fst ` set (by_id st)"
    "distinct (granted_probes st)"
    "\<And>p. p \<in> set (granted_probes st) \<Longrightarrow> dict_get (active st) p = None"
    "\<And>p. dict_get (locks st) p = Some True \<longleftrightarrow> p \<in> set (granted_probes st) \<or> dict_get (active st) p \<noteq> None"
  using assms unfolding lease_inv_def by blast+

lemma lease_inv_new: "lease_inv new_manager"
  by (simp add: lease_inv_def new_manager_def granted_probes_def)

lemma lease_inv_lock_for: "lease_inv st \<Longrightarrow> lease_inv (lock_for probe st)"
proof -
  assume inv: "lease_inv st"
  have "dict_get (locks (lock_for probe st)) p = Some True \<longleftrightarrow> dict_get (locks st) p = Some True" for p
    by (auto simp: lock_for_def dict_setdefault_def split: option.split)
  moreover have "active (lock_for probe st) = active st" "by_id (lock_for probe st) = by_id st"
    "lease_tasks (lock_for probe st) = lease_tasks st" "granted_probes (lock_for probe st) = granted_probes st"
    by (simp_all add: lock_for_def granted_probes_def)
  ultimately show ?thesis using inv unfolding lease_inv_def by simp
qed

lemma lease_inv_grant:
  assumes inv: "lease_inv st" and g: "grant t probe owner st = Some st'"
  shows "lease_inv st'"
proof -
  have free: "dict_get (locks st) probe = Some False" and
    st': "st' = st \<lparr> locks := dict_set (locks st) probe True, granted := granted st @ [(t, probe, owner)] \<rparr>"
    using g by (auto simp: grant_def split: if_splits)
  have gp: "granted_probes st' = granted_probes st @ [probe]" by (simp add: st' granted_probes_def)
  have new: "probe \<notin> set (granted_probes st)" "dict_get (active st) probe = None"
    using lease_invD(8) [OF inv, of probe] free by auto
  show ?thesis
    unfolding lease_inv_def gp
    using lease_invD [OF inv] new by (auto simp: st')
qed

lemma map_remove1_distinct:
  "distinct (map f xs) \<Longrightarrow> x \<in> set xs \<Longrightarrow> map f (remove1 x xs) = remove1 (f x) (map f xs)"
  by (induction xs) (auto, metis image_eqI)

lemma lease_inv_register:
  assumes inv: "lease_inv st" and g: "(t, probe, owner) \<in> set (granted st)" and fresh: "\<not> dict_has (by_id st) new_id"
  shows "lease_inv (snd (register t probe owner new_id now st))"
proof -
  define i where "i = \<lparr> lease_id = new_id, lease_probe = probe, lease_owner = owner, acquired_at = now \<rparr>"
  define st' where "st' = snd (register t probe owner new_id now st)"
  have st': "st' = st \<lparr> active := dict_set (active st) probe i, by_id := dict_set (by_id st) new_id i,
      lease_tasks := dict_set (lease_tasks st) new_id t, granted := remove1 (t, probe, owner) (granted st) \<rparr>"
    by (simp add: st'_def register_def i_def Let_def)
  note I = lease_invD [OF inv]
  have mem: "probe \<in> set (granted_probes st)" using g by (force simp: granted_probes_def)
  then have none: "dict_get (active st) probe = None" by (rule I(7))
  have gp: "distinct (granted_probes st')" "set (granted_probes st') = set (granted_probes st) - {probe}"
    using map_remove1_distinct [OF I(6) [unfolded granted_probes_def] g] I(6)
    by (simp_all add: st' granted_probes_def)
  have fresh': "dict_get (by_id st) new_id = None" using fresh by (simp add: dict_get_None)
  have by_id: "lease_id j = lid \<and> dict_get (active st') (lease_probe j) = Some j"
    if "dict_get (by_id st') lid = Some j" for lid j
    using that I(3) [of lid j] none by (auto simp: st' i_def split: if_splits)
  have act: "lease_probe j = p \<and> dict_get (by_id st') (lease_id j) = Some j"
    if "dict_get (active st') p = Some j" for p j
    using that I(4) [of p j] fresh' by (auto simp: st' i_def split: if_splits)
  have "dict_ok (active st')" "dict_ok (by_id st')" "fst ` set (lease_tasks st') = fst ` set (by_id st')"
    using I(1,2,5) by (simp_all add: st')
  moreover have "dict_get (active st') p = None" if "p \<in> set (granted_probes st')" for p
    using that I(7) [of p] unfolding gp(2) by (simp add: st')
  moreover have "dict_get (locks st') p = Some True \<longleftrightarrow> p \<in> set (granted_probes st') \<or> dict_get (active st') p \<noteq> None" for p
    using I(8) [of p] mem unfolding gp(2) by (cases "p = probe") (simp_all add: st')
  ultimately have "lease_inv st'"
    unfolding lease_inv_def using by_id act gp(1) by blast
  then show ?thesis by (simp add: st'_def)
qed

lemma release_stale: "\<not> dict_has (by_id st) lid \<Longrightarrow> lease_inv st \<Longrightarrow> release lid st = st"
proof -
  assume none: "\<not> dict_has (by_id st) lid" and "lease_inv st"
  then have "\<not> dict_has (lease_tasks st) lid" by (simp add: lease_invD(5))
  moreover have "dict_get (by_id st) lid = None" using none by (simp only: dict_get_None not_False_eq_True)
  ultimately show ?thesis using none by (simp add: release_def dict_pop_absent)
qed

lemma release_held:
  assumes inv: "lease_inv st" and held: "dict_get (by_id st) lid = Some i"
  shows "release lid st = st \<lparr> by_id := dict_pop (by_id st) lid, lease_tasks := dict_pop (lease_tasks st) lid,
      active := dict_pop (active st) (lease_probe i), locks := dict_set (locks st) (lease_probe i) False \<rparr>"
proof -
  have "dict_get (locks st) (lease_probe i) = Some True"
    using lease_invD(3,8) [OF inv] held by auto
  then show ?thesis using held by (simp add: release_def)
qed

lemma lease_inv_release:
  assumes inv: "lease_inv st"
  shows "lease_inv (release lid st)"
proof (cases "dict_get (by_id st) lid")
  case None
  then show ?thesis using release_stale [of lid st] inv by (simp add: dict_get_None)
next
  case (Some i)
  note I = lease_invD [OF inv]
  define p where "p = lease_probe i"
  have li: "lease_id i = lid" "dict_get (active st) p = Some i" using I(3) [OF Some] by (auto simp: p_def)
  have np: "p \<notin> set (granted_probes st)" using I(7) [of p] li by auto
  define st' where "st' = release lid st"
  have st': "st' = st \<lparr> by_id := dict_pop (by_id st) lid, lease_tasks := dict_pop (lease_tasks st) lid,
      active := dict_pop (active st) p, locks := dict_set (locks st) p False \<rparr>"
    by (simp add: st'_def release_held [OF inv Some] p_def)
  have gp: "granted_probes st' = granted_probes st" by (simp add: st' granted_probes_def)
  have by_id: "lease_id j = l \<and> dict_get (active st') (lease_probe j) = Some j"
    if "dict_get (by_id st') l = Some j" for l j
    using that I(3) [of l j] li by (auto simp: st' split: if_splits)
  have act: "lease_probe j = q \<and> dict_get (by_id st') (lease_id j) = Some j"
    if "dict_get (active st') q = Some j" for q j
    using that I(4) [of q j] I(4) [of p i] li by (auto simp: st' split: if_splits)
  have "dict_ok (active st')" "dict_ok (by_id st')" "fst ` set (lease_tasks st') = fst ` set (by_id st')"
    using I(1,2,5) by (simp_all add: st')
  moreover have "dict_get (active st') q = None" if "q \<in> set (granted_probes st)" for q
    using I(7) [OF that] by (simp add: st')
  moreover have "dict_get (locks st') q = Some True \<longleftrightarrow> q \<in> set (granted_probes st) \<or> dict_get (active st') q \<noteq> None" for q
    using I(8) [of q] np by (cases "q = p") (simp_all add: st')
  ultimately have "lease_inv st'"
    unfolding lease_inv_def gp using by_id act I(6) by blast
  then show ?thesis by (simp add: st'_def)
qed

lemma lease_inv_step: "lease_step st st' \<Longrightarrow> lease_inv st \<Longrightarrow> lease_inv st'"
proof (induction rule: lease_step.induct)
  case (step_exit st f)
  then show ?case by (cases f) (simp_all add: lease_exit_def lease_inv_release)
qed (simp_all add: lease_inv_lock_for lease_inv_grant lease_inv_register lease_inv_release)

lemma lease_inv_reachable: "lease_reachable st \<Longrightarrow> lease_inv st"
  by (induction rule: lease_reachable.induct) (auto intro: lease_inv_new lease_inv_step)

subsection \<open>Guarantees\<close>

text \<open>C17: Mutual exclusion. In every reachable state two live leases of one probe are the same lease,
  the active list is exactly the live leases with one per probe, and while a probe is leased no task
  is granted its lock and a waiter that times out is told the holder.\<close>

theorem lease_mutual_exclusion:
  assumes "lease_reachable st"
  shows "(\<forall>i j. i \<in> snd ` set (by_id st) \<and> j \<in> snd ` set (by_id st) \<and> lease_probe i = lease_probe j \<longrightarrow> i = j)
    \<and> set (active_leases st) = snd ` set (by_id st) \<and> distinct (map lease_probe (active_leases st))
    \<and> (\<forall>i t owner. i \<in> set (active_leases st) \<longrightarrow> grant t (lease_probe i) owner st = None
         \<and> acquire_timeout (lease_probe i) st = ProbeBusy (lease_probe i) (lease_owner i))"
proof -
  note I = lease_invD [OF lease_inv_reachable [OF assms]]
  have by_id: "dict_get (by_id st) (lease_id i) = Some i \<and> dict_get (active st) (lease_probe i) = Some i"
    if m: "i \<in> snd ` set (by_id st)" for i
  proof -
    obtain lid where "(lid, i) \<in> set (by_id st)" using m by force
    then have "dict_get (by_id st) lid = Some i" using I(2) by simp
    then show ?thesis using I(3) [of lid i] by auto
  qed
  have act: "dict_get (active st) (lease_probe i) = Some i \<and> i \<in> snd ` set (by_id st)"
    if m: "i \<in> set (active_leases st)" for i
  proof -
    obtain p where "(p, i) \<in> set (active st)" using m by (force simp: active_leases_def)
    then have "dict_get (active st) p = Some i" using I(1) by simp
    then have "lease_probe i = p" "dict_get (by_id st) (lease_id i) = Some i" "dict_get (active st) p = Some i"
      using I(4) by blast+
    then show ?thesis by (metis map_of_SomeD image_eqI snd_conv)
  qed
  have in_active: "i \<in> set (active_leases st)" if "i \<in> snd ` set (by_id st)" for i
    using by_id [OF that] by (force simp: active_leases_def dest: map_of_SomeD)
  have "map lease_probe (active_leases st) = map fst (active st)"
    unfolding active_leases_def map_map
  proof (rule map_cong [OF refl])
    fix x assume "x \<in> set (active st)"
    then have "dict_get (active st) (fst x) = Some (snd x)"
      using map_of_is_SomeI [OF I(1), of "fst x" "snd x"] by (simp only: prod.collapse)
    then show "(lease_probe \<circ> snd) x = fst x" using I(4) by simp
  qed
  then have "distinct (map lease_probe (active_leases st))" using I(1) by simp
  moreover have "grant t (lease_probe i) owner st = None \<and> acquire_timeout (lease_probe i) st = ProbeBusy (lease_probe i) (lease_owner i)"
    if "i \<in> set (active_leases st)" for i t owner
    using act [OF that] I(8) [of "lease_probe i"] by (simp add: grant_def acquire_timeout_def)
  moreover have "set (active_leases st) = snd ` set (by_id st)"
    using act in_active by blast
  ultimately show ?thesis using by_id by (metis option.inject)
qed

lemma lease_example:
  "lease_reachable (snd (register 1 ''p'' ''o'' ''id'' 0 (new_manager \<lparr> locks := [(''p'', True)], granted := [(1, ''p'', ''o'')] \<rparr>)))"
proof -
  have 1: "lease_reachable (lock_for ''p'' new_manager)"
    by (rule reach_step [OF reach_init step_lock_for])
  have "grant 1 ''p'' ''o'' (lock_for ''p'' new_manager)
      = Some (new_manager \<lparr> locks := [(''p'', True)], granted := [(1, ''p'', ''o'')] \<rparr>)"
    by (simp add: grant_def lock_for_def new_manager_def dict_setdefault_def)
  then have 2: "lease_reachable (new_manager \<lparr> locks := [(''p'', True)], granted := [(1, ''p'', ''o'')] \<rparr>)"
    by (rule reach_step [OF 1 step_grant])
  show ?thesis by (rule reach_step [OF 2 step_register]) (simp_all add: new_manager_def)
qed

theorem lease_mutual_exclusion_witness:
  "grant 2 ''p'' ''x'' (snd (register 1 ''p'' ''o'' ''id'' 0
     (new_manager \<lparr> locks := [(''p'', True)], granted := [(1, ''p'', ''o'')] \<rparr>))) = None"
  using lease_mutual_exclusion [OF lease_example]
  by (simp add: active_leases_def register_def new_manager_def Let_def)

text \<open>Releasing. Releasing an id that is not live changes nothing; releasing a live lease removes
  that lease and no other, frees its probe so that the next task is granted at once, and a second
  release of the same id changes nothing.\<close>

theorem release_exact:
  assumes "lease_reachable st"
  shows "(\<not> dict_has (by_id st) lid \<longrightarrow> release lid st = st)
    \<and> (\<forall>i. dict_get (by_id st) lid = Some i \<longrightarrow>
         dict_get (by_id (release lid st)) = (dict_get (by_id st))(lid := None)
         \<and> dict_get (active (release lid st)) = (dict_get (active st))(lease_probe i := None)
         \<and> (\<forall>t owner. grant t (lease_probe i) owner (release lid st) \<noteq> None)
         \<and> release lid (release lid st) = release lid st)"
proof -
  note inv = lease_inv_reachable [OF assms]
  have "dict_get (by_id (release lid st)) = (dict_get (by_id st))(lid := None)
      \<and> dict_get (active (release lid st)) = (dict_get (active st))(lease_probe i := None)
      \<and> (\<forall>t owner. grant t (lease_probe i) owner (release lid st) \<noteq> None)
      \<and> release lid (release lid st) = release lid st" if "dict_get (by_id st) lid = Some i" for i
  proof -
    note R = release_held [OF inv that]
    have "\<not> dict_has (by_id (release lid st)) lid" by (simp add: R)
    then have "release lid (release lid st) = release lid st"
      by (rule release_stale) (rule lease_inv_release [OF inv])
    then show ?thesis by (simp add: R grant_def fun_eq_iff)
  qed
  then show ?thesis using release_stale [OF _ inv] by blast
qed

theorem release_exact_witness:
  "grant 2 ''p'' ''x'' (release ''id'' (snd (register 1 ''p'' ''o'' ''id'' 0
     (new_manager \<lparr> locks := [(''p'', True)], granted := [(1, ''p'', ''o'')] \<rparr>)))) \<noteq> None"
  using release_exact [OF lease_example, of "''id''"]
  by (simp add: register_def new_manager_def Let_def)

text \<open>Nesting. After a task registers a lease, entering again reuses that lease for the same task
  only, for as long as the lease lives: no other operation on other leases takes it away.\<close>

theorem lease_nesting:
  assumes "lease_reachable st" "(t, probe, owner) \<in> set (granted st)" "\<not> dict_has (by_id st) new_id"
    "register t probe owner new_id now st = (info, st1)"
  shows "reentrant u probe st1 = (if u = t then Some info else None)
    \<and> (\<forall>lid. lid \<noteq> new_id \<longrightarrow> reentrant t probe (release lid st1) = Some info)
    \<and> (\<forall>i. lease_exit (Reused i) st1 = st1) \<and> reentrant t probe (lease_exit (Acquired info) st1) = None"
proof -
  have inv1: "lease_inv st1"
    using lease_inv_register [OF lease_inv_reachable [OF assms(1)] assms(2,3), of now] assms(4) by simp
  have r: "dict_get (active st1) probe = Some info" "dict_get (lease_tasks st1) new_id = Some t"
    "dict_get (by_id st1) new_id = Some info" "lease_id info = new_id" "lease_probe info = probe"
    using assms(4) by (auto simp: register_def Let_def)
  have keep: "reentrant t probe (release lid st1) = Some info" if "lid \<noteq> new_id" for lid
  proof (cases "dict_get (by_id st1) lid")
    case None
    then have "release lid st1 = st1" using release_stale inv1 by (simp only: dict_get_None not_not)
    then show ?thesis using r by (simp add: reentrant_def)
  next
    case (Some j)
    have "lease_probe j \<noteq> probe" using lease_invD(3) [OF inv1 Some] r that by auto
    then show ?thesis using r that by (simp add: release_held [OF inv1 Some] reentrant_def)
  qed
  show ?thesis using keep r
    by (auto simp: reentrant_def lease_exit_def release_held [OF inv1 r(3)])
qed

theorem lease_nesting_witness:
  "reentrant 1 ''p'' (snd (register 1 ''p'' ''o'' ''id'' 0
     (new_manager \<lparr> locks := [(''p'', True)], granted := [(1, ''p'', ''o'')] \<rparr>))) \<noteq> None"
proof -
  let ?st = "new_manager \<lparr> locks := [(''p'', True)], granted := [(1, ''p'', ''o'')] \<rparr>"
  have 1: "lease_reachable (lock_for ''p'' new_manager)"
    by (rule reach_step [OF reach_init step_lock_for])
  have "grant 1 ''p'' ''o'' (lock_for ''p'' new_manager) = Some ?st"
    by (simp add: grant_def lock_for_def new_manager_def dict_setdefault_def)
  then have "lease_reachable ?st" by (rule reach_step [OF 1 step_grant])
  from lease_nesting [OF this, of 1 "''p''" "''o''" "''id''" 0 _ _ 1] show ?thesis
    by (simp add: new_manager_def register_def Let_def)
qed

end
