(* ===== verification/Core_Models.thy ===== *)
theory Core_Models
  imports Pystr
begin

text \<open>
  The typed contracts of the core: \<^verbatim>\<open>models.py\<close>. A value of a dictionary that is stored or sent as JSON is
  a \<open>json\<close>; timestamps are numbers of an unspecified clock. Computed fields (\<^verbatim>\<open>ok\<close>) are functions of
  the record.
\<close>

datatype json =
    JNull
  | JBool bool
  | JInt int
  | JReal string
  | JStr string
  | JList "json list"
  | JObj "(string \<times> json) list"

type_synonym json_object = "(string, json) dict"

fun json_truthy :: "json \<Rightarrow> bool" where
  "json_truthy JNull = False"
| "json_truthy (JBool b) = b"
| "json_truthy (JInt n) = (n \<noteq> 0)"
| "json_truthy (JReal s) = (\<exists>c \<in> set s. c \<in> set ''123456789'')"
| "json_truthy (JStr s) = (s \<noteq> [])"
| "json_truthy (JList xs) = (xs \<noteq> [])"
| "json_truthy (JObj d) = (d \<noteq> [])"

subsection \<open>Selectors\<close>

datatype model_error =
    BadIdentifier         \<comment> \<open>target profile and core identifiers\<close>
  | BadSerial             \<comment> \<open>serial identifiers\<close>
  | BadSpeed

definition identifier_chars :: "string \<Rightarrow> bool" where
  "identifier_chars s = str_isalnum (str_remove CHR ''_'' (str_remove CHR ''-'' s))"

definition normalize_selector_identifier :: "string option \<Rightarrow> model_error + string option" where
  "normalize_selector_identifier val =
     (case val of
        None \<Rightarrow> Inr None
      | Some v \<Rightarrow>
          (let normalized = str_strip v in
           if normalized = [] \<or> length normalized > 128 \<or> \<not> identifier_chars normalized
           then Inl BadIdentifier else Inr (Some normalized)))"

definition validate_serial :: "string option \<Rightarrow> model_error + string option" where
  "validate_serial val =
     (case val of
        None \<Rightarrow> Inr None
      | Some v \<Rightarrow>
          (let s = str_strip v in
           if s = [] \<or> \<not> identifier_chars s then Inl BadSerial else Inr (Some s)))"

record device_selector =
  sel_probe_serial :: "string option"
  sel_board_serial :: "string option"
  sel_target_profile :: "string option"
  sel_core :: "string option"
  sel_interface :: string
  sel_speed_khz :: int

definition default_selector :: device_selector where
  "default_selector = \<lparr> sel_probe_serial = None, sel_board_serial = None, sel_target_profile = None, sel_core = None,
     sel_interface = ''SWD'', sel_speed_khz = 4000 \<rparr>"

text \<open>Construction of a selector: the serials, then the identifiers, then the speed bounds.
  A selector with several bad fields reports the first of them here, and all in the code.\<close>

definition make_selector :: "device_selector \<Rightarrow> model_error + device_selector" where
  "make_selector s =
     rbind (validate_serial (sel_probe_serial s)) (\<lambda>probe.
     rbind (validate_serial (sel_board_serial s)) (\<lambda>board.
     rbind (normalize_selector_identifier (sel_target_profile s)) (\<lambda>profile.
     rbind (normalize_selector_identifier (sel_core s)) (\<lambda>c.
     if 5 \<le> sel_speed_khz s \<and> sel_speed_khz s \<le> 50000
     then Inr (s \<lparr> sel_probe_serial := probe, sel_board_serial := board, sel_target_profile := profile, sel_core := c \<rparr>)
     else Inl BadSpeed))))"

subsection \<open>Results\<close>

datatype target_state = StateUnknown | StateDisconnected | StateRunning | StateHalted | StateReset | StateFaulted

record command_result =
  res_operation_id :: string
  res_session_id :: "string option"
  res_backend :: string
  res_command :: "string list"
  res_started_at :: nat
  res_finished_at :: nat
  res_duration_ms :: int
  res_return_code :: "int option"
  res_timed_out :: bool
  res_stdout :: string
  res_stderr :: string
  res_parsed :: json_object
  res_warnings :: "string list"
  res_target_state_before :: target_state
  res_target_state_after :: target_state
  res_artifact_hashes :: "(string, string) dict"
  res_evidence_paths :: "string list"
  res_probe_identity :: json_object
  res_target_identity :: json_object

definition result_ok :: "command_result \<Rightarrow> bool" where
  "result_ok r = (res_return_code r = Some 0 \<and> \<not> res_timed_out r)"

record dependency_check =
  check_name :: string
  check_ok :: bool
  check_required :: bool

definition dependency_report_ok :: "dependency_check list \<Rightarrow> bool" where
  "dependency_report_ok checks = list_all check_ok (filter check_required checks)"

record validation_step =
  step_name :: string
  step_ok :: bool
  step_operation_id :: "string option"
  step_details :: json_object
  step_evidence :: "string list"

definition validation_report_ok :: "validation_step list \<Rightarrow> bool" where
  "validation_report_ok steps = list_all step_ok steps"

subsection \<open>Normal forms of selectors\<close>

lemma normalize_Some:
  "normalize_selector_identifier (Some v) = Inr w \<longleftrightarrow>
     w = Some (str_strip v) \<and> str_strip v \<noteq> [] \<and> length (str_strip v) \<le> 128 \<and> identifier_chars (str_strip v)"
  by (auto simp: normalize_selector_identifier_def Let_def)

lemma normalize_idem:
  "normalize_selector_identifier val = Inr w \<Longrightarrow> normalize_selector_identifier w = Inr w"
  by (cases val) (auto simp: normalize_selector_identifier_def Let_def split: if_splits)

lemma validate_serial_idem: "validate_serial val = Inr w \<Longrightarrow> validate_serial w = Inr w"
  by (cases val) (auto simp: validate_serial_def Let_def split: if_splits)

text \<open>An identifier is normal when it is its own normal form.\<close>

definition selector_normal :: "device_selector \<Rightarrow> bool" where
  "selector_normal s \<longleftrightarrow> make_selector s = Inr s"

text \<open>C20: Building a selector normalizes it once: the selector it returns has stripped identifiers of
  letters, digits, hyphens and underscores (at least one of them alphanumeric), a speed within bounds,
  and building it again changes nothing.\<close>

theorem selector_normal_form:
  assumes "make_selector s = Inr s'"
  shows "selector_normal s' \<and> sel_interface s' = sel_interface s \<and> 5 \<le> sel_speed_khz s' \<and> sel_speed_khz s' \<le> 50000
    \<and> (\<forall>v \<in> {sel_probe_serial s', sel_board_serial s', sel_target_profile s', sel_core s'}.
         case v of None \<Rightarrow> True | Some x \<Rightarrow> str_strip x = x \<and> x \<noteq> [] \<and> identifier_chars x)"
proof -
  obtain p b t c where
    e: "validate_serial (sel_probe_serial s) = Inr p" "validate_serial (sel_board_serial s) = Inr b"
      "normalize_selector_identifier (sel_target_profile s) = Inr t" "normalize_selector_identifier (sel_core s) = Inr c"
    and sp: "5 \<le> sel_speed_khz s" "sel_speed_khz s \<le> 50000"
    and s': "s' = s \<lparr> sel_probe_serial := p, sel_board_serial := b, sel_target_profile := t, sel_core := c \<rparr>"
    using assms by (auto simp: make_selector_def rbind_eq_Inr split: if_splits)
  have shape: "case v of None \<Rightarrow> True | Some x \<Rightarrow> str_strip x = x \<and> x \<noteq> [] \<and> identifier_chars x"
    if "validate_serial u = Inr v \<or> normalize_selector_identifier u = Inr v" for u v
    using that by (cases u) (auto simp: validate_serial_def normalize_selector_identifier_def Let_def split: if_splits)
  have "make_selector s' = Inr s'"
    using sp by (simp add: make_selector_def s' validate_serial_idem [OF e(1)] validate_serial_idem [OF e(2)]
        normalize_idem [OF e(3)] normalize_idem [OF e(4)])
  moreover have "\<forall>v \<in> {p, b, t, c}. case v of None \<Rightarrow> True | Some x \<Rightarrow> str_strip x = x \<and> x \<noteq> [] \<and> identifier_chars x"
    using shape e by blast
  ultimately show ?thesis using sp by (simp add: selector_normal_def s')
qed

theorem selector_normal_form_witness:
  "selector_normal (default_selector \<lparr> sel_core := Some ''m7'' \<rparr>)"
proof -
  have "make_selector (default_selector \<lparr> sel_core := Some '' m7 '' \<rparr>) = Inr (default_selector \<lparr> sel_core := Some ''m7'' \<rparr>)"
    by code_simp
  from selector_normal_form [OF this] show ?thesis by simp
qed

end
