(* ===== verification/Json.thy ===== *)
theory Json
  imports Core_Models "HOL-Library.List_Lexorder"
begin

text \<open>
  \<^verbatim>\<open>json.dumps(.., sort_keys=True)\<close> with its default \<^verbatim>\<open>ensure_ascii\<close>, as the store uses it: keys in code
  point order, strings escaped to ASCII, the two separators as arguments; and the JSON form of a
  res_command result (\<^verbatim>\<open>model_dump(mode="json")\<close>). \<^verbatim>\<open>datetime.isoformat\<close> is the argument \<open>isoformat\<close>.
\<close>

definition show_int :: "int \<Rightarrow> string" where
  "show_int n = (if n < 0 then CHR ''-'' # show_nat (nat (- n)) else show_nat (nat n))"

definition hex_digit :: "nat \<Rightarrow> char" where
  "hex_digit d = (if d < 10 then digit_char d else char_of (87 + d))"

definition json_char :: "char \<Rightarrow> string" where
  "json_char c =
     (if code c = 34 then [CHR 0x5C, c]
      else if code c = 92 then [CHR 0x5C, c]
      else if code c = 10 then CHR 0x5C # ''n''
      else if code c = 13 then CHR 0x5C # ''r''
      else if code c = 9 then CHR 0x5C # ''t''
      else if code c = 12 then CHR 0x5C # ''f''
      else if code c = 8 then CHR 0x5C # ''b''
      else if 32 \<le> code c \<and> code c \<le> 126 then [c]
      else CHR 0x5C # ''u00'' @ [hex_digit (code c div 16), hex_digit (code c mod 16)])"

definition json_string :: "string \<Rightarrow> string" where
  "json_string s = CHR 0x22 # concat (map json_char s) @ [CHR 0x22]"

fun join_with :: "string \<Rightarrow> string list \<Rightarrow> string" where
  "join_with sep [] = []"
| "join_with sep [x] = x"
| "join_with sep (x # y # xs) = x @ sep @ join_with sep (y # xs)"

primrec dumps :: "string \<Rightarrow> string \<Rightarrow> json \<Rightarrow> string" where
  "dumps item_sep key_sep JNull = ''null''"
| "dumps item_sep key_sep (JBool b) = (if b then ''true'' else ''false'')"
| "dumps item_sep key_sep (JInt n) = show_int n"
| "dumps item_sep key_sep (JReal s) = s"
| "dumps item_sep key_sep (JStr s) = json_string s"
| "dumps item_sep key_sep (JList xs) = ''['' @ join_with item_sep (map (dumps item_sep key_sep) xs) @ '']''"
| "dumps item_sep key_sep (JObj d) =
     CHR 0x7B # join_with item_sep
       (map (\<lambda>(k, v). json_string k @ key_sep @ v)
         (sort_key (\<lambda>p. map of_char (fst p) :: nat list) (map (map_prod id (dumps item_sep key_sep)) d)))
     @ [CHR 0x7D]"

abbreviation compact_json :: "json \<Rightarrow> string" where
  "compact_json \<equiv> dumps '','' '':''"

abbreviation default_json :: "json \<Rightarrow> string" where
  "default_json \<equiv> dumps '', '' '': ''"

subsection \<open>Command results as JSON\<close>

primrec target_state_value :: "target_state \<Rightarrow> string" where
  "target_state_value StateUnknown = ''unknown''"
| "target_state_value StateDisconnected = ''disconnected''"
| "target_state_value StateRunning = ''running''"
| "target_state_value StateHalted = ''halted''"
| "target_state_value StateReset = ''reset''"
| "target_state_value StateFaulted = ''faulted''"

definition json_opt :: "('a \<Rightarrow> json) \<Rightarrow> 'a option \<Rightarrow> json" where
  "json_opt f z = (case z of None \<Rightarrow> JNull | Some x \<Rightarrow> f x)"

definition result_json :: "(nat \<Rightarrow> string) \<Rightarrow> command_result \<Rightarrow> json" where
  "result_json isoformat r = JObj
     [(''operation_id'', JStr (res_operation_id r)),
      (''session_id'', json_opt JStr (res_session_id r)),
      (''backend'', JStr (res_backend r)),
      (''command'', JList (map JStr (res_command r))),
      (''started_at'', JStr (isoformat (res_started_at r))),
      (''finished_at'', JStr (isoformat (res_finished_at r))),
      (''duration_ms'', JInt (res_duration_ms r)),
      (''return_code'', json_opt JInt (res_return_code r)),
      (''timed_out'', JBool (res_timed_out r)),
      (''stdout'', JStr (res_stdout r)),
      (''stderr'', JStr (res_stderr r)),
      (''parsed'', JObj (res_parsed r)),
      (''warnings'', JList (map JStr (res_warnings r))),
      (''target_state_before'', JStr (target_state_value (res_target_state_before r))),
      (''target_state_after'', JStr (target_state_value (res_target_state_after r))),
      (''artifact_hashes'', JObj (map (\<lambda>(k, v). (k, JStr v)) (res_artifact_hashes r))),
      (''evidence_paths'', JList (map JStr (res_evidence_paths r))),
      (''probe_identity'', JObj (res_probe_identity r)),
      (''target_identity'', JObj (res_target_identity r)),
      (''ok'', JBool (result_ok r))]"

lemma dumps_examples:
  "compact_json (JObj [(''b'', JInt (- 3)), (''a'', JList [JBool True, JNull, JStr ''x\<newline>''])])
     = ''{\"a\":[true,null,\"x'' @ [CHR 0x5C] @ ''n\"],\"b\":-3}''"
  by code_simp

end
