(* ===== verification/Audit_Store.thy ===== *)
theory Audit_Store
  imports Json "HOL-Library.Product_Lexorder"
begin

text \<open>
  The audit store: \<^verbatim>\<open>store.py\<close>. The three tables are lists of rows in \<^verbatim>\<open>sequence\<close> or insertion order;
  the unique columns of the schema are the failures of the inserts, and a failed insert leaves the
  table as it was. The functions of the standard library that the code only calls come in a record:
  the SHA-256 hex digest of a text, \<^verbatim>\<open>isoformat\<close> and \<^verbatim>\<open>json.loads\<close>.
\<close>

record store_env =
  sha256_hex :: "string \<Rightarrow> string"
  isoformat :: "nat \<Rightarrow> string"
  json_loads :: "string \<Rightarrow> json option"

record operation_row =
  row_sequence :: nat
  row_operation_id :: string
  row_created_at :: string
  row_probe_serial :: "string option"
  row_action :: string
  row_destructive :: int
  row_payload_json :: string
  row_previous_hash :: string
  row_entry_hash :: string

record artifact =
  art_path :: string
  art_sha256 :: string
  art_size :: nat
  art_kind :: string
  art_created_at :: nat
  art_metadata :: json_object

record artifact_row =
  arow_sha256 :: string
  arow_path :: string
  arow_size :: nat
  arow_kind :: string
  arow_created_at :: string
  arow_metadata_json :: string

record session_row =
  srow_session_id :: string
  srow_probe_serial :: string
  srow_backend :: string
  srow_created_at :: string
  srow_updated_at :: string
  srow_state_json :: string

record audit_store =
  operations :: "operation_row list"
  last_sequence :: nat                      \<comment> \<open>\<^verbatim>\<open>AUTOINCREMENT\<close>: the largest sequence ever used\<close>
  artifacts :: "artifact_row list"
  sessions :: "session_row list"

definition empty_store :: audit_store where
  "empty_store = \<lparr> operations = [], last_sequence = 0, artifacts = [], sessions = [] \<rparr>"

datatype store_error =
    UniqueViolation string        \<comment> \<open>\<^verbatim>\<open>sqlite3.IntegrityError\<close> of a column\<close>
  | LimitOutOfRange
  | MalformedPayload

definition genesis_hash :: string where
  "genesis_hash = replicate 64 (CHR ''0'')"

subsection \<open>Operations\<close>

definition operation_payload ::
    "store_env \<Rightarrow> command_result \<Rightarrow> string \<Rightarrow> string option \<Rightarrow> bool \<Rightarrow> json_object option \<Rightarrow> json" where
  "operation_payload env result action probe destructive request = JObj
     [(''action'', JStr action),
      (''probe_serial'', json_opt JStr probe),
      (''destructive'', JBool destructive),
      (''request'', JObj (case request of None \<Rightarrow> [] | Some r \<Rightarrow> r)),
      (''result'', result_json (isoformat env) result)]"

text \<open>\<open>new_row\<close> is the row the insert writes, \<open>append_operation\<close> the insert with its unique columns.\<close>

definition new_row ::
    "store_env \<Rightarrow> nat \<Rightarrow> command_result \<Rightarrow> string \<Rightarrow> string option \<Rightarrow> bool \<Rightarrow> json_object option
     \<Rightarrow> audit_store \<Rightarrow> operation_row" where
  "new_row env now result action probe destructive request st =
     (let payload_json = compact_json (operation_payload env result action probe destructive request);
          previous_hash = (if operations st = [] then genesis_hash else row_entry_hash (last (operations st)));
          entry_hash = sha256_hex env (previous_hash @ payload_json)
      in \<lparr> row_sequence = Suc (last_sequence st), row_operation_id = res_operation_id result,
           row_created_at = isoformat env now, row_probe_serial = probe, row_action = action,
           row_destructive = of_bool destructive, row_payload_json = payload_json,
           row_previous_hash = previous_hash, row_entry_hash = entry_hash \<rparr>)"

definition append_operation ::
    "store_env \<Rightarrow> nat \<Rightarrow> command_result \<Rightarrow> string \<Rightarrow> string option \<Rightarrow> bool \<Rightarrow> json_object option
     \<Rightarrow> audit_store \<Rightarrow> store_error + string \<times> audit_store" where
  "append_operation env now result action probe destructive request st =
     (let row = new_row env now result action probe destructive request st in
      if row_operation_id row \<in> row_operation_id ` set (operations st) then Inl (UniqueViolation ''operation_id'')
      else if row_entry_hash row \<in> row_entry_hash ` set (operations st) then Inl (UniqueViolation ''entry_hash'')
      else Inr (row_entry_hash row,
             st \<lparr> operations := operations st @ [row], last_sequence := Suc (last_sequence st) \<rparr>))"

datatype chain_error = LinkMismatch nat | EntryHashMismatch nat     \<comment> \<open>at a sequence\<close>

fun verify_rows :: "store_env \<Rightarrow> string \<Rightarrow> operation_row list \<Rightarrow> chain_error option" where
  "verify_rows env previous_hash [] = None"
| "verify_rows env previous_hash (row # rows) =
     (if row_previous_hash row \<noteq> previous_hash then Some (LinkMismatch (row_sequence row))
      else (let expected = sha256_hex env (previous_hash @ row_payload_json row) in
            if row_entry_hash row \<noteq> expected then Some (EntryHashMismatch (row_sequence row))
            else verify_rows env expected rows))"

definition verify_chain :: "store_env \<Rightarrow> audit_store \<Rightarrow> bool \<times> chain_error option" where
  "verify_chain env st =
     (case verify_rows env genesis_hash (operations st) of
        Some e \<Rightarrow> (False, Some e)
      | None \<Rightarrow> (True, None))"

definition list_operations :: "int \<Rightarrow> audit_store \<Rightarrow> store_error + operation_row list" where
  "list_operations limit st =
     (if \<not> (1 \<le> limit \<and> limit \<le> 1000) then Inl LimitOutOfRange
      else Inr (take (nat limit) (rev (operations st))))"

subsection \<open>The verified pairing\<close>

text \<open>\<open>json_get\<close> is \<^verbatim>\<open>d.get(key, {})\<close> of a dictionary; on another value the attribute is missing.\<close>

definition json_get :: "json \<Rightarrow> string \<Rightarrow> json \<Rightarrow> store_error + json" where
  "json_get j key missing =
     (case j of JObj d \<Rightarrow> Inr (case dict_get d key of None \<Rightarrow> missing | Some v \<Rightarrow> v) | _ \<Rightarrow> Inl MalformedPayload)"

definition row_pairs :: "store_env \<Rightarrow> string \<Rightarrow> string \<Rightarrow> operation_row \<Rightarrow> store_error + bool" where
  "row_pairs env board probe row =
     (case json_loads env (row_payload_json row) of
        None \<Rightarrow> Inl MalformedPayload
      | Some payload \<Rightarrow>
          rbind (json_get payload ''result'' (JObj [])) (\<lambda>result.
          rbind (json_get result ''target_identity'' (JObj [])) (\<lambda>target.
          rbind (json_get result ''probe_identity'' (JObj [])) (\<lambda>probe_id.
          rbind (json_get target ''board_serial'' JNull) (\<lambda>b.
          if b \<noteq> JStr board then Inr False else
          rbind (json_get probe_id ''serial'' JNull) (\<lambda>s.
          if s \<noteq> JStr probe then Inr False else
          rbind (json_get target ''cpuid'' JNull) (\<lambda>c.
          if \<not> json_truthy c then Inr False else
          rbind (json_get target ''dpidr'' JNull) (\<lambda>d. Inr (json_truthy d)))))))))"

fun any_row :: "('a \<Rightarrow> 'e + bool) \<Rightarrow> 'a list \<Rightarrow> 'e + bool" where
  "any_row f [] = Inr False"
| "any_row f (row # rows) = rbind (f row) (\<lambda>b. if b then Inr True else any_row f rows)"

definition has_verified_target :: "store_env \<Rightarrow> string \<Rightarrow> string \<Rightarrow> audit_store \<Rightarrow> store_error + bool" where
  "has_verified_target env board probe st =
     any_row (row_pairs env board probe) (take 2000 (rev (operations st)))"

subsection \<open>Artifacts\<close>

definition artifact_to_row :: "store_env \<Rightarrow> artifact \<Rightarrow> artifact_row" where
  "artifact_to_row env a =
     \<lparr> arow_sha256 = art_sha256 a, arow_path = art_path a, arow_size = art_size a, arow_kind = art_kind a,
       arow_created_at = isoformat env (art_created_at a), arow_metadata_json = default_json (JObj (art_metadata a)) \<rparr>"

text \<open>The upsert keeps the first \<^verbatim>\<open>created_at\<close> of a digest and its place in the table.\<close>

fun upsert_artifact :: "artifact_row \<Rightarrow> artifact_row list \<Rightarrow> artifact_row list" where
  "upsert_artifact new [] = [new]"
| "upsert_artifact new (row # rows) =
     (if arow_sha256 row = arow_sha256 new
      then row \<lparr> arow_path := arow_path new, arow_size := arow_size new, arow_kind := arow_kind new,
                 arow_metadata_json := arow_metadata_json new \<rparr> # rows
      else row # upsert_artifact new rows)"

definition register_artifact :: "store_env \<Rightarrow> artifact \<Rightarrow> audit_store \<Rightarrow> audit_store" where
  "register_artifact env a st = st \<lparr> artifacts := upsert_artifact (artifact_to_row env a) (artifacts st) \<rparr>"

definition list_artifacts :: "audit_store \<Rightarrow> artifact_row list" where
  "list_artifacts st =
     sort_key (\<lambda>r. (map of_char (arow_created_at r) :: nat list, map of_char (arow_path r) :: nat list)) (artifacts st)"

subsection \<open>Sessions\<close>

fun upsert_row :: "session_row \<Rightarrow> session_row list \<Rightarrow> session_row list" where
  "upsert_row new [] = [new]"
| "upsert_row new (row # rows) =
     (if srow_session_id row = srow_session_id new
      then row \<lparr> srow_updated_at := srow_updated_at new, srow_state_json := srow_state_json new \<rparr> # rows
      else row # upsert_row new rows)"

definition upsert_session ::
    "store_env \<Rightarrow> nat \<Rightarrow> string \<Rightarrow> string \<Rightarrow> string \<Rightarrow> json_object \<Rightarrow> audit_store \<Rightarrow> audit_store" where
  "upsert_session env now sid probe backend_name state st =
     st \<lparr> sessions := upsert_row
       \<lparr> srow_session_id = sid, srow_probe_serial = probe, srow_backend = backend_name,
          srow_created_at = isoformat env now, srow_updated_at = isoformat env now,
          srow_state_json = default_json (JObj state) \<rparr> (sessions st) \<rparr>"

definition delete_session :: "string \<Rightarrow> audit_store \<Rightarrow> audit_store" where
  "delete_session sid st = st \<lparr> sessions := filter (\<lambda>r. srow_session_id r \<noteq> sid) (sessions st) \<rparr>"

definition clear_stale_sessions :: "audit_store \<Rightarrow> session_row list \<times> audit_store" where
  "clear_stale_sessions st = (sessions st, st \<lparr> sessions := [] \<rparr>)"

subsection \<open>Chains\<close>

text \<open>The hashes a list of payloads produces, from a starting hash.\<close>

fun chain_hash :: "(string \<Rightarrow> string) \<Rightarrow> string \<Rightarrow> string list \<Rightarrow> string" where
  "chain_hash h g [] = g"
| "chain_hash h g (p # ps) = chain_hash h (h (g @ p)) ps"

lemma chain_hash_append: "chain_hash h g (ps @ qs) = chain_hash h (chain_hash h g ps) qs"
  by (induction ps arbitrary: g) auto

abbreviation payloads :: "audit_store \<Rightarrow> string list" where
  "payloads st \<equiv> map row_payload_json (operations st)"

lemma verify_rows_append:
  "verify_rows env g (xs @ ys) =
     (case verify_rows env g xs of
        Some e \<Rightarrow> Some e
      | None \<Rightarrow> verify_rows env (chain_hash (sha256_hex env) g (map row_payload_json xs)) ys)"
  by (induction xs arbitrary: g) (auto simp: Let_def split: option.split)

lemma verify_rows_last:
  "verify_rows env g rows = None \<Longrightarrow>
   (if rows = [] then g else row_entry_hash (last rows)) = chain_hash (sha256_hex env) g (map row_payload_json rows)"
  by (induction rows arbitrary: g) (force simp: Let_def split: if_splits)+

text \<open>A chain verifies exactly when each row links to the hash before it and carries its own.\<close>

lemma verify_rows_iff:
  "verify_rows env g rows = None \<longleftrightarrow>
     (\<forall>k < length rows.
        row_previous_hash (rows ! k) = chain_hash (sha256_hex env) g (map row_payload_json (take k rows))
        \<and> row_entry_hash (rows ! k) = chain_hash (sha256_hex env) g (map row_payload_json (take (Suc k) rows)))"
  by (induction rows arbitrary: g) (auto simp: Let_def All_less_Suc2)

subsection \<open>Reachable stores\<close>

inductive store_step :: "store_env \<Rightarrow> audit_store \<Rightarrow> audit_store \<Rightarrow> bool" for env where
  step_append: "append_operation env now result action probe destructive request st = Inr (h, st') \<Longrightarrow> store_step env st st'"
| step_artifact: "store_step env st (register_artifact env a st)"
| step_upsert: "store_step env st (upsert_session env now sid probe b state st)"
| step_delete: "store_step env st (delete_session sid st)"
| step_clear: "store_step env st (snd (clear_stale_sessions st))"

inductive store_reachable :: "store_env \<Rightarrow> audit_store \<Rightarrow> bool" for env where
  store_init: "store_reachable env empty_store"
| store_next: "store_reachable env st \<Longrightarrow> store_step env st st' \<Longrightarrow> store_reachable env st'"

definition store_inv :: "store_env \<Rightarrow> audit_store \<Rightarrow> bool" where
  "store_inv env st \<longleftrightarrow>
     verify_rows env genesis_hash (operations st) = None
     \<and> distinct (map row_operation_id (operations st)) \<and> distinct (map row_entry_hash (operations st))
     \<and> sorted_wrt (<) (map row_sequence (operations st))
     \<and> (\<forall>r \<in> set (operations st). row_sequence r \<le> last_sequence st)
     \<and> distinct (map arow_sha256 (artifacts st)) \<and> distinct (map srow_session_id (sessions st))"

lemma append_operation_Inr:
  "append_operation env now result action probe destructive request st = Inr (h, st') \<longleftrightarrow>
     (\<exists>row. row = new_row env now result action probe destructive request st
        \<and> row_operation_id row \<notin> row_operation_id ` set (operations st)
        \<and> row_entry_hash row \<notin> row_entry_hash ` set (operations st) \<and> h = row_entry_hash row
        \<and> st' = st \<lparr> operations := operations st @ [row], last_sequence := Suc (last_sequence st) \<rparr>)"
  unfolding append_operation_def Let_def result_simps by auto

lemma new_row_fields:
  assumes "row = new_row env now result action probe destructive request st"
  shows "row_sequence row = Suc (last_sequence st)"
    "row_payload_json row = compact_json (operation_payload env result action probe destructive request)"
    "row_previous_hash row = (if operations st = [] then genesis_hash else row_entry_hash (last (operations st)))"
    "row_entry_hash row = sha256_hex env (row_previous_hash row @ row_payload_json row)"
  by (simp_all add: assms new_row_def Let_def)

lemma store_inv_append:
  assumes inv: "store_inv env st"
    and a: "append_operation env now result action probe destructive request st = Inr (h, st')"
  shows "store_inv env st'"
proof -
  obtain row where row: "row = new_row env now result action probe destructive request st"
    and new: "row_operation_id row \<notin> row_operation_id ` set (operations st)"
      "row_entry_hash row \<notin> row_entry_hash ` set (operations st)"
    and st': "st' = st \<lparr> operations := operations st @ [row], last_sequence := Suc (last_sequence st) \<rparr>"
    using a by (auto simp only: append_operation_Inr)
  note F = new_row_fields [OF row]
  have ok: "verify_rows env genesis_hash (operations st) = None" using inv by (simp add: store_inv_def)
  have "row_previous_hash row = chain_hash (sha256_hex env) genesis_hash (payloads st)"
    using verify_rows_last [OF ok] F(3) by simp
  then have "verify_rows env genesis_hash (operations st') = None"
    using F(4) by (simp add: st' verify_rows_append ok Let_def)
  moreover have "sorted_wrt (<) (map row_sequence (operations st'))"
    using inv F(1) by (auto simp: store_inv_def st' sorted_wrt_append le_imp_less_Suc)
  moreover have "\<forall>r \<in> set (operations st'). row_sequence r \<le> last_sequence st'"
    using inv F(1) by (auto simp: store_inv_def st')
  ultimately show ?thesis
    using inv new by (simp add: store_inv_def st')
qed

lemma upsert_artifact_keys:
  "arow_sha256 ` set (upsert_artifact new rows) = insert (arow_sha256 new) (arow_sha256 ` set rows)"
  "distinct (map arow_sha256 rows) \<Longrightarrow> distinct (map arow_sha256 (upsert_artifact new rows))"
proof -
  show keys: "arow_sha256 ` set (upsert_artifact new rows) = insert (arow_sha256 new) (arow_sha256 ` set rows)" for rows
    by (induction rows) auto
  show "distinct (map arow_sha256 rows) \<Longrightarrow> distinct (map arow_sha256 (upsert_artifact new rows))"
    by (induction rows) (auto simp: keys)
qed

lemma upsert_row_keys:
  "srow_session_id ` set (upsert_row new rows) = insert (srow_session_id new) (srow_session_id ` set rows)"
  "distinct (map srow_session_id rows) \<Longrightarrow> distinct (map srow_session_id (upsert_row new rows))"
proof -
  show keys: "srow_session_id ` set (upsert_row new rows) = insert (srow_session_id new) (srow_session_id ` set rows)" for rows
    by (induction rows) auto
  show "distinct (map srow_session_id rows) \<Longrightarrow> distinct (map srow_session_id (upsert_row new rows))"
    by (induction rows) (auto simp: keys)
qed

lemma store_inv_step: "store_step env st st' \<Longrightarrow> store_inv env st \<Longrightarrow> store_inv env st'"
proof (induction rule: store_step.induct)
  case (step_append now result action probe destructive request st h st')
  then show ?case by (rule store_inv_append [rotated])
next
  case (step_artifact st a)
  then show ?case by (simp add: store_inv_def register_artifact_def upsert_artifact_keys)
next
  case (step_upsert st now sid probe b state)
  then show ?case by (simp add: store_inv_def upsert_session_def upsert_row_keys)
next
  case (step_delete st sid)
  then show ?case by (simp add: store_inv_def delete_session_def distinct_map_filter)
next
  case (step_clear st)
  then show ?case by (simp add: store_inv_def clear_stale_sessions_def)
qed

lemma store_inv_reachable: "store_reachable env st \<Longrightarrow> store_inv env st"
proof (induction rule: store_reachable.induct)
  case store_init
  show ?case by (simp add: store_inv_def empty_store_def)
qed (rule store_inv_step)

subsection \<open>Guarantees\<close>

text \<open>In every reachable store the hash chain verifies, operation ids and entry hashes are unique,
  sequences increase strictly, and artifacts and sessions have one row per digest and id; appending
  keeps every earlier row, adds one row that records the request and its result, and returns that
  row's hash, which is the new tip.\<close>

theorem audit_chain_invariant:
  assumes "store_reachable env st"
  shows "verify_chain env st = (True, None)
    \<and> distinct (map row_operation_id (operations st)) \<and> distinct (map row_entry_hash (operations st))
    \<and> sorted_wrt (<) (map row_sequence (operations st))
    \<and> distinct (map arow_sha256 (artifacts st)) \<and> distinct (map srow_session_id (sessions st))
    \<and> (\<forall>now result action probe destructive request h st'.
         append_operation env now result action probe destructive request st = Inr (h, st') \<longrightarrow>
         verify_chain env st' = (True, None) \<and> take (length (operations st)) (operations st') = operations st
         \<and> length (operations st') = Suc (length (operations st))
         \<and> row_entry_hash (last (operations st')) = h
         \<and> h = chain_hash (sha256_hex env) genesis_hash (payloads st')
         \<and> row_payload_json (last (operations st'))
             = compact_json (operation_payload env result action probe destructive request))"
proof -
  note inv = store_inv_reachable [OF assms]
  have "verify_chain env st' = (True, None) \<and> take (length (operations st)) (operations st') = operations st
      \<and> length (operations st') = Suc (length (operations st))
      \<and> row_entry_hash (last (operations st')) = h
      \<and> h = chain_hash (sha256_hex env) genesis_hash (payloads st')
      \<and> row_payload_json (last (operations st'))
          = compact_json (operation_payload env result action probe destructive request)"
    if a: "append_operation env now result action probe destructive request st = Inr (h, st')"
    for now result action probe destructive request h st'
  proof -
    have ok: "verify_rows env genesis_hash (operations st') = None"
      using store_inv_append [OF inv a] by (simp add: store_inv_def)
    obtain row where row: "row = new_row env now result action probe destructive request st"
      and st': "h = row_entry_hash row" "operations st' = operations st @ [row]"
      using a by (simp add: append_operation_Inr)
    show ?thesis
      using verify_rows_last [OF ok] ok st' new_row_fields(2) [OF row] by (simp add: verify_chain_def)
  qed
  then show ?thesis using inv by (simp add: store_inv_def verify_chain_def)
qed

theorem audit_chain_invariant_witness:
  "verify_chain \<lparr> sha256_hex = (\<lambda>s. s), isoformat = show_nat, json_loads = (\<lambda>s. None) \<rparr>
     (delete_session ''s'' empty_store) = (True, None)"
  using audit_chain_invariant [OF store_next [OF store_init step_delete]] by simp

text \<open>The hash inputs of a chain.\<close>

fun chain_inputs :: "(string \<Rightarrow> string) \<Rightarrow> string \<Rightarrow> string list \<Rightarrow> string list" where
  "chain_inputs h g [] = []"
| "chain_inputs h g (p # ps) = (g @ p) # chain_inputs h (h (g @ p)) ps"

lemma chain_inputs_snoc: "chain_inputs h g (ps @ [p]) = chain_inputs h g ps @ [chain_hash h g ps @ p]"
  by (induction ps arbitrary: g) auto

lemma chain_hash_snoc: "chain_hash h g (ps @ [p]) = h (chain_hash h g ps @ p)"
  by (simp add: chain_hash_append)

lemma chain_hash_length:
  assumes "\<forall>x. length (h x) = 64" "length g = 64"
  shows "length (chain_hash h g ps) = 64"
  using assms by (induction ps arbitrary: g) auto

lemma chain_hash_separates:
  assumes len: "\<forall>x. length (h x) = 64" "length g = 64"
    and eq: "chain_hash h g ps = chain_hash h g qs"
    and coll: "\<forall>x \<in> set (chain_inputs h g ps). \<forall>y \<in> set (chain_inputs h g qs). h x = h y \<longrightarrow> x = y"
    and pre: "\<forall>x \<in> set (chain_inputs h g ps) \<union> set (chain_inputs h g qs). h x \<noteq> g"
  shows "ps = qs"
  using eq coll pre
proof (induction ps arbitrary: qs rule: rev_induct)
  case Nil
  show ?case
  proof (cases qs rule: rev_cases)
    case (snoc qs' q)
    then show ?thesis using Nil by (simp add: chain_hash_snoc chain_inputs_snoc)
  qed simp
next
  case (snoc p ps)
  show ?case
  proof (cases qs rule: rev_cases)
    case Nil
    then show ?thesis using snoc.prems by (simp add: chain_hash_snoc chain_inputs_snoc)
  next
    case (snoc qs' q)
    let ?x = "chain_hash h g ps @ p" and ?y = "chain_hash h g qs' @ q"
    have "h ?x = h ?y" using snoc.prems(1) by (simp add: snoc chain_hash_snoc)
    then have "?x = ?y" using snoc.prems(2) by (simp add: snoc chain_inputs_snoc)
    then have "chain_hash h g ps = chain_hash h g qs'" "p = q"
      using chain_hash_length [OF len, of ps] chain_hash_length [OF len, of qs'] by (auto simp: append_eq_append_conv)
    moreover have "ps = qs'"
      by (rule snoc.IH) (use calculation snoc.prems(2,3) in \<open>auto simp: snoc chain_inputs_snoc\<close>)
    ultimately show ?thesis by (simp add: snoc)
  qed
qed

text \<open>C19: Tamper evidence. Two logs that verify and end in the same entry hash hold the same payloads in
  the same order, unless two different hash inputs of these two logs collide or one of them hashes to
  the genesis value. The hash is only assumed to have 64 characters.\<close>

theorem audit_tamper_evident:
  assumes "\<forall>x. length (sha256_hex env x) = 64"
    "verify_chain env st = (True, None)" "verify_chain env st' = (True, None)"
    "operations st \<noteq> []" "operations st' \<noteq> []"
    "row_entry_hash (last (operations st)) = row_entry_hash (last (operations st'))"
    "\<forall>x \<in> set (chain_inputs (sha256_hex env) genesis_hash (payloads st)).
     \<forall>y \<in> set (chain_inputs (sha256_hex env) genesis_hash (payloads st')). sha256_hex env x = sha256_hex env y \<longrightarrow> x = y"
    "\<forall>x \<in> set (chain_inputs (sha256_hex env) genesis_hash (payloads st))
         \<union> set (chain_inputs (sha256_hex env) genesis_hash (payloads st')). sha256_hex env x \<noteq> genesis_hash"
  shows "payloads st = payloads st'"
proof -
  have "verify_rows env genesis_hash (operations st) = None" "verify_rows env genesis_hash (operations st') = None"
    using assms(2,3) by (auto simp: verify_chain_def split: option.splits)
  then have "chain_hash (sha256_hex env) genesis_hash (payloads st) = chain_hash (sha256_hex env) genesis_hash (payloads st')"
    using verify_rows_last [of env genesis_hash "operations st"] verify_rows_last [of env genesis_hash "operations st'"] assms(4-6)
    by simp
  then show ?thesis
    by (rule chain_hash_separates [OF assms(1), rotated]) (use assms(7,8) in \<open>simp_all add: genesis_hash_def\<close>)
qed

definition one_row :: operation_row where
  "one_row = \<lparr> row_sequence = 1, row_operation_id = ''op'', row_created_at = ''t'', row_probe_serial = None,
     row_action = ''reset'', row_destructive = 1, row_payload_json = ''{}'', row_previous_hash = genesis_hash,
     row_entry_hash = replicate 64 (CHR ''1'') \<rparr>"

definition one_env :: store_env where
  "one_env = \<lparr> sha256_hex = (\<lambda>s. if s = genesis_hash @ ''{}'' then replicate 64 (CHR ''1'') else replicate 64 (CHR ''2'')),
     isoformat = show_nat, json_loads = (\<lambda>s. None) \<rparr>"

theorem audit_tamper_evident_witness:
  "payloads (empty_store \<lparr> operations := [one_row] \<rparr>)
     = payloads (empty_store \<lparr> operations := [one_row \<lparr> row_created_at := ''u'' \<rparr>] \<rparr>)"
  by (rule audit_tamper_evident [of one_env])
    (simp_all add: one_env_def one_row_def verify_chain_def empty_store_def genesis_hash_def Let_def)

text \<open>What the chain does not cover. A log that verifies still verifies after dropping any number of
  its newest entries, and after changing the operation id, time, probe, action, destructive flag or
  sequence columns of its rows, because the check reads only the payload and the two hashes.\<close>

theorem verify_chain_blind:
  assumes "verify_chain env st = (True, None)"
  shows "verify_chain env (st \<lparr> operations := take n (operations st) \<rparr>) = (True, None)
    \<and> verify_chain env (st \<lparr> operations := map (\<lambda>r. r \<lparr> row_operation_id := f r, row_created_at := g r,
        row_probe_serial := p r, row_action := a r, row_destructive := d r, row_sequence := q r \<rparr>) (operations st) \<rparr>)
      = (True, None)"
proof -
  have ok: "verify_rows env genesis_hash (operations st) = None"
    using assms by (auto simp: verify_chain_def split: option.splits)
  then have "verify_rows env genesis_hash (take n (operations st) @ drop n (operations st)) = None" by simp
  then have "verify_rows env genesis_hash (take n (operations st)) = None"
    by (simp only: verify_rows_append split: option.splits)
  moreover have "verify_rows env h (map (\<lambda>r. r \<lparr> row_operation_id := f r, row_created_at := g r,
      row_probe_serial := p r, row_action := a r, row_destructive := d r, row_sequence := q r \<rparr>) rows) = None"
    if "verify_rows env h rows = None" for h rows
    using that by (induction rows arbitrary: h) (auto simp: Let_def split: if_splits)
  ultimately show ?thesis using ok by (simp add: verify_chain_def)
qed

theorem verify_chain_blind_witness:
  "verify_chain one_env (empty_store \<lparr> operations := take 0 [one_row] \<rparr>) = (True, None)"
proof -
  have "verify_chain one_env (empty_store \<lparr> operations := [one_row] \<rparr>) = (True, None)"
    by (simp add: one_env_def one_row_def verify_chain_def empty_store_def genesis_hash_def Let_def)
  from verify_chain_blind [OF this, of 0] show ?thesis by simp
qed

end
