(* ===== verification/Profiles.thy ===== *)
theory Profiles
  imports Core_Models Complex_Main
begin

text \<open>
  Target profiles and the target registry: \<^verbatim>\<open>profiles.py\<close>. A Python float is a rational or not finite.
  A board detector is code of an extension and is represented by a handle; \<open>run\<close> in \<open>detect_board\<close> is
  what calling it returns.
\<close>

datatype pyfloat = Finite rat | NotFinite

record core_profile =
  core_id :: string
  core_jlink_device :: string
  core_expected_core :: string
  core_expected_cpuid :: int
  core_svd_name :: "string option"
  core_metadata :: json_object

record target_profile =
  profile_id :: string
  profile_display_name :: string
  profile_cores :: "(string, core_profile) dict"
  profile_default_core :: string
  profile_expected_dpidr :: int
  profile_minimum_voltage :: pyfloat
  profile_default_interface :: string
  profile_default_speed :: int
  profile_metadata :: json_object

datatype profile_error =
    NotCanonical string             \<comment> \<open>what must use the canonical identifier format\<close>
  | EmptyDevice
  | NoCores
  | DefaultCoreUnknown
  | BadVoltage
  | EmptyInterface
  | BadProfileSpeed
  | CoreKeyMismatch
  | DuplicateProfile string
  | DuplicateDetector string
  | UnknownProfile string
  | UnknownCore string string       \<comment> \<open>core, profile\<close>
  | TargetUnresolved
  | AmbiguousBoard

definition require_canonical :: "string \<Rightarrow> string \<Rightarrow> profile_error + unit" where
  "require_canonical val kind =
     (case normalize_selector_identifier (Some val) of
        Inr (Some v) \<Rightarrow> if v \<noteq> val then Inl (NotCanonical kind) else Inr ()
      | _ \<Rightarrow> Inl (NotCanonical kind))"

definition make_core_profile :: "core_profile \<Rightarrow> profile_error + core_profile" where
  "make_core_profile p =
     rbind (require_canonical (core_id p) ''core profile id'') (\<lambda>_.
     if core_jlink_device p = [] then Inl EmptyDevice else Inr p)"

definition voltage_ok :: "pyfloat \<Rightarrow> bool" where
  "voltage_ok v = (case v of Finite q \<Rightarrow> q > 0 | NotFinite \<Rightarrow> False)"

definition check_core_entry :: "string \<times> core_profile \<Rightarrow> profile_error + unit" where
  "check_core_entry e =
     rbind (require_canonical (fst e) ''target profile core key'') (\<lambda>_.
     if fst e \<noteq> core_id (snd e) then Inl CoreKeyMismatch else Inr ())"

definition make_target_profile :: "target_profile \<Rightarrow> profile_error + target_profile" where
  "make_target_profile p =
     rbind (require_canonical (profile_id p) ''target profile id'') (\<lambda>_.
     if profile_cores p = [] then Inl NoCores
     else if \<not> dict_has (profile_cores p) (profile_default_core p) then Inl DefaultCoreUnknown
     else if \<not> voltage_ok (profile_minimum_voltage p) then Inl BadVoltage
     else if str_strip (profile_default_interface p) = [] then Inl EmptyInterface
     else if \<not> (5 \<le> profile_default_speed p \<and> profile_default_speed p \<le> 50000) then Inl BadProfileSpeed
     else rbind (traverse check_core_entry (profile_cores p)) (\<lambda>_. Inr p))"

subsection \<open>The registry\<close>

type_synonym handle = nat       \<comment> \<open>a callable of an extension\<close>

record target_registry =
  reg_profiles :: "(string, target_profile) dict"
  reg_detectors :: "(string, handle) dict"

definition empty_targets :: target_registry where
  "empty_targets = \<lparr> reg_profiles = [], reg_detectors = [] \<rparr>"

definition register_profile :: "target_profile \<Rightarrow> target_registry \<Rightarrow> profile_error + target_registry" where
  "register_profile p reg =
     (if dict_has (reg_profiles reg) (profile_id p) then Inl (DuplicateProfile (profile_id p))
      else Inr (reg \<lparr> reg_profiles := dict_set (reg_profiles reg) (profile_id p) p \<rparr>))"

definition register_board_detector :: "string \<Rightarrow> handle \<Rightarrow> target_registry \<Rightarrow> profile_error + target_registry" where
  "register_board_detector did d reg =
     (if dict_has (reg_detectors reg) did then Inl (DuplicateDetector did)
      else Inr (reg \<lparr> reg_detectors := dict_set (reg_detectors reg) did d \<rparr>))"

definition unregister_profile :: "string \<Rightarrow> target_registry \<Rightarrow> target_registry" where
  "unregister_profile pid reg = reg \<lparr> reg_profiles := dict_pop (reg_profiles reg) pid \<rparr>"

definition unregister_board_detector :: "string \<Rightarrow> target_registry \<Rightarrow> target_registry" where
  "unregister_board_detector did reg = reg \<lparr> reg_detectors := dict_pop (reg_detectors reg) did \<rparr>"

definition get_profile :: "target_registry \<Rightarrow> string \<Rightarrow> profile_error + target_profile" where
  "get_profile reg pid =
     (case dict_get (reg_profiles reg) pid of None \<Rightarrow> Inl (UnknownProfile pid) | Some p \<Rightarrow> Inr p)"

definition jlink_device :: "target_registry \<Rightarrow> string option \<Rightarrow> string option \<Rightarrow> profile_error + string" where
  "jlink_device reg pid cid =
     (case (pid, cid) of
        (Some p, Some c) \<Rightarrow>
          rbind (get_profile reg p) (\<lambda>profile.
          case dict_get (profile_cores profile) c of
            None \<Rightarrow> Inl (UnknownCore c p)
          | Some core \<Rightarrow> Inr (core_jlink_device core))
      | _ \<Rightarrow> Inl TargetUnresolved)"

text \<open>USB devices and the boards a detector returns are opaque here.\<close>

definition detect_board ::
    "(handle \<Rightarrow> 'usb \<Rightarrow> 'board option) \<Rightarrow> target_registry \<Rightarrow> 'usb \<Rightarrow> profile_error + 'board option" where
  "detect_board run reg usb =
     (case List.map_filter (\<lambda>p. run (snd p) usb) (reg_detectors reg) of
        [] \<Rightarrow> Inr None
      | [b] \<Rightarrow> Inr (Some b)
      | _ \<Rightarrow> Inl AmbiguousBoard)"

subsection \<open>Facts\<close>

lemma require_canonical_ok:
  "require_canonical val kind = Inr u \<longleftrightarrow>
     str_strip val = val \<and> val \<noteq> [] \<and> length val \<le> 128 \<and> identifier_chars val"
  by (auto simp: require_canonical_def normalize_selector_identifier_def Let_def)

definition target_profile_ok :: "target_profile \<Rightarrow> bool" where
  "target_profile_ok p \<longleftrightarrow> (\<exists>q. make_target_profile p = Inr q)"

lemma make_target_profile_Inr:
  "make_target_profile p = Inr q \<longleftrightarrow>
     q = p \<and> require_canonical (profile_id p) ''target profile id'' = Inr ()
     \<and> dict_has (profile_cores p) (profile_default_core p) \<and> voltage_ok (profile_minimum_voltage p)
     \<and> str_strip (profile_default_interface p) \<noteq> [] \<and> 5 \<le> profile_default_speed p \<and> profile_default_speed p \<le> 50000
     \<and> (\<forall>e \<in> set (profile_cores p). check_core_entry e = Inr ())"
proof -
  have t: "(\<exists>us. traverse check_core_entry d = Inr us) \<longleftrightarrow> (\<forall>e \<in> set d. check_core_entry e = Inr ())" for d
    by (induction d) (auto simp: rbind_eq_Inr)
  have ne: "dict_has (profile_cores p) (profile_default_core p) \<Longrightarrow> profile_cores p \<noteq> []" by auto
  show ?thesis
    unfolding make_target_profile_def result_simps
    using t [of "profile_cores p"] ne by auto
qed

lemma unregister_register_profile:
  "register_profile p reg = Inr reg' \<Longrightarrow> unregister_profile (profile_id p) reg' = reg"
  by (auto simp: register_profile_def unregister_profile_def dict_pop_set_new split: if_splits)

lemma unregister_register_detector:
  "register_board_detector did d reg = Inr reg' \<Longrightarrow> unregister_board_detector did reg' = reg"
  by (auto simp: register_board_detector_def unregister_board_detector_def dict_pop_set_new split: if_splits)

text \<open>A target profile that can be built and registered answers every later lookup of one of its
  cores: its own default core names a device, the device of each core is that core's, its name is
  canonical so that a normalized selector finds it, and registering the same name again is refused.\<close>

theorem profile_lookup:
  assumes "make_target_profile p = Inr p" "register_profile p reg = Inr reg'"
  shows "(\<exists>core. dict_get (profile_cores p) (profile_default_core p) = Some core
            \<and> jlink_device reg' (Some (profile_id p)) (Some (profile_default_core p)) = Inr (core_jlink_device core)
            \<and> core_id core = profile_default_core p)
    \<and> (\<forall>c. jlink_device reg' (Some (profile_id p)) (Some c) =
          (case dict_get (profile_cores p) c of
             None \<Rightarrow> Inl (UnknownCore c (profile_id p)) | Some core \<Rightarrow> Inr (core_jlink_device core)))
    \<and> normalize_selector_identifier (Some (profile_id p)) = Inr (Some (profile_id p))
    \<and> register_profile q reg' = (if profile_id q = profile_id p then Inl (DuplicateProfile (profile_id p))
         else rmap (\<lambda>r. r \<lparr> reg_profiles := dict_set (reg_profiles reg') (profile_id q) q \<rparr>) (register_profile q reg))
    \<and> unregister_profile (profile_id p) reg' = reg"
proof -
  have P: "require_canonical (profile_id p) ''target profile id'' = Inr ()"
    "dict_has (profile_cores p) (profile_default_core p)"
    "\<forall>e \<in> set (profile_cores p). check_core_entry e = Inr ()"
    using assms(1) by (simp_all add: make_target_profile_Inr)
  have reg': "reg' = reg \<lparr> reg_profiles := dict_set (reg_profiles reg) (profile_id p) p \<rparr>"
    "\<not> dict_has (reg_profiles reg) (profile_id p)"
    using assms(2) by (auto simp: register_profile_def split: if_splits)
  have dev: "jlink_device reg' (Some (profile_id p)) (Some c) =
      (case dict_get (profile_cores p) c of
         None \<Rightarrow> Inl (UnknownCore c (profile_id p)) | Some core \<Rightarrow> Inr (core_jlink_device core))" for c
    by (simp add: jlink_device_def get_profile_def reg'(1))
  obtain core where core: "dict_get (profile_cores p) (profile_default_core p) = Some core"
    using P(2) dict_get_None [of "profile_cores p" "profile_default_core p"] by (cases "dict_get (profile_cores p) (profile_default_core p)") auto
  then have "(profile_default_core p, core) \<in> set (profile_cores p)" by (rule map_of_SomeD)
  then have "check_core_entry (profile_default_core p, core) = Inr ()" using P(3) by blast
  then have "core_id core = profile_default_core p"
    by (auto simp: check_core_entry_def rbind_eq_Inr split: if_splits)
  moreover have "normalize_selector_identifier (Some (profile_id p)) = Inr (Some (profile_id p))"
    using P(1) by (auto simp: require_canonical_ok normalize_Some)
  moreover have "register_profile q reg' = (if profile_id q = profile_id p then Inl (DuplicateProfile (profile_id p))
      else rmap (\<lambda>r. r \<lparr> reg_profiles := dict_set (reg_profiles reg') (profile_id q) q \<rparr>) (register_profile q reg))"
    by (auto simp: register_profile_def reg'(1))
  ultimately show ?thesis
    using core dev unregister_register_profile [OF assms(2)] by auto
qed

definition giga_core :: core_profile where
  "giga_core = \<lparr> core_id = ''m7'', core_jlink_device = ''STM32H747XI_M7'', core_expected_core = ''Cortex-M7'',
     core_expected_cpuid = 0x411FC271, core_svd_name = None, core_metadata = [] \<rparr>"

definition giga_profile :: target_profile where
  "giga_profile = \<lparr> profile_id = ''giga'', profile_display_name = ''GIGA'', profile_cores = [(''m7'', giga_core)],
     profile_default_core = ''m7'', profile_expected_dpidr = 0x6BA02477, profile_minimum_voltage = Finite 1,
     profile_default_interface = ''SWD'', profile_default_speed = 4000, profile_metadata = [] \<rparr>"

theorem profile_lookup_witness:
  "jlink_device (empty_targets \<lparr> reg_profiles := [(''giga'', giga_profile)] \<rparr>) (Some ''giga'') (Some ''m7'')
     = Inr ''STM32H747XI_M7''"
proof -
  have s: "str_strip ''giga'' = ''giga''" "identifier_chars ''giga''" "str_strip ''m7'' = ''m7''"
    "identifier_chars ''m7''" "str_strip ''SWD'' = ''SWD''"
    by (code_simp, code_simp, code_simp, code_simp, code_simp)
  have c: "require_canonical ''giga'' k = Inr ()" "require_canonical ''m7'' k = Inr ()" for k
    by (simp_all add: require_canonical_ok s)
  have m: "make_target_profile giga_profile = Inr giga_profile"
    by (simp add: make_target_profile_Inr giga_profile_def c check_core_entry_def giga_core_def voltage_ok_def s)
  have r: "register_profile giga_profile empty_targets
      = Inr (empty_targets \<lparr> reg_profiles := [(''giga'', giga_profile)] \<rparr>)"
    by (simp add: register_profile_def empty_targets_def giga_profile_def)
  show ?thesis
    using profile_lookup [OF m r, THEN conjunct2, THEN conjunct1, THEN spec, of "''m7''"]
    by (simp add: giga_profile_def giga_core_def)
qed

end
