(* ===== verification/Extensions_Api.thy ===== *)
theory Extensions_Api
  imports Profiles "HOL-Library.Multiset"
begin

text \<open>
  The extension registry and the registration surface: \<^verbatim>\<open>extensions/api.py\<close>. A callable of an extension
  (detector, provider, tool or resource function, service object) is a handle. The MCP server is its
  dictionaries of tools and resources, with \<open>rejects\<close> saying for which names its decorator raises. A
  rollback action is data here and a closure in the code; an extension runs its registrations in order
  and stops at the first that raises.
\<close>

record extension_info =
  info_id :: string
  info_version :: string
  info_api_version :: int
  info_dependencies :: "string list"

record registry =
  targets :: target_registry
  extension_infos :: "extension_info list"
  tool_names :: "string set"
  resource_uris :: "string set"
  capability_providers :: "(string \<times> handle) list"
  dependency_providers :: "(string \<times> handle) list"
  services :: "((string \<times> string) \<times> handle) list"
  mcp_tools :: "(string \<times> handle) list"
  mcp_resources :: "(string \<times> handle) list"

datatype extension_error =
    ProfileProblem profile_error
  | DuplicateService string string
  | UndeclaredDependency string string       \<comment> \<open>from, to\<close>
  | ServiceUnavailable string string
  | DuplicateTool string
  | DuplicateResource string
  | McpRejected string
  | DuplicateCapability string string        \<comment> \<open>kind, name\<close>
  | ProviderFailed string string             \<comment> \<open>extension, message\<close>
  | DuplicateCheck string

datatype rollback_action =
    UnregisterProfile string
  | UnregisterDetector string
  | RemoveCapability "string \<times> handle"
  | RemoveDependency "string \<times> handle"
  | PopService "string \<times> string"
  | RemoveTool string
  | RemoveResource string

record extension_context =
  ctx_extension_id :: string
  ctx_dependencies :: "string set"
  ctx_rollback :: "rollback_action list"

subsection \<open>Undo logs\<close>

text \<open>\<open>undo_all\<close> runs inverse actions in the given order and collects what they report.\<close>

fun undo_all :: "('a \<Rightarrow> 's \<Rightarrow> 'r list \<times> 's) \<Rightarrow> 'a list \<Rightarrow> 's \<Rightarrow> 'r list \<times> 's" where
  "undo_all undo [] s = ([], s)"
| "undo_all undo (a # as) s =
     (case undo a s of (errs, s') \<Rightarrow> (case undo_all undo as s' of (errs', s'') \<Rightarrow> (errs @ errs', s'')))"

text \<open>
  The contract of a log of inverse actions: an operation that succeeds returns an action that takes
  its effect back, up to an equivalence that every own action respects; an operation that fails has
  no effect up to it.
\<close>

locale undo_log =
  fixes do_op :: "'op \<Rightarrow> 's \<Rightarrow> ('e + 'a) \<times> 's"
    and undo :: "'a \<Rightarrow> 's \<Rightarrow> 'r list \<times> 's"
    and same :: "'s \<Rightarrow> 's \<Rightarrow> bool"
    and good :: "'s \<Rightarrow> bool"
  assumes same_refl: "same s s"
    and same_trans: "same s t \<Longrightarrow> same t u \<Longrightarrow> same s u"
    and undo_do: "good s \<Longrightarrow> do_op r s = (Inr a, s') \<Longrightarrow>
      good s' \<and> (\<forall>t. same t s' \<longrightarrow> fst (undo a t) = [] \<and> same (snd (undo a t)) s)"
    and do_failed: "good s \<Longrightarrow> do_op r s = (Inl e, s') \<Longrightarrow> good s' \<and> same s' s"
begin

definition restores :: "'a list \<Rightarrow> 's \<Rightarrow> 's \<Rightarrow> bool" where
  "restores acts s s0 \<longleftrightarrow>
     (\<forall>t. same t s \<longrightarrow> fst (undo_all undo (rev acts) t) = [] \<and> same (snd (undo_all undo (rev acts) t)) s0)"

lemma restores_Nil: "restores [] s s"
  by (simp add: restores_def)

lemma restores_done:
  assumes "restores acts s s0" "good s" "do_op r s = (Inr a, s')"
  shows "restores (acts @ [a]) s' s0"
  unfolding restores_def
proof (intro allI impI)
  fix t assume t: "same t s'"
  obtain errs u where u: "undo a t = (errs, u)" by force
  have "errs = []" "same u s" using undo_do [OF assms(2,3)] t u by force+
  then have "fst (undo_all undo (rev acts) u) = []" "same (snd (undo_all undo (rev acts) u)) s0"
    using assms(1) by (simp_all add: restores_def)
  then show "fst (undo_all undo (rev (acts @ [a])) t) = [] \<and> same (snd (undo_all undo (rev (acts @ [a])) t)) s0"
    using \<open>errs = []\<close> by (simp add: u split: prod.split)
qed

lemma restores_failed:
  assumes "restores acts s s0" "good s" "do_op r s = (Inl e, s')"
  shows "restores acts s' s0"
  using assms(1) do_failed [OF assms(2,3)] same_trans unfolding restores_def by blast

end

subsection \<open>Undoing\<close>

definition remove_tool :: "string \<Rightarrow> registry \<Rightarrow> registry" where
  "remove_tool name reg =
     reg \<lparr> tool_names := tool_names reg - {name}, mcp_tools := dict_pop (mcp_tools reg) name \<rparr>"

definition remove_resource :: "string \<Rightarrow> registry \<Rightarrow> registry" where
  "remove_resource uri reg =
     reg \<lparr> resource_uris := resource_uris reg - {uri}, mcp_resources := dict_pop (mcp_resources reg) uri \<rparr>"

text \<open>\<^verbatim>\<open>list.remove\<close> of an absent entry raises; the rollback keeps its message and goes on.\<close>

definition run_rollback_action :: "rollback_action \<Rightarrow> registry \<Rightarrow> string list \<times> registry" where
  "run_rollback_action a reg =
     (case a of
        UnregisterProfile pid \<Rightarrow> ([], reg \<lparr> targets := unregister_profile pid (targets reg) \<rparr>)
      | UnregisterDetector did \<Rightarrow> ([], reg \<lparr> targets := unregister_board_detector did (targets reg) \<rparr>)
      | RemoveCapability e \<Rightarrow>
          if e \<in> set (capability_providers reg)
          then ([], reg \<lparr> capability_providers := remove1 e (capability_providers reg) \<rparr>)
          else ([''ValueError''], reg)
      | RemoveDependency e \<Rightarrow>
          if e \<in> set (dependency_providers reg)
          then ([], reg \<lparr> dependency_providers := remove1 e (dependency_providers reg) \<rparr>)
          else ([''ValueError''], reg)
      | PopService k \<Rightarrow> ([], reg \<lparr> services := dict_pop (services reg) k \<rparr>)
      | RemoveTool name \<Rightarrow> ([], remove_tool name reg)
      | RemoveResource uri \<Rightarrow> ([], remove_resource uri reg))"

definition run_rollback :: "rollback_action list \<Rightarrow> registry \<Rightarrow> string list \<times> registry" where
  "run_rollback = undo_all run_rollback_action"

definition rollback_registration :: "extension_context \<Rightarrow> registry \<Rightarrow> string list \<times> extension_context \<times> registry" where
  "rollback_registration ctx reg =
     (case run_rollback (rev (ctx_rollback ctx)) reg of
        (errs, reg') \<Rightarrow> (errs, ctx \<lparr> ctx_rollback := [] \<rparr>, reg'))"

subsection \<open>Registering\<close>

datatype registration =
    RegisterProfile target_profile
  | RegisterDetector string handle
  | RegisterCapability handle
  | RegisterDependency handle
  | PublishService string handle
  | RegisterTool string handle
  | RegisterResource string handle

definition register_target_profile :: "string \<Rightarrow> target_profile \<Rightarrow> registry \<Rightarrow> (extension_error + rollback_action) \<times> registry" where
  "register_target_profile ext p reg =
     (case register_profile p (targets reg) of
        Inl e \<Rightarrow> (Inl (ProfileProblem e), reg)
      | Inr t \<Rightarrow> (Inr (UnregisterProfile (profile_id p)), reg \<lparr> targets := t \<rparr>))"

definition register_detector :: "string \<Rightarrow> string \<Rightarrow> handle \<Rightarrow> registry \<Rightarrow> (extension_error + rollback_action) \<times> registry" where
  "register_detector ext did d reg =
     (let namespaced = ext @ '':'' @ did in
      case register_board_detector namespaced d (targets reg) of
        Inl e \<Rightarrow> (Inl (ProfileProblem e), reg)
      | Inr t \<Rightarrow> (Inr (UnregisterDetector namespaced), reg \<lparr> targets := t \<rparr>))"

definition register_capability_provider :: "string \<Rightarrow> handle \<Rightarrow> registry \<Rightarrow> (extension_error + rollback_action) \<times> registry" where
  "register_capability_provider ext p reg =
     (Inr (RemoveCapability (ext, p)), reg \<lparr> capability_providers := capability_providers reg @ [(ext, p)] \<rparr>)"

definition register_dependency_provider :: "string \<Rightarrow> handle \<Rightarrow> registry \<Rightarrow> (extension_error + rollback_action) \<times> registry" where
  "register_dependency_provider ext p reg =
     (Inr (RemoveDependency (ext, p)), reg \<lparr> dependency_providers := dependency_providers reg @ [(ext, p)] \<rparr>)"

definition publish_service :: "string \<Rightarrow> string \<Rightarrow> handle \<Rightarrow> registry \<Rightarrow> (extension_error + rollback_action) \<times> registry" where
  "publish_service ext name service reg =
     (if dict_has (services reg) (ext, name) then (Inl (DuplicateService ext name), reg)
      else (Inr (PopService (ext, name)), reg \<lparr> services := dict_set (services reg) (ext, name) service \<rparr>))"

definition require_extension_service ::
    "extension_context \<Rightarrow> string \<Rightarrow> string \<Rightarrow> registry \<Rightarrow> extension_error + handle" where
  "require_extension_service ctx ext name reg =
     (if ext \<noteq> ctx_extension_id ctx \<and> ext \<notin> ctx_dependencies ctx
      then Inl (UndeclaredDependency (ctx_extension_id ctx) ext)
      else case dict_get (services reg) (ext, name) of
          None \<Rightarrow> Inl (ServiceUnavailable ext name)
        | Some s \<Rightarrow> Inr s)"

definition register_tool ::
    "(string \<Rightarrow> bool) \<Rightarrow> string \<Rightarrow> handle \<Rightarrow> registry \<Rightarrow> (extension_error + rollback_action) \<times> registry" where
  "register_tool rejects name f reg =
     (if name \<in> tool_names reg then (Inl (DuplicateTool name), reg)
      else (let reg = reg \<lparr> tool_names := insert name (tool_names reg) \<rparr> in
        if rejects name then (Inl (McpRejected name), remove_tool name reg)
        else (Inr (RemoveTool name), reg \<lparr> mcp_tools := dict_set (mcp_tools reg) name f \<rparr>)))"

definition register_resource ::
    "(string \<Rightarrow> bool) \<Rightarrow> string \<Rightarrow> handle \<Rightarrow> registry \<Rightarrow> (extension_error + rollback_action) \<times> registry" where
  "register_resource rejects uri f reg =
     (if uri \<in> resource_uris reg then (Inl (DuplicateResource uri), reg)
      else (let reg = reg \<lparr> resource_uris := insert uri (resource_uris reg) \<rparr> in
        if rejects uri then (Inl (McpRejected uri), remove_resource uri reg)
        else (Inr (RemoveResource uri), reg \<lparr> mcp_resources := dict_set (mcp_resources reg) uri f \<rparr>)))"

definition run_registration ::
    "(string \<Rightarrow> bool) \<Rightarrow> string \<Rightarrow> registration \<Rightarrow> registry \<Rightarrow> (extension_error + rollback_action) \<times> registry" where
  "run_registration rejects ext r reg =
     (case r of
        RegisterProfile p \<Rightarrow> register_target_profile ext p reg
      | RegisterDetector did d \<Rightarrow> register_detector ext did d reg
      | RegisterCapability p \<Rightarrow> register_capability_provider ext p reg
      | RegisterDependency p \<Rightarrow> register_dependency_provider ext p reg
      | PublishService name s \<Rightarrow> publish_service ext name s reg
      | RegisterTool name f \<Rightarrow> register_tool rejects name f reg
      | RegisterResource uri f \<Rightarrow> register_resource rejects uri f reg)"

text \<open>The registrations of one extension: the log grows with each that succeeds.\<close>

fun run_registrations ::
    "(string \<Rightarrow> bool) \<Rightarrow> extension_context \<Rightarrow> registration list \<Rightarrow> registry
     \<Rightarrow> extension_error option \<times> extension_context \<times> registry" where
  "run_registrations rejects ctx [] reg = (None, ctx, reg)"
| "run_registrations rejects ctx (r # rs) reg =
     (case run_registration rejects (ctx_extension_id ctx) r reg of
        (Inl e, reg') \<Rightarrow> (Some e, ctx, reg')
      | (Inr a, reg') \<Rightarrow>
          run_registrations rejects (ctx \<lparr> ctx_rollback := ctx_rollback ctx @ [a] \<rparr>) rs reg')"

subsection \<open>Merging capabilities\<close>

datatype capability_state = Available | Unavailable | UnknownState

record manifest =
  man_tools :: "(string \<times> capability_state) list"
  man_workflows :: "(string, capability_state) dict"
  man_workflow_details :: "(string, string) dict"
  man_features :: "(string, string) dict"
  man_limitations :: "string list"
  man_raw_surfaces :: "string list"
  man_atomic_tools :: "string list"
  man_extensions :: "extension_info list"

record contribution =
  con_tools :: "(string \<times> capability_state) list"
  con_workflows :: "(string, capability_state) dict"
  con_workflow_details :: "(string, string) dict"
  con_features :: "(string, string) dict"
  con_limitations :: "string list"
  con_raw_surfaces :: "string list"
  con_atomic_tools :: "string list"

text \<open>\<open>merge_unique\<close> walks the contribution; the names seen so far are the keys of the target.\<close>

fun merge_unique :: "string \<Rightarrow> (string, 'v) dict \<Rightarrow> (string \<times> 'v) list \<Rightarrow> extension_error + (string, 'v) dict" where
  "merge_unique kind target [] = Inr target"
| "merge_unique kind target ((name, v) # rest) =
     (if dict_has target name then Inl (DuplicateCapability kind name)
      else merge_unique kind (dict_set target name v) rest)"

fun merge_tools :: "(string \<times> capability_state) list \<Rightarrow> (string \<times> capability_state) list
    \<Rightarrow> extension_error + (string \<times> capability_state) list" where
  "merge_tools target [] = Inr target"
| "merge_tools target (t # rest) =
     (if fst t \<in> fst ` set target then Inl (DuplicateCapability ''tool'' (fst t))
      else merge_tools (target @ [t]) rest)"

fun merge_atomic :: "string list \<Rightarrow> string list \<Rightarrow> extension_error + string list" where
  "merge_atomic target [] = Inr target"
| "merge_atomic target (n # rest) =
     (if n \<in> set target then Inl (DuplicateCapability ''atomic tool'' n)
      else merge_atomic (target @ [n]) rest)"

definition merge_contribution :: "contribution \<Rightarrow> manifest \<Rightarrow> extension_error + manifest" where
  "merge_contribution c m =
     rbind (merge_tools (man_tools m) (con_tools c)) (\<lambda>tools.
     rbind (merge_unique ''workflow'' (man_workflows m) (con_workflows c)) (\<lambda>workflows.
     rbind (merge_unique ''workflow detail'' (man_workflow_details m) (con_workflow_details c)) (\<lambda>details.
     rbind (merge_unique ''feature'' (man_features m) (con_features c)) (\<lambda>features.
     rbind (merge_atomic (man_atomic_tools m) (con_atomic_tools c)) (\<lambda>atomic.
     Inr (m \<lparr> man_tools := tools, man_workflows := workflows, man_workflow_details := details,
              man_features := features, man_limitations := man_limitations m @ con_limitations c,
              man_raw_surfaces := man_raw_surfaces m @ con_raw_surfaces c, man_atomic_tools := atomic \<rparr>))))))"

fun merge_providers ::
    "(handle \<Rightarrow> manifest \<Rightarrow> string + contribution) \<Rightarrow> (string \<times> handle) list \<Rightarrow> manifest \<Rightarrow> extension_error + manifest" where
  "merge_providers run [] m = Inr m"
| "merge_providers run ((ext, p) # rest) m =
     rbind (rcatch (run p m) (ProviderFailed ext)) (\<lambda>c.
     rbind (merge_contribution c m) (merge_providers run rest))"

definition merge_capabilities ::
    "(handle \<Rightarrow> manifest \<Rightarrow> string + contribution) \<Rightarrow> registry \<Rightarrow> manifest \<Rightarrow> extension_error + manifest" where
  "merge_capabilities run reg m =
     rbind (merge_atomic [] (man_atomic_tools m)) (\<lambda>_.
     rbind (merge_providers run (capability_providers reg) m) (\<lambda>m'.
     Inr (m' \<lparr> man_extensions := extension_infos reg \<rparr>)))"

text \<open>Dependency checks of all providers, with names unique also against the checks already made.\<close>

fun add_checks :: "string set \<Rightarrow> dependency_check list \<Rightarrow> dependency_check list
    \<Rightarrow> extension_error + string set \<times> dependency_check list" where
  "add_checks names checks [] = Inr (names, checks)"
| "add_checks names checks (c # cs) =
     (if check_name c \<in> names then Inl (DuplicateCheck (check_name c))
      else add_checks (insert (check_name c) names) (checks @ [c]) cs)"

fun provider_checks ::
    "(handle \<Rightarrow> manifest \<Rightarrow> string + dependency_check list) \<Rightarrow> manifest \<Rightarrow> (string \<times> handle) list
     \<Rightarrow> string set \<Rightarrow> dependency_check list \<Rightarrow> extension_error + dependency_check list" where
  "provider_checks run m [] names checks = Inr checks"
| "provider_checks run m ((ext, p) # rest) names checks =
     rbind (rcatch (run p m) (ProviderFailed ext)) (\<lambda>cs.
     rbind (add_checks names checks cs) (\<lambda>r.
     provider_checks run m rest (fst r) (snd r)))"

definition dependency_checks ::
    "(handle \<Rightarrow> manifest \<Rightarrow> string + dependency_check list) \<Rightarrow> registry \<Rightarrow> manifest \<Rightarrow> dependency_check list
     \<Rightarrow> extension_error + dependency_check list" where
  "dependency_checks run reg m existing =
     rbind (add_checks {} [] existing) (\<lambda>r.
     provider_checks run m (dependency_providers reg) (fst r) [])"

subsection \<open>The registry is an undo log\<close>

text \<open>Every tool and resource of the MCP server is one the registry knows.\<close>

definition registry_ok :: "registry \<Rightarrow> bool" where
  "registry_ok reg \<longleftrightarrow> fst ` set (mcp_tools reg) \<subseteq> tool_names reg \<and> fst ` set (mcp_resources reg) \<subseteq> resource_uris reg"

text \<open>Equality up to the order of an extension's own providers: \<^verbatim>\<open>list.remove\<close> deletes the first equal
  entry, so undoing the second of two equal registrations can move the first.\<close>

definition same_list :: "string \<Rightarrow> (string \<times> handle) list \<Rightarrow> (string \<times> handle) list \<Rightarrow> bool" where
  "same_list ext xs ys \<longleftrightarrow>
     mset xs = mset ys \<and> filter (\<lambda>e. fst e \<noteq> ext) xs = filter (\<lambda>e. fst e \<noteq> ext) ys"

definition same_but_order :: "string \<Rightarrow> registry \<Rightarrow> registry \<Rightarrow> bool" where
  "same_but_order ext s t \<longleftrightarrow>
     s = t \<lparr> capability_providers := capability_providers s, dependency_providers := dependency_providers s \<rparr>
     \<and> same_list ext (capability_providers s) (capability_providers t)
     \<and> same_list ext (dependency_providers s) (dependency_providers t)"

definition without :: "string \<Rightarrow> registry \<Rightarrow> bool" where
  "without ext reg \<longleftrightarrow> ext \<notin> fst ` set (capability_providers reg) \<and> ext \<notin> fst ` set (dependency_providers reg)"

lemma same_list_refl [simp]: "same_list ext xs xs"
  by (simp add: same_list_def)

lemma filter_remove1_own: "fst e = ext \<Longrightarrow> filter (\<lambda>e. fst e \<noteq> ext) (remove1 e xs) = filter (\<lambda>e. fst e \<noteq> ext) xs"
  by (induction xs) auto

lemma same_list_remove:
  assumes "same_list ext xs (ys @ [(ext, p)])"
  shows "(ext, p) \<in> set xs" "same_list ext (remove1 (ext, p) xs) ys"
proof -
  have m: "mset xs = add_mset (ext, p) (mset ys)" using assms by (simp add: same_list_def)
  then have "(ext, p) \<in># mset xs" by simp
  then show "(ext, p) \<in> set xs" by simp
  show "same_list ext (remove1 (ext, p) xs) ys"
    using assms m by (simp add: same_list_def filter_remove1_own)
qed

lemma same_list_absent: "same_list ext xs ys \<Longrightarrow> ext \<notin> fst ` set ys \<Longrightarrow> xs = ys"
proof -
  assume s: "same_list ext xs ys" and n: "ext \<notin> fst ` set ys"
  have "set xs = set ys" using s by (metis same_list_def set_mset_mset)
  then have "filter (\<lambda>e. fst e \<noteq> ext) xs = xs" "filter (\<lambda>e. fst e \<noteq> ext) ys = ys"
    using n by (auto simp: filter_id_conv image_iff)
  then show ?thesis using s by (simp add: same_list_def)
qed

lemma same_but_order_refl: "same_but_order ext s s"
  by (simp add: same_but_order_def)

lemma same_but_order_trans: "same_but_order ext s t \<Longrightarrow> same_but_order ext t u \<Longrightarrow> same_but_order ext s u"
proof -
  assume s: "same_but_order ext s t" and t: "same_but_order ext t u"
  have "s = t \<lparr> capability_providers := capability_providers s, dependency_providers := dependency_providers s \<rparr>"
    "t = u \<lparr> capability_providers := capability_providers t, dependency_providers := dependency_providers t \<rparr>"
    using s t by (simp_all only: same_but_order_def)
  then have "s = u \<lparr> capability_providers := capability_providers t, dependency_providers := dependency_providers t \<rparr>
      \<lparr> capability_providers := capability_providers s, dependency_providers := dependency_providers s \<rparr>"
    by simp
  then show ?thesis using s t by (simp add: same_but_order_def same_list_def)
qed

text \<open>A state that agrees with \<open>s\<close> up to order is \<open>s\<close> with other provider lists.\<close>

lemma same_but_orderE:
  assumes "same_but_order ext t s"
  obtains cs ds where "t = s \<lparr> capability_providers := cs, dependency_providers := ds \<rparr>"
    "same_list ext cs (capability_providers s)" "same_list ext ds (dependency_providers s)"
  using assms by (auto simp: same_but_order_def)

lemma same_but_orderI:
  "same_list ext cs (capability_providers s) \<Longrightarrow> same_list ext ds (dependency_providers s) \<Longrightarrow>
   same_but_order ext (s \<lparr> capability_providers := cs, dependency_providers := ds \<rparr>) s"
  by (simp add: same_but_order_def)

lemma same_but_orderI':
  "same_list ext cs (capability_providers s) \<Longrightarrow> same_list ext ds (dependency_providers s) \<Longrightarrow>
   same_but_order ext (s \<lparr> dependency_providers := ds, capability_providers := cs \<rparr>) s"
  by (simp add: same_but_order_def)

lemma failed_registration:
  assumes "registry_ok s" "run_registration rejects ext r s = (Inl e, s')"
  shows "s' = s"
proof -
  have tool: "remove_tool name (s \<lparr> tool_names := insert name (tool_names s) \<rparr>) = s" if "name \<notin> tool_names s" for name
  proof -
    have "\<not> dict_has (mcp_tools s) name" using assms(1) that by (auto simp: registry_ok_def)
    then show ?thesis using that by (simp add: remove_tool_def dict_pop_absent)
  qed
  have res: "remove_resource uri (s \<lparr> resource_uris := insert uri (resource_uris s) \<rparr>) = s" if "uri \<notin> resource_uris s" for uri
  proof -
    have "\<not> dict_has (mcp_resources s) uri" using assms(1) that by (auto simp: registry_ok_def)
    then show ?thesis using that by (simp add: remove_resource_def dict_pop_absent)
  qed
  show ?thesis using assms(2)
    by (cases r) (auto simp: run_registration_def register_target_profile_def register_detector_def
        register_capability_provider_def register_dependency_provider_def publish_service_def register_tool_def
        register_resource_def Let_def tool res split: if_splits sum.splits)
qed

lemma dict_set_member: "(k', v') \<in> set (dict_set d k v) \<Longrightarrow> k' = k \<or> (k', v') \<in> set d"
  by (induction d k v rule: dict_set.induct) (auto split: if_splits)

lemma done_registration:
  assumes "registry_ok s" "run_registration rejects ext r s = (Inr a, s')"
  shows "registry_ok s' \<and> (\<forall>t. same_but_order ext t s' \<longrightarrow>
    fst (run_rollback_action a t) = [] \<and> same_but_order ext (snd (run_rollback_action a t)) s)"
proof (rule conjI)
  show "registry_ok s'" using assms
    by (cases r) (auto simp: registry_ok_def run_registration_def register_target_profile_def register_detector_def
        register_capability_provider_def register_dependency_provider_def publish_service_def register_tool_def
        register_resource_def Let_def dest: subsetD [OF _ imageI] dest!: dict_set_member split: if_splits sum.splits)
  show "\<forall>t. same_but_order ext t s' \<longrightarrow>
    fst (run_rollback_action a t) = [] \<and> same_but_order ext (snd (run_rollback_action a t)) s"
  proof (intro allI impI)
    fix t assume "same_but_order ext t s'"
    then obtain cs ds where t: "t = s' \<lparr> capability_providers := cs, dependency_providers := ds \<rparr>"
      and L: "same_list ext cs (capability_providers s')" "same_list ext ds (dependency_providers s')"
      by (rule same_but_orderE)
    show "fst (run_rollback_action a t) = [] \<and> same_but_order ext (snd (run_rollback_action a t)) s"
    proof (cases r)
      case (RegisterProfile p)
      then obtain tg where tg: "register_profile p (targets s) = Inr tg" "a = UnregisterProfile (profile_id p)"
        "s' = s \<lparr> targets := tg \<rparr>"
        using assms(2) by (auto simp: run_registration_def register_target_profile_def split: sum.splits)
      then show ?thesis using L same_but_orderI [of ext cs s ds]
        by (simp add: t run_rollback_action_def unregister_register_profile [OF tg(1)])
    next
      case (RegisterDetector did d)
      then obtain tg where tg: "register_board_detector (ext @ '':'' @ did) d (targets s) = Inr tg"
        "a = UnregisterDetector (ext @ '':'' @ did)" "s' = s \<lparr> targets := tg \<rparr>"
        using assms(2) by (auto simp: run_registration_def register_detector_def Let_def split: sum.splits)
      then show ?thesis using L same_but_orderI [of ext cs s ds] unregister_register_detector [OF tg(1)]
        by (simp add: t run_rollback_action_def)
    next
      case (RegisterCapability p)
      then have "a = RemoveCapability (ext, p)"
        "s' = s \<lparr> capability_providers := capability_providers s @ [(ext, p)] \<rparr>"
        using assms(2) by (auto simp: run_registration_def register_capability_provider_def)
      then show ?thesis
        using L same_list_remove [of ext cs "capability_providers s" p]
          same_but_orderI' [of ext "remove1 (ext, p) cs" s ds]
        by (simp add: t run_rollback_action_def)
    next
      case (RegisterDependency p)
      then have "a = RemoveDependency (ext, p)"
        "s' = s \<lparr> dependency_providers := dependency_providers s @ [(ext, p)] \<rparr>"
        using assms(2) by (auto simp: run_registration_def register_dependency_provider_def)
      then show ?thesis
        using L same_list_remove [of ext ds "dependency_providers s" p] same_but_orderI [of ext cs s "remove1 (ext, p) ds"]
        by (simp add: t run_rollback_action_def)
    next
      case (PublishService name v)
      then have "a = PopService (ext, name)" "\<not> dict_has (services s) (ext, name)"
        "s' = s \<lparr> services := dict_set (services s) (ext, name) v \<rparr>"
        using assms(2) by (auto simp: run_registration_def publish_service_def split: if_splits)
      then show ?thesis using L same_but_orderI [of ext cs s ds]
        by (simp add: t run_rollback_action_def dict_pop_set_new)
    next
      case (RegisterTool name f)
      then have a: "a = RemoveTool name" "name \<notin> tool_names s"
        "s' = s \<lparr> tool_names := insert name (tool_names s), mcp_tools := dict_set (mcp_tools s) name f \<rparr>"
        using assms(2) by (auto simp: run_registration_def register_tool_def Let_def split: if_splits)
      then have "\<not> dict_has (mcp_tools s) name" using assms(1) by (auto simp: registry_ok_def)
      then show ?thesis using a L same_but_orderI [of ext cs s ds]
        by (simp add: t run_rollback_action_def remove_tool_def dict_pop_set_new)
    next
      case (RegisterResource uri f)
      then have a: "a = RemoveResource uri" "uri \<notin> resource_uris s"
        "s' = s \<lparr> resource_uris := insert uri (resource_uris s), mcp_resources := dict_set (mcp_resources s) uri f \<rparr>"
        using assms(2) by (auto simp: run_registration_def register_resource_def Let_def split: if_splits)
      then have "\<not> dict_has (mcp_resources s) uri" using assms(1) by (auto simp: registry_ok_def)
      then show ?thesis using a L same_but_orderI [of ext cs s ds]
        by (simp add: t run_rollback_action_def remove_resource_def dict_pop_set_new)
    qed
  qed
qed

interpretation reg: undo_log "run_registration rejects ext" run_rollback_action "same_but_order ext" registry_ok
  for rejects ext
proof unfold_locales
  fix s t u :: registry
  show "same_but_order ext s s" by (rule same_but_order_refl)
  show "same_but_order ext s t \<Longrightarrow> same_but_order ext t u \<Longrightarrow> same_but_order ext s u" by (rule same_but_order_trans)
next
  fix s r a s'
  assume "registry_ok s" "run_registration rejects ext r s = (Inr a, s')"
  then show "registry_ok s' \<and> (\<forall>t. same_but_order ext t s' \<longrightarrow>
    fst (run_rollback_action a t) = [] \<and> same_but_order ext (snd (run_rollback_action a t)) s)"
    by (rule done_registration)
next
  fix s r e s'
  assume "registry_ok s" "run_registration rejects ext r s = (Inl e, s')"
  then show "registry_ok s' \<and> same_but_order ext s' s"
    using failed_registration same_but_order_refl by metis
qed

lemma run_registrations_restores:
  "run_registrations rejects ctx rs reg = (err, ctx', reg') \<Longrightarrow> registry_ok reg \<Longrightarrow>
   reg.restores (ctx_extension_id ctx) (ctx_rollback ctx) reg reg0 \<Longrightarrow>
   registry_ok reg' \<and> ctx_extension_id ctx' = ctx_extension_id ctx
   \<and> reg.restores (ctx_extension_id ctx) (ctx_rollback ctx') reg' reg0"
proof (induction rs arbitrary: ctx reg)
  case Nil
  then show ?case by simp
next
  case (Cons r rs)
  obtain res reg1 where r: "run_registration rejects (ctx_extension_id ctx) r reg = (res, reg1)" by force
  show ?case
  proof (cases res)
    case (Inl e)
    then show ?thesis using Cons.prems r failed_registration [OF Cons.prems(2), of rejects "ctx_extension_id ctx" r e reg1]
      by simp
  next
    case (Inr a)
    let ?ctx = "ctx \<lparr> ctx_rollback := ctx_rollback ctx @ [a] \<rparr>"
    have "run_registrations rejects ?ctx rs reg1 = (err, ctx', reg')"
      using Cons.prems(1) r Inr by simp
    moreover have "registry_ok reg1" using done_registration Cons.prems(2) r Inr by blast
    moreover have "reg.restores (ctx_extension_id ?ctx) (ctx_rollback ?ctx) reg1 reg0"
      using reg.restores_done [OF Cons.prems(3,2)] r Inr by simp
    ultimately show ?thesis using Cons.IH [of ?ctx reg1] by simp
  qed
qed

lemma rollback_restores:
  assumes "reg.restores (ctx_extension_id ctx) (ctx_rollback ctx) reg reg0" "without (ctx_extension_id ctx) reg0"
  shows "rollback_registration ctx reg = ([], ctx \<lparr> ctx_rollback := [] \<rparr>, reg0)"
proof -
  obtain errs u where u: "run_rollback (rev (ctx_rollback ctx)) reg = (errs, u)" by force
  have "errs = []" "same_but_order (ctx_extension_id ctx) u reg0"
    using assms(1) u same_but_order_refl [of "ctx_extension_id ctx" reg]
    unfolding reg.restores_def run_rollback_def by force+
  then have "u = reg0"
    using assms(2) by (auto simp: without_def elim!: same_but_orderE dest!: same_list_absent)
  then show ?thesis using u \<open>errs = []\<close> by (simp add: rollback_registration_def)
qed

text \<open>Registration is undone exactly. Whatever an extension registers, and wherever in its list of
  registrations it fails, rolling its context back reports no error and leaves the registry, the MCP
  tools and resources, the services and the target profiles as they were before, provided no provider
  of the same extension was there already.\<close>

theorem registration_rollback:
  assumes "registry_ok reg" "without ext reg"
    "run_registrations rejects \<lparr> ctx_extension_id = ext, ctx_dependencies = deps, ctx_rollback = [] \<rparr> rs reg = (err, ctx, reg')"
  shows "registry_ok reg' \<and> rollback_registration ctx reg' = ([], ctx \<lparr> ctx_rollback := [] \<rparr>, reg)"
proof -
  have "reg.restores ext [] reg reg" by (rule reg.restores_Nil)
  then have "registry_ok reg' \<and> ctx_extension_id ctx = ext \<and> reg.restores ext (ctx_rollback ctx) reg' reg"
    using run_registrations_restores [OF assms(3,1), of reg] by simp
  then show ?thesis using rollback_restores [of ctx reg' reg] assms(2) by simp
qed

definition empty_registry :: registry where
  "empty_registry = \<lparr> targets = empty_targets, extension_infos = [], tool_names = {''reset_target''},
     resource_uris = {}, capability_providers = [], dependency_providers = [], services = [],
     mcp_tools = [(''reset_target'', 0)], mcp_resources = [] \<rparr>"

theorem registration_rollback_witness:
  "snd (snd (rollback_registration
     \<lparr> ctx_extension_id = ''x'', ctx_dependencies = {}, ctx_rollback = [RemoveCapability (''x'', 7), RemoveTool ''t''] \<rparr>
     (empty_registry \<lparr> capability_providers := [(''x'', 7)], tool_names := {''t'', ''reset_target''},
        mcp_tools := [(''reset_target'', 0), (''t'', 3)] \<rparr>))) = empty_registry"
proof -
  have "run_registrations (\<lambda>n. False) \<lparr> ctx_extension_id = ''x'', ctx_dependencies = {}, ctx_rollback = [] \<rparr>
      [RegisterCapability 7, RegisterTool ''t'' 3, RegisterTool ''reset_target'' 4] empty_registry
    = (Some (DuplicateTool ''reset_target''),
       \<lparr> ctx_extension_id = ''x'', ctx_dependencies = {}, ctx_rollback = [RemoveCapability (''x'', 7), RemoveTool ''t''] \<rparr>,
       empty_registry \<lparr> capability_providers := [(''x'', 7)], tool_names := {''t'', ''reset_target''},
         mcp_tools := [(''reset_target'', 0), (''t'', 3)] \<rparr>)"
    by (simp add: run_registration_def register_capability_provider_def register_tool_def empty_registry_def Let_def)
  from registration_rollback [OF _ _ this] show ?thesis
    by (simp add: registry_ok_def without_def empty_registry_def)
qed

subsection \<open>Contributions never shadow\<close>

lemma merge_tools_Inr:
  "merge_tools target xs = Inr out \<longleftrightarrow>
     out = target @ xs \<and> distinct (map fst xs) \<and> fst ` set xs \<inter> fst ` set target = {}"
  by (induction target xs rule: merge_tools.induct) auto

lemma merge_atomic_Inr:
  "merge_atomic target xs = Inr out \<longleftrightarrow> out = target @ xs \<and> distinct xs \<and> set xs \<inter> set target = {}"
  by (induction target xs rule: merge_atomic.induct) auto

lemma merge_unique_Inr:
  "merge_unique kind target xs = Inr out \<longleftrightarrow>
     out = target @ xs \<and> distinct (map fst xs) \<and> fst ` set xs \<inter> fst ` set target = {}"
  by (induction kind target xs rule: merge_unique.induct) (auto simp: dict_set_new)

text \<open>\<open>adds f a b\<close>: \<open>b\<close> is \<open>a\<close> followed by entries with new, pairwise different names.\<close>

definition adds :: "('a \<Rightarrow> 'k) \<Rightarrow> 'a list \<Rightarrow> 'a list \<Rightarrow> bool" where
  "adds f a b \<longleftrightarrow> (\<exists>xs. b = a @ xs \<and> distinct (map f xs) \<and> f ` set xs \<inter> f ` set a = {})"

lemma adds_refl: "adds f a a"
  by (simp add: adds_def)

lemma adds_trans: "adds f a b \<Longrightarrow> adds f b c \<Longrightarrow> adds f a c"
proof -
  assume "adds f a b" "adds f b c"
  then obtain xs ys where b: "b = a @ xs" "distinct (map f xs)" "f ` set xs \<inter> f ` set a = {}"
    and c: "c = b @ ys" "distinct (map f ys)" "f ` set ys \<inter> f ` set b = {}"
    unfolding adds_def by blast
  have "f ` set ys \<inter> f ` set xs = {}" "f ` set ys \<inter> f ` set a = {}"
    using c(3) by (auto simp: b(1) image_Un)
  then have "distinct (map f (xs @ ys))" "f ` set (xs @ ys) \<inter> f ` set a = {}"
    using b(2,3) c(2) by (auto simp: image_Un)
  then show ?thesis using b(1) c(1) by (auto simp: adds_def)
qed

definition extends :: "manifest \<Rightarrow> manifest \<Rightarrow> bool" where
  "extends m m' \<longleftrightarrow>
     adds fst (man_tools m) (man_tools m') \<and> adds fst (man_workflows m) (man_workflows m')
     \<and> adds fst (man_workflow_details m) (man_workflow_details m')
     \<and> adds fst (man_features m) (man_features m') \<and> adds id (man_atomic_tools m) (man_atomic_tools m')"

lemma merge_adds:
  "merge_tools ts xs = Inr ts' \<Longrightarrow> adds fst ts ts'"
  "merge_unique kind d ys = Inr d' \<Longrightarrow> adds fst d d'"
  "merge_atomic ns zs = Inr ns' \<Longrightarrow> adds id ns ns'"
  by (auto simp: merge_tools_Inr merge_unique_Inr merge_atomic_Inr adds_def)

lemma extends_contribution: "merge_contribution c m = Inr m' \<Longrightarrow> extends m m'"
  unfolding merge_contribution_def result_simps
  by (auto simp: extends_def dest: merge_adds)

lemma extends_trans: "extends m m' \<Longrightarrow> extends m' m'' \<Longrightarrow> extends m m''"
  unfolding extends_def by (blast intro: adds_trans)

lemma extends_refl: "extends m m"
  by (simp add: extends_def adds_refl)

lemma adds_get: "adds fst d d' \<Longrightarrow> dict_get d name = Some v \<Longrightarrow> dict_get d' name = Some v"
proof -
  assume "adds fst d d'" "dict_get d name = Some v"
  then obtain xs where xs: "d' = d @ xs" "fst ` set xs \<inter> fst ` set d = {}"
    by (auto simp: adds_def)
  have "name \<in> fst ` set d" using \<open>dict_get d name = Some v\<close> by (rule dict_get_Some_has)
  then have "dict_get xs name = None" using xs(2) by (auto simp: dict_get_None)
  then show ?thesis using xs(1) \<open>dict_get d name = Some v\<close> by (simp add: map_add_def)
qed

lemma extends_providers: "merge_providers run ps m = Inr m' \<Longrightarrow> extends m m'"
proof (induction run ps m rule: merge_providers.induct)
  case (1 run m)
  then show ?case by (simp add: extends_refl)
next
  case (2 run ext p rest m)
  obtain c m1 where "merge_contribution c m = Inr m1" "merge_providers run rest m1 = Inr m'" "rcatch (run p m) (ProviderFailed ext) = Inr c"
    using 2(2) by (auto simp: rbind_eq_Inr)
  then show ?case using 2(1) extends_contribution extends_trans by blast
qed

text \<open>Merging never lets an extension shadow the core or another extension. The merged manifest keeps
  every tool, workflow, detail, feature and atomic tool of the core unchanged and in place; what
  extensions add has names that are new and pairwise different, atomic tools are distinct throughout,
  and the extension list is the registry's.\<close>

theorem merge_never_shadows:
  assumes "merge_capabilities run reg m = Inr m'"
  shows "extends m m' \<and> distinct (man_atomic_tools m') \<and> man_extensions m' = extension_infos reg
    \<and> (\<forall>name v. dict_get (man_workflows m) name = Some v \<longrightarrow> dict_get (man_workflows m') name = Some v)
    \<and> (\<forall>name v. dict_get (man_features m) name = Some v \<longrightarrow> dict_get (man_features m') name = Some v)"
proof -
  obtain m1 where core: "distinct (man_atomic_tools m)" and m1: "merge_providers run (capability_providers reg) m = Inr m1"
    and m': "m' = m1 \<lparr> man_extensions := extension_infos reg \<rparr>"
    using assms by (auto simp: merge_capabilities_def rbind_eq_Inr merge_atomic_Inr)
  have e: "extends m m'" using extends_providers [OF m1] by (simp add: m' extends_def)
  then have "adds id (man_atomic_tools m) (man_atomic_tools m')" by (simp add: extends_def)
  then have "distinct (man_atomic_tools m')" using core by (auto simp: adds_def)
  moreover have "dict_get (man_workflows m') name = Some v" if "dict_get (man_workflows m) name = Some v" for name v
    using e that by (auto simp: extends_def intro: adds_get)
  moreover have "dict_get (man_features m') name = Some v" if "dict_get (man_features m) name = Some v" for name v
    using e that by (auto simp: extends_def intro: adds_get)
  ultimately show ?thesis using e by (simp add: m')
qed

definition small_manifest :: manifest where
  "small_manifest = \<lparr> man_tools = [(''gdb'', Available)], man_workflows = [], man_workflow_details = [], man_features = [],
     man_limitations = [], man_raw_surfaces = [], man_atomic_tools = [''reset_target''], man_extensions = [] \<rparr>"

definition small_contribution :: contribution where
  "small_contribution = \<lparr> con_tools = [(''cli'', Unavailable)], con_workflows = [(''deploy'', Available)],
     con_workflow_details = [], con_features = [], con_limitations = [''slow''], con_raw_surfaces = [],
     con_atomic_tools = [''upload''] \<rparr>"

theorem merge_never_shadows_witness:
  "\<exists>m'. merge_capabilities (\<lambda>p m. Inr small_contribution) (empty_registry \<lparr> capability_providers := [(''x'', 1)] \<rparr>) small_manifest = Inr m'
     \<and> distinct (man_atomic_tools m') \<and> man_atomic_tools m' = [''reset_target'', ''upload'']"
proof -
  obtain m' where m': "merge_capabilities (\<lambda>p m. Inr small_contribution) (empty_registry \<lparr> capability_providers := [(''x'', 1)] \<rparr>) small_manifest = Inr m'"
    "man_atomic_tools m' = [''reset_target'', ''upload'']"
    by (simp add: merge_capabilities_def merge_contribution_def small_contribution_def small_manifest_def)
  then show ?thesis using merge_never_shadows [OF m'(1)] by blast
qed

end
