(* ===== verification/Loader.thy ===== *)
theory Loader
  imports Extensions_Api
begin

text \<open>
  The extension manager: \<^verbatim>\<open>extensions/loader.py\<close>. Enabled names and their environment namespaces, the
  load order, configuration with environment overrides, and loading with rollback. An extension object
  is its attributes, each possibly missing; its \<open>register\<close> method is the list of registrations it
  makes for a configuration and the exception it may raise after them, its \<open>shutdown\<close> the exception
  that one may raise. Parsing TOML and JSON text is the library's.
\<close>

definition EXTENSION_API_VERSION :: int where "EXTENSION_API_VERSION = 1"

datatype load_error =
    DuplicateEnabled string
  | NamespaceCollision string string string        \<comment> \<open>owner, other, namespace\<close>
  | NotInstalled string
  | DuplicateExtension string
  | ImportFailed string string
  | WrongId string
  | WrongApiVersion string
  | NoVersion string
  | DependenciesNotSequence string
  | NoRegister string
  | NoShutdown string
  | MissingDependencies string "string list"
  | DependencyCycle "string list"
  | KeyMissing string
  | ConfigFileMissing
  | ConfigMode nat
  | ConfigUnparsable
  | ConfigExtraKeys
  | ConfigNotTable
  | ConfigSectionNotTable string
  | InvalidOverride string
  | OverrideConflict string
  | InvalidConfig string string
  | InitializationFailed string string
  | ValidationFailed string

subsection \<open>Enabled names\<close>

definition environment_namespace :: "string \<Rightarrow> string" where
  "environment_namespace ext =
     ''JLINK_MCP_EXT_'' @ map (\<lambda>c. if py_isalnum c then char_upper c else CHR ''_'') ext @ ''__''"

fun validate_enabled_loop :: "string list \<Rightarrow> string list \<Rightarrow> (string, string) dict \<Rightarrow> load_error + string list" where
  "validate_enabled_loop [] result namespaces = Inr result"
| "validate_enabled_loop (raw # rest) result namespaces =
     (let ext = str_strip raw in
      if ext = [] then validate_enabled_loop rest result namespaces
      else if ext \<in> set result then Inl (DuplicateEnabled ext)
      else (let namespace = environment_namespace ext in
        case dict_get namespaces namespace of
          Some owner \<Rightarrow> Inl (NamespaceCollision owner ext namespace)
        | None \<Rightarrow> validate_enabled_loop rest (result @ [ext]) (dict_set namespaces namespace ext)))"

definition validate_enabled :: "string list \<Rightarrow> load_error + string list" where
  "validate_enabled enabled = validate_enabled_loop enabled [] []"

subsection \<open>Load order\<close>

type_synonym dependency_graph = "(string, string list) dict"

text \<open>The closure \<^verbatim>\<open>visit\<close>: \<open>visiting\<close> is the stack of names being visited, the state is the order and
  the visited set.\<close>

function visit :: "dependency_graph \<Rightarrow> string list \<Rightarrow> string \<Rightarrow> string list \<times> string set \<Rightarrow> load_error + string list \<times> string set"
  and visit_list :: "dependency_graph \<Rightarrow> string list \<Rightarrow> string list \<Rightarrow> string list \<times> string set \<Rightarrow> load_error + string list \<times> string set"
where
  "visit g visiting x st =
     (if x \<in> snd st then Inr st
      else if x \<in> set visiting then Inl (DependencyCycle (dropWhile (\<lambda>y. y \<noteq> x) visiting @ [x]))
      else case dict_get g x of
          None \<Rightarrow> Inl (KeyMissing x)
        | Some deps \<Rightarrow>
            rmap (\<lambda>st'. (fst st' @ [x], insert x (snd st'))) (visit_list g (visiting @ [x]) deps st))"
| "visit_list g visiting [] st = Inr st"
| "visit_list g visiting (d # ds) st = rbind (visit g visiting d st) (visit_list g visiting ds)"
  by pat_completeness auto

text \<open>Every nested visit has one more name on the stack, and the stack holds distinct names of the graph.\<close>

termination
proof (relation "measures [\<lambda>z. case z of Inl (g, visiting, x, st) \<Rightarrow> card (fst ` set g - set visiting)
      | Inr (g, visiting, ds, st) \<Rightarrow> card (fst ` set g - set visiting),
    \<lambda>z. case z of Inl _ \<Rightarrow> 0 | Inr (g, visiting, ds, st) \<Rightarrow> Suc (length ds)]", goal_cases)
  case 1
  show ?case by simp
next
  case (2 g visiting x st deps)
  have "x \<in> fst ` set g - set visiting" using 2(2,3) by (auto dest: dict_get_Some_has)
  moreover have "fst ` set g - set (visiting @ [x]) = (fst ` set g - set visiting) - {x}" by auto
  ultimately have "card (fst ` set g - set (visiting @ [x])) < card (fst ` set g - set visiting)"
    by (simp only:) (rule card_Diff1_less, simp_all)
  then show ?case by simp
qed auto

definition missing_dependencies :: "dependency_graph \<Rightarrow> string \<times> string list \<Rightarrow> load_error + unit" where
  "missing_dependencies g e =
     (let missing = filter (\<lambda>d. \<not> dict_has g d) (snd e) in
      if missing \<noteq> [] then Inl (MissingDependencies (fst e) missing) else Inr ())"

definition topological_order :: "dependency_graph \<Rightarrow> string list \<Rightarrow> load_error + string list" where
  "topological_order g enabled_order =
     rbind (traverse (missing_dependencies g) g) (\<lambda>_.
     rmap fst (visit_list g [] enabled_order ([], {})))"

subsection \<open>Configuration\<close>

datatype config_source =
    NoConfig
  | MissingConfig
  | ConfigFile nat "json_object option"        \<comment> \<open>mode bits, parsed document\<close>

fun config_sections :: "(string \<times> json) list \<Rightarrow> (string, json_object) dict \<Rightarrow> load_error + (string, json_object) dict" where
  "config_sections [] result = Inr result"
| "config_sections ((ext, JObj vals) # rest) result = config_sections rest (dict_set result ext vals)"
| "config_sections ((ext, _) # rest) result = Inl (ConfigSectionNotTable ext)"

definition load_config :: "config_source \<Rightarrow> load_error + (string, json_object) dict" where
  "load_config src =
     (case src of
        NoConfig \<Rightarrow> Inr []
      | MissingConfig \<Rightarrow> Inl ConfigFileMissing
      | ConfigFile mode payload \<Rightarrow>
          if mode \<noteq> 384 then Inl (ConfigMode mode)
          else case payload of
              None \<Rightarrow> Inl ConfigUnparsable
            | Some doc \<Rightarrow>
                if fst ` set doc - {''extensions''} \<noteq> {} then Inl ConfigExtraKeys
                else case dict_get doc ''extensions'' of
                    None \<Rightarrow> Inr []
                  | Some (JObj sections) \<Rightarrow> config_sections sections []
                  | Some _ \<Rightarrow> Inl ConfigNotTable)"

text \<open>\<open>split_dunder\<close> is \<^verbatim>\<open>s.split("__")\<close>.\<close>

fun split_dunder :: "string \<Rightarrow> string \<Rightarrow> string list" where
  "split_dunder acc (a # b # s) =
     (if a = CHR ''_'' \<and> b = CHR ''_'' then acc # split_dunder [] s else split_dunder (acc @ [a]) (b # s))"
| "split_dunder acc s = [acc @ s]"

definition override_path :: "string \<Rightarrow> string list" where
  "override_path rest = map (map char_lower) (filter (\<lambda>item. item \<noteq> []) (split_dunder [] rest))"

fun set_path :: "string \<Rightarrow> string list \<Rightarrow> json \<Rightarrow> json_object \<Rightarrow> load_error + json_object" where
  "set_path name [] v d = Inl (InvalidOverride name)"
| "set_path name [k] v d = Inr (dict_set d k v)"
| "set_path name (p # q # ps) v d =
     (case (case dict_get d p of None \<Rightarrow> JObj [] | Some child \<Rightarrow> child) of
        JObj child \<Rightarrow> rmap (\<lambda>c. dict_set d p (JObj c)) (set_path name (q # ps) v child)
      | _ \<Rightarrow> Inl (OverrideConflict name))"

definition parse_environment_value :: "(string \<Rightarrow> json option) \<Rightarrow> string \<Rightarrow> json" where
  "parse_environment_value loads raw = (case loads raw of None \<Rightarrow> JStr raw | Some v \<Rightarrow> v)"

fun apply_overrides ::
    "(string \<Rightarrow> json option) \<Rightarrow> string \<Rightarrow> (string \<times> string) list \<Rightarrow> json_object \<Rightarrow> load_error + json_object" where
  "apply_overrides loads prefix [] config = Inr config"
| "apply_overrides loads prefix ((name, raw) # environ) config =
     (if \<not> str_startswith name prefix then apply_overrides loads prefix environ config
      else rbind (set_path name (override_path (drop (length prefix) name)) (parse_environment_value loads raw) config)
             (apply_overrides loads prefix environ))"

definition apply_environment_overrides ::
    "(string \<Rightarrow> json option) \<Rightarrow> string \<Rightarrow> json_object \<Rightarrow> (string \<times> string) list \<Rightarrow> load_error + json_object" where
  "apply_environment_overrides loads ext config environ =
     apply_overrides loads (environment_namespace ext) environ config"

subsection \<open>Extension objects\<close>

record extension_object =
  obj_id :: "string option"
  obj_version :: "string option"
  obj_api_version :: "int option"
  obj_dependencies :: "string list option"
  obj_has_register :: bool
  obj_has_shutdown :: bool
  obj_config_model :: "json_object \<Rightarrow> string + json_object"
  obj_register :: "json_object \<Rightarrow> registration list \<times> string option"
  obj_shutdown :: "string option"

record entry_point =
  point_name :: string
  point_load :: "string + extension_object"

definition validate_contract :: "string \<Rightarrow> extension_object \<Rightarrow> load_error + unit" where
  "validate_contract ext obj =
     (if obj_id obj \<noteq> Some ext then Inl (WrongId ext)
      else if obj_api_version obj \<noteq> Some EXTENSION_API_VERSION then Inl (WrongApiVersion ext)
      else if obj_version obj = None then Inl (NoVersion ext)
      else if obj_dependencies obj = None then Inl (DependenciesNotSequence ext)
      else if \<not> obj_has_register obj then Inl (NoRegister ext)
      else if \<not> obj_has_shutdown obj then Inl (NoShutdown ext)
      else Inr ())"

definition discover :: "string list \<Rightarrow> entry_point list \<Rightarrow> entry_point list" where
  "discover enabled points = filter (\<lambda>p. point_name p \<in> set enabled) points"

definition import_extension :: "entry_point list \<Rightarrow> string \<Rightarrow> load_error + string \<times> extension_object" where
  "import_extension available ext =
     (case filter (\<lambda>p. point_name p = ext) available of
        [] \<Rightarrow> Inl (NotInstalled ext)
      | [p] \<Rightarrow>
          rbind (rcatch (point_load p) (ImportFailed ext)) (\<lambda>obj.
          rbind (validate_contract ext obj) (\<lambda>_. Inr (ext, obj)))
      | _ \<Rightarrow> Inl (DuplicateExtension ext))"

definition object_dependencies :: "extension_object \<Rightarrow> string list" where
  "object_dependencies obj = (case obj_dependencies obj of None \<Rightarrow> [] | Some ds \<Rightarrow> ds)"

subsection \<open>Loading\<close>

record load_env =
  env_points :: "entry_point list"
  env_config :: config_source
  env_environ :: "(string \<times> string) list"
  env_loads :: "string \<Rightarrow> json option"
  env_rejects :: "string \<Rightarrow> bool"                    \<comment> \<open>names the MCP server refuses\<close>
  env_validate :: "registry \<Rightarrow> string option"         \<comment> \<open>the validation callback\<close>

record load_state =
  ls_contexts :: "extension_context list"
  ls_started :: "(string \<times> extension_object) list"
  ls_loaded :: "(string \<times> extension_object) list"
  ls_registry :: registry

definition extension_config ::
    "load_env \<Rightarrow> (string, json_object) dict \<Rightarrow> string \<Rightarrow> extension_object \<Rightarrow> load_error + json_object" where
  "extension_config env raw_config ext obj =
     rbind (apply_environment_overrides (env_loads env) ext
              (case dict_get raw_config ext of None \<Rightarrow> [] | Some c \<Rightarrow> c) (env_environ env)) (\<lambda>data.
     rcatch (obj_config_model obj data) (InvalidConfig ext))"

definition new_context :: "string \<Rightarrow> extension_object \<Rightarrow> extension_context" where
  "new_context ext obj =
     \<lparr> ctx_extension_id = ext, ctx_dependencies = set (object_dependencies obj), ctx_rollback = [] \<rparr>"

definition object_info :: "string \<Rightarrow> extension_object \<Rightarrow> extension_info" where
  "object_info ext obj =
     \<lparr> info_id = ext, info_version = (case obj_version obj of None \<Rightarrow> [] | Some v \<Rightarrow> v),
       info_api_version = (case obj_api_version obj of None \<Rightarrow> 0 | Some v \<Rightarrow> v),
       info_dependencies = object_dependencies obj \<rparr>"

text \<open>One turn of the registration loop: the context and the started extension are recorded before
  \<open>register\<close> runs, the loaded one and its info only after.\<close>

definition start_extension ::
    "load_env \<Rightarrow> (string, json_object) dict \<Rightarrow> string \<times> extension_object \<Rightarrow> load_state \<Rightarrow> load_error option \<times> load_state" where
  "start_extension env raw_config e st =
     (case e of (ext, obj) \<Rightarrow>
        case extension_config env raw_config ext obj of
          Inl err \<Rightarrow> (Some err, st)
        | Inr config \<Rightarrow>
            (case obj_register obj config of (regs, raised) \<Rightarrow>
             case run_registrations (env_rejects env) (new_context ext obj) regs (ls_registry st) of
               (failure, ctx, reg) \<Rightarrow>
                 (let st = st \<lparr> ls_contexts := ls_contexts st @ [ctx], ls_started := ls_started st @ [e], ls_registry := reg \<rparr> in
                  if failure \<noteq> None then (Some (InitializationFailed ext ''registration''), st)
                  else case raised of
                      Some msg \<Rightarrow> (Some (InitializationFailed ext msg), st)
                    | None \<Rightarrow>
                        (None, st \<lparr> ls_loaded := ls_loaded st @ [e],
                           ls_registry := reg \<lparr> extension_infos := extension_infos reg @ [object_info ext obj] \<rparr> \<rparr>))))"

fun start_extensions ::
    "load_env \<Rightarrow> (string, json_object) dict \<Rightarrow> (string \<times> extension_object) list \<Rightarrow> load_state \<Rightarrow> load_error option \<times> load_state" where
  "start_extensions env raw_config [] st = (None, st)"
| "start_extensions env raw_config (e # es) st =
     (case start_extension env raw_config e st of
        (Some err, st') \<Rightarrow> (Some err, st')
      | (None, st') \<Rightarrow> start_extensions env raw_config es st')"

definition shutdown_errors :: "(string \<times> extension_object) list \<Rightarrow> string list" where
  "shutdown_errors exts = List.map_filter (\<lambda>(ext, obj). map_option (\<lambda>msg. ext @ '': '' @ msg) (obj_shutdown obj)) (rev exts)"

fun rollback_contexts :: "extension_context list \<Rightarrow> registry \<Rightarrow> string list \<times> registry" where
  "rollback_contexts [] reg = ([], reg)"
| "rollback_contexts (ctx # ctxs) reg =
     (case rollback_registration ctx reg of (errs, _, reg') \<Rightarrow>
        (case rollback_contexts ctxs reg' of (errs', reg'') \<Rightarrow> (errs @ errs', reg'')))"

record manager =
  man_enabled :: "string list"
  man_loaded :: "(string \<times> extension_object) list"
  man_registry :: registry

text \<open>The handler of a failed load: shut down what was started, roll the contexts back in reverse,
  truncate the infos, forget the loaded extensions.\<close>

definition undo_load :: "nat \<Rightarrow> load_state \<Rightarrow> string list \<times> registry" where
  "undo_load info_count st =
     (case rollback_contexts (rev (ls_contexts st)) (ls_registry st) of
        (errs, reg) \<Rightarrow>
          (shutdown_errors (ls_started st) @ errs, reg \<lparr> extension_infos := take info_count (extension_infos reg) \<rparr>))"

definition load :: "load_env \<Rightarrow> manager \<Rightarrow> (load_error \<times> string list) option \<times> manager" where
  "load env m =
     (if man_enabled m = [] then (None, m)
      else
        case rbind (traverse (import_extension (discover (man_enabled m) (env_points env))) (man_enabled m)) (\<lambda>objects.
             rbind (topological_order (map (\<lambda>(ext, obj). (ext, object_dependencies obj)) objects) (man_enabled m)) (\<lambda>order.
             rbind (load_config (env_config env)) (\<lambda>raw_config. Inr (objects, order, raw_config)))) of
          Inl err \<Rightarrow> (Some (err, []), m)
        | Inr (objects, order, raw_config) \<Rightarrow>
            (let started = map (\<lambda>ext. (ext, the (dict_get objects ext))) order;
                 st0 = \<lparr> ls_contexts = [], ls_started = [], ls_loaded = man_loaded m, ls_registry = man_registry m \<rparr>;
                 info_count = length (extension_infos (man_registry m))
             in case start_extensions env raw_config started st0 of (failure, st) \<Rightarrow>
                  let failure = (case failure of Some err \<Rightarrow> Some err
                                 | None \<Rightarrow> map_option ValidationFailed (env_validate env (ls_registry st))) in
                  case failure of
                    None \<Rightarrow> (None, m \<lparr> man_loaded := ls_loaded st, man_registry := ls_registry st \<rparr>)
                  | Some err \<Rightarrow>
                      (case undo_load info_count st of (errs, reg) \<Rightarrow>
                        (Some (err, errs), m \<lparr> man_loaded := [], man_registry := reg \<rparr>))))"

definition manager_shutdown :: "manager \<Rightarrow> string list \<times> manager" where
  "manager_shutdown m = (shutdown_errors (man_loaded m), m \<lparr> man_loaded := [] \<rparr>)"

end
