(* ===== verification/Load_Order.thy ===== *)
theory Load_Order
  imports Loader
begin

text \<open>
  What the loader's order and its enabled names guarantee: the order is computed exactly for the
  acyclic graphs without missing dependencies, and the accepted names are those whose environment
  namespaces differ.
\<close>

subsection \<open>Dependency orders\<close>

definition deps_of :: "dependency_graph \<Rightarrow> string \<Rightarrow> string list" where
  "deps_of g x = (case dict_get g x of None \<Rightarrow> [] | Some deps \<Rightarrow> deps)"

definition needs :: "dependency_graph \<Rightarrow> string \<Rightarrow> string \<Rightarrow> bool" where
  "needs g x y \<longleftrightarrow> y \<in> set (deps_of g x)"

lemma needs_has: "needs g x y \<Longrightarrow> dict_has g x"
  using dict_get_None [of g x] by (cases "dict_get g x") (simp_all add: needs_def deps_of_def)

declare visit.simps(1) [simp del]

text \<open>Every name comes after all it needs.\<close>

primrec dependencies_first :: "dependency_graph \<Rightarrow> string set \<Rightarrow> string list \<Rightarrow> bool" where
  "dependencies_first g before [] = True"
| "dependencies_first g before (x # xs) =
     (set (deps_of g x) \<subseteq> before \<and> dependencies_first g (insert x before) xs)"

lemma deps_of_Some [simp]: "dict_get g x = Some deps \<Longrightarrow> deps_of g x = deps"
  by (simp add: deps_of_def)

text \<open>A closed walk along dependencies, as the error message spells it.\<close>

definition dependency_cycle :: "dependency_graph \<Rightarrow> string list \<Rightarrow> bool" where
  "dependency_cycle g c \<longleftrightarrow> 2 \<le> length c \<and> hd c = last c \<and> successively (needs g) c"

definition graph_closed :: "dependency_graph \<Rightarrow> bool" where
  "graph_closed g \<longleftrightarrow> (\<forall>(x, deps) \<in> set g. set deps \<subseteq> fst ` set g)"

lemma dependencies_first_append:
  "dependencies_first g A (xs @ ys) \<longleftrightarrow> dependencies_first g A xs \<and> dependencies_first g (A \<union> set xs) ys"
  by (induction xs arbitrary: A) (simp_all add: Un_insert_left)

lemma deps_closed: "graph_closed g \<Longrightarrow> dict_get g x = Some deps \<Longrightarrow> set deps \<subseteq> fst ` set g"
  by (drule map_of_SomeD) (fastforce simp: graph_closed_def)

text \<open>The state of the traversal: the order lists the visited names once, dependencies first, and none
  of them is on the stack.\<close>

definition order_state :: "dependency_graph \<Rightarrow> string list \<Rightarrow> string list \<times> string set \<Rightarrow> bool" where
  "order_state g visiting st \<longleftrightarrow>
     distinct (fst st) \<and> set (fst st) = snd st \<and> snd st \<subseteq> fst ` set g
     \<and> dependencies_first g {} (fst st) \<and> set visiting \<inter> snd st = {}"

lemma order_state_push: "order_state g visiting st \<Longrightarrow> x \<notin> snd st \<Longrightarrow> order_state g (visiting @ [x]) st"
  by (auto simp: order_state_def)

lemma order_state_done:
  assumes "order_state g (visiting @ [x]) st" "dict_get g x = Some deps" "set deps \<subseteq> snd st" "x \<notin> set visiting"
  shows "order_state g visiting (fst st @ [x], insert x (snd st))"
  using assms by (auto simp: order_state_def dependencies_first_append dest: dict_get_Some_has)

lemma visit_sound:
  "visit g visiting x st = Inr st' \<Longrightarrow> order_state g visiting st \<Longrightarrow>
     order_state g visiting st' \<and> insert x (snd st) \<subseteq> snd st'"
  "visit_list g visiting ds st = Inr st' \<Longrightarrow> order_state g visiting st \<Longrightarrow>
     order_state g visiting st' \<and> set ds \<union> snd st \<subseteq> snd st'"
proof (induction g visiting x st and g visiting ds st arbitrary: st' and st' rule: visit_visit_list.induct)
  case (1 g visiting x st)
  show ?case
  proof (cases "x \<in> snd st")
    case True
    then show ?thesis using 1 by (auto simp: visit.simps)
  next
    case new: False
    then have nv: "x \<notin> set visiting" using 1(2) by (auto simp: visit.simps split: if_splits)
    then obtain deps st1 where d: "dict_get g x = Some deps"
      "visit_list g (visiting @ [x]) deps st = Inr st1" "st' = (fst st1 @ [x], insert x (snd st1))"
      using 1(2) new by (auto simp: visit.simps [of g visiting x st] rmap_eq_Inr split: option.splits)
    then have "order_state g (visiting @ [x]) st1" "set deps \<union> snd st \<subseteq> snd st1"
      using 1(1) [OF new nv d(1,2)] order_state_push [OF 1(3) new] by auto
    then show ?thesis using order_state_done [OF _ d(1) _ nv] d(3) by auto
  qed
next
  case (2 g visiting st)
  then show ?case by simp
next
  case (3 g visiting d ds st)
  then obtain st1 where s: "visit g visiting d st = Inr st1" "visit_list g visiting ds st1 = Inr st'"
    by (auto simp: rbind_eq_Inr)
  have "order_state g visiting st1 \<and> insert d (snd st) \<subseteq> snd st1" using 3(1) [OF s(1) 3(4)] .
  moreover from this have "order_state g visiting st' \<and> set ds \<union> snd st1 \<subseteq> snd st'"
    using 3(2) [OF s(2)] by blast
  ultimately show ?case by auto
qed

lemma cycle_on_stack:
  assumes "x \<in> set visiting" "successively (needs g) (visiting @ [x])"
  shows "dependency_cycle g (dropWhile (\<lambda>y. y \<noteq> x) visiting @ [x])"
proof -
  let ?t = "takeWhile (\<lambda>y. y \<noteq> x) visiting" and ?d = "dropWhile (\<lambda>y. y \<noteq> x) visiting"
  have ne: "?d \<noteq> []" using assms(1) by (auto simp: dropWhile_eq_Nil_conv)
  then have "hd ?d = x" using hd_dropWhile [OF ne] by simp
  moreover have "successively (needs g) (?t @ (?d @ [x]))"
    using assms(2) by (simp only: append_assoc [symmetric] takeWhile_dropWhile_id)
  then have "successively (needs g) (?d @ [x])" by (simp only: successively_append_iff)
  ultimately show ?thesis using ne by (cases ?d) (auto simp: dependency_cycle_def)
qed

lemma successively_snoc_snoc:
  "successively P (xs @ [x]) \<Longrightarrow> P x y \<Longrightarrow> successively P ((xs @ [x]) @ [y])"
  by (simp add: successively_append_iff)

lemma visit_error:
  "visit g visiting x st = Inl e \<Longrightarrow> graph_closed g \<Longrightarrow> dict_has g x \<Longrightarrow> successively (needs g) (visiting @ [x]) \<Longrightarrow>
     \<exists>c. e = DependencyCycle c \<and> dependency_cycle g c"
  "visit_list g visiting ds st = Inl e \<Longrightarrow> graph_closed g \<Longrightarrow> set ds \<subseteq> fst ` set g \<Longrightarrow>
     \<forall>d\<in>set ds. successively (needs g) (visiting @ [d]) \<Longrightarrow> \<exists>c. e = DependencyCycle c \<and> dependency_cycle g c"
proof (induction g visiting x st and g visiting ds st rule: visit_visit_list.induct)
  case (1 g visiting x st)
  have new: "x \<notin> snd st" using 1(2) by (auto simp: visit.simps)
  show ?case
  proof (cases "x \<in> set visiting")
    case True
    then show ?thesis using 1(2) new cycle_on_stack [OF True 1(5)] by (auto simp: visit.simps [of g visiting x st])
  next
    case nv: False
    obtain deps where d: "dict_get g x = Some deps" using 1(4) dict_get_None [of g x] by auto
    then have "visit_list g (visiting @ [x]) deps st = Inl e"
      using 1(2) new nv by (cases "visit_list g (visiting @ [x]) deps st") (simp_all add: visit.simps [of g visiting x st])
    moreover have "\<forall>y\<in>set deps. successively (needs g) ((visiting @ [x]) @ [y])"
      using 1(5) d by (auto intro!: successively_snoc_snoc simp: needs_def simp del: append_assoc)
    ultimately show ?thesis using 1(1) [OF new nv d] 1(3) deps_closed [OF 1(3) d] by blast
  qed
next
  case (2 g visiting st)
  then show ?case by simp
next
  case (3 g visiting d ds st)
  show ?case
  proof (cases "visit g visiting d st")
    case (Inl e')
    then show ?thesis using 3 by simp
  next
    case (Inr st1)
    then show ?thesis using 3 by simp
  qed
qed

lemma dependencies_first_rank:
  assumes "dependencies_first g A xs" "distinct xs" "set xs \<inter> A = {}"
  shows "\<exists>r :: string \<Rightarrow> nat. \<forall>x\<in>set xs. \<forall>y. needs g x y \<longrightarrow> y \<notin> A \<longrightarrow> y \<in> set xs \<and> r y < r x"
  using assms
proof (induction xs arbitrary: A rule: rev_induct)
  case Nil
  then show ?case by simp
next
  case (snoc x xs)
  then obtain r :: "string \<Rightarrow> nat" where r: "\<forall>u\<in>set xs. \<forall>y. needs g u y \<longrightarrow> y \<notin> A \<longrightarrow> y \<in> set xs \<and> r y < r u"
    by (auto simp: dependencies_first_append) blast
  define r' where "r' = r (x := Suc (Max (insert 0 (r ` set xs))))"
  have le: "r y \<le> Max (insert 0 (r ` set xs))" if "y \<in> set xs" for y using that by simp
  have new: "x \<notin> set xs" using snoc.prems(2) by simp
  have dx: "\<And>y. needs g x y \<Longrightarrow> y \<notin> A \<Longrightarrow> y \<in> set xs"
    using snoc.prems(1) by (auto simp: dependencies_first_append needs_def)
  have "\<forall>u\<in>set (xs @ [x]). \<forall>y. needs g u y \<longrightarrow> y \<notin> A \<longrightarrow> y \<in> set (xs @ [x]) \<and> r' y < r' u"
  proof (intro ballI allI impI)
    fix u y assume u: "u \<in> set (xs @ [x])" and y: "needs g u y" "y \<notin> A"
    show "y \<in> set (xs @ [x]) \<and> r' y < r' u"
    proof (cases "u = x")
      case True
      then have "y \<in> set xs" "y \<noteq> x" using dx [of y] y new by auto
      then show ?thesis using True le [of y] by (simp add: r'_def less_Suc_eq_le)
    next
      case False
      then show ?thesis using u r y new by (auto simp: r'_def)
    qed
  qed
  then show ?case by blast
qed

lemma ranked_walk:
  fixes r :: "string \<Rightarrow> nat"
  assumes "\<And>x y. x \<in> S \<Longrightarrow> needs g x y \<Longrightarrow> y \<in> S \<and> r y < r x"
  shows "successively (needs g) (x # xs) \<Longrightarrow> x \<in> S \<Longrightarrow> xs \<noteq> [] \<Longrightarrow> r (last xs) < r x"
proof (induction xs arbitrary: x)
  case Nil
  then show ?case by simp
next
  case (Cons y ys)
  then have y: "y \<in> S" "r y < r x" using assms by auto
  show ?case
  proof (cases "ys = []")
    case True
    then show ?thesis using y by simp
  next
    case False
    then show ?thesis using Cons.IH [of y] Cons.prems y by force
  qed
qed

lemma ordered_acyclic:
  assumes "dependencies_first g {} order" "distinct order" "set order = fst ` set g"
  shows "\<not> dependency_cycle g c"
proof
  assume c: "dependency_cycle g c"
  then have "2 \<le> length c" by (simp add: dependency_cycle_def)
  then obtain x xs where xs: "c = x # xs" "xs \<noteq> []" by (cases c) (auto simp: Suc_le_length_iff)
  obtain r :: "string \<Rightarrow> nat" where r: "\<forall>x\<in>set order. \<forall>y. needs g x y \<longrightarrow> y \<in> set order \<and> r y < r x"
    using dependencies_first_rank [OF assms(1,2)] by auto
  have "successively (needs g) (x # xs)" using c xs(1) by (simp only: dependency_cycle_def)
  moreover from this have "needs g x (hd xs)" using xs(2) by (cases xs) auto
  then have "x \<in> set order" using assms(3) needs_has by simp
  ultimately have "r (last xs) < r x" using ranked_walk [of "set order" g r x xs] r xs(2) by blast
  then show False using c xs by (simp add: dependency_cycle_def)
qed

lemma missing_dependencies_Inr: "missing_dependencies g e = Inr u \<longleftrightarrow> set (snd e) \<subseteq> fst ` set g"
  by (auto simp: missing_dependencies_def Let_def filter_empty_conv)

lemma traverse_unit: "traverse f xs = Inr us \<Longrightarrow> x \<in> set xs \<Longrightarrow> f x = Inr (u :: unit)"
  by (auto simp: traverse_eq_Inr list_all2_conv_all_nth in_set_conv_nth)

lemma traverse_error: "traverse f xs = Inl e \<Longrightarrow> \<exists>x\<in>set xs. f x = Inl e"
  by (induction xs) (auto simp: rbind_eq_Inl)

lemma traverse_unit_returns: "(\<And>x. x \<in> set xs \<Longrightarrow> f x = Inr (u :: unit)) \<Longrightarrow> returns (traverse f xs)"
  by (simp add: traverse_map_Inr [of xs f "\<lambda>_. u"])

lemma topological_order_Inr:
  assumes "topological_order g enabled = Inr order" "set enabled = fst ` set g"
  shows "graph_closed g" "distinct order" "set order = set enabled" "dependencies_first g {} order"
proof -
  obtain us st where u: "traverse (missing_dependencies g) g = Inr us"
    and st: "visit_list g [] enabled ([], {}) = Inr st" "order = fst st"
    using assms(1) by (auto simp: topological_order_def rbind_eq_Inr rmap_eq_Inr)
  show "graph_closed g"
    using traverse_unit [OF u] by (fastforce simp: graph_closed_def missing_dependencies_Inr)
  have "order_state g [] ([], {})" by (simp add: order_state_def)
  then have "order_state g [] st \<and> set enabled \<union> {} \<subseteq> snd st" using visit_sound(2) [OF st(1)] by simp
  then show "distinct order" "set order = set enabled" "dependencies_first g {} order"
    using st(2) assms(2) by (auto simp: order_state_def)
qed

lemma topological_order_Inl:
  assumes "topological_order g enabled = Inl e" "set enabled = fst ` set g"
  shows "(\<exists>x deps. (x, deps) \<in> set g \<and> \<not> set deps \<subseteq> fst ` set g \<and>
      e = MissingDependencies x (filter (\<lambda>d. \<not> dict_has g d) deps))
    \<or> (graph_closed g \<and> (\<exists>c. e = DependencyCycle c \<and> dependency_cycle g c))"
proof (cases "traverse (missing_dependencies g) g")
  case (Inl e')
  then obtain p where p: "p \<in> set g" "missing_dependencies g p = Inl e" using traverse_error [OF Inl] assms(1)
    by (auto simp: topological_order_def)
  obtain x deps where x: "p = (x, deps)" by force
  have "filter (\<lambda>d. \<not> dict_has g d) deps \<noteq> []" "e = MissingDependencies x (filter (\<lambda>d. \<not> dict_has g d) deps)"
    using p(2) by (simp_all add: x missing_dependencies_def Let_def split: if_splits)
  moreover from this have "\<not> set deps \<subseteq> fst ` set g" by (auto simp: filter_empty_conv)
  ultimately show ?thesis using p(1) x by blast
next
  case (Inr us)
  then have g: "graph_closed g"
    using traverse_unit [OF Inr] by (fastforce simp: graph_closed_def missing_dependencies_Inr)
  have "visit_list g [] enabled ([], {}) = Inl e"
    using assms(1) Inr by (cases "visit_list g [] enabled ([], {})") (simp_all add: topological_order_def)
  then show ?thesis using visit_error(2) [of g "[]" enabled] g assms(2) by auto
qed

text \<open>C22: The load order is exact. It exists precisely when no extension needs a missing one and no dependency
  cycle exists; then it names every enabled extension once, each after all it depends on. Otherwise the
  error names an extension with exactly its missing dependencies, or spells a real dependency cycle.\<close>

theorem load_order_exact:
  assumes "set enabled = fst ` set g"
  shows "(returns (topological_order g enabled) \<longleftrightarrow> graph_closed g \<and> \<not> (\<exists>c. dependency_cycle g c))
    \<and> (case topological_order g enabled of
        Inr order \<Rightarrow> distinct order \<and> set order = set enabled \<and> dependencies_first g {} order
      | Inl e \<Rightarrow>
          (\<exists>x deps. (x, deps) \<in> set g \<and> \<not> set deps \<subseteq> fst ` set g
             \<and> e = MissingDependencies x (filter (\<lambda>d. \<not> dict_has g d) deps))
          \<or> (\<exists>c. e = DependencyCycle c \<and> dependency_cycle g c))"
proof (rule conjI)
  show "returns (topological_order g enabled) \<longleftrightarrow> graph_closed g \<and> \<not> (\<exists>c. dependency_cycle g c)"
  proof (cases "topological_order g enabled")
    case (Inl e)
    have "graph_closed g \<Longrightarrow> (x, deps) \<in> set g \<Longrightarrow> set deps \<subseteq> fst ` set g" for x deps
      unfolding graph_closed_def by blast
    then show ?thesis using topological_order_Inl [OF Inl assms] Inl by auto
  next
    case (Inr order)
    note o = topological_order_Inr [OF Inr assms]
    then show ?thesis using ordered_acyclic [OF o(4,2)] assms Inr by simp
  qed
  show "case topological_order g enabled of
        Inr order \<Rightarrow> distinct order \<and> set order = set enabled \<and> dependencies_first g {} order
      | Inl e \<Rightarrow>
          (\<exists>x deps. (x, deps) \<in> set g \<and> \<not> set deps \<subseteq> fst ` set g
             \<and> e = MissingDependencies x (filter (\<lambda>d. \<not> dict_has g d) deps))
          \<or> (\<exists>c. e = DependencyCycle c \<and> dependency_cycle g c)"
    using topological_order_Inl [of g enabled] topological_order_Inr(2-4) [of g enabled] assms
    by (cases "topological_order g enabled") auto
qed

theorem load_order_exact_witness:
  "returns (topological_order [(''giga'', [''bridge'']), (''bridge'', [])] [''giga'', ''bridge''])
   \<and> (\<exists>c. dependency_cycle [(''a'', [''b'']), (''b'', [''a''])] c)"
proof -
  have "topological_order [(''giga'', [''bridge'']), (''bridge'', [])] [''giga'', ''bridge''] = Inr [''bridge'', ''giga'']"
    by (simp add: topological_order_def missing_dependencies_def visit.simps)
  moreover have "topological_order [(''a'', [''b'']), (''b'', [''a''])] [''a'', ''b''] = Inl (DependencyCycle [''a'', ''b'', ''a''])"
    by (simp add: topological_order_def missing_dependencies_def visit.simps)
  then have "\<exists>c. dependency_cycle [(''a'', [''b'']), (''b'', [''a''])] c"
    using load_order_exact [of "[''a'', ''b'']" "[(''a'', [''b'']), (''b'', [''a''])]"] by auto
  ultimately show ?thesis by simp
qed

subsection \<open>Environment namespaces\<close>

lemma validate_enabled_loop_Inr:
  assumes "namespaces = map (\<lambda>n. (environment_namespace n, n)) result" "distinct (map environment_namespace result)"
  shows "validate_enabled_loop enabled result namespaces = Inr out \<longleftrightarrow>
    out = result @ filter (\<lambda>n. n \<noteq> []) (map str_strip enabled)
    \<and> distinct (map environment_namespace (result @ filter (\<lambda>n. n \<noteq> []) (map str_strip enabled)))"
  using assms
proof (induction enabled result namespaces rule: validate_enabled_loop.induct)
  case (1 result namespaces)
  then show ?case by auto
next
  case (2 raw rest result namespaces)
  let ?e = "str_strip raw"
  have keys: "fst ` set namespaces = environment_namespace ` set result" by (simp add: 2(3) image_image)
  show ?case
  proof (cases "?e = [] \<or> ?e \<in> set result")
    case True
    then show ?thesis using 2(1) [OF refl] 2(3,4) by (auto simp: Let_def)
  next
    case False
    show ?thesis
    proof (cases "environment_namespace ?e \<in> environment_namespace ` set result")
      case True
      then obtain owner where "dict_get namespaces (environment_namespace ?e) = Some owner"
        using keys dict_get_None [of namespaces "environment_namespace ?e"] by auto
      then show ?thesis using False True by (auto simp: Let_def)
    next
      case new: False
      then have none: "dict_get namespaces (environment_namespace ?e) = None" using keys dict_get_None by metis
      have "dict_set namespaces (environment_namespace ?e) ?e = map (\<lambda>n. (environment_namespace n, n)) (result @ [?e])"
        using new keys by (simp add: dict_set_new 2(3))
      then show ?thesis using 2(2) [OF refl _ _ refl none] False new none 2(4) by (simp add: Let_def)
    qed
  qed
qed

text \<open>The enabled names are accepted exactly when their environment namespaces differ: the accepted list is
  the stripped non-empty names in order, and two names with one namespace are refused. Namespaces may
  still be prefixes of one another: with \<open>a\<close> and \<open>a__b\<close> enabled, one variable configures both.\<close>

theorem enabled_namespaces:
  "(validate_enabled enabled = Inr names \<longleftrightarrow>
     names = filter (\<lambda>n. n \<noteq> []) (map str_strip enabled) \<and> distinct (map environment_namespace names))
   \<and> validate_enabled [''a'', ''a__b''] = Inr [''a'', ''a__b'']
   \<and> apply_environment_overrides loads ''a'' [] [(''JLINK_MCP_EXT_A__B__KEY'', v)] =
     Inr [(''b'', JObj [(''key'', parse_environment_value loads v)])]
   \<and> apply_environment_overrides loads ''a__b'' [] [(''JLINK_MCP_EXT_A__B__KEY'', v)] =
     Inr [(''key'', parse_environment_value loads v)]"
proof (intro conjI)
  show "validate_enabled enabled = Inr names \<longleftrightarrow>
     names = filter (\<lambda>n. n \<noteq> []) (map str_strip enabled) \<and> distinct (map environment_namespace names)"
    using validate_enabled_loop_Inr [of "[]" "[]" enabled names] by (auto simp: validate_enabled_def)
next
  show "validate_enabled [''a'', ''a__b''] = Inr [''a'', ''a__b'']" by code_simp
next
  have "environment_namespace ''a'' = ''JLINK_MCP_EXT_A__''" "environment_namespace ''a__b'' = ''JLINK_MCP_EXT_A__B__''"
    "override_path ''B__KEY'' = [''b'', ''key'']" "override_path ''KEY'' = [''key'']" by code_simp+
  then show "apply_environment_overrides loads ''a'' [] [(''JLINK_MCP_EXT_A__B__KEY'', v)] =
     Inr [(''b'', JObj [(''key'', parse_environment_value loads v)])]"
    "apply_environment_overrides loads ''a__b'' [] [(''JLINK_MCP_EXT_A__B__KEY'', v)] =
     Inr [(''key'', parse_environment_value loads v)]"
    by (simp_all add: apply_environment_overrides_def str_startswith_def)
qed

end
