(* ===== verification/Load_Rollback.thy ===== *)
theory Load_Rollback
  imports Load_Order
begin

text \<open>
  Loading is all or nothing: a failed load leaves the manager and the registry as they were, a
  successful one starts every enabled extension after its dependencies.
\<close>

subsection \<open>Rollback and the extension infos\<close>

abbreviation with_infos :: "extension_info list \<Rightarrow> registry \<Rightarrow> registry" where
  "with_infos infos reg \<equiv> reg \<lparr> extension_infos := infos \<rparr>"

lemma rollback_action_infos:
  "run_rollback_action a (with_infos infos reg) = map_prod id (with_infos infos) (run_rollback_action a reg)"
  "extension_infos (snd (run_rollback_action a reg)) = extension_infos reg"
  by (simp_all add: run_rollback_action_def remove_tool_def remove_resource_def split: rollback_action.split)

lemma run_rollback_infos:
  "run_rollback acts (with_infos infos reg) = map_prod id (with_infos infos) (run_rollback acts reg)"
  by (induction acts arbitrary: reg)
    (simp_all add: run_rollback_def rollback_action_infos split: prod.split)

lemma rollback_contexts_infos:
  "rollback_contexts ctxs (with_infos infos reg) = map_prod id (with_infos infos) (rollback_contexts ctxs reg)"
proof (induction ctxs arbitrary: reg)
  case Nil
  then show ?case by simp
next
  case (Cons ctx ctxs)
  obtain errs reg1 where r: "run_rollback (rev (ctx_rollback ctx)) reg = (errs, reg1)" by force
  then show ?case using Cons
    by (simp add: rollback_registration_def run_rollback_infos split: prod.split)
qed

lemma registration_keeps:
  "run_registration rejects ext r reg = (res, reg') \<Longrightarrow>
   extension_infos reg' = extension_infos reg \<and> (ext' \<noteq> ext \<longrightarrow> without ext' reg \<longrightarrow> without ext' reg')"
  by (cases r) (auto simp: run_registration_def register_target_profile_def register_detector_def
      register_capability_provider_def register_dependency_provider_def publish_service_def register_tool_def
      register_resource_def remove_tool_def remove_resource_def without_def Let_def split: sum.splits if_splits)

lemma registrations_keep:
  "run_registrations rejects ctx rs reg = (err, ctx', reg') \<Longrightarrow>
   extension_infos reg' = extension_infos reg
   \<and> (ext' \<noteq> ctx_extension_id ctx \<longrightarrow> without ext' reg \<longrightarrow> without ext' reg')"
proof (induction rs arbitrary: ctx reg)
  case Nil
  then show ?case by simp
next
  case (Cons r rs)
  obtain res reg1 where r: "run_registration rejects (ctx_extension_id ctx) r reg = (res, reg1)" by force
  note k = registration_keeps [OF r, of ext']
  show ?case
  proof (cases res)
    case (Inl e)
    then show ?thesis using Cons.prems r k by simp
  next
    case (Inr a)
    then show ?thesis using Cons.prems r k Cons.IH [of "ctx \<lparr> ctx_rollback := ctx_rollback ctx @ [a] \<rparr>" reg1] by simp
  qed
qed

subsection \<open>The state while loading\<close>

text \<open>Undoing what has been registered so far gives the first registry back, apart from the infos, and the
  infos have only grown.\<close>

definition load_inv :: "registry \<Rightarrow> string set \<Rightarrow> load_state \<Rightarrow> bool" where
  "load_inv reg0 rest st \<longleftrightarrow>
     registry_ok (ls_registry st) \<and> (\<forall>ext\<in>rest. without ext (ls_registry st))
     \<and> rollback_contexts (rev (ls_contexts st)) (ls_registry st) = ([], with_infos (extension_infos (ls_registry st)) reg0)
     \<and> take (length (extension_infos reg0)) (extension_infos (ls_registry st)) = extension_infos reg0"

lemma registry_ok_infos [simp]: "registry_ok (with_infos infos reg) = registry_ok reg"
  by (simp add: registry_ok_def)

lemma without_infos [simp]: "without ext (with_infos infos reg) = without ext reg"
  by (simp add: without_def)

lemma start_extension_inv:
  assumes "load_inv reg0 (insert ext rest) st" "ext \<notin> rest" "start_extension env raw (ext, obj) st = (err, st')"
  shows "load_inv reg0 rest st'"
proof (cases "extension_config env raw ext obj")
  case (Inl e)
  then show ?thesis using assms by (auto simp: start_extension_def load_inv_def)
next
  case (Inr config)
  obtain regs raised where o: "obj_register obj config = (regs, raised)" by force
  let ?reg = "ls_registry st"
  obtain failure ctx reg where r: "run_registrations (env_rejects env) (new_context ext obj) regs ?reg = (failure, ctx, reg)"
    by (metis prod_cases3)
  have ok: "registry_ok ?reg" and wo: "without ext ?reg" "\<forall>x\<in>rest. without x ?reg"
    and rb: "rollback_contexts (rev (ls_contexts st)) ?reg = ([], with_infos (extension_infos ?reg) reg0)"
    and infos: "take (length (extension_infos reg0)) (extension_infos ?reg) = extension_infos reg0"
    using assms(1) by (auto simp: load_inv_def)
  have id: "ctx_extension_id (new_context ext obj) = ext" "ctx_rollback (new_context ext obj) = []"
    by (simp_all add: new_context_def)
  have ok': "registry_ok reg" and undo: "rollback_registration ctx reg = ([], ctx \<lparr> ctx_rollback := [] \<rparr>, ?reg)"
    using run_registrations_restores [OF r ok, of ?reg] rollback_restores [of ctx reg ?reg] reg.restores_Nil [of ext ?reg] wo(1)
    by (simp_all add: id)
  have i': "extension_infos reg = extension_infos ?reg" using registrations_keep [OF r] by simp
  have wo': "\<forall>x\<in>rest. without x reg" using registrations_keep [OF r] wo(2) assms(2) by (metis id(1))
  have rb': "rollback_contexts (ctx # rev (ls_contexts st)) (with_infos infos reg) = ([], with_infos infos reg0)" for infos
    unfolding rollback_contexts_infos using undo rb by simp
  have base: "load_inv reg0 rest (st \<lparr> ls_contexts := ls_contexts st @ [ctx], ls_started := s, ls_loaded := l,
      ls_registry := with_infos infos reg \<rparr>)"
    if "take (length (extension_infos reg0)) infos = extension_infos reg0" for s l infos
    using that ok' wo' rb' [of infos] by (simp add: load_inv_def del: rollback_contexts.simps)
  have self: "with_infos (extension_infos reg) reg = reg" by simp
  have app: "take (length (extension_infos reg0)) (extension_infos reg @ xs) = extension_infos reg0" for xs
    using infos i' by (metis append_take_drop_id append_assoc append_eq_conv_conj)
  show ?thesis
    using assms(3) base [where infos = "extension_infos reg @ [object_info ext obj]" and s = "ls_started st @ [(ext, obj)]" and l = "ls_loaded st @ [(ext, obj)]"]
      base [where infos = "extension_infos reg" and s = "ls_started st @ [(ext, obj)]" and l = "ls_loaded st"] app [of "[]"] app [of "[object_info ext obj]"]
    by (auto simp: start_extension_def Inr o r Let_def self split: if_splits option.splits)
qed

lemma start_extensions_inv:
  "load_inv reg0 (fst ` set es) st \<Longrightarrow> distinct (map fst es) \<Longrightarrow> start_extensions env raw es st = (err, st') \<Longrightarrow>
   \<exists>rest. load_inv reg0 rest st'"
proof (induction es arbitrary: st)
  case Nil
  then show ?case by auto
next
  case (Cons e es)
  obtain ext obj where e: "e = (ext, obj)" by force
  obtain err1 st1 where s: "start_extension env raw (ext, obj) st = (err1, st1)" by force
  have "load_inv reg0 (fst ` set es) st1"
    using start_extension_inv [OF _ _ s] Cons.prems(1,2) by (auto simp: e)
  then show ?case using Cons s by (cases err1) (auto simp: e)
qed

lemma undo_load_restores:
  assumes "load_inv reg0 rest st"
  shows "undo_load (length (extension_infos reg0)) st = (shutdown_errors (ls_started st), reg0)"
  using assms by (simp add: undo_load_def load_inv_def)

lemma start_extensions_started:
  "start_extensions env raw es st = (err, st') \<Longrightarrow>
   \<exists>n. ls_started st' = ls_started st @ take n es \<and> (err = None \<longrightarrow> n = length es
     \<and> ls_loaded st' = ls_loaded st @ es
     \<and> extension_infos (ls_registry st') = extension_infos (ls_registry st) @ map (\<lambda>(ext, obj). object_info ext obj) es)"
proof (induction es arbitrary: st)
  case Nil
  then show ?case by auto
next
  case (Cons e es)
  obtain ext obj where e: "e = (ext, obj)" by force
  obtain err1 st1 where s: "start_extension env raw e st = (err1, st1)" by force
  have s1: "(ls_started st1 = ls_started st \<or> ls_started st1 = ls_started st @ [e])
    \<and> (err1 = None \<longrightarrow> ls_started st1 = ls_started st @ [e] \<and> ls_loaded st1 = ls_loaded st @ [e]
        \<and> extension_infos (ls_registry st1) = extension_infos (ls_registry st) @ [object_info ext obj])"
    using s by (auto simp: e start_extension_def Let_def dest: registrations_keep
        split: sum.splits prod.splits if_splits option.splits)
  show ?case
  proof (cases err1)
    case None
    then obtain n where "ls_started st' = ls_started st1 @ take n es" "err = None \<longrightarrow> n = length es
        \<and> ls_loaded st' = ls_loaded st1 @ es
        \<and> extension_infos (ls_registry st') = extension_infos (ls_registry st1) @ map (\<lambda>(ext, obj). object_info ext obj) es"
      using Cons.IH [of st1] Cons.prems s by auto
    then show ?thesis using s1 None by (intro exI [of _ "Suc n"]) (auto simp: e)
  next
    case (Some err')
    then have "st' = st1" "err \<noteq> None" using Cons.prems s by auto
    then show ?thesis using s1 by (elim conjE disjE) (auto intro: exI [of _ 0] exI [of _ 1])
  qed
qed

lemma import_extension_Inr:
  "import_extension available ext = Inr e \<Longrightarrow> fst e = ext \<and> validate_contract ext (snd e) = Inr ()"
  by (auto simp: import_extension_def rbind_eq_Inr split: list.splits)

text \<open>The extensions an order starts, with the objects imported for them.\<close>

definition load_plan :: "load_env \<Rightarrow> string list \<Rightarrow> (string \<times> extension_object) list \<Rightarrow> bool" where
  "load_plan env enabled plan \<longleftrightarrow>
     distinct (map fst plan) \<and> set (map fst plan) = set enabled
     \<and> (\<forall>(ext, obj)\<in>set plan. import_extension (discover enabled (env_points env)) ext = Inr (ext, obj)
          \<and> validate_contract ext obj = Inr ())
     \<and> dependencies_first (map (\<lambda>(ext, obj). (ext, object_dependencies obj)) plan) {} (map fst plan)"

lemma imported_objects:
  assumes "traverse f xs = Inr objects" "\<And>x e. f x = Inr e \<Longrightarrow> fst e = x"
  shows "map fst objects = xs" "x \<in> set xs \<Longrightarrow> \<exists>obj. dict_get objects x = Some obj \<and> f x = Inr (x, obj)"
proof -
  have l: "list_all2 (\<lambda>x e. f x = Inr e) xs objects" using assms(1) by (simp add: traverse_eq_Inr)
  then show k: "map fst objects = xs" using assms(2) by (induction rule: list_all2_induct) auto
  assume x: "x \<in> set xs"
  then have "dict_get objects x \<noteq> None" using k by (auto simp: dict_get_None)
  then obtain obj where o: "dict_get objects x = Some obj" by auto
  then have "(x, obj) \<in> set objects" by (rule map_of_SomeD)
  then obtain i where "i < length objects" "objects ! i = (x, obj)" by (meson in_set_conv_nth)
  then obtain y where "f y = Inr (x, obj)" using l list_all2_nthD2 [OF l, of i] by auto
  then show "\<exists>obj. dict_get objects x = Some obj \<and> f x = Inr (x, obj)" using o assms(2) by fastforce
qed

lemma dependencies_first_cong:
  "(\<And>x. x \<in> set xs \<Longrightarrow> deps_of g x = deps_of h x) \<Longrightarrow> dependencies_first g A xs = dependencies_first h A xs"
  by (induction xs arbitrary: A) auto

lemma dict_get_map_value: "dict_get (map (\<lambda>(k, v). (k, f v)) d) x = map_option f (dict_get d x)"
  by (induction d) auto

lemma plan_of_order:
  assumes imp: "traverse (import_extension (discover enabled (env_points env))) enabled = Inr objects"
    and ord: "topological_order (map (\<lambda>(ext, obj). (ext, object_dependencies obj)) objects) enabled = Inr order"
  shows "load_plan env enabled (map (\<lambda>ext. (ext, the (dict_get objects ext))) order)"
proof -
  let ?g = "map (\<lambda>(ext, obj). (ext, object_dependencies obj)) objects"
  let ?plan = "map (\<lambda>ext. (ext, the (dict_get objects ext))) order"
  have im: "map fst objects = enabled"
    "\<And>x. x \<in> set enabled \<Longrightarrow> \<exists>obj. dict_get objects x = Some obj \<and>
       import_extension (discover enabled (env_points env)) x = Inr (x, obj)"
    using imported_objects [OF imp] import_extension_Inr by blast+
  have keys: "set enabled = fst ` set ?g" unfolding im(1) [symmetric] by force
  note o = topological_order_Inr [OF ord keys]
  have names: "map fst ?plan = order" by (simp add: comp_def)
  have "dependencies_first (map (\<lambda>(ext, obj). (ext, object_dependencies obj)) ?plan) {} order
      = dependencies_first ?g {} order"
  proof (rule dependencies_first_cong)
    fix x assume x: "x \<in> set order"
    then obtain obj where obj: "dict_get objects x = Some obj" using im(2) o(3) by blast
    have "dict_get ?plan x = Some obj" using x obj by (auto simp: map_of_map_restrict)
    then show "deps_of (map (\<lambda>(ext, obj). (ext, object_dependencies obj)) ?plan) x = deps_of ?g x"
      using obj by (simp only: deps_of_def dict_get_map_value)
  qed
  then have "dependencies_first (map (\<lambda>(ext, obj). (ext, object_dependencies obj)) ?plan) {} (map fst ?plan)"
    using o(4) by (simp only: names)
  moreover have "\<forall>(ext, obj)\<in>set ?plan. import_extension (discover enabled (env_points env)) ext = Inr (ext, obj)
      \<and> validate_contract ext obj = Inr ()"
    using im(2) o(3) import_extension_Inr by fastforce
  ultimately show ?thesis unfolding load_plan_def using names o(2,3) by simp
qed

text \<open>C21: Loading is all or nothing. When it fails, at whatever extension, registration or validation, the manager
  and its registry are what they were, provided nothing of the enabled extensions was registered before.
  When it succeeds, exactly the enabled extensions have been imported with a valid contract and started,
  each after its dependencies, and the registry's infos list them in that order.\<close>

theorem load_all_or_nothing:
  assumes "registry_ok (man_registry m)" "man_loaded m = []" "\<forall>ext\<in>set (man_enabled m). without ext (man_registry m)"
  shows "case load env m of
      (Some _, m') \<Rightarrow> m' = m
    | (None, m') \<Rightarrow> man_enabled m = [] \<and> m' = m
        \<or> (\<exists>plan. load_plan env (man_enabled m) plan \<and> man_loaded m' = plan
            \<and> extension_infos (man_registry m') =
                extension_infos (man_registry m) @ map (\<lambda>(ext, obj). object_info ext obj) plan)"
proof -
  let ?imp = "traverse (import_extension (discover (man_enabled m) (env_points env))) (man_enabled m)"
  let ?st0 = "\<lparr> ls_contexts = [], ls_started = [], ls_loaded = man_loaded m, ls_registry = man_registry m \<rparr>"
  consider (none) "man_enabled m = []" | (early) e where "man_enabled m \<noteq> []" "load env m = (Some (e, []), m)"
    | (run) objects order raw where "man_enabled m \<noteq> []" "?imp = Inr objects"
        "topological_order (map (\<lambda>(ext, obj). (ext, object_dependencies obj)) objects) (man_enabled m) = Inr order"
        "load_config (env_config env) = Inr raw"
    by (cases "?imp"; cases "man_enabled m = []";
        cases "topological_order (map (\<lambda>(ext, obj). (ext, object_dependencies obj)) (projr ?imp)) (man_enabled m)";
        cases "load_config (env_config env)") (auto simp: load_def)
  then show ?thesis
  proof cases
    case none
    then show ?thesis by (simp add: load_def)
  next
    case early
    then show ?thesis by simp
  next
    case run
    let ?plan = "map (\<lambda>ext. (ext, the (dict_get objects ext))) order"
    have plan: "load_plan env (man_enabled m) ?plan" using plan_of_order run(2,3) .
    obtain failure st where s: "start_extensions env raw ?plan ?st0 = (failure, st)" by force
    have "load_inv (man_registry m) (fst ` set ?plan) ?st0"
      using assms(1,3) plan by (auto simp: load_inv_def load_plan_def)
    moreover have "distinct (map fst ?plan)" using plan by (simp only: load_plan_def)
    ultimately obtain rest where inv: "load_inv (man_registry m) rest st"
      using start_extensions_inv [OF _ _ s] by blast
    have keep: "m \<lparr> man_loaded := [], man_registry := man_registry m \<rparr> = m" using assms(2) by simp
    note u = undo_load_restores [OF inv]
    show ?thesis
    proof (cases "case failure of Some err \<Rightarrow> Some err | None \<Rightarrow> map_option ValidationFailed (env_validate env (ls_registry st))")
      case (Some err)
      then have "load env m = (Some (err, shutdown_errors (ls_started st)), m)"
        using run s by (simp add: load_def Let_def u keep)
      then show ?thesis by simp
    next
      case None
      then have "load env m = (None, m \<lparr> man_loaded := ls_loaded st, man_registry := ls_registry st \<rparr>)" "failure = None"
        using run s by (simp_all add: load_def Let_def split: option.splits)
      then show ?thesis using start_extensions_started [OF s] plan assms(2) by auto
    qed
  qed
qed

definition sample_extension :: "string \<Rightarrow> string list \<Rightarrow> string option \<Rightarrow> extension_object" where
  "sample_extension ext deps raised = \<lparr> obj_id = Some ext, obj_version = Some ''1'', obj_api_version = Some 1,
     obj_dependencies = Some deps, obj_has_register = True, obj_has_shutdown = True, obj_config_model = Inr,
     obj_register = (\<lambda>config. ([RegisterCapability 4], raised)), obj_shutdown = Some ''stuck'' \<rparr>"

definition sample_env :: "string option \<Rightarrow> load_env" where
  "sample_env raised = \<lparr> env_points = [\<lparr> point_name = ''g'', point_load = Inr (sample_extension ''g'' [''b''] raised) \<rparr>,
       \<lparr> point_name = ''b'', point_load = Inr (sample_extension ''b'' [] None) \<rparr>],
     env_config = NoConfig, env_environ = [], env_loads = (\<lambda>raw. None), env_rejects = (\<lambda>name. False),
     env_validate = (\<lambda>reg. None) \<rparr>"

definition sample_manager :: manager where
  "sample_manager = \<lparr> man_enabled = [''g'', ''b''], man_loaded = [], man_registry = empty_registry \<rparr>"

theorem load_all_or_nothing_witness:
  "snd (load (sample_env (Some ''boom'')) sample_manager) = sample_manager
   \<and> fst (load (sample_env (Some ''boom'')) sample_manager)
       = Some (InitializationFailed ''g'' ''boom'', [''g: stuck'', ''b: stuck''])"
proof (rule conjI)
  show f: "fst (load (sample_env (Some ''boom'')) sample_manager)
       = Some (InitializationFailed ''g'' ''boom'', [''g: stuck'', ''b: stuck''])"
    by (simp add: load_def sample_env_def sample_manager_def sample_extension_def import_extension_def discover_def
        validate_contract_def EXTENSION_API_VERSION_def topological_order_def missing_dependencies_def visit.simps
        object_dependencies_def load_config_def start_extension_def extension_config_def apply_environment_overrides_def
        new_context_def run_registration_def register_capability_provider_def undo_load_def shutdown_errors_def
        rollback_registration_def run_rollback_def run_rollback_action_def empty_registry_def object_info_def
        List.map_filter_def)
  have "registry_ok (man_registry sample_manager)" "man_loaded sample_manager = []"
    "\<forall>ext\<in>set (man_enabled sample_manager). without ext (man_registry sample_manager)"
    by (simp_all add: sample_manager_def empty_registry_def registry_ok_def without_def)
  from load_all_or_nothing [OF this, of "sample_env (Some ''boom'')"] f
  show "snd (load (sample_env (Some ''boom'')) sample_manager) = sample_manager"
    by (cases "load (sample_env (Some ''boom'')) sample_manager") simp
qed

end
