(* ===== verification/Config.thy ===== *)
theory Config
  imports Core_Models
begin

text \<open>
  Runtime configuration and path confinement: \<^verbatim>\<open>config.py\<close>. A \<^verbatim>\<open>Path\<close> is its root flag and its components;
  a resolved path is the component list below the root. The file system is a record of what the code
  asks of it: \<open>resolve\<close> (which follows symbolic links and, when strict, fails on a missing file),
  existence, regular files and execute permission. Environment variables and file contents are
  arguments; reading settings from the environment is pydantic-settings' part.
\<close>

subsection \<open>Paths\<close>

record pypath =
  path_absolute :: bool
  path_parts :: "string list"

definition parse_path :: "string \<Rightarrow> pypath" where
  "parse_path s = \<lparr> path_absolute = str_startswith s ''/'',
     path_parts = filter (\<lambda>p. p \<noteq> [] \<and> p \<noteq> ''.'') (split_on (CHR ''/'') s) \<rparr>"

definition join_path :: "pypath \<Rightarrow> pypath \<Rightarrow> pypath" where
  "join_path a b = (if path_absolute b then b else a \<lparr> path_parts := path_parts a @ path_parts b \<rparr>)"

datatype config_error =
    OsError string
  | OutsideWorkspace
  | OutsideRoots
  | ExecutableMissing string
  | NotExecutable string
  | TokenRequired

record file_system =
  fs_resolve :: "bool \<Rightarrow> pypath \<Rightarrow> string + string list"      \<comment> \<open>strict first\<close>
  fs_exists :: "pypath \<Rightarrow> bool"
  fs_is_file :: "string list \<Rightarrow> bool"
  fs_executable :: "string list \<Rightarrow> bool"

text \<open>\<open>within root p\<close>: \<open>p\<close> is the root or has it among its parents.\<close>

definition within :: "string list \<Rightarrow> string list \<Rightarrow> bool" where
  "within root p = (take (length root) p = root)"

definition below :: "string list \<Rightarrow> string list \<Rightarrow> bool" where
  "below root p = (within root p \<and> p \<noteq> root)"

definition first_existing :: "file_system \<Rightarrow> string list \<Rightarrow> config_error + pypath" where
  "first_existing fs paths =
     (case find (\<lambda>raw. fs_exists fs (parse_path raw)) paths of
        None \<Rightarrow> Inr (parse_path (hd paths))
      | Some raw \<Rightarrow> rmap (\<lambda>parts. \<lparr> path_absolute = True, path_parts = parts \<rparr>)
                     (rcatch (fs_resolve fs False (parse_path raw)) OsError))"

subsection \<open>Settings\<close>

record settings =
  set_host :: string
  set_port :: int
  set_mcp_path :: string
  set_token :: "string option"
  set_token_file :: "pypath option"
  set_extensions :: "string list"
  set_extension_config :: "pypath option"
  set_repository_root :: pypath
  set_workspace_root :: pypath
  set_state_root :: pypath
  set_segger_root :: pypath
  set_ozone_root :: "pypath option"
  set_systemview_root :: "pypath option"
  set_host_dev_root :: pypath
  set_sys_usb_root :: pypath
  set_gdb_client :: string
  set_default_timeout_ms :: nat
  set_max_output_bytes :: nat
  set_enable_gui :: bool
  set_display :: string

text \<open>The bounds pydantic enforces on the numeric fields.\<close>

definition settings_bounds :: "settings \<Rightarrow> bool" where
  "settings_bounds s = (1 \<le> set_port s \<and> set_port s \<le> 65535
     \<and> 0 < set_default_timeout_ms s \<and> set_default_timeout_ms s \<le> 3600 * 1000 \<and> 1024 \<le> set_max_output_bytes s)"

text \<open>The defaults, for a current directory \<open>cwd\<close>, the first existing SEGGER directory and the GDB found on the
  path.\<close>

definition default_settings :: "pypath \<Rightarrow> pypath \<Rightarrow> string option list \<Rightarrow> settings" where
  "default_settings cwd segger gdbs = \<lparr> set_host = ''127.0.0.1'', set_port = 8000, set_mcp_path = ''/mcp'',
     set_token = None, set_token_file = None, set_extensions = [], set_extension_config = None,
     set_repository_root = cwd, set_workspace_root = cwd,
     set_state_root = cwd \<lparr> path_parts := path_parts cwd @ [''state''] \<rparr>, set_segger_root = segger,
     set_ozone_root = None, set_systemview_root = None,
     set_host_dev_root = \<lparr> path_absolute = True, path_parts = [''dev''] \<rparr>,
     set_sys_usb_root = \<lparr> path_absolute = True, path_parts = [''sys'', ''bus'', ''usb'', ''devices''] \<rparr>,
     set_gdb_client = (case List.map_filter id gdbs of [] \<Rightarrow> ''gdb-multiarch'' | g # _ \<Rightarrow> g),
     set_default_timeout_ms = 30000, set_max_output_bytes = 4000000, set_enable_gui = True, set_display = '':99'' \<rparr>"

text \<open>The validator of \<^verbatim>\<open>extensions\<close>. Given text it is a JSON array or a comma list; the elements of the array
  are checked by pydantic afterwards.\<close>

fun split_commas :: "string \<Rightarrow> string list" where
  "split_commas s = filter (\<lambda>item. item \<noteq> []) (map str_strip (split_on (CHR '','') s))"

definition parse_extensions :: "(string \<Rightarrow> string + json) \<Rightarrow> json \<Rightarrow> string + json" where
  "parse_extensions loads v =
     (case v of
        JNull \<Rightarrow> Inr (JList [])
      | JStr s \<Rightarrow>
          if s = [] then Inr (JList [])
          else (let stripped = str_strip s in
            if str_startswith stripped ''['' then loads stripped
            else Inr (JList (map JStr (split_commas stripped))))
      | _ \<Rightarrow> Inr v)"

definition bearer_token ::
    "settings \<Rightarrow> (pypath \<Rightarrow> string option) \<Rightarrow> string option \<Rightarrow> bool \<Rightarrow> config_error + string option" where
  "bearer_token s read_file from_env required =
     (let token = (case set_token s of None \<Rightarrow> [] | Some t \<Rightarrow> t);
          env = (case from_env of None \<Rightarrow> [] | Some t \<Rightarrow> t) in
      if token \<noteq> [] then Inr (Some (str_strip token))
      else case Option.bind (set_token_file s) read_file of
          Some text \<Rightarrow> Inr (Some (str_strip text))
        | None \<Rightarrow>
            if env \<noteq> [] then Inr (Some (str_strip env))
            else if required then Inl TokenRequired
            else Inr None)"

definition resolve_root :: "file_system \<Rightarrow> pypath \<Rightarrow> config_error + string list" where
  "resolve_root fs root = rcatch (fs_resolve fs True root) OsError"

definition resolve_workspace_path ::
    "settings \<Rightarrow> file_system \<Rightarrow> string \<Rightarrow> bool \<Rightarrow> config_error + string list" where
  "resolve_workspace_path s fs raw must_exist =
     rbind (rcatch (fs_resolve fs must_exist (join_path (set_workspace_root s) (parse_path raw))) OsError) (\<lambda>resolved.
     rbind (resolve_root fs (set_workspace_root s)) (\<lambda>workspace.
     if resolved \<noteq> workspace \<and> \<not> below workspace resolved then Inl OutsideWorkspace else Inr resolved))"

definition resolve_allowed_path ::
    "settings \<Rightarrow> file_system \<Rightarrow> string \<Rightarrow> bool \<Rightarrow> config_error + string list" where
  "resolve_allowed_path s fs raw must_exist =
     rbind (rcatch (fs_resolve fs must_exist (join_path (set_workspace_root s) (parse_path raw))) OsError) (\<lambda>resolved.
     rbind (resolve_root fs (set_workspace_root s)) (\<lambda>workspace.
     rbind (resolve_root fs (set_state_root s)) (\<lambda>state.
     if \<not> list_ex (\<lambda>root. resolved = root \<or> below root resolved) [workspace, state] then Inl OutsideRoots
     else Inr resolved)))"

definition segger_executable :: "settings \<Rightarrow> file_system \<Rightarrow> string \<Rightarrow> config_error + string list" where
  "segger_executable s fs name =
     rbind (rcatch (fs_resolve fs False (join_path (set_segger_root s) (parse_path name))) OsError) (\<lambda>path.
     rbind (resolve_root fs (set_segger_root s)) (\<lambda>root.
     if \<not> below root path \<or> \<not> fs_is_file fs path then Inl (ExecutableMissing name)
     else if \<not> fs_executable fs path then Inl (NotExecutable name)
     else Inr path))"

subsection \<open>Confinement\<close>

lemma within_append: "within root p \<longleftrightarrow> (\<exists>rest. p = root @ rest)"
  by (metis append_eq_conv_conj within_def)

lemma resolve_allowed_path_Inr:
  "resolve_allowed_path s fs raw must_exist = Inr p \<Longrightarrow>
   fs_resolve fs must_exist (join_path (set_workspace_root s) (parse_path raw)) = Inr p
   \<and> (\<exists>root\<in>{set_workspace_root s, set_state_root s}. \<exists>r rest. resolve_root fs root = Inr r \<and> p = r @ rest)"
  unfolding resolve_allowed_path_def result_simps
  by (auto simp: below_def within_append)

end
