(* ===== verification/Http_Gate.thy ===== *)
theory Http_Gate
  imports Config
begin












end
