(* ===== verification/Regex.thy ===== *)
theory Regex
  imports Pystr
begin

text \<open>
  The part of \<^verbatim>\<open>re\<close> the program uses: a backtracking matcher. A position is the text before it (reversed),
  the text after it and the groups captured so far; \<open>re_match r\<close> lists the positions reachable by \<open>r\<close>
  in the order the engine tries them, so the head is the engine's match. Character classes are
  predicates; \<^verbatim>\<open>re.IGNORECASE\<close> is a class that ignores case. Repetition goes on only while it consumes text,
  which is \<^verbatim>\<open>re\<close>'s guard against empty iterations.
\<close>

datatype regex =
    Eps
  | Chr "char \<Rightarrow> bool"
  | Seq regex regex
  | Alt regex regex
  | Star regex                 \<comment> \<open>greedy\<close>
  | Lazy regex                 \<comment> \<open>\<^verbatim>\<open>*?\<close>\<close>
  | Grp nat regex
  | WordB                      \<comment> \<open>\<^verbatim>\<open>\b\<close>\<close>
  | LineStart                  \<comment> \<open>\<^verbatim>\<open>^\<close> with \<^verbatim>\<open>re.MULTILINE\<close>\<close>
  | LineEnd                    \<comment> \<open>\<^verbatim>\<open>$\<close> with \<^verbatim>\<open>re.MULTILINE\<close>\<close>
  | TextStart                  \<comment> \<open>\<^verbatim>\<open>^\<close>\<close>
  | TextEnd                    \<comment> \<open>\<^verbatim>\<open>$\<close>: the end, or before a final newline\<close>

type_synonym position = "string \<times> string \<times> (nat \<times> string) list"

definition re_word :: "char \<Rightarrow> bool" where
  "re_word c = (py_isalnum c \<or> c = CHR ''_'')"

definition re_newline :: char where
  "re_newline = CHR 0x0A"

definition at_word_boundary :: "string \<Rightarrow> string \<Rightarrow> bool" where
  "at_word_boundary pre suf =
     ((case pre of [] \<Rightarrow> False | c # _ \<Rightarrow> re_word c) \<noteq> (case suf of [] \<Rightarrow> False | c # _ \<Rightarrow> re_word c))"

text \<open>\<open>iterate n step\<close>: at most \<open>n\<close> further rounds that each consume something.\<close>

primrec iterate :: "nat \<Rightarrow> bool \<Rightarrow> (position \<Rightarrow> position list) \<Rightarrow> position \<Rightarrow> position list" where
  "iterate 0 greedy step p = [p]"
| "iterate (Suc n) greedy step p =
     (let more = concat (map (iterate n greedy step)
                   (filter (\<lambda>q. length (fst (snd q)) < length (fst (snd p))) (step p)))
      in if greedy then more @ [p] else p # more)"

primrec re_match :: "regex \<Rightarrow> position \<Rightarrow> position list" where
  "re_match Eps p = [p]"
| "re_match (Chr P) p =
     (case p of (pre, suf, gs) \<Rightarrow> (case suf of [] \<Rightarrow> [] | c # cs \<Rightarrow> if P c then [(c # pre, cs, gs)] else []))"
| "re_match (Seq r s) p = concat (map (re_match s) (re_match r p))"
| "re_match (Alt r s) p = re_match r p @ re_match s p"
| "re_match (Star r) p = iterate (length (fst (snd p))) True (re_match r) p"
| "re_match (Lazy r) p = iterate (length (fst (snd p))) False (re_match r) p"
| "re_match (Grp k r) p =
     map (\<lambda>(pre, suf, gs). (pre, suf, (k, rev (take (length pre - length (fst p)) pre)) # gs)) (re_match r p)"
| "re_match WordB p = (case p of (pre, suf, gs) \<Rightarrow> if at_word_boundary pre suf then [p] else [])"
| "re_match LineStart p = (case p of (pre, suf, gs) \<Rightarrow> if pre = [] \<or> hd pre = re_newline then [p] else [])"
| "re_match LineEnd p = (case p of (pre, suf, gs) \<Rightarrow> if suf = [] \<or> hd suf = re_newline then [p] else [])"
| "re_match TextStart p = (case p of (pre, suf, gs) \<Rightarrow> if pre = [] then [p] else [])"
| "re_match TextEnd p = (case p of (pre, suf, gs) \<Rightarrow> if suf = [] \<or> suf = [re_newline] then [p] else [])"

definition re_prefix :: "regex \<Rightarrow> string \<Rightarrow> position option" where
  "re_prefix r s = (case re_match r ([], s, []) of [] \<Rightarrow> None | p # _ \<Rightarrow> Some p)"      \<comment> \<open>\<^verbatim>\<open>re.match\<close>\<close>

definition re_fullmatch :: "regex \<Rightarrow> string \<Rightarrow> position option" where
  "re_fullmatch r s = find (\<lambda>p. fst (snd p) = []) (re_match r ([], s, []))"

primrec re_search_from :: "regex \<Rightarrow> string \<Rightarrow> string \<Rightarrow> position option" where
  "re_search_from r pre [] = (case re_match r (pre, [], []) of [] \<Rightarrow> None | p # _ \<Rightarrow> Some p)"
| "re_search_from r pre (c # cs) =
     (case re_match r (pre, c # cs, []) of [] \<Rightarrow> re_search_from r (c # pre) cs | p # _ \<Rightarrow> Some p)"

definition re_search :: "regex \<Rightarrow> string \<Rightarrow> position option" where
  "re_search r s = re_search_from r [] s"

text \<open>\<^verbatim>\<open>re.finditer\<close> for patterns that match no empty text: the next search starts where the last match
  ended.\<close>

primrec re_findall_fuel :: "nat \<Rightarrow> regex \<Rightarrow> string \<Rightarrow> string \<Rightarrow> position list" where
  "re_findall_fuel 0 r pre suf = []"
| "re_findall_fuel (Suc n) r pre suf =
     (case re_search_from r pre suf of
        None \<Rightarrow> []
      | Some p \<Rightarrow> p # (if length (fst (snd p)) < length suf then re_findall_fuel n r (fst p) (fst (snd p)) else []))"

definition re_findall :: "regex \<Rightarrow> string \<Rightarrow> position list" where
  "re_findall r s = re_findall_fuel (Suc (length s)) r [] s"

definition group :: "nat \<Rightarrow> position \<Rightarrow> string" where
  "group k p = (case map_of (snd (snd p)) k of None \<Rightarrow> [] | Some g \<Rightarrow> g)"

text \<open>Pattern builders.\<close>

definition same_letter :: "char \<Rightarrow> char \<Rightarrow> bool" where
  "same_letter a b = (char_lower a = char_lower b)"

fun re_seq :: "regex list \<Rightarrow> regex" where
  "re_seq [] = Eps"
| "re_seq [r] = r"
| "re_seq (r # rs) = Seq r (re_seq rs)"

fun re_alt :: "regex list \<Rightarrow> regex" where
  "re_alt [] = Chr (\<lambda>c. False)"
| "re_alt [r] = r"
| "re_alt (r # rs) = Alt r (re_alt rs)"

definition re_lit :: "string \<Rightarrow> regex" where
  "re_lit s = re_seq (map (\<lambda>c. Chr (\<lambda>d. d = c)) s)"

definition re_lit_i :: "string \<Rightarrow> regex" where
  "re_lit_i s = re_seq (map (\<lambda>c. Chr (same_letter c)) s)"

definition re_plus :: "regex \<Rightarrow> regex" where
  "re_plus r = Seq r (Star r)"

definition re_opt :: "regex \<Rightarrow> regex" where
  "re_opt r = Alt r Eps"

definition re_any :: regex where
  "re_any = Chr (\<lambda>c. c \<noteq> re_newline)"

definition re_spaces :: regex where
  "re_spaces = Star (Chr py_isspace)"

text \<open>\<open>re_repeat n m r\<close> is \<^verbatim>\<open>r{n,n+m}\<close>.\<close>

primrec re_upto :: "nat \<Rightarrow> regex \<Rightarrow> regex" where
  "re_upto 0 r = Eps"
| "re_upto (Suc n) r = Alt (Seq r (re_upto n r)) Eps"

primrec re_repeat :: "nat \<Rightarrow> nat \<Rightarrow> regex \<Rightarrow> regex" where
  "re_repeat 0 extra r = re_upto extra r"
| "re_repeat (Suc n) extra r = Seq r (re_repeat n extra r)"

definition ascii_hex :: "char \<Rightarrow> bool" where
  "ascii_hex c = (ascii_digit c \<or> 65 \<le> code c \<and> code c \<le> 70 \<or> 97 \<le> code c \<and> code c \<le> 102)"

definition ascii_letter :: "char \<Rightarrow> bool" where
  "ascii_letter c = (ascii_upper c \<or> ascii_lower c)"

subsection \<open>Classes and repeated classes\<close>

text \<open>The positions of a repeated class, longest first.\<close>

fun class_positions :: "(char \<Rightarrow> bool) \<Rightarrow> string \<Rightarrow> string \<Rightarrow> (nat \<times> string) list \<Rightarrow> position list" where
  "class_positions P pre [] gs = [(pre, [], gs)]"
| "class_positions P pre (c # cs) gs = (if P c then class_positions P (c # pre) cs gs else []) @ [(pre, c # cs, gs)]"

lemma re_match_class: "re_match (Star (Chr P)) (pre, suf, gs) = class_positions P pre suf gs"
proof -
  have "iterate (length suf) True (re_match (Chr P)) (pre, suf, gs) = class_positions P pre suf gs"
    by (induction P pre suf gs rule: class_positions.induct) (simp_all add: Let_def)
  then show ?thesis by simp
qed

lemma class_positions_end: "find (\<lambda>p. fst (snd p) = []) (class_positions P pre suf gs) \<noteq> None \<longleftrightarrow> list_all P suf"
proof (induction P pre suf gs rule: class_positions.induct)
  case (1 P pre gs)
  then show ?case by simp
next
  case (2 P pre c cs gs)
  have app: "find Q (xs @ ys) = (case find Q xs of None \<Rightarrow> find Q ys | Some x \<Rightarrow> Some x)" for Q and xs ys :: "position list"
    by (induction xs) auto
  show ?case using 2 by (auto simp: app split: option.splits)
qed

lemma class_positions_ne: "class_positions P pre suf gs \<noteq> []"
  by (cases suf) simp_all

lemma search_class: "re_search (Chr P) s \<noteq> None \<longleftrightarrow> (\<exists>c\<in>set s. P c)"
proof -
  have "re_search_from (Chr P) pre s \<noteq> None \<longleftrightarrow> (\<exists>c\<in>set s. P c)" for pre
    by (induction s arbitrary: pre) auto
  then show ?thesis by (simp add: re_search_def)
qed

lemma fullmatch_class_star:
  "re_fullmatch (Seq (Chr P) (Star (Chr Q))) s \<noteq> None \<longleftrightarrow> (\<exists>c cs. s = c # cs \<and> P c \<and> list_all Q cs)"
proof (cases s)
  case Nil
  then show ?thesis by (simp add: re_fullmatch_def)
next
  case (Cons c cs)
  then show ?thesis using class_positions_end [of Q "[c]" cs "[]"]
    by (simp add: re_fullmatch_def re_match_class del: re_match.simps(5))
qed

text \<open>A literal matches exactly its text.\<close>

lemma re_match_lit_Cons: "re_match (re_seq (map f (c # cs))) p = concat (map (re_match (re_seq (map f cs))) (re_match (f c) p))"
proof (cases cs)
  case Nil
  have "concat (map (re_match Eps) ps) = ps" for ps by (induction ps) simp_all
  then show ?thesis by (simp add: Nil)
qed simp

lemma re_match_lit:
  "re_match (re_lit s) (pre, suf, gs) = (if take (length s) suf = s then [(rev s @ pre, drop (length s) suf, gs)] else [])"
proof (induction s arbitrary: pre suf)
  case Nil
  then show ?case by (simp add: re_lit_def)
next
  case (Cons c s)
  have "re_match (re_lit (c # s)) (pre, suf, gs) = concat (map (re_match (re_lit s)) (re_match (Chr (\<lambda>d. d = c)) (pre, suf, gs)))"
    unfolding re_lit_def by (rule re_match_lit_Cons)
  also have "\<dots> = (if take (length (c # s)) suf = c # s then [(rev (c # s) @ pre, drop (length (c # s)) suf, gs)] else [])"
    by (cases suf) (simp_all add: Cons.IH)
  finally show ?case .
qed

subsection \<open>Languages\<close>

text \<open>The words a pattern without anchors spells. Repetition needs only non-empty rounds.\<close>

inductive_set repeated :: "string set \<Rightarrow> string set" for L where
  none: "[] \<in> repeated L"
| more: "x \<in> L \<Longrightarrow> x \<noteq> [] \<Longrightarrow> y \<in> repeated L \<Longrightarrow> x @ y \<in> repeated L"

primrec lang :: "regex \<Rightarrow> string set" where
  "lang Eps = {[]}"
| "lang (Chr P) = {[c] | c. P c}"
| "lang (Seq r s) = {x @ y | x y. x \<in> lang r \<and> y \<in> lang s}"
| "lang (Alt r s) = lang r \<union> lang s"
| "lang (Star r) = repeated (lang r)"
| "lang (Lazy r) = repeated (lang r)"
| "lang (Grp k r) = lang r"
| "lang WordB = {}"
| "lang LineStart = {}"
| "lang LineEnd = {}"
| "lang TextStart = {}"
| "lang TextEnd = {}"

primrec anchor_free :: "regex \<Rightarrow> bool" where
  "anchor_free Eps = True"
| "anchor_free (Chr P) = True"
| "anchor_free (Seq r s) = (anchor_free r \<and> anchor_free s)"
| "anchor_free (Alt r s) = (anchor_free r \<and> anchor_free s)"
| "anchor_free (Star r) = anchor_free r"
| "anchor_free (Lazy r) = anchor_free r"
| "anchor_free (Grp k r) = anchor_free r"
| "anchor_free WordB = False"
| "anchor_free LineStart = False"
| "anchor_free LineEnd = False"
| "anchor_free TextStart = False"
| "anchor_free TextEnd = False"

text \<open>\<open>reaches ps pre suf L\<close>: up to groups, the positions are those after a word of \<open>L\<close>.\<close>

definition place :: "position \<Rightarrow> string \<times> string" where
  "place p = (fst p, fst (snd p))"

definition splits :: "string set \<Rightarrow> string \<times> string \<Rightarrow> (string \<times> string) set" where
  "splits L q = {(rev x @ fst q, y) | x y. snd q = x @ y \<and> x \<in> L}"

lemma splits_Seq: "(\<Union>q'\<in>splits L q. splits M q') = splits {x @ y | x y. x \<in> L \<and> y \<in> M} q"
proof (rule set_eqI, rule iffI)
  fix p assume "p \<in> (\<Union>q'\<in>splits L q. splits M q')"
  then obtain x x' y where "snd q = x @ (x' @ y)" "x \<in> L" "x' \<in> M" "p = (rev x' @ rev x @ fst q, y)"
    by (auto simp: splits_def)
  then have "snd q = (x @ x') @ y" "x @ x' \<in> {x @ y | x y. x \<in> L \<and> y \<in> M}" "p = (rev (x @ x') @ fst q, y)" by auto
  then show "p \<in> splits {x @ y | x y. x \<in> L \<and> y \<in> M} q" unfolding splits_def by blast
next
  fix p assume "p \<in> splits {x @ y | x y. x \<in> L \<and> y \<in> M} q"
  then obtain x x' y where w: "snd q = (x @ x') @ y" "x \<in> L" "x' \<in> M" "p = (rev (x @ x') @ fst q, y)"
    by (auto simp: splits_def)
  then have "(rev x @ fst q, x' @ y) \<in> splits L q" by (auto simp: splits_def)
  moreover have "p \<in> splits M (rev x @ fst q, x' @ y)" using w by (auto simp: splits_def)
  ultimately show "p \<in> (\<Union>q'\<in>splits L q. splits M q')" by blast
qed

lemma splits_repeated:
  "splits (repeated L) q = insert q (\<Union>q' \<in> {q' \<in> splits L q. length (snd q') < length (snd q)}. splits (repeated L) q')"
proof (rule set_eqI, rule iffI)
  fix p assume "p \<in> splits (repeated L) q"
  then obtain w y where w: "snd q = w @ y" "w \<in> repeated L" "p = (rev w @ fst q, y)" by (auto simp: splits_def)
  from w(2) show "p \<in> insert q (\<Union>q' \<in> {q' \<in> splits L q. length (snd q') < length (snd q)}. splits (repeated L) q')"
  proof cases
    case none
    then show ?thesis using w by (cases q) simp
  next
    case (more x z)
    then have "(rev x @ fst q, z @ y) \<in> splits L q" "p \<in> splits (repeated L) (rev x @ fst q, z @ y)"
      "length (z @ y) < length (snd q)"
      using w by (auto simp: splits_def)
    then show ?thesis by fastforce
  qed
next
  fix p assume "p \<in> insert q (\<Union>q' \<in> {q' \<in> splits L q. length (snd q') < length (snd q)}. splits (repeated L) q')"
  then consider "p = q" | x z y where "snd q = x @ (z @ y)" "x \<in> L" "x \<noteq> []" "z \<in> repeated L" "p = (rev z @ rev x @ fst q, y)"
    by (fastforce simp: splits_def)
  then show "p \<in> splits (repeated L) q"
  proof cases
    case 1
    have "snd q = [] @ snd q" "q = (rev [] @ fst q, snd q)" by simp_all
    then show ?thesis unfolding splits_def 1 using repeated.none [of L] by blast
  next
    case 2
    then have "snd q = (x @ z) @ y" "x @ z \<in> repeated L" "p = (rev (x @ z) @ fst q, y)" by (auto intro: repeated.more)
    then show ?thesis unfolding splits_def by blast
  qed
qed

lemma place_iterate:
  assumes step: "\<And>p. place ` set (step p) = splits L (place p)"
  shows "length (snd (place p)) \<le> n \<Longrightarrow> place ` set (iterate n greedy step p) = splits (repeated L) (place p)"
proof (induction n arbitrary: p)
  case 0
  then have "snd (place p) = []" by simp
  then have "splits (repeated L) (place p) = {place p}"
    by (subst splits_repeated) (auto simp: splits_def)
  then show ?case by simp
next
  case (Suc n)
  have "place ` set (iterate (Suc n) greedy step p) =
      insert (place p) (\<Union>q \<in> {q \<in> set (step p). length (snd (place q)) < length (snd (place p))}. place ` set (iterate n greedy step q))"
    by (cases greedy) (auto simp: Let_def place_def)
  also have "\<dots> = insert (place p) (\<Union>q \<in> {q \<in> set (step p). length (snd (place q)) < length (snd (place p))}. splits (repeated L) (place q))"
  proof -
    have "place ` set (iterate n greedy step q) = splits (repeated L) (place q)" if "length (snd (place q)) < length (snd (place p))" for q
      using Suc.IH [of q] that Suc.prems by linarith
    then show ?thesis by auto
  qed
  also have "\<dots> = insert (place p) (\<Union>q' \<in> {q' \<in> place ` set (step p). length (snd q') < length (snd (place p))}. splits (repeated L) q')"
    by auto
  also have "\<dots> = splits (repeated L) (place p)"
    unfolding step by (rule splits_repeated [symmetric])
  finally show ?case .
qed

lemma place_match: "anchor_free r \<Longrightarrow> place ` set (re_match r p) = splits (lang r) (place p)"
proof (induction r arbitrary: p)
  case Eps
  then show ?case by (cases p) (auto simp: splits_def place_def)
next
  case (Chr P)
  obtain pre suf gs where "p = (pre, suf, gs)" by (metis prod_cases3)
  then show ?case by (cases suf) (auto simp: splits_def place_def)
next
  case (Seq r s)
  have "place ` set (re_match (Seq r s) p) = (\<Union>q\<in>set (re_match r p). splits (lang s) (place q))"
    using Seq by (simp add: image_UN)
  also have "\<dots> = (\<Union>q\<in>place ` set (re_match r p). splits (lang s) q)" by simp
  also have "\<dots> = splits (lang (Seq r s)) (place p)" using Seq by (simp add: splits_Seq)
  finally show ?case .
next
  case (Alt r s)
  then show ?case by (auto simp: image_Un splits_def)
next
  case (Star r)
  have "length (snd (place p)) \<le> length (fst (snd p))" by (simp add: place_def)
  then show ?case using place_iterate [of "re_match r" "lang r" p _ True] Star by simp
next
  case (Lazy r)
  have "length (snd (place p)) \<le> length (fst (snd p))" by (simp add: place_def)
  then show ?case using place_iterate [of "re_match r" "lang r" p _ False] Lazy by simp
next
  case (Grp k r)
  have "place ` set (re_match (Grp k r) p) = place ` set (re_match r p)"
    unfolding re_match.simps set_map image_image by (rule image_cong [OF refl]) (simp add: place_def split: prod.split)
  then show ?case using Grp by simp
qed simp_all

lemma ex_split_Cons: "(\<exists>a b. c # s = a @ b \<and> Q a b) \<longleftrightarrow> Q [] (c # s) \<or> (\<exists>a b. s = a @ b \<and> Q (c # a) b)"
  by (auto simp: Cons_eq_append_conv)

lemma re_search_iff: "re_search r s \<noteq> None \<longleftrightarrow> (\<exists>a b. s = a @ b \<and> re_match r (rev a, b, []) \<noteq> [])"
proof -
  have "re_search_from r pre s \<noteq> None \<longleftrightarrow> (\<exists>a b. s = a @ b \<and> re_match r (rev a @ pre, b, []) \<noteq> [])" for pre
  proof (induction s arbitrary: pre)
    case Nil
    then show ?case by (auto split: list.splits)
  next
    case (Cons c s)
    have "(\<exists>a b. c # s = a @ b \<and> re_match r (rev a @ pre, b, []) \<noteq> []) \<longleftrightarrow>
        re_match r (pre, c # s, []) \<noteq> [] \<or> (\<exists>a b. s = a @ b \<and> re_match r (rev a @ c # pre, b, []) \<noteq> [])"
      by (simp add: ex_split_Cons [where Q = "\<lambda>a b. re_match r (rev a @ pre, b, []) \<noteq> []"])
    then show ?case using Cons.IH [of "c # pre"] by (cases "re_match r (pre, c # s, [])") simp_all
  qed
  then show ?thesis by (simp add: re_search_def)
qed

lemma ex_infix: "(\<exists>a b. s = a @ b \<and> (\<exists>x y. b = x @ y \<and> Q x)) \<longleftrightarrow> (\<exists>a x b. s = a @ x @ b \<and> Q x)"
proof
  assume "\<exists>a b. s = a @ b \<and> (\<exists>x y. b = x @ y \<and> Q x)"
  then obtain a b x y where "s = a @ b" "b = x @ y" "Q x" by (elim exE conjE)
  then have "s = a @ x @ y \<and> Q x" by simp
  then show "\<exists>a x b. s = a @ x @ b \<and> Q x" by (intro exI)
next
  assume "\<exists>a x b. s = a @ x @ b \<and> Q x"
  then obtain a x y where "s = a @ x @ y" "Q x" by (elim exE conjE)
  then have "s = a @ (x @ y) \<and> (x @ y = x @ y \<and> Q x)" by simp
  then show "\<exists>a b. s = a @ b \<and> (\<exists>x y. b = x @ y \<and> Q x)" by iprover
qed

text \<open>Searching finds a pattern without anchors exactly when a word of its language occurs.\<close>

lemma re_search_lang:
  assumes "anchor_free r"
  shows "re_search r s \<noteq> None \<longleftrightarrow> (\<exists>a x b. s = a @ x @ b \<and> x \<in> lang r)"
proof -
  have "re_match r (rev a, b, []) \<noteq> [] \<longleftrightarrow> (\<exists>x y. b = x @ y \<and> x \<in> lang r)" for a b
  proof -
    have "re_match r (rev a, b, []) \<noteq> [] \<longleftrightarrow> splits (lang r) (place (rev a, b, [])) \<noteq> {}"
      unfolding place_match [OF assms, symmetric] by simp
    then show ?thesis by (auto simp: splits_def place_def)
  qed
  then have "re_search r s \<noteq> None \<longleftrightarrow> (\<exists>a b. s = a @ b \<and> (\<exists>x y. b = x @ y \<and> x \<in> lang r))"
    unfolding re_search_iff by (simp only:)
  then show ?thesis unfolding ex_infix .
qed

text \<open>Products of three languages.\<close>

lemma conc_three:
  "{x @ w | x w. x \<in> A \<and> w \<in> {m @ y | m y. m \<in> B \<and> y \<in> C}} = {x @ m @ y | x m y. x \<in> A \<and> m \<in> B \<and> y \<in> C}"
  (is "?L = ?R")
proof (rule set_eqI, rule iffI)
  fix v assume "v \<in> ?L"
  then obtain x m y where "v = x @ m @ y" "x \<in> A" "m \<in> B" "y \<in> C" by blast
  then show "v \<in> ?R" by blast
next
  fix v assume "v \<in> ?R"
  then obtain x m y where v: "v = x @ m @ y" "x \<in> A" "m \<in> B" "y \<in> C" by blast
  then have "m @ y \<in> {m @ y | m y. m \<in> B \<and> y \<in> C}" by blast
  then show "v \<in> ?L" using v(1,2) by blast
qed

lemma lang_re_seq_Cons: "lang (re_seq (r # rs)) = {x @ y | x y. x \<in> lang r \<and> y \<in> lang (re_seq rs)}"
  by (cases rs) auto

lemma anchor_free_re_seq: "anchor_free (re_seq rs) = list_all anchor_free rs"
  by (induction rs rule: re_seq.induct) simp_all

lemma lang_lit_i: "lang (re_lit_i s) = {x. map char_lower x = map char_lower s}"
proof (induction s)
  case Nil
  then show ?case by (simp add: re_lit_i_def)
next
  case (Cons c s)
  have "lang (re_lit_i (c # s)) = {[d] @ y | d y. same_letter c d \<and> y \<in> lang (re_lit_i s)}"
    unfolding re_lit_i_def list.map lang_re_seq_Cons lang.simps by blast
  then show ?case unfolding Cons by (auto simp: same_letter_def)
qed

lemma anchor_free_lit_i: "anchor_free (re_lit_i s)"
  by (simp add: re_lit_i_def anchor_free_re_seq list_all_iff)

lemma repeated_class: "repeated {[c] | c. P c} = {x. list_all P x}"
proof (rule set_eqI, rule iffI)
  fix x assume "x \<in> repeated {[c] | c. P c}"
  then show "x \<in> {x. list_all P x}" by induction auto
next
  fix x assume "x \<in> {x. list_all P x}"
  then show "x \<in> repeated {[c] | c. P c}"
  proof (induction x)
    case Nil
    then show ?case by (simp add: repeated.none)
  next
    case (Cons c x)
    then show ?case using repeated.more [of "[c]" "{[c] | c. P c}" x] by simp
  qed
qed

end
