(* ===== verification/Security.thy ===== *)
theory Security
  imports Regex Config
begin

text \<open>
  Input validation for the raw debugger and GUI escape hatches: \<^verbatim>\<open>security.py\<close>. The patterns are the
  source's regular expressions; \<open>shlex_split\<close> is the standard library's POSIX splitter.
\<close>

datatype unsafe_command =
    EmptyCommand
  | ShellCharacters
  | BadCommandName string
  | GdbTooLargeOrControl
  | GdbHostEscape
  | GdbNotAllowlisted string
  | GdbMonitorOnly
  | GdbHostMutation
  | NoCommands
  | TooManyCommands nat
  | BadQuoting
  | PathOutsideRoots string
  | UnsafeArgument string
  | TooManyArguments
  | PathRefused config_error

subsection \<open>Patterns\<close>

definition dangerous_shell_char :: "char \<Rightarrow> bool" where
  "dangerous_shell_char c = (c \<in> set '';&|`$<>'')"

definition DANGEROUS_SHELL :: regex where
  "DANGEROUS_SHELL = re_alt [Chr dangerous_shell_char, re_lit ''$('', Chr (\<lambda>c. c = CHR 0x0A), Chr (\<lambda>c. c = CHR 0x0D), Chr (\<lambda>c. c = CHR 0x00)]"

definition command_first :: "char \<Rightarrow> bool" where
  "command_first c = (ascii_letter c \<or> c = CHR ''?'')"

definition command_rest :: "char \<Rightarrow> bool" where
  "command_rest c = (ascii_letter c \<or> ascii_digit c \<or> c \<in> set ''?_-'')"

definition COMMAND_NAME :: regex where
  "COMMAND_NAME = Seq (Chr command_first) (Star (Chr command_rest))"

definition GDB_COMMAND_NAME :: regex where
  "GDB_COMMAND_NAME = Seq (re_opt (Chr (\<lambda>c. c = CHR ''-''))) COMMAND_NAME"

definition re_word_i :: "string \<Rightarrow> regex" where
  "re_word_i w = Seq (re_lit_i w) WordB"

definition GDB_FORBIDDEN :: regex where
  "GDB_FORBIDDEN = Seq TextStart (re_alt
     [Chr (\<lambda>c. c = CHR ''!''), re_word_i ''shell'', re_word_i ''pipe'', re_word_i ''make'',
      re_seq [re_lit_i ''python'', re_opt (re_lit_i ''-interactive''), WordB], re_word_i ''guile'',
      re_word_i ''source'', re_word_i ''define'', re_word_i ''document'', re_word_i ''commands'',
      re_word_i ''while'', re_word_i ''if'', re_word_i ''compile'', re_word_i ''edit'',
      re_seq [re_lit_i ''set'', re_plus (Chr py_isspace), re_word_i ''environment''],
      re_seq [re_lit_i ''unset'', re_plus (Chr py_isspace), re_word_i ''environment'']])"

definition GDB_INTERPRETER_ESCAPE :: regex where
  "GDB_INTERPRETER_ESCAPE = re_seq
     [TextStart, re_lit_i ''-interpreter-exec'', re_plus (Chr py_isspace), re_alt [re_lit_i ''console'', re_lit_i ''mi''],
      re_plus (Chr py_isspace), Star re_any,
      re_alt [re_lit_i ''shell'', re_lit_i ''python'', re_lit_i ''guile'', re_lit_i ''source'', re_lit_i ''pipe'', re_lit ''!'']]"

definition GDB_EXAMINE :: regex where
  "GDB_EXAMINE = re_seq [re_lit ''x/'', Star (Chr ascii_digit), re_plus (Chr ascii_letter)]"

definition GDB_MONITOR :: regex where
  "GDB_MONITOR = re_seq
     [re_lit_i ''-interpreter-exec'', re_plus (Chr py_isspace), re_lit_i ''console'', re_plus (Chr py_isspace),
      re_lit_i ''\"monitor'',
      re_opt (Seq (re_plus (Chr py_isspace)) (Star (Chr (\<lambda>c. c \<notin> {CHR 0x22, CHR 0x0D, CHR 0x0A})))), re_lit ''\"'']"

definition GDB_HOST_MUTATION :: regex where
  "GDB_HOST_MUTATION = re_seq
     [TextStart, re_lit_i ''set'', re_plus (Chr py_isspace),
      re_alt [re_lit_i ''environment'', re_lit_i ''exec-wrapper'', re_lit_i ''auto-load'', re_lit_i ''sysroot'',
        re_lit_i ''solib-search-path''], WordB]"

definition GDB_ALLOWED_MI :: "string list" where
  "GDB_ALLOWED_MI = [''-break-'', ''-data-'', ''-exec-'', ''-stack-'', ''-thread-'', ''-var-'', ''-symbol-'', ''-list-'',
     ''-gdb-show'', ''-gdb-set'']"

definition GDB_ALLOWED_CLI :: "string list" where
  "GDB_ALLOWED_CLI = [''advance'', ''backtrace'', ''bt'', ''break'', ''clear'', ''continue'', ''delete'', ''disable'',
     ''disassemble'', ''display'', ''down'', ''enable'', ''finish'', ''frame'', ''info'', ''interrupt'', ''jump'', ''next'',
     ''nexti'', ''print'', ''ptype'', ''return'', ''run'', ''set'', ''step'', ''stepi'', ''tbreak'', ''thread'', ''undisplay'',
     ''until'', ''up'', ''watch'', ''rwatch'', ''awatch'', ''where'', ''x'', ''monitor'']"

subsection \<open>Command validation\<close>

text \<open>\<^verbatim>\<open>command.split(maxsplit=1)[0]\<close> of a stripped non-empty command.\<close>

definition first_word :: "string \<Rightarrow> string" where
  "first_word s = takeWhile (\<lambda>c. \<not> py_isspace c) s"

definition validate_raw_command :: "string \<Rightarrow> unsafe_command + string" where
  "validate_raw_command raw =
     (let command = str_strip raw in
      if command = [] then Inl EmptyCommand
      else if re_search DANGEROUS_SHELL command \<noteq> None then Inl ShellCharacters
      else if re_fullmatch COMMAND_NAME (first_word command) = None then Inl (BadCommandName (first_word command))
      else Inr command)"

definition validate_gdb_command :: "string \<Rightarrow> unsafe_command + string" where
  "validate_gdb_command raw =
     (let command = str_strip raw in
      if command = [] then Inl EmptyCommand
      else if 8192 < length command \<or> list_ex (\<lambda>c. c \<in> set command) [CHR 0x0A, CHR 0x0D, CHR 0x00]
      then Inl GdbTooLargeOrControl
      else if re_search GDB_FORBIDDEN command \<noteq> None \<or> re_search GDB_INTERPRETER_ESCAPE command \<noteq> None
      then Inl GdbHostEscape
      else (let first = first_word command;
                name = (if re_fullmatch GDB_EXAMINE first \<noteq> None then ''x'' else first) in
        if re_fullmatch GDB_COMMAND_NAME name = None then Inl (BadCommandName first)
        else
          rbind (if name = ''-interpreter-exec'' then
                   (if re_fullmatch GDB_MONITOR command = None then Inl GdbMonitorOnly else Inr ())
                 else if str_startswith name ''-'' then
                   (if \<not> list_ex (str_startswith name) GDB_ALLOWED_MI then Inl (GdbNotAllowlisted first) else Inr ())
                 else if map char_lower name \<notin> set GDB_ALLOWED_CLI then Inl (GdbNotAllowlisted first)
                 else Inr ()) (\<lambda>_.
          if re_prefix GDB_HOST_MUTATION command \<noteq> None then Inl GdbHostMutation else Inr command)))"

subsection \<open>Embedded paths\<close>

datatype shlex_state = Between | InWord | Quoted char | Escaped "char option"

text \<open>\<^verbatim>\<open>shlex.split(s, posix=True)\<close>: blank, tab, carriage return and newline separate words; a backslash escapes
  outside single quotes, inside double quotes only the quote and itself; \<open>None\<close> is the \<^verbatim>\<open>ValueError\<close>.\<close>

definition shlex_space :: "char \<Rightarrow> bool" where
  "shlex_space c = (code c \<in> {32, 9, 13, 10})"

definition add_word :: "string \<Rightarrow> string list option \<Rightarrow> string list option" where
  "add_word w rest = map_option (\<lambda>ws. w # ws) rest"

fun shlex :: "shlex_state \<Rightarrow> string \<Rightarrow> string \<Rightarrow> string list option" where
  "shlex Between w [] = Some []"
| "shlex InWord w [] = Some [w]"
| "shlex (Quoted q) w [] = None"
| "shlex (Escaped q) w [] = None"
| "shlex Between w (c # s) =
     (if shlex_space c then shlex Between [] s
      else if code c = 92 then shlex (Escaped None) [] s
      else if code c = 34 \<or> code c = 39 then shlex (Quoted c) [] s
      else shlex InWord [c] s)"
| "shlex InWord w (c # s) =
     (if shlex_space c then add_word w (shlex Between [] s)
      else if code c = 92 then shlex (Escaped None) w s
      else if code c = 34 \<or> code c = 39 then shlex (Quoted c) w s
      else shlex InWord (w @ [c]) s)"
| "shlex (Quoted q) w (c # s) =
     (if c = q then shlex InWord w s
      else if code c = 92 \<and> code q = 34 then shlex (Escaped (Some q)) w s
      else shlex (Quoted q) (w @ [c]) s)"
| "shlex (Escaped None) w (c # s) = shlex InWord (w @ [c]) s"
| "shlex (Escaped (Some q)) w (c # s) =
     shlex (Quoted q) (if code c \<noteq> 92 \<and> c \<noteq> q then w @ [CHR 0x5C, c] else w @ [c]) s"

definition shlex_split :: "string \<Rightarrow> string list option" where
  "shlex_split s = shlex Between [] s"

definition after_equals :: "string \<Rightarrow> string" where
  "after_equals s = (if CHR ''='' \<in> set s then tl (dropWhile (\<lambda>c. c \<noteq> CHR ''='') s) else s)"

definition strip_commas :: "string \<Rightarrow> string" where
  "strip_commas s = rev (dropWhile (\<lambda>c. c = CHR '','') (rev s))"

definition path_operand :: "string \<Rightarrow> string option" where
  "path_operand token =
     (let candidate = after_equals (strip_commas token) in
      if list_ex (str_startswith candidate) [''/'', ''./'', ''../''] then Some candidate else None)"

definition confine :: "settings \<Rightarrow> file_system \<Rightarrow> string \<Rightarrow> config_error + string list" where
  "confine s fs raw = resolve_allowed_path s fs raw (fs_exists fs (parse_path raw))"

fun confine_tokens :: "settings \<Rightarrow> file_system \<Rightarrow> string list \<Rightarrow> unsafe_command + unit" where
  "confine_tokens s fs [] = Inr ()"
| "confine_tokens s fs (token # rest) =
     (case path_operand token of
        None \<Rightarrow> confine_tokens s fs rest
      | Some candidate \<Rightarrow>
          (case confine s fs candidate of
             Inl _ \<Rightarrow> Inl (PathOutsideRoots candidate)
           | Inr _ \<Rightarrow> confine_tokens s fs rest))"

definition validate_embedded_paths :: "settings \<Rightarrow> file_system \<Rightarrow> string \<Rightarrow> unsafe_command + unit" where
  "validate_embedded_paths s fs command =
     (case shlex_split command of
        None \<Rightarrow> Inl BadQuoting
      | Some tokens \<Rightarrow> confine_tokens s fs (drop 1 tokens))"

definition validate_raw_commands ::
    "(settings \<times> file_system) option \<Rightarrow> nat \<Rightarrow> string list \<Rightarrow> unsafe_command + string list" where
  "validate_raw_commands confinement limit commands =
     rbind (traverse validate_raw_command commands) (\<lambda>validated.
     if validated = [] then Inl NoCommands
     else if limit < length validated then Inl (TooManyCommands limit)
     else case confinement of
         None \<Rightarrow> Inr validated
       | Some (s, fs) \<Rightarrow> rbind (traverse (validate_embedded_paths s fs) validated) (\<lambda>_. Inr validated))"

definition argument_operand :: "string \<Rightarrow> string option" where
  "argument_operand arg =
     (let candidate = after_equals arg in
      if list_ex (str_startswith candidate) [''/'', ''.''] then Some candidate else None)"

definition validate_application_arg :: "settings \<Rightarrow> file_system \<Rightarrow> string \<Rightarrow> unsafe_command + string" where
  "validate_application_arg s fs arg =
     (if re_search DANGEROUS_SHELL arg \<noteq> None \<or> CHR 0x00 \<in> set arg then Inl (UnsafeArgument arg)
      else case argument_operand arg of
          None \<Rightarrow> Inr arg
        | Some candidate \<Rightarrow> rbind (rcatch (confine s fs candidate) PathRefused) (\<lambda>_. Inr arg))"

definition validate_application_args :: "settings \<Rightarrow> file_system \<Rightarrow> string list \<Rightarrow> unsafe_command + string list" where
  "validate_application_args s fs args =
     rbind (traverse (validate_application_arg s fs) args) (\<lambda>result.
     if 256 < length result then Inl TooManyArguments else Inr result)"

subsection \<open>What the patterns accept\<close>

definition shell_free :: "string \<Rightarrow> bool" where
  "shell_free s = list_all (\<lambda>c. \<not> dangerous_shell_char c \<and> c \<notin> {CHR 0x0A, CHR 0x0D, CHR 0x00}) s"

definition command_name_shape :: "string \<Rightarrow> bool" where
  "command_name_shape s = (case s of [] \<Rightarrow> False | c # cs \<Rightarrow> command_first c \<and> list_all command_rest cs)"

lemma dangerous_search_from:
  "re_search_from DANGEROUS_SHELL pre s = None \<longleftrightarrow> shell_free s"
proof (induction s arbitrary: pre)
  case Nil
  have "re_match (re_lit ''$('') (pre, [], []) = []" by (simp add: re_match_lit)
  then show ?case by (simp add: DANGEROUS_SHELL_def shell_free_def)
next
  case (Cons c s)
  have l: "re_match (re_lit ''$('') (pre, c # s, []) \<noteq> [] \<Longrightarrow> c = CHR ''$''"
    by (auto simp: re_match_lit split: if_splits)
  have d: "dangerous_shell_char (CHR ''$'')" by (simp add: dangerous_shell_char_def)
  show ?case
  proof (cases "shell_free [c]")
    case True
    then have "re_match DANGEROUS_SHELL (pre, c # s, []) = []"
      using l d by (cases "re_match (re_lit ''$('') (pre, c # s, [])") (auto simp: DANGEROUS_SHELL_def shell_free_def)
    then show ?thesis using True Cons.IH by (simp add: shell_free_def)
  next
    case False
    then have "re_match DANGEROUS_SHELL (pre, c # s, []) \<noteq> []" by (auto simp: DANGEROUS_SHELL_def shell_free_def)
    then show ?thesis using False by (auto simp: shell_free_def split: list.splits)
  qed
qed

lemma dangerous_search: "re_search DANGEROUS_SHELL s = None \<longleftrightarrow> shell_free s"
  by (simp add: re_search_def dangerous_search_from)

lemma command_name_match: "re_fullmatch COMMAND_NAME s \<noteq> None \<longleftrightarrow> command_name_shape s"
  unfolding COMMAND_NAME_def fullmatch_class_star by (cases s) (auto simp: command_name_shape_def)

text \<open>The Commander validator accepts exactly the commands of a simple shape: the stripped text, not empty, free of
  shell control characters and line breaks, whose first word is a name. The pattern matching of the
  code is thereby reduced to a check of characters.\<close>

theorem raw_command_exact:
  "validate_raw_command raw = Inr c \<longleftrightarrow>
     c = str_strip raw \<and> c \<noteq> [] \<and> shell_free c \<and> command_name_shape (first_word c)"
  using command_name_match [of "first_word (str_strip raw)"] dangerous_search [of "str_strip raw"]
  by (auto simp: validate_raw_command_def Let_def)

subsection \<open>GDB commands\<close>

lemma re_fullmatch_Seq_lit:
  "re_fullmatch (Seq (re_lit l) r) s \<noteq> None \<Longrightarrow> str_startswith s l"
  by (auto simp: re_fullmatch_def re_match_lit str_startswith_def split: if_splits)

lemma gdb_examine_prefix: "re_fullmatch GDB_EXAMINE s \<noteq> None \<Longrightarrow> str_startswith s ''x/''"
proof -
  have "GDB_EXAMINE = Seq (re_lit ''x/'') (re_seq [Star (Chr ascii_digit), re_plus (Chr ascii_letter)])"
    by (simp add: GDB_EXAMINE_def)
  then show "re_fullmatch GDB_EXAMINE s \<noteq> None \<Longrightarrow> str_startswith s ''x/''"
    using re_fullmatch_Seq_lit [of "''x/''"] by metis
qed

definition GDB_HOST_COMMANDS :: "string list" where
  "GDB_HOST_COMMANDS = [''shell'', ''pipe'', ''make'', ''python'', ''python-interactive'', ''guile'', ''source'', ''define'',
     ''document'', ''commands'', ''while'', ''if'', ''compile'', ''edit'', ''py'', ''dump'', ''restore'', ''cd'', ''file'']"

text \<open>The check that the host environment may not be changed knows only the full CLI spellings.\<close>

lemma gdb_host_gaps:
  "validate_gdb_command ''set exec-wrapper sh'' = Inl GdbHostMutation
   \<and> validate_gdb_command ''-gdb-set exec-wrapper sh'' = Inr ''-gdb-set exec-wrapper sh''
   \<and> validate_gdb_command ''set environment A=1'' = Inl GdbHostEscape
   \<and> validate_gdb_command ''set env A=1'' = Inr ''set env A=1''
   \<and> validate_gdb_command ''print $_shell(cmd)'' = Inr ''print $_shell(cmd)''"
  by (intro conjI; code_simp)

lemma gdb_command_allowed:
  assumes "validate_gdb_command raw = Inr c"
  shows "c = str_strip raw \<and> length c \<le> 8192 \<and> set c \<inter> {CHR 0x0A, CHR 0x0D, CHR 0x00} = {}
    \<and> (map char_lower (first_word c) \<in> set GDB_ALLOWED_CLI \<or> str_startswith (first_word c) ''x/''
       \<or> list_ex (str_startswith (first_word c)) GDB_ALLOWED_MI
       \<or> first_word c = ''-interpreter-exec'' \<and> re_fullmatch GDB_MONITOR c \<noteq> None)
    \<and> map char_lower (first_word c) \<notin> set GDB_HOST_COMMANDS"
proof -
  let ?w = "first_word c"
  let ?name = "if re_fullmatch GDB_EXAMINE ?w \<noteq> None then ''x'' else ?w"
  have c: "c = str_strip raw" "length c \<le> 8192" "set c \<inter> {CHR 0x0A, CHR 0x0D, CHR 0x00} = {}"
    using assms by (auto simp: validate_gdb_command_def Let_def rbind_eq_Inr split: if_splits)
  have "?name = ''-interpreter-exec'' \<and> re_fullmatch GDB_MONITOR c \<noteq> None
      \<or> str_startswith ?name ''-'' \<and> list_ex (str_startswith ?name) GDB_ALLOWED_MI
      \<or> map char_lower ?name \<in> set GDB_ALLOWED_CLI"
    using assms c(1) unfolding validate_gdb_command_def Let_def result_simps by (auto split: if_splits)
  then consider "str_startswith ?w ''x/''" | "re_fullmatch GDB_EXAMINE ?w = None" "?w = ''-interpreter-exec'' \<and> re_fullmatch GDB_MONITOR c \<noteq> None"
    | "re_fullmatch GDB_EXAMINE ?w = None" "list_ex (str_startswith ?w) GDB_ALLOWED_MI" | "map char_lower ?w \<in> set GDB_ALLOWED_CLI"
    using gdb_examine_prefix [of ?w] by (cases "re_fullmatch GDB_EXAMINE ?w = None") auto
  then have ok: "map char_lower ?w \<in> set GDB_ALLOWED_CLI \<or> str_startswith ?w ''x/'' \<or> list_ex (str_startswith ?w) GDB_ALLOWED_MI
       \<or> ?w = ''-interpreter-exec'' \<and> re_fullmatch GDB_MONITOR c \<noteq> None"
    by cases blast+
  have lower: "str_startswith (map char_lower s) (map char_lower p)" if "str_startswith s p" for s p
    using that by (metis str_startswith_def length_map take_map)
  have "map char_lower ?w \<notin> set GDB_HOST_COMMANDS"
  proof
    assume h: "map char_lower ?w \<in> set GDB_HOST_COMMANDS"
    have "list_all (\<lambda>h. \<not> str_startswith h ''x/'' \<and> \<not> str_startswith h ''-'' \<and> h \<notin> set GDB_ALLOWED_CLI) GDB_HOST_COMMANDS"
      by code_simp
    then have n: "\<not> str_startswith (map char_lower ?w) ''x/''" "\<not> str_startswith (map char_lower ?w) ''-''"
      "map char_lower ?w \<notin> set GDB_ALLOWED_CLI"
      using h by (auto simp: list_all_iff)
    moreover have "map char_lower ''x/'' = ''x/''" "map char_lower ''-'' = ''-''" by code_simp+
    ultimately have n': "\<not> str_startswith ?w ''x/''" "\<not> str_startswith ?w ''-''" using lower by metis+
    have "list_all (\<lambda>p. take 1 p = ''-'') (''-interpreter-exec'' # GDB_ALLOWED_MI)" by code_simp
    moreover have "take 1 p = ''-'' \<Longrightarrow> str_startswith ?w p \<Longrightarrow> str_startswith ?w ''-''" for p
      by (cases p; cases ?w) (auto simp: str_startswith_def)
    ultimately have no: "p \<in> set (''-interpreter-exec'' # GDB_ALLOWED_MI) \<Longrightarrow> \<not> str_startswith ?w p" for p
      using n'(2) unfolding list_all_iff by blast
    have "str_startswith ?w ?w" by (simp add: str_startswith_def)
    then have "\<not> list_ex (str_startswith ?w) GDB_ALLOWED_MI" "?w \<noteq> ''-interpreter-exec''"
      using no [of ?w] no by (force simp: list_ex_iff)+
    then show False using ok n(3) n'(1) by blast
  qed
  then show ?thesis using c ok by blast
qed

text \<open>C23: An accepted GDB command is one line of at most 8192 characters whose first word, in any case, is an allowed
  CLI command, an examine command \<open>x/\<close>, an allowed MI prefix or the remote-monitor form of
  \<open>-interpreter-exec\<close>; in particular it is none of GDB's host-code commands. The separate check on
  the host environment knows only full CLI spellings: it refuses \<open>set exec-wrapper\<close> but not the MI command for the same
  variable, GDB's own abbreviation, or an expression that calls the function running a host shell.\<close>

theorem gdb_command_sound:
  assumes "validate_gdb_command raw = Inr c"
  shows "c = str_strip raw \<and> length c \<le> 8192 \<and> set c \<inter> {CHR 0x0A, CHR 0x0D, CHR 0x00} = {}
    \<and> (map char_lower (first_word c) \<in> set GDB_ALLOWED_CLI \<or> str_startswith (first_word c) ''x/''
       \<or> list_ex (str_startswith (first_word c)) GDB_ALLOWED_MI
       \<or> first_word c = ''-interpreter-exec'' \<and> re_fullmatch GDB_MONITOR c \<noteq> None)
    \<and> map char_lower (first_word c) \<notin> set GDB_HOST_COMMANDS
    \<and> validate_gdb_command ''set exec-wrapper sh'' = Inl GdbHostMutation
    \<and> validate_gdb_command ''-gdb-set exec-wrapper sh'' = Inr ''-gdb-set exec-wrapper sh''
    \<and> validate_gdb_command ''set env A=1'' = Inr ''set env A=1''
    \<and> validate_gdb_command ''print $_shell(cmd)'' = Inr ''print $_shell(cmd)''"
  using gdb_command_allowed [OF assms] gdb_host_gaps by blast

theorem gdb_command_sound_witness:
  "length ''info registers'' \<le> 8192 \<and> map char_lower (first_word ''info registers'') \<notin> set GDB_HOST_COMMANDS"
proof -
  have "validate_gdb_command '' info registers '' = Inr ''info registers''" by code_simp
  from gdb_command_sound [OF this] show ?thesis by blast
qed

subsection \<open>Confined operands\<close>

text \<open>\<open>confined s fs cand\<close>: the operand resolves to a place under the workspace or the state root.\<close>

definition confined :: "settings \<Rightarrow> file_system \<Rightarrow> string \<Rightarrow> bool" where
  "confined s fs cand \<longleftrightarrow>
     (\<exists>p root r rest. fs_resolve fs (fs_exists fs (parse_path cand)) (join_path (set_workspace_root s) (parse_path cand)) = Inr p
        \<and> root \<in> {set_workspace_root s, set_state_root s} \<and> resolve_root fs root = Inr r \<and> p = r @ rest)"

lemma confine_Inr: "confine s fs cand = Inr p \<Longrightarrow> confined s fs cand"
  unfolding confine_def confined_def by (drule resolve_allowed_path_Inr) blast

abbreviation operand_ok :: "settings \<Rightarrow> file_system \<Rightarrow> string option \<Rightarrow> bool" where
  "operand_ok s fs operand \<equiv> (case operand of None \<Rightarrow> True | Some cand \<Rightarrow> confined s fs cand)"

lemma confine_tokens_Inr: "confine_tokens s fs tokens = Inr () \<Longrightarrow> list_all (\<lambda>t. operand_ok s fs (path_operand t)) tokens"
  by (induction tokens) (auto split: option.splits sum.splits dest: confine_Inr)

lemma validate_raw_commands_Inr:
  assumes "validate_raw_commands conf limit commands = Inr cs"
  shows "cs = map str_strip commands" "cs \<noteq> []" "length cs \<le> limit" "list_all shell_free cs"
proof -
  have t: "traverse validate_raw_command commands = Inr cs" and n: "cs \<noteq> []" "length cs \<le> limit"
    using assms unfolding validate_raw_commands_def result_simps
    by (auto simp: rbind_eq_Inr split: option.splits prod.splits)
  then have l: "list_all2 (\<lambda>raw c. validate_raw_command raw = Inr c) commands cs" by (simp add: traverse_eq_Inr)
  have one: "validate_raw_command raw = Inr c \<Longrightarrow> c = str_strip raw \<and> shell_free c" for raw c
    using dangerous_search [of "str_strip raw"] by (auto simp: validate_raw_command_def Let_def split: if_splits)
  show "cs = map str_strip commands" "list_all shell_free cs"
    using l by (induction rule: list_all2_induct) (auto dest: one)
  show "cs \<noteq> []" "length cs \<le> limit" by (fact n)+
qed

text \<open>C24: Batch commands are confined. An accepted batch is the stripped commands, between one and \<open>limit\<close> of them, free of shell
  control characters, and every operand of theirs that starts like an absolute or dotted path resolves
  under the workspace or the state root. A relative operand that does not start with a dot is not looked
  at: it passes whatever the file system says of it.\<close>

theorem raw_commands_confined:
  assumes "validate_raw_commands (Some (s, fs)) limit commands = Inr cs"
  shows "cs = map str_strip commands \<and> cs \<noteq> [] \<and> length cs \<le> limit \<and> list_all shell_free cs
    \<and> list_all (\<lambda>c. \<exists>tokens. shlex_split c = Some tokens
         \<and> list_all (\<lambda>t. case path_operand t of None \<Rightarrow> True | Some cand \<Rightarrow> confined s fs cand) (drop 1 tokens)) cs
    \<and> validate_embedded_paths s fs ''loadfile a/../../etc/shadow'' = Inr ()"
proof -
  note b = validate_raw_commands_Inr [OF assms]
  obtain us where "traverse (validate_embedded_paths s fs) cs = Inr us"
    using assms unfolding validate_raw_commands_def result_simps by (auto simp: rbind_eq_Inr split: option.splits prod.splits)
  then have "validate_embedded_paths s fs c = Inr ()" if "c \<in> set cs" for c
    using that by (auto simp: traverse_eq_Inr list_all2_conv_all_nth in_set_conv_nth)
  then have "\<exists>tokens. shlex_split c = Some tokens \<and> list_all (\<lambda>t. operand_ok s fs (path_operand t)) (drop 1 tokens)"
    if "c \<in> set cs" for c
    using that confine_tokens_Inr by (fastforce simp: validate_embedded_paths_def split: option.splits)
  moreover have "shlex_split ''loadfile a/../../etc/shadow'' = Some [''loadfile'', ''a/../../etc/shadow'']"
    "path_operand ''a/../../etc/shadow'' = None" by code_simp+
  ultimately show ?thesis using b by (simp add: list_all_iff validate_embedded_paths_def)
qed

definition sample_settings :: settings where
  "sample_settings = (default_settings (parse_path ''/work'') (parse_path ''/opt/segger'') [])
     \<lparr> set_state_root := parse_path ''/state'' \<rparr>"

definition sample_fs :: file_system where
  "sample_fs = \<lparr> fs_resolve = (\<lambda>strict p. Inr (path_parts p)), fs_exists = (\<lambda>p. True), fs_is_file = (\<lambda>p. True),
     fs_executable = (\<lambda>p. True) \<rparr>"

lemma sample_confine:
  "confine sample_settings sample_fs ''/work/fw.bin'' = Inr [''work'', ''fw.bin'']"
  "confine sample_settings sample_fs ''/state/a.jdebug'' = Inr [''state'', ''a.jdebug'']"
proof -
  have p: "parse_path ''/work'' = \<lparr> path_absolute = True, path_parts = [''work''] \<rparr>"
    "parse_path ''/state'' = \<lparr> path_absolute = True, path_parts = [''state''] \<rparr>"
    "parse_path ''/work/fw.bin'' = \<lparr> path_absolute = True, path_parts = [''work'', ''fw.bin''] \<rparr>"
    "parse_path ''/state/a.jdebug'' = \<lparr> path_absolute = True, path_parts = [''state'', ''a.jdebug''] \<rparr>"
    by (simp_all add: parse_path_def str_startswith_def)
  show "confine sample_settings sample_fs ''/work/fw.bin'' = Inr [''work'', ''fw.bin'']"
    "confine sample_settings sample_fs ''/state/a.jdebug'' = Inr [''state'', ''a.jdebug'']"
    by (simp_all add: confine_def resolve_allowed_path_def resolve_root_def sample_settings_def default_settings_def sample_fs_def p join_path_def
        below_def within_def)
qed

theorem raw_commands_confined_witness:
  "confined sample_settings sample_fs ''/work/fw.bin'' \<and>
   validate_embedded_paths sample_settings sample_fs ''loadfile a/../../etc/shadow'' = Inr ()"
proof -
  have v: "validate_raw_command ''loadbin /work/fw.bin, 0x0 '' = Inr ''loadbin /work/fw.bin, 0x0''" by code_simp
  have t: "shlex_split ''loadbin /work/fw.bin, 0x0'' = Some [''loadbin'', ''/work/fw.bin,'', ''0x0'']"
    "path_operand ''/work/fw.bin,'' = Some ''/work/fw.bin''" "path_operand ''0x0'' = None" by code_simp+
  have "validate_raw_commands (Some (sample_settings, sample_fs)) 256 [''loadbin /work/fw.bin, 0x0 ''] = Inr [''loadbin /work/fw.bin, 0x0'']"
    by (simp add: validate_raw_commands_def v validate_embedded_paths_def t sample_confine)
  from raw_commands_confined [OF this] show ?thesis by (simp add: t)
qed

text \<open>Application arguments are confined: the accepted list is the given one, at most 256 arguments without shell
  control characters, and an argument, or the part after its first equals sign, that starts with a slash
  or a dot resolves under the workspace or the state root.\<close>

theorem application_args_confined:
  assumes "validate_application_args s fs args = Inr result"
  shows "result = args \<and> length args \<le> 256 \<and> list_all shell_free args
    \<and> list_all (\<lambda>arg. case argument_operand arg of None \<Rightarrow> True | Some cand \<Rightarrow> confined s fs cand) args"
proof -
  have t: "list_all2 (\<lambda>arg r. validate_application_arg s fs arg = Inr r) args result" and n: "length result \<le> 256"
    using assms by (auto simp: validate_application_args_def traverse_eq_Inr rbind_eq_Inr split: if_splits)
  have one: "validate_application_arg s fs arg = Inr r \<Longrightarrow> r = arg \<and> shell_free arg \<and> operand_ok s fs (argument_operand arg)" for arg r
    using dangerous_search [of arg]
    by (auto simp: validate_application_arg_def rbind_eq_Inr rcatch_eq_Inr split: if_splits option.splits dest: confine_Inr)
  have "result = args \<and> list_all shell_free args \<and> list_all (\<lambda>arg. operand_ok s fs (argument_operand arg)) args"
    using t by (induction rule: list_all2_induct) (auto dest: one)
  then show ?thesis using n by auto
qed

theorem application_args_confined_witness:
  "confined sample_settings sample_fs ''/state/a.jdebug''"
proof -
  have o: "argument_operand ''-open=/state/a.jdebug'' = Some ''/state/a.jdebug''" by code_simp
  have d: "re_search DANGEROUS_SHELL ''-open=/state/a.jdebug'' = None" by code_simp
  have "validate_application_args sample_settings sample_fs [''-open=/state/a.jdebug''] = Inr [''-open=/state/a.jdebug'']"
    by (simp add: validate_application_args_def validate_application_arg_def d o sample_confine)
  from application_args_confined [OF this] show ?thesis by (simp add: o)
qed

end
