(* ===== verification/Serial.thy ===== *)
theory Serial
  imports Json
begin

text \<open>
  The USB serial backend: \<^verbatim>\<open>backends/serial.py\<close>. Times are milliseconds of the monotonic clock. The port is
  what it does to the reading loop: a list of polls, each with the clock at the loop condition, the
  bytes waiting, the bytes that arrive while the read waits, and the clock after it; or the exception
  opening it raises. SHA-256, UTF-8 decoding with replacement and JSON parsing are arguments. The
  shielding of the worker thread against cancellation is not modelled.
\<close>

definition MAX_BINARY_RESPONSE_BYTES :: nat where "MAX_BINARY_RESPONSE_BYTES = 128 * 1024"

datatype serial_request_error = BadBaudrate | BadDuration | BadIdle | BadSerialRequest

record serial_poll =
  poll_clock :: int
  poll_waiting :: nat
  poll_arrives :: bytes
  poll_after :: int

datatype serial_raised =
    ResponseLimitExceeded nat nat          \<comment> \<open>observed, limit\<close>
  | SerialFailed string string             \<comment> \<open>exception type, message\<close>

subsection \<open>The reading loops\<close>

text \<open>\<^verbatim>\<open>stream.read(n)\<close> returns at most \<open>n\<close> of the bytes that arrive. \<open>None\<close>: the polls ran out with the
  loop still running.\<close>

fun binary_loop ::
    "int \<Rightarrow> int \<Rightarrow> int option \<Rightarrow> bytes list \<Rightarrow> nat \<Rightarrow> serial_poll list \<Rightarrow> (serial_raised + bytes) option" where
  "binary_loop deadline idle last_data chunks response_bytes [] = None"
| "binary_loop deadline idle last_data chunks response_bytes (p # ps) =
     (if \<not> poll_clock p < deadline then Some (Inr (concat chunks))
      else (let remaining = MAX_BINARY_RESPONSE_BYTES - response_bytes;
                chunk = take (min (max 1 (poll_waiting p)) (remaining + 1)) (poll_arrives p) in
        if chunk \<noteq> [] then
          (let observed = response_bytes + length chunk in
           if observed > MAX_BINARY_RESPONSE_BYTES
           then Some (Inl (ResponseLimitExceeded observed MAX_BINARY_RESPONSE_BYTES))
           else binary_loop deadline idle (Some (poll_after p)) (chunks @ [chunk]) observed ps)
        else if (case last_data of None \<Rightarrow> False | Some t \<Rightarrow> poll_after p - t \<ge> idle)
        then Some (Inr (concat chunks))
        else binary_loop deadline idle last_data chunks response_bytes ps))"

definition exchange_binary_sync ::
    "int \<Rightarrow> int \<Rightarrow> int \<Rightarrow> (serial_raised + serial_poll list) \<Rightarrow> (serial_raised + bytes) option" where
  "exchange_binary_sync now duration idle port =
     (case port of
        Inl e \<Rightarrow> Some (Inl e)
      | Inr polls \<Rightarrow> binary_loop (now + duration) idle None [] 0 polls)"

definition contains :: "'a list \<Rightarrow> 'a list \<Rightarrow> bool" where
  "contains xs needle = list_ex (\<lambda>i. take (length needle) (drop i xs) = needle) [0..<Suc (length xs)]"

fun text_loop :: "int \<Rightarrow> bytes option \<Rightarrow> bytes list \<Rightarrow> serial_poll list \<Rightarrow> bytes option" where
  "text_loop deadline until chunks [] = None"
| "text_loop deadline until chunks (p # ps) =
     (if \<not> poll_clock p < deadline then Some (concat chunks)
      else (let chunk = take (max 1 (poll_waiting p)) (poll_arrives p) in
        if chunk = [] then text_loop deadline until chunks ps
        else (let chunks = chunks @ [chunk] in
          if (case until of None \<Rightarrow> False | Some u \<Rightarrow> u \<noteq> [] \<and> contains (concat chunks) u) then Some (concat chunks)
          else text_loop deadline until chunks ps)))"

definition written_line :: "string \<Rightarrow> bytes" where
  "written_line write = (let payload = utf8 write in
     if payload = [] \<or> last payload \<noteq> 10 then payload @ [10] else payload)"

subsection \<open>Exchanges\<close>

record stamp =
  stamp_operation_id :: string
  stamp_started :: nat
  stamp_finished :: nat

text \<open>The fields of a result that its backend leaves at their defaults.\<close>

definition make_result ::
    "stamp \<Rightarrow> string \<Rightarrow> string list \<Rightarrow> int \<Rightarrow> string \<Rightarrow> string \<Rightarrow> json_object \<Rightarrow> command_result" where
  "make_result st backend command rc out err parsed =
     \<lparr> res_operation_id = stamp_operation_id st, res_session_id = None, res_backend = backend, res_command = command,
       res_started_at = stamp_started st, res_finished_at = stamp_finished st,
       res_duration_ms = int (stamp_finished st) - int (stamp_started st), res_return_code = Some rc, res_timed_out = False,
       res_stdout = out, res_stderr = err, res_parsed = parsed, res_warnings = [],
       res_target_state_before = StateUnknown, res_target_state_after = StateUnknown, res_artifact_hashes = [],
       res_evidence_paths = [], res_probe_identity = [], res_target_identity = [] \<rparr>"

definition baudrate_ok :: "int \<Rightarrow> bool" where "baudrate_ok b = (50 \<le> b \<and> b \<le> 4000000)"
definition duration_ok :: "int \<Rightarrow> bool" where "duration_ok d = (50 \<le> d \<and> d \<le> 300000)"

definition check_binary :: "bytes \<Rightarrow> int \<Rightarrow> int \<Rightarrow> int \<Rightarrow> serial_request_error + unit" where
  "check_binary write baudrate duration idle =
     (if \<not> baudrate_ok baudrate then Inl BadBaudrate
      else if \<not> duration_ok duration then Inl BadDuration
      else if \<not> (10 \<le> idle \<and> idle \<le> 1000) then Inl BadIdle
      else if write = [] \<or> length write > 128 * 1024 then Inl BadSerialRequest
      else Inr ())"

definition limit_message :: "nat \<Rightarrow> string" where
  "limit_message limit = ''binary serial response exceeded the '' @ show_nat limit @ ''-byte limit''"

definition exchange_binary ::
    "(bytes \<Rightarrow> string) \<Rightarrow> stamp \<Rightarrow> string \<Rightarrow> bytes \<Rightarrow> int \<Rightarrow> int \<Rightarrow> int \<Rightarrow> serial_raised + bytes
     \<Rightarrow> serial_request_error + command_result \<times> bytes" where
  "exchange_binary sha256 st port write baudrate duration idle answer =
     rbind (check_binary write baudrate duration idle) (\<lambda>_.
     let raw = (case answer of Inr r \<Rightarrow> r | Inl _ \<Rightarrow> []);
         rc = (case answer of Inr r \<Rightarrow> 0 | Inl _ \<Rightarrow> 1);
         err = (case answer of
             Inr r \<Rightarrow> []
           | Inl (ResponseLimitExceeded observed limit) \<Rightarrow> ''SerialResponseLimitExceeded: '' @ limit_message limit
           | Inl (SerialFailed type message) \<Rightarrow> type @ '': binary serial exchange failed'');
         metadata = (case answer of
             Inl (ResponseLimitExceeded observed limit) \<Rightarrow>
               [(''response_bytes'', JInt 0), (''response_overflow'', JBool True),
                (''response_observed_bytes'', JInt (int observed)), (''response_limit_bytes'', JInt (int limit))]
           | _ \<Rightarrow> [(''response_bytes'', JInt (int (length raw))), (''response_sha256'', JStr (sha256 raw))])
     in Inr (make_result st ''usb-serial'' [''serial-binary'', port, show_int baudrate, ''sha256:'' @ sha256 write] rc [] err
          ([(''port'', JStr port), (''baudrate'', JInt baudrate), (''request_bytes'', JInt (int (length write))),
            (''request_sha256'', JStr (sha256 write))] @ metadata), raw))"

text \<open>\<^verbatim>\<open>str.splitlines\<close>.\<close>

definition line_break :: "char \<Rightarrow> bool" where
  "line_break c = (code c \<in> {10, 11, 12, 13, 28, 29, 30, 133})"

fun splitlines :: "string \<Rightarrow> string \<Rightarrow> string list" where
  "splitlines acc [] = (if acc = [] then [] else [acc])"
| "splitlines acc (c # s) =
     (if code c = 13 \<and> s \<noteq> [] \<and> code (hd s) = 10 then acc # splitlines [] (tl s)
      else if line_break c then acc # splitlines [] s
      else splitlines (acc @ [c]) s)"

definition text_record :: "(string \<Rightarrow> json option) \<Rightarrow> string \<Rightarrow> json" where
  "text_record loads line = (case loads line of None \<Rightarrow> JObj [(''text'', JStr line)] | Some v \<Rightarrow> v)"

definition check_text :: "string option \<Rightarrow> int \<Rightarrow> int \<Rightarrow> serial_request_error + unit" where
  "check_text write baudrate duration =
     (if \<not> baudrate_ok baudrate then Inl BadBaudrate
      else if \<not> duration_ok duration then Inl BadDuration
      else if (case write of None \<Rightarrow> False | Some w \<Rightarrow> CHR 0x00 \<in> set w \<or> length w > 4096) then Inl BadSerialRequest
      else Inr ())"

definition exchange ::
    "(bytes \<Rightarrow> string) \<Rightarrow> (string \<Rightarrow> json option) \<Rightarrow> stamp \<Rightarrow> string \<Rightarrow> string option \<Rightarrow> int \<Rightarrow> int \<Rightarrow> serial_raised + bytes
     \<Rightarrow> serial_request_error + command_result" where
  "exchange decode_replace loads st port write baudrate duration answer =
     rbind (check_text write baudrate duration) (\<lambda>_.
     let text = decode_replace (case answer of Inr r \<Rightarrow> r | Inl _ \<Rightarrow> []) in
     Inr (make_result st ''usb-serial''
       [''serial'', port, show_int baudrate, (case write of None \<Rightarrow> [] | Some w \<Rightarrow> w)]
       (case answer of Inr _ \<Rightarrow> 0 | Inl _ \<Rightarrow> 1) text
       (case answer of Inl (SerialFailed type message) \<Rightarrow> message | _ \<Rightarrow> [])
       [(''port'', JStr port), (''baudrate'', JInt baudrate), (''records'', JList (map (text_record loads) (splitlines [] text)))]))"

subsection \<open>The bounded loop\<close>

text \<open>One turn of the loop, with the chunk named.\<close>

definition poll_chunk :: "nat \<Rightarrow> serial_poll \<Rightarrow> bytes" where
  "poll_chunk n p = take (min (max 1 (poll_waiting p)) (MAX_BINARY_RESPONSE_BYTES - n + 1)) (poll_arrives p)"

lemma binary_loop_step:
  "binary_loop deadline idle last_data chunks n (p # ps) =
     (if \<not> poll_clock p < deadline then Some (Inr (concat chunks))
      else if poll_chunk n p \<noteq> [] then
        (if n + length (poll_chunk n p) > MAX_BINARY_RESPONSE_BYTES
         then Some (Inl (ResponseLimitExceeded (n + length (poll_chunk n p)) MAX_BINARY_RESPONSE_BYTES))
         else binary_loop deadline idle (Some (poll_after p)) (chunks @ [poll_chunk n p]) (n + length (poll_chunk n p)) ps)
      else if (case last_data of None \<Rightarrow> False | Some t \<Rightarrow> poll_after p - t \<ge> idle) then Some (Inr (concat chunks))
      else binary_loop deadline idle last_data chunks n ps)"
  by (simp only: binary_loop.simps Let_def poll_chunk_def)

lemma poll_chunk_bound: "length (poll_chunk n p) \<le> MAX_BINARY_RESPONSE_BYTES - n + 1"
  by (simp add: poll_chunk_def)

declare binary_loop.simps(2) [simp del]

lemma binary_loop_bounded:
  "binary_loop deadline idle last_data chunks n polls = Some res \<Longrightarrow> n = length (concat chunks) \<Longrightarrow>
   n \<le> MAX_BINARY_RESPONSE_BYTES \<Longrightarrow>
   (case res of
      Inr data \<Rightarrow> length data \<le> MAX_BINARY_RESPONSE_BYTES \<and> take n data = concat chunks
    | Inl e \<Rightarrow> e = ResponseLimitExceeded (MAX_BINARY_RESPONSE_BYTES + 1) MAX_BINARY_RESPONSE_BYTES)"
proof (induction polls arbitrary: last_data chunks n)
  case Nil
  then show ?case by simp
next
  case (Cons p ps)
  let ?chunk = "poll_chunk n p"
  consider (stop) "res = Inr (concat chunks)"
    | (over) "n + length ?chunk > MAX_BINARY_RESPONSE_BYTES"
        "res = Inl (ResponseLimitExceeded (n + length ?chunk) MAX_BINARY_RESPONSE_BYTES)"
    | (more) "n + length ?chunk \<le> MAX_BINARY_RESPONSE_BYTES"
        "binary_loop deadline idle (Some (poll_after p)) (chunks @ [?chunk]) (n + length ?chunk) ps = Some res"
    | (wait) "binary_loop deadline idle last_data chunks n ps = Some res"
  proof -
    define quiet where "quiet = (case last_data of None \<Rightarrow> False | Some t \<Rightarrow> poll_after p - t \<ge> idle)"
    note run = Cons.prems(1) [unfolded binary_loop_step quiet_def [symmetric]]
    show ?thesis
    proof (cases "poll_clock p < deadline \<and> ?chunk \<noteq> []")
      case True
      then show ?thesis using run that(2,3) by (cases "n + length ?chunk > MAX_BINARY_RESPONSE_BYTES") simp_all
    next
      case False
      then show ?thesis using run that(1,4) by (cases "poll_clock p < deadline"; cases quiet) simp_all
    qed
  qed
  then show ?case
  proof cases
    case stop
    then show ?thesis using Cons.prems(2,3) by simp
  next
    case over
    then have "n + length ?chunk = MAX_BINARY_RESPONSE_BYTES + 1" using poll_chunk_bound [of n p] Cons.prems(3) by linarith
    then show ?thesis using over(2) by simp
  next
    case more
    have "n + length ?chunk = length (concat (chunks @ [?chunk]))" using Cons.prems(2) by simp
    note ih = Cons.IH [OF more(2) this more(1)]
    show ?thesis
    proof (cases res)
      case (Inl e)
      then show ?thesis using ih by simp
    next
      case (Inr data)
      then have d: "length data \<le> MAX_BINARY_RESPONSE_BYTES" "take (n + length ?chunk) data = concat chunks @ ?chunk"
        using ih by simp_all
      have "take n data = take n (take (n + length ?chunk) data)" by simp
      also have "\<dots> = concat chunks" unfolding d(2) using Cons.prems(2) by simp
      finally show ?thesis using Inr d(1) by simp
    qed
  next
    case wait
    then show ?thesis using Cons.IH Cons.prems(2,3) by blast
  qed
qed

lemma binary_loop_returns:
  "\<exists>p\<in>set polls. deadline \<le> poll_clock p \<Longrightarrow> binary_loop deadline idle last_data chunks n polls \<noteq> None"
proof (induction polls arbitrary: last_data chunks n)
  case Nil
  then show ?case by simp
next
  case (Cons p ps)
  show ?case
  proof (cases "poll_clock p < deadline")
    case True
    then have "\<exists>p\<in>set ps. deadline \<le> poll_clock p" using Cons.prems by auto
    then show ?thesis using Cons.IH by (simp add: binary_loop_step)
  next
    case False
    then show ?thesis by (simp add: binary_loop_step)
  qed
qed

end
