(* ===== verification/Commander.thy ===== *)
theory Commander
  imports Security Profiles Serial
begin

text \<open>
  The J-Link Commander backend: \<^verbatim>\<open>backends/commander.py\<close>. The process runner is an argument that maps the
  command line to a result; writing the command file is its text. A floating-point field of the parsed
  output keeps its decimal digits.
\<close>

subsection \<open>Numbers in text\<close>

fun hex_value :: "nat \<Rightarrow> string \<Rightarrow> nat" where
  "hex_value acc [] = acc"
| "hex_value acc (c # s) =
     hex_value (16 * acc + (if ascii_digit c then code c - 48 else if code c < 97 then code c - 55 else code c - 87)) s"

definition hex_upper_digit :: "nat \<Rightarrow> char" where
  "hex_upper_digit d = (if d < 10 then char_of (48 + d) else char_of (55 + d))"

fun show_hex_digits :: "nat \<Rightarrow> string" where
  "show_hex_digits n = (if n < 16 then [hex_upper_digit n] else show_hex_digits (n div 16) @ [hex_upper_digit (n mod 16)])"

declare show_hex_digits.simps [simp del]

text \<open>\<^verbatim>\<open>f"{n:0{width}X}"\<close>.\<close>

definition show_hex :: "nat \<Rightarrow> nat \<Rightarrow> string" where
  "show_hex width n = (let s = show_hex_digits n in replicate (width - length s) (CHR ''0'') @ s)"

fun decimal_value :: "nat \<Rightarrow> string \<Rightarrow> nat" where
  "decimal_value acc [] = acc"
| "decimal_value acc (c # s) = decimal_value (10 * acc + (code c - 48)) s"

text \<open>\<^verbatim>\<open>float\<close> of a string of digits and points.\<close>

definition parse_decimal :: "string \<Rightarrow> rat option" where
  "parse_decimal s =
     (case split_on (CHR ''.'') s of
        [a] \<Rightarrow> if a \<noteq> [] \<and> list_all ascii_digit a then Some (of_nat (decimal_value 0 a)) else None
      | [a, b] \<Rightarrow>
          if a @ b \<noteq> [] \<and> list_all ascii_digit (a @ b)
          then Some (of_nat (decimal_value 0 (a @ b)) / 10 ^ length b) else None
      | _ \<Rightarrow> None)"

subsection \<open>Patterns\<close>

abbreviation digits :: regex where
  "digits \<equiv> re_plus (Chr ascii_digit)"

abbreviation any_line :: regex where
  "any_line \<equiv> re_plus re_any"

definition VTREF_RE :: regex where
  "VTREF_RE = re_seq [re_lit_i ''VTref'', re_spaces, re_lit ''='', re_spaces,
     Grp 1 (re_plus (Chr (\<lambda>c. ascii_digit c \<or> c = CHR ''.''))), re_spaces, re_lit_i ''V'']"

definition CORTEX_RE :: regex where
  "CORTEX_RE = Grp 0 (re_seq [re_lit_i ''Cortex-'', Chr (\<lambda>c. char_upper c \<in> set ''MRA''), Star (Chr (\<lambda>c. ascii_digit c \<or> c = CHR ''+''))])"

definition SERIAL_RE :: regex where
  "SERIAL_RE = re_seq [re_alt [re_lit_i ''S/N'', re_lit_i ''Serial number''], re_plus (Chr (\<lambda>c. c = CHR '':'' \<or> py_isspace c)), Grp 1 digits]"

definition FIRMWARE_RE :: regex where
  "FIRMWARE_RE = re_seq [re_lit ''Firmware:'', re_spaces, Grp 1 any_line]"

definition LICENSE_RE :: regex where
  "LICENSE_RE = re_seq [re_lit_i ''License(s):'', re_spaces, Grp 1 any_line]"

definition HARDWARE_RE :: regex where
  "HARDWARE_RE = re_seq [re_lit_i ''Hardware version:'', re_spaces, Grp 1 any_line]"

definition CPUID_RE :: regex where
  "CPUID_RE = re_seq [re_lit ''CPUID register:'', re_spaces, Grp 1 (Seq (re_lit ''0x'') (re_plus (Chr ascii_hex)))]"

definition DPIDR_RE :: regex where
  "DPIDR_RE = re_seq [re_lit ''DPIDR:'', re_spaces, Grp 1 (Seq (re_lit ''0x'') (re_plus (Chr ascii_hex)))]"

definition PC_RE :: regex where
  "PC_RE = re_seq [WordB, re_lit ''PC'', re_spaces, re_lit ''='', re_spaces, Grp 1 (re_plus (Chr ascii_hex))]"

definition MODE_RE :: regex where
  "MODE_RE = re_seq [re_lit_i ''IPSR'', re_spaces, re_lit ''='', re_spaces, digits, re_spaces, re_lit ''('',
     Grp 1 (re_plus (Chr (\<lambda>c. c \<noteq> CHR '')''))), re_lit '')'']"

definition MEMORY_RE :: regex where
  "MEMORY_RE = re_seq [LineStart, re_spaces, Grp 1 (re_repeat 8 8 (Chr ascii_hex)), re_spaces, re_lit ''='', re_spaces,
     Grp 2 (re_plus (Seq (re_repeat 2 14 (Chr ascii_hex)) re_spaces)), LineEnd]"

definition REGISTER_RE :: regex where
  "REGISTER_RE = re_seq [WordB, Grp 1 (Seq (Chr ascii_letter) (Star (Chr (\<lambda>c. ascii_letter c \<or> ascii_digit c \<or> c = CHR ''_'')))),
     re_spaces, re_lit ''='', re_spaces, Grp 2 (re_repeat 8 8 (Chr ascii_hex)),
     re_alt [Chr py_isspace, re_lit '','', LineEnd]]"

definition HANDLE_RE :: "regex \<Rightarrow> regex" where
  "HANDLE_RE name = re_seq [name, Lazy re_any, re_alt [re_lit_i ''handle'', re_lit_i ''index'', re_lit ''#''], re_spaces,
     re_opt (Chr (\<lambda>c. c = CHR '':'' \<or> c = CHR ''='')), re_spaces, Grp 1 digits]"

definition BREAKPOINT_RE :: regex where
  "BREAKPOINT_RE = HANDLE_RE (Alt (re_lit_i ''breakpoint'') (re_lit_i ''BP''))"

definition WATCHPOINT_RE :: regex where
  "WATCHPOINT_RE = HANDLE_RE (Alt (re_lit_i ''watchpoint'') (re_lit_i ''WP''))"

definition COMMANDER_VERSION_RE :: regex where
  "COMMANDER_VERSION_RE = Seq (re_lit ''J-Link Commander V'') (Grp 1 (re_plus (Chr (\<lambda>c. \<not> py_isspace c \<and> c \<noteq> CHR ''(''))))"

definition DLL_VERSION_RE :: regex where
  "DLL_VERSION_RE = Seq (re_lit ''DLL version V'') (Grp 1 (re_plus (Chr (\<lambda>c. \<not> py_isspace c \<and> c \<noteq> CHR '',''))))"

definition VERIFIED_RE :: regex where
  "VERIFIED_RE = re_alt
     [re_seq [re_lit_i ''verified'', re_plus (Chr py_isspace), re_lit_i ''O.K.''],
      re_seq [re_lit_i ''Verify'', re_opt (re_lit_i ''Bin''), Lazy (Chr (\<lambda>c. True)), re_lit_i ''O.K.'']]"

subsection \<open>Parsing the output\<close>

datatype commander_error =
    Unsafe unsafe_command
  | Executable config_error
  | Device profile_error
  | NotAFloat string

text \<open>\<^verbatim>\<open>str.split()\<close>.\<close>

fun split_words :: "string \<Rightarrow> string \<Rightarrow> string list" where
  "split_words acc [] = (if acc = [] then [] else [acc])"
| "split_words acc (c # s) =
     (if py_isspace c then (if acc = [] then split_words [] s else acc # split_words [] s)
      else split_words (acc @ [c]) s)"

definition found :: "regex \<Rightarrow> string \<Rightarrow> string \<Rightarrow> (string \<Rightarrow> json) \<Rightarrow> json_object \<Rightarrow> json_object" where
  "found r output key f parsed = (case re_search r output of None \<Rightarrow> parsed | Some p \<Rightarrow> dict_set parsed key (f (group 1 p)))"

definition memory_entry :: "position \<Rightarrow> json" where
  "memory_entry p = JObj
     [(''address'', JStr (''0x'' @ show_hex 8 (hex_value 0 (group 1 p)))),
      (''values'', JList (map (\<lambda>w. JStr (''0x'' @ show_hex (length w) (hex_value 0 w))) (split_words [] (group 2 p))))]"

definition register_entries :: "position list \<Rightarrow> json_object" where
  "register_entries ps = foldl (\<lambda>d p. dict_set d (map char_upper (group 1 p))
       (JStr (''0x'' @ show_hex (length (group 2 p)) (hex_value 0 (group 2 p))))) []
     (filter (\<lambda>p. map char_upper (group 1 p) \<noteq> ''VTREF'') ps)"

definition str_contains :: "string \<Rightarrow> string \<Rightarrow> bool" where
  "str_contains s needle = contains s needle"

definition flash_verdict :: "string \<Rightarrow> bool" where
  "flash_verdict output = (re_search VERIFIED_RE output \<noteq> None)"

definition connection_fields :: "string \<Rightarrow> json_object \<Rightarrow> json_object" where
  "connection_fields output parsed =
     (let lowered = map char_lower output;
          parsed = dict_set parsed ''flash_verified'' (JBool (flash_verdict output));
          parsed = (if str_contains lowered ''cannot connect'' \<or> str_contains lowered ''could not connect''
                    then dict_set parsed ''connected'' (JBool False)
                    else if str_contains lowered ''cortex-'' \<or> str_contains lowered ''found swd-dp''
                    then dict_set parsed ''connected'' (JBool True)
                    else parsed)
      in if str_contains lowered ''pc ='' \<or> str_contains lowered ''currentpc''
         then dict_set parsed ''registers_present'' (JBool True) else parsed)"

definition parse_fields :: "string \<Rightarrow> json_object \<Rightarrow> json_object" where
  "parse_fields output parsed =
     (let parsed = (case re_search CORTEX_RE output of None \<Rightarrow> parsed | Some p \<Rightarrow> dict_set parsed ''core'' (JStr (group 0 p)));
          parsed = found SERIAL_RE output ''probe_serial'' JStr parsed;
          parsed = found FIRMWARE_RE output ''firmware'' (\<lambda>g. JStr (str_strip g)) parsed;
          parsed = found HARDWARE_RE output ''hardware_version'' (\<lambda>g. JStr (str_strip g)) parsed;
          parsed = found LICENSE_RE output ''licenses'' (\<lambda>g. JList (map JStr (split_commas g))) parsed;
          parsed = found CPUID_RE output ''cpuid'' JStr parsed;
          parsed = found DPIDR_RE output ''dpidr'' JStr parsed;
          parsed = found PC_RE output ''pc'' (\<lambda>g. JStr (''0x'' @ map char_upper g)) parsed;
          parsed = found MODE_RE output ''exception'' JStr parsed;
          memory = map memory_entry (re_findall MEMORY_RE output);
          parsed = (if memory \<noteq> [] then dict_set parsed ''memory'' (JList memory) else parsed);
          registers = register_entries (re_findall REGISTER_RE output);
          parsed = (if registers \<noteq> [] then dict_set parsed ''registers'' (JObj registers) else parsed);
          parsed = found BREAKPOINT_RE output ''breakpoint_handle'' (\<lambda>g. JInt (int (decimal_value 0 g))) parsed;
          parsed = found WATCHPOINT_RE output ''watchpoint_handle'' (\<lambda>g. JInt (int (decimal_value 0 g))) parsed;
          parsed = found COMMANDER_VERSION_RE output ''commander_version'' JStr parsed;
          parsed = found DLL_VERSION_RE output ''dll_version'' JStr parsed
      in connection_fields output parsed)"

definition parse_commander_output :: "string \<Rightarrow> commander_error + json_object" where
  "parse_commander_output output =
     rmap (parse_fields output)
       (case re_search VTREF_RE output of
          None \<Rightarrow> Inr []
        | Some p \<Rightarrow>
            (case parse_decimal (group 1 p) of
               None \<Rightarrow> Inl (NotAFloat (group 1 p))
             | Some _ \<Rightarrow> Inr [(''target_voltage'', JReal (group 1 p))]))"

subsection \<open>Execution\<close>

definition command_file :: "string list \<Rightarrow> string" where
  "command_file commands = join_with [CHR 0x0A] (commands @ [''Exit'']) @ [CHR 0x0A]"

definition selector_args :: "target_registry \<Rightarrow> device_selector option \<Rightarrow> commander_error + string list" where
  "selector_args reg selector =
     (case selector of
        None \<Rightarrow> Inr [''-AutoConnect'', ''0'']
      | Some s \<Rightarrow>
          rmap (\<lambda>device. (case sel_probe_serial s of None \<Rightarrow> [] | Some [] \<Rightarrow> [] | Some p \<Rightarrow> [''-USB'', p])
              @ [''-Device'', device, ''-If'', sel_interface s, ''-Speed'', show_int (sel_speed_khz s), ''-AutoConnect'', ''1''])
            (rcatch (jlink_device reg (sel_target_profile s) (sel_core s)) Device))"

definition show_path :: "string list \<Rightarrow> string" where
  "show_path parts = (if parts = [] then ''/'' else concat (map (\<lambda>p. CHR ''/'' # p) parts))"

fun infer_state :: "target_state \<Rightarrow> string list \<Rightarrow> target_state" where
  "infer_state after [] = after"
| "infer_state after (command # rest) =
     (let name = map char_lower (first_word command) in
      infer_state
        (if name \<in> {''h'', ''halt''} then StateHalted
         else if name \<in> {''g'', ''go''} then StateRunning
         else if name \<in> {''r'', ''reset''} then StateReset
         else if name \<in> {''s'', ''step''} then StateHalted
         else after) rest)"

text \<open>\<open>execute\<close>: the command file \<open>file\<close> is written with the validated commands, then the process runs; the
  runner gets the command line and the inferred state and returns the process result.\<close>

definition execute ::
    "settings \<Rightarrow> file_system \<Rightarrow> target_registry \<Rightarrow> (string list \<Rightarrow> target_state \<Rightarrow> command_result)
     \<Rightarrow> string \<Rightarrow> string list \<Rightarrow> device_selector option \<Rightarrow> commander_error + (string \<times> command_result)" where
  "execute s fs reg run file commands selector =
     rbind (rcatch (validate_raw_commands (Some (s, fs)) 256 commands) Unsafe) (\<lambda>validated.
     rbind (rcatch (segger_executable s fs ''JLinkExe'') Executable) (\<lambda>executable.
     rbind (selector_args reg selector) (\<lambda>args.
     let result = run ([show_path executable, ''-NoGui'', ''1'', ''-ExitOnError'', ''1'', ''-CommandFile'', file] @ args)
                      (infer_state StateUnknown validated) in
     rbind (parse_commander_output (res_stdout result @ [CHR 0x0A] @ res_stderr result)) (\<lambda>parsed.
     Inr (command_file validated,
          result \<lparr> res_parsed := parsed, res_evidence_paths := res_evidence_paths result @ [file] \<rparr>)))))"

definition probe_list_commands :: "string list" where
  "probe_list_commands = [''ShowEmuList USB'']"

subsection \<open>The command file\<close>

lemma split_on_join:
  "\<lbrakk>list_all (\<lambda>l. d \<notin> set l) ls; ls \<noteq> []\<rbrakk> \<Longrightarrow> split_on d (join_with [d] ls @ [d]) = ls @ [[]]"
proof (induction "[d]" ls rule: join_with.induct)
  case (2 x)
  then show ?case by (simp add: split_on_append)
next
  case (3 x y xs)
  then show ?case by (simp add: split_on_append)
qed simp

lemma execute_file:
  assumes "execute s fs reg run file commands selector = Inr (text, result)"
  shows "split_on (CHR 0x0A) text = map str_strip commands @ [''Exit'', []]"
    and "commands \<noteq> []" "length commands \<le> 256"
    and "list_all shell_free (map str_strip commands)"
proof -
  obtain cs where v: "validate_raw_commands (Some (s, fs)) 256 commands = Inr cs" and t: "text = command_file cs"
    using assms unfolding execute_def by (auto simp: rbind_eq_Inr rcatch_eq_Inr Let_def)
  note b = validate_raw_commands_Inr [OF v]
  have "list_all (\<lambda>l. CHR 0x0A \<notin> set l) (cs @ [''Exit''])"
    using b(4) by (auto simp: list_all_iff shell_free_def)
  then show "split_on (CHR 0x0A) text = map str_strip commands @ [''Exit'', []]"
    unfolding t command_file_def by (subst split_on_join) (simp_all add: b(1))
  show "commands \<noteq> []" "length commands \<le> 256" "list_all shell_free (map str_strip commands)"
    using b by auto
qed

text \<open>The batch file holds exactly the commands. When Commander is run, the lines of its command file are the
  stripped commands in order followed by \<open>Exit\<close>: no command can add, drop or split a line, there are
  between one and 256 of them and none has a shell control character.\<close>

theorem batch_file_exact:
  assumes "execute s fs reg run file commands selector = Inr (text, result)"
  shows "split_on (CHR 0x0A) text = map str_strip commands @ [''Exit'', []]
    \<and> commands \<noteq> [] \<and> length commands \<le> 256 \<and> list_all shell_free (map str_strip commands)"
  using execute_file [OF assms] by blast

text \<open>A run of Commander on the sample file system whose output says nothing.\<close>

definition silent_result :: "string list \<Rightarrow> target_state \<Rightarrow> command_result" where
  "silent_result argv after = make_result \<lparr> stamp_operation_id = ''op'', stamp_started = 0, stamp_finished = 1 \<rparr>
     ''jlink-commander'' argv 0 [] [] []"

lemma silent_parse: "parse_commander_output [CHR 0x0A] = Inr [(''flash_verified'', JBool False)]"
  by code_simp

theorem batch_file_exact_witness:
  "split_on (CHR 0x0A) (command_file [''Halt'', ''Regs'']) = [''Halt'', ''Regs'', ''Exit'', []]"
proof -
  have v: "validate_raw_command ''Halt'' = Inr ''Halt''" "validate_raw_command ''Regs'' = Inr ''Regs''"
    "str_strip ''Halt'' = ''Halt''" "str_strip ''Regs'' = ''Regs''"
    "shlex_split ''Halt'' = Some [''Halt'']" "shlex_split ''Regs'' = Some [''Regs'']" by code_simp+
  have p: "parse_path ''/opt/segger'' = \<lparr> path_absolute = True, path_parts = [''opt'', ''segger''] \<rparr>"
    "parse_path ''JLinkExe'' = \<lparr> path_absolute = False, path_parts = [''JLinkExe''] \<rparr>"
    by (simp_all add: parse_path_def str_startswith_def)
  have "segger_executable sample_settings sample_fs ''JLinkExe'' = Inr [''opt'', ''segger'', ''JLinkExe'']"
    by (simp add: segger_executable_def sample_settings_def default_settings_def sample_fs_def p join_path_def resolve_root_def below_def within_def)
  then obtain r where "execute sample_settings sample_fs empty_targets silent_result ''f'' [''Halt'', ''Regs''] None
      = Inr (command_file [''Halt'', ''Regs''], r)"
    by (simp add: execute_def validate_raw_commands_def validate_embedded_paths_def v selector_args_def silent_result_def
        make_result_def silent_parse)
  from batch_file_exact [OF this] show ?thesis by (simp add: v)
qed

subsection \<open>The flash verdict\<close>

lemma absorb_prefix:
  assumes "[] \<in> A"
  shows "{x @ y | x y. x \<in> A \<and> y \<in> {m @ y | m y. m \<in> UNIV \<and> y \<in> C}} = {m @ y | m y. m \<in> UNIV \<and> y \<in> C}" (is "?L = ?R")
proof (rule set_eqI, rule iffI)
  fix w assume "w \<in> ?L"
  then obtain x m y where "w = x @ m @ y" "y \<in> C" by blast
  then have "w = (x @ m) @ y" "y \<in> C" by simp_all
  then show "w \<in> ?R" by blast
next
  fix w assume "w \<in> ?R"
  then have "w = [] @ w \<and> [] \<in> A \<and> w \<in> ?R" using assms by simp
  then show "w \<in> ?L" by blast
qed

definition ok_words :: "string set" where
  "ok_words = {y. map char_lower y = ''o.k.''}"

lemma lang_verified:
  "lang VERIFIED_RE =
     {x @ m @ y | x m y. x \<in> {x. map char_lower x = ''verified''} \<and> m \<in> {m. m \<noteq> [] \<and> list_all py_isspace m} \<and> y \<in> ok_words}
     \<union> {x @ m @ y | x m y. x \<in> {x. map char_lower x = ''verify''} \<and> m \<in> UNIV \<and> y \<in> ok_words}"
proof -
  have l: "map char_lower ''verified'' = ''verified''" "map char_lower ''O.K.'' = ''o.k.''" "map char_lower ''Verify'' = ''verify''"
    by code_simp+
  have sp: "lang (re_plus (Chr py_isspace)) = {m. m \<noteq> [] \<and> list_all py_isspace m}"
  proof -
    have "{x @ y | x y. x \<in> {[c] | c. py_isspace c} \<and> y \<in> {x. list_all py_isspace x}} = {m. m \<noteq> [] \<and> list_all py_isspace m}"
      by (auto simp: neq_Nil_conv) (metis append_Cons append_Nil)
    then show ?thesis by (simp only: re_plus_def lang.simps repeated_class)
  qed
  have any: "lang (Lazy (Chr (\<lambda>c. True))) = UNIV" by (simp only: lang.simps repeated_class) (simp add: list_all_iff)
  have ok: "lang (re_lit_i ''O.K.'') = ok_words" by (simp only: lang_lit_i l ok_words_def)
  have "[] \<in> lang (re_opt (re_lit_i ''Bin''))" by (simp add: re_opt_def)
  note bin = absorb_prefix [OF this, of ok_words]
  show ?thesis
    unfolding VERIFIED_RE_def re_alt.simps re_seq.simps lang.simps(3,4) any ok sp
    unfolding bin unfolding lang_lit_i l conc_three ..
qed

lemma ex_verdict:
  "(\<exists>a w b. out = a @ w @ b \<and> w \<in> {x @ m @ y | x m y. x \<in> A \<and> m \<in> M \<and> y \<in> C}) \<longleftrightarrow>
   (\<exists>a x m y z. out = a @ x @ m @ y @ z \<and> x \<in> A \<and> m \<in> M \<and> y \<in> C)"
proof
  assume "\<exists>a w b. out = a @ w @ b \<and> w \<in> {x @ m @ y | x m y. x \<in> A \<and> m \<in> M \<and> y \<in> C}"
  then obtain a w b x m y where "out = a @ w @ b" "w = x @ m @ y" "x \<in> A" "m \<in> M" "y \<in> C" by blast
  then have "out = a @ x @ m @ y @ b \<and> x \<in> A \<and> m \<in> M \<and> y \<in> C" by simp
  then show "\<exists>a x m y z. out = a @ x @ m @ y @ z \<and> x \<in> A \<and> m \<in> M \<and> y \<in> C" by (intro exI)
next
  assume "\<exists>a x m y z. out = a @ x @ m @ y @ z \<and> x \<in> A \<and> m \<in> M \<and> y \<in> C"
  then obtain a x m y z where "out = a @ x @ m @ y @ z" "x \<in> A" "m \<in> M" "y \<in> C" by (elim exE conjE)
  then have "out = a @ (x @ m @ y) @ z \<and> x @ m @ y \<in> {x @ m @ y | x m y. x \<in> A \<and> m \<in> M \<and> y \<in> C}" by auto
  then show "\<exists>a w b. out = a @ w @ b \<and> w \<in> {x @ m @ y | x m y. x \<in> A \<and> m \<in> M \<and> y \<in> C}" by (intro exI)
qed

text \<open>The flash verdict is a search for words: the output is taken as a verified flash exactly when, in any case, it
  contains \<open>verify\<close> and somewhere later \<open>O.K.\<close>, or \<open>verified\<close>, blanks and \<open>O.K.\<close>. It therefore holds of output that
  reports a failed verification and a later success of something else.\<close>

theorem flash_verdict_exact:
  "(flash_verdict output \<longleftrightarrow>
     (\<exists>a x m y z. output = a @ x @ m @ y @ z \<and> map char_lower x = ''verified'' \<and> m \<noteq> [] \<and> list_all py_isspace m
        \<and> map char_lower y = ''o.k.'')
     \<or> (\<exists>a x m y z. output = a @ x @ m @ y @ z \<and> map char_lower x = ''verify'' \<and> map char_lower y = ''o.k.''))
   \<and> flash_verdict ''Verify failed @ 0x08000000. Reset: O.K.''"
proof (rule conjI)
  have "anchor_free VERIFIED_RE"
    by (simp add: VERIFIED_RE_def anchor_free_re_seq anchor_free_lit_i re_plus_def re_opt_def)
  note f = re_search_lang [OF this, folded flash_verdict_def, unfolded lang_verified]
  have iff: "flash_verdict out \<longleftrightarrow>
     (\<exists>a x m y z. out = a @ x @ m @ y @ z \<and> map char_lower x = ''verified'' \<and> m \<noteq> [] \<and> list_all py_isspace m
        \<and> map char_lower y = ''o.k.'')
     \<or> (\<exists>a x m y z. out = a @ x @ m @ y @ z \<and> map char_lower x = ''verify'' \<and> map char_lower y = ''o.k.'')" for out
    unfolding f Un_iff conj_disj_distribL ex_disj_distrib ex_verdict by (simp only: ok_words_def mem_Collect_eq conj_assoc UNIV_I simp_thms)
  show "flash_verdict output \<longleftrightarrow>
     (\<exists>a x m y z. output = a @ x @ m @ y @ z \<and> map char_lower x = ''verified'' \<and> m \<noteq> [] \<and> list_all py_isspace m
        \<and> map char_lower y = ''o.k.'')
     \<or> (\<exists>a x m y z. output = a @ x @ m @ y @ z \<and> map char_lower x = ''verify'' \<and> map char_lower y = ''o.k.'')"
    by (rule iff)
  have "''Verify failed @ 0x08000000. Reset: O.K.'' = [] @ ''Verify'' @ '' failed @ 0x08000000. Reset: '' @ ''O.K.'' @ []
      \<and> map char_lower ''Verify'' = ''verify'' \<and> map char_lower ''O.K.'' = ''o.k.''" by code_simp
  then have "\<exists>a x m y z. ''Verify failed @ 0x08000000. Reset: O.K.'' = a @ x @ m @ y @ z
      \<and> map char_lower x = ''verify'' \<and> map char_lower y = ''o.k.''" by (intro exI)
  then show "flash_verdict ''Verify failed @ 0x08000000. Reset: O.K.''" unfolding iff by (rule disjI2)
qed

end
