(* ===== verification/Service.thy ===== *)
theory Service
  imports Commander Leases Audit_Store Serial
begin

text \<open>
  The application service: \<^verbatim>\<open>service.py\<close>. An operation is a function on the service state that returns an
  exception or a value together with the state it leaves, also when it raises. What the outside answers
  (the discovery, the process runner, the clock, fresh identifiers, the GDB, GUI and application
  backends) is a record of functions indexed by a counter that every question advances, so that nothing
  is assumed of two answers. \<open>sv_trace\<close> is a ghost: the command lists that reached a probe and what came back. Waiting loops
  make as many tries as their argument allows, which stands for the deadline.
\<close>

subsection \<open>State\<close>

record probe_info =
  pr_serial :: string
  pr_model :: string
  pr_firmware :: json
  pr_licenses :: "json list"

record board_info =
  bd_serial :: "string option"
  bd_profile :: "string option"
  bd_port :: "string option"

datatype selection_error =
    NoProfiles
  | AmbiguousProfile
  | ProfileUnknown profile_error
  | CoreUnknown string string
  | AmbiguousProbe
  | ProbeNotAttached string
  | BoardNotVerified string
  | AmbiguousBoardSelection
  | Unresolved
  | NotIdentified "string list"

datatype service_error =
    Selection selection_error
  | CommanderFailed commander_error
  | StoreFailed store_error
  | LeaseFailed lease_error
  | RequestRefused string
  | SerialRefused serial_request_error
  | PathFailed config_error
  | UnsafeRequest unsafe_command
  | BackendFailed string
  | DiscoveryFailed string
  | AssertionFailed

record service_state =
  sv_leases :: lease_state
  sv_store :: audit_store
  sv_gdb_leases :: "(string, string) dict"
  sv_gdb_selectors :: "(string, device_selector) dict"
  sv_gdb_identities :: "(string, json_object) dict"
  sv_gui_leases :: "(string, string) dict"
  sv_gui_selectors :: "(string, device_selector) dict"
  sv_tick :: nat
  sv_trace :: "(string list \<times> device_selector \<times> command_result option) list"

record service_env =
  se_settings :: settings
  se_fs :: file_system
  se_targets :: target_registry
  se_store :: store_env
  se_task :: task
  se_now :: "nat \<Rightarrow> nat"
  se_uuid :: "nat \<Rightarrow> string"
  se_probes :: "nat \<Rightarrow> probe_info list"
  se_boards :: "nat \<Rightarrow> board_info list"
  se_merge :: "nat \<Rightarrow> string option"                 \<comment> \<open>what the extensions' merge raises\<close>
  se_run :: "nat \<Rightarrow> string list \<Rightarrow> target_state \<Rightarrow> command_result"
  se_port_ready :: "nat \<Rightarrow> string \<Rightarrow> bool"
  se_serial :: "nat \<Rightarrow> string \<Rightarrow> serial_raised + bytes"
  se_decode :: "bytes \<Rightarrow> string"
  se_application :: "nat \<Rightarrow> string \<Rightarrow> string list \<Rightarrow> string + command_result"
  se_gdb_start :: "nat \<Rightarrow> device_selector \<Rightarrow> string list option \<Rightarrow> string + string"
  se_gdb_info :: "nat \<Rightarrow> string \<Rightarrow> json_object option"
  se_gdb_command :: "nat \<Rightarrow> string \<Rightarrow> string \<Rightarrow> string + command_result"
  se_gdb_capture :: "nat \<Rightarrow> string \<Rightarrow> string \<Rightarrow> string + command_result"
  se_gdb_stop :: "nat \<Rightarrow> string \<Rightarrow> string option"
  se_gui_launch :: "nat \<Rightarrow> string \<Rightarrow> string list \<Rightarrow> string + string"
  se_gui_action :: "nat \<Rightarrow> string \<Rightarrow> string \<Rightarrow> string + command_result"
  se_gui_info :: "nat \<Rightarrow> string \<Rightarrow> string + json_object"
  se_gui_stop :: "nat \<Rightarrow> string \<Rightarrow> string option"
  se_gui_stop_all :: "nat \<Rightarrow> string option"
  se_gui_ocr :: "nat \<Rightarrow> string list \<Rightarrow> string + command_result"
  se_file_digest :: "nat \<Rightarrow> string list \<Rightarrow> string + string"
  se_polls :: nat

type_synonym ('s, 'a) computation = "'s \<Rightarrow> (service_error + 'a) \<times> 's"
type_synonym 'a operation = "(service_state, 'a) computation"

definition op_return :: "'a \<Rightarrow> ('s, 'a) computation" where
  "op_return x = (\<lambda>st. (Inr x, st))"

definition op_raise :: "service_error \<Rightarrow> ('s, 'a) computation" where
  "op_raise e = (\<lambda>st. (Inl e, st))"

definition op_lift :: "service_error + 'a \<Rightarrow> ('s, 'a) computation" where
  "op_lift r = (\<lambda>st. (r, st))"

definition op_bind :: "('s, 'a) computation \<Rightarrow> ('a \<Rightarrow> ('s, 'b) computation) \<Rightarrow> ('s, 'b) computation" where
  "op_bind m f = (\<lambda>st. case m st of (Inl e, st') \<Rightarrow> (Inl e, st') | (Inr x, st') \<Rightarrow> f x st')"

text \<open>\<open>op_finally m cleanup\<close> runs the cleanup after \<open>m\<close>, whether it raised or not.\<close>

definition op_finally :: "('s, 'a) computation \<Rightarrow> ('s \<Rightarrow> 's) \<Rightarrow> ('s, 'a) computation" where
  "op_finally m cleanup = (\<lambda>st. case m st of (r, st') \<Rightarrow> (r, cleanup st'))"

definition op_get :: "('s \<Rightarrow> 'a) \<Rightarrow> ('s, 'a) computation" where
  "op_get f = (\<lambda>st. (Inr (f st), st))"

text \<open>A question to the outside.\<close>

definition ask :: "(nat \<Rightarrow> 'a) \<Rightarrow> 'a operation" where
  "ask f = (\<lambda>st. (Inr (f (sv_tick st)), st \<lparr> sv_tick := Suc (sv_tick st) \<rparr>))"

definition op_check :: "bool \<Rightarrow> service_error \<Rightarrow> ('s, unit) computation" where
  "op_check c e = (if c then op_return () else op_raise e)"

definition fresh_stamp :: "service_env \<Rightarrow> stamp operation" where
  "fresh_stamp env = ask (\<lambda>n. \<lparr> stamp_operation_id = se_uuid env n, stamp_started = se_now env n, stamp_finished = se_now env n \<rparr>)"

definition append ::
    "service_env \<Rightarrow> command_result \<Rightarrow> string \<Rightarrow> string option \<Rightarrow> bool \<Rightarrow> json_object option \<Rightarrow> unit operation" where
  "append env result action probe destructive request =
     op_bind (ask (se_now env)) (\<lambda>now st.
       case append_operation (se_store env) now result action probe destructive request (sv_store st) of
         Inl e \<Rightarrow> (Inl (StoreFailed e), st)
       | Inr (_, store) \<Rightarrow> (Inr (), st \<lparr> sv_store := store \<rparr>))"

subsection \<open>Leases\<close>

definition lease_enter ::
    "task \<Rightarrow> string \<Rightarrow> string \<Rightarrow> string \<Rightarrow> nat \<Rightarrow> lease_state \<Rightarrow> (lease_error + lease_info) \<times> lease_state" where
  "lease_enter t probe owner new_id now st =
     (let st = lock_for probe st in
      case grant t probe owner st of
        None \<Rightarrow> (Inl (acquire_timeout probe st), st)
      | Some st' \<Rightarrow> (case register t probe owner new_id now st' of (info, st'') \<Rightarrow> (Inr info, st'')))"

definition acquire_lease :: "service_env \<Rightarrow> string \<Rightarrow> string \<Rightarrow> lease_info operation" where
  "acquire_lease env probe owner =
     op_bind (ask (\<lambda>n. (se_uuid env n, se_now env n))) (\<lambda>(new_id, now) st.
       case lease_enter (se_task env) probe owner new_id now (sv_leases st) of
         (Inl e, ls) \<Rightarrow> (Inl (LeaseFailed e), st \<lparr> sv_leases := ls \<rparr>)
       | (Inr info, ls) \<Rightarrow> (Inr info, st \<lparr> sv_leases := ls \<rparr>))"

definition release_lease :: "string \<Rightarrow> service_state \<Rightarrow> service_state" where
  "release_lease lid st = st \<lparr> sv_leases := release lid (sv_leases st) \<rparr>"

text \<open>\<^verbatim>\<open>async with self.leases.lease(probe, owner)\<close>: an active lease of the same task is used and kept.\<close>

definition with_lease :: "service_env \<Rightarrow> string \<Rightarrow> string \<Rightarrow> (lease_info \<Rightarrow> 'a operation) \<Rightarrow> 'a operation" where
  "with_lease env probe owner body =
     (\<lambda>st. case reentrant (se_task env) probe (sv_leases st) of
        Some info \<Rightarrow> body info st
      | None \<Rightarrow> op_bind (acquire_lease env probe owner) (\<lambda>info. op_finally (body info) (release_lease (lease_id info))) st)"

subsection \<open>Capabilities\<close>

definition object_get :: "json \<Rightarrow> string \<Rightarrow> json" where
  "object_get j key = (case j of JObj d \<Rightarrow> (case dict_get d key of None \<Rightarrow> JNull | Some v \<Rightarrow> v) | _ \<Rightarrow> JNull)"

text \<open>The probe identity of an audit entry, \<open>None\<close> when its payload is not readable.\<close>

definition row_probe :: "store_env \<Rightarrow> operation_row \<Rightarrow> json option" where
  "row_probe env row =
     (case json_loads env (row_payload_json row) of
        None \<Rightarrow> None
      | Some payload \<Rightarrow> Some (object_get (object_get payload ''result'') ''probe_identity''))"

definition observe_key :: "json \<Rightarrow> string \<Rightarrow> json_object \<Rightarrow> json_object" where
  "observe_key probe key obs =
     (if \<not> json_truthy (object_get (JObj obs) key) \<and> json_truthy (object_get probe key)
      then dict_set obs key (object_get probe key) else obs)"

definition observe :: "json \<Rightarrow> (string, json_object) dict \<Rightarrow> (string, json_object) dict" where
  "observe probe obs =
     (case object_get probe ''serial'' of
        JStr serial \<Rightarrow>
          if serial = [] then obs
          else (let o1 = (case dict_get obs serial of None \<Rightarrow> [] | Some d \<Rightarrow> d) in
            dict_set obs serial (observe_key probe ''licenses'' (observe_key probe ''hardware_version''
              (observe_key probe ''firmware'' (observe_key probe ''observed_serial'' o1)))))
      | _ \<Rightarrow> obs)"

fun observations :: "store_env \<Rightarrow> operation_row list \<Rightarrow> (string, json_object) dict \<Rightarrow> (string, json_object) dict option" where
  "observations env [] obs = Some obs"
| "observations env (row # rows) obs =
     (case row_probe env row of None \<Rightarrow> None | Some probe \<Rightarrow> observations env rows (observe probe obs))"

definition enrich_probe :: "(string, json_object) dict \<Rightarrow> probe_info \<Rightarrow> probe_info" where
  "enrich_probe obs p =
     (case dict_get obs (pr_serial p) of
        None \<Rightarrow> p
      | Some [] \<Rightarrow> p
      | Some d \<Rightarrow> p \<lparr> pr_firmware := object_get (JObj d) ''firmware'',
                    pr_licenses := (case object_get (JObj d) ''licenses'' of JList ls \<Rightarrow> ls | _ \<Rightarrow> []) \<rparr>)"

definition capabilities :: "service_env \<Rightarrow> (probe_info list \<times> board_info list) operation" where
  "capabilities env =
     op_bind (ask (\<lambda>n. (se_probes env n, se_boards env n, se_merge env n))) (\<lambda>(probes, boards, merge) st.
       case observations (se_store env) (take 1000 (rev (operations (sv_store st)))) [] of
         None \<Rightarrow> (Inl (StoreFailed MalformedPayload), st)
       | Some obs \<Rightarrow>
           (case merge of
              Some msg \<Rightarrow> (Inl (DiscoveryFailed msg), st)
            | None \<Rightarrow> (Inr (map (enrich_probe obs) probes, boards), st)))"

subsection \<open>Selecting the target\<close>

definition choose_profile :: "target_registry \<Rightarrow> device_selector \<Rightarrow> board_info list \<Rightarrow> selection_error + string" where
  "choose_profile reg sel boards =
     (case sel_target_profile sel of
        Some p \<Rightarrow> Inr p
      | None \<Rightarrow>
          (case remdups (List.map_filter (\<lambda>b. if bd_profile b \<noteq> Some [] \<and> (sel_board_serial sel = None \<or> bd_serial b = sel_board_serial sel)
                                       then bd_profile b else None) boards) of
             [p] \<Rightarrow> Inr p
           | _ \<Rightarrow> (case reg_profiles reg of [(p, _)] \<Rightarrow> Inr p | _ \<Rightarrow> Inl AmbiguousProfile)))"

definition choose_probe :: "device_selector \<Rightarrow> probe_info list \<Rightarrow> selection_error + string" where
  "choose_probe sel probes =
     rbind (case sel_probe_serial sel of
              Some p \<Rightarrow> Inr p
            | None \<Rightarrow> (case probes of [p] \<Rightarrow> Inr (pr_serial p) | _ \<Rightarrow> Inl AmbiguousProbe)) (\<lambda>p.
     if p \<notin> pr_serial ` set probes then Inl (ProbeNotAttached p) else Inr p)"

text \<open>\<open>verified\<close> is the audit store's answer for the pairing; it is asked only when no board at all is attached.\<close>

definition choose_board ::
    "(string \<Rightarrow> service_error + bool) \<Rightarrow> device_selector \<Rightarrow> string \<Rightarrow> board_info list \<Rightarrow> service_error + string option" where
  "choose_board verified sel profile boards =
     (let applicable = filter (\<lambda>b. bd_profile b = Some profile) boards in
      case sel_board_serial sel of
        None \<Rightarrow> (case applicable of [] \<Rightarrow> Inr None | [b] \<Rightarrow> Inr (bd_serial b) | _ \<Rightarrow> Inl (Selection AmbiguousBoardSelection))
      | Some s \<Rightarrow>
          if s \<noteq> [] \<and> Some s \<notin> bd_serial ` set applicable then
            (if boards \<noteq> [] then Inl (Selection (BoardNotVerified s))
             else rbind (verified s) (\<lambda>ok. if ok then Inr (Some s) else Inl (Selection (BoardNotVerified s))))
          else Inr (Some s))"

text \<open>\<open>given\<close> is \<^verbatim>\<open>model_fields_set\<close>: the fields the caller gave explicitly.\<close>

definition resolve_with ::
    "service_env \<Rightarrow> string set \<Rightarrow> device_selector \<Rightarrow> audit_store \<Rightarrow> probe_info list \<Rightarrow> board_info list \<Rightarrow> service_error + device_selector" where
  "resolve_with env given sel store probes boards =
     (let reg = se_targets env in
      if reg_profiles reg = [] then Inl (Selection NoProfiles)
      else rbind (rcatch (choose_profile reg sel boards) Selection) (\<lambda>pid.
        rbind (rcatch (get_profile reg pid) (Selection \<circ> ProfileUnknown)) (\<lambda>profile.
        let c = (case sel_core sel of None \<Rightarrow> profile_default_core profile | Some [] \<Rightarrow> profile_default_core profile | Some c \<Rightarrow> c) in
        if \<not> dict_has (profile_cores profile) c then Inl (Selection (CoreUnknown c pid))
        else rbind (rcatch (choose_probe sel probes) Selection) (\<lambda>probe.
          rbind (choose_board (\<lambda>b. rcatch (has_verified_target (se_store env) b probe store) StoreFailed) sel pid boards) (\<lambda>board.
          Inr (sel \<lparr> sel_probe_serial := Some probe, sel_board_serial := board, sel_target_profile := Some pid, sel_core := Some c,
                sel_interface := (if ''interface'' \<in> given then sel_interface sel else profile_default_interface profile),
                sel_speed_khz := (if ''speed_khz'' \<in> given then sel_speed_khz sel else profile_default_speed profile) \<rparr>)))))) "

definition resolve_selector :: "service_env \<Rightarrow> string set \<Rightarrow> device_selector \<Rightarrow> device_selector operation" where
  "resolve_selector env given sel =
     op_bind (capabilities env) (\<lambda>(probes, boards) st. (resolve_with env given sel (sv_store st) probes boards, st))"

primrec resolve_wait :: "nat \<Rightarrow> service_env \<Rightarrow> string set \<Rightarrow> device_selector \<Rightarrow> device_selector operation" where
  "resolve_wait 0 env given sel = resolve_selector env given sel"
| "resolve_wait (Suc n) env given sel =
     (\<lambda>st. case resolve_selector env given sel st of
        (Inl (Selection e), st') \<Rightarrow> resolve_wait n env given sel st'
      | other \<Rightarrow> other)"

definition resolve_selector_wait :: "service_env \<Rightarrow> string set \<Rightarrow> device_selector \<Rightarrow> device_selector operation" where
  "resolve_selector_wait env = resolve_wait (se_polls env) env"

end
