(* ===== verification/Service_Ops.thy ===== *)
theory Service_Ops
  imports Service
begin

text \<open>
  The operations of \<^verbatim>\<open>service.py\<close> on a probe: the positive identification of the target, the gated
  Commander operations, serial exchanges and applications. \<open>request_selector\<close> is the JSON form of a
  selector.
\<close>

subsection \<open>Identity\<close>

definition selector_json :: "device_selector \<Rightarrow> json" where
  "selector_json s = JObj
     [(''probe_serial'', json_opt JStr (sel_probe_serial s)), (''board_serial'', json_opt JStr (sel_board_serial s)),
      (''target_profile'', json_opt JStr (sel_target_profile s)), (''core'', json_opt JStr (sel_core s)),
      (''interface'', JStr (sel_interface s)), (''speed_khz'', JInt (sel_speed_khz s))]"

definition lookup :: "json_object \<Rightarrow> string \<Rightarrow> json" where
  "lookup d key = (case dict_get d key of None \<Rightarrow> JNull | Some v \<Rightarrow> v)"

definition parsed_default :: "string \<Rightarrow> json \<Rightarrow> command_result \<Rightarrow> command_result" where
  "parsed_default key v r = r \<lparr> res_parsed := dict_setdefault (res_parsed r) key v \<rparr>"

definition parsed_put :: "string \<Rightarrow> json \<Rightarrow> command_result \<Rightarrow> command_result" where
  "parsed_put key v r = r \<lparr> res_parsed := dict_set (res_parsed r) key v \<rparr>"

definition attach_identities :: "device_selector \<Rightarrow> json_object \<Rightarrow> command_result \<Rightarrow> command_result" where
  "attach_identities sel identity r = r \<lparr>
     res_probe_identity :=
       [(''serial'', json_opt JStr (sel_probe_serial sel)), (''observed_serial'', lookup identity ''probe_serial''),
        (''firmware'', lookup identity ''firmware''), (''hardware_version'', lookup identity ''hardware_version''),
        (''licenses'', (case dict_get identity ''licenses'' of None \<Rightarrow> JList [] | Some v \<Rightarrow> v))],
     res_target_identity :=
       [(''board_serial'', json_opt JStr (sel_board_serial sel)), (''target_profile'', json_opt JStr (sel_target_profile sel)),
        (''core'', json_opt JStr (sel_core sel)), (''observed_core'', lookup identity ''core''),
        (''cpuid'', lookup identity ''cpuid''), (''dpidr'', lookup identity ''dpidr''),
        (''target_voltage'', lookup identity ''target_voltage'')] \<rparr>"

definition serial_equal :: "string \<Rightarrow> string \<Rightarrow> bool" where
  "serial_equal observed expected =
     (dropWhile (\<lambda>c. c = CHR ''0'') observed = dropWhile (\<lambda>c. c = CHR ''0'') expected)"

text \<open>\<^verbatim>\<open>int(text, 0)\<close> of the forms that occur: hexadecimal with its prefix, and decimal digits.\<close>

definition parse_int0 :: "string \<Rightarrow> int option" where
  "parse_int0 s =
     (if (str_startswith s ''0x'' \<or> str_startswith s ''0X'') \<and> drop 2 s \<noteq> [] \<and> list_all ascii_hex (drop 2 s)
      then Some (int (hex_value 0 (drop 2 s)))
      else if s \<noteq> [] \<and> list_all ascii_digit s \<and> (hd s \<noteq> CHR ''0'' \<or> list_all (\<lambda>c. c = CHR ''0'') s)
      then Some (int (decimal_value 0 s)) else None)"

definition json_text :: "json \<Rightarrow> string" where
  "json_text j = (case j of JStr s \<Rightarrow> s | JInt n \<Rightarrow> show_int n | JNull \<Rightarrow> ''None'' | JBool b \<Rightarrow> (if b then ''True'' else ''False'') | _ \<Rightarrow> ''[]'')"

definition parsed_number :: "json_object \<Rightarrow> string \<Rightarrow> int" where
  "parsed_number parsed key =
     (case parse_int0 (case dict_get parsed key of None \<Rightarrow> [] | Some v \<Rightarrow> json_text v) of None \<Rightarrow> - 1 | Some n \<Rightarrow> n)"

text \<open>The numeric value of a voltage field; \<open>None\<close> when it is no number.\<close>

definition json_number :: "json \<Rightarrow> rat option" where
  "json_number j = (case j of JInt n \<Rightarrow> Some (of_int n) | JBool b \<Rightarrow> Some (of_bool b) | JReal s \<Rightarrow> parse_decimal s | _ \<Rightarrow> None)"

definition voltage_accepted :: "target_profile \<Rightarrow> json_object \<Rightarrow> bool" where
  "voltage_accepted profile parsed =
     (case (json_number (lookup parsed ''target_voltage''), profile_minimum_voltage profile) of
        (Some v, Finite m) \<Rightarrow> v \<ge> m
      | _ \<Rightarrow> False)"

definition identity_failures :: "target_profile \<Rightarrow> core_profile \<Rightarrow> device_selector \<Rightarrow> command_result \<Rightarrow> string list" where
  "identity_failures profile expected sel r =
     (let parsed = res_parsed r;
          probe = (case dict_get parsed ''probe_serial'' of None \<Rightarrow> [] | Some v \<Rightarrow> json_text v);
          wanted = (case sel_probe_serial sel of None \<Rightarrow> [] | Some p \<Rightarrow> p) in
      (if \<not> result_ok r \<or> \<not> json_truthy (lookup parsed ''connected'') then [''target did not connect''] else [])
      @ (if lookup parsed ''core'' \<noteq> JStr (core_expected_core expected) then [''core''] else [])
      @ (if parsed_number parsed ''cpuid'' \<noteq> core_expected_cpuid expected then [''CPUID''] else [])
      @ (if parsed_number parsed ''dpidr'' \<noteq> profile_expected_dpidr profile then [''unexpected SW-DP ID''] else [])
      @ (if \<not> voltage_accepted profile parsed then [''unsafe or missing target voltage''] else [])
      @ (if wanted = [] \<or> \<not> serial_equal probe wanted then [''probe serial''] else []))"

definition validate_identity :: "service_env \<Rightarrow> command_result \<Rightarrow> device_selector \<Rightarrow> service_error + unit" where
  "validate_identity env r sel =
     (case (sel_target_profile sel, sel_core sel) of
        (Some pid, Some cid) \<Rightarrow>
          rbind (rcatch (get_profile (se_targets env) pid) (Selection \<circ> ProfileUnknown)) (\<lambda>profile.
          case dict_get (profile_cores profile) cid of
            None \<Rightarrow> Inl (Selection (CoreUnknown cid pid))
          | Some expected \<Rightarrow>
              (case identity_failures profile expected sel r of
                 [] \<Rightarrow> Inr ()
               | failures \<Rightarrow> Inl (Selection (NotIdentified failures))))
      | _ \<Rightarrow> Inl (Selection Unresolved))"

subsection \<open>Commander\<close>

text \<open>\<open>run_commander\<close>: the commands reach the probe when they are valid, the executable is there and the device is
  known; the output may then still fail to parse.\<close>

definition run_commander :: "service_env \<Rightarrow> string list \<Rightarrow> device_selector \<Rightarrow> command_result operation" where
  "run_commander env commands sel =
     (\<lambda>st. let n = sv_tick st; st = st \<lparr> sv_tick := Suc n \<rparr>;
               ran = (\<lambda>answer. st \<lparr> sv_trace := sv_trace st @ [(commands, sel, answer)] \<rparr>) in
       case execute (se_settings env) (se_fs env) (se_targets env) (se_run env n) (se_uuid env n @ ''.jlink'') commands (Some sel) of
         Inl (NotAFloat v) \<Rightarrow> (Inl (CommanderFailed (NotAFloat v)), ran None)
       | Inl e \<Rightarrow> (Inl (CommanderFailed e), st)
       | Inr (_, r) \<Rightarrow> (Inr r, ran (Some r)))"

definition identity_commands :: "string list" where
  "identity_commands = [''ShowHWStatus'', ''Mem32 0xE000ED00 1'']"

definition with_session :: "string \<Rightarrow> command_result \<Rightarrow> command_result" where
  "with_session sid r = r \<lparr> res_session_id := Some sid \<rparr>"

definition identity_preflight :: "service_env \<Rightarrow> device_selector \<Rightarrow> string \<Rightarrow> command_result operation" where
  "identity_preflight env sel lid =
     op_bind (run_commander env identity_commands sel) (\<lambda>r.
     let r = with_session lid (parsed_default ''selector'' (selector_json sel) r);
         identity = attach_identities sel (res_parsed r) r in
     op_bind (append env identity ''target_identity_preflight'' (sel_probe_serial sel) False
                (Some [(''selector'', selector_json sel)])) (\<lambda>_.
     op_bind (op_lift (validate_identity env identity sel)) (\<lambda>_. op_return identity)))"

definition commands_request :: "device_selector \<Rightarrow> string list \<Rightarrow> json_object" where
  "commands_request sel commands = [(''selector'', selector_json sel), (''commands'', JList (map JStr commands))]"

text \<open>The two bodies under the lease: connecting records the attempt before it is judged, everything else is
  preceded by a preflight and judged again afterwards.\<close>

definition connect_body :: "service_env \<Rightarrow> device_selector \<Rightarrow> string list \<Rightarrow> bool \<Rightarrow> lease_info \<Rightarrow> command_result operation" where
  "connect_body env sel commands destructive lease =
     op_bind (run_commander env commands sel) (\<lambda>r.
     let r = parsed_default ''selector'' (selector_json sel) (with_session (lease_id lease) r);
         r = attach_identities sel (res_parsed r) r in
     op_bind (append env r ''connect'' (sel_probe_serial sel) destructive (Some (commands_request sel commands))) (\<lambda>_.
     op_bind (op_lift (validate_identity env r sel)) (\<lambda>_. op_return r)))"

definition guarded_body :: "service_env \<Rightarrow> device_selector \<Rightarrow> string list \<Rightarrow> lease_info \<Rightarrow> (command_result \<times> json_object) operation" where
  "guarded_body env sel commands lease =
     op_bind (identity_preflight env sel (lease_id lease)) (\<lambda>identity.
     op_bind (run_commander env commands sel) (\<lambda>r.
     op_bind (op_lift (validate_identity env identity sel)) (\<lambda>_.
     op_return (with_session (lease_id lease) r, res_parsed identity))))"

definition commander_commands ::
    "service_env \<Rightarrow> string set \<Rightarrow> device_selector \<Rightarrow> string list \<Rightarrow> string \<Rightarrow> bool \<Rightarrow> command_result operation" where
  "commander_commands env given sel commands action destructive =
     op_bind (resolve_selector_wait env given sel) (\<lambda>resolved.
     case sel_probe_serial resolved of
       None \<Rightarrow> op_raise AssertionFailed
     | Some probe \<Rightarrow>
         if action = ''connect'' then with_lease env probe action (connect_body env resolved commands destructive)
         else
           op_bind (with_lease env probe action (guarded_body env resolved commands)) (\<lambda>(r, identity).
           let r = parsed_default ''identity_preflight'' (JObj identity) (parsed_default ''selector'' (selector_json resolved) r);
               r = attach_identities resolved identity r in
           op_bind (append env r action (sel_probe_serial resolved) destructive (Some (commands_request resolved commands)))
             (\<lambda>_. op_return r)))"

text \<open>\<open>Go\<close> after the preflight has halted the target, with evidence.\<close>

definition resume_after_preflight ::
    "service_env \<Rightarrow> device_selector \<Rightarrow> string \<Rightarrow> json_object \<Rightarrow> string \<Rightarrow> command_result operation" where
  "resume_after_preflight env sel lid identity action =
     op_bind (run_commander env [''Go''] sel) (\<lambda>r.
     let r = parsed_default ''identity_preflight'' (JObj identity)
               (parsed_default ''selector'' (selector_json sel) (with_session lid r));
         r = attach_identities sel identity r in
     op_bind (append env r action (sel_probe_serial sel) True (Some (commands_request sel [''Go'']))) (\<lambda>_.
     op_bind (op_check (result_ok r)
       (BackendFailed (''target could not be resumed after identity preflight: ''
          @ (if res_stderr r \<noteq> [] then res_stderr r else res_stdout r)))) (\<lambda>_. op_return r)))"

subsection \<open>Commander operations\<close>

definition hex_address :: "int \<Rightarrow> string" where
  "hex_address a = ''0x'' @ (if a < 0 then CHR ''-'' # show_hex 7 (nat (- a)) else show_hex 8 (nat a))"

definition hex_plain :: "int \<Rightarrow> string" where
  "hex_plain a = (if a < 0 then ''0x-'' @ show_hex 0 (nat (- a)) else ''0x'' @ show_hex 0 (nat a))"

definition refuse_unless :: "bool \<Rightarrow> string \<Rightarrow> 'a \<Rightarrow> service_error + 'a" where
  "refuse_unless c msg x = (if c then Inr x else Inl (RequestRefused msg))"

text \<open>A request is the commands, the action name and whether it changes the target; a refused one never reaches the
  probe.\<close>

type_synonym commander_request = "string list \<times> string \<times> bool"

definition probe_info_request :: commander_request where
  "probe_info_request = ([''ShowFWInfo'', ''ShowHWStatus'', ''ShowConf'', ''Uptime''], ''probe_info'', False)"

definition connect_request :: commander_request where
  "connect_request = (identity_commands, ''connect'', False)"

definition reset_request :: "bool \<Rightarrow> int option \<Rightarrow> service_error + commander_request" where
  "reset_request halt reset_type =
     refuse_unless (case reset_type of None \<Rightarrow> True | Some t \<Rightarrow> 0 \<le> t \<and> t \<le> 15) ''reset_type must be between 0 and 15''
       ((case reset_type of None \<Rightarrow> [] | Some t \<Rightarrow> [''RSetType '' @ show_int t])
          @ (if halt then [''Reset'', ''Halt''] else [''Reset'', ''Go'']),
        (if halt then ''reset_halt'' else ''reset_run''), True)"

definition halt_request :: commander_request where
  "halt_request = ([''Halt'', ''Regs''], ''halt'', True)"

definition go_request :: commander_request where
  "go_request = ([''Go''], ''go'', True)"

definition step_request :: "int \<Rightarrow> service_error + commander_request" where
  "step_request count =
     refuse_unless (1 \<le> count \<and> count \<le> 10000) ''count must be between 1 and 10000''
       (''Halt'' # replicate (nat count) ''Step'' @ [''Regs''], ''step'', True)"

definition read_memory_request :: "int \<Rightarrow> int \<Rightarrow> int \<Rightarrow> service_error + commander_request" where
  "read_memory_request address count width =
     rbind (refuse_unless (\<not> (address < 0 \<or> count < 1 \<or> count > 65536)) ''invalid address or count'' ()) (\<lambda>_.
     refuse_unless (width \<in> {8, 16, 32}) ''width must be 8, 16, or 32''
       ([''Mem'' @ show_int width @ '' '' @ hex_address address @ '' '' @ show_int count], ''read_memory'', False))"

definition write_memory_request :: "int \<Rightarrow> int list \<Rightarrow> int \<Rightarrow> service_error + commander_request" where
  "write_memory_request address vals width =
     rbind (refuse_unless (\<not> (address < 0 \<or> vals = [] \<or> length vals > 4096)) ''invalid address or values'' ()) (\<lambda>_.
     rbind (refuse_unless (width \<in> {8, 16, 32}) ''width must be 8, 16, or 32'' ()) (\<lambda>_.
     refuse_unless (\<not> list_ex (\<lambda>v. v < 0 \<or> v > 2 ^ nat width - 1) vals) ''values must fit in the width''
       ([''W'' @ show_int (width div 8) @ '' '' @ hex_address address @ '' '' @ join_with '' '' (map hex_plain vals)],
        ''write_memory'', True)))"

definition set_breakpoint_request :: "int \<Rightarrow> commander_request" where
  "set_breakpoint_request address = ([''SetBP '' @ hex_address address], ''set_breakpoint'', True)"

definition handle_request :: "string \<Rightarrow> string \<Rightarrow> string \<Rightarrow> int \<Rightarrow> service_error + commander_request" where
  "handle_request name action msg h =
     refuse_unless (\<not> (h < 0 \<or> h > 255)) msg ([name @ '' '' @ show_int h], action, True)"

definition clear_breakpoint_request :: "int \<Rightarrow> service_error + commander_request" where
  "clear_breakpoint_request = handle_request ''ClearBP'' ''clear_breakpoint'' ''invalid breakpoint handle''"

definition clear_watchpoint_request :: "int \<Rightarrow> service_error + commander_request" where
  "clear_watchpoint_request = handle_request ''ClearWP'' ''clear_watchpoint'' ''invalid watchpoint handle''"

definition register_name_ok :: "string \<Rightarrow> bool" where
  "register_name_ok name = (str_isalnum (str_remove (CHR ''_'') name) \<and> length name \<le> 32)"

definition read_register_request :: "string \<Rightarrow> service_error + commander_request" where
  "read_register_request name =
     refuse_unless (register_name_ok name) ''invalid register name'' ([''RReg '' @ name], ''read_register'', False)"

definition write_register_request :: "string \<Rightarrow> int \<Rightarrow> service_error + commander_request" where
  "write_register_request name v =
     rbind (refuse_unless (register_name_ok name) ''invalid register name'' ()) (\<lambda>_.
     refuse_unless (\<not> (v < 0 \<or> v > 0xFFFFFFFFFFFFFFFF)) ''register value is out of range''
       ([''WReg '' @ name @ '', '' @ hex_plain v], ''write_register'', True))"

definition set_watchpoint_request :: "int \<Rightarrow> string \<Rightarrow> service_error + commander_request" where
  "set_watchpoint_request address access =
     (let access = map char_upper access in
      refuse_unless (\<not> (address < 0 \<or> access \<notin> {''R'', ''W''})) ''invalid watchpoint address or access''
        ([''SetWP '' @ hex_address address @ '' '' @ access], ''set_watchpoint'', True))"

definition erase_flash_request :: "int option \<Rightarrow> int option \<Rightarrow> service_error + commander_request" where
  "erase_flash_request start stop =
     (case (start, stop) of
        (None, None) \<Rightarrow> Inr ([''Erase''], ''erase_flash'', True)
      | (Some a, Some b) \<Rightarrow>
          refuse_unless (\<not> (a < 0 \<or> b \<le> a)) ''invalid erase range''
            ([''Erase '' @ hex_plain a @ '', '' @ hex_plain b], ''erase_flash'', True)
      | _ \<Rightarrow> Inl (RequestRefused ''start and end must be provided together''))"

definition path_suffix :: "string list \<Rightarrow> string" where
  "path_suffix parts =
     (let name = (if parts = [] then [] else last parts);
          stem = dropWhile (\<lambda>c. c \<noteq> CHR ''.'') (rev name) in
      if CHR ''.'' \<notin> set name \<or> length stem \<le> 1 \<or> length stem = length name then []
      else map char_lower (drop (length stem - 1) name))"

definition verify_binary_request :: "service_env \<Rightarrow> string \<Rightarrow> int \<Rightarrow> service_error + commander_request" where
  "verify_binary_request env path address =
     rbind (rcatch (resolve_allowed_path (se_settings env) (se_fs env) path True) PathFailed) (\<lambda>artifact.
     refuse_unless (\<not> (path_suffix artifact \<noteq> ''.bin'' \<or> address < 0)) ''verification requires a BIN and destination address''
       ([''VerifyBin '' @ [CHR 0x22] @ show_path artifact @ [CHR 0x22] @ '', '' @ hex_plain address], ''verify_binary'', False))"

definition command_string_request :: "string \<Rightarrow> service_error + commander_request" where
  "command_string_request command =
     rmap (\<lambda>validated. ([''Exec '' @ validated], ''jlink_command_string'', True))
       (rcatch (validate_raw_command command) UnsafeRequest)"

definition swo_request :: "string \<Rightarrow> int option \<Rightarrow> int \<Rightarrow> service_error + commander_request" where
  "swo_request action speed_hz capture_ms =
     (let action = map char_lower action in
      if action = ''speeds'' then Inr ([''SWOSpeed''], ''swo_'' @ action, False)
      else if action = ''status'' then Inr ([''SWOStat''], ''swo_'' @ action, False)
      else if action = ''stop'' then Inr ([''SWOStop''], ''swo_'' @ action, True)
      else if action = ''capture'' then
        rbind (refuse_unless (1 \<le> capture_ms \<and> capture_ms \<le> 300000) ''capture_ms must be between 1 and 300000'' ()) (\<lambda>_.
        refuse_unless (case speed_hz of None \<Rightarrow> True | Some s \<Rightarrow> 1 \<le> s \<and> s \<le> 4000000) ''EDU Mini SWO speed cannot exceed 4 MHz''
          ([(case speed_hz of None \<Rightarrow> ''SWOStart'' | Some s \<Rightarrow> ''SWOStart '' @ show_int s),
            ''Sleep '' @ show_int capture_ms, ''SWORead'', ''SWOStop''], ''swo_'' @ action, True))
      else Inl (RequestRefused ''action must be speeds, status, stop, or capture''))"

definition READ_ONLY_COMMANDER_COMMANDS :: "string list" where
  "READ_ONLY_COMMANDER_COMMANDS = [''mem'', ''mem8'', ''mem16'', ''mem32'', ''rreg'', ''regs'', ''savebin'', ''showconf'', ''showemulist'',
     ''showfwinfo'', ''showhwstatus'', ''sworead'', ''swospeed'', ''swostat'', ''uptime'', ''verifybin'']"

definition derived_destructive :: "string list \<Rightarrow> bool" where
  "derived_destructive commands =
     list_ex (\<lambda>c. map char_lower (first_word (str_strip c)) \<notin> set READ_ONLY_COMMANDER_COMMANDS)
       (filter (\<lambda>c. str_strip c \<noteq> []) commands)"

definition raw_request :: "string list \<Rightarrow> bool \<Rightarrow> commander_request" where
  "raw_request commands destructive = (commands, ''raw_commander'', destructive \<or> derived_destructive commands)"

definition submit :: "service_env \<Rightarrow> string set \<Rightarrow> device_selector \<Rightarrow> service_error + commander_request \<Rightarrow> command_result operation" where
  "submit env given sel request =
     (case request of
        Inl e \<Rightarrow> op_raise e
      | Inr (commands, action, destructive) \<Rightarrow> commander_commands env given sel commands action destructive)"

definition probe_list :: "service_env \<Rightarrow> command_result operation" where
  "probe_list env =
     (\<lambda>st. let n = sv_tick st; st = st \<lparr> sv_tick := Suc n \<rparr> in
       case execute (se_settings env) (se_fs env) (se_targets env) (se_run env n) (se_uuid env n @ ''.jlink'') probe_list_commands None of
         Inl e \<Rightarrow> (Inl (CommanderFailed e), st)
       | Inr (_, r) \<Rightarrow> op_bind (append env r ''probe_list'' None False None) (\<lambda>_. op_return r) st)"

definition disconnect :: "service_env \<Rightarrow> string set \<Rightarrow> device_selector \<Rightarrow> command_result operation" where
  "disconnect env given sel =
     op_bind (resolve_selector_wait env given sel) (\<lambda>resolved.
     op_bind (fresh_stamp env) (\<lambda>st.
     let r = make_result st ''session'' [''disconnect''] 0 [] []
               [(''disconnected'', JBool True), (''detail'', JStr ''Commander sessions disconnect after every command file''),
                (''selector'', selector_json resolved)] in
     op_bind (append env r ''disconnect'' (sel_probe_serial resolved) False None) (\<lambda>_. op_return r)))"

end
