(* ===== verification/Service_Sessions.thy ===== *)
theory Service_Sessions
  imports Service_Ops
begin

text \<open>
  Operations of \<^verbatim>\<open>service.py\<close> that combine a probe with another backend: serial exchanges (the core's own and
  an extension's), applications with retries, and the GDB and GUI sessions that keep a lease open.
\<close>

subsection \<open>Serial\<close>

primrec wait_board :: "nat \<Rightarrow> service_env \<Rightarrow> device_selector \<Rightarrow> string operation" where
  "wait_board 0 env sel = op_raise (BackendFailed ''selected board did not expose an accessible serial port'')"
| "wait_board (Suc n) env sel =
     op_bind (capabilities env) (\<lambda>(probes, boards).
     op_bind (ask (se_port_ready env)) (\<lambda>ready.
     case List.map_filter (\<lambda>b. case bd_port b of
            Some port \<Rightarrow> if bd_serial b = sel_board_serial sel \<and> port \<noteq> [] \<and> ready port then Some port else None
          | None \<Rightarrow> None) boards of
       port # _ \<Rightarrow> op_return port
     | [] \<Rightarrow> wait_board n env sel))"

definition matching_gdb :: "device_selector \<Rightarrow> service_state \<Rightarrow> string option" where
  "matching_gdb sel st =
     map_option fst (find (\<lambda>(sid, active). sel_probe_serial active = sel_probe_serial sel
        \<and> sel_board_serial active = sel_board_serial sel \<and> sel_core active = sel_core sel) (sv_gdb_selectors st))"

text \<open>The exchange itself, either inside the matching GDB session or under a lease after preflight and resume.
  The result is the session, the identity, the resume operation and what the exchange returned.\<close>

definition gated_serial ::
    "service_env \<Rightarrow> device_selector \<Rightarrow> string \<Rightarrow> string \<Rightarrow> (string \<Rightarrow> command_result operation)
     \<Rightarrow> (command_result \<times> json_object \<times> string option) operation" where
  "gated_serial env sel owner resume_action exch =
     op_bind (op_get (matching_gdb sel)) (\<lambda>session.
     case session of
       Some sid \<Rightarrow>
         op_bind (op_get (\<lambda>st. dict_get (sv_gdb_identities st) sid)) (\<lambda>identity.
         case identity of
           None \<Rightarrow> op_raise AssertionFailed
         | Some identity \<Rightarrow>
             op_bind (wait_board (se_polls env) env sel) (\<lambda>port.
             op_bind (exch port) (\<lambda>r. op_return (with_session sid r, identity, None))))
     | None \<Rightarrow>
         (case sel_probe_serial sel of
            None \<Rightarrow> op_raise AssertionFailed
          | Some probe \<Rightarrow>
              with_lease env probe owner (\<lambda>lease.
                op_bind (identity_preflight env sel (lease_id lease)) (\<lambda>identity.
                op_bind (resume_after_preflight env sel (lease_id lease) (res_parsed identity) resume_action) (\<lambda>resume.
                op_bind (wait_board (se_polls env) env sel) (\<lambda>port.
                op_bind (exch port) (\<lambda>r.
                op_return (with_session (lease_id lease) r, res_parsed identity, Some (res_operation_id resume)))))))))"

definition finish_serial :: "device_selector \<Rightarrow> command_result \<times> json_object \<times> string option \<Rightarrow> command_result" where
  "finish_serial sel x =
     (case x of (r, identity, resume) \<Rightarrow>
        let r = parsed_put ''selector'' (selector_json sel) r;
            r = (case resume of None \<Rightarrow> r | Some op \<Rightarrow> if op = [] then r else parsed_put ''resume_operation_id'' (JStr op) r)
        in attach_identities sel identity r)"

definition serial_backend_exchange :: "service_env \<Rightarrow> string option \<Rightarrow> int \<Rightarrow> int \<Rightarrow> string \<Rightarrow> command_result operation" where
  "serial_backend_exchange env write baudrate duration port =
     op_bind (ask (\<lambda>n. (se_serial env n port,
         \<lparr> stamp_operation_id = se_uuid env n, stamp_started = se_now env n, stamp_finished = se_now env n \<rparr>))) (\<lambda>(answer, st).
     op_lift (rcatch (exchange (se_decode env) (json_loads (se_store env)) st port write baudrate duration answer) SerialRefused))"

definition opt_text :: "string option \<Rightarrow> json" where
  "opt_text z = json_opt JStr z"

definition serial_exchange ::
    "service_env \<Rightarrow> string set \<Rightarrow> device_selector \<Rightarrow> string option \<Rightarrow> int \<Rightarrow> int \<Rightarrow> string option \<Rightarrow> command_result operation" where
  "serial_exchange env given sel write baudrate duration until =
     op_bind (resolve_selector_wait env given sel) (\<lambda>resolved.
     op_bind (gated_serial env resolved ''serial_exchange'' ''serial_resume'' (serial_backend_exchange env write baudrate duration)) (\<lambda>x.
     let r = finish_serial resolved x in
     op_bind (append env r ''serial_exchange'' (sel_probe_serial resolved) (write \<noteq> None)
       (Some [(''write'', opt_text write), (''duration'', JInt duration), (''until'', opt_text until)])) (\<lambda>_. op_return r)))"

definition audited_serial_operation ::
    "service_env \<Rightarrow> string set \<Rightarrow> device_selector \<Rightarrow> (string \<Rightarrow> command_result operation) \<Rightarrow> string \<Rightarrow> bool \<Rightarrow> json_object
     \<Rightarrow> command_result operation" where
  "audited_serial_operation env given sel exch action destructive request =
     op_bind (resolve_selector_wait env given sel) (\<lambda>resolved.
     op_bind (gated_serial env resolved action (action @ ''_resume'') exch) (\<lambda>x.
     let r = finish_serial resolved x in
     op_bind (append env r action (sel_probe_serial resolved) destructive
       (Some (dict_update [(''selector'', selector_json resolved)] request))) (\<lambda>_. op_return r)))"

subsection \<open>Applications\<close>

definition INFORMATIONAL_ARGUMENTS :: "string list" where
  "INFORMATIONAL_ARGUMENTS = [''-?'', ''-h'', ''--help'', ''-help'', ''--version'', ''-version'']"

record application_request =
  app_name :: string
  app_args :: "string list"
  app_destructive :: bool
  app_resume :: bool
  app_settle_ms :: int
  app_attempts :: int
  app_retry_ms :: int

definition check_application :: "application_request \<Rightarrow> service_error + unit" where
  "check_application a =
     rbind (refuse_unless (1 \<le> app_attempts a \<and> app_attempts a \<le> 3) ''attempts must be between 1 and 3'' ()) (\<lambda>_.
     rbind (refuse_unless (0 \<le> app_retry_ms a \<and> app_retry_ms a \<le> 5000) ''retry_delay_seconds must be between 0 and 5'' ()) (\<lambda>_.
     rbind (refuse_unless (\<not> (app_retry_ms a \<noteq> 0 \<and> app_attempts a = 1)) ''retry_delay_seconds requires more than one attempt'' ()) (\<lambda>_.
     rbind (refuse_unless (0 \<le> app_settle_ms a \<and> app_settle_ms a \<le> 5000) ''resume_settle_seconds must be between 0 and 5'' ()) (\<lambda>_.
     rbind (refuse_unless (\<not> (app_settle_ms a \<noteq> 0 \<and> \<not> app_resume a)) ''resume_settle_seconds requires resume_after_preflight'' ()) (\<lambda>_.
     refuse_unless (\<not> (\<not> app_destructive a \<and> (length (app_args a) \<noteq> 1 \<or> map char_lower (hd (app_args a)) \<notin> set INFORMATIONAL_ARGUMENTS)))
       ''non-destructive SEGGER application use is limited to one help/version argument'' ())))))"

definition attempt_json :: "(nat \<Rightarrow> string) \<Rightarrow> nat \<Rightarrow> command_result \<Rightarrow> json" where
  "attempt_json fmt k r = JObj
     [(''attempt'', JInt (int k)), (''started_at'', JStr (fmt (res_started_at r))), (''finished_at'', JStr (fmt (res_finished_at r))),
      (''duration_ms'', JInt (res_duration_ms r)), (''return_code'', json_opt JInt (res_return_code r)),
      (''timed_out'', JBool (res_timed_out r)), (''stdout'', JStr (res_stdout r)), (''stderr'', JStr (res_stderr r))]"

definition run_backend :: "(nat \<Rightarrow> string + 'a) \<Rightarrow> 'a operation" where
  "run_backend f = op_bind (ask f) (\<lambda>r. op_lift (rcatch r BackendFailed))"

text \<open>\<open>left\<close> further attempts after this one.\<close>

primrec run_attempts :: "nat \<Rightarrow> service_env \<Rightarrow> application_request \<Rightarrow> nat \<Rightarrow> json list \<Rightarrow> (command_result \<times> json list) operation" where
  "run_attempts 0 env a k evidence =
     op_bind (run_backend (\<lambda>n. se_application env n (app_name a) (app_args a))) (\<lambda>r.
     op_return (r, evidence @ [attempt_json (isoformat (se_store env)) k r]))"
| "run_attempts (Suc left) env a k evidence =
     op_bind (run_backend (\<lambda>n. se_application env n (app_name a) (app_args a))) (\<lambda>r.
     let evidence = evidence @ [attempt_json (isoformat (se_store env)) k r] in
     if result_ok r \<or> res_timed_out r then op_return (r, evidence) else run_attempts left env a (Suc k) evidence)"

definition application_body ::
    "service_env \<Rightarrow> device_selector \<Rightarrow> application_request \<Rightarrow> lease_info \<Rightarrow> (command_result \<times> command_result) operation" where
  "application_body env sel a lease =
     op_bind (identity_preflight env sel (lease_id lease)) (\<lambda>identity.
     op_bind (if app_resume a
              then op_bind (resume_after_preflight env sel (lease_id lease) (res_parsed identity) (''application_resume:'' @ app_name a))
                     (\<lambda>_. op_return ())
              else op_return ()) (\<lambda>_.
     op_bind (run_attempts (nat (app_attempts a) - 1) env a 1 []) (\<lambda>(r, evidence).
     op_return (parsed_default ''application_attempts'' (JList evidence) r, identity))))"

definition application_request_json :: "application_request \<Rightarrow> device_selector option \<Rightarrow> json_object" where
  "application_request_json a sel =
     [(''application'', JStr (app_name a)), (''args'', JList (map JStr (app_args a))),
      (''resume_after_preflight'', JBool (app_resume a)), (''resume_settle_seconds'', JInt (app_settle_ms a)),
      (''attempts'', JInt (app_attempts a)), (''retry_delay_seconds'', JInt (app_retry_ms a)),
      (''selector'', (case sel of None \<Rightarrow> JNull | Some s \<Rightarrow> selector_json s))]"

definition run_application :: "service_env \<Rightarrow> string set \<Rightarrow> device_selector \<Rightarrow> application_request \<Rightarrow> command_result operation" where
  "run_application env given sel a =
     op_bind (op_lift (check_application a)) (\<lambda>_.
     if app_destructive a then
       op_bind (resolve_selector_wait env given sel) (\<lambda>resolved.
       case sel_probe_serial resolved of
         None \<Rightarrow> op_raise AssertionFailed
       | Some probe \<Rightarrow>
           op_bind (with_lease env probe (''application:'' @ app_name a) (application_body env resolved a)) (\<lambda>(r, identity).
           let r = attach_identities resolved (res_parsed identity) (r \<lparr> res_session_id := res_session_id identity \<rparr>) in
           op_bind (append env r (''application:'' @ app_name a) (sel_probe_serial resolved) True
             (Some (application_request_json a (Some resolved)))) (\<lambda>_. op_return r)))
     else
       op_bind (run_backend (\<lambda>n. se_application env n (app_name a) (app_args a))) (\<lambda>r.
       op_bind (append env r (''application:'' @ app_name a) None False
         (Some (application_request_json a None))) (\<lambda>_. op_return r)))"

subsection \<open>GDB sessions\<close>

text \<open>\<open>op_guard m undo\<close> is \<^verbatim>\<open>try: m except BaseException: undo; raise\<close>.\<close>

definition op_guard :: "('s, 'a) computation \<Rightarrow> ('s \<Rightarrow> 's) \<Rightarrow> ('s, 'a) computation" where
  "op_guard m undo = (\<lambda>st. case m st of (Inl e, st') \<Rightarrow> (Inl e, undo st') | (Inr x, st') \<Rightarrow> (Inr x, st'))"

definition op_put :: "('s \<Rightarrow> 's) \<Rightarrow> ('s, unit) computation" where
  "op_put f = (\<lambda>st. (Inr (), f st))"

definition target_json :: "device_selector \<Rightarrow> json_object" where
  "target_json sel =
     [(''board_serial'', json_opt JStr (sel_board_serial sel)), (''target_profile'', json_opt JStr (sel_target_profile sel)),
      (''core'', json_opt JStr (sel_core sel))]"

text \<open>The record of a session event: a result with no output, for the probe and the target of the session.\<close>

definition session_event ::
    "stamp \<Rightarrow> string \<Rightarrow> string \<Rightarrow> string list \<Rightarrow> json_object \<Rightarrow> json_object \<Rightarrow> json_object \<Rightarrow> command_result" where
  "session_event st sid backend command parsed probe target =
     (make_result st backend command 0 [] [] parsed)
       \<lparr> res_session_id := Some sid, res_probe_identity := probe, res_target_identity := target \<rparr>"

definition gdb_session_info :: "service_env \<Rightarrow> string \<Rightarrow> json_object operation" where
  "gdb_session_info env sid =
     op_bind (ask (\<lambda>n. se_gdb_info env n sid)) (\<lambda>info.
     case info of None \<Rightarrow> op_raise (BackendFailed ''unknown GDB session'') | Some i \<Rightarrow> op_return i)"

definition upsert_gdb_session :: "service_env \<Rightarrow> string \<Rightarrow> string \<Rightarrow> json_object \<Rightarrow> unit operation" where
  "upsert_gdb_session env sid probe info =
     op_bind (ask (se_now env)) (\<lambda>now.
     op_put (\<lambda>st. st \<lparr> sv_store := upsert_session (se_store env) now sid probe ''jlink-gdb'' info (sv_store st) \<rparr>))"

definition start_gdb :: "service_env \<Rightarrow> string set \<Rightarrow> device_selector \<Rightarrow> string option \<Rightarrow> json_object operation" where
  "start_gdb env given sel elf_path =
     op_bind (resolve_selector_wait env given sel) (\<lambda>resolved.
     case sel_probe_serial resolved of
       None \<Rightarrow> op_raise AssertionFailed
     | Some probe \<Rightarrow>
         op_bind (op_lift (case elf_path of
             None \<Rightarrow> Inr None
           | Some raw \<Rightarrow> if raw = [] then Inr None
                       else rmap Some (rcatch (resolve_allowed_path (se_settings env) (se_fs env) raw True) PathFailed))) (\<lambda>path.
         op_bind (acquire_lease env probe ''gdb_session'') (\<lambda>lease.
         op_bind (op_guard
             (op_bind (identity_preflight env resolved (lease_id lease)) (\<lambda>identity.
              op_bind (run_backend (\<lambda>n. se_gdb_start env n resolved path)) (\<lambda>sid. op_return (identity, sid))))
             (release_lease (lease_id lease))) (\<lambda>(identity, sid).
         op_bind (op_put (\<lambda>st. st \<lparr> sv_gdb_leases := dict_set (sv_gdb_leases st) sid (lease_id lease),
             sv_gdb_selectors := dict_set (sv_gdb_selectors st) sid resolved,
             sv_gdb_identities := dict_set (sv_gdb_identities st) sid (res_parsed identity) \<rparr>)) (\<lambda>_.
         op_bind (gdb_session_info env sid) (\<lambda>info.
         op_bind (upsert_gdb_session env sid probe info) (\<lambda>_.
         op_bind (fresh_stamp env) (\<lambda>stamp.
         let shown = (case path of None \<Rightarrow> [] | Some p \<Rightarrow> show_path p);
             audit = session_event stamp sid ''jlink-gdb'' [''start-session'', shown] info
                       [(''serial'', JStr probe)] (target_json resolved) in
         op_bind (append env audit ''start_gdb_session'' (Some probe) True
             (Some [(''elf_path'', (case path of None \<Rightarrow> JNull | Some p \<Rightarrow> JStr (show_path p)))])) (\<lambda>_.
         op_return info)))))))))"

definition info_probe :: "json_object \<Rightarrow> string" where
  "info_probe info = json_text (lookup info ''probe_serial'')"

definition gdb_command :: "service_env \<Rightarrow> string \<Rightarrow> string \<Rightarrow> command_result operation" where
  "gdb_command env sid command =
     op_bind (run_backend (\<lambda>n. se_gdb_command env n sid command)) (\<lambda>r.
     op_bind (gdb_session_info env sid) (\<lambda>info.
     op_bind (append env r ''gdb_command'' (Some (info_probe info)) True
       (Some [(''session_id'', JStr sid), (''command'', JStr command)])) (\<lambda>_. op_return r)))"

definition capture_gdb_channel :: "service_env \<Rightarrow> string \<Rightarrow> string \<Rightarrow> int \<Rightarrow> string option \<Rightarrow> command_result operation" where
  "capture_gdb_channel env sid channel duration write =
     op_bind (run_backend (\<lambda>n. se_gdb_capture env n sid channel)) (\<lambda>r.
     op_bind (gdb_session_info env sid) (\<lambda>info.
     op_bind (append env r (''capture_'' @ channel) (Some (info_probe info)) (write \<noteq> None)
       (Some [(''session_id'', JStr sid), (''duration'', JInt duration)])) (\<lambda>_. op_return r)))"

definition forget_gdb :: "string \<Rightarrow> service_state \<Rightarrow> service_state" where
  "forget_gdb sid st =
     (let lid = dict_get (sv_gdb_leases st) sid;
          st = st \<lparr> sv_gdb_leases := dict_pop (sv_gdb_leases st) sid, sv_gdb_selectors := dict_pop (sv_gdb_selectors st) sid,
                  sv_gdb_identities := dict_pop (sv_gdb_identities st) sid \<rparr> in
      case lid of None \<Rightarrow> st | Some l \<Rightarrow> if l = [] then st else release_lease l st)"

definition bool_text :: "bool \<Rightarrow> string" where
  "bool_text b = (if b then ''True'' else ''False'')"

definition stop_gdb :: "service_env \<Rightarrow> string \<Rightarrow> bool \<Rightarrow> unit operation" where
  "stop_gdb env sid resume =
     op_bind (op_finally
         (op_bind (ask (\<lambda>n. se_gdb_info env n sid)) (\<lambda>info.
          op_bind (run_backend (\<lambda>n. case se_gdb_stop env n sid of None \<Rightarrow> Inr () | Some msg \<Rightarrow> Inl msg)) (\<lambda>_.
          op_bind (op_put (\<lambda>st. st \<lparr> sv_store := delete_session sid (sv_store st) \<rparr>)) (\<lambda>_. op_return info))))
         (forget_gdb sid)) (\<lambda>info.
     case info of
       None \<Rightarrow> op_return ()
     | Some i \<Rightarrow>
         if i = [] then op_return ()
         else op_bind (fresh_stamp env) (\<lambda>stamp.
           append env (session_event stamp sid ''jlink-gdb'' [''stop-session'', ''resume='' @ bool_text resume]
               [(''session_id'', JStr sid), (''resume'', JBool resume)] [(''serial'', lookup i ''probe_serial'')] [])
             ''stop_gdb_session'' (Some (info_probe i)) resume (Some [(''session_id'', JStr sid), (''resume'', JBool resume)])))"

subsection \<open>GUI sessions\<close>

definition start_gui :: "service_env \<Rightarrow> string set \<Rightarrow> device_selector \<Rightarrow> string \<Rightarrow> string list \<Rightarrow> json_object operation" where
  "start_gui env given sel application args =
     op_bind (resolve_selector_wait env given sel) (\<lambda>resolved.
     case sel_probe_serial resolved of
       None \<Rightarrow> op_raise AssertionFailed
     | Some probe \<Rightarrow>
         op_bind (acquire_lease env probe (''gui:'' @ application)) (\<lambda>lease.
         op_bind (op_guard
             (op_bind (identity_preflight env resolved (lease_id lease)) (\<lambda>identity.
              op_bind (run_backend (\<lambda>n. se_gui_launch env n application args)) (\<lambda>sid. op_return (identity, sid))))
             (release_lease (lease_id lease))) (\<lambda>(identity, sid).
         op_bind (op_put (\<lambda>st. st \<lparr> sv_gui_leases := dict_set (sv_gui_leases st) sid (lease_id lease),
             sv_gui_selectors := dict_set (sv_gui_selectors st) sid resolved \<rparr>)) (\<lambda>_.
         op_bind (fresh_stamp env) (\<lambda>stamp.
         let r = attach_identities resolved (res_parsed identity) (session_event stamp sid ''segger-gui'' (application # args) [] [] []) in
         op_bind (append env r ''launch_gui'' (Some probe) True
             (Some [(''application'', JStr application), (''args'', JList (map JStr args))])) (\<lambda>_.
         op_return [(''session_id'', JStr sid), (''operation_id'', JStr (res_operation_id r)), (''application'', JStr application),
            (''selector'', selector_json resolved)]))))))"

definition audit_gui_result :: "service_env \<Rightarrow> string \<Rightarrow> command_result \<Rightarrow> string \<Rightarrow> bool \<Rightarrow> command_result operation" where
  "audit_gui_result env sid result action destructive =
     op_bind (op_get (\<lambda>st. dict_get (sv_gui_selectors st) sid)) (\<lambda>selector.
     let r = with_session sid result;
         r = (case selector of None \<Rightarrow> r
              | Some s \<Rightarrow> r \<lparr> res_probe_identity := [(''serial'', json_opt JStr (sel_probe_serial s))], res_target_identity := target_json s \<rparr>) in
     op_bind (append env r action (case selector of None \<Rightarrow> None | Some s \<Rightarrow> sel_probe_serial s) destructive
        (Some [(''session_id'', JStr sid)])) (\<lambda>_. op_return r))"

text \<open>Keys, clicks, screenshots, the accessibility tree and image matching: the backend's result, recorded.\<close>

definition gui_operation :: "service_env \<Rightarrow> string \<Rightarrow> string \<Rightarrow> bool \<Rightarrow> command_result operation" where
  "gui_operation env sid action destructive =
     op_bind (run_backend (\<lambda>n. se_gui_action env n sid action)) (\<lambda>r. audit_gui_result env sid r action destructive)"

definition gui_keys :: "service_env \<Rightarrow> string \<Rightarrow> command_result operation" where
  "gui_keys env sid = gui_operation env sid ''gui_keys'' True"

definition gui_click :: "service_env \<Rightarrow> string \<Rightarrow> command_result operation" where
  "gui_click env sid = gui_operation env sid ''gui_click'' True"

definition gui_screenshot :: "service_env \<Rightarrow> string \<Rightarrow> command_result operation" where
  "gui_screenshot env sid = gui_operation env sid ''gui_screenshot'' False"

definition gui_accessibility :: "service_env \<Rightarrow> string \<Rightarrow> command_result operation" where
  "gui_accessibility env sid = gui_operation env sid ''gui_accessibility'' False"

definition gui_image_match :: "service_env \<Rightarrow> string \<Rightarrow> command_result operation" where
  "gui_image_match env sid = gui_operation env sid ''gui_image_match'' False"

text \<open>Text recognition reads a confined file and records its digest.\<close>

definition gui_ocr :: "service_env \<Rightarrow> string \<Rightarrow> command_result operation" where
  "gui_ocr env screenshot_path =
     op_bind (op_lift (rcatch (resolve_allowed_path (se_settings env) (se_fs env) screenshot_path True) PathFailed)) (\<lambda>path.
     op_bind (run_backend (\<lambda>n. se_gui_ocr env n path)) (\<lambda>r.
     op_bind (run_backend (\<lambda>n. se_file_digest env n path)) (\<lambda>digest.
     let r = r \<lparr> res_artifact_hashes := dict_set (res_artifact_hashes r) (show_path path) digest \<rparr> in
     op_bind (append env r ''gui_ocr'' None False (Some [(''screenshot_path'', JStr (show_path path))])) (\<lambda>_. op_return r))))"

definition gui_session_info :: "service_env \<Rightarrow> string \<Rightarrow> json_object operation" where
  "gui_session_info env sid =
     op_bind (run_backend (\<lambda>n. se_gui_info env n sid)) (\<lambda>info.
     op_bind (op_get (\<lambda>st. dict_get (sv_gui_selectors st) sid)) (\<lambda>selector.
     op_bind (fresh_stamp env) (\<lambda>stamp.
     op_bind (audit_gui_result env sid (session_event stamp sid ''segger-gui'' [''session-info''] info [] []) ''gui_session_info'' False) (\<lambda>r.
     op_return (dict_update info [(''operation_id'', JStr (res_operation_id r)),
        (''selector'', (case selector of None \<Rightarrow> JNull | Some s \<Rightarrow> selector_json s))])))))"

definition forget_gui :: "string \<Rightarrow> service_state \<Rightarrow> service_state" where
  "forget_gui sid st =
     (let lid = dict_get (sv_gui_leases st) sid; st = st \<lparr> sv_gui_leases := dict_pop (sv_gui_leases st) sid \<rparr> in
      case lid of None \<Rightarrow> st | Some l \<Rightarrow> if l = [] then st else release_lease l st)"

definition stop_gui :: "service_env \<Rightarrow> string \<Rightarrow> unit operation" where
  "stop_gui env sid =
     op_bind (op_get (\<lambda>st. dict_get (sv_gui_selectors st) sid)) (\<lambda>selector.
     op_bind (op_put (\<lambda>st. st \<lparr> sv_gui_selectors := dict_pop (sv_gui_selectors st) sid \<rparr>)) (\<lambda>_.
     op_bind (op_finally
         (run_backend (\<lambda>n. case se_gui_stop env n sid of None \<Rightarrow> Inr () | Some msg \<Rightarrow> Inl msg))
         (forget_gui sid)) (\<lambda>_.
     case selector of
       None \<Rightarrow> op_return ()
     | Some s \<Rightarrow> op_bind (fresh_stamp env) (\<lambda>stamp.
         append env (session_event stamp sid ''segger-gui'' [''stop-session''] [] [(''serial'', json_opt JStr (sel_probe_serial s))] (target_json s))
           ''stop_gui'' (sel_probe_serial s) False (Some [(''session_id'', JStr sid)])))))"

subsection \<open>Closing\<close>

fun each :: "('a \<Rightarrow> ('s, unit) computation) \<Rightarrow> 'a list \<Rightarrow> ('s, unit) computation" where
  "each f [] = op_return ()"
| "each f (x # xs) = op_bind (f x) (\<lambda>_. each f xs)"

definition close :: "service_env \<Rightarrow> unit operation" where
  "close env =
     op_bind (op_get (\<lambda>st. map fst (sv_gdb_leases st))) (\<lambda>sids.
     op_bind (each (\<lambda>sid. stop_gdb env sid True) sids) (\<lambda>_.
     op_bind (op_get (\<lambda>st. map fst (sv_gui_leases st))) (\<lambda>sids.
     op_bind (each (stop_gui env) sids) (\<lambda>_.
     run_backend (\<lambda>n. case se_gui_stop_all env n of None \<Rightarrow> Inr () | Some msg \<Rightarrow> Inl msg)))))"

text \<open>Starting the service on an existing store: sessions a crash left behind are cleared and their recovery
  recorded.\<close>

definition fresh_state :: "audit_store \<Rightarrow> service_state" where
  "fresh_state store = \<lparr> sv_leases = new_manager, sv_store = store, sv_gdb_leases = [], sv_gdb_selectors = [], sv_gdb_identities = [],
     sv_gui_leases = [], sv_gui_selectors = [], sv_tick = 0, sv_trace = [] \<rparr>"

definition session_json :: "store_env \<Rightarrow> session_row \<Rightarrow> service_error + json" where
  "session_json env r =
     (case json_loads env (srow_state_json r) of
        None \<Rightarrow> Inl (StoreFailed MalformedPayload)
      | Some state \<Rightarrow> Inr (JObj [(''session_id'', JStr (srow_session_id r)), (''probe_serial'', JStr (srow_probe_serial r)),
          (''backend'', JStr (srow_backend r)), (''state'', state)]))"

definition start_service :: "service_env \<Rightarrow> audit_store \<Rightarrow> (service_error + unit) \<times> service_state" where
  "start_service env store0 =
     (case clear_stale_sessions store0 of (stale, store) \<Rightarrow>
        op_bind (op_lift (traverse (session_json (se_store env)) stale)) (\<lambda>recovered.
        if recovered = [] then op_return ()
        else op_bind (fresh_stamp env) (\<lambda>stamp.
          append env (make_result stamp ''session-recovery'' [''clear-stale-sessions''] 0 [] []
              [(''recovered'', JList recovered)]) ''recover_stale_sessions'' None False None)) (fresh_state store))"

end
