(* ===== verification/Service_Contract.thy ===== *)
theory Service_Contract
  imports Service_Sessions
begin

text \<open>
  What every operation of the service keeps. \<open>over R m\<close> says that the operation \<open>m\<close> moves the state only along
  \<open>R\<close>, whether it returns or raises. The locale \<open>passing_contract\<close> covers the steps that neither write the log nor command a probe;
  \<open>operation_contract\<close> asks of \<open>R\<close> what the steps of the operations do to the state; inside it every operation that
  opens no session is shown to stay in \<open>R\<close>. Its extension \<open>session_contract\<close> covers the operations that open and close sessions.
\<close>

subsection \<open>Operations along a relation\<close>

definition over :: "('s \<Rightarrow> 's \<Rightarrow> bool) \<Rightarrow> ('s, 'a) computation \<Rightarrow> bool" where
  "over R m = (\<forall>st. R st (snd (m st)))"

lemma overI: "(\<And>st. R st (snd (m st))) \<Longrightarrow> over R m"
  by (simp add: over_def)

lemma overD: "over R m \<Longrightarrow> R st (snd (m st))"
  by (simp add: over_def)

lemma op_bind_cases:
  "op_bind m f st = (case m st of (Inl e, st') \<Rightarrow> (Inl e, st') | (Inr x, st') \<Rightarrow> f x st')"
  by (simp add: op_bind_def)

lemma op_bind_Inr:
  "op_bind m f st = (Inr y, st') \<longleftrightarrow> (\<exists>x st1. m st = (Inr x, st1) \<and> f x st1 = (Inr y, st'))"
  by (auto simp: op_bind_def split: prod.split sum.split)

lemma op_bind_returns: "m st = (Inr x, st1) \<Longrightarrow> op_bind m f st = f x st1"
  by (simp add: op_bind_def)

lemma op_bind_raises: "m st = (Inl e, st1) \<Longrightarrow> op_bind m f st = (Inl e, st1)"
  by (simp add: op_bind_def)

text \<open>The trace entry of a positive identification of a target.\<close>

definition identified_by :: "service_env \<Rightarrow> device_selector \<Rightarrow> string list \<times> device_selector \<times> command_result option \<Rightarrow> bool" where
  "identified_by env sel entry =
     (case entry of (commands, s, answer) \<Rightarrow> commands = identity_commands \<and> s = sel
        \<and> (case answer of None \<Rightarrow> False | Some r \<Rightarrow> validate_identity env r sel = Inr ()))"

definition just_identified :: "service_env \<Rightarrow> device_selector \<Rightarrow> service_state \<Rightarrow> bool" where
  "just_identified env sel st = (sv_trace st \<noteq> [] \<and> identified_by env sel (last (sv_trace st)))"

text \<open>The state effect of a leased section, for any effect of the section itself.\<close>

definition leased_state ::
    "service_env \<Rightarrow> string \<Rightarrow> string \<Rightarrow> (lease_info \<Rightarrow> service_state \<Rightarrow> service_state) \<Rightarrow> service_state \<Rightarrow> service_state" where
  "leased_state env probe owner g st =
     (case reentrant (se_task env) probe (sv_leases st) of
        Some info \<Rightarrow> g info st
      | None \<Rightarrow> (case acquire_lease env probe owner st of
           (Inl _, st') \<Rightarrow> st'
         | (Inr info, st') \<Rightarrow> release_lease (lease_id info) (g info st')))"

lemma snd_with_lease: "snd (with_lease env probe owner body st) = leased_state env probe owner (\<lambda>i s. snd (body i s)) st"
  by (auto simp: with_lease_def leased_state_def op_bind_def op_finally_def split: option.split prod.split sum.split)

text \<open>An identification that returns leaves the target just identified.\<close>

lemma dict_get_setdefault: "k \<noteq> k' \<Longrightarrow> dict_get (dict_setdefault d k' v) k = dict_get d k"
  by (simp add: dict_setdefault_def split: option.split)

lemma validate_identity_fields:
  assumes "result_ok r' = result_ok r"
    "\<And>k. k \<in> {''connected'', ''core'', ''cpuid'', ''dpidr'', ''target_voltage'', ''probe_serial''} \<Longrightarrow>
       dict_get (res_parsed r') k = dict_get (res_parsed r) k"
  shows "validate_identity env r' sel = validate_identity env r sel"
proof -
  have fails: "identity_failures p c sel r' = identity_failures p c sel r" for p c
    unfolding identity_failures_def parsed_number_def voltage_accepted_def lookup_def Let_def
    by (simp only: assms(1) assms(2) insert_iff simp_thms)
  show ?thesis unfolding validate_identity_def fails ..
qed

lemma validate_identity_attached:
  "validate_identity env (attach_identities sel i (with_session lid (parsed_default ''selector'' v r))) sel = validate_identity env r sel"
  by (rule validate_identity_fields)
    (auto simp: attach_identities_def with_session_def parsed_default_def result_ok_def dict_get_setdefault)

lemma run_commander_returns:
  assumes "run_commander env commands sel st = (Inr r, st')"
  shows "st' = st \<lparr> sv_tick := Suc (sv_tick st), sv_trace := sv_trace st @ [(commands, sel, Some r)] \<rparr>"
  using assms by (auto simp: run_commander_def Let_def split: sum.splits commander_error.splits prod.splits)

lemma append_state:
  "\<exists>store. snd (append env r action probe d request st) = st \<lparr> sv_tick := Suc (sv_tick st), sv_store := store \<rparr>
     \<and> (store = sv_store st \<or> (\<exists>now h. append_operation (se_store env) now r action probe d request (sv_store st) = Inr (h, store)))"
proof (cases "append_operation (se_store env) (se_now env (sv_tick st)) r action probe d request (sv_store st)")
  case (Inl e)
  then show ?thesis by (intro exI [of _ "sv_store st"]) (simp add: append_def op_bind_def ask_def)
next
  case (Inr x)
  then show ?thesis by (intro exI [of _ "snd x"]) (cases x, auto simp: append_def op_bind_def ask_def)
qed

lemma append_trace: "append env r action probe d request st = (x, st') \<Longrightarrow> sv_trace st' = sv_trace st"
  using append_state [of env r action probe d request st] by auto

lemma identity_preflight_returns:
  assumes "identity_preflight env sel lid st = (Inr identity, st')"
  shows "just_identified env sel st'"
proof -
  obtain r st1 where run: "run_commander env identity_commands sel st = (Inr r, st1)"
    using assms by (auto simp: identity_preflight_def op_bind_Inr)
  define i where "i = attach_identities sel (res_parsed (with_session lid (parsed_default ''selector'' (selector_json sel) r)))
    (with_session lid (parsed_default ''selector'' (selector_json sel) r))"
  obtain u where a: "append env i ''target_identity_preflight'' (sel_probe_serial sel) False (Some [(''selector'', selector_json sel)]) st1 = (Inr u, st')"
    and v: "validate_identity env i sel = Inr ()"
    using assms unfolding identity_preflight_def op_bind_returns [of "run_commander env identity_commands sel", OF run] Let_def i_def [symmetric]
    by (auto simp: op_bind_Inr op_lift_def op_return_def)
  have "validate_identity env r sel = Inr ()"
    using v by (simp add: i_def validate_identity_attached)
  moreover have "sv_trace st' = sv_trace st @ [(identity_commands, sel, Some r)]"
    using append_trace [OF a] run_commander_returns [OF run] by simp
  ultimately show ?thesis by (simp add: just_identified_def identified_by_def)
qed

subsection \<open>The contract of an operation without sessions\<close>

locale path_relation =
  fixes R :: "'s \<Rightarrow> 's \<Rightarrow> bool"
  assumes stays: "R st st"
    and chains: "R a b \<Longrightarrow> R b c \<Longrightarrow> R a c"
begin

lemma over_bind_at: "R st (snd (m st)) \<Longrightarrow> (\<And>x. over R (f x)) \<Longrightarrow> R st (snd (op_bind m f st))"
  by (auto simp: op_bind_def over_def split: prod.split sum.split intro: chains)

lemma over_bind: "over R m \<Longrightarrow> (\<And>x. over R (f x)) \<Longrightarrow> over R (op_bind m f)"
  by (rule overI) (rule over_bind_at, erule overD)

lemma over_basic: "over R (op_return x)" "over R (op_raise e)" "over R (op_lift r)" "over R (op_get f)" "over R (op_check c e)"
  by (simp_all add: over_def op_return_def op_raise_def op_lift_def op_get_def op_check_def stays)

lemma return_at: "R st (snd (op_return x st))"
  by (simp add: op_return_def stays)

lemma over_put: "(\<And>st. R st (f st)) \<Longrightarrow> over R (op_put f)"
  by (simp add: over_def op_put_def)

lemma over_guard: "over R m \<Longrightarrow> (\<And>st. R st (undo st)) \<Longrightarrow> over R (op_guard m undo)"
  by (rule overI) (auto simp: over_def op_guard_def split: prod.split sum.split, metis chains snd_conv, metis snd_conv)

lemma over_finally: "over R m \<Longrightarrow> (\<And>st. R st (undo st)) \<Longrightarrow> over R (op_finally m undo)"
  by (rule overI) (auto simp: over_def op_finally_def split: prod.split, metis chains snd_conv)

lemma over_each: "(\<And>x. over R (f x)) \<Longrightarrow> over R (each f xs)"
  by (induction xs) (auto intro!: over_bind over_basic)

end

text \<open>The steps that neither write the log nor command a probe.\<close>

locale passing_contract = path_relation R for R :: "service_state \<Rightarrow> service_state \<Rightarrow> bool" +
  fixes env :: service_env
  assumes ticks: "R st (st \<lparr> sv_tick := Suc (sv_tick st) \<rparr>)"
    and leases: "(\<And>info st. R st (g info st)) \<Longrightarrow> R st (leased_state env serial owner g st)"
begin

lemma over_ask: "over R (ask f)"
  by (simp add: over_def ask_def ticks)

lemma over_stamp: "over R (fresh_stamp e)"
  by (simp add: fresh_stamp_def over_ask)

lemma over_backend: "over R (run_backend f)"
  unfolding run_backend_def by (intro over_bind over_ask over_basic)

lemma over_capabilities: "over R (capabilities env)"
  unfolding capabilities_def
proof (intro over_bind over_ask)
  fix x :: "probe_info list \<times> board_info list \<times> string option"
  show "over R (case x of (probes, boards, merge) \<Rightarrow> \<lambda>st.
      case observations (se_store env) (take 1000 (rev (operations (sv_store st)))) [] of
        None \<Rightarrow> (Inl (StoreFailed MalformedPayload), st)
      | Some obs \<Rightarrow> (case merge of Some msg \<Rightarrow> (Inl (DiscoveryFailed msg), st)
                     | None \<Rightarrow> (Inr (map (enrich_probe obs) probes, boards), st)))"
    by (auto simp: over_def stays split: prod.split option.split)
qed

lemma over_resolve: "over R (resolve_selector env given sel)"
  unfolding resolve_selector_def
  by (intro over_bind over_capabilities) (simp add: over_def stays split: prod.split)

lemma over_resolve_wait: "over R (resolve_selector_wait env given sel)"
proof -
  have "over R (resolve_wait n env given sel)" for n
  proof (induction n)
    case 0
    show ?case by (simp add: over_resolve)
  next
    case (Suc n)
    show ?case
    proof (rule overI)
      fix st
      show "R st (snd (resolve_wait (Suc n) env given sel st))"
        using overD [OF over_resolve, of st given sel] overD [OF Suc]
        by (auto split: prod.split sum.split service_error.split intro: chains)
    qed
  qed
  then show ?thesis by (simp add: resolve_selector_wait_def)
qed

lemma over_wait_board: "over R (wait_board n env sel)"
  by (induction n) (auto intro!: over_bind over_capabilities over_ask over_basic split: list.split prod.split)

lemma over_leased: "(\<And>info. over R (body info)) \<Longrightarrow> over R (with_lease env probe owner body)"
  by (rule overI) (simp add: snd_with_lease leases overD)

text \<open>The commands a probe gets.\<close>

lemma commander_at:
  assumes "\<And>answer. R (st \<lparr> sv_tick := Suc (sv_tick st) \<rparr>)
      (st \<lparr> sv_tick := Suc (sv_tick st), sv_trace := sv_trace st @ [(commands, sel, answer)] \<rparr>)"
  shows "R st (snd (run_commander env commands sel st))"
  using chains [OF ticks assms] ticks [of st]
  by (simp add: run_commander_def Let_def split: sum.split commander_error.split prod.split)

lemma over_attempts: "over R (run_attempts n env a k evidence)"
  by (induction n arbitrary: k evidence) (auto simp: Let_def intro!: over_bind over_backend over_basic)

lemma over_gdb_info: "over R (gdb_session_info env sid)"
  unfolding gdb_session_info_def by (auto intro!: over_bind over_ask over_basic split: option.split)

end

locale operation_contract = passing_contract +
  assumes appends: "append_operation (se_store env) now r action probe d request (sv_store st) = Inr (h, store) \<Longrightarrow>
          R st (st \<lparr> sv_store := store \<rparr>)"
    and identifies: "R st (st \<lparr> sv_trace := sv_trace st @ [(identity_commands, sel, answer)] \<rparr>)"
    and commands_after: "just_identified env sel st \<Longrightarrow> R st (st \<lparr> sv_trace := sv_trace st @ [(commands, sel, answer)] \<rparr>)"
begin

lemma over_append: "over R (append env r action probe d request)"
proof (rule overI)
  fix st :: service_state
  obtain store where s: "snd (append env r action probe d request st) = st \<lparr> sv_tick := Suc (sv_tick st), sv_store := store \<rparr>"
    and c: "store = sv_store st \<or> (\<exists>now h. append_operation (se_store env) now r action probe d request (sv_store st) = Inr (h, store))"
    using append_state by blast
  let ?t = "st \<lparr> sv_tick := Suc (sv_tick st) \<rparr>"
  have "R ?t (?t \<lparr> sv_store := store \<rparr>)"
    using c stays [of ?t] appends [of _ r action probe d request ?t] by auto
  then show "R st (snd (append env r action probe d request st))"
    unfolding s using chains [OF ticks] by simp
qed

lemma over_identity_commands: "over R (run_commander env identity_commands sel)"
  by (rule overI, rule commander_at) (use identifies [of "_ \<lparr> sv_tick := _ \<rparr>"] in simp)

lemma commander_after: "just_identified env sel st \<Longrightarrow> R st (snd (run_commander env commands sel st))"
  by (rule commander_at) (use commands_after [of sel "st \<lparr> sv_tick := _ \<rparr>"] in \<open>simp add: just_identified_def\<close>)

lemma over_preflight: "over R (identity_preflight env sel lid)"
  unfolding identity_preflight_def Let_def by (intro over_bind over_identity_commands over_append over_basic)

lemma over_after_preflight:
  assumes "\<And>identity st. just_identified env sel st \<Longrightarrow> R st (snd (f identity st))"
  shows "over R (op_bind (identity_preflight env sel lid) f)"
proof (rule overI)
  fix st
  show "R st (snd (op_bind (identity_preflight env sel lid) f st))"
    using overD [OF over_preflight, of st sel lid] assms identity_preflight_returns [of env sel lid st]
    by (auto simp: op_bind_def split: prod.split sum.split intro: chains)
qed

lemma resume_after:
  "just_identified env sel st \<Longrightarrow> R st (snd (resume_after_preflight env sel lid identity action st))"
  unfolding resume_after_preflight_def Let_def
  by (rule over_bind_at, erule commander_after) (intro over_bind over_append over_basic)

lemma over_connect: "over R (connect_body env sel identity_commands d lease)"
  unfolding connect_body_def Let_def by (intro over_bind over_identity_commands over_append over_basic)

lemma over_guarded: "over R (guarded_body env sel commands lease)"
  unfolding guarded_body_def
  by (rule over_after_preflight, rule over_bind_at, erule commander_after) (intro over_bind over_basic)

text \<open>Every operation that opens no session.\<close>

lemma over_commander_commands:
  assumes "action = ''connect'' \<longrightarrow> commands = identity_commands"
  shows "over R (commander_commands env given sel commands action d)"
proof -
  have "over R (connect_body env resolved commands d lease)" if "action = ''connect''" for resolved lease
    using assms that over_connect by simp
  then show ?thesis
    unfolding commander_commands_def Let_def
    by (auto intro!: over_bind over_resolve_wait over_basic over_leased over_guarded over_append split: option.split prod.split)
qed

lemma over_probe_list: "over R (probe_list env)"
proof -
  have "over R (op_bind (append env r ''probe_list'' None False None) (\<lambda>_. op_return r))" for r
    by (intro over_bind over_append over_basic)
  then show ?thesis
    unfolding probe_list_def Let_def
    by (auto simp: over_def intro: chains ticks split: sum.split)
qed

lemma over_disconnect: "over R (disconnect env given sel)"
  unfolding disconnect_def Let_def by (intro over_bind over_resolve_wait over_stamp over_append over_basic)

lemma over_gated_serial:
  assumes "\<And>port. over R (exch port)"
  shows "over R (gated_serial env sel owner action exch)"
proof -
  have "over R (with_lease env probe owner (\<lambda>lease.
      op_bind (identity_preflight env sel (lease_id lease)) (\<lambda>identity.
      op_bind (resume_after_preflight env sel (lease_id lease) (res_parsed identity) action) (\<lambda>resume.
      op_bind (wait_board (se_polls env) env sel) (\<lambda>port.
      op_bind (exch port) (\<lambda>r.
      op_return (with_session (lease_id lease) r, res_parsed identity, Some (res_operation_id resume))))))))" for probe
    by (rule over_leased, rule over_after_preflight, rule over_bind_at, erule resume_after)
      (intro over_bind over_wait_board over_basic assms)
  then show ?thesis
    unfolding gated_serial_def
    by (auto intro!: over_bind over_basic over_wait_board assms split: option.split)
qed

lemma over_serial_exchange: "over R (serial_exchange env given sel write baudrate duration until)"
  unfolding serial_exchange_def serial_backend_exchange_def Let_def
  by (auto intro!: over_bind over_resolve_wait over_gated_serial over_ask over_basic over_append split: prod.split)

lemma over_audited_serial:
  "(\<And>port. over R (exch port)) \<Longrightarrow> over R (audited_serial_operation env given sel exch action d request)"
  unfolding audited_serial_operation_def Let_def
  by (intro over_bind over_resolve_wait over_gated_serial over_basic over_append)

lemma over_application_body: "over R (application_body env sel a lease)"
  unfolding application_body_def
proof (rule over_after_preflight)
  fix identity st assume "just_identified env sel st"
  then have "R st (snd (op_bind (resume_after_preflight env sel (lease_id lease) (res_parsed identity) (''application_resume:'' @ app_name a))
      (\<lambda>_. op_return ()) st))"
    by (intro over_bind_at resume_after over_basic)
  then show "R st (snd (op_bind (if app_resume a
        then op_bind (resume_after_preflight env sel (lease_id lease) (res_parsed identity) (''application_resume:'' @ app_name a)) (\<lambda>_. op_return ())
        else op_return ())
      (\<lambda>_. op_bind (run_attempts (nat (app_attempts a) - 1) env a 1 [])
        (\<lambda>(r, evidence). op_return (parsed_default ''application_attempts'' (JList evidence) r, identity))) st))"
    by (intro over_bind_at) (auto simp: return_at intro!: over_bind over_attempts over_basic split: prod.split)
qed

lemma over_application: "over R (run_application env given sel a)"
  unfolding run_application_def Let_def
  by (auto intro!: over_bind over_resolve_wait over_basic over_leased over_application_body over_append over_backend split: option.split prod.split)

text \<open>Questions to an open session.\<close>

lemma over_gdb_command: "over R (gdb_command env sid command)"
  unfolding gdb_command_def by (intro over_bind over_backend over_gdb_info over_append over_basic)

lemma over_capture: "over R (capture_gdb_channel env sid channel duration write)"
  unfolding capture_gdb_channel_def by (intro over_bind over_backend over_gdb_info over_append over_basic)

lemma over_audit_gui: "over R (audit_gui_result env sid r action d)"
  unfolding audit_gui_result_def Let_def by (intro over_bind over_append over_basic)

lemma over_gui_operation: "over R (gui_operation env sid action d)"
  unfolding gui_operation_def by (intro over_bind over_backend over_audit_gui)

lemma over_gui_ocr: "over R (gui_ocr env path)"
  unfolding gui_ocr_def Let_def by (intro over_bind over_backend over_append over_basic)

lemma over_gui_session_info: "over R (gui_session_info env sid)"
  unfolding gui_session_info_def by (intro over_bind over_backend over_basic over_stamp over_audit_gui)

end

subsection \<open>The contract of operations with sessions\<close>

locale session_contract = operation_contract +
  assumes books: "sv_store st' = sv_store st \<Longrightarrow> sv_trace st' = sv_trace st \<Longrightarrow> R st st'"
    and upserts: "R st (st \<lparr> sv_store := upsert_session (se_store env) now sid probe b info (sv_store st) \<rparr>)"
    and deletes: "R st (st \<lparr> sv_store := delete_session sid (sv_store st) \<rparr>)"
begin

lemma over_acquire: "over R (acquire_lease env serial owner)"
  by (rule overI) (auto simp: acquire_lease_def op_bind_def ask_def intro!: books split: prod.split sum.split)

lemma released: "R st (release_lease lid st)"
  by (rule books) (simp_all add: release_lease_def)

lemma forgotten: "R st (forget_gdb sid st)" "R st (forget_gui sid st)"
  by (rule books; simp add: forget_gdb_def forget_gui_def release_lease_def Let_def split: option.split)+

lemma over_upsert: "over R (upsert_gdb_session env sid probe info)"
  unfolding upsert_gdb_session_def by (intro over_bind over_ask over_put upserts)

lemma over_start_gdb: "over R (start_gdb env given sel elf)"
  unfolding start_gdb_def Let_def
  by (auto intro!: over_bind over_resolve_wait over_basic over_acquire over_guard over_preflight over_backend released
        over_put books over_gdb_info over_upsert over_stamp over_append split: option.split prod.split)

lemma over_stop_gdb: "over R (stop_gdb env sid resume)"
  unfolding stop_gdb_def
  by (auto intro!: over_bind over_finally over_ask over_backend over_put deletes over_basic forgotten over_stamp over_append split: option.split)

lemma over_start_gui: "over R (start_gui env given sel application args)"
  unfolding start_gui_def Let_def
  by (auto intro!: over_bind over_resolve_wait over_basic over_acquire over_guard over_preflight over_backend released
        over_put books over_stamp over_append split: option.split prod.split)

lemma over_stop_gui: "over R (stop_gui env sid)"
  unfolding stop_gui_def
  by (auto intro!: over_bind over_finally over_backend over_put books over_basic forgotten over_stamp over_append split: option.split)

lemma over_close: "over R (close env)"
  unfolding close_def by (intro over_bind over_basic over_each over_stop_gdb over_stop_gui over_backend)

end

lemma leased_state_books:
  assumes chains: "\<And>a b c. R a b \<Longrightarrow> R b c \<Longrightarrow> R a c"
    and books: "\<And>st st'. sv_store st' = sv_store st \<Longrightarrow> sv_trace st' = sv_trace st \<Longrightarrow> R st st'"
    and g: "\<And>info st. R st (g info st)"
  shows "R st (leased_state env serial owner g st)"
proof (cases "reentrant (se_task env) serial (sv_leases st)")
  case (Some info)
  then show ?thesis by (simp add: leased_state_def g)
next
  case None
  obtain x st1 where a: "acquire_lease env serial owner st = (x, st1)" by force
  then have "sv_store st1 = sv_store st \<and> sv_trace st1 = sv_trace st"
    by (auto simp: acquire_lease_def op_bind_def ask_def split: prod.splits sum.splits)
  then have 1: "R st st1" by (simp add: books)
  have "R st1 (release_lease lid (g info st1))" for lid info
    by (rule chains [OF g books]) (simp_all add: release_lease_def)
  then show ?thesis using None a 1 by (cases x) (auto simp: leased_state_def intro: chains)
qed

end
