(* ===== verification/Service_Safety.thy ===== *)
theory Service_Safety
  imports Service_Contract
begin

text \<open>
  The guarantees of the service over any sequence of its operations: the audit log stays a verifying chain that
  only grows, no command reaches a target that was not just identified, and the live probe leases are those
  of the open sessions. Each is a relation that satisfies the contract of Service_Contract.
\<close>

subsection \<open>Calls\<close>

text \<open>\<open>service_call env f\<close>: \<open>f\<close> is what one operation does to the state. The operation of an extension that runs on
  the serial port is a question to the serial backend.\<close>

inductive service_call :: "service_env \<Rightarrow> (service_state \<Rightarrow> service_state) \<Rightarrow> bool" for env where
  call_commander: "action \<noteq> ''connect'' \<Longrightarrow> service_call env (\<lambda>st. snd (commander_commands env given sel commands action d st))"
| call_connect: "service_call env (\<lambda>st. snd (submit env given sel (Inr connect_request) st))"
| call_probe_list: "service_call env (\<lambda>st. snd (probe_list env st))"
| call_disconnect: "service_call env (\<lambda>st. snd (disconnect env given sel st))"
| call_serial: "service_call env (\<lambda>st. snd (serial_exchange env given sel write baudrate duration until st))"
| call_extension: "service_call env (\<lambda>st. snd (audited_serial_operation env given sel (\<lambda>port. run_backend (f port)) action d request st))"
| call_application: "service_call env (\<lambda>st. snd (run_application env given sel a st))"
| call_start_gdb: "service_call env (\<lambda>st. snd (start_gdb env given sel elf st))"
| call_gdb_command: "service_call env (\<lambda>st. snd (gdb_command env sid command st))"
| call_capture: "service_call env (\<lambda>st. snd (capture_gdb_channel env sid channel duration write st))"
| call_stop_gdb: "service_call env (\<lambda>st. snd (stop_gdb env sid resume st))"
| call_start_gui: "service_call env (\<lambda>st. snd (start_gui env given sel application args st))"
| call_gui: "service_call env (\<lambda>st. snd (gui_operation env sid action d st))"
| call_gui_info: "service_call env (\<lambda>st. snd (gui_session_info env sid st))"
| call_ocr: "service_call env (\<lambda>st. snd (gui_ocr env path st))"
| call_stop_gui: "service_call env (\<lambda>st. snd (stop_gui env sid st))"
| call_close: "service_call env (\<lambda>st. snd (close env st))"

text \<open>Calls of any tasks one after the other, from a service started on a store the program can have left.\<close>

inductive service_reachable :: "service_env \<Rightarrow> service_state \<Rightarrow> bool" for env where
  reach_start: "store_reachable (se_store env) store \<Longrightarrow> start_service env store = (r, st) \<Longrightarrow> service_reachable env st"
| reach_call: "service_reachable env st \<Longrightarrow> service_call (env \<lparr> se_task := t \<rparr>) f \<Longrightarrow> service_reachable env (f st)"

context session_contract
begin

lemmas operations_stay = over_probe_list [THEN overD] over_disconnect [THEN overD] over_serial_exchange [THEN overD]
  over_application [THEN overD] over_start_gdb [THEN overD] over_gdb_command [THEN overD] over_capture [THEN overD]
  over_stop_gdb [THEN overD] over_start_gui [THEN overD] over_gui_operation [THEN overD] over_gui_session_info [THEN overD]
  over_gui_ocr [THEN overD] over_stop_gui [THEN overD] over_close [THEN overD]

lemma call_stays: "service_call env f \<Longrightarrow> R st (f st)"
proof (induction rule: service_call.induct)
  case (call_connect given sel)
  have "over R (commander_commands env given sel identity_commands ''connect'' False)"
    by (rule over_commander_commands) simp
  then show ?case by (simp add: submit_def connect_request_def over_def)
next
  case (call_extension given sel f action d request)
  have "over R (audited_serial_operation env given sel (\<lambda>port. run_backend (f port)) action d request)"
    by (rule over_audited_serial) (rule over_backend)
  then show ?case by (rule overD)
qed (auto intro: operations_stay over_commander_commands [THEN overD])

end

subsection \<open>The log grows\<close>

definition audit_grows :: "service_env \<Rightarrow> service_state \<Rightarrow> service_state \<Rightarrow> bool" where
  "audit_grows env st st' \<longleftrightarrow>
     (store_inv (se_store env) (sv_store st) \<longrightarrow> store_inv (se_store env) (sv_store st'))
     \<and> (\<exists>rows. operations (sv_store st') = operations (sv_store st) @ rows)"

interpretation audit: session_contract "audit_grows env" env for env
proof unfold_locales
  fix a b c st st' :: service_state and now r action probe d request h store g serial owner and i :: json_object
    and sel answer commands sid p n
  show "audit_grows env st st" by (simp add: audit_grows_def)
  show chains: "audit_grows env a c" if "audit_grows env a b" "audit_grows env b c" for a b c
    using that unfolding audit_grows_def by (metis append_assoc)
  show books: "audit_grows env st st'" if "sv_store st' = sv_store st" "sv_trace st' = sv_trace st" for st st'
    using that by (simp add: audit_grows_def)
  show "audit_grows env st (st \<lparr> sv_tick := Suc (sv_tick st) \<rparr>)"
    "audit_grows env st (st \<lparr> sv_trace := sv_trace st @ [(identity_commands, sel, answer)] \<rparr>)"
    "audit_grows env st (st \<lparr> sv_trace := sv_trace st @ [(commands, sel, answer)] \<rparr>)"
    by (simp_all add: audit_grows_def)
  show "audit_grows env st (leased_state env serial owner g st)" if "\<And>info st. audit_grows env st (g info st)"
    using chains books that by (rule leased_state_books)
  show "audit_grows env st (st \<lparr> sv_store := store \<rparr>)"
    if "append_operation (se_store env) now r action probe d request (sv_store st) = Inr (h, store)"
    using that store_inv_append [OF _ that] by (auto simp: audit_grows_def append_operation_Inr)
  show "audit_grows env st (st \<lparr> sv_store := upsert_session (se_store env) now sid p n i (sv_store st) \<rparr>)"
    using store_inv_step [OF step_upsert] by (auto simp: audit_grows_def upsert_session_def)
  show "audit_grows env st (st \<lparr> sv_store := delete_session sid (sv_store st) \<rparr>)"
    using store_inv_step [OF step_delete] by (auto simp: audit_grows_def delete_session_def)
qed

lemma audit_grows_task: "audit_grows (env \<lparr> se_task := t \<rparr>) = audit_grows env"
  by (simp add: audit_grows_def fun_eq_iff)

lemma start_audited:
  assumes "store_inv (se_store env) store" "start_service env store = (r, st)"
  shows "store_inv (se_store env) (sv_store st)"
    "\<exists>rows. operations (sv_store st) = operations store @ rows"
proof -
  obtain stale s where c: "clear_stale_sessions store = (stale, s)" by force
  have inv: "store_inv (se_store env) s" and ops: "operations s = operations store"
    using store_inv_step [OF step_clear assms(1)] c by (auto simp: clear_stale_sessions_def)
  have "over (audit_grows env) (op_bind (op_lift (traverse (session_json (se_store env)) stale)) (\<lambda>recovered.
        if recovered = [] then op_return ()
        else op_bind (fresh_stamp env) (\<lambda>stamp.
          append env (make_result stamp ''session-recovery'' [''clear-stale-sessions''] 0 [] []
              [(''recovered'', JList recovered)]) ''recover_stale_sessions'' None False None)))"
    by (auto intro!: audit.over_bind audit.over_basic audit.over_stamp audit.over_append)
  from overD [OF this, of "fresh_state s"] have "audit_grows env (fresh_state s) st"
    using assms(2) by (simp add: start_service_def c)
  then show "store_inv (se_store env) (sv_store st)" "\<exists>rows. operations (sv_store st) = operations store @ rows"
    using inv ops by (simp_all add: audit_grows_def fresh_state_def)
qed

subsection \<open>Commands follow an identification\<close>

definition gated :: "service_env \<Rightarrow> (string list \<times> device_selector \<times> command_result option) list \<Rightarrow> bool" where
  "gated env t = (\<forall>i < length t. fst (t ! i) \<noteq> identity_commands \<longrightarrow> 0 < i \<and> identified_by env (fst (snd (t ! i))) (t ! (i - 1)))"

lemma gated_snoc:
  "gated env (t @ [x]) \<longleftrightarrow>
     gated env t \<and> (fst x \<noteq> identity_commands \<longrightarrow> t \<noteq> [] \<and> identified_by env (fst (snd x)) (last t))"
proof (cases "t = []")
  case False
  have "(t @ [x]) ! i = (if i < length t then t ! i else x)" if "i < Suc (length t)" for i
    using that by (auto simp: nth_append less_Suc_eq)
  moreover have "(t @ [x]) ! (i - 1) = t ! (i - 1)" if "i < Suc (length t)" for i
    using that False by (cases i) (auto simp: nth_append)
  ultimately show ?thesis using False
    by (auto simp: gated_def last_conv_nth less_Suc_eq)
qed (simp add: gated_def)

definition commands_gated :: "service_env \<Rightarrow> service_state \<Rightarrow> service_state \<Rightarrow> bool" where
  "commands_gated env st st' \<longleftrightarrow> (gated env (sv_trace st) \<longrightarrow> gated env (sv_trace st'))"

interpretation gate: session_contract "commands_gated env" env for env
proof unfold_locales
  show chains: "commands_gated env a c" if "commands_gated env a b" "commands_gated env b c" for a b c
    using that by (simp add: commands_gated_def)
  show books: "commands_gated env st st'" if "sv_store st' = sv_store st" "sv_trace st' = sv_trace st" for st st'
    using that by (simp add: commands_gated_def)
  show "commands_gated env st (leased_state env serial owner g st)" if "\<And>info st. commands_gated env st (g info st)"
    for st serial owner g using chains books that by (rule leased_state_books)
  show "commands_gated env st (st \<lparr> sv_trace := sv_trace st @ [(commands, sel, answer)] \<rparr>)"
    if "just_identified env sel st" for st sel commands answer
    using that by (simp add: commands_gated_def gated_snoc just_identified_def)
qed (simp_all add: commands_gated_def gated_snoc)

lemma gated_task: "gated (env \<lparr> se_task := t \<rparr>) = gated env"
proof -
  have targets: "se_targets (env \<lparr> se_task := t \<rparr>) = se_targets env" by simp
  have "validate_identity (env \<lparr> se_task := t \<rparr>) = validate_identity env"
    by (rule ext)+ (unfold validate_identity_def targets, rule refl)
  then show ?thesis unfolding gated_def identified_by_def by (simp only:)
qed

lemma start_gated: "start_service env store = (r, st) \<Longrightarrow> gated env (sv_trace st)"
proof -
  assume s: "start_service env store = (r, st)"
  obtain stale s where c: "clear_stale_sessions store = (stale, s)" by force
  have "over (commands_gated env) (op_bind (op_lift (traverse (session_json (se_store env)) stale)) (\<lambda>recovered.
        if recovered = [] then op_return ()
        else op_bind (fresh_stamp env) (\<lambda>stamp.
          append env (make_result stamp ''session-recovery'' [''clear-stale-sessions''] 0 [] []
              [(''recovered'', JList recovered)]) ''recover_stale_sessions'' None False None)))"
    by (auto intro!: gate.over_bind gate.over_basic gate.over_stamp gate.over_append)
  from overD [OF this, of "fresh_state s"] show ?thesis
    using s by (simp add: start_service_def c commands_gated_def fresh_state_def gated_def)
qed

lemma gated_reachable: "service_reachable env st \<Longrightarrow> gated env (sv_trace st)"
proof (induction rule: service_reachable.induct)
  case (reach_start store r st)
  then show ?case by (auto dest: start_gated)
next
  case (reach_call st t f)
  then show ?case using gate.call_stays [of "env \<lparr> se_task := t \<rparr>" f st]
    by (simp add: commands_gated_def gated_task)
qed

lemma store_inv_service: "service_reachable env st \<Longrightarrow> store_inv (se_store env) (sv_store st)"
proof (induction rule: service_reachable.induct)
  case (reach_start store r st)
  then show ?case by (auto dest: start_audited store_inv_reachable)
next
  case (reach_call st t f)
  then show ?case using audit.call_stays [of "env \<lparr> se_task := t \<rparr>" f st]
    by (simp add: audit_grows_def)
qed

end
