(* ===== verification/Service_Leases.thy ===== *)
theory Service_Leases
  imports Service_Safety
begin

text \<open>
  The probe leases of the service. An operation that opens no session gives back every lease it takes, also when
  it raises; the operations on GDB and GUI sessions keep exactly one live lease per open session.
\<close>

subsection \<open>Leases are returned\<close>

text \<open>\<open>lease_ready\<close>: no task is between being granted a lock and registering its lease, and every live lease id is
  an identifier given out before now.\<close>

definition lease_ready :: "service_env \<Rightarrow> service_state \<Rightarrow> bool" where
  "lease_ready env st \<longleftrightarrow> lease_inv (sv_leases st) \<and> granted (sv_leases st) = []
     \<and> (\<forall>lid. dict_has (by_id (sv_leases st)) lid \<longrightarrow> lid \<in> se_uuid env ` {..<sv_tick st})"

definition same_leases :: "lease_state \<Rightarrow> lease_state \<Rightarrow> bool" where
  "same_leases l l' \<longleftrightarrow> dict_get (by_id l') = dict_get (by_id l) \<and> dict_get (active l') = dict_get (active l)
     \<and> dict_get (lease_tasks l') = dict_get (lease_tasks l)"

lemma same_leases_keys: "same_leases l l' \<Longrightarrow> dict_has (by_id l') lid \<longleftrightarrow> dict_has (by_id l) lid"
  using dict_get_None [of "by_id l" lid] dict_get_None [of "by_id l'" lid] by (simp add: same_leases_def)

definition lease_kept :: "service_env \<Rightarrow> service_state \<Rightarrow> service_state \<Rightarrow> bool" where
  "lease_kept env st st' \<longleftrightarrow> sv_tick st \<le> sv_tick st' \<and> sv_gdb_leases st' = sv_gdb_leases st \<and> sv_gui_leases st' = sv_gui_leases st
     \<and> (inj (se_uuid env) \<longrightarrow> lease_ready env st \<longrightarrow> lease_ready env st' \<and> same_leases (sv_leases st) (sv_leases st'))"

lemma lease_kept_trans: "lease_kept env a b \<Longrightarrow> lease_kept env b c \<Longrightarrow> lease_kept env a c"
  unfolding lease_kept_def same_leases_def by auto

lemma lease_kept_other:
  assumes "sv_leases st' = sv_leases st" "sv_tick st \<le> sv_tick st'" "sv_gdb_leases st' = sv_gdb_leases st" "sv_gui_leases st' = sv_gui_leases st"
  shows "lease_kept env st st'"
proof -
  have "x \<in> se_uuid env ` {..<sv_tick st'}" if "x \<in> se_uuid env ` {..<sv_tick st}" for x
    using that assms(2) by auto
  then show ?thesis using assms unfolding lease_kept_def lease_ready_def same_leases_def by simp
qed

text \<open>Acquiring a free probe adds one lease, under an identifier not used before; otherwise nothing changes.\<close>

definition lease_added :: "task \<Rightarrow> string \<Rightarrow> lease_info \<Rightarrow> lease_state \<Rightarrow> lease_state \<Rightarrow> bool" where
  "lease_added t probe info l l' \<longleftrightarrow> lease_probe info = probe
     \<and> dict_get (by_id l) (lease_id info) = None \<and> dict_get (active l) probe = None \<and> dict_get (lease_tasks l) (lease_id info) = None
     \<and> dict_get (by_id l') = (dict_get (by_id l))(lease_id info \<mapsto> info)
     \<and> dict_get (active l') = (dict_get (active l))(probe \<mapsto> info)
     \<and> dict_get (lease_tasks l') = (dict_get (lease_tasks l))(lease_id info \<mapsto> t)"

lemma acquire_lease_frame:
  assumes "acquire_lease env probe owner st = (r, st')"
  shows "sv_store st' = sv_store st" "sv_trace st' = sv_trace st" "sv_tick st' = Suc (sv_tick st)"
    "sv_gdb_leases st' = sv_gdb_leases st" "sv_gui_leases st' = sv_gui_leases st"
  using assms by (auto simp: acquire_lease_def op_bind_def ask_def split: prod.splits sum.splits)

lemma acquire_lease_result:
  assumes ready: "lease_ready env st" and inj: "inj (se_uuid env)"
    and a: "acquire_lease env probe owner st = (r, st')"
  shows "lease_ready env st' \<and> (case r of Inl _ \<Rightarrow> same_leases (sv_leases st) (sv_leases st')
    | Inr info \<Rightarrow> lease_id info = se_uuid env (sv_tick st) \<and> lease_added (se_task env) probe info (sv_leases st) (sv_leases st'))"
proof -
  let ?n = "sv_tick st" and ?l = "lock_for probe (sv_leases st)"
  have inv: "lease_inv ?l" and idle: "granted ?l = []" and same: "by_id ?l = by_id (sv_leases st)" "active ?l = active (sv_leases st)"
      "lease_tasks ?l = lease_tasks (sv_leases st)"
    using ready lease_inv_lock_for by (simp_all add: lease_ready_def lock_for_def)
  have fresh: "\<not> dict_has (by_id (sv_leases st)) (se_uuid env ?n)"
    using ready inj by (auto simp: lease_ready_def dest: injD)
  then have "\<not> dict_has (lease_tasks (sv_leases st)) (se_uuid env ?n)"
    using lease_invD(5) [OF inv] by (simp add: same)
  note none = fresh [folded dict_get_None] this [folded dict_get_None]
  have older: "x \<in> se_uuid env ` {..<Suc ?n}" if "dict_has (by_id (sv_leases st)) x" for x
    using ready that by (auto simp: lease_ready_def)
  show ?thesis
  proof (cases "grant (se_task env) probe owner ?l")
    case None
    then have "st' = st \<lparr> sv_tick := Suc ?n, sv_leases := ?l \<rparr>" "r = Inl (LeaseFailed (acquire_timeout probe ?l))"
      using a by (auto simp: acquire_lease_def op_bind_def ask_def lease_enter_def Let_def)
    then show ?thesis using inv idle older by (simp add: lease_ready_def same_leases_def same)
  next
    case (Some g)
    have g: "g = ?l \<lparr> locks := dict_set (locks ?l) probe True, granted := [(se_task env, probe, owner)] \<rparr>"
      "dict_get (locks ?l) probe = Some False"
      using Some idle by (auto simp: grant_def split: if_splits)
    define info where "info = \<lparr> lease_id = se_uuid env ?n, lease_probe = probe, lease_owner = owner, acquired_at = se_now env ?n \<rparr>"
    define l where "l = snd (register (se_task env) probe owner (se_uuid env ?n) (se_now env ?n) g)"
    have st': "st' = st \<lparr> sv_tick := Suc ?n, sv_leases := l \<rparr>" "r = Inr info"
      using a Some by (auto simp: acquire_lease_def op_bind_def ask_def lease_enter_def l_def info_def register_def Let_def)
    have l: "by_id l = dict_set (by_id (sv_leases st)) (se_uuid env ?n) info" "active l = dict_set (active (sv_leases st)) probe info"
      "lease_tasks l = dict_set (lease_tasks (sv_leases st)) (se_uuid env ?n) (se_task env)" "granted l = []"
      by (simp_all add: l_def register_def info_def g same Let_def)
    have "lease_inv l" unfolding l_def
      by (rule lease_inv_register [OF lease_inv_grant [OF inv Some]]) (use fresh in \<open>simp_all add: g same\<close>)
    moreover have "dict_get (active (sv_leases st)) probe = None"
      using lease_invD(8) [OF inv, of probe] g(2) by (simp add: same)
    ultimately show ?thesis using none older by (auto simp: lease_ready_def lease_added_def st' l info_def)
  qed
qed

text \<open>Releasing it takes it away again.\<close>

lemma release_lease_frame:
  "sv_store (release_lease lid st) = sv_store st" "sv_trace (release_lease lid st) = sv_trace st" "sv_tick (release_lease lid st) = sv_tick st"
  "sv_gdb_leases (release_lease lid st) = sv_gdb_leases st" "sv_gui_leases (release_lease lid st) = sv_gui_leases st"
  "sv_leases (release_lease lid st) = release lid (sv_leases st)"
  by (simp_all add: release_lease_def)

lemma release_ready: "lease_ready env st \<Longrightarrow> lease_ready env (release_lease lid st)"
proof -
  assume ready: "lease_ready env st"
  have "granted (release lid (sv_leases st)) = granted (sv_leases st)"
    by (simp add: release_def Let_def split: option.split)
  moreover have "dict_has (by_id (release lid (sv_leases st))) x \<Longrightarrow> dict_has (by_id (sv_leases st)) x" for x
    by (auto simp: release_def Let_def dict_pop_def split: option.splits if_splits)
  ultimately show ?thesis
    using ready lease_inv_release by (auto simp: lease_ready_def release_lease_frame)
qed

lemma release_added:
  assumes "lease_inv l2" "lease_added t probe info l l1" "same_leases l1 l2"
  shows "same_leases l (release (lease_id info) l2)"
proof -
  have "dict_get (by_id l2) (lease_id info) = Some info"
    using assms(2,3) by (simp add: lease_added_def same_leases_def)
  from release_held [OF assms(1) this] show ?thesis
    using assms(2,3) by (auto simp: lease_added_def same_leases_def fun_eq_iff)
qed

lemma leased_kept:
  assumes g: "\<And>info st. lease_kept env st (g info st)"
  shows "lease_kept env st (leased_state env serial owner g st)"
proof (cases "reentrant (se_task env) serial (sv_leases st)")
  case (Some info)
  then show ?thesis by (simp add: leased_state_def g)
next
  case None
  obtain r st1 where a: "acquire_lease env serial owner st = (r, st1)" by force
  note f = acquire_lease_frame [OF a] and result = acquire_lease_result [OF _ _ a]
  show ?thesis
  proof (cases r)
    case (Inl e)
    then show ?thesis using None a f result by (auto simp: leased_state_def lease_kept_def)
  next
    case (Inr info)
    let ?st2 = "g info st1"
    have kept: "lease_kept env st1 ?st2" by (rule g)
    have "lease_ready env (release_lease (lease_id info) ?st2) \<and> same_leases (sv_leases st) (release (lease_id info) (sv_leases ?st2))"
      if "inj (se_uuid env)" "lease_ready env st"
    proof -
      have 1: "lease_ready env st1" "lease_added (se_task env) serial info (sv_leases st) (sv_leases st1)"
        using result [OF that(2,1)] Inr by auto
      then have 2: "lease_ready env ?st2" "same_leases (sv_leases st1) (sv_leases ?st2)"
        using kept that(1) by (auto simp: lease_kept_def)
      then have "lease_inv (sv_leases ?st2)" by (simp add: lease_ready_def)
      from release_ready [OF 2(1)] release_added [OF this 1(2) 2(2)] show ?thesis by blast
    qed
    then show ?thesis using None a f Inr kept
      by (simp add: leased_state_def lease_kept_def release_lease_frame)
  qed
qed

interpretation kept: operation_contract "lease_kept env" env for env
proof unfold_locales
  show "lease_kept env a c" if "lease_kept env a b" "lease_kept env b c" for a b c
    using that by (rule lease_kept_trans)
  show "lease_kept env st (leased_state env serial owner g st)" if "\<And>info st. lease_kept env st (g info st)" for st serial owner g
    using that by (rule leased_kept)
qed (rule lease_kept_other; simp)+

subsection \<open>One lease for each session\<close>

text \<open>\<open>fresh_identifiers\<close> is what the service relies on: identifiers do not repeat and are not empty, and every start
  of a backend session yields a new session identifier.\<close>

definition fresh_identifiers :: "service_env \<Rightarrow> bool" where
  "fresh_identifiers env \<longleftrightarrow> inj (se_uuid env) \<and> [] \<notin> range (se_uuid env)
     \<and> (\<forall>k k' sel sel' p p' s. se_gdb_start env k sel p = Inr s \<and> se_gdb_start env k' sel' p' = Inr s \<longrightarrow> k = k')
     \<and> (\<forall>k k' a a' args args' s. se_gui_launch env k a args = Inr s \<and> se_gui_launch env k' a' args' = Inr s \<longrightarrow> k = k')"

definition gdb_started :: "service_env \<Rightarrow> nat \<Rightarrow> string \<Rightarrow> bool" where
  "gdb_started env n sid \<longleftrightarrow> (\<exists>k < n. \<exists>sel p. se_gdb_start env k sel p = Inr sid)"

definition gui_started :: "service_env \<Rightarrow> nat \<Rightarrow> string \<Rightarrow> bool" where
  "gui_started env n sid \<longleftrightarrow> (\<exists>k < n. \<exists>a args. se_gui_launch env k a args = Inr sid)"

definition session_leases :: "service_state \<Rightarrow> string list" where
  "session_leases st = map snd (sv_gdb_leases st) @ map snd (sv_gui_leases st)"

definition sessions_inv :: "service_env \<Rightarrow> service_state \<Rightarrow> bool" where
  "sessions_inv env st \<longleftrightarrow> lease_ready env st \<and> dict_ok (sv_gdb_leases st) \<and> dict_ok (sv_gui_leases st)
     \<and> distinct (session_leases st) \<and> set (session_leases st) = fst ` set (by_id (sv_leases st))
     \<and> (\<forall>sid. dict_has (sv_gdb_leases st) sid \<longrightarrow> gdb_started env (sv_tick st) sid)
     \<and> (\<forall>sid. dict_has (sv_gui_leases st) sid \<longrightarrow> gui_started env (sv_tick st) sid)"

definition sessions_kept :: "service_env \<Rightarrow> service_state \<Rightarrow> service_state \<Rightarrow> bool" where
  "sessions_kept env st st' \<longleftrightarrow> (fresh_identifiers env \<longrightarrow> sessions_inv env st \<longrightarrow> sessions_inv env st')"

interpretation sessions: path_relation "sessions_kept env" for env
  by unfold_locales (simp_all add: sessions_kept_def)

lemma started_mono: "gdb_started env n sid \<Longrightarrow> n \<le> m \<Longrightarrow> gdb_started env m sid" "gui_started env n sid \<Longrightarrow> n \<le> m \<Longrightarrow> gui_started env m sid"
  unfolding gdb_started_def gui_started_def by (meson order_less_le_trans)+

lemma lease_kept_sessions: "lease_kept env st st' \<Longrightarrow> sessions_kept env st st'"
proof -
  assume k: "lease_kept env st st'"
  have "sessions_inv env st'" if "fresh_identifiers env" and inv: "sessions_inv env st"
  proof -
    have l: "lease_ready env st'" "same_leases (sv_leases st) (sv_leases st')" and t: "sv_tick st \<le> sv_tick st'"
      and d: "sv_gdb_leases st' = sv_gdb_leases st" "sv_gui_leases st' = sv_gui_leases st"
      using k that by (auto simp: lease_kept_def sessions_inv_def fresh_identifiers_def)
    have "fst ` set (by_id (sv_leases st')) = fst ` set (by_id (sv_leases st))"
      using same_leases_keys [OF l(2)] by blast
    then show ?thesis using inv l(1) d started_mono [OF _ t] by (auto simp: sessions_inv_def session_leases_def)
  qed
  then show ?thesis by (simp add: sessions_kept_def)
qed

lemma over_kept_sessions: "over (lease_kept env) m \<Longrightarrow> over (sessions_kept env) m"
  by (auto simp: over_def intro: lease_kept_sessions)

text \<open>Closing a session gives its lease back.\<close>

lemma forget_ready:
  assumes "fresh_identifiers env" "sessions_inv env st" "dict_get d sid = Some lid" "d = sv_gdb_leases st \<or> d = sv_gui_leases st"
  shows "lid \<noteq> []" "\<exists>info. dict_get (by_id (sv_leases st)) lid = Some info"
proof -
  have "lid \<in> set (session_leases st)"
    using assms(3,4) by (force simp: session_leases_def dest: map_of_SomeD)
  then have has: "dict_has (by_id (sv_leases st)) lid" using assms(2) by (simp add: sessions_inv_def)
  then show "\<exists>info. dict_get (by_id (sv_leases st)) lid = Some info"
    using dict_get_None [of "by_id (sv_leases st)" lid] by auto
  have "lid \<in> range (se_uuid env)" using has assms(2) by (auto simp: sessions_inv_def lease_ready_def)
  moreover have "[] \<notin> range (se_uuid env)" using assms(1) by (simp add: fresh_identifiers_def)
  ultimately show "lid \<noteq> []" by metis
qed

lemma distinct_values_pop:
  "dict_get d k = Some v \<Longrightarrow> dict_ok d \<Longrightarrow> distinct (map snd d) \<Longrightarrow>
     set (map snd (dict_pop d k)) = set (map snd d) - {v} \<and> distinct (map snd (dict_pop d k))"
proof (induction d)
  case Nil
  then show ?case by simp
next
  case (Cons p d)
  show ?case
  proof (cases "fst p = k")
    case True
    then have "dict_pop d k = d" using Cons.prems(2) by (intro dict_pop_absent) auto
    then show ?thesis using True Cons.prems by (auto simp: dict_pop_def)
  next
    case False
    then have "dict_get d k = Some v" using Cons.prems(1) by (cases p) auto
    moreover have "snd p \<noteq> v" using imageI [OF map_of_SomeD [OF calculation], of snd] Cons.prems(3) by auto
    ultimately show ?thesis using Cons False by (auto simp: dict_pop_def)
  qed
qed

lemma release_in_use:
  assumes ready: "lease_ready env st" and held: "dict_get (by_id (sv_leases st)) lid = Some info"
  shows "fst ` set (by_id (release lid (sv_leases st))) = fst ` set (by_id (sv_leases st)) - {lid}"
proof -
  have "lease_inv (sv_leases st)" using ready by (simp add: lease_ready_def)
  from release_held [OF this held] show ?thesis by simp
qed

lemma forget_gdb_kept: "sessions_kept env st (forget_gdb sid st)"
  unfolding sessions_kept_def
proof (intro impI)
  assume fresh: "fresh_identifiers env" and inv: "sessions_inv env st"
  show "sessions_inv env (forget_gdb sid st)"
  proof (cases "dict_get (sv_gdb_leases st) sid")
    case None
    then have "dict_pop (sv_gdb_leases st) sid = sv_gdb_leases st" by (simp add: dict_pop_absent dict_get_None)
    then show ?thesis using inv None
      by (simp add: forget_gdb_def sessions_inv_def lease_ready_def session_leases_def)
  next
    case (Some lid)
    from forget_ready [OF fresh inv this] obtain info where lid: "lid \<noteq> []" "dict_get (by_id (sv_leases st)) lid = Some info" by auto
    have d: "dict_ok (sv_gdb_leases st)" "distinct (map snd (sv_gdb_leases st))" "lease_ready env st"
      using inv by (simp_all add: sessions_inv_def session_leases_def)
    define st1 where "st1 = st \<lparr> sv_gdb_leases := dict_pop (sv_gdb_leases st) sid, sv_gdb_selectors := dict_pop (sv_gdb_selectors st) sid,
      sv_gdb_identities := dict_pop (sv_gdb_identities st) sid \<rparr>"
    have f: "forget_gdb sid st = release_lease lid st1" using Some lid(1) by (simp add: forget_gdb_def st1_def)
    have r: "lease_ready env (release_lease lid st1)"
      by (rule release_ready) (use d(3) in \<open>simp add: st1_def lease_ready_def\<close>)
    note pop = distinct_values_pop [OF Some d(1,2)]
    have k: "fst ` set (by_id (sv_leases (release_lease lid st1))) = fst ` set (by_id (sv_leases st)) - {lid}"
      using release_in_use [OF d(3) lid(2)] by (simp add: st1_def release_lease_frame)
    have "lid \<in> snd ` set (sv_gdb_leases st)" using map_of_SomeD [OF Some] by force
    then have "lid \<notin> snd ` set (sv_gui_leases st)" using inv by (auto simp: sessions_inv_def session_leases_def)
    then have "set (session_leases (release_lease lid st1)) = set (session_leases st) - {lid}"
      "distinct (session_leases (release_lease lid st1))"
      using pop inv by (auto simp: session_leases_def release_lease_frame st1_def sessions_inv_def)
    then show ?thesis using inv r k by (simp add: f sessions_inv_def) (simp add: st1_def release_lease_frame)
  qed
qed

lemma forget_gui_kept: "sessions_kept env st (forget_gui sid st)"
  unfolding sessions_kept_def
proof (intro impI)
  assume fresh: "fresh_identifiers env" and inv: "sessions_inv env st"
  show "sessions_inv env (forget_gui sid st)"
  proof (cases "dict_get (sv_gui_leases st) sid")
    case None
    then have "dict_pop (sv_gui_leases st) sid = sv_gui_leases st" by (simp add: dict_pop_absent dict_get_None)
    then show ?thesis using inv None
      by (simp add: forget_gui_def sessions_inv_def lease_ready_def session_leases_def)
  next
    case (Some lid)
    from forget_ready [OF fresh inv this] obtain info where lid: "lid \<noteq> []" "dict_get (by_id (sv_leases st)) lid = Some info" by auto
    have d: "dict_ok (sv_gui_leases st)" "distinct (map snd (sv_gui_leases st))" "lease_ready env st"
      using inv by (simp_all add: sessions_inv_def session_leases_def)
    define st1 where "st1 = st \<lparr> sv_gui_leases := dict_pop (sv_gui_leases st) sid \<rparr>"
    have f: "forget_gui sid st = release_lease lid st1" using Some lid(1) by (simp add: forget_gui_def st1_def)
    have r: "lease_ready env (release_lease lid st1)"
      by (rule release_ready) (use d(3) in \<open>simp add: st1_def lease_ready_def\<close>)
    note pop = distinct_values_pop [OF Some d(1,2)]
    have k: "fst ` set (by_id (sv_leases (release_lease lid st1))) = fst ` set (by_id (sv_leases st)) - {lid}"
      using release_in_use [OF d(3) lid(2)] by (simp add: st1_def release_lease_frame)
    have "lid \<in> snd ` set (sv_gui_leases st)" using map_of_SomeD [OF Some] by force
    then have "lid \<notin> snd ` set (sv_gdb_leases st)" using inv by (auto simp: sessions_inv_def session_leases_def)
    then have "set (session_leases (release_lease lid st1)) = set (session_leases st) - {lid}"
      "distinct (session_leases (release_lease lid st1))"
      using pop inv by (auto simp: session_leases_def release_lease_frame st1_def sessions_inv_def)
    then show ?thesis using inv r k by (simp add: f sessions_inv_def) (simp add: st1_def release_lease_frame)
  qed
qed

lemma stop_gdb_kept: "over (sessions_kept env) (stop_gdb env sid resume)"
proof -
  have put: "over (lease_kept env) (op_put (\<lambda>st. st \<lparr> sv_store := delete_session sid (sv_store st) \<rparr>))"
    by (rule kept.over_put) (rule lease_kept_other; simp)
  have "over (sessions_kept env) (op_bind (ask (\<lambda>n. se_gdb_info env n sid)) (\<lambda>info.
          op_bind (run_backend (\<lambda>n. case se_gdb_stop env n sid of None \<Rightarrow> Inr () | Some msg \<Rightarrow> Inl msg)) (\<lambda>_.
          op_bind (op_put (\<lambda>st. st \<lparr> sv_store := delete_session sid (sv_store st) \<rparr>)) (\<lambda>_. op_return info))))"
    by (intro over_kept_sessions kept.over_bind kept.over_ask kept.over_backend put kept.over_basic)
  note 1 = sessions.over_finally [OF this forget_gdb_kept]
  show ?thesis unfolding stop_gdb_def
    by (intro sessions.over_bind 1)
      (auto intro!: over_kept_sessions kept.over_bind kept.over_stamp kept.over_append kept.over_basic split: option.split)
qed

lemma stop_gui_kept: "over (sessions_kept env) (stop_gui env sid)"
proof -
  have put: "over (lease_kept env) (op_put (\<lambda>st. st \<lparr> sv_gui_selectors := dict_pop (sv_gui_selectors st) sid \<rparr>))"
    by (rule kept.over_put) (rule lease_kept_other; simp)
  have "over (sessions_kept env) (run_backend (\<lambda>n. case se_gui_stop env n sid of None \<Rightarrow> Inr () | Some msg \<Rightarrow> Inl msg))"
    by (intro over_kept_sessions kept.over_backend)
  note 1 = sessions.over_finally [OF this forget_gui_kept]
  show ?thesis unfolding stop_gui_def
    by (intro sessions.over_bind 1 over_kept_sessions [OF put] sessions.over_basic)
      (auto intro!: over_kept_sessions kept.over_bind kept.over_stamp kept.over_append kept.over_basic split: option.split)
qed

lemma close_kept: "over (sessions_kept env) (close env)"
  unfolding close_def
  by (intro sessions.over_bind sessions.over_basic sessions.over_each stop_gdb_kept stop_gui_kept over_kept_sessions kept.over_backend)

text \<open>Opening a session. The guarded part identifies the target and starts the backend; when that returns, the new
  session is filed with the lease, otherwise the lease is given back.\<close>

definition files_session :: "service_env \<Rightarrow> nat \<Rightarrow> string \<Rightarrow> service_state \<Rightarrow> service_state \<Rightarrow> bool" where
  "files_session env t lid st st' \<longleftrightarrow> sv_leases st' = sv_leases st \<and> sv_tick st' = sv_tick st
     \<and> (\<exists>k sid. t \<le> k \<and> k < sv_tick st
        \<and> ((\<exists>sel p. se_gdb_start env k sel p = Inr sid) \<and> sv_gui_leases st' = sv_gui_leases st
              \<and> sv_gdb_leases st' = dict_set (sv_gdb_leases st) sid lid
           \<or> (\<exists>a args. se_gui_launch env k a args = Inr sid) \<and> sv_gdb_leases st' = sv_gdb_leases st
              \<and> sv_gui_leases st' = dict_set (sv_gui_leases st) sid lid))"

lemma files_gdb:
  assumes "t \<le> k" "k < sv_tick st" "se_gdb_start env k sel p = Inr sid" "sv_leases st' = sv_leases st" "sv_tick st' = sv_tick st"
    "sv_gui_leases st' = sv_gui_leases st" "sv_gdb_leases st' = dict_set (sv_gdb_leases st) sid lid"
  shows "files_session env t lid st st'"
  unfolding files_session_def using assms by (intro conjI exI [of _ k] exI [of _ sid] disjI1) auto

lemma files_gui:
  assumes "t \<le> k" "k < sv_tick st" "se_gui_launch env k a args = Inr sid" "sv_leases st' = sv_leases st" "sv_tick st' = sv_tick st"
    "sv_gdb_leases st' = sv_gdb_leases st" "sv_gui_leases st' = dict_set (sv_gui_leases st) sid lid"
  shows "files_session env t lid st st'"
proof -
  have "\<exists>a args. se_gui_launch env k a args = Inr sid" using assms(3) by blast
  then show ?thesis unfolding files_session_def using assms(1,2,4-7) by blast
qed

lemma file_session:
  assumes fresh: "fresh_identifiers env" and inv: "sessions_inv env st"
    and added: "lease_added t probe info (sv_leases st) (sv_leases st1)" and same: "same_leases (sv_leases st1) (sv_leases st2)"
    and frame: "sv_tick st \<le> sv_tick st1" "sv_tick st1 \<le> sv_tick st2" "sv_gdb_leases st2 = sv_gdb_leases st" "sv_gui_leases st2 = sv_gui_leases st"
    and ready: "lease_ready env st2"
    and filed: "files_session env (sv_tick st1) (lease_id info) st2 st3"
  shows "sessions_inv env st3"
proof -
  let ?lid = "lease_id info"
  have keys: "fst ` set (by_id (sv_leases st3)) = insert ?lid (fst ` set (by_id (sv_leases st)))"
  proof (rule set_eqI)
    fix x
    have "dict_has (by_id (sv_leases st3)) x \<longleftrightarrow> dict_get (by_id (sv_leases st2)) x \<noteq> None"
      using filed dict_get_None [of "by_id (sv_leases st2)" x] by (simp add: files_session_def)
    also have "\<dots> \<longleftrightarrow> x = ?lid \<or> dict_has (by_id (sv_leases st)) x"
      using same added dict_get_None [of "by_id (sv_leases st)" x] by (simp add: same_leases_def lease_added_def del: not_None_eq)
    finally show "x \<in> fst ` set (by_id (sv_leases st3)) \<longleftrightarrow> x \<in> insert ?lid (fst ` set (by_id (sv_leases st)))" by simp
  qed
  have new: "?lid \<notin> set (session_leases st)"
    using added inv by (simp add: lease_added_def sessions_inv_def dict_get_None)
  have ready3: "lease_ready env st3" using ready filed by (simp add: lease_ready_def files_session_def)
  have le: "sv_tick st \<le> sv_tick st3" using filed frame by (simp add: files_session_def)
  from filed obtain k sid where k: "sv_tick st1 \<le> k" "k < sv_tick st3"
    and c: "((\<exists>sel p. se_gdb_start env k sel p = Inr sid) \<and> sv_gui_leases st3 = sv_gui_leases st
              \<and> sv_gdb_leases st3 = dict_set (sv_gdb_leases st) sid ?lid)
           \<or> ((\<exists>a args. se_gui_launch env k a args = Inr sid) \<and> sv_gdb_leases st3 = sv_gdb_leases st
              \<and> sv_gui_leases st3 = dict_set (sv_gui_leases st) sid ?lid)"
    unfolding files_session_def frame by metis
  have old: "k < sv_tick st \<Longrightarrow> False" using k frame by simp
  from c show ?thesis
  proof (elim disjE conjE)
    assume s: "\<exists>sel p. se_gdb_start env k sel p = Inr sid" "sv_gui_leases st3 = sv_gui_leases st"
      "sv_gdb_leases st3 = dict_set (sv_gdb_leases st) sid ?lid"
    have "\<not> gdb_started env (sv_tick st) sid"
      using s(1) fresh old unfolding gdb_started_def fresh_identifiers_def by metis
    then have absent: "\<not> dict_has (sv_gdb_leases st) sid" using inv by (auto simp: sessions_inv_def)
    note d = dict_set_new [OF this, of ?lid]
    have started: "gdb_started env (sv_tick st3) sid" using s(1) k(2) unfolding gdb_started_def by blast
    then show ?thesis using inv new keys ready3 s(2,3) d started_mono [OF _ le] started absent
      by (auto simp: sessions_inv_def session_leases_def)
  next
    assume s: "\<exists>a args. se_gui_launch env k a args = Inr sid" "sv_gdb_leases st3 = sv_gdb_leases st"
      "sv_gui_leases st3 = dict_set (sv_gui_leases st) sid ?lid"
    have "\<not> gui_started env (sv_tick st) sid"
      using s(1) fresh old unfolding gui_started_def fresh_identifiers_def by metis
    then have absent: "\<not> dict_has (sv_gui_leases st) sid" using inv by (auto simp: sessions_inv_def)
    note d = dict_set_new [OF this, of ?lid]
    have started: "gui_started env (sv_tick st3) sid" using s(1) k(2) unfolding gui_started_def by blast
    then show ?thesis using inv new keys ready3 s(2,3) d started_mono [OF _ le] started absent
      by (auto simp: sessions_inv_def session_leases_def)
  qed
qed

lemma open_session_kept:
  assumes m: "\<And>lease. over (lease_kept env) (m lease)"
    and rest: "\<And>lease x. over (lease_kept env) (rest lease x)"
    and filed: "\<And>lease x st st'. m lease st = (Inr x, st') \<Longrightarrow> files_session env (sv_tick st) (lease_id lease) st' (put lease x st')"
  shows "over (sessions_kept env) (op_bind (acquire_lease env serial owner) (\<lambda>lease.
     op_bind (op_guard (m lease) (release_lease (lease_id lease))) (\<lambda>x.
     op_bind (op_put (put lease x)) (\<lambda>_. rest lease x))))" (is "over _ ?open")
proof (rule overI, unfold sessions_kept_def, intro impI)
  fix st assume fresh: "fresh_identifiers env" and inv: "sessions_inv env st"
  then have inj: "inj (se_uuid env)" and ready: "lease_ready env st" by (simp_all add: fresh_identifiers_def sessions_inv_def)
  obtain r st1 where a: "acquire_lease env serial owner st = (r, st1)" by force
  note f = acquire_lease_frame [OF a] and result = acquire_lease_result [OF ready inj a]
  show "sessions_inv env (snd (?open st))"
  proof (cases r)
    case (Inl e)
    have "lease_kept env st st1" using f result Inl by (simp add: lease_kept_def)
    then have "sessions_inv env st1" using lease_kept_sessions fresh inv by (simp add: sessions_kept_def)
    then show ?thesis using a Inl by (simp add: op_bind_def)
  next
    case (Inr lease)
    then have 1: "lease_ready env st1" "lease_added (se_task env) serial lease (sv_leases st) (sv_leases st1)"
      using result by simp_all
    obtain y st2 where y: "m lease st1 = (y, st2)" by force
    have kept: "lease_kept env st1 st2" using overD [OF m, of st1 lease] by (simp add: y)
    then have 2: "lease_ready env st2" "same_leases (sv_leases st1) (sv_leases st2)"
      using inj 1 by (auto simp: lease_kept_def)
    show ?thesis
    proof (cases y)
      case (Inl e)
      have "lease_inv (sv_leases st2)" using 2 by (simp add: lease_ready_def)
      then have "lease_kept env st (release_lease (lease_id lease) st2)"
        using f kept release_ready [OF 2(1)] release_added [OF _ 1(2) 2(2)]
        by (simp add: lease_kept_def release_lease_frame)
      then have "sessions_inv env (release_lease (lease_id lease) st2)"
        using lease_kept_sessions fresh inv by (simp add: sessions_kept_def)
      then show ?thesis using a Inr y Inl by (simp add: op_bind_def op_guard_def)
    next
      case y': (Inr x)
      have "sessions_inv env (put lease x st2)"
        by (rule file_session [OF fresh inv 1(2) 2(2) _ _ _ _ 2(1) filed])
          (use f kept y y' in \<open>auto simp: lease_kept_def\<close>)
      then have "sessions_inv env (snd (rest lease x (put lease x st2)))"
        using lease_kept_sessions [OF overD [OF rest]] fresh by (simp add: sessions_kept_def)
      then show ?thesis using a Inr y y' by (simp add: op_bind_def op_guard_def op_put_def)
    qed
  qed
qed

lemma backend_started:
  assumes "run_backend f st = (Inr x, st')"
  shows "f (sv_tick st) = Inr x" "sv_tick st' = Suc (sv_tick st)"
  using assms by (auto simp: run_backend_def op_bind_Inr ask_def op_lift_def rcatch_def split: sum.splits)

lemma started_after_preflight:
  assumes "op_bind (identity_preflight env sel lid) (\<lambda>identity. op_bind (run_backend f) (\<lambda>sid. op_return (identity, sid))) st = (Inr (i, sid), st')"
  shows "\<exists>k. sv_tick st \<le> k \<and> k < sv_tick st' \<and> f k = Inr sid"
proof -
  obtain st1 where "identity_preflight env sel lid st = (Inr i, st1)" "run_backend f st1 = (Inr sid, st')"
    using assms by (auto simp: op_bind_Inr op_return_def)
  then show ?thesis
    using overD [OF kept.over_preflight, of env st sel lid] backend_started [of f st1 sid st']
    by (auto simp: lease_kept_def)
qed

lemma start_gdb_kept: "over (sessions_kept env) (start_gdb env given sel elf)"
proof -
  have "over (sessions_kept env) (op_bind (acquire_lease env probe ''gdb_session'') (\<lambda>lease.
         op_bind (op_guard
             (op_bind (identity_preflight env resolved (lease_id lease)) (\<lambda>identity.
              op_bind (run_backend (\<lambda>n. se_gdb_start env n resolved path)) (\<lambda>sid. op_return (identity, sid))))
             (release_lease (lease_id lease))) (\<lambda>x.
         op_bind (op_put (\<lambda>st. st \<lparr> sv_gdb_leases := dict_set (sv_gdb_leases st) (snd x) (lease_id lease),
             sv_gdb_selectors := dict_set (sv_gdb_selectors st) (snd x) resolved,
             sv_gdb_identities := dict_set (sv_gdb_identities st) (snd x) (res_parsed (fst x)) \<rparr>)) (\<lambda>_. rest lease x))))"
    if "\<And>lease x. over (lease_kept env) (rest lease x)" for resolved probe path and rest :: "lease_info \<Rightarrow> command_result \<times> string \<Rightarrow> json_object operation"
  proof (rule open_session_kept [OF _ that])
    fix lease :: lease_info and x :: "command_result \<times> string" and st st'
    show "over (lease_kept env) (op_bind (identity_preflight env resolved (lease_id lease)) (\<lambda>identity.
              op_bind (run_backend (\<lambda>n. se_gdb_start env n resolved path)) (\<lambda>sid. op_return (identity, sid))))"
      by (intro kept.over_bind kept.over_preflight kept.over_backend kept.over_basic)
    assume m: "op_bind (identity_preflight env resolved (lease_id lease)) (\<lambda>identity.
              op_bind (run_backend (\<lambda>n. se_gdb_start env n resolved path)) (\<lambda>sid. op_return (identity, sid))) st = (Inr x, st')"
    obtain i sid where x: "x = (i, sid)" by force
    from started_after_preflight [OF m [unfolded x]] obtain k where
      k: "sv_tick st \<le> k" "k < sv_tick st'" "se_gdb_start env k resolved path = Inr sid" by blast
    show "files_session env (sv_tick st) (lease_id lease) st' (st' \<lparr> sv_gdb_leases := dict_set (sv_gdb_leases st') (snd x) (lease_id lease),
             sv_gdb_selectors := dict_set (sv_gdb_selectors st') (snd x) resolved,
             sv_gdb_identities := dict_set (sv_gdb_identities st') (snd x) (res_parsed (fst x)) \<rparr>)"
      by (rule files_gdb [OF k]) (simp_all add: x)
  qed
  note opened = this
  have up: "over (lease_kept env) (upsert_gdb_session env sid probe info)" for sid probe info
    unfolding upsert_gdb_session_def by (intro kept.over_bind kept.over_ask kept.over_put) (rule lease_kept_other; simp)
  show ?thesis unfolding start_gdb_def Let_def split_def
    by (auto intro!: sessions.over_bind [OF over_kept_sessions [OF kept.over_resolve_wait]] sessions.over_bind [OF sessions.over_basic(3)]
         sessions.over_basic opened kept.over_bind kept.over_gdb_info up kept.over_stamp kept.over_append kept.over_basic split: option.split)
qed

lemma start_gui_kept: "over (sessions_kept env) (start_gui env given sel application args)"
proof -
  have "over (sessions_kept env) (op_bind (acquire_lease env probe owner) (\<lambda>lease.
         op_bind (op_guard
             (op_bind (identity_preflight env resolved (lease_id lease)) (\<lambda>identity.
              op_bind (run_backend (\<lambda>n. se_gui_launch env n application args)) (\<lambda>sid. op_return (identity, sid))))
             (release_lease (lease_id lease))) (\<lambda>x.
         op_bind (op_put (\<lambda>st. st \<lparr> sv_gui_leases := dict_set (sv_gui_leases st) (snd x) (lease_id lease),
             sv_gui_selectors := dict_set (sv_gui_selectors st) (snd x) resolved \<rparr>)) (\<lambda>_. rest lease x))))"
    if "\<And>lease x. over (lease_kept env) (rest lease x)" for resolved probe owner and rest :: "lease_info \<Rightarrow> command_result \<times> string \<Rightarrow> json_object operation"
  proof (rule open_session_kept [OF _ that])
    fix lease :: lease_info and x :: "command_result \<times> string" and st st'
    show "over (lease_kept env) (op_bind (identity_preflight env resolved (lease_id lease)) (\<lambda>identity.
              op_bind (run_backend (\<lambda>n. se_gui_launch env n application args)) (\<lambda>sid. op_return (identity, sid))))"
      by (intro kept.over_bind kept.over_preflight kept.over_backend kept.over_basic)
    assume m: "op_bind (identity_preflight env resolved (lease_id lease)) (\<lambda>identity.
              op_bind (run_backend (\<lambda>n. se_gui_launch env n application args)) (\<lambda>sid. op_return (identity, sid))) st = (Inr x, st')"
    obtain i sid where x: "x = (i, sid)" by force
    from started_after_preflight [OF m [unfolded x]] obtain k where
      k: "sv_tick st \<le> k" "k < sv_tick st'" "se_gui_launch env k application args = Inr sid" by blast
    show "files_session env (sv_tick st) (lease_id lease) st' (st' \<lparr> sv_gui_leases := dict_set (sv_gui_leases st') (snd x) (lease_id lease),
             sv_gui_selectors := dict_set (sv_gui_selectors st') (snd x) resolved \<rparr>)"
      by (rule files_gui [OF k]) (simp_all add: x)
  qed
  note opened = this
  show ?thesis unfolding start_gui_def Let_def split_def
    by (auto intro!: sessions.over_bind [OF over_kept_sessions [OF kept.over_resolve_wait]]
         sessions.over_basic opened kept.over_bind kept.over_stamp kept.over_append kept.over_basic split: option.split)
qed

subsection \<open>Every call\<close>

lemma call_kept: "service_call env f \<Longrightarrow> sessions_kept env st (f st)"
proof (induction rule: service_call.induct)
  case (call_connect given sel)
  have "over (lease_kept env) (commander_commands env given sel identity_commands ''connect'' False)"
    by (rule kept.over_commander_commands) simp
  then show ?case by (simp add: submit_def connect_request_def over_def lease_kept_sessions)
next
  case (call_extension given sel f action d request)
  have "over (lease_kept env) (audited_serial_operation env given sel (\<lambda>port. run_backend (f port)) action d request)"
    by (rule kept.over_audited_serial) (rule kept.over_backend)
  then show ?case by (intro lease_kept_sessions) (rule overD)
qed (auto intro: lease_kept_sessions kept.over_commander_commands [THEN overD] kept.over_probe_list [THEN overD]
      kept.over_disconnect [THEN overD] kept.over_serial_exchange [THEN overD] kept.over_application [THEN overD]
      kept.over_gdb_command [THEN overD] kept.over_capture [THEN overD] kept.over_gui_operation [THEN overD]
      kept.over_gui_session_info [THEN overD] kept.over_gui_ocr [THEN overD]
      start_gdb_kept [THEN overD] stop_gdb_kept [THEN overD] start_gui_kept [THEN overD] stop_gui_kept [THEN overD] close_kept [THEN overD])

lemma sessions_kept_task: "sessions_kept (env \<lparr> se_task := t \<rparr>) = sessions_kept env"
  by (simp add: sessions_kept_def sessions_inv_def fresh_identifiers_def lease_ready_def gdb_started_def gui_started_def fun_eq_iff)

lemma start_sessions: "fresh_identifiers env \<Longrightarrow> start_service env store = (r, st) \<Longrightarrow> sessions_inv env st"
proof -
  assume fresh: "fresh_identifiers env" and s: "start_service env store = (r, st)"
  obtain stale s where c: "clear_stale_sessions store = (stale, s)" by force
  have "over (lease_kept env) (op_bind (op_lift (traverse (session_json (se_store env)) stale)) (\<lambda>recovered.
        if recovered = [] then op_return ()
        else op_bind (fresh_stamp env) (\<lambda>stamp.
          append env (make_result stamp ''session-recovery'' [''clear-stale-sessions''] 0 [] []
              [(''recovered'', JList recovered)]) ''recover_stale_sessions'' None False None)))"
    by (auto intro!: kept.over_bind kept.over_basic kept.over_stamp kept.over_append)
  from lease_kept_sessions [OF overD [OF this, of "fresh_state s"]] have "sessions_kept env (fresh_state s) st"
    using s by (simp add: start_service_def c)
  moreover have "sessions_inv env (fresh_state s)"
    using lease_inv_new by (simp add: sessions_inv_def fresh_state_def lease_ready_def session_leases_def new_manager_def)
  ultimately show ?thesis using fresh by (simp add: sessions_kept_def)
qed

lemma sessions_reachable: "service_reachable env st \<Longrightarrow> fresh_identifiers env \<Longrightarrow> sessions_inv env st"
proof (induction rule: service_reachable.induct)
  case (reach_start store r st)
  then show ?case by (auto dest: start_sessions)
next
  case (reach_call st t f)
  then show ?case using call_kept [of "env \<lparr> se_task := t \<rparr>" f st] by (simp add: sessions_kept_task) (simp add: sessions_kept_def)
qed

end
