(* ===== verification/Service_Gate.thy ===== *)
theory Service_Gate
  imports Service_Leases
begin

text \<open>
  What callers of the service can rely on, whatever sequence of operations has run: the guarantees that follow from the
  invariants of the other service theories, each with a run on a sample service.
\<close>

subsection \<open>A sample service\<close>

text \<open>One probe with serial 7, one target profile with one core, and a Commander whose output identifies the target.\<close>

definition sample_output :: string where
  "sample_output = ''VTref=3V S/N:7 DPIDR:0x2 CPUID register:0x1 Cortex-M''"

definition sample_core :: core_profile where
  "sample_core = \<lparr> core_id = ''m'', core_jlink_device = ''D'', core_expected_core = ''Cortex-M'',
     core_expected_cpuid = 1, core_svd_name = None, core_metadata = [] \<rparr>"

definition sample_profile :: target_profile where
  "sample_profile = \<lparr> profile_id = ''p'', profile_display_name = ''P'', profile_cores = [(''m'', sample_core)],
     profile_default_core = ''m'', profile_expected_dpidr = 2, profile_minimum_voltage = Finite 1,
     profile_default_interface = ''SWD'', profile_default_speed = 4000, profile_metadata = [] \<rparr>"

definition sample_id :: "nat \<Rightarrow> string" where
  "sample_id n = replicate (Suc n) (CHR ''u'')"

definition sample_stamp :: "nat \<Rightarrow> stamp" where
  "sample_stamp n = \<lparr> stamp_operation_id = sample_id n, stamp_started = n, stamp_finished = n \<rparr>"

definition sample_store_env :: store_env where
  "sample_store_env = \<lparr> sha256_hex = (\<lambda>s. s), isoformat = show_nat, json_loads = (\<lambda>s. None) \<rparr>"

definition sample_service :: service_env where
  "sample_service = \<lparr> se_settings = sample_settings, se_fs = sample_fs,
     se_targets = empty_targets \<lparr> reg_profiles := [(''p'', sample_profile)] \<rparr>, se_store = sample_store_env, se_task = 0,
     se_now = (\<lambda>n. n), se_uuid = sample_id,
     se_probes = (\<lambda>n. [\<lparr> pr_serial = ''7'', pr_model = ''EDU'', pr_firmware = JNull, pr_licenses = [] \<rparr>]),
     se_boards = (\<lambda>n. []), se_merge = (\<lambda>n. None),
     se_run = (\<lambda>n argv after. make_result (sample_stamp n) ''jlink-commander'' argv 0 sample_output [] []),
     se_port_ready = (\<lambda>n p. True), se_serial = (\<lambda>n p. Inr []), se_decode = (\<lambda>b. []),
     se_application = (\<lambda>n name args. Inl ''none''), se_gdb_start = (\<lambda>n sel p. Inr (sample_id n)),
     se_gdb_info = (\<lambda>n sid. Some [(''probe_serial'', JStr ''7'')]), se_gdb_command = (\<lambda>n sid c. Inl ''none''),
     se_gdb_capture = (\<lambda>n sid c. Inl ''none''), se_gdb_stop = (\<lambda>n sid. Some ''stuck''),
     se_gui_launch = (\<lambda>n a args. Inr (sample_id n)), se_gui_action = (\<lambda>n sid a. Inl ''none''), se_gui_info = (\<lambda>n sid. Inl ''none''),
     se_gui_stop = (\<lambda>n sid. None), se_gui_stop_all = (\<lambda>n. None), se_gui_ocr = (\<lambda>n p. Inl ''none''),
     se_file_digest = (\<lambda>n p. Inl ''none''), se_polls = 1 \<rparr>"

lemma sample_fresh: "fresh_identifiers sample_service"
  by (auto simp: fresh_identifiers_def sample_service_def sample_id_def inj_def)

lemma sample_started: "service_reachable sample_service (fresh_state empty_store)"
proof (rule reach_start [OF store_init])
  show "start_service (sample_service :: service_env) empty_store = (Inr (), fresh_state empty_store)"
    by (simp add: start_service_def clear_stale_sessions_def empty_store_def op_bind_def op_lift_def op_return_def)
qed

subsection \<open>The log\<close>

text \<open>C3: The audit log of a running service. In every state that any sequence of operations of any tasks can reach, the
  hash chain verifies and operation ids and entry hashes are unique; and every further operation only
  appends entries, also when it raises.\<close>

theorem service_log_invariant:
  assumes "service_reachable env st"
  shows "verify_chain (se_store env) (sv_store st) = (True, None)
    \<and> distinct (map row_operation_id (operations (sv_store st))) \<and> distinct (map row_entry_hash (operations (sv_store st)))
    \<and> (\<forall>t f. service_call (env \<lparr> se_task := t \<rparr>) f \<longrightarrow> (\<exists>rows. operations (sv_store (f st)) = operations (sv_store st) @ rows))"
proof -
  have "\<exists>rows. operations (sv_store (f st)) = operations (sv_store st) @ rows" if "service_call (env \<lparr> se_task := t \<rparr>) f" for t f
    using audit.call_stays [OF that, of st] by (simp add: audit_grows_def)
  then show ?thesis
    using store_inv_service [OF assms] by (simp add: store_inv_def verify_chain_def)
qed

theorem service_log_invariant_witness:
  "\<exists>rows. operations (sv_store (snd (probe_list sample_service (fresh_state empty_store)))) = [] @ rows"
proof -
  have t: "sample_service \<lparr> se_task := 0 \<rparr> = sample_service" by (simp add: sample_service_def)
  have "service_call (sample_service \<lparr> se_task := 0 \<rparr>) (\<lambda>st. snd (probe_list sample_service st))"
    unfolding t by (rule call_probe_list)
  then show ?thesis
    using service_log_invariant [OF sample_started] by (auto simp: fresh_state_def empty_store_def)
qed

subsection \<open>The identity gate\<close>

text \<open>What a positive identification consists of.\<close>

lemma validate_identity_Inr:
  assumes "validate_identity env r sel = Inr ()"
  obtains pid cid profile expected where "sel_target_profile sel = Some pid" "sel_core sel = Some cid"
    "get_profile (se_targets env) pid = Inr profile" "dict_get (profile_cores profile) cid = Some expected"
    "identity_failures profile expected sel r = []"
proof -
  obtain pid cid where s: "sel_target_profile sel = Some pid" "sel_core sel = Some cid"
    using assms by (auto simp: validate_identity_def split: option.splits)
  then obtain profile where p: "get_profile (se_targets env) pid = Inr profile"
    "(case dict_get (profile_cores profile) cid of None \<Rightarrow> Inl (Selection (CoreUnknown cid pid))
      | Some expected \<Rightarrow> (case identity_failures profile expected sel r of
           [] \<Rightarrow> Inr () | failures \<Rightarrow> Inl (Selection (NotIdentified failures)))) = Inr ()"
    using assms by (auto simp: validate_identity_def rbind_eq_Inr rcatch_eq_Inr)
  then obtain expected where "dict_get (profile_cores profile) cid = Some expected" "identity_failures profile expected sel r = []"
    by (auto split: option.splits list.splits)
  then show ?thesis using that s p(1) by blast
qed

text \<open>C1: The identity gate. In every reachable state, a command list that reached a probe and is not the identification
  itself comes right after an identification of the same selector that succeeded, connected, and reported
  the expected core, CPUID and debug port, a voltage of at least the profile's minimum and the selected probe's
  serial number up to leading zeros.\<close>

theorem identity_gate:
  assumes "service_reachable env st" "i < length (sv_trace st)" "sv_trace st ! i = (commands, sel, answer)" "commands \<noteq> identity_commands"
  shows "0 < i \<and> (\<exists>r pid cid profile expected wanted. sv_trace st ! (i - 1) = (identity_commands, sel, Some r)
    \<and> sel_target_profile sel = Some pid \<and> sel_core sel = Some cid
    \<and> get_profile (se_targets env) pid = Inr profile \<and> dict_get (profile_cores profile) cid = Some expected
    \<and> result_ok r \<and> json_truthy (lookup (res_parsed r) ''connected'')
    \<and> lookup (res_parsed r) ''core'' = JStr (core_expected_core expected)
    \<and> parsed_number (res_parsed r) ''cpuid'' = core_expected_cpuid expected
    \<and> parsed_number (res_parsed r) ''dpidr'' = profile_expected_dpidr profile
    \<and> voltage_accepted profile (res_parsed r)
    \<and> sel_probe_serial sel = Some wanted \<and> wanted \<noteq> []
    \<and> serial_equal (case dict_get (res_parsed r) ''probe_serial'' of None \<Rightarrow> [] | Some v \<Rightarrow> json_text v) wanted)"
proof -
  have "0 < i" "identified_by env sel (sv_trace st ! (i - 1))"
    using gated_reachable [OF assms(1)] assms(2-4) unfolding gated_def by (metis fst_conv snd_conv)+
  then obtain r where r: "sv_trace st ! (i - 1) = (identity_commands, sel, Some r)" "validate_identity env r sel = Inr ()"
    by (cases "sv_trace st ! (i - 1)") (auto simp: identified_by_def split: option.splits)
  from validate_identity_Inr [OF r(2)] obtain pid cid profile expected where
    v: "sel_target_profile sel = Some pid" "sel_core sel = Some cid"
    "get_profile (se_targets env) pid = Inr profile" "dict_get (profile_cores profile) cid = Some expected"
    "identity_failures profile expected sel r = []" .
  obtain wanted where w: "sel_probe_serial sel = Some wanted"
    using v(5) by (cases "sel_probe_serial sel") (auto simp: identity_failures_def Let_def)
  have f: "result_ok r" "json_truthy (lookup (res_parsed r) ''connected'')" "lookup (res_parsed r) ''core'' = JStr (core_expected_core expected)"
    "parsed_number (res_parsed r) ''cpuid'' = core_expected_cpuid expected" "parsed_number (res_parsed r) ''dpidr'' = profile_expected_dpidr profile"
    "voltage_accepted profile (res_parsed r)" "wanted \<noteq> []"
    "serial_equal (case dict_get (res_parsed r) ''probe_serial'' of None \<Rightarrow> [] | Some v \<Rightarrow> json_text v) wanted"
    using v(5) w by (simp_all add: identity_failures_def Let_def split: if_splits)
  show ?thesis
    by (intro conjI exI) (fact \<open>0 < i\<close> r(1) v w f)+
qed

subsection \<open>Leases\<close>

lemma active_lease_ids:
  assumes inv: "lease_inv st"
  shows "lease_id ` set (active_leases st) = fst ` set (by_id st)" "distinct (map lease_probe (active_leases st))"
proof -
  note I = lease_invD [OF inv]
  have act: "lease_probe i = p \<and> dict_get (by_id st) (lease_id i) = Some i" if "(p, i) \<in> set (active st)" for p i
    using that I(1) by (intro I(4)) simp
  have "map lease_probe (active_leases st) = map fst (active st)"
    unfolding active_leases_def map_map using act by (intro map_cong) auto
  then show "distinct (map lease_probe (active_leases st))" using I(1) by simp
  have "lid \<in> lease_id ` set (active_leases st)" if "(lid, i) \<in> set (by_id st)" for lid i
  proof -
    have "dict_get (by_id st) lid = Some i" using that I(2) by simp
    then have "lease_id i = lid" "(lease_probe i, i) \<in> set (active st)" using I(3) [of lid i] by (auto dest: map_of_SomeD)
    then show ?thesis by (force simp: active_leases_def)
  qed
  moreover have "lease_id i \<in> fst ` set (by_id st)" if "(p, i) \<in> set (active st)" for p i
    using act [OF that] by (force dest: map_of_SomeD)
  ultimately show "lease_id ` set (active_leases st) = fst ` set (by_id st)"
    by (fastforce simp: active_leases_def)
qed

text \<open>C2: Leases belong to sessions. With identifiers that do not repeat, in every reachable state the live leases are
  exactly those of the open GDB and GUI sessions, one each and for different probes, so that a probe without a
  session is granted to the next task at once; and a Commander operation, a serial exchange and an application run
  leave the leases as they found them, also when they raise.\<close>

theorem leases_are_sessions:
  assumes "fresh_identifiers env" "service_reachable env st"
  shows "lease_id ` set (active_leases (sv_leases st)) = set (session_leases st) \<and> distinct (session_leases st)
    \<and> distinct (map lease_probe (active_leases (sv_leases st)))
    \<and> (\<forall>probe t owner. probe \<notin> lease_probe ` set (active_leases (sv_leases st)) \<longrightarrow> grant t probe owner (lock_for probe (sv_leases st)) \<noteq> None)
    \<and> (\<forall>given sel commands action d. action \<noteq> ''connect'' \<longrightarrow>
         same_leases (sv_leases st) (sv_leases (snd (commander_commands env given sel commands action d st))))
    \<and> (\<forall>given sel write baudrate duration until.
         same_leases (sv_leases st) (sv_leases (snd (serial_exchange env given sel write baudrate duration until st))))
    \<and> (\<forall>given sel a. same_leases (sv_leases st) (sv_leases (snd (run_application env given sel a st))))"
proof -
  have inv: "sessions_inv env st" by (rule sessions_reachable [OF assms(2,1)])
  then have ready: "lease_ready env st" and l: "lease_inv (sv_leases st)" and idle: "granted (sv_leases st) = []"
    by (simp_all add: sessions_inv_def lease_ready_def)
  have inj: "inj (se_uuid env)" using assms(1) by (simp add: fresh_identifiers_def)
  have same: "same_leases (sv_leases st) (sv_leases (snd (m st)))" if "over (lease_kept env) m" for m :: "command_result operation"
    using overD [OF that, of st] inj ready by (simp add: lease_kept_def)
  have free: "grant t probe owner (lock_for probe (sv_leases st)) \<noteq> None"
    if "probe \<notin> lease_probe ` set (active_leases (sv_leases st))" for probe t owner
  proof -
    have "dict_get (active (sv_leases st)) probe = None"
    proof (rule ccontr)
      assume "dict_get (active (sv_leases st)) probe \<noteq> None"
      then obtain i where "dict_get (active (sv_leases st)) probe = Some i" by blast
      then have "(probe, i) \<in> set (active (sv_leases st))" "lease_probe i = probe"
        using lease_invD(4) [OF l] by (auto dest: map_of_SomeD)
      then show False using that by (force simp: active_leases_def)
    qed
    then have "dict_get (locks (sv_leases st)) probe \<noteq> Some True"
      using lease_invD(8) [OF l, of probe] idle by (simp add: granted_probes_def)
    then show ?thesis by (auto simp: grant_def lock_for_def dict_setdefault_def split: option.split)
  qed
  show ?thesis
    using inv active_lease_ids [OF l] free same [OF kept.over_commander_commands] same [OF kept.over_serial_exchange] same [OF kept.over_application]
    by (auto simp: sessions_inv_def)
qed

subsection \<open>Closing\<close>

text \<open>Closing stops at the first failure. When ending the first GDB session raises, closing the service raises as well,
  gives back only that session's lease and leaves every other GDB and GUI session filed and its lease live.\<close>

theorem close_abandons_sessions:
  assumes "sv_gdb_leases st = (sid, lid) # others" "se_gdb_stop env (Suc (sv_tick st)) sid = Some msg"
    "dict_ok (sv_gdb_leases st)"
  shows "fst (close env st) = Inl (BackendFailed msg)
    \<and> sv_gdb_leases (snd (close env st)) = others \<and> sv_gui_leases (snd (close env st)) = sv_gui_leases st
    \<and> (\<forall>l. l \<noteq> lid \<longrightarrow> dict_get (by_id (sv_leases (snd (close env st)))) l = dict_get (by_id (sv_leases st)) l)"
proof -
  have "dict_pop ((sid, l) # others) sid = others" for l
    using assms(1,3) dict_pop_absent [of sid others] by (simp add: dict_pop_def)
  moreover have "dict_get (by_id (release lid (sv_leases st))) l = dict_get (by_id (sv_leases st)) l" if "l \<noteq> lid" for l
    using that by (simp add: release_def Let_def split: option.split)
  ultimately show ?thesis using assms(1,2)
    by (simp add: close_def op_bind_def op_get_def stop_gdb_def op_finally_def ask_def run_backend_def op_lift_def rcatch_def
        forget_gdb_def release_lease_def Let_def)
qed

theorem close_abandons_sessions_witness:
  "sv_gui_leases (snd (close sample_service ((fresh_state empty_store) \<lparr> sv_gdb_leases := [(''s'', ''a'')], sv_gui_leases := [(''g'', ''b'')] \<rparr>)))
     = [(''g'', ''b'')]"
  using close_abandons_sessions [of "(fresh_state empty_store) \<lparr> sv_gdb_leases := [(''s'', ''a'')], sv_gui_leases := [(''g'', ''b'')] \<rparr>"
      "''s''" "''a''" "[]" sample_service "''stuck''"]
  by (simp add: sample_service_def fresh_state_def)

subsection \<open>A sample run\<close>

lemma found_hit: "map_option (group 1) (re_search r output) = Some g \<Longrightarrow> found r output key f parsed = dict_set parsed key (f g)"
  by (auto simp: found_def split: option.split)

lemma found_miss: "map_option (group 1) (re_search r output) = None \<Longrightarrow> found r output key f parsed = parsed"
  by (simp add: found_def)

lemma sample_searches:
  "map_option (group 1) (re_search VTREF_RE (sample_output @ [CHR 0x0A])) = Some ''3''"
  "map_option (group 0) (re_search CORTEX_RE (sample_output @ [CHR 0x0A])) = Some ''Cortex-M''"
  "map_option (group 1) (re_search SERIAL_RE (sample_output @ [CHR 0x0A])) = Some ''7''"
  by (code_simp, code_simp, code_simp)

lemma sample_searches_cpu:
  "map_option (group 1) (re_search CPUID_RE (sample_output @ [CHR 0x0A])) = Some ''0x1''"
  "map_option (group 1) (re_search DPIDR_RE (sample_output @ [CHR 0x0A])) = Some ''0x2''"
  "map_option (group 1) (re_search PC_RE (sample_output @ [CHR 0x0A])) = None"
  by (code_simp, code_simp, code_simp)

lemma sample_misses:
  "map_option (group 1) (re_search FIRMWARE_RE (sample_output @ [CHR 0x0A])) = None"
  "map_option (group 1) (re_search HARDWARE_RE (sample_output @ [CHR 0x0A])) = None"
  "map_option (group 1) (re_search LICENSE_RE (sample_output @ [CHR 0x0A])) = None"
  "map_option (group 1) (re_search MODE_RE (sample_output @ [CHR 0x0A])) = None"
  by (code_simp, code_simp, code_simp, code_simp)

lemma sample_misses_versions:
  "map_option (group 1) (re_search COMMANDER_VERSION_RE (sample_output @ [CHR 0x0A])) = None"
  "map_option (group 1) (re_search DLL_VERSION_RE (sample_output @ [CHR 0x0A])) = None"
  "re_findall MEMORY_RE (sample_output @ [CHR 0x0A]) = []"
  by (code_simp, code_simp, code_simp)

lemma sample_misses_handles:
  "map_option (group 1) (re_search BREAKPOINT_RE (sample_output @ [CHR 0x0A])) = None"
  "map_option (group 1) (re_search WATCHPOINT_RE (sample_output @ [CHR 0x0A])) = None"
  by (code_simp, code_simp)

lemma sample_registers: "re_findall REGISTER_RE (sample_output @ [CHR 0x0A]) = []"
  by code_simp

lemma sample_verdict: "flash_verdict (sample_output @ [CHR 0x0A]) = False"
  by code_simp

lemma sample_words:
  "str_contains (map char_lower (sample_output @ [CHR 0x0A])) ''cannot connect'' = False"
  "str_contains (map char_lower (sample_output @ [CHR 0x0A])) ''could not connect'' = False"
  "str_contains (map char_lower (sample_output @ [CHR 0x0A])) ''cortex-'' = True"
  by (code_simp, code_simp, code_simp)

lemma sample_words_pc:
  "str_contains (map char_lower (sample_output @ [CHR 0x0A])) ''pc ='' = False"
  "str_contains (map char_lower (sample_output @ [CHR 0x0A])) ''currentpc'' = False"
  "parse_decimal ''3'' = Some 3"
  by (code_simp, code_simp, code_simp)

definition sample_parsed :: json_object where
  "sample_parsed = [(''target_voltage'', JReal ''3''), (''core'', JStr ''Cortex-M''), (''probe_serial'', JStr ''7''),
     (''cpuid'', JStr ''0x1''), (''dpidr'', JStr ''0x2''), (''flash_verified'', JBool False), (''connected'', JBool True)]"

lemmas sample_found = sample_searches(3) [THEN found_hit] sample_searches_cpu(1,2) [THEN found_hit] sample_searches_cpu(3) [THEN found_miss]
  sample_misses [THEN found_miss] sample_misses_versions(1,2) [THEN found_miss] sample_misses_handles [THEN found_miss]

lemma sample_parse: "parse_commander_output (sample_output @ [CHR 0x0A]) = Inr sample_parsed"
proof -
  let ?out = "sample_output @ [CHR 0x0A]"
  obtain p where p: "re_search VTREF_RE ?out = Some p" "group 1 p = ''3''" using sample_searches(1) by auto
  obtain q where q: "re_search CORTEX_RE ?out = Some q" "group 0 q = ''Cortex-M''" using sample_searches(2) by auto
  have r: "register_entries [] = []" by (simp add: register_entries_def)
  have "parse_fields ?out [(''target_voltage'', JReal ''3'')]
      = connection_fields ?out [(''target_voltage'', JReal ''3''), (''core'', JStr ''Cortex-M''), (''probe_serial'', JStr ''7''),
          (''cpuid'', JStr ''0x1''), (''dpidr'', JStr ''0x2'')]"
    by (simp only: parse_fields_def Let_def sample_found q option.case sample_misses_versions(3) sample_registers r list.map simp_thms if_False)
      (simp only: dict_set.simps list.inject char.inject simp_thms if_False refl)
  also have "\<dots> = sample_parsed"
    by (simp only: connection_fields_def Let_def sample_verdict sample_words sample_words_pc simp_thms if_False if_True sample_parsed_def)
      (simp only: dict_set.simps list.inject list.distinct char.inject simp_thms if_False refl)
  finally show ?thesis unfolding parse_commander_output_def p option.case sample_words_pc(3) by simp
qed

lemma sample_validated:
  "validate_raw_commands (Some (sample_settings, sample_fs)) 256 identity_commands = Inr identity_commands"
  "validate_raw_commands (Some (sample_settings, sample_fs)) 256 [''Halt''] = Inr [''Halt'']"
proof -
  have v: "validate_raw_command ''Halt'' = Inr ''Halt''" "shlex_split ''Halt'' = Some [''Halt'']"
    "validate_raw_command ''ShowHWStatus'' = Inr ''ShowHWStatus''" "shlex_split ''ShowHWStatus'' = Some [''ShowHWStatus'']"
    "validate_raw_command ''Mem32 0xE000ED00 1'' = Inr ''Mem32 0xE000ED00 1''"
    "shlex_split ''Mem32 0xE000ED00 1'' = Some [''Mem32'', ''0xE000ED00'', ''1'']"
    "path_operand ''0xE000ED00'' = None" "path_operand ''1'' = None" by code_simp+
  show "validate_raw_commands (Some (sample_settings, sample_fs)) 256 identity_commands = Inr identity_commands"
    "validate_raw_commands (Some (sample_settings, sample_fs)) 256 [''Halt''] = Inr [''Halt'']"
    by (simp_all add: validate_raw_commands_def validate_embedded_paths_def identity_commands_def v)
qed

lemma sample_executable: "segger_executable sample_settings sample_fs ''JLinkExe'' = Inr [''opt'', ''segger'', ''JLinkExe'']"
proof -
  have p: "parse_path ''/opt/segger'' = \<lparr> path_absolute = True, path_parts = [''opt'', ''segger''] \<rparr>"
    "parse_path ''JLinkExe'' = \<lparr> path_absolute = False, path_parts = [''JLinkExe''] \<rparr>"
    by (simp_all add: parse_path_def str_startswith_def)
  show ?thesis
    by (simp add: segger_executable_def sample_settings_def default_settings_def sample_fs_def p join_path_def resolve_root_def below_def within_def)
qed

definition sample_target :: device_selector where
  "sample_target = default_selector \<lparr> sel_probe_serial := Some ''7'', sel_target_profile := Some ''p'', sel_core := Some ''m'' \<rparr>"

lemma sample_args: "\<exists>args. selector_args (se_targets sample_service) (Some sample_target) = Inr args"
  by (simp add: selector_args_def sample_target_def default_selector_def sample_service_def sample_profile_def sample_core_def
      jlink_device_def get_profile_def empty_targets_def)

lemma sample_run:
  assumes "validate_raw_commands (Some (sample_settings, sample_fs)) 256 commands = Inr commands"
  obtains r where "run_commander sample_service commands sample_target st
      = (Inr r, st \<lparr> sv_tick := Suc (sv_tick st), sv_trace := sv_trace st @ [(commands, sample_target, Some r)] \<rparr>)"
    "res_parsed r = sample_parsed" "result_ok r" "res_operation_id r = sample_id (sv_tick st)"
proof -
  obtain args where "selector_args (se_targets sample_service) (Some sample_target) = Inr args" using sample_args by blast
  then show ?thesis
    using that assms sample_executable sample_parse
    by (simp add: run_commander_def execute_def sample_service_def make_result_def sample_stamp_def result_ok_def Let_def)
qed

lemma sample_identified:
  assumes "res_parsed r = sample_parsed" "result_ok r"
  shows "validate_identity sample_service r sample_target = Inr ()"
proof -
  have n: "parse_int0 ''0x1'' = Some 1" "parse_int0 ''0x2'' = Some 2" by code_simp+
  show ?thesis using assms sample_words_pc(3)
    by (simp add: validate_identity_def identity_failures_def sample_target_def default_selector_def sample_service_def sample_profile_def sample_core_def
        get_profile_def empty_targets_def sample_parsed_def lookup_def parsed_number_def voltage_accepted_def json_number_def json_text_def
        serial_equal_def n Let_def)
qed

lemma sample_resolved:
  "resolve_selector_wait sample_service {} default_selector (fresh_state empty_store)
     = (Inr sample_target, (fresh_state empty_store) \<lparr> sv_tick := 1 \<rparr>)"
  by (simp add: resolve_selector_wait_def sample_service_def resolve_selector_def capabilities_def op_bind_def ask_def fresh_state_def empty_store_def
      resolve_with_def choose_profile_def choose_probe_def choose_board_def default_selector_def sample_target_def sample_profile_def sample_core_def
      get_profile_def empty_targets_def enrich_probe_def Let_def)

lemma append_first:
  assumes "operations (sv_store st) = []"
  obtains st' where "append env r action probe d request st = (Inr (), st')" "sv_trace st' = sv_trace st"
  using that assms by (simp add: append_def op_bind_def ask_def append_operation_def new_row_def Let_def)

lemma sample_preflight:
  assumes "operations (sv_store st) = []"
  obtains i r st' where "identity_preflight sample_service sample_target lid st = (Inr i, st')"
    "sv_trace st' = sv_trace st @ [(identity_commands, sample_target, Some r)]" "validate_identity sample_service i sample_target = Inr ()"
proof -
  obtain r where r: "run_commander sample_service identity_commands sample_target st
      = (Inr r, st \<lparr> sv_tick := Suc (sv_tick st), sv_trace := sv_trace st @ [(identity_commands, sample_target, Some r)] \<rparr>)" (is "_ = (_, ?st1)")
    and ok: "res_parsed r = sample_parsed" "result_ok r"
    using sample_run [OF sample_validated(1)] by blast
  define i where "i = attach_identities sample_target (res_parsed (with_session lid (parsed_default ''selector'' (selector_json sample_target) r)))
    (with_session lid (parsed_default ''selector'' (selector_json sample_target) r))"
  have v: "validate_identity sample_service i sample_target = Inr ()"
    unfolding i_def by (simp add: validate_identity_attached sample_identified [OF ok])
  have "operations (sv_store ?st1) = []" using assms by simp
  then obtain st2 where a: "append sample_service i ''target_identity_preflight'' (sel_probe_serial sample_target) False
      (Some [(''selector'', selector_json sample_target)]) ?st1 = (Inr (), st2)" "sv_trace st2 = sv_trace ?st1"
    by (rule append_first)
  have "identity_preflight sample_service sample_target lid st = (Inr i, st2)"
    unfolding identity_preflight_def op_bind_returns [of "run_commander sample_service identity_commands sample_target", OF r] Let_def i_def [symmetric]
    using a(1) v by (simp add: op_bind_def op_lift_def op_return_def)
  then show ?thesis using that a(2) v by simp
qed

lemma sample_guarded:
  assumes "operations (sv_store st) = []"
  shows "\<exists>a b. sv_trace (snd (guarded_body sample_service sample_target [''Halt''] lease st))
      = sv_trace st @ [(identity_commands, sample_target, a), ([''Halt''], sample_target, b)]"
proof -
  obtain i r st1 where 1: "identity_preflight sample_service sample_target (lease_id lease) st = (Inr i, st1)"
    "sv_trace st1 = sv_trace st @ [(identity_commands, sample_target, Some r)]" "validate_identity sample_service i sample_target = Inr ()"
    using sample_preflight [OF assms] by blast
  obtain r' where "run_commander sample_service [''Halt''] sample_target st1
      = (Inr r', st1 \<lparr> sv_tick := Suc (sv_tick st1), sv_trace := sv_trace st1 @ [([''Halt''], sample_target, Some r')] \<rparr>)"
    using sample_run [OF sample_validated(2)] by blast
  then show ?thesis using 1 by (simp add: guarded_body_def op_bind_def op_lift_def op_return_def)
qed

definition sample_halted :: service_state where
  "sample_halted = snd (commander_commands sample_service {} default_selector [''Halt''] ''halt'' True (fresh_state empty_store))"

lemma append_keeps_trace: "sv_trace (snd (op_bind m (\<lambda>(r, i). op_bind (append env (f r i) action probe d request) (\<lambda>_. op_return (g r i))) st))
    = sv_trace (snd (m st))"
  by (auto simp: op_bind_def op_return_def split: prod.split sum.split dest: append_trace)

lemma sample_halted_trace:
  "\<exists>a b. sv_trace sample_halted = [(identity_commands, sample_target, a), ([''Halt''], sample_target, b)]"
proof -
  let ?st = "(fresh_state empty_store) \<lparr> sv_tick := 1 \<rparr>"
  have "sv_trace sample_halted
      = sv_trace (snd (with_lease sample_service ''7'' ''halt'' (guarded_body sample_service sample_target [''Halt'']) ?st))"
    unfolding sample_halted_def commander_commands_def
      op_bind_returns [of "resolve_selector_wait sample_service {} default_selector", OF sample_resolved]
    by (simp add: sample_target_def append_keeps_trace Let_def)
  moreover obtain info st1 where a: "acquire_lease sample_service ''7'' ''halt'' ?st = (Inr info, st1)"
    by (auto simp: acquire_lease_def op_bind_def ask_def lease_enter_def grant_def lock_for_def new_manager_def fresh_state_def
        dict_setdefault_def register_def Let_def)
  moreover note acquire_lease_frame [OF a]
  moreover have "reentrant (se_task sample_service) ''7'' (sv_leases ?st) = None"
    by (simp add: reentrant_def fresh_state_def new_manager_def)
  ultimately show ?thesis using sample_guarded [of st1 info]
    by (simp add: snd_with_lease leased_state_def release_lease_frame fresh_state_def empty_store_def)
qed

theorem identity_gate_witness:
  "\<exists>r. sv_trace sample_halted ! 0 = (identity_commands, sample_target, Some r) \<and> result_ok r"
proof -
  have t: "sample_service \<lparr> se_task := 0 \<rparr> = sample_service" by (simp add: sample_service_def)
  have "service_call (sample_service \<lparr> se_task := 0 \<rparr>)
      (\<lambda>st. snd (commander_commands sample_service {} default_selector [''Halt''] ''halt'' True st))"
    unfolding t by (rule call_commander) simp
  from reach_call [OF sample_started this] have "service_reachable sample_service sample_halted"
    by (simp add: sample_halted_def)
  moreover obtain a b where tr: "sv_trace sample_halted = [(identity_commands, sample_target, a), ([''Halt''], sample_target, b)]"
    using sample_halted_trace by blast
  ultimately show ?thesis
    using identity_gate [of sample_service sample_halted 1 "[''Halt'']" sample_target b] by (auto simp: identity_commands_def)
qed

theorem leases_are_sessions_witness:
  "grant 1 ''7'' ''next'' (lock_for ''7'' (sv_leases (fresh_state empty_store))) \<noteq> None"
  using leases_are_sessions [OF sample_fresh sample_started]
  by (simp add: fresh_state_def new_manager_def active_leases_def)

end
