(* ===== verification/Service_Requests.thy ===== *)
theory Service_Requests
  imports Service_Ops
begin

text \<open>
  The requests the service turns into Commander commands: which of them may be recorded as not changing the target, and
  that the numbers of a memory request are in the command as they were given.
\<close>

subsection \<open>Numbers in commands\<close>

lemma hex_value_append: "hex_value acc (s @ t) = hex_value (hex_value acc s) t"
  by (induction s arbitrary: acc) auto

lemma hex_upper_digit:
  assumes "d < 16"
  shows "hex_value acc [hex_upper_digit d] = 16 * acc + d" "ascii_hex (hex_upper_digit d)"
proof -
  have "code (hex_upper_digit d) = (if d < 10 then 48 + d else 55 + d)" using assms by (simp add: hex_upper_digit_def)
  then show "hex_value acc [hex_upper_digit d] = 16 * acc + d" "ascii_hex (hex_upper_digit d)"
    using assms by (auto simp: ascii_hex_def ascii_digit_def)
qed

lemma show_hex_digits_exact:
  "hex_value 0 (show_hex_digits n) = n \<and> list_all ascii_hex (show_hex_digits n) \<and> show_hex_digits n \<noteq> []"
proof (induction n rule: show_hex_digits.induct)
  case (1 n)
  show ?case
  proof (cases "n < 16")
    case True
    then show ?thesis using hex_upper_digit [OF True] by (simp add: show_hex_digits.simps [of n])
  next
    case False
    have "n mod 16 < 16" by simp
    then show ?thesis using 1 False hex_upper_digit [of "n mod 16"]
      by (simp add: show_hex_digits.simps [of n] hex_value_append del: hex_value.simps)
  qed
qed

lemma hex_value_zeros: "hex_value 0 (replicate k (CHR ''0'') @ s) = hex_value 0 s"
  by (induction k) (simp_all add: ascii_digit_def)

lemma show_hex_exact: "hex_value 0 (show_hex w n) = n" "list_all ascii_hex (show_hex w n)" "show_hex w n \<noteq> []"
proof -
  have "ascii_hex (CHR ''0'')" by code_simp
  then show "hex_value 0 (show_hex w n) = n" "list_all ascii_hex (show_hex w n)" "show_hex w n \<noteq> []"
    using show_hex_digits_exact [of n] by (simp_all add: show_hex_def Let_def hex_value_zeros list_all_iff ball_Un)
qed

lemma parse_hex: "0 \<le> a \<Longrightarrow> parse_int0 (hex_address a) = Some a" "0 \<le> a \<Longrightarrow> parse_int0 (hex_plain a) = Some a"
proof -
  have "str_startswith (''0x'' @ s) ''0x''" for s by (simp add: str_startswith_def)
  then show "0 \<le> a \<Longrightarrow> parse_int0 (hex_address a) = Some a" "0 \<le> a \<Longrightarrow> parse_int0 (hex_plain a) = Some a"
    using show_hex_exact [of _ "nat a"] by (simp_all add: parse_int0_def hex_address_def hex_plain_def)
qed

text \<open>The words of a command are what Commander reads.\<close>

lemma ascii_hex_not_space: "ascii_hex c \<Longrightarrow> \<not> py_isspace c"
  by (auto simp: ascii_hex_def ascii_digit_def py_isspace_def)

lemma split_words_word:
  "list_all (\<lambda>c. \<not> py_isspace c) w \<Longrightarrow> split_words acc (w @ s) = split_words (acc @ w) s"
  by (induction w arbitrary: acc) auto

lemma split_words_join:
  assumes "list_all (\<lambda>w. w \<noteq> [] \<and> list_all (\<lambda>c. \<not> py_isspace c) w) ws" "ws \<noteq> []"
  shows "split_words [] (join_with '' '' ws) = ws"
  using assms
proof (induction "'' ''" ws rule: join_with.induct)
  case (2 x)
  then show ?case using split_words_word [of x "[]" "[]"] by simp
next
  case (3 x y xs)
  have "py_isspace (CHR '' '')" by code_simp
  then show ?case using 3 split_words_word [of x "[]" "'' '' @ join_with '' '' (y # xs)"] by simp
qed simp

lemma join_words: "join_with sep (x # y # ws) = x @ sep @ join_with sep (y # ws)"
  by simp

subsection \<open>Memory requests\<close>

abbreviation word_ok :: "string \<Rightarrow> bool" where
  "word_ok w \<equiv> w \<noteq> [] \<and> list_all (\<lambda>c. \<not> py_isspace c) w"

lemma word_ok_hex: "0 \<le> a \<Longrightarrow> word_ok (hex_address a)" "0 \<le> a \<Longrightarrow> word_ok (hex_plain a)"
proof -
  have "list_all (\<lambda>c. \<not> py_isspace c) (show_hex w n)" for w n
    using show_hex_exact(2) [of w n] ascii_hex_not_space by (auto simp: list_all_iff)
  then show "0 \<le> a \<Longrightarrow> word_ok (hex_address a)" "0 \<le> a \<Longrightarrow> word_ok (hex_plain a)"
    by (simp_all add: hex_address_def hex_plain_def py_isspace_def)
qed

lemma word_ok_int: "0 \<le> n \<Longrightarrow> word_ok (show_int n)"
proof -
  have "list_all (\<lambda>c. \<not> py_isspace c) (show_nat k)" for k
    using show_nat_digits [of k] by (auto simp: list_all_iff ascii_digit_def py_isspace_def)
  then show "0 \<le> n \<Longrightarrow> word_ok (show_int n)" using show_nat_digits by (simp add: show_int_def)
qed

lemma word_ok_append: "word_ok u \<Longrightarrow> word_ok w \<Longrightarrow> word_ok (u @ w)"
  by simp

lemma refuse_unless_Inr: "refuse_unless c msg x = Inr y \<longleftrightarrow> c \<and> y = x"
  by (auto simp: refuse_unless_def)

lemma write_memory_Inr:
  "write_memory_request a vals w = Inr req \<longleftrightarrow>
     0 \<le> a \<and> vals \<noteq> [] \<and> length vals \<le> 4096 \<and> w \<in> {8, 16, 32} \<and> (\<forall>v \<in> set vals. 0 \<le> v \<and> v < 2 ^ nat w)
     \<and> req = ([''W'' @ show_int (w div 8) @ '' '' @ hex_address a @ '' '' @ join_with '' '' (map hex_plain vals)], ''write_memory'', True)"
proof -
  have "\<not> (v < 0 \<or> v > 2 ^ nat w - 1) \<longleftrightarrow> 0 \<le> v \<and> v < 2 ^ nat w" for v :: int by linarith
  then have "\<not> list_ex (\<lambda>v. v < 0 \<or> v > 2 ^ nat w - 1) vals \<longleftrightarrow> (\<forall>v \<in> set vals. 0 \<le> v \<and> v < 2 ^ nat w)"
    unfolding list_ex_iff by blast
  moreover have "\<not> (a < 0 \<or> vals = [] \<or> length vals > 4096) \<longleftrightarrow> 0 \<le> a \<and> vals \<noteq> [] \<and> length vals \<le> 4096" by linarith
  ultimately show ?thesis
    unfolding write_memory_request_def rbind_eq_Inr refuse_unless_Inr by blast
qed

lemma read_memory_Inr:
  "read_memory_request a n w = Inr req \<longleftrightarrow>
     0 \<le> a \<and> 1 \<le> n \<and> n \<le> 65536 \<and> w \<in> {8, 16, 32}
     \<and> req = ([''Mem'' @ show_int w @ '' '' @ hex_address a @ '' '' @ show_int n], ''read_memory'', False)"
  unfolding read_memory_request_def rbind_eq_Inr refuse_unless_Inr by auto

text \<open>Memory requests are exact. A write is accepted exactly for a non-negative address, a width of 8, 16 or 32 bits and
  1 to 4096 values that fit the width, a read exactly for a non-negative address and 1 to 65536 items; the one
  command's words are the operation with its width, the address and the values or the count, and reading those
  numbers back gives the request. A breakpoint has no such check: a negative address is sent as it is.\<close>

theorem memory_requests_exact:
  "((\<exists>req. write_memory_request a vals w = Inr req) \<longleftrightarrow>
      0 \<le> a \<and> vals \<noteq> [] \<and> length vals \<le> 4096 \<and> w \<in> {8, 16, 32} \<and> (\<forall>v \<in> set vals. 0 \<le> v \<and> v < 2 ^ nat w))
   \<and> (\<forall>req. write_memory_request a vals w = Inr req \<longrightarrow> (\<exists>cmd aw vws. req = ([cmd], ''write_memory'', True)
        \<and> split_words [] cmd = (''W'' @ show_int (w div 8)) # aw # vws
        \<and> parse_int0 aw = Some a \<and> map parse_int0 vws = map Some vals))
   \<and> ((\<exists>req. read_memory_request a n w = Inr req) \<longleftrightarrow> 0 \<le> a \<and> 1 \<le> n \<and> n \<le> 65536 \<and> w \<in> {8, 16, 32})
   \<and> (\<forall>req. read_memory_request a n w = Inr req \<longrightarrow> (\<exists>cmd aw. req = ([cmd], ''read_memory'', False)
        \<and> split_words [] cmd = [''Mem'' @ show_int w, aw, show_int n] \<and> parse_int0 aw = Some a))
   \<and> set_breakpoint_request (- 5) = ([''SetBP 0x-0000005''], ''set_breakpoint'', True)"
proof (intro conjI allI impI)
  show "(\<exists>req. write_memory_request a vals w = Inr req) \<longleftrightarrow>
      0 \<le> a \<and> vals \<noteq> [] \<and> length vals \<le> 4096 \<and> w \<in> {8, 16, 32} \<and> (\<forall>v \<in> set vals. 0 \<le> v \<and> v < 2 ^ nat w)"
    unfolding write_memory_Inr by blast
  show "(\<exists>req. read_memory_request a n w = Inr req) \<longleftrightarrow> 0 \<le> a \<and> 1 \<le> n \<and> n \<le> 65536 \<and> w \<in> {8, 16, 32}"
    unfolding read_memory_Inr by blast
  {
    fix req assume r: "write_memory_request a vals w = Inr req"
    then have ok: "0 \<le> a" "vals \<noteq> []" "w \<in> {8, 16, 32}" "\<forall>v \<in> set vals. 0 \<le> v" unfolding write_memory_Inr by blast+
    let ?words = "(''W'' @ show_int (w div 8)) # hex_address a # map hex_plain vals"
    have words: "list_all word_ok ?words"
      using ok(1,3,4) word_ok_hex word_ok_int [of "w div 8"] by (auto simp: list_all_iff py_isspace_def)
    have "req = ([join_with '' '' ?words], ''write_memory'', True)"
      using r ok(2) unfolding write_memory_Inr by (cases vals) simp_all
    moreover have "split_words [] (join_with '' '' ?words) = ?words"
      using words by (intro split_words_join) simp_all
    moreover have "map parse_int0 (map hex_plain vals) = map Some vals" using ok(4) parse_hex(2) by simp
    ultimately show "\<exists>cmd aw vws. req = ([cmd], ''write_memory'', True)
        \<and> split_words [] cmd = (''W'' @ show_int (w div 8)) # aw # vws
        \<and> parse_int0 aw = Some a \<and> map parse_int0 vws = map Some vals"
      using parse_hex(1) [OF ok(1)] by blast
  next
    fix req assume r: "read_memory_request a n w = Inr req"
    then have ok: "0 \<le> a" "1 \<le> n" "w \<in> {8, 16, 32}" unfolding read_memory_Inr by blast+
    let ?words = "[''Mem'' @ show_int w, hex_address a, show_int n]"
    have words: "list_all word_ok ?words"
      using ok word_ok_hex word_ok_int [of w] word_ok_int [of n] by (auto simp: py_isspace_def)
    have "req = ([join_with '' '' ?words], ''read_memory'', False)"
      using r unfolding read_memory_Inr by simp
    moreover have "split_words [] (join_with '' '' ?words) = ?words"
      using words by (intro split_words_join) simp_all
    ultimately show "\<exists>cmd aw. req = ([cmd], ''read_memory'', False)
        \<and> split_words [] cmd = [''Mem'' @ show_int w, aw, show_int n] \<and> parse_int0 aw = Some a"
      using parse_hex(1) [OF ok(1)] by blast
  }
  show "set_breakpoint_request (- 5) = ([''SetBP 0x-0000005''], ''set_breakpoint'', True)" by code_simp
qed

theorem memory_requests_exact_witness:
  "\<exists>req. write_memory_request 0x20000000 [1, 255] 8 = Inr req"
  using memory_requests_exact [where a = "0x20000000" and vals = "[1, 255]" and w = "8"] by simp

subsection \<open>What may be recorded as not changing the target\<close>

lemma first_word_strip: "first_word (str_strip s) = first_word (dropWhile py_isspace s)"
proof -
  let ?u = "dropWhile py_isspace s"
  define x where "x = rev (dropWhile py_isspace (rev ?u))"
  define y where "y = rev (takeWhile py_isspace (rev ?u))"
  have u: "?u = x @ y" unfolding x_def y_def by (simp add: rev_append [symmetric])
  have "\<forall>c \<in> set y. py_isspace c" unfolding y_def by (auto dest: set_takeWhileD)
  then have "takeWhile (\<lambda>c. \<not> py_isspace c) y = []" by (cases y) auto
  note nil = this
  have "takeWhile (\<lambda>c. \<not> py_isspace c) (x @ y) = takeWhile (\<lambda>c. \<not> py_isspace c) x"
  proof (cases "\<forall>c \<in> set x. \<not> py_isspace c")
    case True
    then have "takeWhile (\<lambda>c. \<not> py_isspace c) x = x" unfolding takeWhile_eq_all_conv .
    then show ?thesis by (simp only: takeWhile_append nil append_Nil2 if_cancel)
  next
    case False
    then show ?thesis by (simp only: takeWhile_append if_False)
  qed
  moreover have "str_strip s = x" unfolding str_strip_def x_def ..
  ultimately show ?thesis by (simp only: first_word_def u)
qed

lemma first_word_of_word: "word_ok w \<Longrightarrow> first_word (str_strip (w @ '' '' @ s)) = w"
proof -
  assume w: "word_ok w"
  have "py_isspace (CHR '' '')" by (simp add: py_isspace_def)
  moreover have "dropWhile py_isspace (w @ '' '' @ s) = w @ '' '' @ s" using w by (cases w) simp_all
  ultimately show ?thesis using w unfolding first_word_strip
    by (simp add: first_word_def takeWhile_append list_all_iff)
qed

text \<open>The requests of the service's operations.\<close>

inductive service_request :: "service_env \<Rightarrow> service_error + commander_request \<Rightarrow> bool" for env where
  "service_request env (Inr probe_info_request)"
| "service_request env (Inr connect_request)"
| "service_request env (reset_request h t)"
| "service_request env (Inr halt_request)"
| "service_request env (Inr go_request)"
| "service_request env (step_request n)"
| "service_request env (read_memory_request a n w)"
| "service_request env (write_memory_request a vals w)"
| "service_request env (Inr (set_breakpoint_request a))"
| "service_request env (clear_breakpoint_request n)"
| "service_request env (read_register_request name)"
| "service_request env (write_register_request name v)"
| "service_request env (set_watchpoint_request a access)"
| "service_request env (clear_watchpoint_request n)"
| "service_request env (erase_flash_request start stop)"
| "service_request env (verify_binary_request env path a)"
| "service_request env (command_string_request c)"
| "service_request env (swo_request act speed ms)"
| "service_request env (Inr (raw_request cs d))"

lemma read_only_word:
  "word_ok w \<Longrightarrow> map char_lower w \<in> set READ_ONLY_COMMANDER_COMMANDS \<Longrightarrow> \<not> derived_destructive [w @ '' '' @ s]"
  using first_word_of_word [of w s] by (simp add: derived_destructive_def)

lemma read_only_plain:
  "\<not> derived_destructive [''ShowFWInfo'', ''ShowHWStatus'', ''ShowConf'', ''Uptime'']"
  "\<not> derived_destructive [''ShowHWStatus'', ''Mem32 0xE000ED00 1'']"
  "\<not> derived_destructive [''SWOSpeed'']" "\<not> derived_destructive [''SWOStat'']"
  by (code_simp, code_simp, code_simp, code_simp)

lemma read_only_words:
  "word_ok ''RReg''" "map char_lower ''RReg'' \<in> set READ_ONLY_COMMANDER_COMMANDS"
  "word_ok ''VerifyBin''" "map char_lower ''VerifyBin'' \<in> set READ_ONLY_COMMANDER_COMMANDS"
  "word_ok (''Mem'' @ show_int 8)" "map char_lower (''Mem'' @ show_int 8) \<in> set READ_ONLY_COMMANDER_COMMANDS"
  "word_ok (''Mem'' @ show_int 16)" "map char_lower (''Mem'' @ show_int 16) \<in> set READ_ONLY_COMMANDER_COMMANDS"
  "word_ok (''Mem'' @ show_int 32)" "map char_lower (''Mem'' @ show_int 32) \<in> set READ_ONLY_COMMANDER_COMMANDS"
  by (code_simp, code_simp, code_simp, code_simp, code_simp, code_simp, code_simp, code_simp, code_simp, code_simp)

lemma read_memory_read_only: "read_memory_request a n w = Inr (cs, action, d) \<Longrightarrow> \<not> derived_destructive cs"
proof -
  assume "read_memory_request a n w = Inr (cs, action, d)"
  then have "w \<in> {8, 16, 32}" "cs = [(''Mem'' @ show_int w) @ '' '' @ hex_address a @ '' '' @ show_int n]"
    by (auto simp: read_memory_Inr)
  then show ?thesis using read_only_words(5-10) read_only_word by blast
qed

lemma swo_read_only: "swo_request act speed ms = Inr (cs, action, False) \<Longrightarrow> \<not> derived_destructive cs"
  using read_only_plain(3,4) by (auto simp: swo_request_def rbind_eq_Inr refuse_unless_Inr Let_def split: if_splits)

lemma register_read_only: "read_register_request name = Inr (cs, action, False) \<Longrightarrow> \<not> derived_destructive cs"
  using read_only_word [OF read_only_words(1,2), of name] by (auto simp: read_register_request_def refuse_unless_Inr)

lemma verify_read_only: "verify_binary_request env path a = Inr (cs, action, False) \<Longrightarrow> \<not> derived_destructive cs"
  using read_only_word [OF read_only_words(3,4)]
  by (auto simp: verify_binary_request_def rbind_eq_Inr refuse_unless_Inr)

lemma never_read_only:
  "reset_request h t \<noteq> Inr (cs, action, False)" "step_request n \<noteq> Inr (cs, action, False)"
  "write_memory_request a vals w \<noteq> Inr (cs, action, False)" "clear_breakpoint_request n \<noteq> Inr (cs, action, False)"
  "write_register_request name v \<noteq> Inr (cs, action, False)" "set_watchpoint_request a access \<noteq> Inr (cs, action, False)"
  "clear_watchpoint_request n \<noteq> Inr (cs, action, False)" "erase_flash_request start stop \<noteq> Inr (cs, action, False)"
  "command_string_request c \<noteq> Inr (cs, action, False)"
  unfolding reset_request_def step_request_def write_memory_Inr clear_breakpoint_request_def clear_watchpoint_request_def handle_request_def
    write_register_request_def set_watchpoint_request_def erase_flash_request_def command_string_request_def rbind_eq_Inr refuse_unless_Inr Let_def
  by (auto simp: rmap_def refuse_unless_def split: option.splits sum.splits if_splits)

text \<open>C26: Read-only is read-only. Whatever operation of the service builds the request, one that is recorded as not
  changing the target consists of commands whose first word, in any case, is on the list of reading commands; a raw
  batch is recorded as changing the target whenever one of its commands is not, whatever the caller says.\<close>

theorem read_only_requests:
  assumes "service_request env (Inr (commands, action, False))"
  shows "\<forall>c \<in> set commands. str_strip c = [] \<or> map char_lower (first_word (str_strip c)) \<in> set READ_ONLY_COMMANDER_COMMANDS"
proof -
  have "\<not> derived_destructive commands"
    using assms
    by cases (use read_only_plain never_read_only [symmetric] in \<open>auto dest: read_memory_read_only [OF sym] swo_read_only [OF sym]
      register_read_only [OF sym] verify_read_only [OF sym] simp: probe_info_request_def connect_request_def identity_commands_def halt_request_def go_request_def set_breakpoint_request_def raw_request_def\<close>)
  then show ?thesis by (auto simp: derived_destructive_def list_ex_iff)
qed

theorem read_only_requests_witness:
  "map char_lower (first_word (str_strip ''Uptime'')) \<in> set READ_ONLY_COMMANDER_COMMANDS"
proof -
  have "service_request env (Inr ([''ShowFWInfo'', ''ShowHWStatus'', ''ShowConf'', ''Uptime''], ''probe_info'', False))" for env
    using service_request.intros(1) by (simp add: probe_info_request_def)
  from bspec [OF read_only_requests [OF this], of "''Uptime''"] show ?thesis
    by (simp add: str_strip_def py_isspace_def)
qed

end
