(* ===== verification/Bridge_Backend.thy ===== *)
theory Bridge_Backend
  imports Wire Bridge_Contract Commander
begin

text \<open>
  The response side of the bridge: \<open>decode_response_body\<close> of \<^verbatim>\<open>wire.py\<close> and the exchange of
  \<^verbatim>\<open>backend.py\<close>, which frames a request, hands it to the serial backend and reads the answer. UTF-8 decoding,
  JSON parsing and SHA-256 are functions of a record; what the port answers is an argument. The lock of a port is
  not modelled: an exchange is one step.
\<close>

subsection \<open>Responses\<close>

record codec =
  cd_utf8 :: "bytes \<Rightarrow> string option"
  cd_loads :: "string \<Rightarrow> json option"
  cd_sha256 :: "bytes \<Rightarrow> string"

datatype bridge_error =
    OnWire wire_error
  | InBody tlv_error
  | NoDelimitedFrame
  | UnexpectedType message_type
  | NoStatus
  | StatusWidth
  | MetadataNotJson
  | MetadataNotObject
  | InvalidWidth string
  | ErrorNotUtf8

record bridge_response =
  br_status :: nat
  br_data :: bytes
  br_metadata :: json_object
  br_queue_depth :: nat
  br_overflow_count :: nat
  br_timestamp :: nat
  br_error :: string

definition RESPONSE_FIELDS :: "nat set" where
  "RESPONSE_FIELDS = field_number ` {''STATUS'', ''RESPONSE_DATA'', ''METADATA_JSON'', ''QUEUE_DEPTH'', ''OVERFLOW_COUNT'',
     ''TIMESTAMP_US'', ''ERROR_MESSAGE''}"

definition field_bytes :: "(nat, bytes) dict \<Rightarrow> string \<Rightarrow> bytes \<Rightarrow> bytes" where
  "field_bytes vals name missing = (case dict_get vals (field_number name) of None \<Rightarrow> missing | Some v \<Rightarrow> v)"

definition integer_field :: "(nat, bytes) dict \<Rightarrow> string \<Rightarrow> nat \<Rightarrow> bridge_error + nat" where
  "integer_field vals name width =
     (case dict_get vals (field_number name) of
        None \<Rightarrow> Inr 0
      | Some raw \<Rightarrow> if length raw \<noteq> width then Inl (InvalidWidth name) else Inr (le_nat raw))"

definition decode_metadata :: "codec \<Rightarrow> bytes \<Rightarrow> bridge_error + json_object" where
  "decode_metadata cd raw =
     (case Option.bind (cd_utf8 cd raw) (cd_loads cd) of
        None \<Rightarrow> Inl MetadataNotJson
      | Some (JObj d) \<Rightarrow> Inr d
      | Some _ \<Rightarrow> Inl MetadataNotObject)"

definition decode_response_body :: "codec \<Rightarrow> bytes \<Rightarrow> bridge_error + bridge_response" where
  "decode_response_body cd payload =
     rbind (rcatch (decode_tlvs payload (Some RESPONSE_FIELDS)) InBody) (\<lambda>vals.
     case dict_get vals (field_number ''STATUS'') of
       None \<Rightarrow> Inl NoStatus
     | Some status_raw \<Rightarrow>
         if length status_raw \<noteq> 2 then Inl StatusWidth
         else rbind (decode_metadata cd (field_bytes vals ''METADATA_JSON'' (utf8 ''{}''))) (\<lambda>metadata.
           case cd_utf8 cd (field_bytes vals ''ERROR_MESSAGE'' []) of
             None \<Rightarrow> Inl ErrorNotUtf8
           | Some err \<Rightarrow>
               rbind (integer_field vals ''QUEUE_DEPTH'' 2) (\<lambda>depth.
               rbind (integer_field vals ''OVERFLOW_COUNT'' 4) (\<lambda>overflow.
               rbind (integer_field vals ''TIMESTAMP_US'' 8) (\<lambda>timestamp.
               Inr \<lparr> br_status = le_nat status_raw, br_data = field_bytes vals ''RESPONSE_DATA'' [], br_metadata = metadata,
                     br_queue_depth = depth, br_overflow_count = overflow, br_timestamp = timestamp, br_error = err \<rparr>)))))"

text \<open>The fields of the response that are recorded: all but the raw data.\<close>

definition response_json :: "bridge_response \<Rightarrow> json_object" where
  "response_json r =
     [(''status'', JInt (int (br_status r))), (''data_base64'', JStr (b64encode (br_data r))),
      (''metadata'', JObj (br_metadata r)), (''queue_depth'', JInt (int (br_queue_depth r))),
      (''overflow_count'', JInt (int (br_overflow_count r))), (''timestamp_us'', JInt (int (br_timestamp r))),
      (''error'', JStr (br_error r))]"

subsection \<open>Error texts\<close>

fun type_name :: "message_type \<Rightarrow> string" where
  "type_name REQUEST = ''REQUEST''" | "type_name RESPONSE = ''RESPONSE''" | "type_name ERROR = ''ERROR''"

fun cobs_error_text :: "cobs_error \<Rightarrow> string" where
  "cobs_error_text CobsEmptyOrDelimiter = ''COBS frame is empty or contains a delimiter''"
| "cobs_error_text CobsZeroCode = ''COBS code byte cannot be zero''"
| "cobs_error_text CobsCodeOverrun = ''COBS code exceeds encoded frame''"

fun wire_error_text :: "wire_error \<Rightarrow> string" where
  "wire_error_text (CobsError e) = cobs_error_text e"
| "wire_error_text EncodeVersion = ''unsupported bridge wire version''"
| "wire_error_text RequestIdOutsideUint32 = ''request ID is outside uint32''"
| "wire_error_text EncodeSegment = ''invalid segment index/count''"
| "wire_error_text SegmentTooLarge = ''segment exceeds decoded transport frame limit''"
| "wire_error_text DecodedFrameTooLarge = ''decoded frame exceeds transport limit''"
| "wire_error_text EncodedFrameTooLarge = ''encoded frame exceeds transport limit''"
| "wire_error_text FrameShorterThanHeader = ''decoded frame is shorter than its header''"
| "wire_error_text MagicMismatch = ''bridge frame magic mismatch''"
| "wire_error_text (DecodeVersion v) = ''unsupported bridge wire version: '' @ show_nat v"
| "wire_error_text PayloadLengthMismatch = ''bridge payload length mismatch''"
| "wire_error_text DecodeSegment = ''invalid segment index/count''"
| "wire_error_text (CrcMismatch want got) =
     ''bridge CRC mismatch: expected 0x'' @ show_hex 8 (unat want) @ '', got 0x'' @ show_hex 8 (unat got)"
| "wire_error_text (UnknownMessageType t) = ''unknown bridge message type: '' @ show_nat t"
| "wire_error_text MessageTooLarge = ''message exceeds the 64 KiB assembly limit''"
| "wire_error_text PartialCobsFrame = ''bridge response ended with a partial COBS frame''"
| "wire_error_text NoCompleteFrames = ''response contained no complete frames''"
| "wire_error_text (SegmentCountMismatch n c) = ''response has '' @ show_nat n @ '' of '' @ show_int c @ '' required segments''"
| "wire_error_text StaleOrOutOfOrder = ''stale, mismatched, or out-of-order response''"
| "wire_error_text AssembledTooLarge = ''assembled response exceeds 64 KiB''"

fun tlv_error_text :: "tlv_error \<Rightarrow> string" where
  "tlv_error_text (DuplicateTlv k) = ''duplicate TLV type: '' @ show_int k"
| "tlv_error_text TlvOutsideUint16 = ''TLV type or value is outside uint16 bounds''"
| "tlv_error_text TlvBodyTooLarge = ''TLV body exceeds 64 KiB''"
| "tlv_error_text TruncatedTlvHeader = ''truncated TLV header''"
| "tlv_error_text TruncatedTlvValue = ''truncated TLV value''"
| "tlv_error_text (UnknownTlv k) = ''unknown TLV type: '' @ show_nat k"

fun bridge_error_text :: "bridge_error \<Rightarrow> string" where
  "bridge_error_text (OnWire e) = wire_error_text e"
| "bridge_error_text (InBody e) = tlv_error_text e"
| "bridge_error_text NoDelimitedFrame = ''bridge response contained no delimited frame''"
| "bridge_error_text (UnexpectedType t) = ''unexpected bridge response type: '' @ type_name t"
| "bridge_error_text NoStatus = ''response has no status TLV''"
| "bridge_error_text StatusWidth = ''response status is not uint16''"
| "bridge_error_text MetadataNotJson = ''response metadata is not valid UTF-8 JSON''"
| "bridge_error_text MetadataNotObject = ''response metadata must be a JSON object''"
| "bridge_error_text (InvalidWidth name) = name @ '' has an invalid width''"
| "bridge_error_text ErrorNotUtf8 = ''firmware error text is not UTF-8''"

fun class_name :: "wire_class \<Rightarrow> string" where
  "class_name BridgeWireError = ''BridgeWireError''"
| "class_name BridgeCrcError = ''BridgeCrcError''"
| "class_name BridgeSequenceError = ''BridgeSequenceError''"

definition bridge_error_class :: "bridge_error \<Rightarrow> wire_class" where
  "bridge_error_class e = (case e of OnWire w \<Rightarrow> wire_error_class w | _ \<Rightarrow> BridgeWireError)"

subsection \<open>An exchange\<close>

definition read_response ::
    "codec \<Rightarrow> nat \<Rightarrow> bytes \<Rightarrow> bridge_error + (wire_frame list \<times> message_type \<times> bytes \<times> bridge_response)" where
  "read_response cd rid raw =
     rbind (rcatch (decode_stream raw) OnWire) (\<lambda>frames.
     case frames of
       [] \<Rightarrow> Inl NoDelimitedFrame
     | first # _ \<Rightarrow>
         if frame_type first \<notin> {RESPONSE, ERROR} then Inl (UnexpectedType (frame_type first))
         else rbind (rcatch (reassemble_frames frames (Some (int rid)) (Some (frame_type first))) OnWire) (\<lambda>body.
           rmap (\<lambda>response. (frames, frame_type first, body, response)) (decode_response_body cd body)))"

datatype exchange_error = BodyRefused body_error | MessageRefused wire_error | PortRefused serial_request_error

definition WIRE_HASHES :: "string list" where
  "WIRE_HASHES = [''request_sha256'', ''request_body_sha256'', ''response_sha256'', ''response_body_sha256'']"

definition request_record ::
    "codec \<Rightarrow> string \<Rightarrow> nat \<Rightarrow> bytes \<Rightarrow> bool \<Rightarrow> command_result \<Rightarrow> command_result" where
  "request_record cd port rid body secret r =
     (let r = r \<lparr> res_backend := ''giga-protocol-bridge'',
                   res_command := [''protocol-bridge'', port, ''request-id:'' @ show_nat rid],
                   res_parsed := dict_update (res_parsed r)
                     [(''request_id'', JInt (int rid)), (''request_body_bytes'', JInt (int (length body)))] \<rparr> in
      if secret then r \<lparr> res_parsed := foldl dict_pop (res_parsed r) WIRE_HASHES \<rparr>
      else r \<lparr> res_command := res_command r @ [''body-sha256:'' @ cd_sha256 cd body],
               res_parsed := dict_set (res_parsed r) ''request_body_sha256'' (JStr (cd_sha256 cd body)) \<rparr>)"

definition failed_record :: "bridge_error \<Rightarrow> command_result \<Rightarrow> command_result" where
  "failed_record e r =
     r \<lparr> res_return_code := Some 1,
         res_stderr := class_name (bridge_error_class e) @ '': '' @ bridge_error_text e,
         res_parsed := dict_set (res_parsed r) ''wire_error''
           (JObj [(''type'', JStr (class_name (bridge_error_class e))), (''message'', JStr (bridge_error_text e))]) \<rparr>"

definition response_record ::
    "codec \<Rightarrow> bool \<Rightarrow> wire_frame list \<times> message_type \<times> bytes \<times> bridge_response \<Rightarrow> command_result \<Rightarrow> command_result" where
  "response_record cd secret answer r =
     (case answer of (frames, mt, body, response) \<Rightarrow>
        let shown = (if secret
              then [(''status'', JInt (int (br_status response)))]
                 @ (if br_status response \<noteq> 0 then [(''error'', JStr ''bridge operation failed'')] else [])
              else response_json response);
            metadata = [(''wire_version'', JInt (case frames of [] \<Rightarrow> 0 | f # _ \<Rightarrow> frame_version f)),
               (''message_type'', JStr (map char_lower (type_name mt))), (''segments'', JInt (int (length frames))),
               (''response_body_bytes'', JInt (int (length body))), (''bridge'', JObj shown)]
              @ (if secret then [] else [(''response_body_sha256'', JStr (cd_sha256 cd body))]);
            r = r \<lparr> res_parsed := dict_update (res_parsed r) metadata \<rparr> in
        if mt = ERROR \<or> br_status response \<noteq> 0
        then r \<lparr> res_return_code := Some (if br_status response = 0 then 1 else int (br_status response)),
                 res_stderr := (if secret then ''bridge operation failed''
                   else if br_error response \<noteq> [] then br_error response else ''bridge operation failed'') \<rparr>
        else r)"

definition finish_request :: "codec \<Rightarrow> nat \<Rightarrow> bool \<Rightarrow> command_result \<Rightarrow> bytes \<Rightarrow> command_result" where
  "finish_request cd rid secret r raw =
     (if \<not> result_ok r then r
      else (case read_response cd rid raw of
        Inl e \<Rightarrow> failed_record e r
      | Inr answer \<Rightarrow> response_record cd secret answer r))"

definition request_locked ::
    "codec \<Rightarrow> stamp \<Rightarrow> string \<Rightarrow> fields \<Rightarrow> string option \<Rightarrow> (string, string) dict \<Rightarrow> nat \<Rightarrow> int
     \<Rightarrow> (bytes \<Rightarrow> serial_raised + bytes) \<Rightarrow> exchange_error + command_result" where
  "request_locked cd st port request op secrets rid duration answer =
     rbind (rcatch (encode_request_body request op secrets) BodyRefused) (\<lambda>body.
     rbind (rcatch (encode_message body REQUEST (int rid)) MessageRefused) (\<lambda>encoded.
     rbind (rcatch (exchange_binary (cd_sha256 cd) st port encoded 115200 duration 75 (answer encoded)) PortRefused) (\<lambda>(r, raw).
     Inr (finish_request cd rid (secrets \<noteq> []) (request_record cd port rid body (secrets \<noteq> []) r) raw))))"

subsection \<open>What a recorded exchange shows\<close>

text \<open>All that is visible of an answer when secrets were sent.\<close>

definition response_shape :: "codec \<Rightarrow> nat \<Rightarrow> bytes \<Rightarrow> string \<times> string + int \<times> message_type \<times> nat \<times> nat \<times> nat" where
  "response_shape cd rid raw =
     (case read_response cd rid raw of
        Inl e \<Rightarrow> Inl (class_name (bridge_error_class e), bridge_error_text e)
      | Inr (frames, mt, body, response) \<Rightarrow>
          Inr (case frames of [] \<Rightarrow> 0 | f # _ \<Rightarrow> frame_version f, mt, length frames, length body, br_status response))"

definition answer_shape :: "codec \<Rightarrow> nat \<Rightarrow> serial_raised + bytes \<Rightarrow> serial_raised
    + nat \<times> (string \<times> string + int \<times> message_type \<times> nat \<times> nat \<times> nat)" where
  "answer_shape cd rid answer = rmap (\<lambda>raw. (length raw, response_shape cd rid raw)) answer"

lemma read_response_Inr:
  "read_response cd rid raw = Inr (frames, mt, body, response) \<longleftrightarrow>
     decode_stream raw = Inr frames \<and> frames \<noteq> [] \<and> mt = frame_type (hd frames) \<and> mt \<in> {RESPONSE, ERROR}
     \<and> reassemble_frames frames (Some (int rid)) (Some mt) = Inr body \<and> decode_response_body cd body = Inr response"
  by (cases "decode_stream raw"; cases "\<exists>fs. decode_stream raw = Inr fs \<and> fs = []")
    (auto simp: read_response_def result_simps split: list.splits if_splits)

lemma failed_record_shape:
  assumes "response_shape cd rid raw = Inl (c, m)"
  shows "\<exists>e. read_response cd rid raw = Inl e \<and> failed_record e r = r \<lparr> res_return_code := Some 1, res_stderr := c @ '': '' @ m,
     res_parsed := dict_set (res_parsed r) ''wire_error'' (JObj [(''type'', JStr c), (''message'', JStr m)]) \<rparr>"
  using assms by (auto simp: response_shape_def failed_record_def split: sum.splits prod.splits)

lemma response_record_shape:
  assumes "response_shape cd rid raw = Inr (version, mt, segments, width, status)"
  shows "\<exists>answer. read_response cd rid raw = Inr answer \<and> response_record cd True answer r =
     (let r = r \<lparr> res_parsed := dict_update (res_parsed r) [(''wire_version'', JInt version),
               (''message_type'', JStr (map char_lower (type_name mt))), (''segments'', JInt (int segments)),
               (''response_body_bytes'', JInt (int width)),
               (''bridge'', JObj ([(''status'', JInt (int status))]
                 @ (if status \<noteq> 0 then [(''error'', JStr ''bridge operation failed'')] else [])))] \<rparr> in
      if mt = ERROR \<or> status \<noteq> 0
      then r \<lparr> res_return_code := Some (if status = 0 then 1 else int status), res_stderr := ''bridge operation failed'' \<rparr>
      else r)"
proof (cases "read_response cd rid raw")
  case (Inl e)
  then show ?thesis using assms by (simp add: response_shape_def)
next
  case (Inr answer)
  obtain frames t body response where a: "answer = (frames, t, body, response)" by (cases answer) auto
  have "version = (case frames of [] \<Rightarrow> 0 | f # _ \<Rightarrow> frame_version f)" "mt = t" "segments = length frames" "width = length body"
    "status = br_status response"
    using assms Inr by (auto simp: response_shape_def a)
  then show ?thesis using Inr by (cases frames) (simp_all add: response_record_def a Let_def)
qed

lemma exchange_hidden:
  assumes "length e1 = length e2" and "length b1 = length b2" and "rmap length a1 = rmap length a2"
  shows "rmap (\<lambda>(r, _). request_record cd port rid b1 True r) (exchange_binary sha st port e1 baud dur idle a1)
    = rmap (\<lambda>(r, _). request_record cd port rid b2 True r) (exchange_binary sha st port e2 baud dur idle a2)"
proof (cases "check_binary e1 baud dur idle")
  case (Inl x)
  then have "check_binary e2 baud dur idle = Inl x" using assms(1) by (auto simp: check_binary_def split: if_splits)
  then show ?thesis using Inl by (simp add: exchange_binary_def result_simps)
next
  case (Inr u)
  then have c: "check_binary e2 baud dur idle = Inr u" using assms(1) by (auto simp: check_binary_def split: if_splits)
  show ?thesis
  proof (cases a1)
    case a1: (Inl x)
    then have a2: "a2 = Inl x" using assms(3) by (cases a2) simp_all
    show ?thesis using assms(1,2) Inr c a1 a2
      by (cases x) (simp_all add: exchange_binary_def result_simps request_record_def make_result_def Let_def WIRE_HASHES_def
        dict_pop_def dict_update_def)
  next
    case a1: (Inr x)
    then obtain y where a2: "a2 = Inr y" "length x = length y" using assms(3) by (cases a2) simp_all
    show ?thesis using assms(1,2) Inr c a1 a2
      by (simp add: exchange_binary_def result_simps request_record_def make_result_def Let_def WIRE_HASHES_def
        dict_pop_def dict_update_def)
  qed
qed

lemma request_locked_Inr:
  "request_locked cd st port request op secrets rid duration answer = Inr r \<longleftrightarrow>
     (\<exists>body encoded r0 raw. encode_request_body request op secrets = Inr body
        \<and> encode_message body REQUEST (int rid) = Inr encoded
        \<and> exchange_binary (cd_sha256 cd) st port encoded 115200 duration 75 (answer encoded) = Inr (r0, raw)
        \<and> r = finish_request cd rid (secrets \<noteq> []) (request_record cd port rid body (secrets \<noteq> []) r0) raw)"
  unfolding request_locked_def rbind_eq_Inr rcatch_eq_Inr by auto

lemma secret_finish:
  assumes "response_shape cd rid raw1 = response_shape cd rid raw2"
  shows "finish_request cd rid True q raw1 = finish_request cd rid True q raw2"
proof (cases "response_shape cd rid raw1")
  case (Inl x)
  obtain c m where "x = (c, m)" by (cases x)
  then show ?thesis
    using failed_record_shape [of cd rid raw1 c m q] failed_record_shape [of cd rid raw2 c m q] Inl assms
    by (auto simp: finish_request_def)
next
  case (Inr x)
  obtain v mt n w t where x: "x = (v, mt, n, w, t)" by (cases x) auto
  have "response_shape cd rid raw2 = Inr (v, mt, n, w, t)" "response_shape cd rid raw1 = Inr (v, mt, n, w, t)"
    using Inr assms x by simp_all
  from this [THEN response_record_shape [where r = q]] show ?thesis
    by (elim exE conjE) (simp add: finish_request_def)
qed

lemma exchange_binary_raw:
  "exchange_binary sha st port e baud dur idle a = Inr (r, raw) \<Longrightarrow>
     (case a of Inl _ \<Rightarrow> \<not> result_ok r \<and> raw = [] | Inr x \<Rightarrow> result_ok r \<and> raw = x)"
  by (cases a) (auto simp: exchange_binary_def result_simps Let_def make_result_def result_ok_def)

lemma request_record_ok [simp]: "result_ok (request_record cd port rid body secret r) \<longleftrightarrow> result_ok r"
  by (simp add: request_record_def result_ok_def Let_def)

lemma response_record_ok:
  "result_ok (response_record cd secret (frames, mt, body, response) r) \<longleftrightarrow> result_ok r \<and> mt \<noteq> ERROR \<and> br_status response = 0"
  by (simp add: response_record_def result_ok_def Let_def)

lemma failed_record_ok [simp]: "\<not> result_ok (failed_record e r)"
  by (simp add: failed_record_def result_ok_def)

text \<open>Short messages are one frame, and its length depends only on the length of the payload.\<close>

lemma cobs_short: "length run + length data < 254 \<Longrightarrow> length (cobs_groups run data) = length run + length data + 1"
  by (induction run data rule: cobs_groups.induct) auto

lemma short_message:
  assumes "length payload \<le> 200" and "rid < 2 ^ 32"
  shows "\<exists>raw. encode_message payload mt (int rid) = Inr raw \<and> length raw = length payload + 22"
proof -
  have len: "length payload \<le> MAX_BRIDGE_PAYLOAD" using assms(1) by (simp add: wire_constants)
  obtain f where f: "message_frames payload mt (int rid) = [f]" "frame_payload f = payload"
  proof -
    have "length (message_chunks payload) = 1" using assms(1) by (simp add: length_message_chunks)
    then obtain c where "message_chunks payload = [c]" by (auto simp: length_Suc_conv)
    moreover from this have "c = payload" using concat_message_chunks [of payload] by simp
    ultimately show ?thesis using that by (simp add: message_frames_def Let_def)
  qed
  have "frame_ok f" using message_frames_ok [OF len, of "int rid" f mt] assms(2) f(1) by simp
  then have "encode_message payload mt (int rid) = Inr (cobs_encode (pack_frame f) @ [0])"
    using len by (simp add: encode_message_def f encode_frame_ok)
  then show ?thesis using assms(1) by (simp add: cobs_encode_groups cobs_short length_pack_frame f)
qed

text \<open>Any message of the device that carries a payload as a response is read back whole.\<close>

lemma read_response_message:
  assumes "encode_message payload mt (int rid) = Inr raw" and "mt \<in> {RESPONSE, ERROR}"
    and "decode_response_body cd payload = Inr response"
  shows "read_response cd rid raw = Inr (message_frames payload mt (int rid), mt, payload, response)"
proof -
  have len: "length payload \<le> MAX_BRIDGE_PAYLOAD" using assms(1) by (auto simp: encode_message_def split: if_splits)
  obtain bss where bss: "traverse encode_frame (message_frames payload mt (int rid)) = Inr bss" "raw = concat bss"
    using assms(1) len by (auto simp: encode_message_def rmap_eq_Inr)
  have "0 < length (message_chunks payload)" by simp
  then have first: "frame_type (hd (message_frames payload mt (int rid))) = mt" "message_frames payload mt (int rid) \<noteq> []"
    using message_frames_nth [of 0 payload mt "int rid"] by (auto simp flip: length_greater_0_conv simp: hd_conv_nth)
  show ?thesis
    using decode_stream_frames [OF bss(1)] first reassemble_message [OF len] assms(2,3) bss(2)
    by (simp add: read_response_Inr)
qed

lemma exchange_sound:
  assumes "request_locked cd st port request op secrets rid duration answer = Inr r" and "result_ok r"
  shows "\<exists>body encoded raw frames payload response. encode_request_body request op secrets = Inr body
    \<and> encode_message body REQUEST (int rid) = Inr encoded \<and> answer encoded = Inr raw
    \<and> decode_stream raw = Inr frames \<and> reassemble_frames frames (Some (int rid)) (Some RESPONSE) = Inr payload
    \<and> decode_response_body cd payload = Inr response \<and> br_status response = 0
    \<and> (secrets = [] \<longrightarrow> dict_get (res_parsed r) ''bridge'' = Some (JObj (response_json response)))"
proof -
  obtain body encoded r0 raw where enc: "encode_request_body request op secrets = Inr body"
      "encode_message body REQUEST (int rid) = Inr encoded"
    and run: "exchange_binary (cd_sha256 cd) st port encoded 115200 duration 75 (answer encoded) = Inr (r0, raw)"
    and r: "r = finish_request cd rid (secrets \<noteq> []) (request_record cd port rid body (secrets \<noteq> []) r0) raw"
    using assms(1) by (auto simp: request_locked_Inr)
  let ?q = "request_record cd port rid body (secrets \<noteq> []) r0"
  have ok: "result_ok ?q" using assms(2) r by (auto simp: finish_request_def split: if_splits)
  have raw: "answer encoded = Inr raw" using exchange_binary_raw [OF run] ok by (cases "answer encoded") auto
  obtain frames mt payload response where got: "read_response cd rid raw = Inr (frames, mt, payload, response)"
    and q: "r = response_record cd (secrets \<noteq> []) (frames, mt, payload, response) ?q"
    using r ok assms(2) by (cases "read_response cd rid raw") (auto simp: finish_request_def)
  have "mt \<noteq> ERROR" "br_status response = 0" using assms(2) q by (simp_all add: response_record_ok)
  moreover have "secrets = [] \<Longrightarrow> dict_get (res_parsed r) ''bridge'' = Some (JObj (response_json response))"
    using calculation by (simp add: q response_record_def Let_def dict_update_def)
  ultimately show ?thesis using enc raw got by (auto simp: read_response_Inr)
qed

text \<open>Two requests that carry secrets and agree on the lengths of the encoded body and message and on the length and shape
  of the answer give the same recorded result.\<close>

definition same_observation ::
    "codec \<Rightarrow> fields \<Rightarrow> string option \<Rightarrow> nat \<Rightarrow> (string, string) dict \<Rightarrow> (bytes \<Rightarrow> serial_raised + bytes)
     \<Rightarrow> (string, string) dict \<Rightarrow> (bytes \<Rightarrow> serial_raised + bytes) \<Rightarrow> bool" where
  "same_observation cd request op rid secrets1 answer1 secrets2 answer2 \<longleftrightarrow>
     (\<exists>body1 body2 encoded1 encoded2. encode_request_body request op secrets1 = Inr body1
        \<and> encode_request_body request op secrets2 = Inr body2
        \<and> encode_message body1 REQUEST (int rid) = Inr encoded1 \<and> encode_message body2 REQUEST (int rid) = Inr encoded2
        \<and> length body1 = length body2 \<and> length encoded1 = length encoded2
        \<and> answer_shape cd rid (answer1 encoded1) = answer_shape cd rid (answer2 encoded2))"

lemma secrets_hidden:
  assumes "secrets1 \<noteq> []" and "secrets2 \<noteq> []" and "same_observation cd request op rid secrets1 answer1 secrets2 answer2"
  shows "request_locked cd st port request op secrets1 rid duration answer1
    = request_locked cd st port request op secrets2 rid duration answer2"
proof -
  obtain body1 body2 encoded1 encoded2 where body: "encode_request_body request op secrets1 = Inr body1"
      "encode_request_body request op secrets2 = Inr body2"
    and encoded: "encode_message body1 REQUEST (int rid) = Inr encoded1" "encode_message body2 REQUEST (int rid) = Inr encoded2"
    and lengths: "length body1 = length body2" "length encoded1 = length encoded2"
    and shape: "answer_shape cd rid (answer1 encoded1) = answer_shape cd rid (answer2 encoded2)"
    using assms(3) by (auto simp: same_observation_def)
  let ?x = "\<lambda>encoded answer. exchange_binary (cd_sha256 cd) st port encoded 115200 duration 75 answer"
  let ?q = "\<lambda>body r. request_record cd port rid body True r"
  have run: "request_locked cd st port request op secrets rid duration answer
      = rmap (\<lambda>(r, raw). finish_request cd rid True (?q body r) raw) (rcatch (?x encoded (answer encoded)) PortRefused)"
    if "secrets \<noteq> []" "encode_request_body request op secrets = Inr body" "encode_message body REQUEST (int rid) = Inr encoded"
    for secrets body encoded answer
    using that by (auto simp: request_locked_def rmap_def rbind_def rcatch_def split: sum.splits prod.splits)
  have len: "rmap length (answer1 encoded1) = rmap length (answer2 encoded2)"
    using shape by (cases "answer1 encoded1"; cases "answer2 encoded2") (auto simp: answer_shape_def)
  note hidden = exchange_hidden [OF lengths(2,1) len, of cd port rid "cd_sha256 cd" st 115200 duration 75]
  show ?thesis
  proof (cases "?x encoded1 (answer1 encoded1)")
    case (Inl e)
    then show ?thesis using hidden run [OF assms(1) body(1) encoded(1)] run [OF assms(2) body(2) encoded(2)] by (cases "?x encoded2 (answer2 encoded2)") auto
  next
    case (Inr x1)
    obtain r1 raw1 where x1: "x1 = (r1, raw1)" by (cases x1)
    obtain r2 raw2 where x2: "?x encoded2 (answer2 encoded2) = Inr (r2, raw2)" and q: "?q body1 r1 = ?q body2 r2"
      using hidden Inr x1 by (cases "?x encoded2 (answer2 encoded2)") auto
    have "finish_request cd rid True (?q body1 r1) raw1 = finish_request cd rid True (?q body2 r2) raw2"
    proof (cases "answer1 encoded1")
      case (Inl e)
      then have "\<not> result_ok (?q body1 r1)" using exchange_binary_raw Inr x1 by fastforce
      then show ?thesis using q by (simp add: finish_request_def)
    next
      case (Inr y1)
      then obtain y2 where "answer2 encoded2 = Inr y2" "response_shape cd rid y1 = response_shape cd rid y2"
        using shape by (cases "answer2 encoded2") (auto simp: answer_shape_def)
      then have "response_shape cd rid raw1 = response_shape cd rid raw2"
        using exchange_binary_raw [OF x2] exchange_binary_raw \<open>?x encoded1 (answer1 encoded1) = Inr x1\<close> x1 Inr by fastforce
      then show ?thesis using q secret_finish by metis
    qed
    then show ?thesis using run [OF assms(1) body(1) encoded(1)] run [OF assms(2) body(2) encoded(2)] Inr x1 x2 by simp
  qed
qed

lemma exchange_complete:
  assumes "request_locked cd st port request op secrets rid duration answer = Inr r"
    and "encode_request_body request op secrets = Inr body" and "encode_message body REQUEST (int rid) = Inr encoded"
    and "encode_message payload RESPONSE (int rid) = Inr raw" and "answer encoded = Inr raw"
    and "decode_response_body cd payload = Inr response"
  shows "result_ok r \<longleftrightarrow> br_status response = 0"
proof -
  have "read_response cd rid raw = Inr (message_frames payload RESPONSE (int rid), RESPONSE, payload, response)"
    using read_response_message assms(4,6) by blast
  moreover obtain r0 where "exchange_binary (cd_sha256 cd) st port encoded 115200 duration 75 (Inr raw) = Inr (r0, raw)"
      "result_ok r0" "r = finish_request cd rid (secrets \<noteq> []) (request_record cd port rid body (secrets \<noteq> []) r0) raw"
    using assms exchange_binary_raw by (fastforce simp: request_locked_Inr)
  ultimately show ?thesis by (simp add: finish_request_def response_record_ok)
qed

text \<open>C11: An exchange succeeds exactly on the device's complete, undamaged, positive answer to it. A result that is recorded as
  successful comes from bytes that decode into whole frames, which together are one response message with the request's id
  and with status 0, and without secrets the recorded fields are those of that message. Conversely, whatever response
  message with its id the device sends is read back: the exchange then succeeds exactly when its status is 0.\<close>

theorem exchange_exact:
  assumes "request_locked cd st port request op secrets rid duration answer = Inr r"
    and "encode_request_body request op secrets = Inr body" and "encode_message body REQUEST (int rid) = Inr encoded"
  shows "(result_ok r \<longrightarrow> (\<exists>raw frames payload response. answer encoded = Inr raw
      \<and> decode_stream raw = Inr frames \<and> reassemble_frames frames (Some (int rid)) (Some RESPONSE) = Inr payload
      \<and> decode_response_body cd payload = Inr response \<and> br_status response = 0
      \<and> (secrets = [] \<longrightarrow> dict_get (res_parsed r) ''bridge'' = Some (JObj (response_json response)))))
    \<and> (\<forall>payload response raw. encode_message payload RESPONSE (int rid) = Inr raw \<and> answer encoded = Inr raw
        \<and> decode_response_body cd payload = Inr response \<longrightarrow> (result_ok r \<longleftrightarrow> br_status response = 0))"
proof (intro conjI impI allI, goal_cases)
  case 1
  then show ?case using exchange_sound [OF assms(1)] assms(2,3) by auto
next
  case (2 payload response raw)
  then show ?case using exchange_complete [OF assms] by blast
qed

text \<open>The values of the witnesses: a codec that reads a profiles file as the password of one network, and a device that answers
  with three bytes of data.\<close>

definition sample_codec :: codec where
  "sample_codec = \<lparr> cd_utf8 = (\<lambda>b. Some (map (\<lambda>w. char_of (unat w)) b)), 
     cd_loads = (\<lambda>t. Some (JObj (if t = ''{}'' then [] else
       [(''wifi'', JObj [(''lab'', JObj [(''ssid'', JStr ''net''), (''password'', JStr t)])])]))), cd_sha256 = (\<lambda>_. ''00'') \<rparr>"

definition sample_payload :: "bytes \<Rightarrow> bytes" where
  "sample_payload data = [1, 128, 2, 0, 0, 0, 2, 128, word_of_nat (length data), 0] @ data"

definition sample_reply :: "bytes \<Rightarrow> serial_raised + bytes" where
  "sample_reply data = rcatch (encode_message (sample_payload data) RESPONSE 7) (\<lambda>_. SerialFailed ''encode'' [])"

lemma sample_text: "map (\<lambda>w. char_of (unat w)) (utf8 ''{}'') = ''{}''"
  by (simp add: utf8_def of_char_of char_of_def bit_0)

lemma sample_payload_decodes:
  "decode_response_body sample_codec (sample_payload [x, y, z]) = Inr
     \<lparr> br_status = 0, br_data = [x, y, z], br_metadata = [], br_queue_depth = 0, br_overflow_count = 0, br_timestamp = 0, br_error = [] \<rparr>"
proof -
  have "decode_tlvs (sample_payload [x, y, z]) (Some RESPONSE_FIELDS) = Inr [(32769, [0, 0]), (32770, [x, y, z])]"
    by (simp add: decode_tlvs_def sample_payload_def decode_tlvs_loop.simps TLV_size_def pyslice_def tlv_allowed_def
        RESPONSE_FIELDS_def field_number_def FieldId_def)
  then show ?thesis
    by (simp add: decode_response_body_def field_bytes_def integer_field_def decode_metadata_def sample_codec_def
        field_number_def FieldId_def sample_text)
qed

lemma sample_reply_shape:
  "\<exists>raw. encode_message (sample_payload [x, y, z]) RESPONSE 7 = Inr raw \<and> sample_reply [x, y, z] = Inr raw
     \<and> answer_shape sample_codec 7 (sample_reply [x, y, z]) = Inr (35, Inr (1, RESPONSE, 1, 13, 0))"
proof -
  have len: "length (sample_payload [x, y, z]) = 13" by (simp add: sample_payload_def)
  then obtain raw where raw: "encode_message (sample_payload [x, y, z]) RESPONSE 7 = Inr raw" "length raw = 35"
    using short_message [of "sample_payload [x, y, z]" 7 RESPONSE] by auto
  have r: "read_response sample_codec 7 raw = Inr (message_frames (sample_payload [x, y, z]) RESPONSE 7, RESPONSE,
      sample_payload [x, y, z], \<lparr> br_status = 0, br_data = [x, y, z], br_metadata = [], br_queue_depth = 0,
        br_overflow_count = 0, br_timestamp = 0, br_error = [] \<rparr>)"
    using read_response_message [where mt = RESPONSE and rid = 7 and raw = raw, OF _ _ sample_payload_decodes [of x y z]] raw
    by simp
  have one: "length (message_chunks (sample_payload [x, y, z])) = 1" by (simp add: length_message_chunks len)
  then have "message_frames (sample_payload [x, y, z]) RESPONSE 7 = [message_frames (sample_payload [x, y, z]) RESPONSE 7 ! 0]"
    by (auto simp: list_eq_iff_nth_eq)
  then obtain f where "message_frames (sample_payload [x, y, z]) RESPONSE 7 = [f]" "frame_version f = 1"
    using message_frames_nth [of 0 "sample_payload [x, y, z]" RESPONSE 7] one by (metis wire_frame.select_convs(6) zero_less_one)
  then show ?thesis using raw r len by (simp add: answer_shape_def sample_reply_def response_shape_def)
qed

lemma sample_request:
  assumes "word \<in> {''hunter-1'', ''hunter-2''}" and "rid < 2 ^ 32"
  shows "\<exists>body encoded. encode_request_body (dump_control (WifiConnect ''lab'')) None [(''ssid'', ''net''), (''password'', word)] = Inr body
     \<and> encode_message body REQUEST (int rid) = Inr encoded \<and> length body = 32 \<and> length encoded = 54"
proof -
  let ?secrets = "[(''ssid'', ''net''), (''password'', word)]"
  let ?wire = "control_wire (WifiConnect ''lab'') ?secrets"
  have "length_ok 1 64 ''lab''" "profile_name_re ''lab''" by (code_simp, code_simp)
  then have "encode_request_body (dump_control (WifiConnect ''lab'')) None ?secrets = Inr (concat (map tlv_bytes ?wire))"
    using assms by (intro encode_body_decodes(1) control_body_items control_wire_ok) (auto simp: unsendable_def secrets_ok_def)
  moreover have "length (concat (map tlv_bytes ?wire)) = 32"
    using assms by (auto simp: control_wire_def secret_wire_def length_tlv_bytes utf8_def of_char_of)
  ultimately show ?thesis using short_message [of "concat (map tlv_bytes ?wire)" rid REQUEST] assms(2) by auto
qed

theorem exchange_exact_witness:
  "\<exists>r. request_locked sample_codec \<lparr> stamp_operation_id = ''op'', stamp_started = 0, stamp_finished = 1 \<rparr> ''/dev/ttyACM0''
     (dump_control (WifiConnect ''lab'')) None [(''ssid'', ''net''), (''password'', ''hunter-1'')] 7 1000 (\<lambda>_. sample_reply [1, 2, 3]) = Inr r \<and> result_ok r"
proof -
  let ?answer = "\<lambda>_ :: bytes. sample_reply [1, 2, 3]"
  let ?st = "\<lparr> stamp_operation_id = ''op'', stamp_started = 0, stamp_finished = 1 \<rparr> :: stamp"
  obtain b e where 1: "encode_request_body (dump_control (WifiConnect ''lab'')) None [(''ssid'', ''net''), (''password'', ''hunter-1'')] = Inr b"
    "encode_message b REQUEST (int 7) = Inr e" "length e = 54"
    using sample_request [of "''hunter-1''" 7] by auto
  obtain raw where raw: "encode_message (sample_payload [1, 2, 3]) RESPONSE (int 7) = Inr raw" "sample_reply [1, 2, 3] = Inr raw"
    using sample_reply_shape [of 1 2 3] by auto
  have "e \<noteq> []" using 1(3) by auto
  then have "check_binary e 115200 1000 75 = Inr ()"
    using 1(3) by (simp add: check_binary_def baudrate_ok_def duration_ok_def)
  then obtain r where r: "request_locked sample_codec ?st ''/dev/ttyACM0'' (dump_control (WifiConnect ''lab'')) None
      [(''ssid'', ''net''), (''password'', ''hunter-1'')] 7 1000 ?answer = Inr r"
    using 1 by (auto simp: request_locked_def exchange_binary_def Let_def)
  from exchange_exact [OF r 1(1,2)] raw sample_payload_decodes [of 1 2 3]
  have "result_ok r" by (metis bridge_response.select_convs(1))
  then show ?thesis using r by blast
qed

end
