(* ===== verification/Bridge_Service.thy ===== *)
theory Bridge_Service
  imports Bridge_Backend Service_Safety
begin

text \<open>
  The bridge service (\<^verbatim>\<open>service.py\<close> and \<^verbatim>\<open>profiles.py\<close> of the bridge extension): named secrets from a file of mode
  0600, the core check, the four operations behind the identity gate, the lease and the audit log of the core
  service, and the typed results. What the port answers, the random request ids, the profiles file and
  the validation of a status model are functions of a record; an exception of the exchange is known by the name of its
  class, its message is not modelled. Timeouts are in milliseconds.
\<close>

subsection \<open>Named secrets\<close>

record profiles_file =
  pf_regular :: bool
  pf_mode :: nat
  pf_content :: bytes

datatype profiles_error =
    ProfilesNotConfigured
  | ProfilesMissing
  | ProfilesNotRegular
  | ProfilesModeNot0600
  | ProfilesNotText
  | ProfilesNotJson
  | ProfilesInvalid

definition wifi_of_json :: "json \<Rightarrow> wifi_credentials option" where
  "wifi_of_json j =
     (case j of
        JObj d \<Rightarrow>
          if set (map fst d) \<noteq> {''ssid'', ''password''} then None
          else (case (object_get j ''ssid'', object_get j ''password'') of
             (JStr s, JStr p) \<Rightarrow> Some \<lparr> ssid = s, password = p \<rparr>
           | _ \<Rightarrow> None)
      | _ \<Rightarrow> None)"

definition passkey_of_json :: "json \<Rightarrow> string option" where
  "passkey_of_json j =
     (case j of
        JObj d \<Rightarrow> if set (map fst d) \<noteq> {''passkey''} then None
          else (case object_get j ''passkey'' of JStr s \<Rightarrow> Some s | _ \<Rightarrow> None)
      | _ \<Rightarrow> None)"

definition named_of_json :: "(json \<Rightarrow> 'a option) \<Rightarrow> json option \<Rightarrow> (string, 'a) dict option" where
  "named_of_json f j =
     (case j of
        None \<Rightarrow> Some []
      | Some (JObj d) \<Rightarrow>
          if list_all (\<lambda>(k, v). f v \<noteq> None) d then Some (map (\<lambda>(k, v). (k, the (f v))) d) else None
      | Some _ \<Rightarrow> None)"

definition profiles_of_json :: "json \<Rightarrow> bridge_profiles option" where
  "profiles_of_json j =
     (case j of
        JObj d \<Rightarrow>
          if \<not> set (map fst d) \<subseteq> {''wifi'', ''ble_passkeys''} then None
          else (case (named_of_json wifi_of_json (dict_get d ''wifi''), named_of_json passkey_of_json (dict_get d ''ble_passkeys'')) of
             (Some w, Some b) \<Rightarrow>
               let p = \<lparr> profiles_wifi = w, profiles_ble_passkeys = b \<rparr> in if bridge_profiles_ok p then Some p else None
           | _ \<Rightarrow> None)
      | _ \<Rightarrow> None)"

text \<open>\<open>configured\<close> is the configured path, \<open>file\<close> what its resolution finds.\<close>

definition load_bridge_profiles :: "codec \<Rightarrow> bool \<Rightarrow> profiles_file option \<Rightarrow> profiles_error + bridge_profiles" where
  "load_bridge_profiles cd configured file =
     (if \<not> configured then Inl ProfilesNotConfigured
      else case file of
        None \<Rightarrow> Inl ProfilesMissing
      | Some f \<Rightarrow>
          if \<not> pf_regular f then Inl ProfilesNotRegular
          else if pf_mode f \<noteq> 384 then Inl ProfilesModeNot0600
          else (case cd_utf8 cd (pf_content f) of
            None \<Rightarrow> Inl ProfilesNotText
          | Some t \<Rightarrow> (case cd_loads cd t of
              None \<Rightarrow> Inl ProfilesNotJson
            | Some j \<Rightarrow> (case profiles_of_json j of None \<Rightarrow> Inl ProfilesInvalid | Some p \<Rightarrow> Inr p))))"

subsection \<open>A request through the core service\<close>

record bridge_env =
  be_codec :: codec
  be_request_id :: "nat \<Rightarrow> nat"
  be_answer :: "nat \<Rightarrow> string \<Rightarrow> bytes \<Rightarrow> serial_raised + bytes"
  be_profile :: string
  be_core :: string
  be_configured :: bool
  be_profiles :: "profiles_file option"
  be_status_ok :: "json_object \<Rightarrow> bool"

datatype bridge_raised =
    FromService service_error
  | ProfilesFailed profiles_error
  | UnknownWifiProfile string
  | UnknownPasskeyProfile string
  | RequestFailed string
  | NoStructuredResponse
  | BadResponseData
  | HandshakeFailed
  | StatusInvalid

fun raised_class :: "exchange_error \<Rightarrow> string" where
  "raised_class (BodyRefused (BadPayload _)) = ''ValueError''"
| "raised_class (BodyRefused (StructError _)) = ''error''"
| "raised_class (BodyRefused (NotAnInteger _)) = ''ValueError''"
| "raised_class (BodyRefused NotAString) = ''TypeError''"
| "raised_class (BodyRefused (MissingKey _)) = ''KeyError''"
| "raised_class (BodyRefused _) = ''BridgeWireError''"
| "raised_class (MessageRefused e) = class_name (wire_error_class e)"
| "raised_class (PortRefused _) = ''ValueError''"

definition bridge_execute ::
    "service_env \<Rightarrow> bridge_env \<Rightarrow> fields \<Rightarrow> string option \<Rightarrow> (string, string) dict \<Rightarrow> int \<Rightarrow> string \<Rightarrow> command_result operation" where
  "bridge_execute env be request op secrets timeout port =
     run_backend (\<lambda>n. rcatch (request_locked (be_codec be)
         \<lparr> stamp_operation_id = se_uuid env n, stamp_started = se_now env n, stamp_finished = se_now env n \<rparr>
         port request op secrets (be_request_id be n) timeout (be_answer be n port)) raised_class)"

fun pyval_json :: "pyval \<Rightarrow> json" where
  "pyval_json (PyInt n) = JInt n" | "pyval_json (PyBool b) = JBool b" | "pyval_json (PyStr s) = JStr s"

definition public_request :: "fields \<Rightarrow> json" where
  "public_request request = JObj (map (\<lambda>(k, v). (k, pyval_json v)) request)"

definition audited_request :: "fields \<Rightarrow> string option \<Rightarrow> string list \<Rightarrow> json_object" where
  "audited_request request op names =
     [(''operation'', json_opt JStr op), (''request'', public_request request),
      (''secret_profile_fields'', JList (map JStr (sort_key (\<lambda>s. map of_char s :: nat list) names)))]"

text \<open>The selector passed on was completed by \<open>resolve_selector_wait\<close>, so its interface and speed count as given.\<close>

definition bridge_request ::
    "service_env \<Rightarrow> bridge_env \<Rightarrow> string set \<Rightarrow> device_selector \<Rightarrow> fields \<Rightarrow> string \<Rightarrow> bool \<Rightarrow> string option
     \<Rightarrow> (string, string) dict \<Rightarrow> int \<Rightarrow> command_result operation" where
  "bridge_request env be given sel request action destructive op secrets timeout =
     op_bind (resolve_selector_wait env given sel) (\<lambda>resolved.
     if sel_target_profile resolved \<noteq> Some (be_profile be) \<or> sel_core resolved \<noteq> Some (be_core be)
     then op_raise (RequestRefused ''the protocol bridge control plane requires the GIGA primary core'')
     else audited_serial_operation env (given \<union> {''interface'', ''speed_khz''}) resolved
       (bridge_execute env be request op secrets timeout) action destructive
       (audited_request request op (map fst secrets)))"

subsection \<open>Typed results\<close>

record bridge_result =
  brs_protocol :: bridge_protocol
  brs_operation :: string
  brs_data_base64 :: string
  brs_byte_count :: nat
  brs_sha256 :: string
  brs_hex_preview :: string
  brs_metadata :: json_object
  brs_overflow :: bool
  brs_command :: command_result

definition bridge_response_of :: "command_result \<Rightarrow> bridge_raised + json_object" where
  "bridge_response_of r =
     (if \<not> result_ok r then Inl (RequestFailed (if res_stderr r = [] then ''protocol bridge request failed'' else res_stderr r))
      else (case dict_get (res_parsed r) ''bridge'' of Some (JObj d) \<Rightarrow> Inr d | _ \<Rightarrow> Inl NoStructuredResponse))"

definition protocol_of :: "string \<Rightarrow> bridge_protocol option" where
  "protocol_of name = find (\<lambda>p. bridge_protocol_value p = name) [Spi, I2c, Uart, Can, Usb, Wifi, Ble, Gpio]"

definition operation_protocol :: "string \<Rightarrow> bridge_protocol" where
  "operation_protocol op =
     (case protocol_of (takeWhile (\<lambda>c. c \<noteq> CHR ''_'') op) of
        Some p \<Rightarrow> p
      | None \<Rightarrow> if take 4 op = ''usb_'' then Usb else Gpio)"

definition hex_bytes :: "bytes \<Rightarrow> string" where
  "hex_bytes data = concat (map (\<lambda>w. [hex_digit (unat w div 16), hex_digit (unat w mod 16)]) data)"

definition copy_field :: "string \<Rightarrow> json_object \<Rightarrow> json_object \<Rightarrow> json_object" where
  "copy_field key response metadata =
     (case dict_get response key of None \<Rightarrow> metadata | Some JNull \<Rightarrow> metadata | Some v \<Rightarrow> dict_set metadata key v)"

definition bridge_result_of :: "codec \<Rightarrow> string \<Rightarrow> command_result \<Rightarrow> bridge_raised + bridge_result" where
  "bridge_result_of cd op r =
     rbind (bridge_response_of r) (\<lambda>response.
     case (case dict_get response ''data_base64'' of None \<Rightarrow> Some [] | Some (JStr s) \<Rightarrow> Some s | Some _ \<Rightarrow> None) of
       None \<Rightarrow> Inl BadResponseData
     | Some text_data \<Rightarrow>
         rbind (rcatch (decode_canonical_base64 text_data MAX_BRIDGE_PAYLOAD) (\<lambda>_. BadResponseData)) (\<lambda>data.
         case (case dict_get response ''metadata'' of None \<Rightarrow> Some [] | Some (JObj d) \<Rightarrow> Some d | Some _ \<Rightarrow> None) of
           None \<Rightarrow> Inl BadResponseData
         | Some metadata \<Rightarrow> Inr
             \<lparr> brs_protocol = operation_protocol op, brs_operation = op, brs_data_base64 = encode_canonical_base64 data,
               brs_byte_count = length data, brs_sha256 = cd_sha256 cd data, brs_hex_preview = hex_bytes (take 64 data),
               brs_metadata = copy_field ''overflow_count'' response (copy_field ''queue_depth'' response metadata),
               brs_overflow = json_truthy (object_get (JObj response) ''overflow_count''), brs_command = r \<rparr>))"

subsection \<open>The four operations\<close>

text \<open>What an operation of the core service leaves, continued by the bridge service.\<close>

definition bridge_then ::
    "'a operation \<Rightarrow> ('a \<Rightarrow> bridge_raised + 'b) \<Rightarrow> service_state \<Rightarrow> (bridge_raised + 'b) \<times> service_state" where
  "bridge_then m f = (\<lambda>st. case m st of (r, st') \<Rightarrow> (rbind (rcatch r FromService) f, st'))"

definition control_secrets :: "bridge_env \<Rightarrow> control_request \<Rightarrow> bridge_raised + (string, string) dict" where
  "control_secrets be request =
     (case request of
        WifiConnect name \<Rightarrow>
          rbind (rcatch (load_bridge_profiles (be_codec be) (be_configured be) (be_profiles be)) ProfilesFailed) (\<lambda>p.
          case dict_get (profiles_wifi p) name of
            None \<Rightarrow> Inl (UnknownWifiProfile name)
          | Some c \<Rightarrow> Inr [(''ssid'', ssid c), (''password'', password c)])
      | BlePair (Some (c # cs)) \<Rightarrow>
          rbind (rcatch (load_bridge_profiles (be_codec be) (be_configured be) (be_profiles be)) ProfilesFailed) (\<lambda>p.
          case dict_get (profiles_ble_passkeys p) (c # cs) of
            None \<Rightarrow> Inl (UnknownPasskeyProfile (c # cs))
          | Some k \<Rightarrow> Inr [(''passkey'', k)])
      | _ \<Rightarrow> Inr [])"

definition control_timeout :: "control_request \<Rightarrow> int" where
  "control_timeout request =
     (if control_operation request \<in> {''wifi_connect'', ''ble_scan'', ''ble_connect''} then 35000 else 5000)"

definition bridge_control ::
    "service_env \<Rightarrow> bridge_env \<Rightarrow> string set \<Rightarrow> device_selector \<Rightarrow> control_request
     \<Rightarrow> service_state \<Rightarrow> (bridge_raised + bridge_result) \<times> service_state" where
  "bridge_control env be given sel request =
     (case control_secrets be request of
        Inl e \<Rightarrow> (\<lambda>st. (Inl e, st))
      | Inr secrets \<Rightarrow>
          bridge_then (bridge_request env be given sel (dump_control request)
              (''protocol_bridge_control:'' @ control_operation request) True None secrets (control_timeout request))
            (bridge_result_of (be_codec be) (control_operation request)))"

definition bridge_exchange ::
    "service_env \<Rightarrow> bridge_env \<Rightarrow> string set \<Rightarrow> device_selector \<Rightarrow> exchange_request
     \<Rightarrow> service_state \<Rightarrow> (bridge_raised + bridge_result) \<times> service_state" where
  "bridge_exchange env be given sel request =
     bridge_then (bridge_request env be given sel (dump_exchange request)
         (''protocol_bridge_exchange:'' @ exchange_operation request) True None [] 30000)
       (bridge_result_of (be_codec be) (exchange_operation request))"

fun receive_timeout :: "receive_request \<Rightarrow> int" where
  "receive_timeout (Receive protocol channel limit drain timeout_ms) = max 5000 (timeout_ms + 2000)"

fun receive_protocol :: "receive_request \<Rightarrow> string" where
  "receive_protocol (Receive protocol channel limit drain timeout_ms) = bridge_protocol_value protocol"

fun receive_drains :: "receive_request \<Rightarrow> bool" where
  "receive_drains (Receive protocol channel limit drain timeout_ms) = drain"

definition bridge_receive ::
    "service_env \<Rightarrow> bridge_env \<Rightarrow> string set \<Rightarrow> device_selector \<Rightarrow> receive_request
     \<Rightarrow> service_state \<Rightarrow> (bridge_raised + bridge_result) \<times> service_state" where
  "bridge_receive env be given sel request =
     bridge_then (bridge_request env be given sel (dump_receive request)
         (''protocol_bridge_receive:'' @ receive_protocol request) (receive_drains request) (Some ''receive'') []
         (receive_timeout request))
       (bridge_result_of (be_codec be) (receive_protocol request @ ''_receive''))"

text \<open>A status is its metadata with the exchange's result; the field types are checked by \<open>be_status_ok\<close>.\<close>

definition equals_version :: "json \<Rightarrow> bool" where
  "equals_version j =
     (case j of JInt n \<Rightarrow> n = BRIDGE_WIRE_VERSION | JBool b \<Rightarrow> of_bool b = BRIDGE_WIRE_VERSION | JReal r \<Rightarrow> r = ''1.0'' | _ \<Rightarrow> False)"

definition bridge_status_of :: "bridge_env \<Rightarrow> command_result \<Rightarrow> bridge_raised + json_object \<times> command_result" where
  "bridge_status_of be r =
     rbind (bridge_response_of r) (\<lambda>response.
     case (case dict_get response ''metadata'' of None \<Rightarrow> Some [] | Some (JObj d) \<Rightarrow> Some d | Some _ \<Rightarrow> None) of
       None \<Rightarrow> Inl BadResponseData
     | Some metadata \<Rightarrow>
         if \<not> equals_version (object_get (JObj metadata) ''wire_version'') then Inl HandshakeFailed
         else if \<not> be_status_ok be metadata then Inl StatusInvalid
         else Inr (metadata, r))"

definition bridge_status ::
    "service_env \<Rightarrow> bridge_env \<Rightarrow> string set \<Rightarrow> device_selector
     \<Rightarrow> service_state \<Rightarrow> (bridge_raised + json_object \<times> command_result) \<times> service_state" where
  "bridge_status env be given sel =
     bridge_then (bridge_request env be given sel [] ''protocol_bridge_status'' False (Some ''get_status'') [] 5000)
       (bridge_status_of be)"

subsection \<open>Every bridge operation stays behind the gates of the core service\<close>

context operation_contract
begin

lemma over_bridge_request: "over R (bridge_request env be given sel request action d op secrets timeout)"
  unfolding bridge_request_def bridge_execute_def
  by (intro over_bind over_resolve_wait) (simp add: over_basic over_audited_serial over_backend)

lemma over_bridge:
  "R st (snd (bridge_control env be given sel control st))" "R st (snd (bridge_exchange env be given sel exch st))"
  "R st (snd (bridge_receive env be given sel receive st))" "R st (snd (bridge_status env be given sel st))"
proof -
  have then_stays: "over R m \<Longrightarrow> R st (snd (bridge_then m f st))" for m :: "command_result operation" and f :: "command_result \<Rightarrow> bridge_raised + 'b"
    using overD [of R m st] by (cases "m st") (simp add: bridge_then_def)
  have same: "R st st" using over_basic(1) [THEN overD, of st] by (simp add: op_return_def)
  show "R st (snd (bridge_exchange env be given sel exch st))" "R st (snd (bridge_receive env be given sel receive st))"
    by (simp_all only: bridge_exchange_def bridge_receive_def then_stays [OF over_bridge_request])
  show "R st (snd (bridge_control env be given sel control st))"
    by (simp add: bridge_control_def same then_stays [OF over_bridge_request] split: sum.split)
  show "R st (snd (bridge_status env be given sel st))"
    unfolding bridge_status_def bridge_then_def 
    using overD [OF over_bridge_request [of be given sel "[]" "''protocol_bridge_status''" False "Some ''get_status''" "[]" 5000], of st]
    by (auto split: prod.split)
qed

end

subsection \<open>Secrets\<close>

lemma control_secrets_names:
  assumes "control_secrets be request = Inr s1" "control_secrets be' request = Inr s2"
  shows "map fst s1 = map fst s2"
proof (cases request)
  case (WifiConnect name)
  then show ?thesis using assms by (auto simp: control_secrets_def rbind_eq_Inr split: option.splits)
next
  case (BlePair z)
  then show ?thesis using assms by (auto simp: control_secrets_def rbind_eq_Inr split: option.splits list.splits)
qed (use assms in \<open>simp_all add: control_secrets_def\<close>)

end
