(* ===== verification/Bridge_Promises.thy ===== *)
theory Bridge_Promises
  imports Bridge_Service Service_Gate
begin

text \<open>
  What a caller of the bridge service can rely on: the body of a receive request and the range of timeouts the port accepts,
  and that a typed result reports what the device answered.
\<close>

subsection \<open>Receive requests\<close>







subsection \<open>From the device to the typed result\<close>

lemma with_lease_Inr:
  "with_lease env probe owner body st = (Inr x, st') \<Longrightarrow> \<exists>info s1 s2. body info s1 = (Inr x, s2)"
  by (auto simp: with_lease_def op_bind_def op_finally_def split: option.splits prod.splits sum.splits)

lemma gated_serial_Inr:
  assumes "gated_serial env sel owner action exch st = (Inr (r, identity, resume), st')"
  shows "\<exists>port s1 s2 r0 sid. exch port s1 = (Inr r0, s2) \<and> r = with_session sid r0"
  using assms
  by (fastforce simp: gated_serial_def op_bind_Inr op_return_def op_raise_def op_get_def split: option.splits dest!: with_lease_Inr)

lemma audited_serial_Inr:
  assumes "audited_serial_operation env given sel exch action d request st = (Inr r, st')"
  shows "\<exists>port s1 s2 r0 sid resolved identity resume. exch port s1 = (Inr r0, s2)
    \<and> r = finish_serial resolved (with_session sid r0, identity, resume)"
proof -
  obtain resolved x s1 s2 where g: "gated_serial env resolved action (action @ ''_resume'') exch s1 = (Inr x, s2)"
    and r: "r = finish_serial resolved x"
    using assms by (auto simp: audited_serial_operation_def op_bind_Inr op_return_def Let_def)
  obtain q identity resume where x: "x = (q, identity, resume)" by (cases x)
  show ?thesis using gated_serial_Inr [OF g [unfolded x]] r x by blast
qed

lemma bridge_request_Inr:
  assumes "bridge_request env be given sel request action d op secrets timeout st = (Inr r, st')"
  shows "\<exists>n stamp port r0 sid resolved identity resume.
    request_locked (be_codec be) stamp port request op secrets (be_request_id be n) timeout (be_answer be n port) = Inr r0
    \<and> r = finish_serial resolved (with_session sid r0, identity, resume)"
proof -
  obtain resolved given' s1 where
    "audited_serial_operation env given' resolved (bridge_execute env be request op secrets timeout) action d
       (audited_request request op (map fst secrets)) s1 = (Inr r, st')"
    using assms by (auto simp: bridge_request_def op_bind_Inr op_raise_def split: if_splits)
  from audited_serial_Inr [OF this] obtain port s1 s2 r0 sid resolved identity resume where
    e: "bridge_execute env be request op secrets timeout port s1 = (Inr r0, s2)"
    and r: "r = finish_serial resolved (with_session sid r0, identity, resume)" by blast
  from e have "\<exists>n stamp. request_locked (be_codec be) stamp port request op secrets (be_request_id be n) timeout (be_answer be n port) = Inr r0"
    by (auto simp: bridge_execute_def run_backend_def op_bind_Inr op_lift_def ask_def rcatch_eq_Inr)
  then show ?thesis using r by blast
qed

lemma finished_record:
  "result_ok (finish_serial sel (with_session sid r, identity, resume)) = result_ok r"
  "dict_get (res_parsed (finish_serial sel (with_session sid r, identity, resume))) ''bridge'' = dict_get (res_parsed r) ''bridge''"
  by (auto simp: finish_serial_def parsed_put_def attach_identities_def with_session_def result_ok_def Let_def split: option.splits)

lemma canonical_decoded: "rcatch (decode_canonical_base64 (b64encode bs) n) h = Inr x \<Longrightarrow> x = bs"
  by (simp add: decode_canonical_base64_def rcatch_eq_Inr del: b64encode.simps split: if_splits)

lemma result_of_response:
  assumes "bridge_result_of cd op r = Inr res" "dict_get (res_parsed r) ''bridge'' = Some (JObj (response_json response))"
  shows "brs_data_base64 res = b64encode (br_data response) \<and> brs_byte_count res = length (br_data response)
    \<and> brs_sha256 res = cd_sha256 cd (br_data response) \<and> (brs_overflow res \<longleftrightarrow> 0 < br_overflow_count response)
    \<and> dict_get (brs_metadata res) ''queue_depth'' = Some (JInt (int (br_queue_depth response)))
    \<and> dict_get (brs_metadata res) ''overflow_count'' = Some (JInt (int (br_overflow_count response)))
    \<and> (\<forall>key. key \<noteq> ''queue_depth'' \<and> key \<noteq> ''overflow_count'' \<longrightarrow> dict_get (brs_metadata res) key = dict_get (br_metadata response) key)"
  using assms by (auto simp: bridge_result_of_def bridge_response_of_def rbind_eq_Inr response_json_def 
      encode_canonical_base64_def object_get_def copy_field_def simp del: b64encode.simps
      dest!: canonical_decoded split: if_splits)

text \<open>C10: A typed result reports what the device answered. When an exchange with the bridge returns a result, the request was encoded
  and sent, the device's bytes are frames that make up one complete response with the id of the request and status 0, and
  the result carries exactly that response: its data in canonical base64 with their length and hash, its metadata, and
  the queue depth and overflow count beside them.\<close>

theorem exchange_reports_answer:
  assumes "bridge_exchange env be given sel request st = (Inr res, st')"
  shows "\<exists>n port body encoded raw frames payload response.
    encode_request_body (dump_exchange request) None [] = Inr body
    \<and> encode_message body REQUEST (int (be_request_id be n)) = Inr encoded \<and> be_answer be n port encoded = Inr raw
    \<and> decode_stream raw = Inr frames \<and> reassemble_frames frames (Some (int (be_request_id be n))) (Some RESPONSE) = Inr payload
    \<and> decode_response_body (be_codec be) payload = Inr response \<and> br_status response = 0
    \<and> brs_data_base64 res = b64encode (br_data response) \<and> brs_byte_count res = length (br_data response)
    \<and> brs_sha256 res = cd_sha256 (be_codec be) (br_data response) \<and> (brs_overflow res \<longleftrightarrow> 0 < br_overflow_count response)
    \<and> dict_get (brs_metadata res) ''queue_depth'' = Some (JInt (int (br_queue_depth response)))
    \<and> dict_get (brs_metadata res) ''overflow_count'' = Some (JInt (int (br_overflow_count response)))
    \<and> (\<forall>key. key \<noteq> ''queue_depth'' \<and> key \<noteq> ''overflow_count'' \<longrightarrow> dict_get (brs_metadata res) key = dict_get (br_metadata response) key)"
proof -
  let ?request = "bridge_request env be given sel (dump_exchange request) (''protocol_bridge_exchange:'' @ exchange_operation request) True None [] 30000"
  obtain r where run: "?request st = (Inr r, st')" and res: "bridge_result_of (be_codec be) (exchange_operation request) r = Inr res"
    using assms by (auto simp: bridge_exchange_def bridge_then_def result_simps split: prod.splits)
  from bridge_request_Inr [OF run] obtain n stamp port r0 sid resolved identity resume where
    locked: "request_locked (be_codec be) stamp port (dump_exchange request) None [] (be_request_id be n) 30000 (be_answer be n port) = Inr r0"
    and r: "r = finish_serial resolved (with_session sid r0, identity, resume)" by blast
  have "result_ok r" using res by (auto simp: bridge_result_of_def bridge_response_of_def rbind_eq_Inr split: if_splits)
  then have "result_ok r0" by (simp add: r finished_record)
  from exchange_sound [OF locked this] obtain body encoded raw frames payload response where
    sent: "encode_request_body (dump_exchange request) None [] = Inr body"
      "encode_message body REQUEST (int (be_request_id be n)) = Inr encoded" "be_answer be n port encoded = Inr raw"
    and got: "decode_stream raw = Inr frames" "reassemble_frames frames (Some (int (be_request_id be n))) (Some RESPONSE) = Inr payload"
      "decode_response_body (be_codec be) payload = Inr response" "br_status response = 0"
    and bridge: "dict_get (res_parsed r0) ''bridge'' = Some (JObj (response_json response))" by blast
  have "dict_get (res_parsed r) ''bridge'' = Some (JObj (response_json response))" by (simp add: r finished_record bridge)
  note reported = result_of_response [OF res this]
  show ?thesis
    by (rule exI [of _ n], rule exI [of _ port], rule exI [of _ body], rule exI [of _ encoded], rule exI [of _ raw],
        rule exI [of _ frames], rule exI [of _ payload], rule exI [of _ response]) (use sent got reported in simp)
qed

subsection \<open>A sample bridge\<close>

definition sample_board :: board_info where
  "sample_board = \<lparr> bd_serial = Some ''b'', bd_profile = Some ''p'', bd_port = Some ''/dev/ttyACM0'' \<rparr>"

definition bridge_host :: service_env where
  "bridge_host = sample_service \<lparr> se_boards := \<lambda>n. [sample_board] \<rparr>"

definition bridge_target :: device_selector where
  "bridge_target = sample_target \<lparr> sel_board_serial := Some ''b'' \<rparr>"

definition bridge_open :: service_state where
  "bridge_open = (fresh_state empty_store) \<lparr> sv_gdb_selectors := [(''s'', bridge_target)], sv_gdb_identities := [(''s'', [])] \<rparr>"

definition sample_bridge :: bridge_env where
  "sample_bridge = \<lparr> be_codec = sample_codec, be_request_id = (\<lambda>n. 7), be_answer = (\<lambda>n port e. sample_reply [1, 2, 3]),
     be_profile = ''p'', be_core = ''m'', be_configured = True,
     be_profiles = Some \<lparr> pf_regular = True, pf_mode = 384, pf_content = utf8 ''hunter-1'' \<rparr>, be_status_ok = (\<lambda>d. True) \<rparr>"

lemma bridge_resolved:
  assumes "operations (sv_store st) = []" "sel \<in> {default_selector, bridge_target}"
  shows "resolve_selector_wait bridge_host given sel st = (Inr bridge_target, st \<lparr> sv_tick := Suc (sv_tick st) \<rparr>)"
  using assms by (auto simp: resolve_selector_wait_def bridge_host_def sample_service_def resolve_selector_def capabilities_def op_bind_def ask_def
      resolve_with_def choose_profile_def choose_probe_def choose_board_def default_selector_def bridge_target_def sample_target_def
      sample_profile_def sample_core_def sample_board_def get_profile_def empty_targets_def enrich_probe_def Let_def map_filter_simps)

lemma bridge_board:
  assumes "operations (sv_store st) = []"
  shows "wait_board (se_polls bridge_host) bridge_host bridge_target st = (Inr ''/dev/ttyACM0'', st \<lparr> sv_tick := Suc (Suc (sv_tick st)) \<rparr>)"
  using assms by (simp add: bridge_host_def sample_service_def capabilities_def op_bind_def ask_def bridge_target_def sample_target_def
      default_selector_def sample_board_def map_filter_simps op_return_def enrich_probe_def)

lemma sample_profiles:
  "control_secrets sample_bridge (WifiConnect ''lab'') = Inr [(''ssid'', ''net''), (''password'', ''hunter-1'')]"
  "control_secrets (sample_bridge \<lparr> be_profiles := Some \<lparr> pf_regular = True, pf_mode = 384, pf_content = utf8 ''hunter-2'' \<rparr>,
     be_answer := a \<rparr>) (WifiConnect ''lab'') = Inr [(''ssid'', ''net''), (''password'', ''hunter-2'')]"
proof -
  have t: "map (\<lambda>w. char_of (unat w)) (utf8 ''hunter-1'') = ''hunter-1''" "map (\<lambda>w. char_of (unat w)) (utf8 ''hunter-2'') = ''hunter-2''"
    by (simp_all add: utf8_def of_char_of char_of_def bit_0)
  show "control_secrets sample_bridge (WifiConnect ''lab'') = Inr [(''ssid'', ''net''), (''password'', ''hunter-1'')]"
    by (simp add: control_secrets_def sample_bridge_def load_bridge_profiles_def sample_codec_def t profiles_of_json_def named_of_json_def
        wifi_of_json_def object_get_def bridge_profiles_ok_def wifi_credentials_ok_def length_ok_def insert_commute)
  show "control_secrets (sample_bridge \<lparr> be_profiles := Some \<lparr> pf_regular = True, pf_mode = 384, pf_content = utf8 ''hunter-2'' \<rparr>,
     be_answer := a \<rparr>) (WifiConnect ''lab'') = Inr [(''ssid'', ''net''), (''password'', ''hunter-2'')]"
    by (simp add: control_secrets_def sample_bridge_def load_bridge_profiles_def sample_codec_def t profiles_of_json_def named_of_json_def
        wifi_of_json_def object_get_def bridge_profiles_ok_def wifi_credentials_ok_def length_ok_def insert_commute)
qed

text \<open>C9: Secrets reach neither the audit log nor the result. A control request that uses a named network or passkey, served
  twice in the same state with different profiles files and hence different secrets, leaves the same service state (the
  audit log with its hashes included) and gives the same result, as long as the encoded messages have the same length
  and the device's answers the same length and shape. In particular no hash of a secret and nothing the device
  echoes is recorded.\<close>

theorem secrets_not_logged:
  assumes "control_secrets be request = Inr secrets1" and "secrets1 \<noteq> []"
    and "control_secrets (be \<lparr> be_profiles := file, be_answer := answer \<rparr>) request = Inr secrets2"
    and "\<And>n port. same_observation (be_codec be) (dump_control request) None (be_request_id be n)
           secrets1 (be_answer be n port) secrets2 (answer n port)"
  shows "bridge_control env be given sel request st
    = bridge_control env (be \<lparr> be_profiles := file, be_answer := answer \<rparr>) given sel request st"
proof -
  let ?be = "be \<lparr> be_profiles := file, be_answer := answer \<rparr>"
  have names: "map fst secrets1 = map fst secrets2" using control_secrets_names [OF assms(1,3)] .
  then have ne: "secrets2 \<noteq> []" using assms(2) by auto
  have "bridge_execute env be (dump_control request) None secrets1 t = bridge_execute env ?be (dump_control request) None secrets2 t" for t
    using secrets_hidden [OF assms(2) ne assms(4)] by (simp add: bridge_execute_def fun_eq_iff)
  then have "bridge_request env be given sel (dump_control request) action d None secrets1 t
      = bridge_request env ?be given sel (dump_control request) action d None secrets2 t" for action d t
    by (simp add: bridge_request_def names cong: if_cong)
  then show ?thesis by (simp add: bridge_control_def assms(1,3))
qed

text \<open>The network's password is another one and the device echoes other bytes: same log, same result.\<close>

theorem secrets_not_logged_witness:
  "bridge_control bridge_host sample_bridge {} default_selector (WifiConnect ''lab'') bridge_open
   = bridge_control bridge_host (sample_bridge \<lparr> be_profiles := Some \<lparr> pf_regular = True, pf_mode = 384, pf_content = utf8 ''hunter-2'' \<rparr>,
       be_answer := \<lambda>n port e. sample_reply [4, 5, 6] \<rparr>) {} default_selector (WifiConnect ''lab'') bridge_open"
proof (rule secrets_not_logged [OF sample_profiles(1) _ sample_profiles(2)])
  show "same_observation (be_codec sample_bridge) (dump_control (WifiConnect ''lab'')) None (be_request_id sample_bridge n)
      [(''ssid'', ''net''), (''password'', ''hunter-1'')] (be_answer sample_bridge n port)
      [(''ssid'', ''net''), (''password'', ''hunter-2'')] ((\<lambda>n port e. sample_reply [4, 5, 6]) n port)" for n port
    using sample_request [of "''hunter-1''" 7] sample_request [of "''hunter-2''" 7] sample_reply_shape [of 1 2 3] sample_reply_shape [of 4 5 6]
    by (fastforce simp: same_observation_def sample_bridge_def)
qed simp

lemma sample_exchange:
  "\<exists>r. request_locked sample_codec stamp port (dump_exchange (UartWrite (b64encode [1, 2]) 2)) None [] 7 30000 (\<lambda>e. sample_reply [1, 2, 3]) = Inr r
     \<and> result_ok r \<and> dict_get (res_parsed r) ''bridge'' = Some (JObj (response_json \<lparr> br_status = 0, br_data = [1, 2, 3], br_metadata = [],
         br_queue_depth = 0, br_overflow_count = 0, br_timestamp = 0, br_error = [] \<rparr>))"
proof -
  let ?request = "UartWrite (b64encode [1, 2]) 2"
  let ?body = "concat (map tlv_bytes (exchange_wire ?request))"
  have v: "validate_exchange ?request = Inr ?request"
    by (simp add: validate_exchange_Inr payload_ok_encode in_range_def del: b64encode.simps)
  then have f: "list_all snd (exchange_fields ?request)" "normal_exchange ?request = ?request"
    using validated_exchange [OF v] by (auto simp: validate_exchange_Inr)
  have body: "encode_request_body (dump_exchange ?request) None [] = Inr ?body"
    by (rule encode_body_decodes(1) [OF exchange_body_items [OF f] exchange_wire_ok [OF f(1)]])
  have "length ?body \<le> 200"
    by (simp add: exchange_wire_def opt_wire_def data_bytes_def length_tlv_bytes del: b64encode.simps le_bytes.simps)
  then obtain encoded where encoded: "encode_message ?body REQUEST (int 7) = Inr encoded" "length encoded = length ?body + 22"
    using short_message [of ?body 7 REQUEST] by auto
  have "check_binary encoded 115200 30000 75 = Inr ()"
    using encoded(2) \<open>length ?body \<le> 200\<close> by (auto simp: check_binary_def baudrate_ok_def duration_ok_def)
  then obtain r where r: "request_locked sample_codec stamp port (dump_exchange ?request) None [] 7 30000 (\<lambda>e. sample_reply [1, 2, 3]) = Inr r"
    using body encoded by (auto simp: request_locked_def exchange_binary_def Let_def simp del: b64encode.simps)
  obtain raw where raw: "encode_message (sample_payload [1, 2, 3]) RESPONSE (int 7) = Inr raw" "sample_reply [1, 2, 3] = Inr raw"
    using sample_reply_shape [of 1 2 3] by auto
  then have ok: "result_ok r" using exchange_complete [OF r body encoded(1) _ _ sample_payload_decodes] by auto
  have "read_response sample_codec 7 raw = Inr (message_frames (sample_payload [1, 2, 3]) RESPONSE (int 7), RESPONSE, sample_payload [1, 2, 3],
      \<lparr> br_status = 0, br_data = [1, 2, 3], br_metadata = [], br_queue_depth = 0, br_overflow_count = 0, br_timestamp = 0, br_error = [] \<rparr>)"
    by (rule read_response_message [OF raw(1) _ sample_payload_decodes]) simp
  with exchange_sound [OF r ok] raw(2) show ?thesis using r ok by (auto simp: read_response_Inr)
qed

lemma append_only_first:
  assumes "operations (sv_store st) = []"
  shows "\<exists>st'. append env r action probe d request st = (Inr (), st')"
  using append_first [OF assms] by metis

lemma gated_in_session:
  "matching_gdb sel st = Some sid \<Longrightarrow> dict_get (sv_gdb_identities st) sid = Some i \<Longrightarrow>
   wait_board (se_polls env) env sel st = (Inr port, st1) \<Longrightarrow> exch port st1 = (Inr r, st2) \<Longrightarrow>
   gated_serial env sel owner action exch st = (Inr (with_session sid r, i, None), st2)"
  by (simp add: gated_serial_def op_bind_def op_get_def op_return_def)

lemma bridge_request_runs:
  assumes "resolve_selector_wait env given sel st = (Inr resolved, st1)"
    and "sel_target_profile resolved = Some (be_profile be)" "sel_core resolved = Some (be_core be)"
    and "resolve_selector_wait env (given \<union> {''interface'', ''speed_khz''}) resolved st1 = (Inr resolved, st2)"
    and "gated_serial env resolved action (action @ ''_resume'') (bridge_execute env be request op secrets timeout) st2 = (Inr x, st3)"
    and "append env (finish_serial resolved x) action (sel_probe_serial resolved) d
      (Some (dict_update [(''selector'', selector_json resolved)] (audited_request request op (map fst secrets)))) st3 = (Inr (), st4)"
  shows "bridge_request env be given sel request action d op secrets timeout st = (Inr (finish_serial resolved x), st4)"
  using assms by (simp add: bridge_request_def audited_serial_operation_def op_bind_def op_return_def Let_def)

lemma sample_bridge_runs:
  "\<exists>res st'. bridge_exchange bridge_host sample_bridge {} default_selector (UartWrite (b64encode [1, 2]) 2) bridge_open = (Inr res, st')"
proof -
  let ?request = "UartWrite (b64encode [1, 2]) 2" and ?dump = "dump_exchange (UartWrite (b64encode [1, 2]) 2)"
  define time where "time n = bridge_open \<lparr> sv_tick := n \<rparr>" for n
  have empty: "operations (sv_store (time n)) = []" for n by (simp add: time_def bridge_open_def fresh_state_def empty_store_def)
  have tick: "sv_tick (time n) = n" "(time n) \<lparr> sv_tick := m \<rparr> = time m" for n m by (simp_all add: time_def)
  note resolved = bridge_resolved [OF empty, unfolded tick]
  obtain r0 where r0: "bridge_execute bridge_host sample_bridge ?dump None [] 30000 ''/dev/ttyACM0'' (time 4) = (Inr r0, time 5)" "result_ok r0"
      "dict_get (res_parsed r0) ''bridge'' = Some (JObj (response_json \<lparr> br_status = 0, br_data = [1, 2, 3], br_metadata = [],
         br_queue_depth = 0, br_overflow_count = 0, br_timestamp = 0, br_error = [] \<rparr>))"
    using sample_exchange [of "\<lparr> stamp_operation_id = se_uuid bridge_host 4, stamp_started = se_now bridge_host 4, stamp_finished = se_now bridge_host 4 \<rparr>" "''/dev/ttyACM0''"]
    by (auto simp: bridge_execute_def run_backend_def op_bind_def ask_def op_lift_def sample_bridge_def tick)
  have "matching_gdb bridge_target (time 2) = Some ''s''" "dict_get (sv_gdb_identities (time 2)) ''s'' = Some []"
    by (simp_all add: matching_gdb_def bridge_open_def time_def)
  note gated = gated_in_session [where exch = "bridge_execute bridge_host sample_bridge ?dump None [] 30000" and env = bridge_host, OF this _ r0(1)]
  have board: "wait_board (se_polls bridge_host) bridge_host bridge_target (time 2) = (Inr ''/dev/ttyACM0'', time 4)"
    using bridge_board [OF empty, of 2] by (simp add: tick)
  let ?r = "finish_serial bridge_target (with_session ''s'' r0, [], None)"
  obtain st' where append: "append bridge_host ?r (''protocol_bridge_exchange:'' @ exchange_operation ?request) (sel_probe_serial bridge_target) True
      (Some (dict_update [(''selector'', selector_json bridge_target)] (audited_request ?dump None (map fst ([] :: (string, string) dict))))) (time 5) = (Inr (), st')"
    using append_only_first [OF empty] by blast
  have "resolve_selector_wait bridge_host {} default_selector (time 0) = (Inr bridge_target, time 1)"
    "resolve_selector_wait bridge_host ({} \<union> {''interface'', ''speed_khz''}) bridge_target (time 1) = (Inr bridge_target, time 2)"
    using resolved [of default_selector "{}" 0] resolved [of bridge_target "{} \<union> {''interface'', ''speed_khz''}" 1]
    by (simp_all add: numeral_2_eq_2)
  from bridge_request_runs [OF this(1) _ _ this(2) gated [OF board] append]
  have run: "bridge_request bridge_host sample_bridge {} default_selector ?dump
      (''protocol_bridge_exchange:'' @ exchange_operation ?request) True None [] 30000 (time 0) = (Inr ?r, st')"
    by (simp add: sample_bridge_def bridge_target_def sample_target_def)
  have start: "bridge_open = time 0" by (simp add: time_def bridge_open_def fresh_state_def)
  have "result_ok ?r" "dict_get (res_parsed ?r) ''bridge'' = Some (JObj (response_json \<lparr> br_status = 0, br_data = [1, 2, 3],
      br_metadata = [], br_queue_depth = 0, br_overflow_count = 0, br_timestamp = 0, br_error = [] \<rparr>))"
    using r0(2,3) by (simp_all add: finished_record)
  then obtain res where "bridge_result_of sample_codec (exchange_operation ?request) ?r = Inr res"
    by (auto simp add: bridge_result_of_def bridge_response_of_def response_json_def decode_canonical_base64_def wire_constants
        simp del: b64encode.simps)
  moreover have "be_codec sample_bridge = sample_codec" by (simp add: sample_bridge_def)
  ultimately have "bridge_exchange bridge_host sample_bridge {} default_selector ?request bridge_open = (Inr res, st')"
    unfolding bridge_exchange_def bridge_then_def start run by simp
  then show ?thesis by blast
qed

theorem exchange_reports_answer_witness:
  "\<exists>res st'. bridge_exchange bridge_host sample_bridge {} default_selector (UartWrite (b64encode [1, 2]) 2) bridge_open = (Inr res, st')
     \<and> brs_data_base64 res = b64encode [1, 2, 3] \<and> brs_byte_count res = 3"
proof -
  obtain res st' where run: "bridge_exchange bridge_host sample_bridge {} default_selector (UartWrite (b64encode [1, 2]) 2) bridge_open = (Inr res, st')"
    using sample_bridge_runs by blast
  obtain raw where raw: "encode_message (sample_payload [1, 2, 3]) RESPONSE (int 7) = Inr raw" "sample_reply [1, 2, 3] = Inr raw"
    using sample_reply_shape [of 1 2 3] by auto
  have "read_response sample_codec 7 raw = Inr (message_frames (sample_payload [1, 2, 3]) RESPONSE (int 7), RESPONSE, sample_payload [1, 2, 3],
      \<lparr> br_status = 0, br_data = [1, 2, 3], br_metadata = [], br_queue_depth = 0, br_overflow_count = 0, br_timestamp = 0, br_error = [] \<rparr>)"
    by (rule read_response_message [OF raw(1) _ sample_payload_decodes]) simp
  then have whole: "decode_stream raw = Inr (message_frames (sample_payload [1, 2, 3]) RESPONSE 7)"
    "reassemble_frames (message_frames (sample_payload [1, 2, 3]) RESPONSE 7) (Some 7) (Some RESPONSE) = Inr (sample_payload [1, 2, 3])"
    by (auto simp: read_response_Inr)
  have "brs_data_base64 res = b64encode [1, 2, 3] \<and> brs_byte_count res = 3"
    using exchange_reports_answer [OF run]
  proof (elim exE conjE, goal_cases)
    case (1 n port body encoded raw' frames payload response)
    have "raw' = raw" using 1(3) raw(2) by (simp add: sample_bridge_def)
    then have "frames = message_frames (sample_payload [1, 2, 3]) RESPONSE 7" using 1(4) whole(1) by simp
    then have "payload = sample_payload [1, 2, 3]" using 1(5) whole(2) by (simp add: sample_bridge_def)
    then have "br_data response = [1, 2, 3]" using 1(6) sample_payload_decodes [of 1 2 3] by (auto simp: sample_bridge_def)
    then show ?case using 1(8,9) by (simp del: b64encode.simps)
  qed
  with run show ?thesis by blast
qed

end
