(* ===== verification/Operation_Triples.thy ===== *)
theory Operation_Triples
  imports Service_Contract
begin

text \<open>
  Triples for operations: \<open>keeps I P m Q\<close> says that \<open>m\<close>, started where \<open>P\<close> holds, ends where \<open>Q\<close> holds of what it returned, or
  raises where \<open>I\<close> holds. The backends that own processes are shown to keep their invariants with these rules.
\<close>

definition keeps :: "('s \<Rightarrow> bool) \<Rightarrow> ('s \<Rightarrow> bool) \<Rightarrow> ('s, 'a) computation \<Rightarrow> ('a \<Rightarrow> 's \<Rightarrow> bool) \<Rightarrow> bool" where
  "keeps I P m Q =
     (\<forall>st. P st \<longrightarrow> (\<forall>e st'. m st = (Inl e, st') \<longrightarrow> I st') \<and> (\<forall>x st'. m st = (Inr x, st') \<longrightarrow> Q x st'))"

lemma keepsI: "(\<And>st e st'. P st \<Longrightarrow> m st = (Inl e, st') \<Longrightarrow> I st') \<Longrightarrow> (\<And>st x st'. P st \<Longrightarrow> m st = (Inr x, st') \<Longrightarrow> Q x st') \<Longrightarrow> keeps I P m Q"
  by (auto simp: keeps_def)

lemma keeps_raises: "keeps I P m Q \<Longrightarrow> P st \<Longrightarrow> m st = (Inl e, st') \<Longrightarrow> I st'"
  by (auto simp: keeps_def)

lemma keeps_returns: "keeps I P m Q \<Longrightarrow> P st \<Longrightarrow> m st = (Inr x, st') \<Longrightarrow> Q x st'"
  by (auto simp: keeps_def)

lemma keeps_bind:
  assumes m: "keeps I P m Q" and f: "\<And>x. keeps I (Q x) (f x) S"
  shows "keeps I P (op_bind m f) S"
proof (rule keepsI)
  show "I st'" if "P st" "op_bind m f st = (Inl e, st')" for st e st'
    using that by (cases "m st") (auto simp: op_bind_def split: sum.splits
        intro: keeps_raises [OF m] keeps_raises [OF f] dest: keeps_returns [OF m])
  show "S x st'" if "P st" "op_bind m f st = (Inr x, st')" for st x st'
    using that by (cases "m st") (auto simp: op_bind_def split: sum.splits dest!: keeps_returns [OF m] intro: keeps_returns [OF f])
qed

lemma keeps_weaken:
  assumes "keeps I P m Q" "\<And>st. P' st \<Longrightarrow> P st" "\<And>x st. Q x st \<Longrightarrow> Q' x st"
  shows "keeps I P' m Q'"
  by (rule keepsI) (blast intro: assms(2,3) keeps_raises [OF assms(1)] keeps_returns [OF assms(1)])+

lemma keeps_return: "(\<And>st. P st \<Longrightarrow> Q x st) \<Longrightarrow> keeps I P (op_return x) Q"
  by (simp add: keeps_def op_return_def)

lemma keeps_raise: "(\<And>st. P st \<Longrightarrow> I st) \<Longrightarrow> keeps I P (op_raise e) Q"
  by (simp add: keeps_def op_raise_def)

lemma keeps_lift: "(\<And>st. P st \<Longrightarrow> I st) \<Longrightarrow> keeps I P (op_lift r) (\<lambda>x st. r = Inr x \<and> P st)"
  by (auto simp: keeps_def op_lift_def split: sum.split)

lemma keeps_check: "(\<And>st. P st \<Longrightarrow> I st) \<Longrightarrow> keeps I P (op_check c e) (\<lambda>_. P)"
  by (auto simp: keeps_def op_check_def op_raise_def op_return_def)

lemma keeps_get: "keeps I P (op_get f) (\<lambda>x st. x = f st \<and> P st)"
  by (simp add: keeps_def op_get_def)

lemma keeps_put: "(\<And>st. P st \<Longrightarrow> Q () (f st)) \<Longrightarrow> keeps I P (op_put f) Q"
  by (simp add: keeps_def op_put_def)

lemma keeps_state: "keeps I P m (\<lambda>_. I) \<Longrightarrow> P st \<Longrightarrow> I (snd (m st))"
  by (cases "m st"; cases "fst (m st)") (auto simp: keeps_def)

lemma bind_lift: "op_bind (op_lift (Inl e)) m = op_raise e" "op_bind (op_lift (Inr x)) m = m x"
  by (simp_all add: op_bind_def op_lift_def op_raise_def fun_eq_iff)

lemma keeps_lift_bind:
  assumes "\<And>st. P st \<Longrightarrow> I st" "\<And>x. r = Inr x \<Longrightarrow> keeps I P (m x) Q"
  shows "keeps I P (op_bind (op_lift (rcatch r f)) m) Q"
  by (cases r) (simp_all add: rcatch_def bind_lift assms keeps_raise)

lemma dict_get_empty:
  assumes "\<And>k. dict_get d k = None"
  shows "d = []"
proof (cases d)
  case (Cons entry rest)
  have "dict_get d (fst entry) \<noteq> None" unfolding dict_get_None by (simp add: Cons)
  with assms show ?thesis by simp
qed

end
