(* ===== verification/Runner.thy ===== *)
theory Runner
  imports Operation_Triples Service_Gate
begin

text \<open>
  Running a command to its end: \<^verbatim>\<open>runner.py\<close>, and the allowlisted SEGGER applications of \<^verbatim>\<open>backends/application.py\<close> that run
  with it. The process table holds the processes that were started and neither ended nor were seen to have ended, what was
  started, and the signals sent to process groups. What the processes do is a record of functions of a clock: each wait ends
  with the outputs and the return code, at its time limit, or by the cancellation of the task that waits.
\<close>

subsection \<open>Processes\<close>

record spawned =
  sp_argv :: "string list"
  sp_cwd :: "pypath option"
  sp_env :: "(string, string) dict"

record process_table =
  pt_live :: "nat list"
  pt_spawned :: "spawned list"
  pt_signals :: "(nat \<times> nat) list"
  pt_tick :: nat

type_synonym 'a process_operation = "(process_table, 'a) computation"

datatype waited = Ended bytes bytes int | Pending | Abandoned

record run_host =
  rh_environ :: "(string, string) dict"
  rh_spawn :: "nat \<Rightarrow> spawned \<Rightarrow> string option"        \<comment> \<open>why the process could not be started\<close>
  rh_first :: "nat \<Rightarrow> nat \<Rightarrow> waited"                  \<comment> \<open>the wait for the command itself\<close>
  rh_grace :: "nat \<Rightarrow> nat \<Rightarrow> waited"                  \<comment> \<open>the three seconds after SIGTERM\<close>
  rh_awaited :: "nat \<Rightarrow> nat \<Rightarrow> (bytes \<times> bytes \<times> int) option"   \<comment> \<open>a wait without a limit, \<open>None\<close> when it is cancelled\<close>
  rh_decode :: "bytes \<Rightarrow> string"
  rh_now :: "nat \<Rightarrow> nat"
  rh_uuid :: "nat \<Rightarrow> string"
  rh_max_output :: nat

definition SIGTERM :: nat where "SIGTERM = 15"
definition SIGKILL :: nat where "SIGKILL = 9"

definition pt_ask :: "(nat \<Rightarrow> 'a) \<Rightarrow> 'a process_operation" where
  "pt_ask f = (\<lambda>st. (Inr (f (pt_tick st)), st \<lparr> pt_tick := Suc (pt_tick st) \<rparr>))"

definition cancelled :: "('s, 'a) computation" where
  "cancelled = op_raise (BackendFailed ''CancelledError'')"

definition spawn_process :: "run_host \<Rightarrow> spawned \<Rightarrow> nat process_operation" where
  "spawn_process h p =
     op_bind (pt_ask (\<lambda>n. rh_spawn h n p)) (\<lambda>failure.
     op_bind (case failure of None \<Rightarrow> op_return () | Some msg \<Rightarrow> op_raise (BackendFailed msg)) (\<lambda>_.
     op_bind (op_get (\<lambda>st. length (pt_spawned st))) (\<lambda>pid.
     op_bind (op_put (\<lambda>st. st \<lparr> pt_live := pt_live st @ [pid], pt_spawned := pt_spawned st @ [p] \<rparr>)) (\<lambda>_.
     op_return pid))))"

definition ended_process :: "nat \<Rightarrow> unit process_operation" where
  "ended_process pid = op_put (\<lambda>st. st \<lparr> pt_live := removeAll pid (pt_live st) \<rparr>)"

definition signal_group :: "nat \<Rightarrow> nat \<Rightarrow> unit process_operation" where
  "signal_group pid sig = op_put (\<lambda>st. st \<lparr> pt_signals := pt_signals st @ [(pid, sig)] \<rparr>)"

definition wait_process :: "(nat \<Rightarrow> nat \<Rightarrow> waited) \<Rightarrow> nat \<Rightarrow> waited process_operation" where
  "wait_process f pid =
     op_bind (pt_ask (\<lambda>n. f n pid)) (\<lambda>w.
     case w of Ended out err rc \<Rightarrow> op_bind (ended_process pid) (\<lambda>_. op_return w) | Pending \<Rightarrow> op_return w | Abandoned \<Rightarrow> cancelled)"

definition await_end :: "run_host \<Rightarrow> nat \<Rightarrow> (bytes \<times> bytes \<times> int) process_operation" where
  "await_end h pid =
     op_bind (pt_ask (\<lambda>n. rh_awaited h n pid)) (\<lambda>ended.
     case ended of None \<Rightarrow> cancelled | Some x \<Rightarrow> op_bind (ended_process pid) (\<lambda>_. op_return x))"

definition kill_process :: "run_host \<Rightarrow> nat \<Rightarrow> (bytes \<times> bytes \<times> int) process_operation" where
  "kill_process h pid = op_bind (signal_group pid SIGKILL) (\<lambda>_. await_end h pid)"

text \<open>SIGTERM to the group, three seconds, then SIGKILL.\<close>

definition end_process :: "run_host \<Rightarrow> nat \<Rightarrow> (bytes \<times> bytes \<times> int) process_operation" where
  "end_process h pid =
     op_bind (signal_group pid SIGTERM) (\<lambda>_.
     op_bind (wait_process (rh_grace h) pid) (\<lambda>w.
     case w of Ended out err rc \<Rightarrow> op_return (out, err, rc) | Pending \<Rightarrow> kill_process h pid | Abandoned \<Rightarrow> cancelled))"

definition command_env :: "run_host \<Rightarrow> (string, string) dict \<Rightarrow> (string, string) dict" where
  "command_env h env = dict_update (rh_environ h) env"

text \<open>\<^verbatim>\<open>sorted\<close> on a set of names, and \<^verbatim>\<open>str(path)\<close>.\<close>

definition sorted_names :: "string list \<Rightarrow> string list" where
  "sorted_names names = sort_key (\<lambda>s. map of_char s :: nat list) (remdups names)"

definition show_pypath :: "pypath \<Rightarrow> string" where
  "show_pypath p = (if path_absolute p then show_path (path_parts p)
     else if path_parts p = [] then ''.'' else join_with ''/'' (path_parts p))"

text \<open>The first wait ends, is cancelled, or reaches the time limit.\<close>

definition await_process :: "run_host \<Rightarrow> nat \<Rightarrow> (bytes \<times> bytes \<times> int \<times> bool) process_operation" where
  "await_process h pid =
     op_bind (pt_ask (\<lambda>n. rh_first h n pid)) (\<lambda>w.
     case w of
       Ended out err rc \<Rightarrow> op_bind (ended_process pid) (\<lambda>_. op_return (out, err, rc, False))
     | Pending \<Rightarrow> op_bind (end_process h pid) (\<lambda>(out, err, rc). op_return (out, err, rc, True))
     | Abandoned \<Rightarrow> op_bind (end_process h pid) (\<lambda>_. cancelled))"

definition run_process ::
    "run_host \<Rightarrow> string list \<Rightarrow> string \<Rightarrow> pypath option \<Rightarrow> (string, string) dict \<Rightarrow> target_state \<Rightarrow> target_state \<Rightarrow> command_result process_operation" where
  "run_process h command backend cwd env before after =
     op_bind (op_check (command \<noteq> [] \<and> hd command \<noteq> []) (RequestRefused ''command must not be empty'')) (\<lambda>_.
     op_bind (pt_ask (\<lambda>n. (rh_now h n, rh_uuid h n))) (\<lambda>(started, operation_id).
     op_bind (spawn_process h \<lparr> sp_argv = command, sp_cwd = cwd, sp_env = command_env h env \<rparr>) (\<lambda>pid.
     op_bind (await_process h pid) (\<lambda>(out, err, rc, timed_out).
     op_bind (pt_ask (rh_now h)) (\<lambda>finished.
     op_return ((make_result \<lparr> stamp_operation_id = operation_id, stamp_started = started, stamp_finished = finished \<rparr> backend command rc
         (rh_decode h (take (rh_max_output h) out)) (rh_decode h (take (rh_max_output h) err)) [])
         \<lparr> res_duration_ms := max 0 (int finished - int started), res_timed_out := timed_out,
           res_target_state_before := before, res_target_state_after := after \<rparr>))))))"

subsection \<open>The SEGGER applications\<close>

definition SEGGER_TOOLS :: "string list" where
  "SEGGER_TOOLS = [''DDConditionerExe'', ''DevProExe'', ''JFlashExe'', ''JFlashLiteExe'', ''JFlashSPICLExe'', ''JFlashSPIExe'', ''JLinkConfigExe'',
     ''JLinkConnServerExe'', ''JLinkExe'', ''JLinkGDBServerCLExe'', ''JLinkGDBServerExe'', ''JLinkGUIServerExe'', ''JLinkLicenseManagerExe'',
     ''JLinkRTTClientExe'', ''JLinkRTTLoggerExe'', ''JLinkRTTViewerExe'', ''JLinkRegistrationExe'', ''JLinkSWOViewerCLExe'',
     ''JLinkRemoteServerCLExe'', ''JLinkRemoteServerExe'', ''JLinkSWOViewerExe'', ''JLinkUSBWebServerExe'', ''JLinkXVCDServerExe'', ''JMemExe'',
     ''JRunExe'', ''JScopeExe'', ''JTAGLoadExe'']"

definition application_execute :: "run_host \<Rightarrow> settings \<Rightarrow> file_system \<Rightarrow> string \<Rightarrow> string list \<Rightarrow> command_result process_operation" where
  "application_execute h s fs application args =
     op_bind (op_check (application \<in> set SEGGER_TOOLS) (RequestRefused (''unsupported SEGGER application: '' @ application))) (\<lambda>_.
     op_bind (op_lift (rcatch (segger_executable s fs application) PathFailed)) (\<lambda>executable.
     op_bind (op_lift (rcatch (validate_application_args s fs args) UnsafeRequest)) (\<lambda>validated.
     run_process h (show_path executable # validated) (''segger-application:'' @ application) (Some (set_workspace_root s)) [] StateUnknown StateUnknown)))"

subsection \<open>A run settles\<close>

text \<open>The clean-up of a run is not cancelled: neither the three seconds after SIGTERM nor the wait after SIGKILL.\<close>

definition settles :: "run_host \<Rightarrow> bool" where
  "settles h = (\<forall>n pid. rh_grace h n pid \<noteq> Abandoned \<and> rh_awaited h n pid \<noteq> None)"

definition table_ok :: "process_table \<Rightarrow> bool" where
  "table_ok st = (\<forall>pid \<in> set (pt_live st). pid < length (pt_spawned st))"

lemma table_fresh: "table_ok st \<Longrightarrow> removeAll (length (pt_spawned st)) (pt_live st) = pt_live st"
  by (auto simp: table_ok_def intro: removeAll_id)

lemmas process_steps = op_bind_def op_lift_def op_raise_def op_return_def op_get_def op_put_def op_check_def pt_ask_def cancelled_def
  ended_process_def signal_group_def wait_process_def await_end_def kill_process_def end_process_def spawn_process_def

text \<open>Ending a process: one signal, or two, and it is gone.\<close>

definition signals_to :: "nat \<Rightarrow> (nat \<times> nat) list set" where
  "signals_to pid = {[], [(pid, SIGTERM)], [(pid, SIGTERM), (pid, SIGKILL)]}"

definition ended_after :: "nat \<Rightarrow> process_table \<Rightarrow> process_table \<Rightarrow> bool" where
  "ended_after pid st st' =
     (pt_tick st \<le> pt_tick st' \<and> pt_live st' = removeAll pid (pt_live st) \<and> pt_spawned st' = pt_spawned st \<and> pt_signals st' \<in> (@) (pt_signals st) ` signals_to pid)"

lemma end_process_settles:
  assumes "settles h"
  shows "\<exists>x st'. end_process h pid st = (Inr x, st') \<and> ended_after pid st st'"
proof (cases "rh_grace h (pt_tick st) pid")
  case Pending
  moreover obtain out err rc where "rh_awaited h (Suc (pt_tick st)) pid = Some (out, err, rc)"
    using assms unfolding settles_def by (metis not_Some_eq prod_cases3)
  ultimately show ?thesis by (simp add: process_steps ended_after_def signals_to_def)
qed (use assms in \<open>auto simp: process_steps settles_def ended_after_def signals_to_def\<close>)

lemma await_settles:
  assumes "settles h" "await_process h pid st = (r, st')"
  shows "ended_after pid st st'" "r = Inr (out, err, rc, late) \<Longrightarrow> rh_first h (pt_tick st) pid = (if late then Pending else Ended out err rc)"
proof -
  let ?st = "st \<lparr> pt_tick := Suc (pt_tick st) \<rparr>"
  obtain x st2 where e: "end_process h pid ?st = (Inr x, st2)" and after: "ended_after pid ?st st2"
    using end_process_settles [OF assms(1)] by blast
  have "ended_after pid st st'
    \<and> (r = Inr (out, err, rc, late) \<longrightarrow> rh_first h (pt_tick st) pid = (if late then Pending else Ended out err rc))"
    using assms(2) e after
    by (cases "rh_first h (pt_tick st) pid"; cases x)
      (auto simp: await_process_def op_bind_def pt_ask_def op_return_def cancelled_def op_raise_def ended_process_def op_put_def ended_after_def signals_to_def)
  then show "ended_after pid st st'" "r = Inr (out, err, rc, late) \<Longrightarrow> rh_first h (pt_tick st) pid = (if late then Pending else Ended out err rc)"
    by blast+
qed

text \<open>The run after its process was started.\<close>

lemma run_started:
  assumes "command \<noteq> []" "hd command \<noteq> []" "rh_spawn h (Suc (pt_tick st)) \<lparr> sp_argv = command, sp_cwd = cwd, sp_env = command_env h env \<rparr> = None"
  shows "\<exists>st1. pt_live st1 = pt_live st @ [length (pt_spawned st)] \<and> pt_signals st1 = pt_signals st \<and> pt_tick st1 = Suc (Suc (pt_tick st))
    \<and> pt_spawned st1 = pt_spawned st @ [\<lparr> sp_argv = command, sp_cwd = cwd, sp_env = command_env h env \<rparr>]
    \<and> run_process h command backend cwd env before after st =
      op_bind (await_process h (length (pt_spawned st))) (\<lambda>(out, err, rc, timed_out).
        op_bind (pt_ask (rh_now h)) (\<lambda>finished.
        op_return ((make_result \<lparr> stamp_operation_id = rh_uuid h (pt_tick st), stamp_started = rh_now h (pt_tick st), stamp_finished = finished \<rparr>
           backend command rc (rh_decode h (take (rh_max_output h) out)) (rh_decode h (take (rh_max_output h) err)) [])
         \<lparr> res_duration_ms := max 0 (int finished - int (rh_now h (pt_tick st))), res_timed_out := timed_out,
           res_target_state_before := before, res_target_state_after := after \<rparr>))) st1"
  by (intro exI [of _ "st \<lparr> pt_tick := Suc (Suc (pt_tick st)), pt_live := pt_live st @ [length (pt_spawned st)],
        pt_spawned := pt_spawned st @ [\<lparr> sp_argv = command, sp_cwd = cwd, sp_env = command_env h env \<rparr>] \<rparr>"])
    (simp add: run_process_def spawn_process_def op_bind_def op_check_def op_return_def pt_ask_def op_get_def op_put_def assms)

lemma run_not_started:
  assumes "\<not> (command \<noteq> [] \<and> hd command \<noteq> []
    \<and> rh_spawn h (Suc (pt_tick st)) \<lparr> sp_argv = command, sp_cwd = cwd, sp_env = command_env h env \<rparr> = None)"
  shows "\<exists>e n. run_process h command backend cwd env before after st = (Inl e, st \<lparr> pt_tick := n \<rparr>) \<and> pt_tick st \<le> n"
proof (cases "command \<noteq> [] \<and> hd command \<noteq> []")
  case True
  with assms obtain msg where "rh_spawn h (Suc (pt_tick st)) \<lparr> sp_argv = command, sp_cwd = cwd, sp_env = command_env h env \<rparr> = Some msg" by auto
  with True show ?thesis by (auto simp: run_process_def spawn_process_def op_bind_def op_check_def op_return_def op_raise_def pt_ask_def)
next
  case False
  then have "run_process h command backend cwd env before after st = (Inl (RequestRefused ''command must not be empty''), st \<lparr> pt_tick := pt_tick st \<rparr>)
      \<and> pt_tick st \<le> pt_tick st"
    by (auto simp: run_process_def op_bind_def op_check_def op_raise_def)
  then show ?thesis by blast
qed

text \<open>Every run: whatever it returns or raises, it has changed the table only so.\<close>

definition run_effect :: "spawned \<Rightarrow> process_table \<Rightarrow> process_table \<Rightarrow> bool" where
  "run_effect p st st' =
     (pt_tick st \<le> pt_tick st' \<and> pt_live st' = pt_live st \<and> pt_signals st' \<in> (@) (pt_signals st) ` signals_to (length (pt_spawned st))
      \<and> pt_spawned st' \<in> {pt_spawned st, pt_spawned st @ [p]})"

lemma run_process_ends:
  assumes h: "settles h" and ok: "table_ok st" and run: "run_process h command backend cwd env before after st = (r, st')"
  shows "run_effect \<lparr> sp_argv = command, sp_cwd = cwd, sp_env = command_env h env \<rparr> st st'"
    "r = Inr res \<Longrightarrow> \<exists>out err rc late. rh_first h (Suc (Suc (pt_tick st))) (length (pt_spawned st)) = (if late then Pending else Ended out err rc)
       \<and> res_return_code res = Some rc \<and> res_timed_out res = late \<and> res_command res = command
       \<and> res_stdout res = rh_decode h (take (rh_max_output h) out) \<and> res_stderr res = rh_decode h (take (rh_max_output h) err)"
proof -
  let ?p = "\<lparr> sp_argv = command, sp_cwd = cwd, sp_env = command_env h env \<rparr>"
  let ?R = "\<lambda>res. \<exists>out err rc late. rh_first h (Suc (Suc (pt_tick st))) (length (pt_spawned st)) = (if late then Pending else Ended out err rc)
       \<and> res_return_code res = Some rc \<and> res_timed_out res = late \<and> res_command res = command
       \<and> res_stdout res = rh_decode h (take (rh_max_output h) out) \<and> res_stderr res = rh_decode h (take (rh_max_output h) err)"
  have "run_effect ?p st st' \<and> (r = Inr res \<longrightarrow> ?R res)"
  proof (cases "command \<noteq> [] \<and> hd command \<noteq> [] \<and> rh_spawn h (Suc (pt_tick st)) ?p = None")
    case False
    from run_not_started [OF this, of backend before after] run show ?thesis by (auto simp: run_effect_def signals_to_def)
  next
    case True
    then obtain st1 where st1: "pt_live st1 = pt_live st @ [length (pt_spawned st)]" "pt_signals st1 = pt_signals st" "pt_tick st1 = Suc (Suc (pt_tick st))"
        "pt_spawned st1 = pt_spawned st @ [?p]"
      and r1: "(r, st') = op_bind (await_process h (length (pt_spawned st))) (\<lambda>(out, err, rc, timed_out).
        op_bind (pt_ask (rh_now h)) (\<lambda>finished.
        op_return ((make_result \<lparr> stamp_operation_id = rh_uuid h (pt_tick st), stamp_started = rh_now h (pt_tick st), stamp_finished = finished \<rparr>
           backend command rc (rh_decode h (take (rh_max_output h) out)) (rh_decode h (take (rh_max_output h) err)) [])
         \<lparr> res_duration_ms := max 0 (int finished - int (rh_now h (pt_tick st))), res_timed_out := timed_out,
           res_target_state_before := before, res_target_state_after := after \<rparr>))) st1"
      using run_started [of command h st cwd env backend before after] run by (metis (no_types, lifting))
    obtain a st2 where a: "await_process h (length (pt_spawned st)) st1 = (a, st2)" by fastforce
    note ends = await_settles [OF h a]
    have live: "run_effect ?p st (st2 \<lparr> pt_tick := n \<rparr>)" if "pt_tick st2 \<le> n" for n
      using that ends(1) table_fresh [OF ok] by (auto simp: run_effect_def ended_after_def st1)
    show ?thesis
      using r1 live [of "pt_tick st2"] live [of "Suc (pt_tick st2)"] ends(2)
      by (cases a) (auto simp: op_bind_def a pt_ask_def op_return_def make_result_def st1, blast)
  qed
  then show "run_effect ?p st st'" "r = Inr res \<Longrightarrow> ?R res" by blast+
qed


definition sample_runner :: run_host where
  "sample_runner = \<lparr> rh_environ = [], rh_spawn = (\<lambda>n p. None), rh_first = (\<lambda>n pid. Pending), rh_grace = (\<lambda>n pid. Pending),
     rh_awaited = (\<lambda>n pid. Some ([], [], - 9)), rh_decode = (\<lambda>b. []), rh_now = (\<lambda>n. n), rh_uuid = show_nat, rh_max_output = 2 \<rparr>"

definition no_processes :: process_table where
  "no_processes = \<lparr> pt_live = [], pt_spawned = [], pt_signals = [], pt_tick = 0 \<rparr>"


text \<open>C31: Applications are confined. Whatever an application run starts is a SEGGER tool of the list, a file below the installation
  root and executable, in the workspace, with exactly the requested arguments: at most 256, free of shell control characters,
  each operand that looks like a path inside the workspace or the state root.\<close>

theorem application_confined:
  assumes "settles h" "table_ok st" "application_execute h s fs application args st = (r, st')" "p \<in> set (pt_spawned st')" "p \<notin> set (pt_spawned st)"
  shows "application \<in> set SEGGER_TOOLS \<and> sp_cwd p = Some (set_workspace_root s) \<and> sp_env p = rh_environ h
    \<and> (\<exists>path root. sp_argv p = show_path path # args \<and> resolve_root fs (set_segger_root s) = Inr root \<and> below root path
         \<and> fs_is_file fs path \<and> fs_executable fs path)
    \<and> length args \<le> 256 \<and> list_all shell_free args
    \<and> list_all (\<lambda>arg. case argument_operand arg of None \<Rightarrow> True | Some cand \<Rightarrow> confined s fs cand) args"
proof -
  have started: "application \<in> set SEGGER_TOOLS \<and> (\<exists>path validated. segger_executable s fs application = Inr path \<and> validate_application_args s fs args = Inr validated
      \<and> run_process h (show_path path # validated) (''segger-application:'' @ application) (Some (set_workspace_root s)) [] StateUnknown StateUnknown st = (r, st'))"
    using assms(3-5) by (auto simp: application_execute_def op_bind_def op_check_def op_return_def op_raise_def op_lift_def rcatch_def split: if_splits sum.splits)
  then obtain path validated where path: "segger_executable s fs application = Inr path" and v: "validate_application_args s fs args = Inr validated"
    and run: "run_process h (show_path path # validated) (''segger-application:'' @ application) (Some (set_workspace_root s)) [] StateUnknown StateUnknown st = (r, st')"
    by blast
  note args = application_args_confined [OF v]
  have p: "p = \<lparr> sp_argv = show_path path # args, sp_cwd = Some (set_workspace_root s), sp_env = command_env h [] \<rparr>"
    using run_process_ends(1) [OF assms(1,2) run] assms(4,5) args by (auto simp: run_effect_def)
  have "\<exists>root. resolve_root fs (set_segger_root s) = Inr root \<and> below root path \<and> fs_is_file fs path \<and> fs_executable fs path"
    using path by (auto simp: segger_executable_def rbind_eq_Inr split: if_splits)
  with started args show ?thesis by (auto simp: p command_env_def)
qed

lemma sample_application_runs:
  "pt_spawned (snd (application_execute sample_runner sample_settings sample_fs ''JLinkExe'' [''-open=/state/a.jdebug''] no_processes))
     = [\<lparr> sp_argv = [''/opt/segger/JLinkExe'', ''-open=/state/a.jdebug''], sp_cwd = Some (set_workspace_root sample_settings), sp_env = [] \<rparr>]"
proof -
  have p: "parse_path ''/opt/segger'' = \<lparr> path_absolute = True, path_parts = [''opt'', ''segger''] \<rparr>"
    "parse_path ''JLinkExe'' = \<lparr> path_absolute = False, path_parts = [''JLinkExe''] \<rparr>"
    by (simp_all add: parse_path_def str_startswith_def)
  have e: "segger_executable sample_settings sample_fs ''JLinkExe'' = Inr [''opt'', ''segger'', ''JLinkExe'']"
    by (simp add: segger_executable_def sample_settings_def default_settings_def sample_fs_def p join_path_def resolve_root_def below_def within_def)
  have o: "argument_operand ''-open=/state/a.jdebug'' = Some ''/state/a.jdebug''" by code_simp
  have d: "re_search DANGEROUS_SHELL ''-open=/state/a.jdebug'' = None" by code_simp
  have v: "validate_application_args sample_settings sample_fs [''-open=/state/a.jdebug''] = Inr [''-open=/state/a.jdebug'']"
    by (simp add: validate_application_args_def validate_application_arg_def d o sample_confine)
  show ?thesis
    by (simp add: application_execute_def SEGGER_TOOLS_def e v rcatch_def run_process_def await_process_def process_steps sample_runner_def no_processes_def
        show_path_def command_env_def dict_update_def)
qed

theorem application_confined_witness:
  "''JLinkExe'' \<in> set SEGGER_TOOLS \<and> confined sample_settings sample_fs ''/state/a.jdebug''"
proof -
  have s: "settles sample_runner" "table_ok no_processes" by (simp_all add: settles_def sample_runner_def table_ok_def no_processes_def)
  obtain r st' where run: "application_execute sample_runner sample_settings sample_fs ''JLinkExe'' [''-open=/state/a.jdebug''] no_processes = (r, st')"
    by fastforce
  have o: "argument_operand ''-open=/state/a.jdebug'' = Some ''/state/a.jdebug''" by code_simp
  have "\<lparr> sp_argv = [''/opt/segger/JLinkExe'', ''-open=/state/a.jdebug''], sp_cwd = Some (set_workspace_root sample_settings), sp_env = [] \<rparr> \<in> set (pt_spawned st')"
    using sample_application_runs run by simp
  from application_confined [OF s run this] show ?thesis by (simp add: no_processes_def o)
qed

end
