(* ===== verification/Workflows.thy ===== *)
theory Workflows
  imports Service_Gate Service_Requests Runner "HOL-Library.List_Lexorder"
begin

text \<open>
  The target-neutral workflows of \<^verbatim>\<open>workflows.py\<close>: flashing, backup, comparison, RTT capture and restoring. A workflow
  runs on the service's state together with the files it reads and writes; between two operations of the service nothing
  touches the files, while one runs \<open>we_world\<close> may change them in any way. A digest and the ELF symbols of
  a file are functions of its bytes. Durations are in milliseconds.
\<close>

subsection \<open>State\<close>

type_synonym files = "(string list, bytes) dict"

record workflow_state =
  ws_service :: service_state
  ws_files :: files

record workflow_env =
  we_service :: service_env
  we_world :: "nat \<Rightarrow> files \<Rightarrow> files"
  we_write_fails :: "nat \<Rightarrow> string list \<Rightarrow> string option"
  we_sha256 :: "bytes \<Rightarrow> string"
  we_symbols :: "bytes \<Rightarrow> string + (string \<times> int) list"      \<comment> \<open>\<^verbatim>\<open>inspect_elf(path)["test_symbols"]\<close>\<close>
  we_encode :: "string \<Rightarrow> bytes"
  we_decode :: "bytes \<Rightarrow> string"
  we_dump :: "json \<Rightarrow> string"                                 \<comment> \<open>\<^verbatim>\<open>json.dumps(.., indent=2, sort_keys=True)\<close>\<close>
  we_capabilities :: "nat \<Rightarrow> probe_info list \<times> board_info list \<Rightarrow> json_object"
  we_doctor :: "nat \<Rightarrow> json_object"

type_synonym 'a workflow = "(workflow_state, 'a) computation"

text \<open>An awaited operation of the service, and a synchronous one.\<close>

definition call :: "workflow_env \<Rightarrow> 'a operation \<Rightarrow> 'a workflow" where
  "call we m = (\<lambda>ws. case m (ws_service ws) of (r, st) \<Rightarrow> (r, \<lparr> ws_service = st, ws_files = we_world we (sv_tick st) (ws_files ws) \<rparr>))"

definition inside :: "'a operation \<Rightarrow> 'a workflow" where
  "inside m = (\<lambda>ws. case m (ws_service ws) of (r, st) \<Rightarrow> (r, ws \<lparr> ws_service := st \<rparr>))"

text \<open>\<^verbatim>\<open>try: m finally: await c\<close>: an exception of the cleanup replaces the one of the body.\<close>

definition finally_do :: "('s, 'a) computation \<Rightarrow> ('s, unit) computation \<Rightarrow> ('s, 'a) computation" where
  "finally_do m c = (\<lambda>st. case m st of (r, st1) \<Rightarrow> (case c st1 of (Inl e, st2) \<Rightarrow> (Inl e, st2) | (Inr _, st2) \<Rightarrow> (r, st2)))"

definition read_file :: "string list \<Rightarrow> bytes workflow" where
  "read_file path = (\<lambda>ws. (case dict_get (ws_files ws) path of None \<Rightarrow> Inl (BackendFailed ''No such file or directory'') | Some b \<Rightarrow> Inr b, ws))"

definition file_exists :: "string list \<Rightarrow> bool workflow" where
  "file_exists path = op_get (\<lambda>ws. dict_has (ws_files ws) path)"

definition write_file :: "workflow_env \<Rightarrow> string list \<Rightarrow> bytes \<Rightarrow> unit workflow" where
  "write_file we path content =
     op_bind (inside (ask (\<lambda>n. we_write_fails we n path))) (\<lambda>failure.
     case failure of Some msg \<Rightarrow> op_raise (BackendFailed msg)
       | None \<Rightarrow> op_put (\<lambda>ws. ws \<lparr> ws_files := dict_set (ws_files ws) path content \<rparr>))"

definition registerable_artifact :: "workflow_env \<Rightarrow> string list \<Rightarrow> string \<Rightarrow> artifact workflow" where
  "registerable_artifact we path kind =
     op_bind (read_file path) (\<lambda>content.
     op_bind (inside (ask (se_now (we_service we)))) (\<lambda>now.
     op_return \<lparr> art_path = show_path path, art_sha256 = we_sha256 we content, art_size = length content, art_kind = kind,
       art_created_at = now, art_metadata = [] \<rparr>))"

definition register_in_store :: "workflow_env \<Rightarrow> artifact \<Rightarrow> unit workflow" where
  "register_in_store we a =
     inside (op_put (\<lambda>st. st \<lparr> sv_store := register_artifact (se_store (we_service we)) a (sv_store st) \<rparr>))"

definition resolve_path :: "workflow_env \<Rightarrow> string \<Rightarrow> string list workflow" where
  "resolve_path we raw =
     op_lift (rcatch (resolve_allowed_path (se_settings (we_service we)) (se_fs (we_service we)) raw True) PathFailed)"

definition require :: "bool \<Rightarrow> string \<Rightarrow> unit workflow" where
  "require c msg = op_check c (RequestRefused msg)"

definition with_hash :: "string list \<Rightarrow> string \<Rightarrow> command_result \<Rightarrow> command_result" where
  "with_hash path digest r = r \<lparr> res_artifact_hashes := dict_set (res_artifact_hashes r) (show_path path) digest \<rparr>"

text \<open>A new file of the artifacts directory under an absolute state root.\<close>

definition artifact_file :: "workflow_env \<Rightarrow> string \<Rightarrow> string list" where
  "artifact_file we name = path_parts (set_state_root (se_settings (we_service we))) @ [''artifacts'', name]"

definition fresh_uuid :: "workflow_env \<Rightarrow> string workflow" where
  "fresh_uuid we = inside (ask (se_uuid (we_service we)))"

definition quoted :: "string list \<Rightarrow> string" where
  "quoted path = CHR 0x22 # show_path path @ [CHR 0x22]"

definition lower_hex :: "nat \<Rightarrow> int \<Rightarrow> string" where
  "lower_hex width n = map char_lower (show_hex width (nat n))"

text \<open>The selector a workflow passes on after resolving it has its interface and speed set.\<close>

definition resolved_given :: "string set \<Rightarrow> string set" where
  "resolved_given given = given \<union> {''interface'', ''speed_khz''}"

definition register_file :: "workflow_env \<Rightarrow> string list \<Rightarrow> string \<Rightarrow> artifact workflow" where
  "register_file we path kind =
     op_bind (registerable_artifact we path kind) (\<lambda>a.
     op_bind (register_in_store we a) (\<lambda>_. op_return a))"

definition write_text :: "workflow_env \<Rightarrow> string list \<Rightarrow> string \<Rightarrow> unit workflow" where
  "write_text we path content = write_file we path (we_encode we content)"

subsection \<open>Reading JSON\<close>

definition python_error :: "string \<Rightarrow> service_error" where
  "python_error name = BackendFailed name"

text \<open>\<^verbatim>\<open>any(..)\<close> over items whose check may raise: nothing is checked after the first hit.\<close>

fun any_check :: "('a \<Rightarrow> service_error + bool) \<Rightarrow> 'a list \<Rightarrow> service_error + bool" where
  "any_check f [] = Inr False"
| "any_check f (x # xs) = rbind (f x) (\<lambda>hit. if hit then Inr True else any_check f xs)"

definition both_check :: "bool \<Rightarrow> (service_error + bool) \<Rightarrow> service_error + bool" where
  "both_check c r = (if c then r else Inr False)"

text \<open>\<^verbatim>\<open>d.get(key, [])\<close> as a list, and \<^verbatim>\<open>int(x)\<close> of a JSON value.\<close>

definition json_items :: "json option \<Rightarrow> service_error + json list" where
  "json_items j = (case j of None \<Rightarrow> Inr [] | Some (JList xs) \<Rightarrow> Inr xs | Some _ \<Rightarrow> Inl (python_error ''TypeError''))"

definition json_dict :: "json \<Rightarrow> service_error + json_object" where
  "json_dict j = (case j of JObj d \<Rightarrow> Inr d | _ \<Rightarrow> Inl (python_error ''AttributeError''))"

definition json_int :: "json \<Rightarrow> service_error + int" where
  "json_int j =
     (case j of
        JInt n \<Rightarrow> Inr n
      | JBool b \<Rightarrow> Inr (of_bool b)
      | JStr s \<Rightarrow> if s \<noteq> [] \<and> list_all ascii_digit s then Inr (int (decimal_value 0 s)) else Inl (python_error ''ValueError'')
      | JReal s \<Rightarrow> (case parse_decimal s of None \<Rightarrow> Inl (python_error ''ValueError'') | Some q \<Rightarrow> Inr (floor q))
      | _ \<Rightarrow> Inl (python_error ''TypeError''))"

primrec op_map :: "('a \<Rightarrow> ('s, 'b) computation) \<Rightarrow> 'a list \<Rightarrow> ('s, 'b list) computation" where
  "op_map f [] = op_return []"
| "op_map f (x # xs) = op_bind (f x) (\<lambda>y. op_bind (op_map f xs) (\<lambda>ys. op_return (y # ys)))"

subsection \<open>Paths\<close>

definition path_name :: "string list \<Rightarrow> string" where
  "path_name parts = (if parts = [] then [] else last parts)"

definition path_stem :: "string list \<Rightarrow> string" where
  "path_stem parts = take (length (path_name parts) - length (path_suffix parts)) (path_name parts)"

definition is_relative_to :: "string list \<Rightarrow> string list \<Rightarrow> bool" where
  "is_relative_to p base = (take (length base) p = base)"

definition path_key :: "string list \<Rightarrow> nat list list" where
  "path_key p = map (map of_char) p"

subsection \<open>Flashing\<close>

definition flash_and_verify :: "workflow_env \<Rightarrow> string set \<Rightarrow> device_selector \<Rightarrow> string \<Rightarrow> command_result workflow" where
  "flash_and_verify we given sel artifact_path =
     op_bind (resolve_path we artifact_path) (\<lambda>path.
     op_bind (require (path_suffix path \<in> {''.elf'', ''.hex'', ''.bin''}) ''flash artifact must be ELF, HEX, or BIN'') (\<lambda>_.
     op_bind (require (path_suffix path \<noteq> ''.bin'') ''raw BIN flashing requires an explicit destination address; use flash_binary'') (\<lambda>_.
     op_bind (call we (commander_commands (we_service we) given sel [''Reset'', ''LoadFile '' @ quoted path, ''Reset'', ''Go''] ''flash_and_verify'' True)) (\<lambda>r.
     op_bind (registerable_artifact we path (dropWhile (\<lambda>c. c = CHR ''.'') (path_suffix path))) (\<lambda>a.
     op_bind (register_in_store we a) (\<lambda>_.
     op_return (with_hash path (art_sha256 a) r)))))))"

definition flash_binary :: "workflow_env \<Rightarrow> string set \<Rightarrow> device_selector \<Rightarrow> string \<Rightarrow> int \<Rightarrow> command_result workflow" where
  "flash_binary we given sel artifact_path address =
     op_bind (resolve_path we artifact_path) (\<lambda>path.
     op_bind (require (\<not> (path_suffix path \<noteq> ''.bin'' \<or> address < 0)) ''flash_binary requires a BIN file and valid address'') (\<lambda>_.
     op_bind (call we (commander_commands (we_service we) given sel
         [''Reset'', ''LoadBin '' @ quoted path @ '', '' @ hex_address address, ''VerifyBin '' @ quoted path @ '', '' @ hex_address address,
          ''Reset'', ''Go''] ''flash_binary'' True)) (\<lambda>r.
     op_bind (registerable_artifact we path ''bin'') (\<lambda>a.
     op_bind (register_in_store we a) (\<lambda>_.
     op_return (with_hash path (art_sha256 a) r))))))"

subsection \<open>Backup and comparison\<close>

definition MAX_BACKUP :: int where "MAX_BACKUP = 32 * 1024 * 1024"

definition backup_flash :: "workflow_env \<Rightarrow> string set \<Rightarrow> device_selector \<Rightarrow> int \<Rightarrow> int \<Rightarrow> (command_result \<times> artifact option) workflow" where
  "backup_flash we given sel address len =
     op_bind (require (\<not> (address < 0 \<or> len \<le> 0 \<or> len > MAX_BACKUP)) ''invalid backup range'') (\<lambda>_.
     op_bind (fresh_uuid we) (\<lambda>u.
     let destination = artifact_file we (''flash-backup-'' @ lower_hex 8 address @ ''-'' @ lower_hex 0 len @ ''-'' @ u @ ''.bin'') in
     op_bind (call we (commander_commands (we_service we) given sel
         [''SaveBin '' @ quoted destination @ '', '' @ hex_address address @ '', '' @ hex_plain len] ''backup_flash'' False)) (\<lambda>r.
     op_bind (file_exists destination) (\<lambda>exists.
     if result_ok r \<and> exists then
       op_bind (registerable_artifact we destination ''flash-backup'') (\<lambda>a.
       op_bind (register_in_store we a) (\<lambda>_. op_return (with_hash destination (art_sha256 a) r, Some a)))
     else op_return (r, None)))))"

definition verify_binary :: "workflow_env \<Rightarrow> string set \<Rightarrow> device_selector \<Rightarrow> string \<Rightarrow> int \<Rightarrow> command_result workflow" where
  "verify_binary we given sel path address =
     call we (submit (we_service we) given sel (verify_binary_request (we_service we) path address))"

record comparison =
  cmp_match :: bool
  cmp_artifact :: artifact
  cmp_command :: command_result

definition compare_firmware :: "workflow_env \<Rightarrow> string set \<Rightarrow> device_selector \<Rightarrow> string \<Rightarrow> int \<Rightarrow> comparison workflow" where
  "compare_firmware we given sel artifact_path address =
     op_bind (resolve_path we artifact_path) (\<lambda>path.
     op_bind (registerable_artifact we path ''comparison-input'') (\<lambda>a.
     op_bind (verify_binary we given sel (show_path path) address) (\<lambda>r.
     op_bind (register_in_store we a) (\<lambda>_.
     op_return \<lparr> cmp_match = result_ok r, cmp_artifact = a, cmp_command = with_hash path (art_sha256 a) r \<rparr>))))"

definition compare_backup_region ::
    "workflow_env \<Rightarrow> string set \<Rightarrow> device_selector \<Rightarrow> string \<Rightarrow> int \<Rightarrow> int \<Rightarrow> int \<Rightarrow> comparison workflow" where
  "compare_backup_region we given sel backup_path backup_offset address len =
     op_bind (resolve_path we backup_path) (\<lambda>source.
     op_bind (require (path_suffix source = ''.bin'') ''backup region comparison requires a BIN artifact'') (\<lambda>_.
     op_bind (require (\<not> (backup_offset < 0 \<or> address < 0 \<or> len \<le> 0 \<or> len > MAX_BACKUP)) ''invalid backup region'') (\<lambda>_.
     op_bind (read_file source) (\<lambda>content.
     op_bind (require (\<not> backup_offset + len > int (length content)) ''backup region extends beyond the artifact'') (\<lambda>_.
     op_bind (fresh_uuid we) (\<lambda>u.
     let destination = artifact_file we (''backup-region-'' @ lower_hex 0 backup_offset @ ''-'' @ lower_hex 0 len @ ''-'' @ u @ ''.bin'') in
     op_bind (write_file we destination (take (nat len) (drop (nat backup_offset) content))) (\<lambda>_.
     op_bind (registerable_artifact we destination ''backup-region'') (\<lambda>a.
     op_bind (register_in_store we a) (\<lambda>_.
     op_bind (verify_binary we given sel (show_path destination) address) (\<lambda>r.
     op_bind (read_file source) (\<lambda>again.
     op_return \<lparr> cmp_match = result_ok r, cmp_artifact = a,
       cmp_command = with_hash destination (art_sha256 a) (with_hash source (we_sha256 we again) r) \<rparr>)))))))))))"

subsection \<open>Restoring\<close>

record restore_result =
  rst_ok :: bool
  rst_sha256 :: string
  rst_flash :: command_result
  rst_verify :: command_result

definition hex_digest_text :: "string \<Rightarrow> bool" where
  "hex_digest_text s = (length s = 64 \<and> list_all ascii_hex s)"

definition restore_backup :: "workflow_env \<Rightarrow> string set \<Rightarrow> device_selector \<Rightarrow> string \<Rightarrow> int \<Rightarrow> string \<Rightarrow> restore_result workflow" where
  "restore_backup we given sel backup_path address expected =
     op_bind (resolve_path we backup_path) (\<lambda>path.
     op_bind (require (path_suffix path = ''.bin'') ''restore requires a raw BIN backup'') (\<lambda>_.
     op_bind (read_file path) (\<lambda>content.
     let actual = we_sha256 we content in
     op_bind (require (hex_digest_text expected) ''expected_sha256 must be a 64-character hex digest'') (\<lambda>_.
     op_bind (require (map char_lower actual = map char_lower expected) ''backup hash does not match restore authorization'') (\<lambda>_.
     op_bind (flash_binary we given sel (show_path path) address) (\<lambda>flashed.
     op_bind (verify_binary we given sel (show_path path) address) (\<lambda>compared.
     op_return \<lparr> rst_ok = (result_ok flashed \<and> result_ok compared), rst_sha256 = actual, rst_flash = flashed, rst_verify = compared \<rparr>)))))))"

subsection \<open>RTT\<close>

record rtt_result =
  rtt_ok :: bool
  rtt_expected_timeout :: bool
  rtt_backend :: string
  rtt_address :: int
  rtt_channel :: int
  rtt_text :: string
  rtt_command :: command_result
  rtt_configuration :: "command_result option"
  rtt_continuation :: "command_result option"
  rtt_session :: "json_object option"
  rtt_artifact :: "artifact option"

definition rtt_symbol :: "workflow_env \<Rightarrow> string list \<Rightarrow> int workflow" where
  "rtt_symbol we elf =
     op_bind (read_file elf) (\<lambda>content.
     case we_symbols we content of
       Inl msg \<Rightarrow> op_raise (BackendFailed msg)
     | Inr symbols \<Rightarrow> (case dict_get symbols ''_SEGGER_RTT'' of
           None \<Rightarrow> op_raise (RequestRefused ''ELF does not contain a concrete _SEGGER_RTT symbol'')
         | Some address \<Rightarrow> op_return address))"

definition info_session :: "json_object \<Rightarrow> string" where
  "info_session info = json_text (lookup info ''session_id'')"

definition rtt_over_gdb ::
    "workflow_env \<Rightarrow> string set \<Rightarrow> device_selector \<Rightarrow> string list \<Rightarrow> int \<Rightarrow> int
     \<Rightarrow> (command_result \<times> command_result \<times> command_result \<times> json_object) workflow" where
  "rtt_over_gdb we given resolved elf address duration =
     (let env = we_service we in
      op_bind (call we (start_gdb env given resolved (Some (show_path elf)))) (\<lambda>info.
      let sid = info_session info in
      finally_do
        (op_bind (call we (gdb_command env sid (''-interpreter-exec console '' @ [CHR 0x22] @ ''monitor exec SetRTTAddr='' @ hex_address address @ [CHR 0x22]))) (\<lambda>configuration.
         op_bind (op_check (result_ok configuration) (BackendFailed ''J-Link rejected the ELF-derived RTT address'')) (\<lambda>_.
         op_bind (call we (gdb_command env sid ''-exec-continue'')) (\<lambda>continuation.
         op_bind (op_check (result_ok continuation) (BackendFailed ''target could not be continued for RTT capture'')) (\<lambda>_.
         op_bind (call we (capture_gdb_channel env sid ''rtt'' duration None)) (\<lambda>r.
         op_return (r, configuration, continuation, info)))))))
        (call we (stop_gdb env sid True))))"

definition rtt_logger_request :: "workflow_env \<Rightarrow> device_selector \<Rightarrow> string \<Rightarrow> int \<Rightarrow> int \<Rightarrow> string list \<Rightarrow> application_request" where
  "rtt_logger_request we resolved device address channel destination =
     \<lparr> app_name = ''JLinkRTTLoggerExe'',
       app_args = [''-Device'', device, ''-If'', sel_interface resolved, ''-Speed'', show_int (sel_speed_khz resolved),
         ''-USB'', (case sel_probe_serial resolved of None \<Rightarrow> ''None'' | Some p \<Rightarrow> p),
         ''-RTTAddress'', drop 2 (hex_address address), ''-RTTChannel'', show_int channel, show_path destination],
       app_destructive = True, app_resume = True, app_settle_ms = 4000, app_attempts = 2, app_retry_ms = 4000 \<rparr>"

definition rtt_evidence ::
    "workflow_env \<Rightarrow> device_selector \<Rightarrow> string list \<Rightarrow> string list \<Rightarrow> int \<Rightarrow> int \<Rightarrow> int \<Rightarrow> artifact \<Rightarrow> command_result \<Rightarrow> unit operation" where
  "rtt_evidence we resolved elf destination address channel duration a r =
     (let env = we_service we in
      op_bind (fresh_stamp env) (\<lambda>st.
      append env ((make_result st ''rtt-evidence'' [''register-rtt-artifact'', show_path destination] 0 [] []
            [(''rtt_address'', JStr (hex_address address)), (''channel'', JInt channel)])
          \<lparr> res_session_id := res_session_id r, res_artifact_hashes := [(show_path destination, art_sha256 a)],
            res_probe_identity := res_probe_identity r, res_target_identity := res_target_identity r,
            res_evidence_paths := [show_path destination] \<rparr>)
        ''capture_rtt_evidence'' (sel_probe_serial resolved) False
        (Some [(''elf_path'', JStr (show_path elf)), (''duration_seconds'', JInt duration)])))"

text \<open>\<open>record_rtt\<close> is the part after the capture; \<open>device\<close> names the J-Link device of a selector.\<close>

definition record_rtt ::
    "workflow_env \<Rightarrow> device_selector \<Rightarrow> string list \<Rightarrow> string list \<Rightarrow> int \<Rightarrow> int \<Rightarrow> int \<Rightarrow> command_result
     \<Rightarrow> (command_result \<times> artifact option \<times> string) workflow" where
  "record_rtt we resolved elf destination address channel duration r =
     op_bind (file_exists destination) (\<lambda>exists.
     if \<not> exists then op_return (r, None, [])
     else
       op_bind (registerable_artifact we destination ''rtt-log'') (\<lambda>a.
       op_bind (register_in_store we a) (\<lambda>_.
       op_bind (read_file destination) (\<lambda>content.
       let r = with_hash destination (art_sha256 a) r in
       op_bind (inside (rtt_evidence we resolved elf destination address channel duration a r)) (\<lambda>_.
       op_return (r, Some a, we_decode we content))))))"

definition capture_rtt_with ::
    "(device_selector \<Rightarrow> service_error + string) \<Rightarrow> (device_selector \<Rightarrow> string) \<Rightarrow> workflow_env \<Rightarrow> string set \<Rightarrow> device_selector
     \<Rightarrow> string \<Rightarrow> int \<Rightarrow> int \<Rightarrow> rtt_result workflow" where
  "capture_rtt_with device core_name we given sel elf_path duration channel =
     (let env = we_service we in
      op_bind (require (200 \<le> duration \<and> duration \<le> 300000) ''duration_seconds must be between 0.2 and 300'') (\<lambda>_.
      op_bind (require (0 \<le> channel \<and> channel \<le> 15) ''RTT channel must be between 0 and 15'') (\<lambda>_.
      op_bind (call we (resolve_selector_wait env given sel)) (\<lambda>resolved.
      op_bind (resolve_path we elf_path) (\<lambda>elf.
      op_bind (rtt_symbol we elf) (\<lambda>address.
      op_bind (fresh_uuid we) (\<lambda>u.
      let destination = artifact_file we (''rtt-'' @ core_name resolved @ ''-'' @ u @ ''.log'') in
      op_bind
        (if channel = 0 then
           op_bind (rtt_over_gdb we (resolved_given given) resolved elf address duration) (\<lambda>(r, configuration, continuation, info).
           op_bind (if res_stdout r = [] then op_return () else write_file we destination (we_encode we (res_stdout r))) (\<lambda>_.
           op_return (r, Some configuration, Some continuation, Some info)))
         else
           op_bind (op_lift (device resolved)) (\<lambda>name.
           op_bind (call we (run_application env (resolved_given given) resolved (rtt_logger_request we resolved name address channel destination))) (\<lambda>r.
           op_return (r, None, None, None)))) (\<lambda>(r, configuration, continuation, info).
      op_bind (record_rtt we resolved elf destination address channel duration r) (\<lambda>(r, artifact, content).
      op_return \<lparr> rtt_ok = (case artifact of None \<Rightarrow> False | Some a \<Rightarrow> art_size a > 0), rtt_expected_timeout = res_timed_out r,
        rtt_backend = (if channel = 0 then ''gdb-rtt'' else ''rtt-logger''), rtt_address = address, rtt_channel = channel,
        rtt_text = content, rtt_command = r, rtt_configuration = configuration, rtt_continuation = continuation,
        rtt_session = info, rtt_artifact = artifact \<rparr>))))))))) "

definition core_device :: "workflow_env \<Rightarrow> device_selector \<Rightarrow> service_error + string" where
  "core_device we resolved =
     rcatch (jlink_device (se_targets (we_service we)) (sel_target_profile resolved) (sel_core resolved)) (Selection \<circ> ProfileUnknown)"

definition core_or_target :: "device_selector \<Rightarrow> string" where
  "core_or_target resolved = (case sel_core resolved of None \<Rightarrow> ''target'' | Some [] \<Rightarrow> ''target'' | Some c \<Rightarrow> c)"

definition capture_rtt :: "workflow_env \<Rightarrow> string set \<Rightarrow> device_selector \<Rightarrow> string \<Rightarrow> int \<Rightarrow> int \<Rightarrow> rtt_result workflow" where
  "capture_rtt we = capture_rtt_with (core_device we) core_or_target we"

subsection \<open>What workflows keep\<close>

text \<open>Registering an artifact is the one thing a workflow does to the service besides calling it. A workflow that opens
  no session needs \<open>artifact_contract\<close>, RTT capture \<open>workflow_contract\<close>.\<close>

definition workflow_along :: "(service_state \<Rightarrow> service_state \<Rightarrow> bool) \<Rightarrow> workflow_state \<Rightarrow> workflow_state \<Rightarrow> bool" where
  "workflow_along R ws ws' = R (ws_service ws) (ws_service ws')"

locale artifact_contract = operation_contract +
  assumes registers: "R st (st \<lparr> sv_store := register_artifact (se_store env) a (sv_store st) \<rparr>)"

locale workflow_contract = artifact_contract R env + session_contract R env
  for R :: "service_state \<Rightarrow> service_state \<Rightarrow> bool" and env :: service_env

context path_relation
begin

lemma over_finally_do: "over R m \<Longrightarrow> over R c \<Longrightarrow> over R (finally_do m c)"
  by (rule overI) (auto simp: finally_do_def over_def split: prod.split sum.split, (metis chains snd_conv)+)

end

sublocale passing_contract \<subseteq> wf: path_relation "workflow_along R"
  by unfold_locales (auto simp: workflow_along_def stays intro: chains)

context passing_contract
begin

lemma over_call: "over R m \<Longrightarrow> over (workflow_along R) (call we m)"
  by (simp add: over_def call_def workflow_along_def split: prod.split) (metis snd_conv)

lemma over_inside: "over R m \<Longrightarrow> over (workflow_along R) (inside m)"
  by (simp add: over_def inside_def workflow_along_def split: prod.split) (metis snd_conv)

lemma over_read: "over (workflow_along R) (read_file path)"
  by (simp add: read_file_def over_def workflow_along_def stays split: option.split)

lemma over_exists: "over (workflow_along R) (file_exists path)"
  by (simp add: file_exists_def wf.over_basic)

lemma over_uuid: "over (workflow_along R) (fresh_uuid we)"
  by (simp add: fresh_uuid_def over_inside over_ask)

lemma over_files: "over (workflow_along R) (op_put (\<lambda>ws. ws \<lparr> ws_files := f ws \<rparr>))"
  by (simp add: over_def op_put_def workflow_along_def stays)

lemma over_write: "over (workflow_along R) (write_file we path content)"
  unfolding write_file_def
  by (intro wf.over_bind over_inside over_ask) (auto simp: wf.over_basic over_files split: option.split)

lemma over_registerable: "over (workflow_along R) (registerable_artifact we path kind)"
  unfolding registerable_artifact_def by (intro wf.over_bind over_read over_inside over_ask wf.over_basic)

lemma over_paths: "over (workflow_along R) (resolve_path we raw)" "over (workflow_along R) (require c msg)"
  by (simp_all add: resolve_path_def require_def wf.over_basic)

lemmas over_workflow_steps = wf.over_bind wf.over_basic over_read over_exists over_uuid over_write over_registerable over_paths

end

context operation_contract
begin

lemma over_commands:
  assumes "we_service we = env" "action \<noteq> ''connect''"
  shows "over (workflow_along R) (call we (commander_commands (we_service we) given sel commands action d))"
  unfolding assms(1) by (rule over_call, rule over_commander_commands) (simp add: assms(2))

lemma over_verify_binary:
  assumes "we_service we = env"
  shows "over (workflow_along R) (verify_binary we given sel path address)"
proof -
  have "over R (submit env given sel (verify_binary_request env path address))"
    by (cases "verify_binary_request env path address")
      (auto simp: submit_def over_basic verify_binary_request_def rbind_eq_Inr refuse_unless_def split: if_splits
        intro!: over_commander_commands)
  then show ?thesis by (simp add: verify_binary_def over_call assms)
qed

end

context artifact_contract
begin

lemma over_register:
  assumes "we_service we = env"
  shows "over (workflow_along R) (register_in_store we a)"
  unfolding register_in_store_def assms by (intro over_inside over_put registers)

lemma over_flash:
  assumes e: "we_service we = env"
  shows "over (workflow_along R) (flash_binary we given sel path address)" "over (workflow_along R) (flash_and_verify we given sel path)"
  unfolding flash_binary_def flash_and_verify_def
  by (intro over_workflow_steps over_commands [OF e] over_register [OF e]; simp)+

lemma over_backup:
  assumes e: "we_service we = env"
  shows "over (workflow_along R) (backup_flash we given sel address len)"
  unfolding backup_flash_def Let_def
  by (intro over_workflow_steps over_commands [OF e]; (simp; fail)?) (simp add: over_workflow_steps over_register [OF e])

lemma over_compare:
  assumes e: "we_service we = env"
  shows "over (workflow_along R) (compare_firmware we given sel path address)"
    "over (workflow_along R) (compare_backup_region we given sel path off address len)"
  unfolding compare_firmware_def compare_backup_region_def Let_def
  by (intro over_workflow_steps over_verify_binary [OF e] over_register [OF e])+

lemma over_restore:
  assumes e: "we_service we = env"
  shows "over (workflow_along R) (restore_backup we given sel path address expected)"
  unfolding restore_backup_def Let_def by (intro over_workflow_steps over_verify_binary [OF e] over_flash [OF e])

end

context workflow_contract
begin

lemma over_rtt_parts:
  assumes e: "we_service we = env"
  shows "over (workflow_along R) (rtt_symbol we elf)"
    "over (workflow_along R) (rtt_over_gdb we given resolved elf address duration)"
    "over (workflow_along R) (record_rtt we resolved elf destination address channel duration r)"
proof -
  show "over (workflow_along R) (rtt_symbol we elf)"
    unfolding rtt_symbol_def by (intro over_workflow_steps) (auto simp: wf.over_basic split: sum.split option.split)
  show "over (workflow_along R) (rtt_over_gdb we given resolved elf address duration)"
    unfolding rtt_over_gdb_def Let_def e
    by (intro over_workflow_steps wf.over_finally_do over_call over_start_gdb over_gdb_command over_capture over_stop_gdb)
  show "over (workflow_along R) (record_rtt we resolved elf destination address channel duration r)"
    unfolding record_rtt_def rtt_evidence_def Let_def e
    by (intro over_workflow_steps) (simp add: over_workflow_steps over_register [OF e] over_inside over_bind over_stamp over_append)
qed

lemma over_capture_rtt:
  assumes e: "we_service we = env"
  shows "over (workflow_along R) (capture_rtt_with device core_name we given sel elf duration channel)"
proof -
  have "over (workflow_along R) (call we (resolve_selector_wait (we_service we) given sel))"
    by (simp add: e over_call over_resolve_wait)
  then show ?thesis
    unfolding capture_rtt_with_def Let_def
    by (intro over_workflow_steps over_rtt_parts [OF e])
      (auto intro!: over_workflow_steps over_rtt_parts [OF e] over_call over_application simp: e split: prod.split)
qed

end

interpretation audit_wf: workflow_contract "audit_grows env" env for env
proof
  fix st :: service_state and a
  have "store_inv (se_store env) (sv_store st) \<Longrightarrow> store_inv (se_store env) (register_artifact (se_store env) a (sv_store st))"
    by (rule store_inv_step [OF step_artifact])
  then show "audit_grows env st (st \<lparr> sv_store := register_artifact (se_store env) a (sv_store st) \<rparr>)"
    by (simp add: audit_grows_def register_artifact_def)
qed

interpretation gate_wf: workflow_contract "commands_gated env" env for env
  by unfold_locales (simp add: commands_gated_def)

interpretation kept_wf: artifact_contract "lease_kept env" env for env
  by unfold_locales (rule lease_kept_other; simp)

end
