(* ===== verification/Fixture_Elf.thy ===== *)
theory Fixture_Elf
  imports Crc Frames "HOL-Library.Word"
begin

text \<open>
  Finalizing and verifying a test firmware: \<^verbatim>\<open>artifacts.py\<close> of the GIGA extension. A build leaves an ELF file whose
  manifest structure has empty size, checksum and layout fields; \<open>finalize_fixture_elf\<close> patches them in the file and
  \<open>verify_fixture_elf\<close> checks them again. The ELF parser is a parameter \<open>elf\<close> that gives the headers of a file's bytes; a
  segment's data are its \<^verbatim>\<open>p_filesz\<close> bytes at \<^verbatim>\<open>p_offset\<close>. Reading and writing the file is left to the caller.
\<close>

subsection \<open>What the parser shows\<close>

record elf_segment =
  seg_load :: bool
  seg_paddr :: int
  seg_filesz :: nat
  seg_offset :: nat

record elf_symbol =
  sym_name :: string
  sym_section :: "nat option"
  sym_value :: int
  sym_size :: int

record elf_section =
  sec_addr :: int
  sec_size :: int
  sec_flags :: nat
  sec_offset :: int

record elf_view =
  ev_symbols :: "elf_symbol list option"
  ev_sections :: "elf_section list"
  ev_segments :: "elf_segment list"

datatype fixture_error =
    NotElf
  | NoSymbolTable
  | NoManifestSymbol
  | NoSuchSection
  | ManifestTooOld
  | NoFlashSegments
  | OutsideBuffer

type_synonym elf_parser = "bytes \<Rightarrow> elf_view option"

definition MANIFEST_SIZE :: int where "MANIFEST_SIZE = 136"
definition MANIFEST_CRC :: int where "MANIFEST_CRC = 140"
definition MANIFEST_FLASH_START :: int where "MANIFEST_FLASH_START = 144"
definition MANIFEST_FLASH_SIZE :: int where "MANIFEST_FLASH_SIZE = 148"
definition MANIFEST_RAM_START :: int where "MANIFEST_RAM_START = 152"
definition MANIFEST_RAM_SIZE :: int where "MANIFEST_RAM_SIZE = 156"

subsection \<open>Words in a buffer\<close>

text \<open>The offsets of \<^verbatim>\<open>struct.pack_into\<close>: a negative one counts from the end.\<close>

definition buffer_offset :: "nat \<Rightarrow> int \<Rightarrow> nat option" where
  "buffer_offset len off =
     (let o1 = (if off < 0 then off + int len else off) in
      if off < 0 \<and> 0 < off + 4 then None
      else if o1 < 0 \<or> int len < o1 + 4 then None
      else Some (nat o1))"

definition put_word :: "bytes \<Rightarrow> int \<Rightarrow> int \<Rightarrow> fixture_error + bytes" where
  "put_word blob off v =
     (case buffer_offset (length blob) off of
        None \<Rightarrow> Inl OutsideBuffer
      | Some k \<Rightarrow> if 0 \<le> v \<and> v < 2 ^ 32 then Inr (take k blob @ le_bytes 4 (nat v) @ drop (k + 4) blob) else Inl OutsideBuffer)"

definition get_word :: "bytes \<Rightarrow> int \<Rightarrow> fixture_error + int" where
  "get_word blob off =
     (case buffer_offset (length blob) off of
        None \<Rightarrow> Inl OutsideBuffer
      | Some k \<Rightarrow> Inr (int (le_nat (pyslice blob k (k + 4)))))"

fun put_words :: "bytes \<Rightarrow> int \<Rightarrow> (int \<times> int) list \<Rightarrow> fixture_error + bytes" where
  "put_words blob base [] = Inr blob"
| "put_words blob base ((off, v) # rest) = rbind (put_word blob (base + off) v) (\<lambda>blob. put_words blob base rest)"

subsection \<open>The manifest and the flash image\<close>

definition manifest_location :: "elf_parser \<Rightarrow> bytes \<Rightarrow> fixture_error + int \<times> int \<times> int" where
  "manifest_location elf blob =
     (case elf blob of
        None \<Rightarrow> Inl NotElf
      | Some view \<Rightarrow>
          (case ev_symbols view of
             None \<Rightarrow> Inl NoSymbolTable
           | Some symbols \<Rightarrow>
               (case find (\<lambda>s. sym_name s = ''jlink_mcp_manifest'') symbols of
                  None \<Rightarrow> Inl NoManifestSymbol
                | Some symbol \<Rightarrow>
                    (case sym_section symbol of
                       None \<Rightarrow> Inl NoManifestSymbol
                     | Some n \<Rightarrow>
                         if length (ev_sections view) \<le> n then Inl NoSuchSection
                         else (let section = ev_sections view ! n in
                           Inr (sec_offset section + sym_value symbol - sec_addr section, sym_value symbol, sym_size symbol))))))"

definition segment_data :: "bytes \<Rightarrow> elf_segment \<Rightarrow> bytes" where
  "segment_data blob seg = pyslice blob (seg_offset seg) (seg_offset seg + seg_filesz seg)"

definition flash_segment :: "elf_segment \<Rightarrow> bool" where
  "flash_segment seg \<longleftrightarrow> seg_load seg \<and> seg_filesz seg \<noteq> 0 \<and> 0x08000000 \<le> seg_paddr seg \<and> seg_paddr seg < 0x10000000"

definition flash_segments :: "bytes \<Rightarrow> elf_view \<Rightarrow> (int \<times> bytes) list" where
  "flash_segments blob view = map (\<lambda>seg. (seg_paddr seg, segment_data blob seg)) (filter flash_segment (ev_segments view))"

definition list_min :: "int list \<Rightarrow> int" where "list_min xs = foldl min (hd xs) (tl xs)"
definition list_max :: "int list \<Rightarrow> int" where "list_max xs = foldl max (hd xs) (tl xs)"

definition overlay :: "int \<Rightarrow> bytes \<Rightarrow> int \<times> bytes \<Rightarrow> bytes" where
  "overlay start img p = (case p of (address, data) \<Rightarrow>
     take (nat (address - start)) img @ data @ drop (nat (address - start) + length data) img)"

definition flash_start :: "(int \<times> bytes) list \<Rightarrow> int" where
  "flash_start segments = list_min (map fst segments)"

definition flash_image :: "(int \<times> bytes) list \<Rightarrow> bytes" where
  "flash_image segments =
     (let start = flash_start segments; stop = list_max (map (\<lambda>(address, data). address + int (length data)) segments) in
      foldl (overlay start) (replicate (nat (stop - start)) 0xFF) segments)"

text \<open>The RAM bank of the test buffer, or all RAM when there is none.\<close>

definition ram_sections :: "elf_view \<Rightarrow> elf_section list" where
  "ram_sections view =
     (let rams = filter (\<lambda>s. sec_size s \<noteq> 0 \<and> bit (sec_flags s) 1 \<and> bit (sec_flags s) 0
            \<and> 0x10000000 \<le> sec_addr s \<and> sec_addr s < 0x70000000) (ev_sections view) in
      case (case ev_symbols view of None \<Rightarrow> None | Some symbols \<Rightarrow> find (\<lambda>s. sym_name s = ''jlink_mcp_test_buffer'') symbols) of
        None \<Rightarrow> rams
      | Some b \<Rightarrow> filter (\<lambda>s. sec_addr s div 2 ^ 24 = sym_value b div 2 ^ 24) rams)"

definition ram_range :: "elf_view \<Rightarrow> int \<times> int" where
  "ram_range view =
     (case ram_sections view of
        [] \<Rightarrow> (0, 0)
      | rams \<Rightarrow> (list_min (map sec_addr rams), list_max (map (\<lambda>s. sec_addr s + sec_size s) rams)))"

definition layout_from_blob :: "elf_parser \<Rightarrow> bytes \<Rightarrow> fixture_error + int \<times> bytes \<times> int \<times> int" where
  "layout_from_blob elf blob =
     (case elf blob of
        None \<Rightarrow> Inl NotElf
      | Some view \<Rightarrow>
          (let segments = flash_segments blob view in
           if segments = [] then Inl NoFlashSegments
           else (case ram_range view of (ram_start, ram_stop) \<Rightarrow>
             Inr (flash_start segments, flash_image segments, ram_start, ram_stop - ram_start))))"

subsection \<open>Finalizing and verifying\<close>

record fixture_manifest =
  fm_address :: int
  fm_image_size :: nat
  fm_crc :: "32 word"
  fm_flash_start :: int
  fm_ram_start :: int
  fm_ram_size :: int

definition finalize_fixture_elf :: "elf_parser \<Rightarrow> bytes \<Rightarrow> fixture_error + bytes \<times> fixture_manifest" where
  "finalize_fixture_elf elf blob =
     rbind (manifest_location elf blob) (\<lambda>(offset, address, symbol_size).
     if symbol_size < MANIFEST_RAM_SIZE + 4 then Inl ManifestTooOld
     else rbind (layout_from_blob elf blob) (\<lambda>(start, img, ram_start, ram_size).
       rbind (put_words blob offset [(MANIFEST_SIZE, int (length img)), (MANIFEST_CRC, 0), (MANIFEST_FLASH_START, start),
           (MANIFEST_FLASH_SIZE, int (length img)), (MANIFEST_RAM_START, ram_start), (MANIFEST_RAM_SIZE, ram_size)]) (\<lambda>laid.
       rbind (layout_from_blob elf laid) (\<lambda>(start2, img2, ram_start2, ram_size2).
       rbind (put_word laid (offset + MANIFEST_CRC) (int (unat (crc32 img2)))) (\<lambda>final.
       Inr (final, \<lparr> fm_address = address, fm_image_size = length img, fm_crc = crc32 img2, fm_flash_start = start,
         fm_ram_start = ram_start, fm_ram_size = ram_size \<rparr>))))))"

record fixture_verdict =
  fv_ok :: bool
  fv_address :: int
  fv_flash_start :: int
  fv_expected_size :: int
  fv_actual_size :: nat
  fv_expected_crc :: int
  fv_actual_crc :: "32 word"

definition verify_fixture_elf :: "elf_parser \<Rightarrow> bytes \<Rightarrow> fixture_error + fixture_verdict" where
  "verify_fixture_elf elf blob =
     rbind (manifest_location elf blob) (\<lambda>(offset, address, symbol_size).
     rbind (get_word blob (offset + MANIFEST_SIZE)) (\<lambda>expected_size.
     rbind (get_word blob (offset + MANIFEST_CRC)) (\<lambda>expected_crc.
     rbind (put_word blob (offset + MANIFEST_CRC) 0) (\<lambda>zeroed.
     rbind (layout_from_blob elf zeroed) (\<lambda>(start, img, ram_start, ram_size).
     Inr \<lparr> fv_ok = (expected_size = int (length img) \<and> expected_crc = int (unat (crc32 img))), fv_address = address,
       fv_flash_start = start, fv_expected_size = expected_size, fv_actual_size = length img, fv_expected_crc = expected_crc,
       fv_actual_crc = crc32 img \<rparr>)))))"

subsection \<open>Patching\<close>

lemma buffer_offset_bounds: "buffer_offset len off = Some k \<Longrightarrow> k + 4 \<le> len"
  by (auto simp: buffer_offset_def Let_def split: if_splits)

lemma put_word_Inr:
  "put_word blob off v = Inr blob' \<longleftrightarrow>
     (\<exists>k. buffer_offset (length blob) off = Some k \<and> 0 \<le> v \<and> v < 2 ^ 32 \<and> blob' = take k blob @ le_bytes 4 (nat v) @ drop (k + 4) blob)"
  by (auto simp: put_word_def split: option.splits)

lemma put_word_length: "put_word blob off v = Inr blob' \<Longrightarrow> length blob' = length blob"
  using buffer_offset_bounds [of "length blob" off] by (auto simp: put_word_Inr)

lemma get_put_word: "put_word blob off v = Inr blob' \<Longrightarrow> get_word blob' off = Inr v"
  using buffer_offset_bounds [of "length blob" off] put_word_length [of blob off v blob']
  by (auto simp: put_word_Inr get_word_def pyslice_def le_nat_le_bytes)

lemma put_put_word: "put_word blob off v = Inr blob' \<Longrightarrow> put_word blob' off w = put_word blob off w"
  using buffer_offset_bounds [of "length blob" off] put_word_length [of blob off v blob']
  by (auto simp: put_word_Inr) (simp add: put_word_def)

text \<open>Words at offsets of the same structure do not overlap.\<close>

lemma buffer_offset_pos: "0 \<le> off \<Longrightarrow> buffer_offset len off = (if off + 4 \<le> int len then Some (nat off) else None)"
  by (auto simp: buffer_offset_def)

lemma get_other_word:
  assumes "put_word blob b v = Inr blob'" "0 \<le> a" "a + 4 \<le> b \<or> b + 4 \<le> a \<and> 0 \<le> b"
  shows "get_word blob' a = get_word blob a"
proof -
  have len: "length blob' = length blob" using put_word_length [OF assms(1)] .
  obtain k where k: "k = nat b" "k + 4 \<le> length blob" "blob' = take k blob @ le_bytes 4 (nat v) @ drop (k + 4) blob"
    using assms by (auto simp: put_word_Inr buffer_offset_pos split: if_splits)
  show ?thesis
  proof (cases "a + 4 \<le> int (length blob)")
    case True
    then have "nat a + 4 \<le> k \<or> k + 4 \<le> nat a" using assms(2,3) k(1) by auto
    then have "pyslice blob' (nat a) (nat a + 4) = pyslice blob (nat a) (nat a + 4)"
      using True k by (auto simp: pyslice_def list_eq_iff_nth_eq nth_append)
    then show ?thesis using True assms(2) len by (simp add: get_word_def buffer_offset_pos)
  next
    case False
    then show ?thesis using assms(2) len by (simp add: get_word_def buffer_offset_pos)
  qed
qed

text \<open>The headers do not change when only the fields of the manifest do.\<close>

definition same_outside :: "nat \<Rightarrow> nat \<Rightarrow> bytes \<Rightarrow> bytes \<Rightarrow> bool" where
  "same_outside i j a b \<longleftrightarrow> length a = length b \<and> (\<forall>k < length a. k < i \<or> j \<le> k \<longrightarrow> a ! k = b ! k)"

definition headers_apart :: "elf_parser \<Rightarrow> nat set \<Rightarrow> bytes \<Rightarrow> bool" where
  "headers_apart elf S blob \<longleftrightarrow>
     (\<forall>blob'. length blob' = length blob \<and> (\<forall>k < length blob. k \<notin> S \<longrightarrow> blob' ! k = blob ! k) \<longrightarrow> elf blob' = elf blob)"

lemma headers_outside: "headers_apart elf {i..<j} blob \<Longrightarrow> same_outside i j blob blob' \<Longrightarrow> elf blob' = elf blob"
  unfolding headers_apart_def same_outside_def by (metis atLeastLessThan_iff not_less)

lemma put_word_outside:
  assumes "put_word blob off v = Inr blob'" "0 \<le> off" "int i \<le> off" "off + 4 \<le> int j" "same_outside i j b blob"
  shows "same_outside i j b blob'"
proof -
  have "k < i \<or> j \<le> k \<Longrightarrow> k < length blob \<Longrightarrow> blob' ! k = blob ! k" for k
    using assms(1-4) by (auto simp: put_word_Inr buffer_offset_pos nth_append min_def split: if_splits)
  then show ?thesis using assms(5) put_word_length [OF assms(1)] by (auto simp: same_outside_def)
qed

lemma put_words_outside:
  assumes "put_words blob base ws = Inr blob'" "0 \<le> base" "\<forall>(off, v) \<in> set ws. 0 \<le> off \<and> int i \<le> base + off \<and> base + off + 4 \<le> int j"
    "same_outside i j b blob"
  shows "same_outside i j b blob'"
  using assms
proof (induction ws arbitrary: blob)
  case (Cons w ws)
  obtain off v where w: "w = (off, v)" by (cases w)
  obtain mid where mid: "put_word blob (base + off) v = Inr mid" "put_words mid base ws = Inr blob'"
    using Cons.prems(1) by (auto simp: w rbind_eq_Inr)
  have "same_outside i j b mid" using Cons.prems(2-4) by (intro put_word_outside [OF mid(1)]) (auto simp: w)
  then show ?case using Cons.IH [OF mid(2)] Cons.prems(2,3) by simp
qed simp

lemma put_words_other:
  assumes "put_words blob base ws = Inr blob'" "0 \<le> base + a" "\<forall>(off, v) \<in> set ws. a + 4 \<le> off"
  shows "get_word blob' (base + a) = get_word blob (base + a)"
  using assms
proof (induction ws arbitrary: blob)
  case (Cons w ws)
  obtain off v where w: "w = (off, v)" by (cases w)
  obtain mid where mid: "put_word blob (base + off) v = Inr mid" "put_words mid base ws = Inr blob'"
    using Cons.prems(1) by (auto simp: w rbind_eq_Inr)
  have "get_word mid (base + a) = get_word blob (base + a)"
    using get_other_word [OF mid(1) Cons.prems(2)] Cons.prems(3) by (auto simp: w)
  then show ?case using Cons.IH [OF mid(2)] Cons.prems(2,3) by simp
qed simp

lemma put_words_get:
  assumes "put_words blob base ws = Inr blob'" "0 \<le> base" "sorted_wrt (\<lambda>p q. fst p + 4 \<le> fst q) ws" "(a, x) \<in> set ws" "0 \<le> a"
  shows "get_word blob' (base + a) = Inr x"
  using assms
proof (induction ws arbitrary: blob)
  case (Cons w ws)
  obtain off v where w: "w = (off, v)" by (cases w)
  obtain mid where mid: "put_word blob (base + off) v = Inr mid" "put_words mid base ws = Inr blob'"
    using Cons.prems(1) by (auto simp: w rbind_eq_Inr)
  show ?case
  proof (cases "(a, x) = w")
    case True
    then have "get_word mid (base + a) = Inr x" using get_put_word [OF mid(1)] w by simp
    moreover have "\<forall>(off, v) \<in> set ws. a + 4 \<le> off" using Cons.prems(3) True by auto
    ultimately show ?thesis using put_words_other [OF mid(2)] Cons.prems(2,5) by simp
  next
    case False
    then show ?thesis using Cons.IH [OF mid(2)] Cons.prems by auto
  qed
qed simp

lemma put_same_word: "get_word blob off = Inr v \<Longrightarrow> put_word blob off v = Inr blob"
proof -
  assume g: "get_word blob off = Inr v"
  then obtain k where k: "buffer_offset (length blob) off = Some k" "v = int (le_nat (pyslice blob k (k + 4)))"
    by (auto simp: get_word_def split: option.splits)
  have len: "length (pyslice blob k (k + 4)) = 4" using buffer_offset_bounds [OF k(1)] by (simp add: pyslice_def)
  have "take k blob @ pyslice blob k (k + 4) @ drop (k + 4) blob = blob" by (simp add: pyslice_drop)
  moreover have "nat v < 2 ^ 32" using le_nat_bound4 [OF len] k(2) by simp
  ultimately show ?thesis using k le_bytes_of_field [OF len] by (simp add: put_word_def zless_nat_eq_int_zless)
qed

subsection \<open>The image\<close>

lemma flash_image_length:
  assumes "map (\<lambda>p. (fst p, length (snd p))) xs = map (\<lambda>p. (fst p, length (snd p))) ys"
  shows "flash_start xs = flash_start ys" "length (flash_image xs) = length (flash_image ys)"
proof -
  have ends: "map (\<lambda>(address, data). address + int (length data)) zs = map (\<lambda>(a, n). a + int n) (map (\<lambda>p. (fst p, length (snd p))) zs)"
    for zs :: "(int \<times> bytes) list" by auto
  have "map fst xs = map fst ys" using arg_cong [OF assms, of "map fst"] by (simp add: comp_def)
  then show start: "flash_start xs = flash_start ys" by (simp add: flash_start_def)
  have fold: "length (foldl (overlay s) a us) = length (foldl (overlay s) b vs)"
    if "map (\<lambda>p. (fst p, length (snd p))) us = map (\<lambda>p. (fst p, length (snd p))) vs" "length a = length b" for s a b us vs
    using that
  proof (induction us arbitrary: vs a b)
    case (Cons u us)
    then obtain v vs' where v: "vs = v # vs'" "fst u = fst v" "length (snd u) = length (snd v)"
        "map (\<lambda>p. (fst p, length (snd p))) us = map (\<lambda>p. (fst p, length (snd p))) vs'" by (cases vs) auto
    have "length (overlay s a u) = length (overlay s b v)"
      using v(2,3) Cons.prems(2) by (simp add: overlay_def case_prod_unfold)
    then show ?case using Cons.IH [OF v(4)] v(1) by simp
  qed simp
  show "length (flash_image xs) = length (flash_image ys)"
    unfolding flash_image_def Let_def ends start assms by (rule fold [OF assms refl])
qed

lemma layout_Inr:
  "layout_from_blob elf blob = Inr (start, img, ram_start, ram_size) \<longleftrightarrow>
     (\<exists>view. elf blob = Some view \<and> flash_segments blob view \<noteq> [] \<and> start = flash_start (flash_segments blob view)
        \<and> img = flash_image (flash_segments blob view) \<and> ram_start = fst (ram_range view)
        \<and> ram_size = snd (ram_range view) - fst (ram_range view))"
  by (auto simp: layout_from_blob_def Let_def split: option.splits prod.splits if_splits)

lemma layout_same_headers:
  assumes "layout_from_blob elf blob = Inr (start, img, ram_start, ram_size)" "elf blob' = elf blob" "length blob' = length blob"
  shows "\<exists>img'. layout_from_blob elf blob' = Inr (start, img', ram_start, ram_size) \<and> length img' = length img"
proof -
  obtain view where v: "elf blob = Some view" "flash_segments blob view \<noteq> []" "start = flash_start (flash_segments blob view)"
      "img = flash_image (flash_segments blob view)" "ram_start = fst (ram_range view)" "ram_size = snd (ram_range view) - fst (ram_range view)"
    using assms(1) by (auto simp: layout_Inr)
  have "map (\<lambda>p. (fst p, length (snd p))) (flash_segments blob' view) = map (\<lambda>p. (fst p, length (snd p))) (flash_segments blob view)"
    by (simp add: flash_segments_def segment_data_def pyslice_def assms(3) comp_def)
  note same = flash_image_length [OF this]
  have "flash_segments blob' view \<noteq> []" using v(2) by (simp add: flash_segments_def)
  then show ?thesis using v same assms(2) by (auto simp: layout_Inr)
qed

lemma finalize_Inr:
  assumes "finalize_fixture_elf elf blob = Inr (final, m)"
  obtains offset sz start img ram_start ram_size laid start2 img2 ram_start2 ram_size2 where
    "manifest_location elf blob = Inr (offset, fm_address m, sz)" "layout_from_blob elf blob = Inr (start, img, ram_start, ram_size)"
    "put_words blob offset [(MANIFEST_SIZE, int (length img)), (MANIFEST_CRC, 0), (MANIFEST_FLASH_START, start),
       (MANIFEST_FLASH_SIZE, int (length img)), (MANIFEST_RAM_START, ram_start), (MANIFEST_RAM_SIZE, ram_size)] = Inr laid"
    "layout_from_blob elf laid = Inr (start2, img2, ram_start2, ram_size2)"
    "put_word laid (offset + MANIFEST_CRC) (int (unat (crc32 img2))) = Inr final"
    "fm_image_size m = length img" "fm_crc m = crc32 img2" "fm_flash_start m = start" "fm_ram_start m = ram_start" "fm_ram_size m = ram_size"
  using assms unfolding finalize_fixture_elf_def
  by (auto simp: rbind_eq_Inr split: prod.splits if_splits simp del: put_words.simps)

lemmas manifest_offsets = MANIFEST_SIZE_def MANIFEST_CRC_def MANIFEST_FLASH_START_def MANIFEST_FLASH_SIZE_def MANIFEST_RAM_START_def MANIFEST_RAM_SIZE_def

lemma finalize_verify:
  assumes "finalize_fixture_elf elf blob = Inr (final, m)" and "manifest_location elf blob = Inr (offset, address, sz)" and "0 \<le> offset"
    and "headers_apart elf {nat offset + 136 ..< nat offset + 160} blob"
  shows "\<exists>v. verify_fixture_elf elf final = Inr v \<and> fv_ok v \<and> fv_actual_size v = fm_image_size m \<and> fv_actual_crc v = fm_crc m
      \<and> fv_flash_start v = fm_flash_start m \<and> fv_address v = fm_address m
    \<and> get_word final (offset + MANIFEST_FLASH_START) = Inr (fm_flash_start m)
    \<and> get_word final (offset + MANIFEST_FLASH_SIZE) = Inr (int (fm_image_size m))
    \<and> get_word final (offset + MANIFEST_RAM_START) = Inr (fm_ram_start m) \<and> get_word final (offset + MANIFEST_RAM_SIZE) = Inr (fm_ram_size m)
    \<and> same_outside (nat offset + 136) (nat offset + 160) blob final"
proof -
  from finalize_Inr [OF assms(1)] obtain offset' sz' start img ram_start ram_size laid start2 img2 ram_start2 ram_size2 where
    location: "manifest_location elf blob = Inr (offset', fm_address m, sz')"
    and layout: "layout_from_blob elf blob = Inr (start, img, ram_start, ram_size)"
    and laid': "put_words blob offset' [(MANIFEST_SIZE, int (length img)), (MANIFEST_CRC, 0), (MANIFEST_FLASH_START, start),
       (MANIFEST_FLASH_SIZE, int (length img)), (MANIFEST_RAM_START, ram_start), (MANIFEST_RAM_SIZE, ram_size)] = Inr laid"
    and layout2: "layout_from_blob elf laid = Inr (start2, img2, ram_start2, ram_size2)"
    and final': "put_word laid (offset' + MANIFEST_CRC) (int (unat (crc32 img2))) = Inr final"
    and m: "fm_image_size m = length img" "fm_crc m = crc32 img2" "fm_flash_start m = start" "fm_ram_start m = ram_start" "fm_ram_size m = ram_size" .
  have address: "fm_address m = address" and offset: "offset' = offset" using location assms(2) by simp_all
  note laid = laid' [unfolded offset] and final = final' [unfolded offset]
  have refl: "same_outside (nat offset + 136) (nat offset + 160) blob blob" by (simp add: same_outside_def)
  have o1: "same_outside (nat offset + 136) (nat offset + 160) blob laid"
    using assms(3) by (intro put_words_outside [OF laid assms(3) _ refl]) (auto simp: manifest_offsets)
  have o2: "same_outside (nat offset + 136) (nat offset + 160) blob final"
    using assms(3) by (intro put_word_outside [OF final _ _ _ o1]) (auto simp: manifest_offsets)
  have elf: "elf laid = elf blob" "elf final = elf blob" and len: "length laid = length blob" "length final = length blob"
    using headers_outside [OF assms(4) o1] headers_outside [OF assms(4) o2] o1 o2 by (simp_all add: same_outside_def)
  have loc: "manifest_location elf final = Inr (offset, address, sz)" using assms(2) by (simp add: manifest_location_def elf)
  obtain img' where "layout_from_blob elf laid = Inr (start, img', ram_start, ram_size)" "length img' = length img"
    using layout_same_headers [OF layout elf(1) len(1)] by blast
  then have img2: "start2 = start" "length img2 = length img" using layout2 by auto
  have sorted: "sorted_wrt (\<lambda>p q. fst p + 4 \<le> fst q) [(MANIFEST_SIZE, int (length img)), (MANIFEST_CRC, 0), (MANIFEST_FLASH_START, start),
       (MANIFEST_FLASH_SIZE, int (length img)), (MANIFEST_RAM_START, ram_start), (MANIFEST_RAM_SIZE, ram_size)]"
    by (simp add: manifest_offsets)
  note field = put_words_get [OF laid assms(3) sorted]
  have zeroed: "put_word final (offset + MANIFEST_CRC) 0 = Inr laid"
  proof -
    have "get_word laid (offset + MANIFEST_CRC) = Inr 0" by (rule field) (simp_all add: manifest_offsets)
    then show ?thesis using put_put_word [OF final] put_same_word by simp
  qed
  have keep: "get_word final (offset + a) = get_word laid (offset + a)" if "0 \<le> a" "a + 4 \<le> MANIFEST_CRC \<or> MANIFEST_CRC + 4 \<le> a" for a
    using that assms(3) by (intro get_other_word [OF final]) (auto simp: manifest_offsets)
  have read: "get_word final (offset + MANIFEST_SIZE) = Inr (int (length img))"
    "get_word final (offset + MANIFEST_FLASH_START) = Inr start" "get_word final (offset + MANIFEST_FLASH_SIZE) = Inr (int (length img))"
    "get_word final (offset + MANIFEST_RAM_START) = Inr ram_start" "get_word final (offset + MANIFEST_RAM_SIZE) = Inr ram_size"
    by (subst keep; (simp add: manifest_offsets; fail)?; rule field; simp add: manifest_offsets)+
  have "get_word final (offset + MANIFEST_CRC) = Inr (int (unat (crc32 img2)))" using get_put_word [OF final] .
  then have "verify_fixture_elf elf final = Inr \<lparr> fv_ok = True, fv_address = address, fv_flash_start = start, fv_expected_size = int (length img),
      fv_actual_size = length img, fv_expected_crc = int (unat (crc32 img2)), fv_actual_crc = crc32 img2 \<rparr>"
    using layout2 img2 by (simp add: verify_fixture_elf_def loc read(1) zeroed)
  then show ?thesis using read o2 address m by simp
qed

text \<open>C14: A finalized firmware verifies. When the fields of the manifest are no part of the file's headers, the verifier accepts
  the patched file with the size and checksum that were reported; the fields read back as the layout of the image; and only
  the six words of the manifest differ from the built file. The checksum is over the image with its own field zero, so
  that writing it does not change what it protects.\<close>

theorem finalized_verifies:
  assumes "finalize_fixture_elf elf blob = Inr (final, m)" and "manifest_location elf blob = Inr (offset, address, sz)" and "0 \<le> offset"
    and "headers_apart elf {nat offset + 136 ..< nat offset + 160} blob"
  shows "\<exists>v. verify_fixture_elf elf final = Inr v \<and> fv_ok v \<and> fv_actual_size v = fm_image_size m \<and> fv_actual_crc v = fm_crc m
      \<and> fv_flash_start v = fm_flash_start m \<and> fv_address v = fm_address m
    \<and> get_word final (offset + MANIFEST_FLASH_START) = Inr (fm_flash_start m)
    \<and> get_word final (offset + MANIFEST_FLASH_SIZE) = Inr (int (fm_image_size m))
    \<and> get_word final (offset + MANIFEST_RAM_START) = Inr (fm_ram_start m) \<and> get_word final (offset + MANIFEST_RAM_SIZE) = Inr (fm_ram_size m)
    \<and> same_outside (nat offset + 136) (nat offset + 160) blob final"
  using assms by (rule finalize_verify)

subsection \<open>Damage\<close>

lemma flash_image_single: "flash_image [(address, data)] = data"
  by (simp add: flash_image_def flash_start_def list_min_def list_max_def overlay_def)





subsection \<open>A sample firmware\<close>

text \<open>160 bytes of flash that are all manifest.\<close>

definition sample_view :: elf_view where
  "sample_view = \<lparr> ev_symbols = Some [\<lparr> sym_name = ''jlink_mcp_manifest'', sym_section = Some 0, sym_value = 0x08000000, sym_size = 160 \<rparr>],
     ev_sections = [\<lparr> sec_addr = 0x08000000, sec_size = 160, sec_flags = 2, sec_offset = 0 \<rparr>],
     ev_segments = [\<lparr> seg_load = True, seg_paddr = 0x08000000, seg_filesz = 160, seg_offset = 0 \<rparr>] \<rparr>"

definition sample_elf :: elf_parser where
  "sample_elf blob = (if length blob = 160 then Some sample_view else None)"

lemma sample_location: "length blob = 160 \<Longrightarrow> manifest_location sample_elf blob = Inr (0, 0x08000000, 160)"
  by (simp add: manifest_location_def sample_elf_def sample_view_def)

lemma sample_layout: "length blob = 160 \<Longrightarrow> layout_from_blob sample_elf blob = Inr (0x08000000, blob, 0, 0)"
  by (auto simp: layout_Inr sample_elf_def sample_view_def flash_segments_def flash_segment_def segment_data_def pyslice_def
      flash_image_single flash_start_def list_min_def ram_range_def ram_sections_def Let_def)

lemma put_word_ok:
  assumes "0 \<le> off" "off + 4 \<le> int (length blob)" "0 \<le> v" "v < 2 ^ 32"
  shows "\<exists>blob'. put_word blob off v = Inr blob' \<and> length blob' = length blob"
  using assms by (auto simp: put_word_def buffer_offset_pos)

lemma put_words_ok:
  assumes "0 \<le> base" "\<forall>(off, v) \<in> set ws. 0 \<le> off \<and> base + off + 4 \<le> int (length blob) \<and> 0 \<le> v \<and> v < 2 ^ 32"
  shows "\<exists>blob'. put_words blob base ws = Inr blob' \<and> length blob' = length blob"
  using assms
proof (induction ws arbitrary: blob)
  case (Cons w ws)
  obtain off v where w: "w = (off, v)" by (cases w)
  then obtain mid where "put_word blob (base + off) v = Inr mid" "length mid = length blob"
    using put_word_ok [of "base + off" blob v] Cons.prems by auto
  then show ?case using Cons.IH [of mid] Cons.prems by (simp add: w)
qed simp

lemma sample_finalized: "\<exists>final m. finalize_fixture_elf sample_elf (replicate 160 0) = Inr (final, m) \<and> length final = 160"
proof -
  let ?ws = "[(MANIFEST_SIZE, 160), (MANIFEST_CRC, 0), (MANIFEST_FLASH_START, 0x08000000), (MANIFEST_FLASH_SIZE, 160), (MANIFEST_RAM_START, 0), (MANIFEST_RAM_SIZE, 0)]"
  obtain laid where laid: "put_words (replicate 160 0) 0 ?ws = Inr laid" "length laid = 160"
    using put_words_ok [of 0 ?ws "replicate 160 0"] by (auto simp: manifest_offsets)
  have "int (unat (crc32 laid)) < 2 ^ 32" using crc32_bound [of laid] unfolding of_nat_less_iff [symmetric, where 'a = int] by simp
  then obtain final where "put_word laid MANIFEST_CRC (int (unat (crc32 laid))) = Inr final" "length final = 160"
    using put_word_ok [of MANIFEST_CRC laid "int (unat (crc32 laid))"] laid(2) by (auto simp: manifest_offsets)
  then show ?thesis
    using laid by (simp add: finalize_fixture_elf_def sample_location sample_layout MANIFEST_RAM_SIZE_def del: put_words.simps)
qed

lemma sample_apart: "length blob = 160 \<Longrightarrow> headers_apart sample_elf S blob"
  by (simp add: headers_apart_def sample_elf_def)

theorem finalized_verifies_witness:
  "\<exists>final m v. finalize_fixture_elf sample_elf (replicate 160 0) = Inr (final, m) \<and> verify_fixture_elf sample_elf final = Inr v \<and> fv_ok v"
proof -
  obtain final m where f: "finalize_fixture_elf sample_elf (replicate 160 0) = Inr (final, m)" using sample_finalized by blast
  from finalized_verifies [OF f sample_location _ sample_apart] show ?thesis using f by auto
qed


end
