(* ===== verification/Giga_Workflows.thy ===== *)
theory Giga_Workflows
  imports Workflows Fixture_Elf
begin

text \<open>
  The hardware workflows of the Arduino GIGA extension (\<^verbatim>\<open>workflows.py\<close> of \<open>jlink_mcp_arduino_giga\<close>): the preflight of
  both cores, releasing the second core, observing a booted fixture, the symbolic debug session and the controlled crash. What
  they find in the answers of the probe and of GDB is read with the same lookups as the code. Results keep the
  operations' results as records instead of their JSON dumps.
\<close>

subsection \<open>The extension\<close>

record giga_env =
  ge_work :: workflow_env
  ge_doctor :: "nat \<Rightarrow> dependency_check list"
  ge_run :: "nat \<Rightarrow> string list \<Rightarrow> string \<Rightarrow> string + command_result"     \<comment> \<open>the process runner: command and backend\<close>
  ge_arduino_cli :: string
  ge_fqbn :: string
  ge_flash_split :: string
  ge_package_root :: "string list"
  ge_copy_fails :: "nat \<Rightarrow> string list \<Rightarrow> string option"
  ge_elf :: elf_parser
  ge_inspect :: "bytes \<Rightarrow> string + json"
  ge_timestamp :: "nat \<Rightarrow> string"
  ge_sha1 :: "bytes \<Rightarrow> string"
  ge_load :: "string \<Rightarrow> json option"

abbreviation ge_service :: "giga_env \<Rightarrow> service_env" where
  "ge_service ge \<equiv> we_service (ge_work ge)"

definition M7 :: string where "M7 = ''m7''"
definition M4 :: string where "M4 = ''m4''"

definition GIGA_R1 :: target_profile where
  "GIGA_R1 = \<lparr> profile_id = ''arduino_giga_r1'', profile_display_name = ''Arduino GIGA R1'',
     profile_cores =
       [(M7, \<lparr> core_id = M7, core_jlink_device = ''STM32H747XI_M7'', core_expected_core = ''Cortex-M7'', core_expected_cpuid = 0x411FC271,
          core_svd_name = Some ''STM32H747_CM7.svd'', core_metadata = [(''arduino_board_options'', JList [JStr ''target_core=cm7''])] \<rparr>),
        (M4, \<lparr> core_id = M4, core_jlink_device = ''STM32H747XI_M4'', core_expected_core = ''Cortex-M4'', core_expected_cpuid = 0x410FC241,
          core_svd_name = Some ''STM32H747_CM4.svd'', core_metadata = [(''arduino_board_options'', JList [JStr ''target_core=cm4''])] \<rparr>)],
     profile_default_core = M7, profile_expected_dpidr = 0x6BA02477, profile_minimum_voltage = Finite 1,
     profile_default_interface = ''SWD'', profile_default_speed = 4000,
     profile_metadata = [(''fqbn'', JStr ''arduino:mbed_giga:giga''), (''usb_vid'', JStr ''2341''),
       (''usb_pids'', JList [JStr ''0266'', JStr ''0366'', JStr ''0466'']), (''mcu'', JStr ''STM32H747XI'')] \<rparr>"

definition giga_get_profile :: "string \<Rightarrow> service_error + target_profile" where
  "giga_get_profile name =
     (if name = profile_id GIGA_R1 then Inr GIGA_R1 else Inl (RequestRefused (''unknown Arduino GIGA target profile: '' @ name)))"

definition at_core :: "string \<Rightarrow> device_selector \<Rightarrow> device_selector" where
  "at_core core sel = sel \<lparr> sel_core := Some core \<rparr>"

subsection \<open>The overridden core workflows\<close>

text \<open>The extension repeats these methods of the core word for word.\<close>

definition giga_flash_and_verify :: "giga_env \<Rightarrow> string set \<Rightarrow> device_selector \<Rightarrow> string \<Rightarrow> command_result workflow" where
  "giga_flash_and_verify ge = flash_and_verify (ge_work ge)"

definition giga_flash_binary :: "giga_env \<Rightarrow> string set \<Rightarrow> device_selector \<Rightarrow> string \<Rightarrow> int \<Rightarrow> command_result workflow" where
  "giga_flash_binary ge = flash_binary (ge_work ge)"

definition giga_backup_flash :: "giga_env \<Rightarrow> string set \<Rightarrow> device_selector \<Rightarrow> int \<Rightarrow> int \<Rightarrow> (command_result \<times> artifact option) workflow" where
  "giga_backup_flash ge = backup_flash (ge_work ge)"

definition giga_compare_firmware :: "giga_env \<Rightarrow> string set \<Rightarrow> device_selector \<Rightarrow> string \<Rightarrow> int \<Rightarrow> comparison workflow" where
  "giga_compare_firmware ge = compare_firmware (ge_work ge)"

definition giga_compare_backup_region ::
    "giga_env \<Rightarrow> string set \<Rightarrow> device_selector \<Rightarrow> string \<Rightarrow> int \<Rightarrow> int \<Rightarrow> int \<Rightarrow> comparison workflow" where
  "giga_compare_backup_region ge = compare_backup_region (ge_work ge)"

definition giga_restore_backup :: "giga_env \<Rightarrow> string set \<Rightarrow> device_selector \<Rightarrow> string \<Rightarrow> int \<Rightarrow> string \<Rightarrow> restore_result workflow" where
  "giga_restore_backup ge = restore_backup (ge_work ge)"

text \<open>The capture takes the J-Link device from the extension's own profile, and a file name for a selector without a core.\<close>

definition giga_device :: "device_selector \<Rightarrow> service_error + string" where
  "giga_device resolved =
     rbind (giga_get_profile (case sel_target_profile resolved of None \<Rightarrow> ''None'' | Some p \<Rightarrow> p)) (\<lambda>profile.
     case dict_get (profile_cores profile) (case sel_core resolved of None \<Rightarrow> ''None'' | Some c \<Rightarrow> c) of
       None \<Rightarrow> Inl (BackendFailed ''KeyError'')
     | Some core \<Rightarrow> Inr (core_jlink_device core))"

definition giga_core_name :: "device_selector \<Rightarrow> string" where
  "giga_core_name resolved = (case sel_core resolved of None \<Rightarrow> ''None'' | Some c \<Rightarrow> c)"

definition giga_capture_rtt :: "giga_env \<Rightarrow> string set \<Rightarrow> device_selector \<Rightarrow> string \<Rightarrow> int \<Rightarrow> int \<Rightarrow> rtt_result workflow" where
  "giga_capture_rtt ge = capture_rtt_with giga_device giga_core_name (ge_work ge)"

subsection \<open>Asking the probe\<close>

definition on_probe :: "giga_env \<Rightarrow> string set \<Rightarrow> device_selector \<Rightarrow> service_error + commander_request \<Rightarrow> command_result workflow" where
  "on_probe ge given sel request = call (ge_work ge) (submit (ge_service ge) given sel request)"

definition first_value :: "command_result \<Rightarrow> int option" where
  "first_value r =
     (case dict_get (res_parsed r) ''memory'' of
        Some (JList (JObj entry # _)) \<Rightarrow>
          (case dict_get entry ''values'' of Some (JList (JStr v # _)) \<Rightarrow> parse_int0 v | _ \<Rightarrow> None)
      | _ \<Rightarrow> None)"

definition RCC_GCR :: int where "RCC_GCR = 0x580244A0"

text \<open>Bit 3 of \<^verbatim>\<open>RCC_GCR\<close> boots the second core.\<close>

definition BOOT_C2 :: nat where "BOOT_C2 = 3"

record dual_core_preparation =
  dcp_ok :: bool
  dcp_selector :: device_selector
  dcp_before :: int
  dcp_after :: int
  dcp_changed :: bool
  dcp_m7 :: command_result
  dcp_snapshot :: command_result
  dcp_release :: "command_result option"
  dcp_m4 :: command_result

definition prepare_giga_dual_core_debug :: "giga_env \<Rightarrow> string set \<Rightarrow> device_selector \<Rightarrow> dual_core_preparation workflow" where
  "prepare_giga_dual_core_debug ge given sel =
     op_bind (call (ge_work ge) (resolve_selector_wait (ge_service ge) given sel)) (\<lambda>resolved.
     let g = resolved_given given; m7 = at_core M7 resolved; m4 = at_core M4 resolved in
     op_bind (on_probe ge g m7 (Inr connect_request)) (\<lambda>m7_identity.
     op_bind (on_probe ge g m7 (read_memory_request RCC_GCR 1 32)) (\<lambda>snapshot.
     case first_value snapshot of
       None \<Rightarrow> op_raise (BackendFailed ''could not read STM32H747 RCC_GCR'')
     | Some before \<Rightarrow>
         op_bind (if bit before BOOT_C2 then op_return None
             else op_bind (on_probe ge g m7 (write_memory_request RCC_GCR [set_bit BOOT_C2 before] 32)) (\<lambda>release.
               op_bind (op_check (result_ok release) (BackendFailed ''could not set STM32H747 RCC_GCR.BOOT_C2'')) (\<lambda>_.
               op_return (Some release)))) (\<lambda>release.
         op_bind (on_probe ge g m4 (Inr connect_request)) (\<lambda>m4_identity.
         op_return \<lparr> dcp_ok = (result_ok m7_identity \<and> result_ok snapshot
             \<and> (case release of None \<Rightarrow> True | Some r \<Rightarrow> result_ok r) \<and> result_ok m4_identity),
           dcp_selector = resolved, dcp_before = before, dcp_after = set_bit BOOT_C2 before, dcp_changed = (release \<noteq> None),
           dcp_m7 = m7_identity, dcp_snapshot = snapshot, dcp_release = release, dcp_m4 = m4_identity \<rparr>)))))"

definition SNAPSHOT_COMMANDS :: "string list" where
  "SNAPSHOT_COMMANDS = [''Mem32 0x5C001000 1'', ''Mem32 0x5200201C 1'', ''Mem32 0x52002020 1'', ''Mem32 0x5200211C 1'',
     ''Mem32 0x52002120 1'', ''Mem32 0x52002038 1'', ''Mem32 0x5200203C 1'', ''Mem32 0x52002138 1'', ''Mem32 0x5200213C 1'',
     ''Mem32 0x52002040 1'', ''Mem32 0x52002044 1'']"

record giga_preflight =
  pf_ok :: bool
  pf_selector :: device_selector
  pf_doctor :: "dependency_check list"
  pf_preparation :: "dual_core_preparation option"
  pf_m7 :: command_result
  pf_m4 :: command_result
  pf_registers :: command_result

definition hardware_preflight :: "giga_env \<Rightarrow> string set \<Rightarrow> device_selector \<Rightarrow> bool \<Rightarrow> giga_preflight workflow" where
  "hardware_preflight ge given sel prepare =
     op_bind (call (ge_work ge) (resolve_selector_wait (ge_service ge) given sel)) (\<lambda>resolved.
     let g = resolved_given given; m7 = at_core M7 resolved; m4 = at_core M4 resolved in
     op_bind
       (if prepare then
          op_bind (prepare_giga_dual_core_debug ge g resolved) (\<lambda>p. op_return (Some p, dcp_m7 p, dcp_m4 p, dcp_ok p))
        else
          op_bind (on_probe ge g m7 (Inr connect_request)) (\<lambda>a.
          op_bind (on_probe ge g m4 (Inr connect_request)) (\<lambda>b.
          op_return (None, a, b, result_ok a \<and> result_ok b)))) (\<lambda>(preparation, m7_identity, m4_identity, identities_ok).
     op_bind (inside (ask (ge_doctor ge))) (\<lambda>doctor.
     op_bind (on_probe ge g m7 (Inr (raw_request SNAPSHOT_COMMANDS False))) (\<lambda>registers.
     op_return \<lparr> pf_ok = (dependency_report_ok doctor \<and> identities_ok \<and> result_ok registers), pf_selector = resolved,
       pf_doctor = doctor, pf_preparation = preparation, pf_m7 = m7_identity, pf_m4 = m4_identity, pf_registers = registers \<rparr>))))"

subsection \<open>Observing a booted fixture\<close>

definition heartbeat_progressed :: "command_result \<Rightarrow> command_result \<Rightarrow> bool" where
  "heartbeat_progressed first second =
     (result_ok first \<and> result_ok second
      \<and> (case (first_value first, first_value second) of (Some a, Some b) \<Rightarrow> b > a | _ \<Rightarrow> False))"

definition elf_symbol :: "giga_env \<Rightarrow> string \<Rightarrow> string \<Rightarrow> int workflow" where
  "elf_symbol ge elf_path name =
     op_bind (resolve_path (ge_work ge) elf_path) (\<lambda>path.
     op_bind (read_file path) (\<lambda>content.
     case we_symbols (ge_work ge) content of
       Inl msg \<Rightarrow> op_raise (BackendFailed msg)
     | Inr symbols \<Rightarrow> (case dict_get symbols name of None \<Rightarrow> op_raise (python_error ''KeyError'') | Some a \<Rightarrow> op_return a)))"

definition OBSERVED_REQUESTS :: "string list" where
  "OBSERVED_REQUESTS = [''PING'', ''MANIFEST'', ''INFO'', ''SELFTEST'', ''RPC'']"

record boot_observation =
  bo_ok :: bool
  bo_selector :: device_selector
  bo_reset :: command_result
  bo_serial :: "(string \<times> command_result) list"
  bo_memory :: "(string \<times> command_result \<times> command_result) list"
  bo_progress :: "(string \<times> bool) list"

definition record_check :: "command_result \<Rightarrow> (json_object \<Rightarrow> service_error + bool) \<Rightarrow> service_error + bool" where
  "record_check r f = rbind (json_items (dict_get (res_parsed r) ''records'')) (any_check (\<lambda>j. rbind (json_dict j) f))"

definition boot_verdict ::
    "command_result \<Rightarrow> command_result list \<Rightarrow> (string \<times> bool) list \<Rightarrow> service_error + bool" where
  "boot_verdict reset_system answers progress =
     both_check (result_ok reset_system \<and> list_all result_ok answers \<and> list_all snd progress)
       (rbind (record_check (answers ! 0) (\<lambda>d. Inr (lookup d ''event'' = JStr ''pong''))) (\<lambda>ping.
        both_check ping (rbind (record_check (answers ! 3) (\<lambda>d. Inr (lookup d ''ok'' = JBool True))) (\<lambda>selftest.
        both_check selftest (record_check (answers ! 4) (\<lambda>d.
          rmap (\<lambda>n. n > 0) (json_int (case dict_get d ''m4_heartbeat'' of None \<Rightarrow> JInt 0 | Some v \<Rightarrow> v))))))))"

definition boot_and_observe ::
    "giga_env \<Rightarrow> string set \<Rightarrow> device_selector \<Rightarrow> string option \<Rightarrow> string option \<Rightarrow> boot_observation workflow" where
  "boot_and_observe ge given sel m7_elf m4_elf =
     op_bind (call (ge_work ge) (resolve_selector_wait (ge_service ge) given sel)) (\<lambda>resolved.
     let g = resolved_given given; m7 = at_core M7 resolved; m4 = at_core M4 resolved in
     op_bind (on_probe ge g m7 (reset_request False (Some 2))) (\<lambda>reset_system.
     op_bind (op_map (\<lambda>request. call (ge_work ge) (serial_exchange (ge_service ge) g m7 (Some request) 115200 3000 None)) OBSERVED_REQUESTS) (\<lambda>answers.
     op_bind (op_map (\<lambda>(core, elf, core_selector).
         op_bind (elf_symbol ge elf ''jlink_mcp_heartbeat'') (\<lambda>heartbeat.
         op_bind (on_probe ge g core_selector (read_memory_request heartbeat 1 32)) (\<lambda>first.
         op_bind (on_probe ge g core_selector (read_memory_request heartbeat 1 32)) (\<lambda>second.
         op_return (core, first, second)))))
       (List.map_filter (\<lambda>(core, elf, core_selector). case elf of None \<Rightarrow> None | Some e \<Rightarrow> if e = [] then None else Some (core, e, core_selector))
         [(M7, m7_elf, m7), (M4, m4_elf, m4)])) (\<lambda>memory.
     let progress = map (\<lambda>(core, first, second). (core, heartbeat_progressed first second)) memory in
     op_bind (op_lift (boot_verdict reset_system answers progress)) (\<lambda>ok.
     op_return \<lparr> bo_ok = ok, bo_selector = resolved, bo_reset = reset_system, bo_serial = zip OBSERVED_REQUESTS answers,
       bo_memory = memory, bo_progress = progress \<rparr>)))))"

end
