(* ===== verification/Giga_Debug.thy ===== *)
theory Giga_Debug
  imports Giga_Workflows
begin

text \<open>
  The symbolic debug session and the controlled crash of the GIGA fixture. Both hold a GDB session open and end it in a
  \<^verbatim>\<open>finally\<close> block; the verdicts read the machine interface records GDB answered with.
\<close>

subsection \<open>Records of GDB\<close>

definition mi_items :: "command_result \<Rightarrow> service_error + json_object list" where
  "mi_items r = rbind (json_items (dict_get (res_parsed r) ''mi'')) (traverse json_dict)"

definition with_message :: "string \<Rightarrow> json_object list \<Rightarrow> json_object list" where
  "with_message name items = filter (\<lambda>d. lookup d ''message'' = JStr name) items"

text \<open>\<^verbatim>\<open>(item.get("payload") or {})\<close>\<close>

definition payload :: "json_object \<Rightarrow> service_error + json_object" where
  "payload item = (if json_truthy (lookup item ''payload'') then json_dict (lookup item ''payload'') else Inr [])"

definition payload_field :: "string \<Rightarrow> json_object \<Rightarrow> service_error + json" where
  "payload_field key item = rmap (\<lambda>d. lookup d key) (payload item)"

definition payload_entries :: "string \<Rightarrow> json_object \<Rightarrow> service_error + json_object list" where
  "payload_entries key item = rbind (payload item) (\<lambda>d. rbind (json_items (dict_get d key)) (traverse json_dict))"

definition all_entries :: "string \<Rightarrow> json_object list \<Rightarrow> service_error + json_object list" where
  "all_entries key items = rmap concat (traverse (payload_entries key) items)"

subsection \<open>Debugging\<close>

definition gdb_run :: "giga_env \<Rightarrow> string \<Rightarrow> string \<Rightarrow> command_result workflow" where
  "gdb_run ge sid text = call (ge_work ge) (gdb_command (ge_service ge) sid text)"

definition serial_line :: "giga_env \<Rightarrow> string set \<Rightarrow> device_selector \<Rightarrow> string \<Rightarrow> command_result workflow" where
  "serial_line ge given sel line = call (ge_work ge) (serial_exchange (ge_service ge) given sel (Some line) 115200 500 None)"

definition BREAK_COMMANDS :: "string list" where
  "BREAK_COMMANDS = [''-data-read-memory-bytes &jlink_mcp_test_buffer 32'', ''-break-insert jlink_mcp_breakpoint_site'', ''-exec-continue'']"

definition WATCH_COMMANDS :: "string list" where
  "WATCH_COMMANDS = [''-thread-info'', ''-stack-list-frames'', ''-stack-list-variables --all-values'', ''-data-list-register-values x 13 14 15'',
     ''-break-delete'', ''-exec-finish'', ''-break-watch jlink_mcp_watch_value'', ''-exec-continue'']"

definition STEP_COMMANDS :: "string list" where
  "STEP_COMMANDS = [''-thread-info'', ''-data-evaluate-expression jlink_mcp_watch_value'', ''-exec-next-instruction'',
     ''-data-list-register-values x 15'', ''-exec-next'',
     ''-data-write-memory-bytes &jlink_mcp_test_buffer 00112233445566778899aabbccddeeff'',
     ''-data-read-memory-bytes &jlink_mcp_test_buffer 16'', ''-break-delete'']"

record debug_result =
  dbg_ok :: bool
  dbg_session :: json_object
  dbg_commands :: "command_result list"
  dbg_serial_break :: command_result
  dbg_serial_watch :: command_result

text \<open>\<open>broken\<close>, \<open>watched\<close> and \<open>stepped\<close> are the answers to the three command lists.\<close>

definition debug_verdict ::
    "command_result list \<Rightarrow> command_result \<Rightarrow> command_result list \<Rightarrow> command_result \<Rightarrow> command_result list \<Rightarrow> service_error + bool" where
  "debug_verdict broken serial_break watched serial_watch stepped =
     rbind (mi_items (watched ! 0)) (\<lambda>stopped.
     rbind (mi_items (stepped ! 0)) (\<lambda>watch_stop.
     rbind (mi_items (stepped ! 1)) (\<lambda>watch_value.
     rbind (traverse (payload_field ''value'') (with_message ''done'' watch_value)) (\<lambda>watch_values.
     rbind (rbind (mi_items (stepped ! 6)) (all_entries ''memory'')) (\<lambda>memories.
     both_check (list_all result_ok ([broken ! 1, serial_break] @ [watched ! 0, watched ! 1, watched ! 2, watched ! 3, watched ! 5, watched ! 6, serial_watch]
           @ [stepped ! 0, stepped ! 1, stepped ! 2, stepped ! 3, stepped ! 4, stepped ! 5, stepped ! 6]))
       (rbind (any_check (\<lambda>item. rmap (\<lambda>v. v = JStr ''breakpoint-hit'') (payload_field ''reason'' item)) (with_message ''stopped'' stopped)) (\<lambda>hit.
        both_check hit
          (rbind (any_check (\<lambda>item. rmap (\<lambda>v. v = JStr ''watchpoint-trigger'') (payload_field ''reason'' item)) (with_message ''stopped'' watch_stop)) (\<lambda>trigger.
           Inr (trigger \<and> JStr ''2779077210'' \<in> set watch_values
             \<and> JStr ''00112233445566778899aabbccddeeff'' \<in> set (map (\<lambda>d. lookup d ''contents'') memories)))))))))))"

definition debug_session :: "giga_env \<Rightarrow> string set \<Rightarrow> device_selector \<Rightarrow> json_object \<Rightarrow> debug_result workflow" where
  "debug_session ge given resolved info =
     (let sid = info_session info in
      op_bind (op_map (gdb_run ge sid) BREAK_COMMANDS) (\<lambda>broken.
      op_bind (serial_line ge given resolved ''BREAK'') (\<lambda>serial_break.
      op_bind (op_map (gdb_run ge sid) WATCH_COMMANDS) (\<lambda>watched.
      op_bind (serial_line ge given resolved ''SET 0xA5A55A5A'') (\<lambda>serial_watch.
      op_bind (op_map (gdb_run ge sid) STEP_COMMANDS) (\<lambda>stepped.
      op_bind (op_lift (debug_verdict broken serial_break watched serial_watch stepped)) (\<lambda>ok.
      op_return \<lparr> dbg_ok = ok, dbg_session = info, dbg_commands = broken @ watched @ stepped,
        dbg_serial_break = serial_break, dbg_serial_watch = serial_watch \<rparr>)))))))"

definition debug_fixture :: "giga_env \<Rightarrow> string set \<Rightarrow> device_selector \<Rightarrow> string \<Rightarrow> debug_result workflow" where
  "debug_fixture ge given sel elf_path =
     op_bind (call (ge_work ge) (resolve_selector_wait (ge_service ge) given sel)) (\<lambda>resolved.
     let g = resolved_given given in
     op_bind (call (ge_work ge) (start_gdb (ge_service ge) g resolved (Some elf_path))) (\<lambda>info.
     finally_do (debug_session ge g resolved info) (call (ge_work ge) (stop_gdb (ge_service ge) (info_session info) True))))"

subsection \<open>The controlled crash\<close>

definition RECOVERY_COMMANDS :: "string list" where
  "RECOVERY_COMMANDS = map (\<lambda>command. ''-interpreter-exec console '' @ [CHR 0x22] @ ''monitor '' @ command @ [CHR 0x22])
     [''exec SetResetType=2'', ''reset'', ''go'']"

definition EVIDENCE_COMMANDS :: "string list" where
  "EVIDENCE_COMMANDS = [''-data-list-register-values x 0 1 2 3 12 13 14 15'', ''-data-evaluate-expression $xpsr'', ''-data-read-memory-bytes $sp 128'']"

record crash_result =
  cr_ok :: bool
  cr_halt_reasons :: "json list"
  cr_hardfault_frame :: bool
  cr_session :: json_object
  cr_trigger :: command_result
  cr_commands :: "command_result list"

text \<open>Fault, collect the evidence and recover: the trigger, the answers to thread and stack, and all answers.\<close>

definition crash_evidence ::
    "giga_env \<Rightarrow> string set \<Rightarrow> device_selector \<Rightarrow> string
     \<Rightarrow> (command_result \<times> command_result \<times> command_result \<times> command_result list \<times> command_result list) workflow" where
  "crash_evidence ge given resolved sid =
     op_bind (op_map (gdb_run ge sid) [''-break-insert HardFault_Handler'', ''-exec-continue'']) (\<lambda>armed.
     op_bind (serial_line ge given resolved ''FAULT'') (\<lambda>trigger.
     op_bind (gdb_run ge sid ''-thread-info'') (\<lambda>thread.
     op_bind (gdb_run ge sid ''-stack-list-frames'') (\<lambda>stack.
     op_bind (op_map (gdb_run ge sid) EVIDENCE_COMMANDS) (\<lambda>evidence.
     op_bind (op_map (gdb_run ge sid) RECOVERY_COMMANDS) (\<lambda>recovery.
     op_return (trigger, thread, stack, armed @ [thread, stack] @ evidence, recovery)))))))"

definition crash_verdict ::
    "json_object \<Rightarrow> command_result \<times> command_result \<times> command_result \<times> command_result list \<times> command_result list \<Rightarrow> service_error + crash_result" where
  "crash_verdict info x = (case x of (trigger, thread, stack, collected, recovery) \<Rightarrow>
     rbind (rbind (mi_items thread) (\<lambda>items. traverse (payload_field ''reason'') (with_message ''stopped'' items))) (\<lambda>reasons.
     rbind (rbind (mi_items stack) (all_entries ''stack'')) (\<lambda>frames.
     let hardfault = list_ex (\<lambda>frame. str_contains (json_text (case dict_get frame ''func'' of None \<Rightarrow> JStr [] | Some f \<Rightarrow> f)) ''HardFault_Handler'') frames in
     Inr \<lparr> cr_ok = (result_ok trigger \<and> list_all result_ok (collected @ recovery)
         \<and> list_ex (\<lambda>reason. reason = JStr ''breakpoint-hit'' \<or> reason = JStr ''signal-received'') reasons \<and> hardfault),
       cr_halt_reasons = reasons, cr_hardfault_frame = hardfault, cr_session = info, cr_trigger = trigger,
       cr_commands = collected @ recovery \<rparr>)))"

text \<open>A best-effort command: its exception is dropped.\<close>

definition suppressed :: "('s, 'a) computation \<Rightarrow> ('s, unit) computation" where
  "suppressed m = (\<lambda>st. (Inr (), snd (m st)))"

definition crash_cleanup :: "giga_env \<Rightarrow> string \<Rightarrow> bool \<Rightarrow> unit workflow" where
  "crash_cleanup ge sid recovered =
     op_bind (if recovered then op_return () else each (\<lambda>text. suppressed (gdb_run ge sid text)) RECOVERY_COMMANDS) (\<lambda>_.
     call (ge_work ge) (stop_gdb (ge_service ge) sid False))"

text \<open>The \<^verbatim>\<open>finally\<close> block knows whether the recovery commands all succeeded, also when the verdict raises afterwards.\<close>

definition crash_session :: "giga_env \<Rightarrow> string set \<Rightarrow> device_selector \<Rightarrow> json_object \<Rightarrow> crash_result workflow" where
  "crash_session ge given resolved info =
     (let sid = info_session info in
      (\<lambda>ws. case crash_evidence ge given resolved sid ws of
        (Inl e, ws1) \<Rightarrow> finally_do (op_raise e) (crash_cleanup ge sid False) ws1
      | (Inr x, ws1) \<Rightarrow>
          finally_do (op_lift (crash_verdict info x)) (crash_cleanup ge sid (list_all result_ok (snd (snd (snd (snd x)))))) ws1))"

definition crash_capture :: "giga_env \<Rightarrow> string set \<Rightarrow> device_selector \<Rightarrow> string \<Rightarrow> crash_result workflow" where
  "crash_capture ge given sel elf_path =
     op_bind (call (ge_work ge) (resolve_selector_wait (ge_service ge) given sel)) (\<lambda>resolved.
     let g = resolved_given given in
     op_bind (call (ge_work ge) (start_gdb (ge_service ge) g resolved (Some elf_path))) (\<lambda>info.
     crash_session ge g resolved info))"

end
