(* ===== verification/Giga_Build.thy ===== *)
theory Giga_Build
  imports Giga_Workflows
begin

text \<open>
  Building a fixture (\<^verbatim>\<open>build_firmware\<close> of the GIGA extension): the sketch and its identity are staged, the Arduino
  tool compiles them, the ELF file is finalized, the flash and analysis files are generated from it, and every artifact is
  registered together with a manifest and a list of checksums. A directory exists as far as it holds files; the
  tools' effect on files is \<open>we_world\<close>.
\<close>

subsection \<open>Paths\<close>

definition files_in :: "string list \<Rightarrow> files \<Rightarrow> files" where
  "files_in dir fs = filter (\<lambda>(p, _). p \<noteq> [] \<and> butlast p = dir) fs"

definition files_under :: "string list \<Rightarrow> files \<Rightarrow> files" where
  "files_under dir fs = filter (\<lambda>(p, _). below dir p) fs"

definition sorted_files :: "files \<Rightarrow> files" where
  "sorted_files fs = sort_key (\<lambda>(p, _). path_key p) fs"

definition has_extension :: "string \<Rightarrow> string list \<Rightarrow> bool" where
  "has_extension ext p = (length ext \<le> length (path_name p) \<and> drop (length (path_name p) - length ext) (path_name p) = ext)"

definition copy_tree :: "giga_env \<Rightarrow> string list \<Rightarrow> string list \<Rightarrow> unit workflow" where
  "copy_tree ge src dst =
     op_bind (inside (ask (\<lambda>n. ge_copy_fails ge n src))) (\<lambda>failure.
     case failure of Some msg \<Rightarrow> op_raise (BackendFailed msg)
       | None \<Rightarrow> op_put (\<lambda>ws. ws \<lparr> ws_files := foldl (\<lambda>fs (p, b). dict_set fs (dst @ drop (length src) p) b) (ws_files ws) (files_under src (ws_files ws)) \<rparr>))"

definition run_tool :: "giga_env \<Rightarrow> string list \<Rightarrow> string \<Rightarrow> command_result workflow" where
  "run_tool ge argv backend = call (ge_work ge) (run_backend (\<lambda>n. ge_run ge n argv backend))"

definition record_tool :: "giga_env \<Rightarrow> command_result \<Rightarrow> string \<Rightarrow> json_object option \<Rightarrow> unit workflow" where
  "record_tool ge r action request = inside (append (ge_service ge) r action None False request)"

definition tool_output :: "command_result \<Rightarrow> string" where
  "tool_output r = (if res_stderr r = [] then res_stdout r else res_stderr r)"

subsection \<open>The sketch and its identity\<close>

definition LEGACY_ROOT :: "string list" where "LEGACY_ROOT = [''firmware'', ''giga_hil'']"

definition resolve_sketch_path :: "giga_env \<Rightarrow> string \<Rightarrow> service_error + string list" where
  "resolve_sketch_path ge sketch =
     (let s = se_settings (ge_service ge); fs = se_fs (ge_service ge); requested = parse_path sketch in
      if path_absolute requested \<or> \<not> is_relative_to (path_parts requested) LEGACY_ROOT
      then rcatch (resolve_workspace_path s fs sketch True) PathFailed
      else rbind (rcatch (fs_resolve fs True \<lparr> path_absolute = True, path_parts = ge_package_root ge @ LEGACY_ROOT \<rparr>) (PathFailed \<circ> OsError)) (\<lambda>root.
        rbind (rcatch (fs_resolve fs False \<lparr> path_absolute = True, path_parts = root @ drop (length LEGACY_ROOT) (path_parts requested) \<rparr>) (PathFailed \<circ> OsError)) (\<lambda>packaged.
        if \<not> is_relative_to packaged root then Inl (RequestRefused ''packaged sketch path escapes fixture root'')
        else rcatch (fs_resolve fs True \<lparr> path_absolute = True, path_parts = packaged \<rparr>) (PathFailed \<circ> OsError))))"

definition EXCLUDED_PARTS :: "string list" where
  "EXCLUDED_PARTS = [''.git'', ''.venv'', ''state'', ''__pycache__'', ''.pytest_cache'']"

definition identity_input :: "string list \<Rightarrow> bool" where
  "identity_input p = (\<not> list_ex (\<lambda>part. part \<in> set EXCLUDED_PARTS) p
     \<and> path_name p \<noteq> ''.token'' \<and> path_name p \<noteq> ''.env'' \<and> \<not> str_startswith (path_name p) ''.env.'')"

definition source_tree_identity :: "giga_env \<Rightarrow> files \<Rightarrow> string" where
  "source_tree_identity ge fs =
     (let root = path_parts (set_repository_root (se_settings (ge_service ge))) in
      ge_sha1 ge (concat (map (\<lambda>(p, content). we_encode (ge_work ge) (join_with ''/'' (drop (length root) p)) @ [0] @ content @ [0])
        (filter (\<lambda>(p, _). identity_input p) (sorted_files (files_under root fs))))))"

definition commit_text :: "string \<Rightarrow> bool" where
  "commit_text s = (length s = 40 \<and> list_all (\<lambda>c. ascii_digit c \<or> c \<in> set ''abcdef'') s)"

definition build_identity :: "giga_env \<Rightarrow> (string, string) dict workflow" where
  "build_identity ge =
     op_bind (inside (ask (ge_timestamp ge))) (\<lambda>timestamp.
     op_bind (run_tool ge [''git'', ''rev-parse'', ''--verify'', ''HEAD''] ''git'') (\<lambda>revision.
     let commit = (if result_ok revision then str_strip (res_stdout revision) else []) in
     op_bind (if commit_text commit then op_return (commit, ''git-commit'')
              else op_get (\<lambda>ws. (source_tree_identity ge (ws_files ws), ''source-tree-sha1''))) (\<lambda>(commit, kind).
     op_bind (fresh_uuid (ge_work ge)) (\<lambda>u.
     op_return [(''git_commit'', commit), (''identity_kind'', kind),
       (''build_id'', str_remove (CHR ''-'') (str_remove (CHR '':'') timestamp) @ ''-'' @ take 8 (str_remove (CHR ''-'') u)),
       (''build_timestamp'', timestamp)]))))"

definition text_of :: "(string, string) dict \<Rightarrow> string \<Rightarrow> string" where
  "text_of d key = (case dict_get d key of None \<Rightarrow> [] | Some v \<Rightarrow> v)"

definition define_line :: "string \<Rightarrow> string \<Rightarrow> string" where
  "define_line name v = ''#define '' @ name @ '' '' @ [CHR 0x22] @ v @ [CHR 0x22, CHR 0x0A]"

definition identity_header :: "(string, string) dict \<Rightarrow> string" where
  "identity_header identity = ''#pragma once'' @ [CHR 0x0A] @ define_line ''JLINK_MCP_GIT_COMMIT'' (text_of identity ''git_commit'')
     @ define_line ''JLINK_MCP_BUILD_ID'' (text_of identity ''build_id'') @ define_line ''JLINK_MCP_BUILD_TIMESTAMP'' (text_of identity ''build_timestamp'')"

subsection \<open>Tools\<close>

definition board_options :: "string \<Rightarrow> string \<Rightarrow> string" where
  "board_options core split = ''target_core='' @ concat (map (\<lambda>c. if c = CHR ''m'' then ''cm'' else [c]) core) @ '',split='' @ split"

text \<open>\<^verbatim>\<open>^([^=\s]+)=(.*)$\<close> on a line.\<close>

definition property_line :: "string \<Rightarrow> (string \<times> string) option" where
  "property_line line =
     (let key = takeWhile (\<lambda>c. c \<noteq> CHR ''='') line in
      if key = [] \<or> list_ex py_isspace key \<or> length key = length line then None else Some (key, drop (length key + 1) line))"

definition parse_properties :: "string \<Rightarrow> (string, string) dict" where
  "parse_properties out = foldl (\<lambda>d line. case property_line line of None \<Rightarrow> d | Some (k, v) \<Rightarrow> dict_set d k v) [] (splitlines [] out)"

definition build_properties :: "giga_env \<Rightarrow> string list \<Rightarrow> string \<Rightarrow> string \<Rightarrow> (string, string) dict workflow" where
  "build_properties ge sketch_path core split =
     op_bind (run_tool ge [ge_arduino_cli ge, ''compile'', ''--fqbn'', ge_fqbn ge, ''--board-options'', board_options core split,
        ''--show-properties'', show_path sketch_path] ''arduino-cli-properties'') (\<lambda>r.
     op_return (parse_properties (res_stdout r)))"

definition compiler_tool :: "(string, string) dict \<Rightarrow> string \<Rightarrow> service_error + string" where
  "compiler_tool properties name =
     (case dict_get properties ''build.compiler_path'' of
        None \<Rightarrow> Inl (python_error ''KeyError'')
      | Some p \<Rightarrow> Inr (show_pypath (join_path (parse_path p) \<lparr> path_absolute = False, path_parts = [name] \<rparr>)))"

definition regenerate_flash_artifacts ::
    "giga_env \<Rightarrow> string list \<Rightarrow> string list \<Rightarrow> (string, string) dict \<Rightarrow> unit workflow" where
  "regenerate_flash_artifacts ge elf dir properties =
     op_bind (op_lift (compiler_tool properties ''arm-none-eabi-objcopy'')) (\<lambda>objcopy.
     each (\<lambda>(format, suffix, extra).
       op_bind (run_tool ge ([objcopy, ''-O'', format] @ extra @ [show_path elf, show_path (dir @ [path_stem elf @ suffix])]) ''arm-none-eabi-objcopy'') (\<lambda>r.
       op_bind (record_tool ge r (''generate_'' @ format) None) (\<lambda>_.
       op_check (result_ok r) (BackendFailed (''objcopy failed: '' @ tool_output r)))))
     [(''binary'', ''.bin'', []), (''ihex'', ''.hex'', [''-R'', ''.eeprom''])])"

definition generate_analysis_artifacts ::
    "giga_env \<Rightarrow> string list \<Rightarrow> string list \<Rightarrow> (string, string) dict \<Rightarrow> unit workflow" where
  "generate_analysis_artifacts ge elf dir properties =
     each (\<lambda>(name, args, suffix).
       op_bind (op_lift (compiler_tool properties name)) (\<lambda>executable.
       op_bind (run_tool ge (executable # args @ [show_path elf]) name) (\<lambda>r.
       op_bind (record_tool ge r (''generate_'' @ suffix) None) (\<lambda>_.
       op_bind (op_check (result_ok r) (BackendFailed (name @ '' failed: '' @ tool_output r))) (\<lambda>_.
       write_text (ge_work ge) (dir @ [path_stem elf @ ''.'' @ suffix]) (res_stdout r))))))
     [(''arm-none-eabi-nm'', [''-n'', ''-S'', ''--defined-only''], ''symbols''),
      (''arm-none-eabi-objdump'', [''-d'', ''-S'', ''-l''], ''disassembly'')]"

subsection \<open>Finalizing\<close>

definition fixture_json :: "fixture_manifest \<Rightarrow> json_object" where
  "fixture_json m =
     [(''manifest_address'', JStr (hex_address (fm_address m))), (''image_size'', JInt (int (fm_image_size m))),
      (''image_crc32'', JStr (hex_address (int (unat (fm_crc m))))),
      (''crc_definition'', JStr ''IEEE CRC-32 over flash image with CRC field zeroed''),
      (''flash_start'', JStr (hex_address (fm_flash_start m))), (''flash_size'', JInt (int (fm_image_size m))),
      (''ram_start'', JStr (hex_address (fm_ram_start m))), (''ram_size'', JInt (fm_ram_size m))]"

definition verdict_json :: "fixture_verdict \<Rightarrow> json_object" where
  "verdict_json v =
     [(''ok'', JBool (fv_ok v)), (''manifest_address'', JStr (hex_address (fv_address v))), (''flash_start'', JStr (hex_address (fv_flash_start v))),
      (''expected_size'', JInt (fv_expected_size v)), (''actual_size'', JInt (int (fv_actual_size v))),
      (''expected_crc32'', JStr (hex_address (fv_expected_crc v))), (''actual_crc32'', JStr (hex_address (int (unat (fv_actual_crc v)))))]"

definition finalize_file :: "giga_env \<Rightarrow> string list \<Rightarrow> json_object workflow" where
  "finalize_file ge elf =
     op_bind (read_file elf) (\<lambda>blob.
     op_bind (op_lift (rcatch (finalize_fixture_elf (ge_elf ge) blob) (\<lambda>_. python_error ''ValueError''))) (\<lambda>(final, m).
     op_bind (write_file (ge_work ge) elf final) (\<lambda>_. op_return (fixture_json m))))"

definition verify_file :: "giga_env \<Rightarrow> string list \<Rightarrow> json_object workflow" where
  "verify_file ge elf =
     op_bind (read_file elf) (\<lambda>blob.
     op_bind (op_lift (rcatch (verify_fixture_elf (ge_elf ge) blob) (\<lambda>_. python_error ''ValueError''))) (\<lambda>v. op_return (verdict_json v)))"

text \<open>Everything a successful compilation is followed by, up to the artifacts.\<close>

definition post_link :: "giga_env \<Rightarrow> string list \<Rightarrow> (string, string) dict \<Rightarrow> json_object workflow" where
  "post_link ge dir properties =
     op_bind (op_get (\<lambda>ws. filter (\<lambda>(p, _). has_extension ''.elf'' p) (files_in dir (ws_files ws)))) (\<lambda>elfs.
     case elfs of
       [] \<Rightarrow> op_raise (BackendFailed ''Arduino build succeeded without an ELF artifact'')
     | (elf, _) # _ \<Rightarrow>
         op_bind (finalize_file ge elf) (\<lambda>m.
         op_bind (verify_file ge elf) (\<lambda>v.
         op_bind (regenerate_flash_artifacts ge elf dir properties) (\<lambda>_.
         op_bind (generate_analysis_artifacts ge elf dir properties) (\<lambda>_.
         op_return (m @ [(''verification'', JObj v)]))))))"

definition KEPT_SUFFIXES :: "string list" where
  "KEPT_SUFFIXES = [''.elf'', ''.bin'', ''.hex'', ''.map'', ''.symbols'', ''.disassembly'', ''.json'']"

definition kept_artifact :: "string list \<Rightarrow> bool" where
  "kept_artifact p = (\<not> str_contains (path_name p) ''.with_bootloader.'' \<and> path_suffix p \<in> set KEPT_SUFFIXES)"

definition artifact_kind :: "string list \<Rightarrow> string" where
  "artifact_kind p = dropWhile (\<lambda>c. c = CHR ''.'') (path_suffix p)"

definition register_built :: "giga_env \<Rightarrow> string list \<Rightarrow> artifact workflow" where
  "register_built ge path =
     op_bind (registerable_artifact (ge_work ge) path (artifact_kind path)) (\<lambda>a.
     op_bind (if path_suffix path = ''.elf'' then
         op_bind (read_file path) (\<lambda>content.
         op_bind (op_lift (rcatch (ge_inspect ge content) BackendFailed)) (\<lambda>j. op_return (a \<lparr> art_metadata := [(''elf'', j)] \<rparr>)))
       else op_return a) (\<lambda>a.
     op_bind (register_in_store (ge_work ge) a) (\<lambda>_. op_return a)))"

subsection \<open>Building\<close>

definition artifact_json :: "giga_env \<Rightarrow> artifact \<Rightarrow> json" where
  "artifact_json ge a = JObj [(''path'', JStr (art_path a)), (''sha256'', JStr (art_sha256 a)), (''size'', JInt (int (art_size a))),
     (''kind'', JStr (art_kind a)), (''created_at'', JStr (isoformat (se_store (ge_service ge)) (art_created_at a))), (''metadata'', JObj (art_metadata a))]"

record build_result =
  bld_core :: string
  bld_fqbn :: string
  bld_directory :: "string list"
  bld_command :: command_result
  bld_artifacts :: "artifact list"
  bld_properties :: "(string, string) dict"

definition FQBN :: string where "FQBN = json_text (lookup (profile_metadata GIGA_R1) ''fqbn'')"

text \<open>The sources in a new directory, with their identity, and the result of compiling them.\<close>

definition stage_sketch :: "giga_env \<Rightarrow> string list \<Rightarrow> string list \<Rightarrow> ((string, string) dict \<times> string list) workflow" where
  "stage_sketch ge sketch dir =
     op_bind (build_identity ge) (\<lambda>identity.
     let staged = dir @ [''source'', path_name sketch] in
     op_bind (copy_tree ge sketch staged) (\<lambda>_.
     op_bind (write_text (ge_work ge) (staged @ [''JLinkMCPBuildIdentity.h'']) (identity_header identity)) (\<lambda>_.
     op_return (identity, staged))))"

definition compile_sketch :: "giga_env \<Rightarrow> string list \<Rightarrow> string list \<Rightarrow> string list \<Rightarrow> string \<Rightarrow> string \<Rightarrow> bool \<Rightarrow> command_result workflow" where
  "compile_sketch ge sketch staged dir core split clean =
     op_bind (run_tool ge ([ge_arduino_cli ge, ''compile'', ''--fqbn'', FQBN, ''--board-options'', board_options core split,
         ''--output-dir'', show_path dir, ''--export-binaries''] @ (if clean then [''--clean''] else []) @ [show_path staged]) ''arduino-cli'') (\<lambda>command.
     op_bind (record_tool ge command ''build_firmware'' (Some [(''sketch'', JStr (show_path sketch)), (''staged_sketch'', JStr (show_path staged)),
         (''core'', JStr core), (''split'', JStr split)])) (\<lambda>_. op_return command))"

definition text_json :: "(string, string) dict \<Rightarrow> json" where
  "text_json d = JObj (map (\<lambda>(k, v). (k, JStr v)) d)"

definition build_manifest_json ::
    "giga_env \<Rightarrow> string \<Rightarrow> string \<Rightarrow> (string, string) dict \<Rightarrow> json_object \<Rightarrow> (string, string) dict \<Rightarrow> artifact list \<Rightarrow> json" where
  "build_manifest_json ge core split identity embedded properties built =
     JObj [(''core'', JStr core), (''fqbn'', JStr FQBN), (''flash_split'', JStr split), (''identity'', text_json identity),
       (''embedded_manifest'', JObj embedded), (''properties'', text_json properties), (''artifacts'', JList (map (artifact_json ge) built))]"

definition checksums_json :: "artifact list \<Rightarrow> json" where
  "checksums_json built = text_json (foldl (\<lambda>d a. dict_set d (art_path a) (art_sha256 a)) [] built)"

definition build_firmware :: "giga_env \<Rightarrow> string \<Rightarrow> string \<Rightarrow> string option \<Rightarrow> bool \<Rightarrow> build_result workflow" where
  "build_firmware ge sketch core flash_split clean =
     op_bind (op_lift (resolve_sketch_path ge sketch)) (\<lambda>sketch_path.
     let split = (case flash_split of None \<Rightarrow> ge_flash_split ge | Some [] \<Rightarrow> ge_flash_split ge | Some s \<Rightarrow> s) in
     op_bind (require (split \<in> {''100_0'', ''75_25'', ''50_50''}) ''flash_split must be 100_0, 75_25, or 50_50'') (\<lambda>_.
     op_bind (fresh_uuid (ge_work ge)) (\<lambda>u.
     let dir = path_parts (set_state_root (se_settings (ge_service ge)))
                 @ [''artifacts'', ''builds'', path_stem sketch_path @ ''-'' @ core @ ''-'' @ u] in
     op_bind (stage_sketch ge sketch_path dir) (\<lambda>(identity, staged).
     op_bind (compile_sketch ge sketch_path staged dir core split clean) (\<lambda>command.
     op_bind (build_properties ge sketch_path core split) (\<lambda>properties.
     op_bind (if result_ok command then
         op_bind (post_link ge dir properties) (\<lambda>m.
         op_bind (op_get (\<lambda>ws. map fst (filter (\<lambda>(p, _). kept_artifact p) (sorted_files (files_in dir (ws_files ws)))))) (\<lambda>paths.
         op_bind (op_map (register_built ge) paths) (\<lambda>built. op_return (m, built))))
       else op_return ([], [])) (\<lambda>(embedded, built).
     op_bind (write_text (ge_work ge) (dir @ [''jlink-mcp-build-manifest.json''])
         (we_dump (ge_work ge) (build_manifest_json ge core split identity embedded properties built) @ [CHR 0x0A])) (\<lambda>_.
     op_bind (register_file (ge_work ge) (dir @ [''jlink-mcp-build-manifest.json'']) ''manifest'') (\<lambda>manifest.
     op_bind (write_text (ge_work ge) (dir @ [''jlink-mcp-checksums.json'']) (we_dump (ge_work ge) (checksums_json (built @ [manifest])) @ [CHR 0x0A])) (\<lambda>_.
     op_bind (register_file (ge_work ge) (dir @ [''jlink-mcp-checksums.json'']) ''checksums'') (\<lambda>checksums.
     op_return \<lparr> bld_core = core, bld_fqbn = FQBN, bld_directory = dir, bld_command = command,
       bld_artifacts = built @ [manifest, checksums], bld_properties = properties \<rparr>)))))))))))"

end
