(* ===== verification/Report.thy ===== *)
theory Report
  imports Workflows
begin

text \<open>
  The validation report of \<^verbatim>\<open>workflows.py\<close>: what the audit store holds, as a JSON document and as Markdown tables. The core and
  the GIGA extension write the same report with one different heading. The two characters of the Markdown text beyond
  the model's range (an ellipsis and an arrow) are written \<open>ELLIPSIS\<close> and \<open>ARROW\<close>.
\<close>

subsection \<open>Cells\<close>

definition ELLIPSIS :: string where "ELLIPSIS = ''...''"
definition ARROW :: string where "ARROW = ''->''"

definition py_str :: "json \<Rightarrow> string" where
  "py_str j = (case j of JReal s \<Rightarrow> s | _ \<Rightarrow> json_text j)"

definition cell_char :: "char \<Rightarrow> string" where
  "cell_char c = (if c = CHR ''|'' then [CHR 0x5C, c] else if c = CHR 0x0D then [] else if c = CHR 0x0A then ''<br>'' else [c])"

definition cell_text :: "string \<Rightarrow> string" where
  "cell_text s = concat (map cell_char s)"

definition cell :: "json \<Rightarrow> string" where
  "cell v = cell_text (if v = JNull then [] else py_str v)"

definition excerpt :: "json \<Rightarrow> string" where
  "excerpt v =
     (let s = (if v = JNull then [] else str_strip (py_str v)) in
      cell_text (if length s > 1200 then take 1200 s @ '' '' @ ELLIPSIS @ '' [truncated; see JSON companion]'' else s))"

text \<open>A table row of the given cells, each already escaped.\<close>

definition table_row :: "string list \<Rightarrow> string" where
  "table_row cells = ''|'' @ concat (map (\<lambda>c. '' '' @ c @ '' |'') cells)"

subsection \<open>The audit entries\<close>

definition get_or :: "json_object \<Rightarrow> string \<Rightarrow> json \<Rightarrow> json" where
  "get_or d key missing = (case dict_get d key of None \<Rightarrow> missing | Some v \<Rightarrow> v)"

definition operation_entry :: "store_env \<Rightarrow> operation_row \<Rightarrow> service_error + json_object" where
  "operation_entry env row =
     (case json_loads env (row_payload_json row) of
        None \<Rightarrow> Inl (StoreFailed MalformedPayload)
      | Some payload \<Rightarrow> Inr [(''sequence'', JInt (int (row_sequence row))), (''operation_id'', JStr (row_operation_id row)),
          (''created_at'', JStr (row_created_at row)), (''probe_serial'', json_opt JStr (row_probe_serial row)),
          (''action'', JStr (row_action row)), (''destructive'', JBool (row_destructive row \<noteq> 0)),
          (''payload_json'', JStr (row_payload_json row)), (''previous_hash'', JStr (row_previous_hash row)),
          (''entry_hash'', JStr (row_entry_hash row)), (''payload'', payload)])"

definition artifact_entry :: "store_env \<Rightarrow> artifact_row \<Rightarrow> service_error + json_object" where
  "artifact_entry env row =
     (case json_loads env (arow_metadata_json row) of
        None \<Rightarrow> Inl (StoreFailed MalformedPayload)
      | Some metadata \<Rightarrow> Inr [(''sha256'', JStr (arow_sha256 row)), (''path'', JStr (arow_path row)), (''size'', JInt (int (arow_size row))),
          (''kind'', JStr (arow_kind row)), (''created_at'', JStr (arow_created_at row)), (''metadata'', metadata)])"

definition entry_result :: "json_object \<Rightarrow> service_error + json_object" where
  "entry_result entry = rbind (json_dict (lookup entry ''payload'')) (\<lambda>p. json_dict (get_or p ''result'' (JObj [])))"

definition string_items :: "json \<Rightarrow> service_error + string list" where
  "string_items j = rbind (json_items (Some j)) (traverse (\<lambda>x. case x of JStr s \<Rightarrow> Inr s | _ \<Rightarrow> Inl (python_error ''TypeError'')))"

definition evidence_of :: "json_object list \<Rightarrow> service_error + string list" where
  "evidence_of entries =
     rmap (\<lambda>xs. sorted_names (concat xs))
       (traverse (\<lambda>e. rbind (entry_result e) (\<lambda>r. rmap (map py_str) (json_items (Some (get_or r ''evidence_paths'' (JList [])))))) entries)"

definition is_screenshot :: "string \<Rightarrow> bool" where
  "is_screenshot path = (path_suffix (path_parts (parse_path path)) = ''.png'')"

subsection \<open>The Markdown report\<close>

definition probe_row :: "json_object \<Rightarrow> service_error + string" where
  "probe_row probe = rmap (\<lambda>licenses. table_row [''Probe'', cell (lookup probe ''serial''), cell (lookup probe ''model''), cell (lookup probe ''firmware''),
      cell (JStr (join_with '', '' licenses))]) (string_items (get_or probe ''licenses'' (JList [])))"

definition board_row :: "json_object \<Rightarrow> service_error + string" where
  "board_row board = rmap (\<lambda>cores. table_row [''Board'', cell (lookup board ''serial''), cell (lookup board ''model''), cell (lookup board ''mcu''),
      cell (JStr (join_with '', '' cores))]) (string_items (get_or board ''cores'' (JList [])))"

definition check_row :: "json_object \<Rightarrow> string" where
  "check_row c = table_row [cell (lookup c ''name''), (if json_truthy (lookup c ''required'') then ''yes'' else ''no''),
     (if json_truthy (lookup c ''ok'') then ''PASS'' else ''FAIL''), cell (lookup c ''observed''), cell (lookup c ''expected''), cell (lookup c ''remediation'')]"

definition operation_row_text :: "json_object \<Rightarrow> service_error + string" where
  "operation_row_text entry =
     rbind (entry_result entry) (\<lambda>r.
     rmap (\<lambda>warnings. table_row [py_str (lookup entry ''sequence''), cell (lookup entry ''action''), cell (lookup r ''backend''),
         cell (lookup r ''return_code''), cell (lookup r ''duration_ms''),
         cell (JStr (py_str (get_or r ''target_state_before'' (JStr ''unknown'')) @ '' '' @ ARROW @ '' '' @ py_str (get_or r ''target_state_after'' (JStr ''unknown'')))),
         cell (JStr (default_json (get_or r ''command'' (JList [])))), cell (JStr (join_with ''; '' warnings))])
       (string_items (get_or r ''warnings'' (JList []))))"

text \<open>At most 25 excerpts; entries without output are skipped and do not count.\<close>

fun log_lines :: "nat \<Rightarrow> json_object list \<Rightarrow> service_error + string list" where
  "log_lines n [] = Inr []"
| "log_lines n (e # es) =
     rbind (entry_result e) (\<lambda>r.
     let out = get_or r ''stdout'' (JStr []); err = get_or r ''stderr'' (JStr []) in
     if \<not> json_truthy out \<and> \<not> json_truthy err then log_lines n es
     else (let lines = [''### Sequence '' @ py_str (lookup e ''sequence'') @ '': '' @ cell (lookup e ''action''), [],
             ''- stdout: '' @ excerpt out, ''- stderr: '' @ excerpt err, []] in
       if n \<le> 1 then Inr lines else rmap ((@) lines) (log_lines (n - 1) es)))"

definition artifact_row_text :: "json_object \<Rightarrow> string" where
  "artifact_row_text a = table_row [cell (lookup a ''kind''), cell (lookup a ''size''), ''`'' @ cell (lookup a ''sha256'') @ ''`'', cell (lookup a ''path'')]"

record report_data =
  rd_run_id :: string
  rd_title :: string
  rd_generated :: string
  rd_capabilities :: json_object
  rd_doctor :: json_object
  rd_chain_ok :: bool
  rd_chain_error :: "chain_error option"
  rd_operations :: "json_object list"
  rd_artifacts :: "json_object list"

definition bullet :: "string \<Rightarrow> string \<Rightarrow> string" where
  "bullet name v = ''- '' @ name @ '': `'' @ v @ ''`''"

definition json_objects :: "json_object \<Rightarrow> string \<Rightarrow> service_error + json_object list" where
  "json_objects d key = rbind (json_items (Some (get_or d key (JList [])))) (traverse json_dict)"

definition markdown_lines :: "string \<Rightarrow> report_data \<Rightarrow> service_error + string list" where
  "markdown_lines heading d =
     rbind (evidence_of (rd_operations d)) (\<lambda>evidence.
     rbind (rbind (json_objects (rd_capabilities d) ''probes'') (traverse probe_row)) (\<lambda>probes.
     rbind (rbind (json_objects (rd_capabilities d) ''boards'') (traverse board_row)) (\<lambda>boards.
     rbind (rmap (map check_row) (json_objects (rd_doctor d) ''checks'')) (\<lambda>checks.
     rbind (traverse operation_row_text (rd_operations d)) (\<lambda>rows.
     rbind (log_lines 25 (rd_operations d)) (\<lambda>logs.
     Inr ([''# '' @ rd_title d, [], bullet ''Run ID'' (rd_run_id d), bullet ''Generated'' (rd_generated d),
         bullet ''Audit chain'' (if rd_chain_ok d then ''valid'' else ''INVALID''),
         bullet ''Dependency status'' (if json_truthy (lookup (rd_doctor d) ''ok'') then ''PASS'' else ''FAIL''),
         bullet ''Recorded operations'' (show_nat (length (rd_operations d))), bullet ''Registered artifacts'' (show_nat (length (rd_artifacts d))),
         bullet ''Screenshot evidence'' (show_nat (length (filter is_screenshot evidence))), [],
         ''The JSON companion is the lossless record and contains complete raw output, requests, identities, audit hashes, and structured values.'',
         [], heading, [], ''| Kind | Stable serial | Model | Firmware / target | Licenses / cores |'', ''|---|---|---|---|---|'']
       @ probes @ boards
       @ [[], ''## Dependency checks'', [], ''| Check | Required | Result | Observed | Expected | Remediation |'', ''|---|---:|---:|---|---|---|''] @ checks
       @ [[], ''## Operation and command summary'', [],
          ''| Seq | Action | Backend | Result | Duration ms | Target state | Exact command | Warnings |'', ''|---:|---|---|---:|---:|---|---|---|''] @ rows
       @ [[], ''## Recent log excerpts'', []] @ logs
       @ [''## Artifact hashes'', [], ''| Kind | Size | SHA-256 | Path |'', ''|---|---:|---|---|''] @ map artifact_row_text (rd_artifacts d)
       @ [[], ''## Evidence paths'', []] @ map (\<lambda>p. ''- '' @ cell (JStr p)) evidence @ [[]])))))))"

subsection \<open>Generating the report\<close>

fun chain_error_text :: "chain_error \<Rightarrow> string" where
  "chain_error_text (LinkMismatch n) = ''chain link mismatch at sequence '' @ show_int (int n)"
| "chain_error_text (EntryHashMismatch n) = ''entry hash mismatch at sequence '' @ show_int (int n)"

definition report_json :: "report_data \<Rightarrow> json" where
  "report_json d = JObj [(''schema_version'', JInt 1), (''run_id'', JStr (rd_run_id d)), (''title'', JStr (rd_title d)),
     (''generated_at'', JStr (rd_generated d)), (''capabilities'', JObj (rd_capabilities d)), (''dependency_doctor'', JObj (rd_doctor d)),
     (''audit_chain'', JObj [(''ok'', JBool (rd_chain_ok d)), (''error'', json_opt (JStr \<circ> chain_error_text) (rd_chain_error d))]),
     (''operations'', JList (map JObj (rd_operations d))), (''artifacts'', JList (map JObj (rd_artifacts d)))]"

record validation_summary =
  vs_run_id :: string
  vs_chain_ok :: bool
  vs_artifacts :: "artifact list"

definition collect_report :: "workflow_env \<Rightarrow> string \<Rightarrow> string \<Rightarrow> int \<Rightarrow> report_data operation" where
  "collect_report we run_id title limit =
     (let env = we_service we; se = se_store env in
      op_bind (op_get sv_store) (\<lambda>store.
      op_bind (op_lift (rbind (rcatch (list_operations limit store) StoreFailed) (traverse (operation_entry se)))) (\<lambda>operations.
      op_bind (op_lift (traverse (artifact_entry se) (list_artifacts store))) (\<lambda>catalog.
      op_bind (ask (se_now env)) (\<lambda>now.
      op_bind (capabilities env) (\<lambda>found.
      op_bind (ask (\<lambda>n. (we_capabilities we n found, we_doctor we n))) (\<lambda>(caps, doctor).
      op_return \<lparr> rd_run_id = run_id, rd_title = title, rd_generated = isoformat se now, rd_capabilities = caps, rd_doctor = doctor,
        rd_chain_ok = fst (verify_chain se store), rd_chain_error = snd (verify_chain se store),
        rd_operations = operations, rd_artifacts = catalog \<rparr>)))))))"

definition generate_report :: "string \<Rightarrow> workflow_env \<Rightarrow> string \<Rightarrow> int \<Rightarrow> validation_summary workflow" where
  "generate_report heading we title limit =
     op_bind (fresh_uuid we) (\<lambda>run_id.
     let dir = path_parts (set_state_root (se_settings (we_service we))) @ [''reports'', run_id];
         machine = dir @ [''validation-report.json'']; human = dir @ [''validation-report.md''] in
     op_bind (inside (collect_report we run_id title limit)) (\<lambda>d.
     op_bind (write_text we machine (we_dump we (report_json d) @ [CHR 0x0A])) (\<lambda>_.
     op_bind (op_lift (markdown_lines heading d)) (\<lambda>lines.
     op_bind (write_text we human (join_with [CHR 0x0A] lines)) (\<lambda>_.
     op_bind (registerable_artifact we machine ''validation-report-json'') (\<lambda>a.
     op_bind (registerable_artifact we human ''validation-report-markdown'') (\<lambda>b.
     op_bind (register_in_store we a) (\<lambda>_.
     op_bind (register_in_store we b) (\<lambda>_.
     op_return \<lparr> vs_run_id = run_id, vs_chain_ok = rd_chain_ok d, vs_artifacts = [a, b] \<rparr>)))))))))"

definition generate_validation_report :: "workflow_env \<Rightarrow> string \<Rightarrow> int \<Rightarrow> validation_summary workflow" where
  "generate_validation_report = generate_report ''## Target evidence''"

definition giga_validation_report :: "workflow_env \<Rightarrow> string \<Rightarrow> int \<Rightarrow> validation_summary workflow" where
  "giga_validation_report = generate_report ''## Hardware evidence''"

end
