(* ===== verification/Giga_Validation.thy ===== *)
theory Giga_Validation
  imports Giga_Debug Giga_Build Report
begin

text \<open>
  Deploying both images of the GIGA fixture and validating it: \<^verbatim>\<open>dual_core_deploy\<close> and \<^verbatim>\<open>validate_fixture\<close>. The validation
  holds the probe's lease over preflight, backup, deployment, observation, debugging, the crash and the restoring
  of the original flash.
\<close>

subsection \<open>Leases over a workflow\<close>

text \<open>\<^verbatim>\<open>async with self.service.leases.lease(..)\<close> around steps of a workflow.\<close>

definition leased_workflow :: "workflow_env \<Rightarrow> string \<Rightarrow> string \<Rightarrow> 'a workflow \<Rightarrow> 'a workflow" where
  "leased_workflow we probe owner body =
     (\<lambda>ws. case reentrant (se_task (we_service we)) probe (sv_leases (ws_service ws)) of
        Some info \<Rightarrow> body ws
      | None \<Rightarrow> op_bind (call we (acquire_lease (we_service we) probe owner)) (\<lambda>info.
          op_finally body (\<lambda>ws. ws \<lparr> ws_service := release_lease (lease_id info) (ws_service ws) \<rparr>)) ws)"

subsection \<open>Deploying\<close>

definition build_artifact :: "build_result \<Rightarrow> string \<Rightarrow> service_error + artifact" where
  "build_artifact build kind =
     (case find (\<lambda>a. art_kind a = kind) (bld_artifacts build) of
        None \<Rightarrow> Inl (BackendFailed (''build produced no '' @ kind @ '' artifact''))
      | Some a \<Rightarrow> Inr a)"

definition read_json :: "giga_env \<Rightarrow> string list \<Rightarrow> json workflow" where
  "read_json ge path =
     op_bind (read_file path) (\<lambda>content.
     case ge_load ge (we_decode (ge_work ge) content) of
       None \<Rightarrow> op_raise (python_error ''JSONDecodeError'')
     | Some j \<Rightarrow> op_return j)"

definition build_manifest :: "giga_env \<Rightarrow> build_result \<Rightarrow> json workflow" where
  "build_manifest ge build =
     op_bind (op_lift (build_artifact build ''manifest'')) (\<lambda>a. read_json ge (path_parts (parse_path (art_path a))))"

definition json_key :: "json \<Rightarrow> string \<Rightarrow> service_error + json" where
  "json_key j key = (case j of JObj d \<Rightarrow> (case dict_get d key of None \<Rightarrow> Inl (python_error ''KeyError'') | Some v \<Rightarrow> Inr v)
     | _ \<Rightarrow> Inl (python_error ''TypeError''))"

definition flash_address :: "json \<Rightarrow> service_error + int" where
  "flash_address manifest =
     rbind (json_key manifest ''flash_start'') (\<lambda>v. case v of
       JStr s \<Rightarrow> (case parse_int0 s of None \<Rightarrow> Inl (python_error ''ValueError'') | Some n \<Rightarrow> Inr n)
     | _ \<Rightarrow> Inl (python_error ''TypeError''))"

record deploy_step =
  dps_manifest :: json
  dps_identity :: json
  dps_flash :: command_result

definition deploy_image :: "giga_env \<Rightarrow> string set \<Rightarrow> device_selector \<Rightarrow> build_result \<Rightarrow> deploy_step workflow" where
  "deploy_image ge given access build =
     op_bind (build_manifest ge build) (\<lambda>whole.
     op_bind (op_lift (json_key whole ''embedded_manifest'')) (\<lambda>manifest.
     op_bind (op_lift (json_key whole ''identity'')) (\<lambda>identity.
     op_bind (op_lift (flash_address manifest)) (\<lambda>address.
     op_bind (op_lift (build_artifact build ''bin'')) (\<lambda>binary.
     op_bind (giga_flash_binary ge given access (art_path binary) address) (\<lambda>r.
     op_return \<lparr> dps_manifest = manifest, dps_identity = identity, dps_flash = r \<rparr>))))))"

record deploy_result =
  dp_ok :: bool
  dp_selector :: device_selector
  dp_m4_build :: build_result
  dp_m7_build :: build_result
  dp_m4 :: deploy_step
  dp_m7 :: deploy_step

definition dual_core_deploy ::
    "giga_env \<Rightarrow> string set \<Rightarrow> device_selector \<Rightarrow> string \<Rightarrow> string \<Rightarrow> string \<Rightarrow> deploy_result workflow" where
  "dual_core_deploy ge given sel m7_sketch m4_sketch split =
     op_bind (call (ge_work ge) (resolve_selector_wait (ge_service ge) given sel)) (\<lambda>resolved.
     let access = at_core M7 resolved; g = resolved_given given in
     op_bind (build_firmware ge m4_sketch M4 (Some split) True) (\<lambda>m4.
     op_bind (build_firmware ge m7_sketch M7 (Some split) True) (\<lambda>m7.
     case sel_probe_serial access of
       None \<Rightarrow> op_raise AssertionFailed
     | Some probe \<Rightarrow>
         op_bind (leased_workflow (ge_work ge) probe ''giga_dual_core_deploy''
             (op_bind (deploy_image ge g access m4) (\<lambda>a. op_bind (deploy_image ge g access m7) (\<lambda>b. op_return (a, b))))) (\<lambda>(a, b).
         op_return \<lparr> dp_ok = (result_ok (bld_command m4) \<and> result_ok (bld_command m7) \<and> result_ok (dps_flash a) \<and> result_ok (dps_flash b)),
           dp_selector = access, dp_m4_build = m4, dp_m7_build = m7, dp_m4 = a, dp_m7 = b \<rparr>))))"

subsection \<open>The report of a validation\<close>

datatype step_details =
    PreflightDetails giga_preflight
  | BackupDetails artifact
  | BackupFailed json_object
  | DeployDetails deploy_result
  | ObserveDetails boot_observation
  | DebugDetails debug_result
  | CrashDetails crash_result
  | ExceptionDetails service_error
  | RestoreDetails restore_result
  | ReportDetails validation_summary

record fixture_step =
  fx_name :: string
  fx_ok :: bool
  fx_details :: step_details
  fx_operation_id :: "string option"
  fx_evidence :: "string list"

definition fixture_step_of :: "string \<Rightarrow> bool \<Rightarrow> step_details \<Rightarrow> fixture_step" where
  "fixture_step_of name ok details = \<lparr> fx_name = name, fx_ok = ok, fx_details = details, fx_operation_id = None, fx_evidence = [] \<rparr>"

record fixture_report =
  fr_run_id :: string
  fr_selector :: device_selector
  fr_steps :: "fixture_step list"
  fr_artifacts :: "artifact list"
  fr_restored :: bool
  fr_warnings :: "string list"

text \<open>\<^verbatim>\<open>ValidationReport.ok\<close>\<close>

definition fixture_report_ok :: "fixture_report \<Rightarrow> bool" where
  "fixture_report_ok r = list_all fx_ok (fr_steps r)"

definition ORIGINAL_FLASH :: "int \<times> int" where
  "ORIGINAL_FLASH = (0x08000000, 0x200000)"

definition backup_step :: "command_result \<Rightarrow> artifact option \<Rightarrow> fixture_step" where
  "backup_step r backup =
     \<lparr> fx_name = ''backup_original_flash'', fx_ok = (result_ok r \<and> backup \<noteq> None),
       fx_details = (case backup of None \<Rightarrow> BackupFailed (res_parsed r) | Some a \<Rightarrow> BackupDetails a),
       fx_operation_id = Some (res_operation_id r), fx_evidence = res_evidence_paths r \<rparr>"

subsection \<open>The validated steps\<close>

text \<open>Steps taken so far are kept when a later one raises: each workflow below returns the steps with its outcome. \<open>and_then\<close> runs the
  next part only after success.\<close>

type_synonym progress = "fixture_step list \<times> artifact list"

definition image_path :: "string \<Rightarrow> artifact list \<Rightarrow> service_error + string" where
  "image_path mark built =
     (case find (\<lambda>a. art_kind a = ''elf'' \<and> str_contains (art_path a) mark) built of
        None \<Rightarrow> Inl (python_error ''StopIteration'')
      | Some a \<Rightarrow> Inr (art_path a))"

definition step_then :: "progress \<Rightarrow> 'a workflow \<Rightarrow> ('a \<Rightarrow> progress \<Rightarrow> (service_error option \<times> progress) workflow) \<Rightarrow> (service_error option \<times> progress) workflow" where
  "step_then p m f = (\<lambda>ws. case m ws of (Inl e, ws1) \<Rightarrow> (Inr (Some e, p), ws1) | (Inr x, ws1) \<Rightarrow> f x p ws1)"

definition add_step :: "fixture_step \<Rightarrow> progress \<Rightarrow> progress" where
  "add_step s p = (fst p @ [s], snd p)"

text \<open>The body of the \<^verbatim>\<open>try\<close> block: the exception it ended with, if any, and the steps and artifacts it added.\<close>

definition validation_body ::
    "giga_env \<Rightarrow> string set \<Rightarrow> device_selector \<Rightarrow> string \<Rightarrow> string \<Rightarrow> progress \<Rightarrow> (service_error option \<times> progress) workflow" where
  "validation_body ge given resolved m7_sketch m4_sketch p0 =
     step_then p0 (dual_core_deploy ge given resolved m7_sketch m4_sketch ''75_25'') (\<lambda>deploy p.
     let p1 = add_step (fixture_step_of ''dual_core_deploy'' (dp_ok deploy) (DeployDetails deploy)) p;
         p = (fst p1, snd p1 @ bld_artifacts (dp_m4_build deploy) @ bld_artifacts (dp_m7_build deploy)) in
     step_then p (op_lift (rbind (image_path ''/m7-'' (snd p)) (\<lambda>a. rmap (Pair a) (image_path ''/m4-'' (snd p))))) (\<lambda>(m7_elf, m4_elf) p.
     step_then p (boot_and_observe ge given resolved (Some m7_elf) (Some m4_elf)) (\<lambda>observe p.
     let p = add_step (fixture_step_of ''boot_and_observe'' (bo_ok observe) (ObserveDetails observe)) p in
     step_then p (debug_fixture ge given resolved m7_elf) (\<lambda>debug p.
     let p = add_step (fixture_step_of ''debug_assertions'' (dbg_ok debug) (DebugDetails debug)) p in
     step_then p (crash_capture ge given resolved m7_elf) (\<lambda>crash p.
     op_return (None, add_step (fixture_step_of ''controlled_crash'' (cr_ok crash) (CrashDetails crash)) p))))))"

definition restore_step :: "service_error + restore_result \<Rightarrow> fixture_step" where
  "restore_step r =
     (case r of
        Inl e \<Rightarrow> fixture_step_of ''restore_original_flash'' False (ExceptionDetails e)
      | Inr x \<Rightarrow> fixture_step_of ''restore_original_flash'' (rst_ok x) (RestoreDetails x))"

definition attempt :: "('s, 'a) computation \<Rightarrow> ('s, service_error + 'a) computation" where
  "attempt m = (\<lambda>st. case m st of (r, st') \<Rightarrow> (Inr r, st'))"

definition report_step :: "validation_summary \<Rightarrow> fixture_step" where
  "report_step s =
     \<lparr> fx_name = ''validation_report'', fx_ok = vs_chain_ok s, fx_details = ReportDetails s, fx_operation_id = None,
       fx_evidence = map art_path (vs_artifacts s) \<rparr>"

text \<open>From a backup on: the body, the exception step, the restoring and the report.\<close>

definition validate_with_backup ::
    "giga_env \<Rightarrow> string set \<Rightarrow> device_selector \<Rightarrow> string \<Rightarrow> string \<Rightarrow> string \<Rightarrow> artifact \<Rightarrow> fixture_step list \<Rightarrow> fixture_report workflow" where
  "validate_with_backup ge given resolved m7_sketch m4_sketch run_id backup steps =
     op_bind (validation_body ge given resolved m7_sketch m4_sketch (steps, [backup])) (\<lambda>(raised, p).
     let p = (case raised of None \<Rightarrow> p | Some e \<Rightarrow> add_step (fixture_step_of ''validation_exception'' False (ExceptionDetails e)) p) in
     op_bind (attempt (giga_restore_backup ge given (at_core M7 resolved) (art_path backup) (fst ORIGINAL_FLASH) (art_sha256 backup))) (\<lambda>restore.
     let p = add_step (restore_step restore) p in
     op_bind (giga_validation_report (ge_work ge) (''GIGA fixture validation '' @ run_id) 1000) (\<lambda>report.
     op_return \<lparr> fr_run_id = run_id, fr_selector = resolved, fr_steps = fst p @ [report_step report],
       fr_artifacts = snd p @ vs_artifacts report,
       fr_restored = (case restore of Inl e \<Rightarrow> False | Inr x \<Rightarrow> rst_ok x), fr_warnings = [] \<rparr>)))"

definition stopped_report :: "string \<Rightarrow> device_selector \<Rightarrow> fixture_step list \<Rightarrow> string \<Rightarrow> fixture_report" where
  "stopped_report run_id resolved steps warning =
     \<lparr> fr_run_id = run_id, fr_selector = resolved, fr_steps = steps, fr_artifacts = [], fr_restored = False, fr_warnings = [warning] \<rparr>"

definition validate_fixture_locked ::
    "giga_env \<Rightarrow> string set \<Rightarrow> device_selector \<Rightarrow> string \<Rightarrow> string \<Rightarrow> fixture_report workflow" where
  "validate_fixture_locked ge given resolved m7_sketch m4_sketch =
     op_bind (fresh_uuid (ge_work ge)) (\<lambda>run_id.
     op_bind (hardware_preflight ge given resolved False) (\<lambda>preflight.
     let steps = [fixture_step_of ''hardware_preflight'' (pf_ok preflight) (PreflightDetails preflight)] in
     if \<not> pf_ok preflight then
       op_return (stopped_report run_id resolved steps ''validation stopped after failed non-destructive preflight'')
     else
       op_bind (giga_backup_flash ge given (at_core M7 resolved) (fst ORIGINAL_FLASH) (snd ORIGINAL_FLASH)) (\<lambda>(r, backup).
       let steps = steps @ [backup_step r backup] in
       case backup of
         Some a \<Rightarrow>
           if result_ok r then validate_with_backup ge given resolved m7_sketch m4_sketch run_id a steps
           else op_return (stopped_report run_id resolved steps ''Original flash could not be backed up.'')
       | None \<Rightarrow> op_return (stopped_report run_id resolved steps ''Original flash could not be backed up.''))))"

definition validate_fixture :: "giga_env \<Rightarrow> string set \<Rightarrow> device_selector \<Rightarrow> string \<Rightarrow> string \<Rightarrow> fixture_report workflow" where
  "validate_fixture ge given sel m7_sketch m4_sketch =
     op_bind (call (ge_work ge) (resolve_selector_wait (ge_service ge) given sel)) (\<lambda>resolved.
     case sel_probe_serial resolved of
       None \<Rightarrow> op_raise AssertionFailed
     | Some probe \<Rightarrow>
         leased_workflow (ge_work ge) probe ''giga_fixture_validation''
           (validate_fixture_locked ge (resolved_given given) resolved m7_sketch m4_sketch))"

end
