(* ===== verification/Giga_Contract.thy ===== *)
theory Giga_Contract
  imports Giga_Validation
begin

text \<open>
  Every workflow of the GIGA extension stays behind the gates of the core service: shown once for any relation that satisfies the
  contract of a workflow, so that the log, the identification and the leases need no separate proofs.
\<close>

subsection \<open>Control structures\<close>

context path_relation
begin

lemma over_map: "(\<And>x. over R (f x)) \<Longrightarrow> over R (op_map f xs)"
  by (induction xs) (auto intro!: over_bind over_basic)

lemma over_suppressed: "over R m \<Longrightarrow> over R (suppressed m)"
  by (simp add: over_def suppressed_def)

lemma over_attempt: "over R m \<Longrightarrow> over R (attempt m)"
  by (simp add: over_def attempt_def split: prod.split) (metis snd_conv)

end

context operation_contract
begin

lemma over_step_then:
  assumes m: "over (workflow_along R) m" and f: "\<And>x q. over (workflow_along R) (f x q)"
  shows "over (workflow_along R) (step_then p m f)"
proof (rule overI)
  fix ws
  obtain r ws1 where r: "m ws = (r, ws1)" by force
  then have "workflow_along R ws ws1" using overD [OF m, of ws] by simp
  then show "workflow_along R ws (snd (step_then p m f ws))"
    using r by (cases r) (auto simp: step_then_def intro: wf.chains overD [OF f])
qed

lemma over_leased_workflow:
  assumes e: "we_service we = env" and body: "over (workflow_along R) body"
  shows "over (workflow_along R) (leased_workflow we probe owner body)"
proof (rule overI)
  fix ws :: workflow_state
  let ?g = "\<lambda>info st. ws_service (snd (body \<lparr> ws_service = st, ws_files =
    (case reentrant (se_task env) probe (sv_leases (ws_service ws)) of None \<Rightarrow> we_world we (sv_tick st) (ws_files ws) | Some _ \<Rightarrow> ws_files ws) \<rparr>))"
  have "ws_service (snd (leased_workflow we probe owner body ws)) = leased_state env probe owner ?g (ws_service ws)"
    by (cases ws) (auto simp: leased_workflow_def leased_state_def e op_bind_def call_def op_finally_def split: option.split prod.split sum.split)
  moreover have "R st (?g info st)" for info st
    using overD [OF body] by (simp add: workflow_along_def) (metis workflow_state.select_convs(1))
  ultimately show "workflow_along R ws (snd (leased_workflow we probe owner body ws))"
    using leases [of ?g "ws_service ws" probe owner] by (simp add: workflow_along_def)
qed

lemma over_on_probe:
  assumes e: "ge_service ge = env" and a: "\<And>commands action d. request = Inr (commands, action, d) \<Longrightarrow> action = ''connect'' \<longrightarrow> commands = identity_commands"
  shows "over (workflow_along R) (on_probe ge given sel request)"
  unfolding on_probe_def e
  by (rule over_call) (auto simp: submit_def over_basic split: sum.split intro!: over_commander_commands dest!: a)

lemma over_resolved: "ge_service ge = env \<Longrightarrow> over (workflow_along R) (call (ge_work ge) (resolve_selector_wait (ge_service ge) given sel))"
  by (simp add: over_call over_resolve_wait)

lemma read_memory_action: "read_memory_request a c w = Inr (commands, action, d) \<Longrightarrow> action = ''read_memory''"
  by (auto simp: read_memory_request_def rbind_eq_Inr refuse_unless_def split: if_splits)

lemma write_memory_action: "write_memory_request a vs w = Inr (commands, action, d) \<Longrightarrow> action = ''write_memory''"
  by (auto simp: write_memory_request_def rbind_eq_Inr refuse_unless_def split: if_splits)

lemma over_prepare:
  assumes e: "ge_service ge = env"
  shows "over (workflow_along R) (prepare_giga_dual_core_debug ge given sel)"
proof -
  note probe = over_on_probe [OF e]
  have c: "over (workflow_along R) (on_probe ge g s (Inr connect_request))" for g s by (rule probe) (simp add: connect_request_def)
  have r: "over (workflow_along R) (on_probe ge g s (read_memory_request a n w))" for g s a n w by (rule probe) (drule read_memory_action, simp)
  have w: "over (workflow_along R) (on_probe ge g s (write_memory_request a vs n))" for g s a vs n
    by (rule probe) (drule write_memory_action, simp)
  show ?thesis
    unfolding prepare_giga_dual_core_debug_def Let_def
    by (intro wf.over_bind over_resolved e c r) (auto intro!: wf.over_bind wf.over_basic c w split: option.split)
qed

lemma over_preflight_giga:
  assumes e: "ge_service ge = env"
  shows "over (workflow_along R) (hardware_preflight ge given sel prepare)"
proof -
  have c: "over (workflow_along R) (on_probe ge g s (Inr connect_request))" for g s by (rule over_on_probe [OF e]) (simp add: connect_request_def)
  have s: "over (workflow_along R) (on_probe ge g s (Inr (raw_request cs d)))" for g s cs d by (rule over_on_probe [OF e]) (simp add: raw_request_def)
  show ?thesis
    unfolding hardware_preflight_def Let_def
    by (auto intro!: wf.over_bind over_resolved e wf.over_basic over_prepare c s over_inside over_ask split: prod.split)
qed

lemma over_elf_symbol: "over (workflow_along R) (elf_symbol ge path name)"
  unfolding elf_symbol_def by (intro over_workflow_steps) (auto simp: wf.over_basic split: sum.split option.split)

lemma over_boot:
  assumes e: "ge_service ge = env"
  shows "over (workflow_along R) (boot_and_observe ge given sel m7 m4)"
proof -
  have r: "over (workflow_along R) (on_probe ge g s (read_memory_request a n w))" for g s a n w
    by (rule over_on_probe [OF e]) (drule read_memory_action, simp)
  have reset: "over (workflow_along R) (on_probe ge g s (reset_request h t))" for g s h t
    by (rule over_on_probe [OF e]) (auto simp: reset_request_def refuse_unless_def split: if_splits)
  have serial: "over (workflow_along R) (call (ge_work ge) (serial_exchange (ge_service ge) g s w b d u))" for g s w b d u
    by (simp add: e over_call over_serial_exchange)
  show ?thesis
    unfolding boot_and_observe_def Let_def
    by (auto intro!: wf.over_bind over_resolved e wf.over_basic wf.over_map reset serial r over_elf_symbol split: prod.split)
qed

lemma over_tools: "over (workflow_along R) (run_tool ge argv backend)" "over (workflow_along R) (write_text we path content)"
  by (simp_all add: run_tool_def write_text_def over_call over_backend over_write)

lemma over_record:
  assumes e: "ge_service ge = env"
  shows "over (workflow_along R) (record_tool ge r action request)"
  by (simp add: record_tool_def e over_inside over_append)

lemma over_staging:
  assumes e: "ge_service ge = env"
  shows "over (workflow_along R) (stage_sketch ge sketch dir)"
proof -
  have "over (workflow_along R) (copy_tree ge a b)" for a b
    unfolding copy_tree_def by (intro wf.over_bind over_inside over_ask) (auto simp: wf.over_basic over_files split: option.split)
  moreover have "over (workflow_along R) (build_identity ge)"
    unfolding build_identity_def Let_def
    by (auto intro!: wf.over_bind over_tools over_inside over_ask wf.over_basic over_uuid split: prod.split)
  ultimately show ?thesis unfolding stage_sketch_def Let_def by (intro wf.over_bind over_tools wf.over_basic)
qed

lemma over_post_link:
  assumes e: "ge_service ge = env"
  shows "over (workflow_along R) (post_link ge dir properties)"
proof -
  have f: "over (workflow_along R) (finalize_file ge elf)" "over (workflow_along R) (verify_file ge elf)" for elf
    unfolding finalize_file_def verify_file_def by (auto intro!: over_workflow_steps split: prod.split)
  have g: "over (workflow_along R) (regenerate_flash_artifacts ge elf dir properties)"
    "over (workflow_along R) (generate_analysis_artifacts ge elf dir properties)" for elf
    unfolding regenerate_flash_artifacts_def generate_analysis_artifacts_def
    by (auto intro!: wf.over_bind wf.over_basic wf.over_each over_tools over_record e split: prod.split)
  show ?thesis unfolding post_link_def by (auto intro!: wf.over_bind wf.over_basic f g split: list.split prod.split)
qed

end

context artifact_contract
begin

lemma over_register_file:
  assumes e: "we_service we = env"
  shows "over (workflow_along R) (register_file we path kind)"
  unfolding register_file_def by (intro over_workflow_steps over_register [OF e])

lemma over_build:
  assumes e: "ge_service ge = env"
  shows "over (workflow_along R) (build_firmware ge sketch core split clean)"
proof -
  have b: "over (workflow_along R) (register_built ge path)" for path
    unfolding register_built_def by (auto intro!: over_workflow_steps over_register e)
  have p: "over (workflow_along R) (build_properties ge s c sp)" for s c sp
    unfolding build_properties_def by (intro wf.over_bind over_tools wf.over_basic)
  have c: "over (workflow_along R) (compile_sketch ge s st d co sp cl)" for s st d co sp cl
    unfolding compile_sketch_def by (intro wf.over_bind over_tools over_record e wf.over_basic)
  show ?thesis
    unfolding build_firmware_def Let_def
    by (auto intro!: over_workflow_steps over_staging e c p over_post_link wf.over_map b over_tools over_register_file split: prod.split)
qed

lemma over_deploy:
  assumes e: "ge_service ge = env"
  shows "over (workflow_along R) (dual_core_deploy ge given sel m7 m4 split)"
proof -
  have m: "over (workflow_along R) (build_manifest ge build)" for build
    unfolding build_manifest_def read_json_def
    by (auto intro!: over_workflow_steps split: option.split)
  have i: "over (workflow_along R) (deploy_image ge g access build)" for g access build
    unfolding deploy_image_def giga_flash_binary_def by (intro wf.over_bind m wf.over_basic over_flash e)
  show ?thesis
    unfolding dual_core_deploy_def Let_def
    by (auto intro!: wf.over_bind over_resolved e over_build wf.over_basic over_leased_workflow i split: option.split prod.split)
qed

lemma over_report:
  assumes e: "we_service we = env"
  shows "over (workflow_along R) (generate_report heading we title limit)"
proof -
  have c: "over R (collect_report we run_id title limit)" for run_id
    unfolding collect_report_def Let_def e by (auto intro!: over_bind over_basic over_ask over_capabilities split: prod.split)
  show ?thesis
    unfolding generate_report_def Let_def by (intro over_workflow_steps over_tools over_inside c over_register [OF e])
qed

end

context workflow_contract
begin

lemma over_gdb_run:
  assumes e: "ge_service ge = env"
  shows "over (workflow_along R) (gdb_run ge sid text)"
  by (simp add: gdb_run_def e over_call over_gdb_command)

lemma over_serial_line:
  assumes e: "ge_service ge = env"
  shows "over (workflow_along R) (serial_line ge given sel line)"
  by (simp add: serial_line_def e over_call over_serial_exchange)

lemma over_sessions:
  assumes e: "ge_service ge = env"
  shows "over (workflow_along R) (call (ge_work ge) (start_gdb (ge_service ge) g s elf))"
    "over (workflow_along R) (call (ge_work ge) (stop_gdb (ge_service ge) sid resume))"
  by (simp_all add: e over_call over_start_gdb over_stop_gdb)

lemma over_debug:
  assumes e: "ge_service ge = env"
  shows "over (workflow_along R) (debug_fixture ge given sel elf)"
proof -
  have "over (workflow_along R) (debug_session ge g resolved info)" for g resolved info
    unfolding debug_session_def Let_def
    by (intro wf.over_bind wf.over_map over_gdb_run [OF e] over_serial_line [OF e] wf.over_basic)
  then show ?thesis
    unfolding debug_fixture_def Let_def
    by (intro wf.over_bind over_resolved [OF e] over_sessions [OF e] wf.over_finally_do)
qed

lemma over_crash:
  assumes e: "ge_service ge = env"
  shows "over (workflow_along R) (crash_capture ge given sel elf)"
proof -
  have c: "over (workflow_along R) (crash_cleanup ge sid recovered)" for sid recovered
    unfolding crash_cleanup_def
    by (auto intro!: wf.over_bind wf.over_basic wf.over_each wf.over_suppressed over_gdb_run [OF e] over_sessions [OF e])
  have v: "over (workflow_along R) (crash_evidence ge g resolved sid)" for g resolved sid
    unfolding crash_evidence_def
    by (intro wf.over_bind wf.over_map over_gdb_run [OF e] over_serial_line [OF e] wf.over_basic)
  have "over (workflow_along R) (crash_session ge g resolved info)" for g resolved info
  proof (rule overI)
    fix ws
    have f: "over (workflow_along R) (finally_do m (crash_cleanup ge sid b))" if "over (workflow_along R) m" for m :: "crash_result workflow" and sid b
      using that c by (rule wf.over_finally_do)
    obtain x ws1 where x: "crash_evidence ge g resolved (info_session info) ws = (x, ws1)" by force
    then have "workflow_along R ws ws1" using overD [OF v, of ws g resolved "info_session info"] by simp
    then show "workflow_along R ws (snd (crash_session ge g resolved info ws))"
      using x overD [OF f [OF wf.over_basic(2)], of ws1] overD [OF f [OF wf.over_basic(3)], of ws1]
      by (auto simp: crash_session_def Let_def split: sum.split intro: wf.chains)
  qed
  then show ?thesis
    unfolding crash_capture_def Let_def by (intro wf.over_bind over_resolved [OF e] over_sessions [OF e])
qed

lemma over_validation:
  assumes e: "ge_service ge = env"
  shows "over (workflow_along R) (validate_fixture ge given sel m7 m4)"
proof -
  have body: "over (workflow_along R) (validation_body ge g resolved m7 m4 p)" for g resolved p
    unfolding validation_body_def Let_def
    by (auto intro!: over_step_then over_deploy over_boot over_debug over_crash wf.over_basic e split: prod.split)
  have rest: "over (workflow_along R) (validate_with_backup ge g resolved m7 m4 run_id backup steps)" for g resolved run_id backup steps
    unfolding validate_with_backup_def Let_def giga_validation_report_def giga_restore_backup_def
    by (auto intro!: wf.over_bind body wf.over_attempt over_restore over_report wf.over_basic e split: prod.split)
  have "over (workflow_along R) (validate_fixture_locked ge g resolved m7 m4)" for g resolved
    unfolding validate_fixture_locked_def Let_def giga_backup_flash_def
    by (auto intro!: wf.over_bind over_uuid over_preflight_giga over_backup rest wf.over_basic e split: prod.split option.split)
  then show ?thesis
    unfolding validate_fixture_def
    by (auto intro!: wf.over_bind over_resolved over_leased_workflow wf.over_basic e split: option.split)
qed

end

end
