(* ===== verification/Bridge_Deploy.thy ===== *)
theory Bridge_Deploy
  imports Giga_Contract Bridge_Service
begin

text \<open>
  Releasing and deploying the protocol bridge firmware: \<^verbatim>\<open>workflows.py\<close> of the bridge extension. A release is a HEX file with a
  manifest and a list of SHA-256 sums; a deployment checks it, keeps a copy under the state root, backs up the whole
  flash, writes the copy, and compares what the firmware says of itself with the manifest, restoring the backup when
  anything fails.
\<close>

subsection \<open>Authorizing a release\<close>

definition digest_text :: "string \<Rightarrow> bool" where
  "digest_text s = (length s = 64 \<and> list_all ascii_hex s)"

text \<open>The sums so far, extended by one line; \<open>None\<close> when the line is refused.\<close>

definition sum_line :: "(string, string) dict \<Rightarrow> string \<Rightarrow> (string, string) dict option" where
  "sum_line known line =
     (case split_words [] line of
        [digest, filename] \<Rightarrow>
          if \<not> digest_text digest \<or> filename \<noteq> path_name (path_parts (parse_path filename)) \<or> dict_has known filename then None
          else Some (dict_set known filename (map char_lower digest))
      | _ \<Rightarrow> None)"

fun parse_sums :: "(string, string) dict \<Rightarrow> string list \<Rightarrow> (string, string) dict option" where
  "parse_sums known [] = Some known"
| "parse_sums known (line # lines) = (case sum_line known line of None \<Rightarrow> None | Some known \<Rightarrow> parse_sums known lines)"

definition dict_equal :: "(string, string) dict \<Rightarrow> (string, string) dict \<Rightarrow> bool" where
  "dict_equal a b = (list_all (\<lambda>(k, v). dict_get b k = Some v) a \<and> list_all (\<lambda>(k, v). dict_get a k = Some v) b)"

definition expected_sums :: "workflow_env \<Rightarrow> files \<Rightarrow> string list list \<Rightarrow> (string, string) dict option" where
  "expected_sums we fs paths =
     foldl (\<lambda>d p. case (d, dict_get fs p) of (Some d, Some content) \<Rightarrow> Some (dict_set d (path_name p) (we_sha256 we content)) | _ \<Rightarrow> None) (Some []) paths"

definition release_checksums_authorize :: "workflow_env \<Rightarrow> files \<Rightarrow> string list \<Rightarrow> string list list \<Rightarrow> bool" where
  "release_checksums_authorize we fs checksum_path paths =
     (case (expected_sums we fs paths, dict_get fs checksum_path) of
        (Some expected, Some content) \<Rightarrow>
          (case parse_sums [] (splitlines [] (we_decode we content)) of None \<Rightarrow> False | Some authorized \<Rightarrow> dict_equal authorized expected)
      | _ \<Rightarrow> False)"

subsection \<open>Sources and staging\<close>

record bridge_deploy_env =
  bd_giga :: giga_env
  bd_bridge :: bridge_env
  bd_package_root :: "string list"

abbreviation bd_work :: "bridge_deploy_env \<Rightarrow> workflow_env" where
  "bd_work bd \<equiv> ge_work (bd_giga bd)"

abbreviation bd_service :: "bridge_deploy_env \<Rightarrow> service_env" where
  "bd_service bd \<equiv> we_service (bd_work bd)"

definition firmware_root :: "bridge_deploy_env \<Rightarrow> string list" where
  "firmware_root bd = bd_package_root bd @ [''firmware'', ''protocol_bridge'']"

definition resolved_root :: "bridge_deploy_env \<Rightarrow> service_error + string list" where
  "resolved_root bd = rcatch (fs_resolve (se_fs (bd_service bd)) True \<lparr> path_absolute = True, path_parts = firmware_root bd \<rparr>) (PathFailed \<circ> OsError)"

definition source_file :: "string list \<Rightarrow> string list \<Rightarrow> bool" where
  "source_file source p = (''release'' \<notin> set (drop (length source) p) \<and> path_name p \<noteq> ''BridgeBuildIdentity.generated.h'')"

definition protocol_bridge_source_sha256 :: "workflow_env \<Rightarrow> files \<Rightarrow> string list \<Rightarrow> string" where
  "protocol_bridge_source_sha256 we fs source =
     we_sha256 we (concat (map (\<lambda>(p, content). we_encode we (join_with ''/'' (drop (length source) p)) @ [0] @ content @ [0])
       (filter (\<lambda>(p, _). source_file source p) (sorted_files (files_under source fs)))))"

definition staged_path :: "workflow_env \<Rightarrow> string list \<Rightarrow> string \<Rightarrow> string list" where
  "staged_path we source expected = path_parts (set_state_root (se_settings (we_service we)))
     @ [''artifacts'', ''protocol-bridge-releases'', expected, path_name source]"

definition move_file :: "string list \<Rightarrow> string list \<Rightarrow> unit workflow" where
  "move_file src dst = op_put (\<lambda>ws. ws \<lparr> ws_files := (case dict_get (ws_files ws) src of None \<Rightarrow> ws_files ws
     | Some content \<Rightarrow> dict_set (dict_pop (ws_files ws) src) dst content) \<rparr>)"

definition unlink_file :: "string list \<Rightarrow> workflow_state \<Rightarrow> workflow_state" where
  "unlink_file path ws = ws \<lparr> ws_files := dict_pop (ws_files ws) path \<rparr>"

definition stage_authorized_release :: "workflow_env \<Rightarrow> string list \<Rightarrow> string \<Rightarrow> string list workflow" where
  "stage_authorized_release we source expected =
     (let destination = staged_path we source expected;
          mismatch = RequestRefused ''staged protocol bridge release hash mismatch'' in
      op_bind (file_exists destination) (\<lambda>exists.
      if exists then
        op_bind (read_file destination) (\<lambda>content.
        op_bind (op_check (we_sha256 we content = expected) mismatch) (\<lambda>_. op_return destination))
      else
        op_bind (fresh_uuid we) (\<lambda>u.
        let temporary = butlast destination @ [''.'' @ path_name destination @ ''.'' @ u @ ''.tmp''] in
        op_bind (op_finally
          (op_bind (read_file source) (\<lambda>content.
           op_bind (write_file we temporary content) (\<lambda>_.
           op_bind (read_file temporary) (\<lambda>copied.
           op_bind (op_check (we_sha256 we copied = expected) mismatch) (\<lambda>_.
           move_file temporary destination)))))
          (unlink_file temporary)) (\<lambda>_. op_return destination))))"

subsection \<open>Building a release\<close>

definition RELEASE_EPOCH :: int where "RELEASE_EPOCH = 1784937600"
definition RELEASE_TIMESTAMP :: string where "RELEASE_TIMESTAMP = ''2026-07-25T00:00:00Z''"
definition BRIDGE_FIRMWARE_VERSION :: string where "BRIDGE_FIRMWARE_VERSION = ''1.0.1''"
definition RELEASE_OPTIONS :: string where "RELEASE_OPTIONS = ''target_core=cm7,split=75_25''"

definition release_header :: "string \<Rightarrow> string \<Rightarrow> string" where
  "release_header build_id source_sha256 = ''#pragma once'' @ [CHR 0x0A] @ define_line ''BRIDGE_FIRMWARE_VERSION'' BRIDGE_FIRMWARE_VERSION
     @ ''#define BRIDGE_WIRE_VERSION '' @ show_int BRIDGE_WIRE_VERSION @ [CHR 0x0A] @ define_line ''BRIDGE_BUILD_ID'' build_id
     @ define_line ''BRIDGE_BUILD_TIMESTAMP'' RELEASE_TIMESTAMP @ define_line ''BRIDGE_SOURCE_SHA256'' source_sha256"

definition release_manifest :: "bridge_deploy_env \<Rightarrow> string \<Rightarrow> string \<Rightarrow> artifact \<Rightarrow> json" where
  "release_manifest bd build_id source_sha256 hex = JObj
     [(''schema_version'', JInt 1), (''firmware_version'', JStr BRIDGE_FIRMWARE_VERSION), (''wire_version'', JInt BRIDGE_WIRE_VERSION),
      (''build_id'', JStr build_id), (''build_timestamp'', JStr RELEASE_TIMESTAMP), (''source_date_epoch'', JInt RELEASE_EPOCH),
      (''source_sha256'', JStr source_sha256), (''fqbn'', JStr (ge_fqbn (bd_giga bd))), (''board_options'', JStr RELEASE_OPTIONS),
      (''arduino_cli'', JStr ''1.5.1''), (''arduino_core'', JStr ''arduino:mbed_giga@4.6.0''),
      (''libraries'', JObj [(''Arduino_USBHostMbed5'', JStr ''0.3.1''), (''ArduinoBLE'', JStr ''2.1.0''), (''Arduino_SpiNINA'', JStr ''0.0.2'')]),
      (''hex'', JObj [(''filename'', JStr ''protocol_bridge_m7.hex''), (''sha256'', JStr (art_sha256 hex)), (''size'', JInt (int (art_size hex)))])]"

definition sums_text :: "artifact \<Rightarrow> artifact \<Rightarrow> string" where
  "sums_text hex manifest = art_sha256 hex @ ''  protocol_bridge_m7.hex'' @ [CHR 0x0A]
     @ art_sha256 manifest @ ''  protocol_bridge_manifest.json'' @ [CHR 0x0A]"

definition copy_file :: "workflow_env \<Rightarrow> string list \<Rightarrow> string list \<Rightarrow> unit workflow" where
  "copy_file we src dst = op_bind (read_file src) (\<lambda>content. write_file we dst content)"

definition application_only :: "string list \<Rightarrow> bool" where
  "application_only p = (\<not> str_contains (path_name p) ''.with_bootloader.'')"

text \<open>The bundle of a successful build: the registered artifacts and whether the HEX file equals the checked-in one.\<close>

definition bundle_release ::
    "bridge_deploy_env \<Rightarrow> string list \<Rightarrow> string list \<Rightarrow> string list \<Rightarrow> string \<Rightarrow> string \<Rightarrow> (artifact list \<times> bool) workflow" where
  "bundle_release bd dir bundle checked_in build_id source_sha256 =
     (let we = bd_work bd; outputs = (\<lambda>ws. map fst (sorted_files (files_in dir (ws_files ws)))) in
      op_bind (op_get (\<lambda>ws. filter (\<lambda>p. has_extension ''.hex'' p \<and> application_only p) (outputs ws))) (\<lambda>hexes.
      case hexes of
        [] \<Rightarrow> op_raise (BackendFailed ''Arduino build succeeded without an application-only HEX image'')
      | generated # _ \<Rightarrow>
          let release_hex = bundle @ [''protocol_bridge_m7.hex'']; manifest_path = bundle @ [''protocol_bridge_manifest.json''];
              sums_path = bundle @ [''SHA256SUMS''] in
          op_bind (copy_file we generated release_hex) (\<lambda>_.
          op_bind (op_get (\<lambda>ws. filter (\<lambda>p. application_only p \<and> path_suffix p \<in> {''.elf'', ''.hex'', ''.bin'', ''.map''}) (outputs ws))) (\<lambda>kept.
          op_bind (op_map (\<lambda>p. register_file we p (''protocol-bridge-'' @ drop 1 (path_suffix p))) kept) (\<lambda>built.
          op_bind (registerable_artifact we release_hex ''protocol-bridge-release-hex'') (\<lambda>hex.
          let hex = hex \<lparr> art_metadata := [(''firmware_version'', JStr BRIDGE_FIRMWARE_VERSION), (''wire_version'', JInt BRIDGE_WIRE_VERSION),
            (''source_sha256'', JStr source_sha256), (''build_id'', JStr build_id)] \<rparr> in
          op_bind (register_in_store we hex) (\<lambda>_.
          op_bind (write_text we manifest_path (we_dump we (release_manifest bd build_id source_sha256 hex) @ [CHR 0x0A])) (\<lambda>_.
          op_bind (register_file we manifest_path ''protocol-bridge-release-manifest'') (\<lambda>manifest.
          op_bind (write_text we sums_path (sums_text hex manifest)) (\<lambda>_.
          op_bind (register_file we sums_path ''protocol-bridge-release-checksums'') (\<lambda>sums_artifact.
          op_bind (op_get (\<lambda>ws. case dict_get (ws_files ws) checked_in of None \<Rightarrow> False | Some b \<Rightarrow> dict_get (ws_files ws) release_hex = Some b)) (\<lambda>reproducible.
          op_return (built @ [hex, manifest, sums_artifact], reproducible)))))))))))))"

record release_result =
  rel_source_sha256 :: string
  rel_directory :: "string list"
  rel_command :: command_result
  rel_artifacts :: "artifact list"
  rel_checked_in :: string
  rel_reproducible :: bool

text \<open>A build that differs from the checked-in release counts as failed when the comparison was asked for.\<close>

definition judge_release :: "bool \<Rightarrow> string \<Rightarrow> string list \<Rightarrow> string list \<Rightarrow> bool \<Rightarrow> command_result \<Rightarrow> command_result" where
  "judge_release verify source_sha256 release_hex checked_in reproducible r =
     (let r = r \<lparr> res_parsed := dict_update (res_parsed r) [(''source_sha256'', JStr source_sha256), (''generated_hex'', JStr (show_path release_hex)),
            (''checked_in_hex'', JStr (show_path checked_in)), (''reproducible'', JBool reproducible)] \<rparr> in
      if verify \<and> \<not> reproducible
      then r \<lparr> res_return_code := Some 1, res_stderr := ''generated protocol bridge HEX differs from the checked-in release'' \<rparr> else r)"

definition stage_sources :: "bridge_deploy_env \<Rightarrow> string list \<Rightarrow> string list \<Rightarrow> unit workflow" where
  "stage_sources bd source staged =
     op_bind (inside (ask (\<lambda>n. ge_copy_fails (bd_giga bd) n source))) (\<lambda>failure.
     case failure of Some msg \<Rightarrow> op_raise (BackendFailed msg)
       | None \<Rightarrow> op_put (\<lambda>ws. ws \<lparr> ws_files := foldl (\<lambda>fs (p, b). dict_set fs (staged @ drop (length source) p) b) (ws_files ws)
           (filter (\<lambda>(p, _). ''release'' \<notin> set (drop (length source) p)) (files_under source (ws_files ws))) \<rparr>))"

definition build_protocol_bridge_release :: "bridge_deploy_env \<Rightarrow> bool \<Rightarrow> release_result workflow" where
  "build_protocol_bridge_release bd verify =
     (let we = bd_work bd in
      op_bind (op_lift (resolved_root bd)) (\<lambda>source.
      op_bind (op_get (\<lambda>ws. protocol_bridge_source_sha256 we (ws_files ws) source)) (\<lambda>source_sha256.
      op_bind (fresh_uuid we) (\<lambda>u.
      let root_dir = path_parts (set_state_root (se_settings (bd_service bd))) @ [''artifacts'', ''protocol-bridge-builds'', take 16 source_sha256 @ ''-'' @ u];
          staged = root_dir @ [''source'', ''protocol_bridge'']; dir = root_dir @ [''output'']; bundle = root_dir @ [''release''];
          checked_in = source @ [''release'', ''protocol_bridge_m7.hex''];
          build_id = ''protocol-bridge-'' @ BRIDGE_FIRMWARE_VERSION @ ''-'' @ take 12 source_sha256 in
      op_bind (stage_sources bd source staged) (\<lambda>_.
      op_bind (write_text we (staged @ [''BridgeBuildIdentity.generated.h'']) (release_header build_id source_sha256)) (\<lambda>_.
      op_bind (run_tool (bd_giga bd) [ge_arduino_cli (bd_giga bd), ''compile'', ''--fqbn'', ge_fqbn (bd_giga bd), ''--board-options'', RELEASE_OPTIONS,
          ''--output-dir'', show_path dir, ''--export-binaries'', ''--clean'', show_path staged] ''arduino-cli-protocol-bridge-release'') (\<lambda>command.
      op_bind (if result_ok command then
          op_bind (bundle_release bd dir bundle checked_in build_id source_sha256) (\<lambda>(built, reproducible).
          op_return (built, reproducible, judge_release verify source_sha256 (bundle @ [''protocol_bridge_m7.hex'']) checked_in reproducible command))
        else op_return ([], False, command)) (\<lambda>(built, reproducible, command).
      op_bind (record_tool (bd_giga bd) command ''build_protocol_bridge_release'' (Some
          [(''source'', JStr (show_path source)), (''source_sha256'', JStr source_sha256), (''release_epoch'', JInt RELEASE_EPOCH),
           (''fqbn'', JStr (ge_fqbn (bd_giga bd))), (''board_options'', JStr RELEASE_OPTIONS)])) (\<lambda>_.
      op_return \<lparr> rel_source_sha256 = source_sha256, rel_directory = root_dir, rel_command = command, rel_artifacts = built,
        rel_checked_in = show_path checked_in, rel_reproducible = reproducible \<rparr>)))))))))"

subsection \<open>Deploying\<close>

record deploy_failure =
  df_reason :: service_error
  df_backup :: artifact
  df_restore :: "service_error + restore_result"

record bridge_deployment =
  bdp_selector :: device_selector
  bdp_preflight :: giga_preflight
  bdp_backup :: artifact
  bdp_firmware :: artifact
  bdp_flash :: command_result
  bdp_handshake :: json_object

text \<open>\<open>Inl\<close> is a \<^verbatim>\<open>ProtocolBridgeDeployError\<close>.\<close>

type_synonym deploy_outcome = "deploy_failure + bridge_deployment"

fun bridge_error :: "bridge_raised \<Rightarrow> service_error" where
  "bridge_error (FromService e) = e"
| "bridge_error (RequestFailed msg) = BackendFailed msg"
| "bridge_error _ = BackendFailed ''protocol bridge request failed''"

definition bridge_handshake :: "bridge_deploy_env \<Rightarrow> string set \<Rightarrow> device_selector \<Rightarrow> json_object workflow" where
  "bridge_handshake bd given sel =
     call (bd_work bd) (\<lambda>st. case bridge_status (bd_service bd) (bd_bridge bd) given sel st of
       (Inl e, st') \<Rightarrow> (Inl (bridge_error e), st') | (Inr (status, _), st') \<Rightarrow> (Inr status, st'))"

record release_files =
  rf_hex :: "string list"
  rf_manifest :: json_object
  rf_sha256 :: string

definition release_field :: "json_object \<Rightarrow> string \<Rightarrow> service_error + json" where
  "release_field d key = (case dict_get d key of None \<Rightarrow> Inl (python_error ''KeyError'') | Some v \<Rightarrow> Inr v)"

definition manifest_hex_sha256 :: "json_object \<Rightarrow> service_error + json" where
  "manifest_hex_sha256 manifest = rmap (\<lambda>d. lookup d ''sha256'') (json_dict (get_or manifest ''hex'' (JObj [])))"

text \<open>The checks of the packaged release.\<close>

definition check_release :: "bridge_deploy_env \<Rightarrow> release_files workflow" where
  "check_release bd =
     (let we = bd_work bd in
      op_bind (op_lift (resolved_root bd)) (\<lambda>source.
      let release = source @ [''release'']; hex_path = release @ [''protocol_bridge_m7.hex''];
          manifest_path = release @ [''protocol_bridge_manifest.json'']; sums_path = release @ [''SHA256SUMS''] in
      op_bind (each (\<lambda>p. op_bind (file_exists p) (\<lambda>exists. op_check exists (BackendFailed (''protocol bridge release file is missing: '' @ show_path p))))
         [hex_path, manifest_path, sums_path]) (\<lambda>_.
      op_bind (read_json (bd_giga bd) manifest_path) (\<lambda>j.
      op_bind (op_get (\<lambda>ws. protocol_bridge_source_sha256 we (ws_files ws) source)) (\<lambda>expected_source.
      op_bind (read_file hex_path) (\<lambda>content.
      op_bind (op_lift (json_dict j)) (\<lambda>manifest.
      op_bind (require (lookup manifest ''source_sha256'' = JStr expected_source) ''protocol bridge release source hash is stale'') (\<lambda>_.
      op_bind (op_lift (manifest_hex_sha256 manifest)) (\<lambda>hex_sha.
      op_bind (require (hex_sha = JStr (we_sha256 we content)) ''protocol bridge release HEX hash does not match its manifest'') (\<lambda>_.
      op_bind (op_get (\<lambda>ws. release_checksums_authorize we (ws_files ws) sums_path [hex_path, manifest_path])) (\<lambda>authorized.
      op_bind (require authorized ''protocol bridge SHA256SUMS does not authorize the release'') (\<lambda>_.
      op_return \<lparr> rf_hex = hex_path, rf_manifest = manifest, rf_sha256 = we_sha256 we content \<rparr>)))))))))))) "

definition identity_matches :: "json_object \<Rightarrow> json_object \<Rightarrow> service_error + bool" where
  "identity_matches handshake manifest =
     rbind (release_field manifest ''firmware_version'') (\<lambda>fw.
     if lookup handshake ''firmware_version'' \<noteq> fw then Inr False
     else rbind (release_field manifest ''wire_version'') (\<lambda>wire.
     if lookup handshake ''wire_version'' \<noteq> wire then Inr False
     else rmap (\<lambda>src. lookup handshake ''source_sha256'' = src) (release_field manifest ''source_sha256'')))"

text \<open>The \<^verbatim>\<open>try\<close> block: write the staged HEX file and shake hands.\<close>

definition flash_release ::
    "bridge_deploy_env \<Rightarrow> string set \<Rightarrow> device_selector \<Rightarrow> string list \<Rightarrow> json_object \<Rightarrow> (command_result \<times> artifact \<times> json_object) workflow" where
  "flash_release bd given resolved staged manifest =
     (let we = bd_work bd in
      op_bind (giga_flash_and_verify (bd_giga bd) given resolved (show_path staged)) (\<lambda>flash.
      op_bind (op_check (result_ok flash) (BackendFailed ''protocol bridge flashing failed'')) (\<lambda>_.
      op_bind (registerable_artifact we staged ''protocol-bridge-release-hex'') (\<lambda>firmware.
      let firmware = firmware \<lparr> art_metadata := dict_update (art_metadata firmware) manifest \<rparr> in
      op_bind (register_in_store we firmware) (\<lambda>_.
      op_bind (bridge_handshake bd given resolved) (\<lambda>handshake.
      op_bind (op_lift (identity_matches handshake manifest)) (\<lambda>same.
      op_bind (op_check same (BackendFailed ''flashed protocol bridge identity does not match the release'')) (\<lambda>_.
      op_return (flash, firmware, handshake)))))))))"

definition deploy_with_backup ::
    "bridge_deploy_env \<Rightarrow> string set \<Rightarrow> device_selector \<Rightarrow> giga_preflight \<Rightarrow> string list \<Rightarrow> json_object \<Rightarrow> artifact \<Rightarrow> deploy_outcome workflow" where
  "deploy_with_backup bd given resolved preflight staged manifest backup =
     op_bind (attempt (flash_release bd given resolved staged manifest)) (\<lambda>r.
     case r of
       Inr (flash, firmware, handshake) \<Rightarrow> op_return (Inr \<lparr> bdp_selector = resolved, bdp_preflight = preflight, bdp_backup = backup,
          bdp_firmware = firmware, bdp_flash = flash, bdp_handshake = handshake \<rparr>)
     | Inl e \<Rightarrow>
         op_bind (attempt (giga_restore_backup (bd_giga bd) given resolved (art_path backup) (fst ORIGINAL_FLASH) (art_sha256 backup))) (\<lambda>restore.
         op_return (Inl \<lparr> df_reason = e, df_backup = backup, df_restore = restore \<rparr>)))"

definition deploy_protocol_bridge :: "bridge_deploy_env \<Rightarrow> string set \<Rightarrow> device_selector \<Rightarrow> deploy_outcome workflow" where
  "deploy_protocol_bridge bd given sel =
     (let we = bd_work bd; g = resolved_given given in
      op_bind (call we (resolve_selector_wait (bd_service bd) given sel)) (\<lambda>resolved.
      op_bind (require (sel_target_profile resolved = Some (be_profile (bd_bridge bd)) \<and> sel_core resolved = Some (be_core (bd_bridge bd)))
         ''the protocol bridge firmware runs on the GIGA M7'') (\<lambda>_.
      op_bind (check_release bd) (\<lambda>release.
      op_bind (stage_authorized_release we (rf_hex release) (rf_sha256 release)) (\<lambda>staged.
      op_bind (hardware_preflight (bd_giga bd) g resolved True) (\<lambda>preflight.
      op_bind (op_check (pf_ok preflight) (BackendFailed ''protocol bridge deployment stopped after failed preflight'')) (\<lambda>_.
      case sel_probe_serial resolved of
        None \<Rightarrow> op_raise AssertionFailed
      | Some probe \<Rightarrow>
          leased_workflow we probe ''deploy_protocol_bridge''
            (op_bind (giga_backup_flash (bd_giga bd) g resolved (fst ORIGINAL_FLASH) (snd ORIGINAL_FLASH)) (\<lambda>(r, backup).
             case backup of
               Some a \<Rightarrow> if result_ok r then deploy_with_backup bd g resolved preflight staged (rf_manifest release) a
                 else op_raise (BackendFailed ''protocol bridge deployment requires a readable flash backup'')
             | None \<Rightarrow> op_raise (BackendFailed ''protocol bridge deployment requires a readable flash backup'')))))))))) "

end
