(* ===== verification/Workflow_Promises.thy ===== *)
theory Workflow_Promises
  imports Workflows
begin

text \<open>
  What the workflows promise: which command lists reached the probe when one returns, what a restore was authorised by, and
  which bytes a compared region holds.
\<close>

subsection \<open>The commands of an operation that returned\<close>

lemma append_returns_trace: "append env r action probe d request st = (Inr u, st') \<Longrightarrow> sv_trace st' = sv_trace st"
  by (rule append_trace)

lemma capabilities_trace: "capabilities env st = (x, st') \<Longrightarrow> sv_trace st' = sv_trace st"
  by (auto simp: capabilities_def op_bind_def ask_def split: prod.splits option.splits)

lemma resolve_wait_trace: "resolve_wait n env given sel st = (x, st') \<Longrightarrow> sv_trace st' = sv_trace st"
proof (induction n arbitrary: st)
  case 0
  then show ?case
    by (auto simp: resolve_selector_def op_bind_def dest!: capabilities_trace split: prod.splits sum.splits)
next
  case (Suc n)
  obtain y st1 where r: "resolve_selector env given sel st = (y, st1)" by force
  then have "sv_trace st1 = sv_trace st"
    by (auto simp: resolve_selector_def op_bind_def dest!: capabilities_trace split: prod.splits sum.splits)
  then show ?case using Suc r by (auto split: sum.splits service_error.splits)
qed

lemma resolve_selector_wait_trace: "resolve_selector_wait env given sel st = (x, st') \<Longrightarrow> sv_trace st' = sv_trace st"
  by (simp add: resolve_selector_wait_def resolve_wait_trace)

lemma with_lease_returns:
  assumes "with_lease env probe owner body st = (Inr x, st')"
  obtains info st1 st2 where "sv_trace st1 = sv_trace st" "body info st1 = (Inr x, st2)" "sv_trace st' = sv_trace st2"
proof (cases "reentrant (se_task env) probe (sv_leases st)")
  case (Some info)
  then show ?thesis using assms that [of st info st'] by (simp add: with_lease_def)
next
  case None
  then obtain info st1 where a: "acquire_lease env probe owner st = (Inr info, st1)"
      "op_finally (body info) (release_lease (lease_id info)) st1 = (Inr x, st')"
    using assms by (auto simp: with_lease_def op_bind_Inr)
  have "sv_trace st1 = sv_trace st"
    using a(1) by (auto simp: acquire_lease_def op_bind_def ask_def split: prod.splits sum.splits)
  then show ?thesis using a(2) that [of st1 info] by (auto simp: op_finally_def release_lease_def split: prod.splits)
qed

lemma identity_preflight_trace:
  assumes "identity_preflight env sel lid st = (Inr identity, st')"
  obtains r where "sv_trace st' = sv_trace st @ [(identity_commands, sel, Some r)]"
proof -
  obtain r st1 where run: "run_commander env identity_commands sel st = (Inr r, st1)"
    using assms by (auto simp: identity_preflight_def op_bind_Inr)
  then have "sv_trace st' = sv_trace st1"
    using assms by (auto simp: identity_preflight_def op_bind_Inr op_lift_def op_return_def Let_def dest!: append_trace)
  then show ?thesis using run_commander_returns [OF run] that by simp
qed

text \<open>\<open>ran commands r t t'\<close>: the trace grew by an identification and the command list, with a result of the same success.\<close>

definition ran ::
    "string list \<Rightarrow> bool \<Rightarrow> (string list \<times> device_selector \<times> command_result option) list \<Rightarrow> (string list \<times> device_selector \<times> command_result option) list \<Rightarrow> bool" where
  "ran commands ok t t' \<longleftrightarrow>
     (\<exists>sel i r. t' = t @ [(identity_commands, sel, Some i), (commands, sel, Some r)] \<and> result_ok r = ok)"

lemma commander_commands_ran:
  assumes "commander_commands env given sel commands action d st = (Inr r, st')" "action \<noteq> ''connect''"
  shows "ran commands (result_ok r) (sv_trace st) (sv_trace st')"
proof -
  obtain resolved st1 where s: "resolve_selector_wait env given sel st = (Inr resolved, st1)"
    using assms(1) by (auto simp: commander_commands_def op_bind_Inr)
  then obtain probe where p: "sel_probe_serial resolved = Some probe"
    using assms by (auto simp: commander_commands_def op_bind_returns op_raise_def split: option.splits)
  obtain r0 identity st2 where w: "with_lease env probe action (guarded_body env resolved commands) st1 = (Inr (r0, identity), st2)"
    and e: "sv_trace st' = sv_trace st2" "result_ok r = result_ok r0"
    using assms s p
    by (fastforce simp: commander_commands_def op_bind_returns op_bind_Inr Let_def op_return_def result_ok_def attach_identities_def
        parsed_default_def dest: append_trace)
  obtain info sta stb where b: "sv_trace sta = sv_trace st1" "guarded_body env resolved commands info sta = (Inr (r0, identity), stb)" "sv_trace st2 = sv_trace stb"
    using with_lease_returns [OF w] by blast
  obtain i stc r1 where c: "identity_preflight env resolved (lease_id info) sta = (Inr i, stc)" "run_commander env commands resolved stc = (Inr r1, stb)"
    "r0 = with_session (lease_id info) r1"
    using b(2) by (auto simp: guarded_body_def op_bind_Inr op_lift_def op_return_def split: sum.splits)
  obtain j where "sv_trace stc = sv_trace sta @ [(identity_commands, resolved, Some j)]" using identity_preflight_trace [OF c(1)] .
  then have "sv_trace st' = sv_trace st @ [(identity_commands, resolved, Some j), (commands, resolved, Some r1)]"
    using run_commander_returns [OF c(2)] b e(1) resolve_selector_wait_trace [OF s] by simp
  moreover have "result_ok r1 = result_ok r" using e(2) c(3) by (simp add: with_session_def result_ok_def)
  ultimately show ?thesis unfolding ran_def by blast
qed

subsection \<open>Steps of workflows\<close>

lemma call_Inr: "call we m ws = (Inr r, ws') \<longleftrightarrow>
    (\<exists>st. m (ws_service ws) = (Inr r, st) \<and> ws' = \<lparr> ws_service = st, ws_files = we_world we (sv_tick st) (ws_files ws) \<rparr>)"
  by (auto simp: call_def split: prod.splits)

lemma inside_Inr: "inside m ws = (Inr r, ws') \<longleftrightarrow> (\<exists>st. m (ws_service ws) = (Inr r, st) \<and> ws' = ws \<lparr> ws_service := st \<rparr>)"
  by (auto simp: inside_def split: prod.splits)

lemma require_Inr: "require c msg ws = (Inr u, ws') \<longleftrightarrow> c \<and> ws' = ws"
  by (auto simp: require_def op_check_def op_return_def op_raise_def)

lemma read_file_Inr: "read_file path ws = (Inr b, ws') \<longleftrightarrow> dict_get (ws_files ws) path = Some b \<and> ws' = ws"
  by (auto simp: read_file_def split: option.splits)

lemma resolve_path_Inr:
  "resolve_path we raw ws = (Inr path, ws') \<longleftrightarrow>
     resolve_allowed_path (se_settings (we_service we)) (se_fs (we_service we)) raw True = Inr path \<and> ws' = ws"
  by (auto simp: resolve_path_def op_lift_def rcatch_eq_Inr)

lemma op_return_Inr: "op_return x ws = (Inr y, ws') \<longleftrightarrow> y = x \<and> ws' = ws"
  by (auto simp: op_return_def)

lemma ask_Inr: "ask f st = (Inr x, st') \<longleftrightarrow> x = f (sv_tick st) \<and> st' = st \<lparr> sv_tick := Suc (sv_tick st) \<rparr>"
  by (auto simp: ask_def)

lemmas workflow_steps = op_bind_Inr call_Inr inside_Inr require_Inr read_file_Inr resolve_path_Inr op_return_Inr ask_Inr

lemma registerable_Inr:
  "registerable_artifact we path kind ws = (Inr a, ws') \<longleftrightarrow>
     (\<exists>content. dict_get (ws_files ws) path = Some content
        \<and> a = \<lparr> art_path = show_path path, art_sha256 = we_sha256 we content, art_size = length content, art_kind = kind,
            art_created_at = se_now (we_service we) (sv_tick (ws_service ws)), art_metadata = [] \<rparr>
        \<and> ws' = ws \<lparr> ws_service := ws_service ws \<lparr> sv_tick := Suc (sv_tick (ws_service ws)) \<rparr> \<rparr>)"
  by (auto simp: registerable_artifact_def workflow_steps)

lemma register_in_store_Inr:
  "register_in_store we a ws = (Inr u, ws') \<longleftrightarrow>
     ws' = ws \<lparr> ws_service := ws_service ws \<lparr> sv_store := register_artifact (se_store (we_service we)) a (sv_store (ws_service ws)) \<rparr> \<rparr>"
  by (auto simp: register_in_store_def inside_Inr op_put_def)

abbreviation commands_of :: "workflow_state \<Rightarrow> (string list \<times> device_selector \<times> command_result option) list" where
  "commands_of ws \<equiv> sv_trace (ws_service ws)"

abbreviation allowed_file :: "workflow_env \<Rightarrow> string \<Rightarrow> string list \<Rightarrow> bool" where
  "allowed_file we raw path \<equiv> resolve_allowed_path (se_settings (we_service we)) (se_fs (we_service we)) raw True = Inr path"

definition flash_commands :: "string list \<Rightarrow> int \<Rightarrow> string list" where
  "flash_commands path address =
     [''Reset'', ''LoadBin '' @ quoted path @ '', '' @ hex_address address, ''VerifyBin '' @ quoted path @ '', '' @ hex_address address, ''Reset'', ''Go'']"

definition verify_commands :: "string list \<Rightarrow> int \<Rightarrow> string list" where
  "verify_commands path address = [''VerifyBin '' @ quoted path @ '', '' @ hex_plain address]"

lemma flash_binary_ran:
  assumes "flash_binary we given sel raw address ws = (Inr r, ws')"
  obtains path where "allowed_file we raw path" "path_suffix path = ''.bin''" "0 \<le> address"
    "ran (flash_commands path address) (result_ok r) (commands_of ws) (commands_of ws')"
proof -
  obtain path r0 st where p: "allowed_file we raw path" "path_suffix path = ''.bin''" "0 \<le> address"
    "commander_commands (we_service we) given sel (flash_commands path address) ''flash_binary'' True (ws_service ws) = (Inr r0, st)"
    "commands_of ws' = sv_trace st" "result_ok r = result_ok r0"
    using assms by (auto simp: flash_binary_def workflow_steps flash_commands_def registerable_Inr register_in_store_Inr with_hash_def result_ok_def)
  then show ?thesis using commander_commands_ran [OF p(4)] that by simp
qed

lemma verify_binary_ran:
  assumes "verify_binary we given sel raw address ws = (Inr r, ws')"
  obtains path where "allowed_file we raw path" "path_suffix path = ''.bin''" "0 \<le> address"
    "ran (verify_commands path address) (result_ok r) (commands_of ws) (commands_of ws')"
proof -
  obtain path st where p: "allowed_file we raw path" "path_suffix path = ''.bin''" "0 \<le> address"
    "commander_commands (we_service we) given sel (verify_commands path address) ''verify_binary'' False (ws_service ws) = (Inr r, st)"
    "commands_of ws' = sv_trace st"
    using assms by (auto simp: verify_binary_def call_Inr verify_binary_request_def submit_def verify_commands_def quoted_def op_raise_def
        rbind_eq_Inr rcatch_eq_Inr refuse_unless_def split: sum.splits if_splits)
  then show ?thesis using commander_commands_ran [OF p(4)] that by simp
qed

subsection \<open>Restoring needs authorization\<close>

definition authorised :: "workflow_env \<Rightarrow> string \<Rightarrow> string \<Rightarrow> workflow_state \<Rightarrow> bool" where
  "authorised we raw expected ws \<longleftrightarrow>
     (\<exists>path content. allowed_file we raw path \<and> path_suffix path = ''.bin'' \<and> dict_get (ws_files ws) path = Some content
        \<and> hex_digest_text expected \<and> map char_lower (we_sha256 we content) = map char_lower expected)"

lemma op_bind_lift: "op_bind (op_lift r) f ws = (case r of Inl e \<Rightarrow> (Inl e, ws) | Inr x \<Rightarrow> f x ws)"
  by (simp add: op_bind_def op_lift_def split: sum.split)

lemma op_bind_require: "op_bind (require c msg) f ws = (if c then f () ws else (Inl (RequestRefused msg), ws))"
  by (simp add: require_def op_check_def op_bind_def op_return_def op_raise_def)

lemma op_bind_read: "op_bind (read_file path) f ws =
    (case dict_get (ws_files ws) path of None \<Rightarrow> (Inl (BackendFailed ''No such file or directory''), ws) | Some b \<Rightarrow> f b ws)"
  by (simp add: op_bind_def read_file_def split: option.split)

lemmas workflow_guards = op_bind_lift op_bind_require op_bind_read

lemma restore_refused: "\<not> authorised we raw expected ws \<Longrightarrow> \<exists>e. restore_backup we given sel raw address expected ws = (Inl e, ws)"
  by (auto simp: restore_backup_def authorised_def resolve_path_def workflow_guards Let_def rcatch_def split: sum.splits option.splits)

text \<open>C7: Restoring a backup needs its digest. A restore whose file is not an allowed \<^verbatim>\<open>.bin\<close> file with the expected
  SHA-256 digest raises and changes nothing: no command reaches the probe and nothing is recorded. One that
  returns was authorised, and has run exactly the flash commands and then the comparison on that file, each
  right after an identification; it reports success exactly when both succeeded.\<close>

theorem restore_authorized:
  "case restore_backup we given sel raw address expected ws of
     (Inl e, ws') \<Rightarrow> ws' = ws \<or> authorised we raw expected ws
   | (Inr r, ws') \<Rightarrow> authorised we raw expected ws \<and> map char_lower (rst_sha256 r) = map char_lower expected \<and> 0 \<le> address
       \<and> rst_ok r = (result_ok (rst_flash r) \<and> result_ok (rst_verify r))
       \<and> (\<exists>path p between. allowed_file we raw path \<and> allowed_file we (show_path path) p
            \<and> ran (flash_commands p address) (result_ok (rst_flash r)) (commands_of ws) between
            \<and> ran (verify_commands p address) (result_ok (rst_verify r)) between (commands_of ws'))"
proof (cases "restore_backup we given sel raw address expected ws")
  case (Pair res ws')
  show ?thesis
  proof (cases res)
    case (Inl e)
    then show ?thesis using Pair restore_refused [of we raw expected ws given sel address] by auto
  next
    case (Inr r)
    then have a: "authorised we raw expected ws" using Pair restore_refused [of we raw expected ws given sel address] by auto
    obtain path content ws1 where s: "allowed_file we raw path" "map char_lower (we_sha256 we content) = map char_lower expected"
      "flash_binary we given sel (show_path path) address ws = (Inr (rst_flash r), ws1)"
      "verify_binary we given sel (show_path path) address ws1 = (Inr (rst_verify r), ws')"
      "rst_ok r = (result_ok (rst_flash r) \<and> result_ok (rst_verify r))" "rst_sha256 r = we_sha256 we content"
      using Pair Inr by (auto simp: restore_backup_def workflow_steps Let_def)
    obtain p where p: "allowed_file we (show_path path) p" "0 \<le> address"
      "ran (flash_commands p address) (result_ok (rst_flash r)) (commands_of ws) (commands_of ws1)"
      using flash_binary_ran [OF s(3)] by blast
    moreover obtain q where "allowed_file we (show_path path) q"
      "ran (verify_commands q address) (result_ok (rst_verify r)) (commands_of ws1) (commands_of ws')"
      using verify_binary_ran [OF s(4)] by blast
    ultimately show ?thesis using a s(1,2,5,6) Pair Inr by auto
  qed
qed

subsection \<open>A compared region\<close>

definition region_of :: "workflow_env \<Rightarrow> string \<Rightarrow> int \<Rightarrow> int \<Rightarrow> int \<Rightarrow> workflow_state \<Rightarrow> bytes \<Rightarrow> bool" where
  "region_of we raw off address len ws part \<longleftrightarrow>
     (\<exists>source content. allowed_file we raw source \<and> path_suffix source = ''.bin'' \<and> dict_get (ws_files ws) source = Some content
        \<and> 0 \<le> off \<and> 0 \<le> address \<and> 0 < len \<and> len \<le> MAX_BACKUP \<and> off + len \<le> int (length content)
        \<and> part = pyslice content (nat off) (nat (off + len)))"

lemma region_refused:
  "\<nexists>part. region_of we raw off address len ws part \<Longrightarrow> \<exists>e. compare_backup_region we given sel raw off address len ws = (Inl e, ws)"
  by (auto simp: compare_backup_region_def region_of_def resolve_path_def workflow_guards rcatch_def not_less not_le split: sum.splits option.splits)

text \<open>A compared region is the requested slice. A comparison of a part of a backup that is not a non-empty range of at most
  32 MiB inside an allowed \<^verbatim>\<open>.bin\<close> file raises and changes nothing. When one returns, the registered artifact has the
  length of the range and the digest of its bytes, and the last command that reached the probe compared that artifact
  with the target address; the answer is that command's.\<close>

theorem compare_region_exact:
  "case compare_backup_region we given sel raw off address len ws of
     (Inl e, ws') \<Rightarrow> ws' = ws \<or> (\<exists>part. region_of we raw off address len ws part)
   | (Inr c, ws') \<Rightarrow> \<exists>part p between. region_of we raw off address len ws part
       \<and> int (art_size (cmp_artifact c)) = len \<and> art_sha256 (cmp_artifact c) = we_sha256 we part
       \<and> allowed_file we (art_path (cmp_artifact c)) p
       \<and> ran (verify_commands p address) (cmp_match c) between (commands_of ws')"
proof (cases "compare_backup_region we given sel raw off address len ws")
  case (Pair res ws')
  show ?thesis
  proof (cases res)
    case (Inl e)
    then show ?thesis using Pair region_refused [of we raw off address len ws given sel] by auto
  next
    case (Inr c)
    then obtain source content dest ws1 ws2 r where
      s: "allowed_file we raw source" "path_suffix source = ''.bin''" "dict_get (ws_files ws) source = Some content"
        "0 \<le> off" "0 \<le> address" "0 < len" "len \<le> MAX_BACKUP" "off + len \<le> int (length content)"
      and a: "art_size (cmp_artifact c) = length (take (nat len) (drop (nat off) content))"
        "art_sha256 (cmp_artifact c) = we_sha256 we (take (nat len) (drop (nat off) content))" "art_path (cmp_artifact c) = show_path dest"
      and v: "verify_binary we given sel (show_path dest) address ws1 = (Inr r, ws2)" "commands_of ws' = commands_of ws2"
        "cmp_match c = result_ok r"
      using Pair
      by (auto simp: compare_backup_region_def workflow_steps Let_def write_file_def fresh_uuid_def registerable_Inr register_in_store_Inr
          op_put_def op_raise_def not_less not_le split: option.splits)
    have part: "take (nat len) (drop (nat off) content) = pyslice content (nat off) (nat (off + len))"
      using s(4,6) by (simp add: pyslice_def take_drop nat_add_distrib add.commute)
    have "nat len \<le> length content - nat off" using s(4,6,8) by linarith
    then have size: "int (art_size (cmp_artifact c)) = len" using s(6) a(1) by simp
    have region: "region_of we raw off address len ws (take (nat len) (drop (nat off) content))"
      using s unfolding region_of_def part by blast
    obtain p where "allowed_file we (show_path dest) p" "ran (verify_commands p address) (result_ok r) (commands_of ws1) (commands_of ws2)"
      using verify_binary_ran [OF v(1)] by blast
    then show ?thesis using a region size v(2,3) Pair Inr by auto
  qed
qed

subsection \<open>A sample host\<close>

definition sample_digest :: "bytes \<Rightarrow> string" where
  "sample_digest b = replicate 63 (CHR ''0'') @ (if b = [] then ''0'' else ''1'')"

definition sample_work :: workflow_env where
  "sample_work = \<lparr> we_service = sample_service, we_world = (\<lambda>n fs. fs), we_write_fails = (\<lambda>n path. None), we_sha256 = sample_digest,
     we_symbols = (\<lambda>b. Inl ''none''), we_encode = map (\<lambda>c. word_of_nat (code c)), we_decode = map (\<lambda>w. char_of (unat w)), we_dump = (\<lambda>j. []),
     we_capabilities = (\<lambda>n c. []), we_doctor = (\<lambda>n. []) \<rparr>"

lemma sample_text_kept: "we_decode sample_work (we_encode sample_work s) = s"
  by (simp add: sample_work_def comp_def unat_of_nat)

end
