(* ===== verification/Giga_Promises.thy ===== *)
theory Giga_Promises
  imports Giga_Contract Workflow_Promises
begin

text \<open>
  What the workflows guarantee over any sequence of them, and what a fixture validation can and cannot report.
\<close>

subsection \<open>A leased probe\<close>

text \<open>\<open>leased env p ws\<close>: the leases are in order and some task holds the probe.\<close>

definition leased :: "service_env \<Rightarrow> string \<Rightarrow> service_state \<Rightarrow> bool" where
  "leased env p st \<longleftrightarrow> inj (se_uuid env) \<and> lease_ready env st \<and> dict_get (active (sv_leases st)) p \<noteq> None"

lemma leased_still: "leased env p st \<Longrightarrow> lease_kept env st st' \<Longrightarrow> leased env p st'"
  by (auto simp: leased_def lease_kept_def same_leases_def)

lemma leased_workflow_kept: "leased env p (ws_service ws) \<Longrightarrow> over (workflow_along (lease_kept env)) m \<Longrightarrow> m ws = (x, ws') \<Longrightarrow> leased env p (ws_service ws')"
  using overD [of "workflow_along (lease_kept env)" m ws] by (auto simp: workflow_along_def intro: leased_still)

text \<open>Selecting the target leaves the leases alone and keeps the probe that was asked for.\<close>

lemma capabilities_leases: "capabilities env st = (x, st') \<Longrightarrow> sv_leases st' = sv_leases st"
  by (auto simp: capabilities_def op_bind_def ask_def split: prod.splits option.splits)

lemma resolve_with_probe:
  "resolve_with env given sel store probes boards = Inr r \<Longrightarrow> sel_probe_serial sel = Some p \<Longrightarrow> sel_probe_serial r = Some p"
  by (auto simp: resolve_with_def choose_probe_def Let_def rbind_eq_Inr rcatch_eq_Inr split: if_splits)

lemma resolve_selector_keeps:
  assumes "resolve_selector env given sel st = (x, st')"
  shows "sv_leases st' = sv_leases st \<and> (\<forall>r p. x = Inr r \<longrightarrow> sel_probe_serial sel = Some p \<longrightarrow> sel_probe_serial r = Some p)"
proof -
  obtain c st1 where c: "capabilities env st = (c, st1)" by force
  show ?thesis
  proof (cases c)
    case (Inl e)
    then show ?thesis using assms c capabilities_leases [OF c] by (auto simp: resolve_selector_def op_bind_raises)
  next
    case (Inr found)
    then show ?thesis
      using assms c capabilities_leases [OF c] by (cases found) (auto simp: resolve_selector_def op_bind_returns dest: resolve_with_probe)
  qed
qed

lemma resolve_wait_keeps:
  assumes "resolve_wait n env given sel st = (x, st')"
  shows "sv_leases st' = sv_leases st \<and> (\<forall>r p. x = Inr r \<longrightarrow> sel_probe_serial sel = Some p \<longrightarrow> sel_probe_serial r = Some p)"
  using assms
proof (induction n arbitrary: st)
  case 0
  then show ?case unfolding resolve_wait.simps by (rule resolve_selector_keeps)
next
  case (Suc n)
  obtain y st1 where r: "resolve_selector env given sel st = (y, st1)" by force
  have s: "sv_leases st1 = sv_leases st" using resolve_selector_keeps [OF r] by simp
  show ?case
  proof (cases "\<exists>e. y = Inl (Selection e)")
    case True
    then have "resolve_wait n env given sel st1 = (x, st')" using Suc.prems r by auto
    from Suc.IH [OF this] show ?thesis unfolding s .
  next
    case False
    then have eq: "y = x" "st1 = st'" using Suc.prems r by (auto split: sum.splits service_error.splits)
    from resolve_selector_keeps [OF r] show ?thesis unfolding eq .
  qed
qed

lemma resolved_probe:
  "resolve_selector_wait env given sel st = (Inr r, st') \<Longrightarrow> sel_probe_serial sel = Some p \<Longrightarrow> sel_probe_serial r = Some p"
  unfolding resolve_selector_wait_def by (drule resolve_wait_keeps) blast

text \<open>Acquiring is not re-entrant: whoever holds the probe, the attempt times out.\<close>

lemma acquire_blocked:
  assumes "leased env p st"
  shows "\<exists>e. fst (acquire_lease env p owner st) = Inl e"
proof -
  have "dict_get (locks (sv_leases st)) p = Some True"
    using assms lease_invD(8) [of "sv_leases st" p] by (auto simp: leased_def lease_ready_def)
  then have "grant t p owner (lock_for p (sv_leases st)) = None" for t
    by (simp add: grant_def lock_for_def dict_setdefault_def)
  then show ?thesis by (simp add: acquire_lease_def lease_enter_def op_bind_def ask_def Let_def)
qed

lemma start_gdb_blocked:
  assumes "leased env p st" "sel_probe_serial sel = Some p"
  obtains e st' where "start_gdb env given sel elf st = (Inl e, st')"
proof (cases "resolve_selector_wait env given sel st")
  case (Pair x st1)
  have l: "leased env p st1"
    using leased_still [OF assms(1)] kept.over_resolve_wait [THEN overD, of env st given sel] Pair by simp
  show ?thesis
  proof (cases x)
    case (Inl e)
    then show ?thesis using Pair that by (simp add: start_gdb_def op_bind_raises)
  next
    case (Inr resolved)
    then have p: "sel_probe_serial resolved = Some p" using Pair assms(2) resolved_probe by blast
    obtain e st2 where "acquire_lease env p ''gdb_session'' st1 = (Inl e, st2)"
      using acquire_blocked [OF l, of "''gdb_session''"] by (cases "acquire_lease env p ''gdb_session'' st1") auto
    then have blocked: "op_bind (acquire_lease env p ''gdb_session'') f st1 = (Inl e, st2)" for f :: "lease_info \<Rightarrow> json_object operation"
      by (rule op_bind_raises)
    have "\<exists>e st'. start_gdb env given sel elf st = (Inl e, st')"
      unfolding start_gdb_def op_bind_returns [where m = "resolve_selector_wait env given sel", OF Pair [unfolded Inr]] p option.case op_bind_lift blocked
      by (simp split: sum.split)
    then show ?thesis using that by blast
  qed
qed

lemma debug_blocked:
  assumes "leased (ge_service ge) p (ws_service ws)" "sel_probe_serial sel = Some p"
  obtains e ws' where "debug_fixture ge given sel elf ws = (Inl e, ws')"
proof (cases "call (ge_work ge) (resolve_selector_wait (ge_service ge) given sel) ws")
  case (Pair x ws1)
  have l: "leased (ge_service ge) p (ws_service ws1)"
    using assms(1) kept.over_resolved [OF refl] Pair by (rule leased_workflow_kept)
  show ?thesis
  proof (cases x)
    case (Inl e)
    then show ?thesis using Pair that by (simp add: debug_fixture_def op_bind_raises)
  next
    case (Inr resolved)
    then have "sel_probe_serial resolved = Some p" using Pair assms(2) resolved_probe by (auto simp: call_Inr)
    then obtain e st2 where "start_gdb (ge_service ge) (resolved_given given) resolved (Some elf) (ws_service ws1) = (Inl e, st2)"
      using start_gdb_blocked [OF l] by blast
    then obtain ws2 where "call (ge_work ge) (start_gdb (ge_service ge) (resolved_given given) resolved (Some elf)) ws1 = (Inl e, ws2)"
      by (simp add: call_def)
    then show ?thesis using Pair Inr that by (simp add: debug_fixture_def op_bind_returns op_bind_raises Let_def)
  qed
qed

subsection \<open>A validation never succeeds\<close>

lemma step_then_Inr:
  "step_then p m f ws = (r, ws') \<longleftrightarrow>
     (\<exists>e ws1. m ws = (Inl e, ws1) \<and> r = Inr (Some e, p) \<and> ws' = ws1) \<or> (\<exists>x ws1. m ws = (Inr x, ws1) \<and> f x p ws1 = (r, ws'))"
  by (auto simp: step_then_def split: prod.splits sum.splits)

definition debug_names :: "string set" where
  "debug_names = {''debug_assertions'', ''controlled_crash''}"

lemma fixture_names:
  "fx_name (backup_step r b) = ''backup_original_flash''" "fx_name (restore_step x) = ''restore_original_flash''"
  "fx_name (report_step s) = ''validation_report''" "fx_name (fixture_step_of name ok d) = name" "fx_ok (fixture_step_of name ok d) = ok"
  by (simp_all add: backup_step_def restore_step_def report_step_def fixture_step_of_def split: sum.split)

lemma validation_body_blocked:
  assumes "leased (ge_service ge) p (ws_service ws)" "sel_probe_serial resolved = Some p"
    and "validation_body ge given resolved m7 m4 q ws = (r, ws')"
  shows "\<exists>e added artifacts. r = Inr (Some e, fst q @ added, artifacts) \<and> debug_names \<inter> set (map fx_name added) = {}"
proof -
  obtain d ws1 where d: "dual_core_deploy ge given resolved m7 m4 ''75_25'' ws = (d, ws1)" by force
  have l1: "leased (ge_service ge) p (ws_service ws1)"
    using assms(1) kept_wf.over_deploy [OF refl] d by (rule leased_workflow_kept)
  show ?thesis
  proof (cases d)
    case (Inl e)
    then show ?thesis using assms(3) d by (cases q) (auto simp: validation_body_def step_then_Inr)
  next
    case (Inr deploy)
    let ?s = "fixture_step_of ''dual_core_deploy'' (dp_ok deploy) (DeployDetails deploy)"
    let ?q = "(fst q @ [?s], snd q @ bld_artifacts (dp_m4_build deploy) @ bld_artifacts (dp_m7_build deploy))"
    have s: "debug_names \<inter> set (map fx_name [?s]) = {}" by (simp add: debug_names_def fixture_step_of_def)
    let ?paths = "rbind (image_path ''/m7-'' (snd ?q)) (\<lambda>a. rmap (Pair a) (image_path ''/m4-'' (snd ?q)))"
    show ?thesis
    proof (cases ?paths)
      case (Inl e)
      then show ?thesis using assms(3) d \<open>d = Inr deploy\<close> s
        by (auto simp: validation_body_def step_then_Inr op_lift_def add_step_def Let_def)
    next
      case (Inr paths)
      obtain a b where paths: "paths = (a, b)" by force
      obtain o' ws2 where o: "boot_and_observe ge given resolved (Some a) (Some b) ws1 = (o', ws2)" by force
      have l2: "leased (ge_service ge) p (ws_service ws2)"
        using l1 kept.over_boot [OF refl] o by (rule leased_workflow_kept)
      obtain e ws3 where dbg: "debug_fixture ge given resolved a ws2 = (Inl e, ws3)"
        using debug_blocked [OF l2 assms(2)] by blast
      show ?thesis
        using assms(3) d \<open>d = Inr deploy\<close> Inr paths o dbg
        by (cases o') (auto simp: validation_body_def step_then_Inr op_lift_def add_step_def Let_def debug_names_def fixture_step_of_def)
    qed
  qed
qed

lemma validate_locked_blocked:
  assumes "leased (ge_service ge) p (ws_service ws)" "sel_probe_serial resolved = Some p"
    and "validate_fixture_locked ge given resolved m7 m4 ws = (Inr report, ws')"
  shows "\<not> fixture_report_ok report \<and> debug_names \<inter> set (map fx_name (fr_steps report)) = {}"
proof -
  obtain run_id ws1 where u: "fresh_uuid (ge_work ge) ws = (Inr run_id, ws1)"
    and r1: "op_bind (hardware_preflight ge given resolved False) (\<lambda>preflight.
       let steps = [fixture_step_of ''hardware_preflight'' (pf_ok preflight) (PreflightDetails preflight)] in
       if \<not> pf_ok preflight then op_return (stopped_report run_id resolved steps ''validation stopped after failed non-destructive preflight'')
       else op_bind (giga_backup_flash ge given (at_core M7 resolved) (fst ORIGINAL_FLASH) (snd ORIGINAL_FLASH)) (\<lambda>(r, backup).
         let steps = steps @ [backup_step r backup] in
         case backup of
           Some a \<Rightarrow> if result_ok r then validate_with_backup ge given resolved m7 m4 run_id a steps
             else op_return (stopped_report run_id resolved steps ''Original flash could not be backed up.'')
         | None \<Rightarrow> op_return (stopped_report run_id resolved steps ''Original flash could not be backed up.''))) ws1 = (Inr report, ws')"
    using assms(3) unfolding validate_fixture_locked_def by (auto simp: op_bind_Inr)
  have l1: "leased (ge_service ge) p (ws_service ws1)"
    using assms(1) kept.over_uuid u by (rule leased_workflow_kept)
  obtain pf ws2 where pf: "hardware_preflight ge given resolved False ws1 = (Inr pf, ws2)" using r1 by (auto simp: op_bind_Inr)
  note r2 = r1 [unfolded op_bind_returns [where m = "hardware_preflight ge given resolved False", OF pf]]
  have l2: "leased (ge_service ge) p (ws_service ws2)"
    using l1 kept.over_preflight_giga [OF refl] pf by (rule leased_workflow_kept)
  show ?thesis
  proof (cases "pf_ok pf")
    case False
    then show ?thesis using r2
      by (auto simp: op_return_Inr stopped_report_def fixture_report_ok_def fixture_step_of_def debug_names_def)
  next
    case True
    note good = this
    obtain r backup ws3 where b: "giga_backup_flash ge given (at_core M7 resolved) (fst ORIGINAL_FLASH) (snd ORIGINAL_FLASH) ws2 = (Inr (r, backup), ws3)"
      using r2 True by (auto simp: op_bind_Inr)
    note r3 = r2 [unfolded Let_def, simplified True simp_thms if_False
        op_bind_returns [where m = "giga_backup_flash ge given (at_core M7 resolved) (fst ORIGINAL_FLASH) (snd ORIGINAL_FLASH)", OF b] split]
    have l3: "leased (ge_service ge) p (ws_service ws3)"
      using l2 kept_wf.over_backup [OF refl] b unfolding giga_backup_flash_def by (rule leased_workflow_kept)
    show ?thesis
    proof (cases "backup \<noteq> None \<and> result_ok r")
      case False
      then show ?thesis using r3
        by (auto simp: op_return_Inr stopped_report_def fixture_report_ok_def fixture_step_of_def debug_names_def backup_step_def split: option.splits if_splits)
    next
      case True
      then obtain a where a: "backup = Some a" by auto
      let ?steps = "[fixture_step_of ''hardware_preflight'' (pf_ok pf) (PreflightDetails pf), backup_step r backup]"
      have v: "validate_with_backup ge given resolved m7 m4 run_id a ?steps ws3 = (Inr report, ws')" using r3 True a good by simp
      obtain x ws4 where body: "validation_body ge given resolved m7 m4 (?steps, [a]) ws3 = (Inr x, ws4)"
        using v by (auto simp: validate_with_backup_def op_bind_Inr)
      obtain e added built where x: "x = (Some e, ?steps @ added, built)" "debug_names \<inter> set (map fx_name added) = {}"
        using validation_body_blocked [OF l3 assms(2) body] by auto
      have "\<exists>restore sm. fr_steps report = (?steps @ added) @ [fixture_step_of ''validation_exception'' False (ExceptionDetails e)]
          @ [restore_step restore, report_step sm]"
        using v body by (auto simp: validate_with_backup_def op_bind_Inr x(1) Let_def add_step_def op_return_Inr)
      then show ?thesis using x(2) by (auto simp: fixture_report_ok_def fixture_names debug_names_def fixture_step_of_def)
    qed
  qed
qed

lemma leased_body:
  assumes "inj (se_uuid (we_service we))" "lease_ready (we_service we) (ws_service ws)"
    and "leased_workflow we probe owner body ws = (Inr x, ws')"
  obtains ws1 ws2 where "leased (we_service we) probe (ws_service ws1)" "body ws1 = (Inr x, ws2)"
proof (cases "reentrant (se_task (we_service we)) probe (sv_leases (ws_service ws))")
  case (Some info)
  then show ?thesis using assms that [of ws ws']
    by (auto simp: leased_workflow_def leased_def reentrant_def split: option.splits)
next
  case None
  obtain info st1 where a: "acquire_lease (we_service we) probe owner (ws_service ws) = (Inr info, st1)"
    and b: "op_finally body (\<lambda>ws. ws \<lparr> ws_service := release_lease (lease_id info) (ws_service ws) \<rparr>)
        \<lparr> ws_service = st1, ws_files = we_world we (sv_tick st1) (ws_files ws) \<rparr> = (Inr x, ws')"
    using assms(3) None by (auto simp: leased_workflow_def op_bind_Inr call_Inr)
  have "leased (we_service we) probe st1"
    using acquire_lease_result [OF assms(2,1) a] assms(1) by (auto simp: leased_def lease_added_def)
  then show ?thesis using b that [of "\<lparr> ws_service = st1, ws_files = we_world we (sv_tick st1) (ws_files ws) \<rparr>"]
    by (auto simp: op_finally_def split: prod.splits)
qed

text \<open>C16: A fixture validation never succeeds. It holds the probe's lease while it opens GDB sessions, and opening one acquires
  the same lease again, which is not re-entrant and times out. So in no reachable state of a service, whatever the hardware, the
  tools and the files answer, is the returned report ok, and no report contains the debug assertions or the
  controlled crash.\<close>

theorem fixture_never_validates:
  assumes "fresh_identifiers (ge_service ge)" "service_reachable (ge_service ge) (ws_service ws)"
  shows "case fst (validate_fixture ge given sel m7 m4 ws) of Inl e \<Rightarrow> True
    | Inr report \<Rightarrow> \<not> fixture_report_ok report \<and> {''debug_assertions'', ''controlled_crash''} \<inter> set (map fx_name (fr_steps report)) = {}"
proof (cases "validate_fixture ge given sel m7 m4 ws")
  case (Pair r ws')
  show ?thesis
  proof (cases r)
    case (Inr report)
    have inj: "inj (se_uuid (ge_service ge))" using assms(1) by (simp add: fresh_identifiers_def)
    have ready: "lease_ready (ge_service ge) (ws_service ws)"
      using sessions_reachable [OF assms(2,1)] by (simp add: sessions_inv_def)
    obtain resolved ws1 where r: "call (ge_work ge) (resolve_selector_wait (ge_service ge) given sel) ws = (Inr resolved, ws1)"
      using Pair Inr by (auto simp: validate_fixture_def op_bind_Inr)
    have k: "over (workflow_along (lease_kept (ge_service ge))) (call (ge_work ge) (resolve_selector_wait (ge_service ge) given sel))"
      by (rule kept.over_resolved [OF refl])
    have ready1: "lease_ready (ge_service ge) (ws_service ws1)"
      using overD [OF k, of ws] r inj ready by (auto simp: workflow_along_def lease_kept_def)
    obtain probe where p: "sel_probe_serial resolved = Some probe"
      "leased_workflow (ge_work ge) probe ''giga_fixture_validation'' (validate_fixture_locked ge (resolved_given given) resolved m7 m4) ws1 = (Inr report, ws')"
      using Pair Inr unfolding validate_fixture_def op_bind_returns [where m = "call (ge_work ge) (resolve_selector_wait (ge_service ge) given sel)", OF r]
      by (auto simp: op_raise_def split: option.splits)
    obtain ws2 ws3 where "leased (ge_service ge) probe (ws_service ws2)"
      "validate_fixture_locked ge (resolved_given given) resolved m7 m4 ws2 = (Inr report, ws3)"
      using leased_body [OF inj ready1 p(2)] by blast
    then show ?thesis using validate_locked_blocked [OF _ p(1)] Pair Inr by (simp add: debug_names_def)
  qed (simp add: Pair)
qed

definition sample_giga :: giga_env where
  "sample_giga = \<lparr> ge_work = sample_work, ge_doctor = (\<lambda>n. []), ge_run = (\<lambda>n argv backend. Inl ''none''), ge_arduino_cli = ''arduino-cli'',
     ge_fqbn = ''arduino:mbed_giga:giga'', ge_flash_split = ''75_25'', ge_package_root = [], ge_copy_fails = (\<lambda>n path. None), ge_elf = (\<lambda>b. None),
     ge_inspect = (\<lambda>b. Inl ''none''), ge_timestamp = show_nat, ge_sha1 = (\<lambda>b. []), ge_load = (\<lambda>s. None) \<rparr>"

theorem fixture_never_validates_witness:
  "case fst (validate_fixture sample_giga {} default_selector ''m7'' ''m4'' \<lparr> ws_service = fresh_state empty_store, ws_files = [] \<rparr>) of Inl e \<Rightarrow> True
    | Inr report \<Rightarrow> \<not> fixture_report_ok report \<and> {''debug_assertions'', ''controlled_crash''} \<inter> set (map fx_name (fr_steps report)) = {}"
proof (rule fixture_never_validates)
  show "fresh_identifiers (ge_service sample_giga)" using sample_fresh by (simp add: sample_giga_def sample_work_def)
  show "service_reachable (ge_service sample_giga) (ws_service \<lparr> ws_service = fresh_state empty_store, ws_files = [] \<rparr>)"
    using sample_started by (simp add: sample_giga_def sample_work_def)
qed

subsection \<open>The original flash is restored\<close>









end
