(* ===== verification/Deploy_Promises.thy ===== *)
theory Deploy_Promises
  imports Bridge_Deploy Giga_Promises
begin

text \<open>
  What a deployment of the bridge firmware promises: which release it accepts, that the file it writes is the accepted one, and that a
  failure is followed by restoring the backup.
\<close>

subsection \<open>Staging\<close>

lemma staged_temporary: "butlast (staged_path we source expected) @ [''.'' @ path_name (staged_path we source expected) @ ''.'' @ u @ ''.tmp'']
    \<noteq> staged_path we source expected"
proof
  assume "butlast (staged_path we source expected) @ [''.'' @ path_name (staged_path we source expected) @ ''.'' @ u @ ''.tmp'']
    = staged_path we source expected"
  then have "''.'' @ path_name (staged_path we source expected) @ ''.'' @ u @ ''.tmp'' = path_name source"
    unfolding staged_path_def by (simp add: butlast_append)
  moreover have "path_name (staged_path we source expected) = path_name source" by (simp add: staged_path_def path_name_def)
  ultimately have "length (''.'' @ path_name source @ ''.'' @ u @ ''.tmp'') = length (path_name source)" by simp
  then show False by simp
qed

text \<open>A staged release has the digest it is filed under. When staging returns, the file is the one of that digest in the state
  root, and its bytes have that digest, whether it was copied now or found there; when it raises, the file is what
  it was before. Nothing reaches the probe.\<close>

theorem staging_authorized:
  "commands_of (snd (stage_authorized_release we source expected ws)) = commands_of ws
   \<and> (case stage_authorized_release we source expected ws of
        (Inl e, ws') \<Rightarrow> dict_get (ws_files ws') (staged_path we source expected) = dict_get (ws_files ws) (staged_path we source expected)
      | (Inr path, ws') \<Rightarrow> path = staged_path we source expected
          \<and> (\<exists>content. dict_get (ws_files ws') path = Some content \<and> we_sha256 we content = expected))"
  by (auto simp: staged_temporary [simplified] staged_temporary [symmetric, simplified] stage_authorized_release_def Let_def op_bind_def file_exists_def op_get_def read_file_def op_check_def op_return_def op_raise_def
      fresh_uuid_def inside_def ask_def op_finally_def write_file_def op_put_def move_file_def unlink_file_def dict_get_None
      split: prod.splits option.splits sum.splits if_splits)

subsection \<open>A built bundle is accepted\<close>

lemma splitlines_line:
  "list_all (\<lambda>c. \<not> line_break c) w \<Longrightarrow> splitlines acc (w @ CHR 0x0A # s) = (acc @ w) # splitlines [] s"
proof (induction w arbitrary: acc)
  case Nil
  have "line_break (CHR 0x0A)" "code (CHR 0x0A) \<noteq> (13 :: nat)" by (code_simp, code_simp)
  then show ?case by simp
next
  case (Cons c w)
  then have "\<not> line_break c" "code c \<noteq> 13" by (auto simp: line_break_def)
  then show ?case using Cons by simp
qed

lemma hex_line: "ascii_hex c \<Longrightarrow> \<not> line_break c \<and> \<not> py_isspace c \<and> code c < 128"
  by (auto simp: ascii_hex_def ascii_digit_def line_break_def py_isspace_def)

abbreviation bundle_names :: "string list" where
  "bundle_names \<equiv> [''protocol_bridge_m7.hex'', ''protocol_bridge_manifest.json'']"

lemma bundle_names_plain:
  "name \<in> set bundle_names \<Longrightarrow> list_all (\<lambda>c. \<not> line_break c) name \<and> list_all (\<lambda>c. \<not> py_isspace c) name
     \<and> path_name (path_parts (parse_path name)) = name"
proof -
  have "list_all (\<lambda>name. list_all (\<lambda>c. \<not> line_break c) name \<and> list_all (\<lambda>c. \<not> py_isspace c) name
     \<and> path_name (path_parts (parse_path name)) = name) bundle_names" by code_simp
  then show "name \<in> set bundle_names \<Longrightarrow> list_all (\<lambda>c. \<not> line_break c) name \<and> list_all (\<lambda>c. \<not> py_isspace c) name
     \<and> path_name (path_parts (parse_path name)) = name" unfolding list_all_iff by blast
qed

lemma sum_line_bundle:
  assumes "digest_text digest" "map char_lower digest = digest" "name \<in> set bundle_names" "\<not> dict_has known name"
  shows "sum_line known (digest @ ''  '' @ name) = Some (dict_set known name digest)"
proof -
  have "list_all (\<lambda>c. \<not> py_isspace c) digest" "digest \<noteq> []"
    using assms(1) hex_line by (auto simp: digest_text_def list_all_iff)
  moreover have "list_all (\<lambda>c. \<not> py_isspace c) name" "path_name (path_parts (parse_path name)) = name"
    using bundle_names_plain [OF assms(3)] by simp_all
  moreover have "name \<noteq> []" "py_isspace (CHR '' '')" using assms(3) by (auto simp: py_isspace_def)
  ultimately have "split_words [] (digest @ ''  '' @ name) = [digest, name]"
    using split_words_word [of digest "[]" "''  '' @ name"] split_words_word [of name "[]" "[]"] by simp
  then show ?thesis
    using assms bundle_names_plain [OF assms(3)] by (simp add: sum_line_def)
qed

definition sample_file :: "bytes \<Rightarrow> artifact" where
  "sample_file content = \<lparr> art_path = ''/f'', art_sha256 = sample_digest content, art_size = length content, art_kind = ''f'', art_created_at = 0,
     art_metadata = [] \<rparr>"

text \<open>The list of sums a build writes authorizes exactly the bundle it was written for. With digests of 64 lower-case
  hexadecimal digits and ASCII text that is read back as it was written, the \<^verbatim>\<open>SHA256SUMS\<close> written for a HEX file and a
  manifest authorizes two files of those names if and only if both have the digests they had then.\<close>

theorem bundle_authorized:
  assumes "\<And>b. digest_text (we_sha256 we b) \<and> map char_lower (we_sha256 we b) = we_sha256 we b"
    and "\<And>s. list_all (\<lambda>c. code c < 128) s \<Longrightarrow> we_decode we (we_encode we s) = s"
    and "dict_get fs (dir @ [''protocol_bridge_m7.hex'']) = Some hex_now" "dict_get fs (dir @ [''protocol_bridge_manifest.json'']) = Some manifest_now"
    and "art_sha256 hex = we_sha256 we hex_then" "art_sha256 manifest = we_sha256 we manifest_then"
    and "dict_get fs sums_path = Some (we_encode we (sums_text hex manifest))"
  shows "release_checksums_authorize we fs sums_path [dir @ [''protocol_bridge_m7.hex''], dir @ [''protocol_bridge_manifest.json'']]
    \<longleftrightarrow> we_sha256 we hex_now = we_sha256 we hex_then \<and> we_sha256 we manifest_now = we_sha256 we manifest_then"
proof -
  let ?l1 = "art_sha256 hex @ ''  '' @ hd bundle_names" and ?l2 = "art_sha256 manifest @ ''  '' @ hd (tl bundle_names)"
  have hexes: "digest_text (art_sha256 hex)" "digest_text (art_sha256 manifest)"
    "map char_lower (art_sha256 hex) = art_sha256 hex" "map char_lower (art_sha256 manifest) = art_sha256 manifest"
    using assms(1,5,6) by simp_all
  have content: "sums_text hex manifest = ?l1 @ CHR 0x0A # ?l2 @ [CHR 0x0A]" by (simp add: sums_text_def)
  have plain: "list_all (\<lambda>c. \<not> line_break c) ?l1" "list_all (\<lambda>c. \<not> line_break c) ?l2"
    using hexes(1,2) hex_line bundle_names_plain [of "hd bundle_names"] bundle_names_plain [of "hd (tl bundle_names)"]
    by (auto simp: digest_text_def list_all_iff line_break_def)
  have "list_all (\<lambda>c. code c < 128) (sums_text hex manifest)"
    unfolding content using hexes(1,2) hex_line by (auto simp: digest_text_def list_all_iff)
  then have decoded: "splitlines [] (we_decode we (we_encode we (sums_text hex manifest))) = [?l1, ?l2]"
    using splitlines_line [OF plain(1), of "[]" "?l2 @ [CHR 0x0A]"] splitlines_line [OF plain(2), of "[]" "[]"]
    by (simp add: assms(2) content)
  have first: "sum_line [] ?l1 = Some [(hd bundle_names, art_sha256 hex)]"
    using sum_line_bundle [OF hexes(1,3), of "hd bundle_names" "[]"] by simp
  have second: "sum_line [(hd bundle_names, art_sha256 hex)] ?l2
      = Some [(hd bundle_names, art_sha256 hex), (hd (tl bundle_names), art_sha256 manifest)]"
    using sum_line_bundle [OF hexes(2,4), of "hd (tl bundle_names)" "[(hd bundle_names, art_sha256 hex)]"] by simp
  show ?thesis
    using assms(3-7) first second
    by (auto simp: release_checksums_authorize_def expected_sums_def path_name_def decoded dict_equal_def)
qed

theorem bundle_authorized_witness:
  "release_checksums_authorize sample_work
     [([''r'', ''protocol_bridge_m7.hex''], [1]), ([''r'', ''protocol_bridge_manifest.json''], [2]),
      ([''r'', ''SHA256SUMS''], we_encode sample_work (sums_text (sample_file [3]) (sample_file [4])))]
     [''r'', ''SHA256SUMS''] [[''r''] @ [''protocol_bridge_m7.hex''], [''r''] @ [''protocol_bridge_manifest.json'']]
   = (sample_digest [1] = sample_digest [3] \<and> sample_digest [2] = sample_digest [4])"
proof -
  have "list_all ascii_hex (sample_digest b) \<and> map char_lower (sample_digest b) = sample_digest b \<and> length (sample_digest b) = 64" for b
    unfolding sample_digest_def by (cases "b = []"; simp; code_simp)
  moreover have sample_sha256: "we_sha256 sample_work = sample_digest" by (simp add: sample_work_def)
  ultimately show ?thesis
    using bundle_authorized [of sample_work "[([''r'', ''protocol_bridge_m7.hex''], [1]), ([''r'', ''protocol_bridge_manifest.json''], [2]),
      ([''r'', ''SHA256SUMS''], we_encode sample_work (sums_text (sample_file [3]) (sample_file [4])))]" "[''r'']" "[1]" "[2]" "sample_file [3]" "[3]"
      "sample_file [4]" "[4]" "[''r'', ''SHA256SUMS'']"]
    by (simp add: sample_text_kept sample_sha256 digest_text_def sample_file_def)
qed

subsection \<open>Deploying\<close>

lemma op_bind_get: "op_bind (op_get g) f ws = f (g ws) ws"
  by (simp add: op_bind_def op_get_def)

text \<open>C5: A failed deployment restores the backup. Once the backup exists the deployment does not raise anything but its own
  error: that one names the backup and carries the outcome of restoring it, from its own path against its own digest,
  which was the last thing done. A deployment that succeeds has flashed the staged file, the flash command
  succeeded, and the firmware then reported the version, wire version and source digest of the manifest.\<close>

theorem deploy_rolls_back:
  "case deploy_with_backup bd given resolved preflight staged manifest backup ws of (r, ws') \<Rightarrow>
     (case r of
        Inl e \<Rightarrow> False
      | Inr (Inl failure) \<Rightarrow> df_backup failure = backup
          \<and> (\<exists>ws1. giga_restore_backup (bd_giga bd) given resolved (art_path backup) 0x08000000 (art_sha256 backup) ws1 = (df_restore failure, ws'))
      | Inr (Inr d) \<Rightarrow> bdp_backup d = backup \<and> result_ok (bdp_flash d)
          \<and> map (dict_get manifest) [''firmware_version'', ''wire_version'', ''source_sha256'']
            = map (Some \<circ> lookup (bdp_handshake d)) [''firmware_version'', ''wire_version'', ''source_sha256'']
          \<and> (\<exists>ws1 ws2 ws3. giga_flash_and_verify (bd_giga bd) given resolved (show_path staged) ws = (Inr (bdp_flash d), ws1)
               \<and> bridge_handshake bd given resolved ws2 = (Inr (bdp_handshake d), ws3) \<and> ws' = ws3))"
proof -
  obtain x ws1 where f: "flash_release bd given resolved staged manifest ws = (x, ws1)" by force
  show ?thesis
  proof (cases x)
    case (Inl e)
    obtain restore ws2 where "giga_restore_backup (bd_giga bd) given resolved (art_path backup) (fst ORIGINAL_FLASH) (art_sha256 backup) ws1 = (restore, ws2)"
      by force
    then show ?thesis using f Inl by (auto simp: deploy_with_backup_def op_bind_def attempt_def op_return_def ORIGINAL_FLASH_def)
  next
    case (Inr y)
    obtain flash firmware handshake where y: "y = (flash, firmware, handshake)" by (cases y)
    have "deploy_with_backup bd given resolved preflight staged manifest backup ws = (Inr (Inr \<lparr> bdp_selector = resolved, bdp_preflight = preflight,
        bdp_backup = backup, bdp_firmware = firmware, bdp_flash = flash, bdp_handshake = handshake \<rparr>), ws1)"
      using f Inr y by (simp add: deploy_with_backup_def op_bind_def attempt_def op_return_def)
    moreover obtain w1 w2 where "giga_flash_and_verify (bd_giga bd) given resolved (show_path staged) ws = (Inr flash, w1)"
      "bridge_handshake bd given resolved w2 = (Inr handshake, ws1)" "result_ok flash" "identity_matches handshake manifest = Inr True"
      using f Inr y by (auto simp: flash_release_def op_bind_Inr op_check_def op_return_Inr op_lift_def op_raise_def Let_def split: if_splits)
    ultimately show ?thesis
      by (auto simp: identity_matches_def rbind_eq_Inr release_field_def rmap_def split: if_splits option.splits sum.splits)
  qed
qed





end
