(* ===== verification/Workflow_Gate.thy ===== *)
theory Workflow_Gate
  imports Deploy_Promises Bridge_Promises
begin

text \<open>
  The guarantees of the core service over everything the program offers: any interleaving, operation by operation, of the service's
  operations, the bridge's operations, the workflows of the core and of the extensions, and changes of files from outside.
\<close>

subsection \<open>The bridge's workflows\<close>

context operation_contract
begin

lemma over_handshake: "bd_service bd = env \<Longrightarrow> over (workflow_along R) (bridge_handshake bd given sel)"
  unfolding bridge_handshake_def
  by (rule over_call, rule overI) (use over_bridge(4) [of _ "bd_bridge bd" given sel] in \<open>simp split: prod.split sum.split; metis snd_conv\<close>)

lemma over_get: "over (workflow_along R) (op_get g)"
  by (simp add: over_def op_get_def workflow_along_def stays)

lemma over_check_release: "over (workflow_along R) (check_release bd)"
  unfolding check_release_def Let_def read_json_def
  by (intro over_workflow_steps wf.over_each over_get) (simp add: wf.over_basic split: option.split)

lemma over_unlink: "workflow_along R ws ws' \<Longrightarrow> workflow_along R ws (unlink_file path ws')"
  by (simp add: workflow_along_def unlink_file_def)

lemma over_cleanup: "over (workflow_along R) m \<Longrightarrow> over (workflow_along R) (op_finally m (unlink_file path))"
  by (rule overI) (auto simp: op_finally_def split: prod.split intro!: over_unlink, metis overD snd_conv)

lemma over_move: "over (workflow_along R) (move_file a b)"
  by (simp add: move_file_def over_def op_put_def workflow_along_def stays)

lemma over_stage: "over (workflow_along R) (stage_authorized_release we source expected)"
  unfolding stage_authorized_release_def Let_def
  by (intro over_workflow_steps over_cleanup over_move) (auto intro!: over_workflow_steps over_cleanup over_move)

end

context artifact_contract
begin

lemma over_bundle:
  assumes e: "bd_service bd = env"
  shows "over (workflow_along R) (bundle_release bd dir bundle checked_in build_id source_sha256)"
  unfolding bundle_release_def Let_def copy_file_def
  by (auto intro!: over_workflow_steps over_get wf.over_map over_register_file over_register over_tools e split: list.split)

lemma over_bridge_build:
  assumes e: "bd_service bd = env"
  shows "over (workflow_along R) (build_protocol_bridge_release bd verify)"
proof -
  have "over (workflow_along R) (stage_sources bd source staged)" for source staged
    unfolding stage_sources_def
    by (intro wf.over_bind over_inside over_ask) (auto simp: wf.over_basic over_files split: option.split)
  then show ?thesis
    unfolding build_protocol_bridge_release_def Let_def
    by (auto intro!: over_workflow_steps over_get over_tools over_record over_bundle e split: prod.split)
qed

lemma over_bridge_deploy:
  assumes e: "bd_service bd = env"
  shows "over (workflow_along R) (deploy_protocol_bridge bd given sel)"
proof -
  have f: "over (workflow_along R) (flash_release bd g resolved staged manifest)" for g resolved staged manifest
    unfolding flash_release_def Let_def giga_flash_and_verify_def
    by (intro over_workflow_steps over_flash over_register over_handshake e)
  have d: "over (workflow_along R) (deploy_with_backup bd g resolved preflight staged manifest a)" for g resolved preflight staged manifest a
    unfolding deploy_with_backup_def giga_restore_backup_def
    by (auto intro!: wf.over_bind wf.over_attempt wf.over_basic f over_restore e split: sum.split)
  show ?thesis
    unfolding deploy_protocol_bridge_def Let_def giga_backup_flash_def
    by (auto intro!: over_workflow_steps over_resolved over_check_release over_stage over_preflight_giga over_leased_workflow over_backup d e
        split: option.split)
qed

end

subsection \<open>Everything the program offers\<close>

abbreviation bd_task :: "nat \<Rightarrow> bridge_deploy_env \<Rightarrow> bridge_deploy_env" where
  "bd_task t bd \<equiv> bd \<lparr> bd_giga := bd_giga bd \<lparr> ge_work := bd_work bd \<lparr> we_service := bd_service bd \<lparr> se_task := t \<rparr> \<rparr> \<rparr> \<rparr>"

text \<open>\<open>workflow_call bd f\<close>: \<open>f\<close> is what one operation of the program does to the service and the files.\<close>

inductive workflow_call :: "bridge_deploy_env \<Rightarrow> (workflow_state \<Rightarrow> workflow_state) \<Rightarrow> bool" for bd where
  wf_files: "workflow_call bd (\<lambda>ws. ws \<lparr> ws_files := g (ws_files ws) \<rparr>)"
| wf_service: "service_call (bd_service bd) f \<Longrightarrow> workflow_call bd (\<lambda>ws. ws \<lparr> ws_service := f (ws_service ws) \<rparr>)"
| wf_bridge_control: "workflow_call bd (\<lambda>ws. ws \<lparr> ws_service := snd (bridge_control (bd_service bd) (bd_bridge bd) given sel control (ws_service ws)) \<rparr>)"
| wf_bridge_exchange: "workflow_call bd (\<lambda>ws. ws \<lparr> ws_service := snd (bridge_exchange (bd_service bd) (bd_bridge bd) given sel exch (ws_service ws)) \<rparr>)"
| wf_bridge_receive: "workflow_call bd (\<lambda>ws. ws \<lparr> ws_service := snd (bridge_receive (bd_service bd) (bd_bridge bd) given sel receive (ws_service ws)) \<rparr>)"
| wf_bridge_status: "workflow_call bd (\<lambda>ws. ws \<lparr> ws_service := snd (bridge_status (bd_service bd) (bd_bridge bd) given sel (ws_service ws)) \<rparr>)"
| wf_flash: "workflow_call bd (\<lambda>ws. snd (flash_and_verify (bd_work bd) given sel path ws))"
| wf_flash_binary: "workflow_call bd (\<lambda>ws. snd (flash_binary (bd_work bd) given sel path address ws))"
| wf_backup: "workflow_call bd (\<lambda>ws. snd (backup_flash (bd_work bd) given sel address len ws))"
| wf_compare: "workflow_call bd (\<lambda>ws. snd (compare_firmware (bd_work bd) given sel path address ws))"
| wf_compare_region: "workflow_call bd (\<lambda>ws. snd (compare_backup_region (bd_work bd) given sel path off address len ws))"
| wf_restore: "workflow_call bd (\<lambda>ws. snd (restore_backup (bd_work bd) given sel path address expected ws))"
| wf_rtt: "workflow_call bd (\<lambda>ws. snd (capture_rtt (bd_work bd) given sel elf duration channel ws))"
| wf_giga_rtt: "workflow_call bd (\<lambda>ws. snd (giga_capture_rtt (bd_giga bd) given sel elf duration channel ws))"
| wf_report: "workflow_call bd (\<lambda>ws. snd (generate_report heading (bd_work bd) title limit ws))"
| wf_prepare: "workflow_call bd (\<lambda>ws. snd (prepare_giga_dual_core_debug (bd_giga bd) given sel ws))"
| wf_preflight: "workflow_call bd (\<lambda>ws. snd (hardware_preflight (bd_giga bd) given sel prepare ws))"
| wf_observe: "workflow_call bd (\<lambda>ws. snd (boot_and_observe (bd_giga bd) given sel m7_elf m4_elf ws))"
| wf_debug: "workflow_call bd (\<lambda>ws. snd (debug_fixture (bd_giga bd) given sel elf ws))"
| wf_crash: "workflow_call bd (\<lambda>ws. snd (crash_capture (bd_giga bd) given sel elf ws))"
| wf_build: "workflow_call bd (\<lambda>ws. snd (build_firmware (bd_giga bd) sketch core split clean ws))"
| wf_dual_core: "workflow_call bd (\<lambda>ws. snd (dual_core_deploy (bd_giga bd) given sel m7 m4 split ws))"
| wf_validation: "workflow_call bd (\<lambda>ws. snd (validate_fixture (bd_giga bd) given sel m7 m4 ws))"
| wf_bridge_build: "workflow_call bd (\<lambda>ws. snd (build_protocol_bridge_release bd verify ws))"
| wf_bridge_deploy: "workflow_call bd (\<lambda>ws. snd (deploy_protocol_bridge bd given sel ws))"

inductive workflow_reachable :: "bridge_deploy_env \<Rightarrow> workflow_state \<Rightarrow> bool" for bd where
  workflow_start: "service_reachable (bd_service bd) st \<Longrightarrow> workflow_reachable bd \<lparr> ws_service = st, ws_files = fs \<rparr>"
| workflow_step: "workflow_reachable bd ws \<Longrightarrow> workflow_call (bd_task t bd) f \<Longrightarrow> workflow_reachable bd (f ws)"

context workflow_contract
begin

lemma workflow_call_stays:
  assumes "workflow_call bd f" "bd_service bd = env"
  shows "workflow_along R ws (f ws)"
  using assms
proof (induction rule: workflow_call.induct)
  case (wf_service f)
  then show ?case using call_stays [of f "ws_service ws"] by (simp add: workflow_along_def)
qed (auto simp: workflow_along_def [of R ws "ws \<lparr> ws_files := _ (ws_files ws) \<rparr>"] workflow_along_def [of R ws "ws \<lparr> ws_service := _ \<rparr>"]
      stays over_bridge capture_rtt_def giga_capture_rtt_def
    intro!: over_flash [THEN overD] over_backup [THEN overD] over_compare [THEN overD] over_restore [THEN overD] over_capture_rtt [THEN overD]
      over_report [THEN overD] over_prepare [THEN overD] over_preflight_giga [THEN overD] over_boot [THEN overD] over_debug [THEN overD]
      over_crash [THEN overD] over_build [THEN overD] over_deploy [THEN overD] over_validation [THEN overD]
      over_bridge_build [THEN overD] over_bridge_deploy [THEN overD])

end

lemma workflow_step_log:
  assumes "workflow_call (bd_task t bd) f"
  shows "audit_grows (bd_service bd) (ws_service ws) (ws_service (f ws))"
  using audit_wf.workflow_call_stays [OF assms refl, of ws] by (simp add: workflow_along_def audit_grows_task)

lemma workflow_step_gate:
  assumes "workflow_call (bd_task t bd) f"
  shows "commands_gated (bd_service bd) (ws_service ws) (ws_service (f ws))"
  using gate_wf.workflow_call_stays [OF assms refl, of ws] by (simp add: workflow_along_def commands_gated_def gated_task)

text \<open>C4: Workflows do not get round the gates. In every state that any sequence of operations of any tasks can reach, workflows,
  deployments, bridge operations and changes of files included, the audit log verifies; every command list that
  reached a probe is an identification or comes right after one of the same selector that succeeded; and every further
  operation only appends to the log.\<close>

theorem workflow_gates:
  assumes "workflow_reachable bd ws"
  shows "verify_chain (se_store (bd_service bd)) (sv_store (ws_service ws)) = (True, None)
    \<and> (\<forall>i < length (commands_of ws). \<forall>commands sel answer. commands_of ws ! i = (commands, sel, answer) \<longrightarrow>
         commands = identity_commands
         \<or> 0 < i \<and> (\<exists>r. commands_of ws ! (i - 1) = (identity_commands, sel, Some r) \<and> validate_identity (bd_service bd) r sel = Inr ()))
    \<and> (\<forall>t f. workflow_call (bd_task t bd) f \<longrightarrow>
         (\<exists>rows. operations (sv_store (ws_service (f ws))) = operations (sv_store (ws_service ws)) @ rows))"
proof -
  have inv: "store_inv (se_store (bd_service bd)) (sv_store (ws_service ws)) \<and> gated (bd_service bd) (commands_of ws)"
    using assms
  proof (induction rule: workflow_reachable.induct)
    case (workflow_start st fs)
    then show ?case by (simp add: store_inv_service gated_reachable)
  next
    case (workflow_step ws t f)
    then show ?case using workflow_step_log [of t bd f ws] workflow_step_gate [of t bd f ws]
      by (simp add: audit_grows_def commands_gated_def)
  qed
  have gate: "commands = identity_commands
      \<or> 0 < i \<and> (\<exists>r. commands_of ws ! (i - 1) = (identity_commands, sel, Some r) \<and> validate_identity (bd_service bd) r sel = Inr ())"
    if "i < length (commands_of ws)" "commands_of ws ! i = (commands, sel, answer)" for i commands sel answer
  proof (cases "commands = identity_commands")
    case False
    then have "0 < i" "identified_by (bd_service bd) sel (commands_of ws ! (i - 1))"
      using inv that unfolding gated_def by (metis fst_conv snd_conv)+
    then show ?thesis
      by (cases "commands_of ws ! (i - 1)") (auto simp: identified_by_def split: option.splits)
  qed simp
  show ?thesis
    using inv gate workflow_step_log [of _ bd _ ws] by (auto simp: store_inv_def verify_chain_def audit_grows_def)
qed

definition sample_deploy :: bridge_deploy_env where
  "sample_deploy = \<lparr> bd_giga = sample_giga, bd_bridge = sample_bridge, bd_package_root = [''pkg''] \<rparr>"

theorem workflow_gates_witness:
  "verify_chain (se_store (bd_service sample_deploy))
     (sv_store (ws_service (snd (deploy_protocol_bridge (bd_task 1 sample_deploy) {} default_selector \<lparr> ws_service = fresh_state empty_store, ws_files = [] \<rparr>)))) = (True, None)"
proof -
  have "workflow_reachable sample_deploy \<lparr> ws_service = fresh_state empty_store, ws_files = [] \<rparr>"
    by (rule workflow_start) (use sample_started in \<open>simp add: sample_deploy_def sample_giga_def sample_work_def\<close>)
  from workflow_step [OF this wf_bridge_deploy [of "bd_task 1 sample_deploy" "{}" default_selector]] show ?thesis
    by (rule conjunct1 [OF workflow_gates])
qed

end
