(* ===== verification/Gdb_Backend.thy ===== *)
theory Gdb_Backend
  imports Service_Gate Operation_Triples
begin

text \<open>
  The GDB backend: \<^verbatim>\<open>backends/gdb.py\<close>, a managed J-Link GDB server and a GDB process for each session. What the operating system, the
  server and GDB answer is a record of functions of a clock; the state holds the filed sessions, the server processes
  that were started and neither ended nor seen to have ended, and every line written to a GDB process. The lock around the
  sessions and the threads are not modelled: an operation is one step.
\<close>

subsection \<open>State\<close>

record gdb_session =
  gs_selector :: device_selector
  gs_gdb_port :: int
  gs_swo_port :: int
  gs_telnet_port :: int
  gs_rtt_port :: int
  gs_server :: nat
  gs_created_at :: nat
  gs_elf_path :: "string list option"

record gdb_state =
  gb_sessions :: "(string, gdb_session) dict"
  gb_running :: "nat list"
  gb_written :: "(nat \<times> string) list"
  gb_next :: nat
  gb_tick :: nat

type_synonym 'a gdb_operation = "(gdb_state, 'a) computation"

text \<open>A session holds the identity of its server; the GDB process that belongs to it is the one the lines for that identity go to. The answer to a line: the messages of GDB, a \<^verbatim>\<open>GdbTimeoutError\<close>, or another exception.\<close>

datatype gdb_answer = GdbAnswered "json list" | GdbTimedOut string | GdbBroken string

text \<open>The reads of a channel until the deadline, \<open>None\<close> for one that timed out, and the \<^verbatim>\<open>OSError\<close> at the end, if any.\<close>

record channel_answer =
  ca_reads :: "bytes option list"
  ca_error :: "string option"

record gdb_host =
  gh_settings :: settings
  gh_fs :: file_system
  gh_targets :: target_registry
  gh_port :: "nat \<Rightarrow> int"
  gh_uuid :: "nat \<Rightarrow> string"
  gh_now :: "nat \<Rightarrow> nat"
  gh_spawn :: "nat \<Rightarrow> string list \<Rightarrow> string option"
  gh_exited :: "nat \<Rightarrow> nat \<Rightarrow> bool"
  gh_connects :: "nat \<Rightarrow> int \<Rightarrow> bool"
  gh_client :: "nat \<Rightarrow> string list \<Rightarrow> string option"
  gh_write :: "nat \<Rightarrow> nat \<Rightarrow> string \<Rightarrow> gdb_answer"
  gh_exit :: "nat \<Rightarrow> nat \<Rightarrow> string option"
  gh_channel :: "nat \<Rightarrow> int \<Rightarrow> string option \<Rightarrow> channel_answer"
  gh_decode :: "bytes \<Rightarrow> string"
  gh_isoformat :: "nat \<Rightarrow> string"
  gh_repr :: "json list \<Rightarrow> string"
  gh_stdout :: "nat \<Rightarrow> nat \<Rightarrow> string"       \<comment> \<open>what a server printed, decoded\<close>
  gh_polls :: nat                     \<comment> \<open>attempts to connect before the deadline\<close>

definition gdb_ask :: "(nat \<Rightarrow> 'a) \<Rightarrow> 'a gdb_operation" where
  "gdb_ask f = (\<lambda>st. (Inr (f (gb_tick st)), st \<lparr> gb_tick := Suc (gb_tick st) \<rparr>))"

definition raised_by :: "string option \<Rightarrow> ('s, unit) computation" where
  "raised_by failure = (case failure of None \<Rightarrow> op_return () | Some msg \<Rightarrow> op_raise (BackendFailed msg))"

definition end_server :: "nat \<Rightarrow> unit gdb_operation" where
  "end_server server = op_put (\<lambda>st. st \<lparr> gb_running := removeAll server (gb_running st) \<rparr>)"

definition find_session :: "string \<Rightarrow> gdb_session gdb_operation" where
  "find_session sid =
     op_bind (op_get (\<lambda>st. dict_get (gb_sessions st) sid)) (\<lambda>s.
     case s of None \<Rightarrow> op_raise (RequestRefused (''unknown GDB session: '' @ sid)) | Some s \<Rightarrow> op_return s)"

subsection \<open>Talking to GDB\<close>

definition gdb_send :: "gdb_host \<Rightarrow> nat \<Rightarrow> string \<Rightarrow> gdb_answer gdb_operation" where
  "gdb_send h server line =
     op_bind (op_put (\<lambda>st. st \<lparr> gb_written := gb_written st @ [(server, line)] \<rparr>)) (\<lambda>_.
     gdb_ask (\<lambda>n. gh_write h n server line))"

definition gdb_write :: "gdb_host \<Rightarrow> nat \<Rightarrow> string \<Rightarrow> json list gdb_operation" where
  "gdb_write h server line =
     op_bind (gdb_send h server line) (\<lambda>answer.
     case answer of GdbAnswered response \<Rightarrow> op_return response
       | GdbTimedOut msg \<Rightarrow> op_raise (BackendFailed msg) | GdbBroken msg \<Rightarrow> op_raise (BackendFailed msg))"

text \<open>\<^verbatim>\<open>isinstance(item, dict) and item.get("message") == "error"\<close>\<close>

definition error_message :: "json \<Rightarrow> bool" where
  "error_message item = (case item of JObj d \<Rightarrow> dict_get d ''message'' = Some (JStr ''error'') | _ \<Rightarrow> False)"

subsection \<open>Starting a session\<close>

fun wait_for_port :: "nat \<Rightarrow> gdb_host \<Rightarrow> int \<Rightarrow> nat \<Rightarrow> unit gdb_operation" where
  "wait_for_port 0 h port server =
     op_bind (end_server server) (\<lambda>_. op_raise (BackendFailed (''GDB Server did not listen on port '' @ show_int port)))"
| "wait_for_port (Suc polls) h port server =
     op_bind (gdb_ask (\<lambda>n. gh_exited h n server)) (\<lambda>exited.
     if exited then
       op_bind (gdb_ask (\<lambda>n. gh_stdout h n server)) (\<lambda>printed.
       op_bind (end_server server) (\<lambda>_. op_raise (BackendFailed (''GDB Server exited before listening: '' @ printed))))
     else op_bind (gdb_ask (\<lambda>n. gh_connects h n port)) (\<lambda>connected.
       if connected then op_return () else wait_for_port polls h port server))"

definition server_args :: "string list \<Rightarrow> device_selector \<Rightarrow> string \<Rightarrow> int \<Rightarrow> int \<Rightarrow> int \<Rightarrow> int \<Rightarrow> string list" where
  "server_args executable sel device gdb_port swo_port telnet_port rtt_port =
     [show_path executable, ''-select'', ''USB='' @ (case sel_probe_serial sel of None \<Rightarrow> ''None'' | Some p \<Rightarrow> p), ''-device'', device,
      ''-if'', sel_interface sel, ''-speed'', show_int (sel_speed_khz sel), ''-port'', show_int gdb_port, ''-swoport'', show_int swo_port,
      ''-telnetport'', show_int telnet_port, ''-RTTTelnetPort'', show_int rtt_port, ''-nogui'', ''1'', ''-silent'', ''-noir'']"

definition spawn_server :: "gdb_host \<Rightarrow> string list \<Rightarrow> nat gdb_operation" where
  "spawn_server h argv =
     op_bind (gdb_ask (\<lambda>n. gh_spawn h n argv)) (\<lambda>failure.
     op_bind (raised_by failure) (\<lambda>_.
     op_bind (op_get gb_next) (\<lambda>server.
     op_bind (op_put (\<lambda>st. st \<lparr> gb_running := gb_running st @ [server], gb_next := Suc server \<rparr>)) (\<lambda>_.
     op_return server))))"

definition symbols_line :: "string list \<Rightarrow> string" where
  "symbols_line path = ''-file-exec-and-symbols '' @ [CHR 0x22] @ show_path path @ [CHR 0x22]"

definition target_line :: "int \<Rightarrow> string" where
  "target_line port = ''-target-select remote 127.0.0.1:'' @ show_int port"

text \<open>The server's port is open: start GDB, load the symbols and connect.\<close>

definition connect_gdb :: "gdb_host \<Rightarrow> nat \<Rightarrow> int \<Rightarrow> string list option \<Rightarrow> unit gdb_operation" where
  "connect_gdb h server port elf =
     op_bind (gdb_ask (\<lambda>n. gh_client h n [set_gdb_client (gh_settings h), ''--interpreter=mi2'', ''--nx'', ''--quiet''])) (\<lambda>failure.
     op_bind (raised_by failure) (\<lambda>_.
     op_bind (case elf of None \<Rightarrow> op_return [] | Some path \<Rightarrow> gdb_write h server (symbols_line path)) (\<lambda>_.
     op_bind (gdb_write h server (target_line port)) (\<lambda>response.
     if list_ex error_message response then
       op_bind (gdb_ask (\<lambda>n. gh_exit h n server)) (\<lambda>failure.
       op_bind (raised_by failure) (\<lambda>_.
       op_bind (end_server server) (\<lambda>_. op_raise (BackendFailed (''GDB target connection failed: '' @ gh_repr h response)))))
     else op_return ()))))"

definition gdb_start :: "gdb_host \<Rightarrow> device_selector \<Rightarrow> string list option \<Rightarrow> string gdb_operation" where
  "gdb_start h sel elf =
     op_bind (op_lift (rcatch (segger_executable (gh_settings h) (gh_fs h) ''JLinkGDBServerCLExe'') PathFailed)) (\<lambda>executable.
     op_bind (gdb_ask (gh_port h)) (\<lambda>gdb_port.
     op_bind (gdb_ask (gh_port h)) (\<lambda>swo_port.
     op_bind (gdb_ask (gh_port h)) (\<lambda>telnet_port.
     op_bind (gdb_ask (gh_port h)) (\<lambda>rtt_port.
     op_bind (op_lift (rcatch (jlink_device (gh_targets h) (sel_target_profile sel) (sel_core sel)) (Selection \<circ> ProfileUnknown))) (\<lambda>device.
     op_bind (spawn_server h (server_args executable sel device gdb_port swo_port telnet_port rtt_port)) (\<lambda>server.
     op_bind (wait_for_port (gh_polls h) h gdb_port server) (\<lambda>_.
     op_bind (connect_gdb h server gdb_port elf) (\<lambda>_.
     op_bind (gdb_ask (\<lambda>n. (gh_uuid h n, gh_now h n))) (\<lambda>(sid, now).
     op_bind (op_put (\<lambda>st. st \<lparr> gb_sessions := dict_set (gb_sessions st) sid
       \<lparr> gs_selector = sel, gs_gdb_port = gdb_port, gs_swo_port = swo_port, gs_telnet_port = telnet_port, gs_rtt_port = rtt_port,
         gs_server = server, gs_created_at = now, gs_elf_path = elf \<rparr> \<rparr>)) (\<lambda>_.
     op_return sid)))))))))))"

subsection \<open>Commands and channels\<close>

definition state_after_command :: "string \<Rightarrow> target_state" where
  "state_after_command command =
     (if list_ex (str_startswith command) [''-exec-continue'', ''continue''] then StateRunning
      else if list_ex (str_startswith command) [''-exec-step'', ''-exec-next'', ''step'', ''next''] then StateHalted
      else StateUnknown)"

definition gdb_identities :: "gdb_session \<Rightarrow> command_result \<Rightarrow> command_result" where
  "gdb_identities s r = r \<lparr> res_probe_identity := [(''serial'', json_opt JStr (sel_probe_serial (gs_selector s)))],
     res_target_identity := [(''board_serial'', json_opt JStr (sel_board_serial (gs_selector s))),
       (''target_profile'', json_opt JStr (sel_target_profile (gs_selector s))), (''core'', json_opt JStr (sel_core (gs_selector s)))] \<rparr>"

definition gdb_backend_command :: "gdb_host \<Rightarrow> string \<Rightarrow> string \<Rightarrow> command_result gdb_operation" where
  "gdb_backend_command h sid command =
     op_bind (op_lift (rcatch (validate_gdb_command command) UnsafeRequest)) (\<lambda>_.
     op_bind (find_session sid) (\<lambda>session.
     op_bind (gdb_ask (gh_now h)) (\<lambda>started.
     op_bind (gdb_send h (gs_server session) command) (\<lambda>answer.
     op_bind (case answer of GdbAnswered response \<Rightarrow> op_return (response, None) | GdbTimedOut msg \<Rightarrow> op_return ([], Some msg)
         | GdbBroken msg \<Rightarrow> op_raise (BackendFailed msg)) (\<lambda>(response, timeout).
     op_bind (gdb_ask (\<lambda>n. (gh_now h n, gh_uuid h n))) (\<lambda>(finished, operation_id).
     let r = make_result \<lparr> stamp_operation_id = operation_id, stamp_started = started, stamp_finished = finished \<rparr> ''jlink-gdb'' [command]
         (if list_ex error_message response then 1 else 0) [] (case timeout of None \<Rightarrow> [] | Some msg \<Rightarrow> msg)
         [(''mi'', JList response), (''session_id'', JStr sid)] in
     op_return (gdb_identities session (r \<lparr> res_session_id := Some sid, res_timed_out := (timeout \<noteq> None),
       res_return_code := (if timeout \<noteq> None then None else res_return_code r), res_target_state_after := state_after_command command \<rparr>))))))))"

text \<open>Reading stops at the end of the stream; a read that times out is tried again.\<close>

fun channel_bytes :: "bytes option list \<Rightarrow> bytes" where
  "channel_bytes [] = []"
| "channel_bytes (None # reads) = channel_bytes reads"
| "channel_bytes (Some chunk # reads) = (if chunk = [] then [] else chunk @ channel_bytes reads)"

definition channel_port :: "gdb_session \<Rightarrow> string \<Rightarrow> int" where
  "channel_port s channel = (if channel = ''swo'' then gs_swo_port s else if channel = ''semihosting'' then gs_telnet_port s else gs_rtt_port s)"

definition capture_port :: "gdb_host \<Rightarrow> string \<Rightarrow> string \<Rightarrow> int \<Rightarrow> string option \<Rightarrow> command_result gdb_operation" where
  "capture_port h sid channel duration_ms content =
     op_bind (op_check (channel \<in> {''swo'', ''semihosting'', ''rtt''}) (RequestRefused ''channel must be swo, semihosting, or rtt'')) (\<lambda>_.
     op_bind (op_check (50 \<le> duration_ms \<and> duration_ms \<le> 300000) (RequestRefused ''duration must be between 0.05 and 300 seconds'')) (\<lambda>_.
     op_bind (find_session sid) (\<lambda>session.
     let port = channel_port session channel in
     op_bind (gdb_ask (gh_now h)) (\<lambda>started.
     op_bind (gdb_ask (\<lambda>n. gh_channel h n port (case content of Some [] \<Rightarrow> None | _ \<Rightarrow> content))) (\<lambda>answer.
     op_bind (gdb_ask (\<lambda>n. (gh_now h n, gh_uuid h n))) (\<lambda>(finished, operation_id).
     let raw = channel_bytes (ca_reads answer);
         r = make_result \<lparr> stamp_operation_id = operation_id, stamp_started = started, stamp_finished = finished \<rparr> (''jlink-gdb-'' @ channel)
           [''tcp-capture'', ''127.0.0.1'', show_int port] (if ca_error answer = None then 0 else 1) (gh_decode h raw)
           (case ca_error answer of None \<Rightarrow> [] | Some msg \<Rightarrow> msg)
           [(''session_id'', JStr sid), (''channel'', JStr channel), (''port'', JInt port), (''bytes'', JInt (int (length raw)))] in
     op_return (gdb_identities session (r \<lparr> res_session_id := Some sid \<rparr>))))))))"

subsection \<open>Ending sessions\<close>

definition gdb_stop :: "gdb_host \<Rightarrow> string \<Rightarrow> bool \<Rightarrow> unit gdb_operation" where
  "gdb_stop h sid resume =
     op_bind (op_get (\<lambda>st. dict_get (gb_sessions st) sid)) (\<lambda>session.
     op_bind (op_put (\<lambda>st. st \<lparr> gb_sessions := dict_pop (gb_sessions st) sid \<rparr>)) (\<lambda>_.
     case session of
       None \<Rightarrow> op_return ()
     | Some s \<Rightarrow>
         op_bind (if resume then op_bind (gdb_send h (gs_server s) ''-exec-continue'') (\<lambda>_. op_return ()) else op_return ()) (\<lambda>_.
         op_bind (gdb_ask (\<lambda>n. gh_exit h n (gs_server s))) (\<lambda>failure.
         op_bind (end_server (gs_server s)) (\<lambda>_. raised_by failure)))))"

definition gdb_stop_all :: "gdb_host \<Rightarrow> unit gdb_operation" where
  "gdb_stop_all h = op_bind (op_get (\<lambda>st. map fst (gb_sessions st))) (each (\<lambda>sid. gdb_stop h sid True))"

definition gdb_backend_info :: "gdb_host \<Rightarrow> string \<Rightarrow> json_object gdb_operation" where
  "gdb_backend_info h sid =
     op_bind (find_session sid) (\<lambda>s.
     op_return [(''session_id'', JStr sid), (''probe_serial'', json_opt JStr (sel_probe_serial (gs_selector s))), (''gdb_port'', JInt (gs_gdb_port s)),
       (''swo_port'', JInt (gs_swo_port s)), (''telnet_port'', JInt (gs_telnet_port s)), (''rtt_port'', JInt (gs_rtt_port s)),
       (''created_at'', JStr (gh_isoformat h (gs_created_at s))), (''elf_path'', json_opt (JStr \<circ> show_path) (gs_elf_path s))])"

inductive gdb_reachable :: "gdb_host \<Rightarrow> gdb_state \<Rightarrow> bool" for h where
  gdb_fresh: "gdb_reachable h \<lparr> gb_sessions = [], gb_running = [], gb_written = [], gb_next = 0, gb_tick = 0 \<rparr>"
| gdb_starts: "gdb_reachable h st \<Longrightarrow> gdb_reachable h (snd (gdb_start h sel elf st))"
| gdb_commands: "gdb_reachable h st \<Longrightarrow> gdb_reachable h (snd (gdb_backend_command h sid command st))"
| gdb_captures: "gdb_reachable h st \<Longrightarrow> gdb_reachable h (snd (capture_port h sid channel duration content st))"
| gdb_stops: "gdb_reachable h st \<Longrightarrow> gdb_reachable h (snd (gdb_stop h sid resume st))"
| gdb_stops_all: "gdb_reachable h st \<Longrightarrow> gdb_reachable h (snd (gdb_stop_all h st))"

subsection \<open>What every operation keeps\<close>

text \<open>
  The lines GDB gets for one server: the symbols if there are any, the connection to the server's port, and then only lines the
  validation accepts. A conversation may stop early while a session is being started.
\<close>

definition spoken :: "gdb_state \<Rightarrow> nat \<Rightarrow> string list" where
  "spoken st server = map snd (filter (\<lambda>e. fst e = server) (gb_written st))"

definition setup_lines :: "string list option \<Rightarrow> int \<Rightarrow> string list" where
  "setup_lines elf port = (case elf of None \<Rightarrow> [] | Some path \<Rightarrow> [symbols_line path]) @ [target_line port]"

definition accepted_line :: "string \<Rightarrow> bool" where
  "accepted_line line = (case validate_gdb_command line of Inl _ \<Rightarrow> False | Inr _ \<Rightarrow> True)"

definition set_up_as :: "string list option \<Rightarrow> int \<Rightarrow> string list \<Rightarrow> bool" where
  "set_up_as elf port lines = (\<exists>commands. lines = setup_lines elf port @ commands \<and> list_all accepted_line commands)"

definition conversation :: "string list \<Rightarrow> bool" where
  "conversation lines = (\<exists>elf port. lines = [] \<or> lines = butlast (setup_lines elf port) \<or> set_up_as elf port lines)"

definition gdb_kept :: "gdb_state \<Rightarrow> bool" where
  "gdb_kept st =
     ((\<forall>sid s. dict_get (gb_sessions st) sid = Some s \<longrightarrow>
         gs_server s \<in> set (gb_running st) \<and> set_up_as (gs_elf_path s) (gs_gdb_port s) (spoken st (gs_server s)))
      \<and> (\<forall>sid sid' s s'. dict_get (gb_sessions st) sid = Some s \<longrightarrow> dict_get (gb_sessions st) sid' = Some s' \<longrightarrow>
           gs_server s = gs_server s' \<longrightarrow> sid = sid')
      \<and> (\<forall>server \<in> set (gb_running st) \<union> fst ` set (gb_written st). server < gb_next st)
      \<and> (\<forall>server. conversation (spoken st server)))"

text \<open>A server that is running, belongs to no session and has been told \<open>lines\<close>.\<close>

definition owned_by_start :: "nat \<Rightarrow> string list \<Rightarrow> gdb_state \<Rightarrow> bool" where
  "owned_by_start server lines st =
     (gdb_kept st \<and> server \<in> set (gb_running st) \<and> spoken st server = lines
      \<and> (\<forall>sid s. dict_get (gb_sessions st) sid = Some s \<longrightarrow> gs_server s \<noteq> server))"

lemma gdb_ticks [simp]:
  "gdb_kept (st \<lparr> gb_tick := n \<rparr>) = gdb_kept st" "owned_by_start server lines (st \<lparr> gb_tick := n \<rparr>) = owned_by_start server lines st"
  "spoken (st \<lparr> gb_tick := n \<rparr>) = spoken st"
  by (simp_all add: gdb_kept_def owned_by_start_def spoken_def fun_eq_iff)

lemma owned_kept: "owned_by_start server lines st \<Longrightarrow> gdb_kept st"
  by (simp add: owned_by_start_def)

lemma keeps_ask:
  assumes "\<And>st n. P st \<Longrightarrow> P (st \<lparr> gb_tick := n \<rparr>)"
  shows "keeps I P (gdb_ask f) (\<lambda>_. P)"
  by (rule keepsI) (auto simp: gdb_ask_def assms)

lemma keeps_raised_by: "(\<And>st. P st \<Longrightarrow> I st) \<Longrightarrow> keeps I P (raised_by failure) (\<lambda>_. P)"
  by (rule keepsI) (auto simp: raised_by_def op_return_def op_raise_def split: option.splits)

lemma spoken_append:
  "spoken (st \<lparr> gb_written := gb_written st @ [(server, line)] \<rparr>) other = spoken st other @ (if other = server then [line] else [])"
  by (simp add: spoken_def)

text \<open>A line to a server that has no session yet.\<close>

lemma owned_write:
  assumes "owned_by_start server lines st" "conversation (lines @ [line])"
  shows "owned_by_start server (lines @ [line]) (st \<lparr> gb_written := gb_written st @ [(server, line)] \<rparr>)"
  using assms by (auto simp: owned_by_start_def gdb_kept_def spoken_append)

lemma send_owned:
  assumes "conversation (lines @ [line])"
  shows "keeps gdb_kept (owned_by_start server lines) (gdb_send h server line) (\<lambda>_. owned_by_start server (lines @ [line]))"
  unfolding gdb_send_def
  by (rule keeps_bind [OF keeps_put keeps_ask]) (simp_all add: owned_write assms)

lemma write_owned:
  assumes "conversation (lines @ [line])"
  shows "keeps gdb_kept (owned_by_start server lines) (gdb_write h server line) (\<lambda>_. owned_by_start server (lines @ [line]))"
  unfolding gdb_write_def
  by (rule keeps_bind [OF send_owned [OF assms]])
    (auto split: gdb_answer.split intro!: keeps_raise keeps_return intro: owned_kept)

lemma kept_ended:
  assumes "owned_by_start server lines st"
  shows "gdb_kept (st \<lparr> gb_running := removeAll server (gb_running st) \<rparr>)"
  using assms by (auto simp: owned_by_start_def gdb_kept_def spoken_def)

lemma end_owned: "keeps gdb_kept (owned_by_start server lines) (end_server server) (\<lambda>_. gdb_kept)"
  unfolding end_server_def by (rule keeps_put) (erule kept_ended)

lemma wait_owned: "keeps gdb_kept (owned_by_start server lines) (wait_for_port polls h port server) (\<lambda>_. owned_by_start server lines)"
proof (induction polls)
  case 0
  show ?case by (auto intro!: keeps_bind [OF end_owned] keeps_raise)
next
  case (Suc polls)
  show ?case
    by (auto intro!: keeps_bind [OF keeps_ask] keeps_bind [OF end_owned] keeps_raise keeps_return Suc)
qed

lemma conversation_setup:
  "conversation []" "conversation ([] @ [symbols_line path])" "conversation ([] @ [target_line port])" "conversation ([symbols_line path] @ [target_line port])"
proof -
  show "conversation []" by (simp add: conversation_def)
  show "conversation ([] @ [symbols_line path])"
    unfolding conversation_def by (intro exI [of _ "Some path"] exI [of _ 0]) (simp add: setup_lines_def)
  show "conversation ([] @ [target_line port])"
    unfolding conversation_def set_up_as_def by (intro exI [of _ None] exI [of _ port]) (simp add: setup_lines_def)
  show "conversation ([symbols_line path] @ [target_line port])"
    unfolding conversation_def set_up_as_def by (intro exI [of _ "Some path"] exI [of _ port]) (simp add: setup_lines_def)
qed

lemma symbols_owned:
  "keeps gdb_kept (owned_by_start server []) (case elf of None \<Rightarrow> op_return [] | Some path \<Rightarrow> gdb_write h server (symbols_line path))
     (\<lambda>_. owned_by_start server (case elf of None \<Rightarrow> [] | Some path \<Rightarrow> [symbols_line path]))"
  by (cases elf) (auto intro: keeps_return write_owned [of "[]", simplified] conversation_setup [simplified])

lemma target_owned:
  "keeps gdb_kept (owned_by_start server (case elf of None \<Rightarrow> [] | Some path \<Rightarrow> [symbols_line path])) (gdb_write h server (target_line port))
     (\<lambda>_. owned_by_start server (setup_lines elf port))"
  unfolding setup_lines_def by (rule write_owned) (cases elf, simp_all add: conversation_setup [simplified])

lemma connect_owned:
  "keeps gdb_kept (owned_by_start server []) (connect_gdb h server port elf) (\<lambda>_. owned_by_start server (setup_lines elf port))"
  unfolding connect_gdb_def
  by (rule keeps_bind [OF keeps_ask] keeps_bind [OF keeps_raised_by] keeps_bind [OF symbols_owned] keeps_bind [OF target_owned] | erule owned_kept | simp)+
    (auto intro!: keeps_bind [OF keeps_ask] keeps_bind [OF keeps_raised_by] keeps_bind [OF end_owned] keeps_raise keeps_return intro: owned_kept)

lemma kept_below:
  assumes "gdb_kept st"
  shows "server \<in> set (gb_running st) \<Longrightarrow> server < gb_next st" "(server, line) \<in> set (gb_written st) \<Longrightarrow> server < gb_next st"
    "dict_get (gb_sessions st) sid = Some s \<Longrightarrow> gs_server s < gb_next st"
proof -
  have below: "\<forall>server \<in> set (gb_running st) \<union> fst ` set (gb_written st). server < gb_next st"
    using assms unfolding gdb_kept_def by (elim conjE)
  have filed: "dict_get (gb_sessions st) sid = Some s \<Longrightarrow> gs_server s \<in> set (gb_running st)" for sid s
    using assms unfolding gdb_kept_def by (elim conjE) simp
  show "server \<in> set (gb_running st) \<Longrightarrow> server < gb_next st" using below by blast
  show "server < gb_next st" if "(server, line) \<in> set (gb_written st)"
    using below imageI [OF that, of fst] by simp
  show "dict_get (gb_sessions st) sid = Some s \<Longrightarrow> gs_server s < gb_next st" using below filed by blast
qed

lemma kept_spawned:
  assumes k: "gdb_kept st"
  shows "owned_by_start (gb_next st) [] (st \<lparr> gb_running := gb_running st @ [gb_next st], gb_next := Suc (gb_next st) \<rparr>)"
proof -
  have "spoken st (gb_next st) = []" using kept_below(2) [OF k] by (fastforce simp: spoken_def filter_empty_conv)
  moreover have "gs_server s \<noteq> gb_next st" if "dict_get (gb_sessions st) sid = Some s" for sid s
    using kept_below(3) [OF k that] by simp
  ultimately show ?thesis using k by (auto simp: owned_by_start_def gdb_kept_def spoken_def intro: less_SucI)
qed

lemma spawn_owned: "keeps gdb_kept gdb_kept (spawn_server h argv) (\<lambda>server. owned_by_start server [])"
  unfolding spawn_server_def
  by (rule keeps_bind [OF keeps_ask], simp, rule keeps_bind [OF keeps_raised_by], assumption, rule keepsI)
    (auto simp: op_bind_def op_get_def op_put_def op_return_def kept_spawned)

lemma kept_filed:
  assumes "owned_by_start (gs_server s) lines st" "set_up_as (gs_elf_path s) (gs_gdb_port s) lines"
  shows "gdb_kept (st \<lparr> gb_sessions := dict_set (gb_sessions st) sid s \<rparr>)"
proof -
  have "gs_server s' \<noteq> gs_server s" "gs_server s \<noteq> gs_server s'" if "dict_get (gb_sessions st) sid' = Some s'" for sid' s'
    using assms(1) that by (auto simp: owned_by_start_def) metis+
  then show ?thesis using assms by (auto simp: owned_by_start_def gdb_kept_def spoken_def)
qed

lemma set_up_first: "set_up_as elf port (setup_lines elf port)"
  by (simp add: set_up_as_def)

lemma start_kept: "keeps gdb_kept gdb_kept (gdb_start h sel elf) (\<lambda>_. gdb_kept)"
  unfolding gdb_start_def
  apply (rule keeps_bind [OF keeps_lift], assumption)
  apply (rule keeps_bind [OF keeps_weaken [OF keeps_ask [of gdb_kept]]], simp, simp, assumption)+
  apply (rule keeps_bind [OF keeps_lift], assumption)
  apply (rule keeps_bind [OF keeps_weaken [OF spawn_owned]], simp, assumption)
  apply (rule keeps_bind [OF wait_owned], rule keeps_bind [OF connect_owned], rule keeps_bind [OF keeps_ask], simp, simp split: prod.split, intro allI impI)
  apply (rule keeps_bind [OF keeps_put [where Q = "\<lambda>_. gdb_kept"]], rule kept_filed, simp, simp add: set_up_first)
  apply (rule keeps_return, assumption)
  done

text \<open>A command to a filed session.\<close>

lemma conversation_grows: "set_up_as elf port lines \<Longrightarrow> accepted_line line \<Longrightarrow> set_up_as elf port (lines @ [line])"
  by (auto simp: set_up_as_def)

lemma set_up_conversation: "set_up_as elf port lines \<Longrightarrow> conversation lines"
  by (auto simp: conversation_def)

lemma kept_session:
  assumes "gdb_kept st" "dict_get (gb_sessions st) sid = Some s"
  shows "gs_server s \<in> set (gb_running st)" "set_up_as (gs_elf_path s) (gs_gdb_port s) (spoken st (gs_server s))"
    "dict_get (gb_sessions st) sid' = Some s' \<Longrightarrow> gs_server s = gs_server s' \<Longrightarrow> sid = sid'"
proof -
  show "gs_server s \<in> set (gb_running st)" "set_up_as (gs_elf_path s) (gs_gdb_port s) (spoken st (gs_server s))"
    using assms unfolding gdb_kept_def by (elim conjE, simp)+
  show "dict_get (gb_sessions st) sid' = Some s' \<Longrightarrow> gs_server s = gs_server s' \<Longrightarrow> sid = sid'"
    using assms unfolding gdb_kept_def by (elim conjE) metis
qed

lemma kept_told:
  assumes k: "gdb_kept st" and s: "dict_get (gb_sessions st) sid = Some s" and line: "accepted_line line"
  shows "gdb_kept (st \<lparr> gb_written := gb_written st @ [(gs_server s, line)] \<rparr>)"
proof -
  have grown: "set_up_as (gs_elf_path s') (gs_gdb_port s') (spoken st (gs_server s') @ (if gs_server s' = gs_server s then [line] else []))"
    if "dict_get (gb_sessions st) sid' = Some s'" for sid' s'
    using kept_session(2) [OF k that] line by (auto simp: conversation_grows)
  have "conversation (spoken st server @ (if server = gs_server s then [line] else []))" for server
    using grown [OF s] set_up_conversation k by (cases "server = gs_server s") (auto simp: gdb_kept_def)
  then show ?thesis
    using k grown kept_below(3) [OF k s] by (auto simp: gdb_kept_def spoken_append)
qed

definition session_of :: "string \<Rightarrow> gdb_session \<Rightarrow> gdb_state \<Rightarrow> bool" where
  "session_of sid s st = (gdb_kept st \<and> dict_get (gb_sessions st) sid = Some s)"

lemma session_of_kept: "session_of sid s st \<Longrightarrow> gdb_kept st"
  by (simp add: session_of_def)

lemma session_of_ticks: "session_of sid s st \<Longrightarrow> session_of sid s (st \<lparr> gb_tick := n \<rparr>)"
  by (simp add: session_of_def)

lemma find_kept: "keeps gdb_kept gdb_kept (find_session sid) (session_of sid)"
  by (rule keepsI) (auto simp: find_session_def op_bind_def op_get_def op_raise_def op_return_def session_of_def split: option.splits)

lemma command_kept: "keeps gdb_kept gdb_kept (gdb_backend_command h sid command) (\<lambda>_. gdb_kept)"
proof -
  have send: "keeps gdb_kept (session_of sid s) (gdb_send h (gs_server s) command) (\<lambda>_. gdb_kept)" if "accepted_line command" for s
    unfolding gdb_send_def
    by (rule keeps_bind [OF keeps_put [where Q = "\<lambda>_. gdb_kept"] keeps_ask]) (auto simp: session_of_def intro: kept_told that)
  show ?thesis
  proof (cases "validate_gdb_command command")
    case (Inl e)
    then show ?thesis by (auto simp: gdb_backend_command_def rcatch_def op_bind_def op_lift_def intro!: keepsI)
  next
    case (Inr c)
    then have line: "accepted_line command" by (simp add: accepted_line_def)
    show ?thesis unfolding gdb_backend_command_def Let_def
      by (rule keeps_bind [OF keeps_lift], assumption, rule keeps_bind [OF keeps_weaken [OF find_kept]], simp, assumption,
          rule keeps_bind [OF keeps_ask], erule session_of_ticks, rule keeps_bind [OF send [OF line]])
        (auto split: gdb_answer.split prod.split intro!: keeps_bind [OF keeps_ask [of gdb_kept]] keeps_bind [OF keeps_return] keeps_bind [OF keeps_raise] keeps_return)
  qed
qed

lemma capture_kept: "keeps gdb_kept gdb_kept (capture_port h sid channel duration content) (\<lambda>_. gdb_kept)"
  unfolding capture_port_def Let_def
  by (rule keeps_bind [OF keeps_check], assumption, rule keeps_bind [OF keeps_check], assumption,
      rule keeps_bind [OF keeps_weaken [OF find_kept]], assumption, erule session_of_kept)
    (auto split: prod.split intro!: keeps_bind [OF keeps_ask [of gdb_kept]] keeps_return)

subsection \<open>Stopping\<close>

text \<open>What a stop does: the session is gone, its server ended, and at most one line written, whatever GDB answers.\<close>

lemma gdb_stop_state:
  "gdb_stop h sid resume st =
     (case dict_get (gb_sessions st) sid of
        None \<Rightarrow> (Inr (), st \<lparr> gb_sessions := dict_pop (gb_sessions st) sid \<rparr>)
      | Some s \<Rightarrow>
          (let n = gb_tick st + (if resume then 1 else 0) in
          (case gh_exit h n (gs_server s) of None \<Rightarrow> Inr () | Some msg \<Rightarrow> Inl (BackendFailed msg),
           st \<lparr> gb_sessions := dict_pop (gb_sessions st) sid, gb_running := removeAll (gs_server s) (gb_running st),
             gb_written := gb_written st @ (if resume then [(gs_server s, ''-exec-continue'')] else []), gb_tick := Suc n \<rparr>)))"
  by (auto simp: gdb_stop_def op_bind_def op_get_def op_put_def op_return_def op_raise_def gdb_send_def gdb_ask_def end_server_def
      raised_by_def Let_def split: option.split)

lemma continue_accepted: "accepted_line ''-exec-continue''"
  by code_simp

lemma kept_popped:
  assumes k: "gdb_kept st" and s: "dict_get (gb_sessions st) sid = Some s"
  shows "gdb_kept (st \<lparr> gb_sessions := dict_pop (gb_sessions st) sid, gb_running := removeAll (gs_server s) (gb_running st) \<rparr>)"
proof -
  have "gs_server s' \<noteq> gs_server s" if "dict_get (gb_sessions st) sid' = Some s'" "sid' \<noteq> sid" for sid' s'
    using kept_session(3) [OF k that(1) s] that(2) by auto
  then show ?thesis using k by (auto simp: gdb_kept_def spoken_def split: if_splits)
qed

lemma kept_cong:
  "gdb_kept a \<Longrightarrow> gb_sessions a = gb_sessions b \<Longrightarrow> gb_running a = gb_running b \<Longrightarrow> gb_written a = gb_written b \<Longrightarrow> gb_next a = gb_next b
     \<Longrightarrow> gdb_kept b"
  by (simp add: gdb_kept_def spoken_def)

lemma stop_kept:
  assumes k: "gdb_kept st"
  shows "gdb_kept (snd (gdb_stop h sid resume st))"
proof (cases "dict_get (gb_sessions st) sid")
  case None
  then have "dict_pop (gb_sessions st) sid = gb_sessions st" by (simp add: dict_get_None dict_pop_absent)
  with k show ?thesis by (simp add: gdb_stop_state None)
next
  case (Some s)
  let ?told = "st \<lparr> gb_written := gb_written st @ (if resume then [(gs_server s, ''-exec-continue'')] else []) \<rparr>"
  have "gdb_kept ?told" using kept_told [OF k Some continue_accepted] k by simp
  from kept_popped [OF this, of sid s] Some show ?thesis by (auto simp: gdb_stop_state Let_def elim: kept_cong)
qed

lemma stop_each_kept: "gdb_kept st \<Longrightarrow> gdb_kept (snd (each (\<lambda>sid. gdb_stop h sid True) sids st))"
proof (induction sids arbitrary: st)
  case (Cons sid sids)
  obtain x st1 where stop: "gdb_stop h sid True st = (x, st1)" by fastforce
  with stop_kept [OF Cons.prems, of h sid True] have "gdb_kept st1" by simp
  with Cons.IH [of st1] show ?case by (cases x) (simp_all add: op_bind_def stop)
qed (simp add: op_return_def)

lemma gdb_reachable_kept: "gdb_reachable h st \<Longrightarrow> gdb_kept st"
proof (induction rule: gdb_reachable.induct)
  case gdb_fresh
  then show ?case by (simp add: gdb_kept_def spoken_def conversation_def)
qed (auto simp: gdb_stop_all_def op_bind_def op_get_def intro: keeps_state start_kept command_kept capture_kept stop_kept stop_each_kept)

lemma each_stops:
  assumes exits: "\<And>n server. gh_exit h n server = None"
  shows "\<exists>st'. each (\<lambda>sid. gdb_stop h sid True) sids st = (Inr (), st')
    \<and> (\<forall>sid. dict_get (gb_sessions st') sid = (if sid \<in> set sids then None else dict_get (gb_sessions st) sid))
    \<and> set (gb_running st') = set (gb_running st) - {gs_server s |sid s. sid \<in> set sids \<and> dict_get (gb_sessions st) sid = Some s}"
proof (induction sids arbitrary: st)
  case (Cons sid sids)
  define st1 where "st1 = snd (gdb_stop h sid True st)"
  have stop: "gdb_stop h sid True st = (Inr (), st1)"
    by (cases "dict_get (gb_sessions st) sid") (auto simp: st1_def gdb_stop_state Let_def exits)
  have sessions: "dict_get (gb_sessions st1) = (dict_get (gb_sessions st))(sid := None)"
    by (cases "dict_get (gb_sessions st) sid") (auto simp: st1_def gdb_stop_state Let_def)
  have running: "set (gb_running st1) = set (gb_running st) - {gs_server s |s. dict_get (gb_sessions st) sid = Some s}"
    by (cases "dict_get (gb_sessions st) sid") (auto simp: st1_def gdb_stop_state Let_def)
  obtain st' where "each (\<lambda>sid. gdb_stop h sid True) sids st1 = (Inr (), st')"
    "\<forall>k. dict_get (gb_sessions st') k = (if k \<in> set sids then None else dict_get (gb_sessions st1) k)"
    "set (gb_running st') = set (gb_running st1) - {gs_server s |k s. k \<in> set sids \<and> dict_get (gb_sessions st1) k = Some s}"
    using Cons.IH [of st1] by blast
  then show ?case by (intro exI [of _ st']) (auto simp: op_bind_returns [of "gdb_stop h sid True", OF stop] sessions running split: if_splits)
qed (simp add: op_return_def)

subsection \<open>A start that raises\<close>

definition start_began :: "(string, gdb_session) dict \<Rightarrow> nat list \<Rightarrow> nat \<Rightarrow> gdb_state \<Rightarrow> bool" where
  "start_began S R k st = (gb_sessions st = S \<and> gb_running st = R \<and> gb_next st = k)"

definition server_started :: "(string, gdb_session) dict \<Rightarrow> nat list \<Rightarrow> nat \<Rightarrow> gdb_state \<Rightarrow> bool" where
  "server_started S R k st = (gb_sessions st = S \<and> gb_running st = R @ [k])"

definition start_failed :: "(string, gdb_session) dict \<Rightarrow> nat list \<Rightarrow> nat \<Rightarrow> gdb_state \<Rightarrow> bool" where
  "start_failed S R k st = (gb_sessions st = S \<and> gb_running st \<in> {R, R @ [k]})"

lemma start_states:
  "start_began S R k st \<Longrightarrow> start_failed S R k st" "server_started S R k st \<Longrightarrow> start_failed S R k st"
  "start_began S R k (st \<lparr> gb_tick := n \<rparr>) = start_began S R k st" "server_started S R k (st \<lparr> gb_tick := n \<rparr>) = server_started S R k st"
  by (auto simp: start_began_def server_started_def start_failed_def)

lemma fail_end: "k \<notin> set R \<Longrightarrow> keeps (start_failed S R k) (server_started S R k) (end_server k) (\<lambda>_. start_failed S R k)"
  by (rule keepsI) (auto simp: end_server_def op_put_def server_started_def start_failed_def)

lemma fail_wait:
  "k \<notin> set R \<Longrightarrow> keeps (start_failed S R k) (server_started S R k) (wait_for_port polls h port k) (\<lambda>_. server_started S R k)"
  by (induction polls) (auto simp: start_states intro!: keeps_bind [OF keeps_ask] keeps_bind [OF fail_end] keeps_raise keeps_return)

lemma fail_write: "keeps (start_failed S R k) (server_started S R k) (gdb_write h k line) (\<lambda>_. server_started S R k)"
  unfolding gdb_write_def gdb_send_def
  by (rule keeps_bind [OF keeps_bind [OF keeps_put [where Q = "\<lambda>_. server_started S R k"] keeps_ask]])
    (auto simp: server_started_def start_failed_def split: gdb_answer.split intro!: keeps_return keeps_raise)

lemma fail_connect:
  "k \<notin> set R \<Longrightarrow> keeps (start_failed S R k) (server_started S R k) (connect_gdb h k port elf) (\<lambda>_. server_started S R k)"
  unfolding connect_gdb_def
  by (cases elf) (auto simp: start_states intro!: keeps_bind [OF keeps_ask] keeps_bind [OF keeps_raised_by] keeps_bind [OF fail_end] keeps_bind [OF fail_write]
      keeps_raise keeps_bind [OF keeps_return [where Q = "\<lambda>_. server_started S R k"]] keeps_return)

lemma fail_spawn:
  "keeps (start_failed S R k) (start_began S R k) (spawn_server h argv) (\<lambda>server st. server = k \<and> server_started S R k st)"
  unfolding spawn_server_def
  by (rule keeps_bind [OF keeps_ask], simp add: start_states, rule keeps_bind [OF keeps_raised_by], erule start_states, rule keepsI)
    (auto simp: op_bind_def op_get_def op_put_def op_return_def start_began_def server_started_def)

lemma fail_start:
  assumes "k \<notin> set R"
  shows "keeps (start_failed S R k) (start_began S R k) (gdb_start h sel elf) (\<lambda>_ _. True)"
  unfolding gdb_start_def
  apply (rule keeps_bind [OF keeps_lift], erule start_states)
  apply (rule keeps_bind [OF keeps_weaken [OF keeps_ask [of "start_began S R k"]]], simp add: start_states, simp, assumption)+
  apply (rule keeps_bind [OF keeps_lift], erule start_states)
  apply (rule keeps_bind [OF keeps_weaken [OF fail_spawn]], simp, assumption)
  subgoal for executable gdb_port swo_port telnet_port rtt_port device server
    apply (cases "server = k")
     apply simp
     apply (rule keeps_bind [OF fail_wait [OF assms]], rule keeps_bind [OF fail_connect [OF assms]], rule keeps_bind [OF keeps_ask], simp add: start_states)
     apply (auto split: prod.split intro!: keeps_bind [OF keeps_put [where Q = "\<lambda>_ _. True"]] keeps_return)[1]
    apply (simp add: keeps_def)
    done
  done

subsection \<open>What callers rely on\<close>

definition fresh_gdb :: gdb_state where
  "fresh_gdb = \<lparr> gb_sessions = [], gb_running = [], gb_written = [], gb_next = 0, gb_tick = 0 \<rparr>"

definition sample_gdb :: "string option \<Rightarrow> gdb_host" where
  "sample_gdb failure = \<lparr> gh_settings = sample_settings, gh_fs = sample_fs, gh_targets = empty_targets \<lparr> reg_profiles := [(''p'', sample_profile)] \<rparr>,
     gh_port = (\<lambda>n. 5000 + int n), gh_uuid = sample_id, gh_now = (\<lambda>n. n), gh_spawn = (\<lambda>n argv. None), gh_exited = (\<lambda>n k. False),
     gh_connects = (\<lambda>n port. 0 < n), gh_client = (\<lambda>n argv. failure), gh_write = (\<lambda>n k line. GdbAnswered []), gh_exit = (\<lambda>n k. None),
     gh_channel = (\<lambda>n port content. \<lparr> ca_reads = [], ca_error = None \<rparr>), gh_decode = (\<lambda>b. []), gh_isoformat = show_nat,
     gh_repr = (\<lambda>response. []), gh_stdout = (\<lambda>n k. []), gh_polls = 3 \<rparr>"

definition sample_selector :: device_selector where
  "sample_selector = default_selector \<lparr> sel_probe_serial := Some ''7'', sel_target_profile := Some ''p'', sel_core := Some ''m'' \<rparr>"

definition sample_gdb_run :: gdb_state where
  "sample_gdb_run = snd (gdb_start (sample_gdb None) sample_selector None fresh_gdb)"

lemma sample_gdb_executable:
  "segger_executable sample_settings sample_fs ''JLinkGDBServerCLExe'' = Inr [''opt'', ''segger'', ''JLinkGDBServerCLExe'']"
proof -
  have p: "parse_path ''/opt/segger'' = \<lparr> path_absolute = True, path_parts = [''opt'', ''segger''] \<rparr>"
    "parse_path ''JLinkGDBServerCLExe'' = \<lparr> path_absolute = False, path_parts = [''JLinkGDBServerCLExe''] \<rparr>"
    by code_simp+
  then show ?thesis
    by (simp add: segger_executable_def sample_settings_def default_settings_def sample_fs_def p join_path_def resolve_root_def below_def within_def)
qed

lemma sample_gdb_started:
  "gdb_start (sample_gdb None) sample_selector None fresh_gdb = (Inr (sample_id 9), sample_gdb_run)"
  "dict_get (gb_sessions sample_gdb_run) (sample_id 9) = Some \<lparr> gs_selector = sample_selector, gs_gdb_port = 5000, gs_swo_port = 5001,
     gs_telnet_port = 5002, gs_rtt_port = 5003, gs_server = 0, gs_created_at = 9, gs_elf_path = None \<rparr>"
  "gb_running sample_gdb_run = [0]" "gb_written sample_gdb_run = [(0, target_line 5000)]"
  by (simp_all add: sample_gdb_run_def gdb_start_def sample_gdb_def sample_gdb_executable op_bind_def op_lift_def rcatch_def gdb_ask_def
      fresh_gdb_def jlink_device_def sample_selector_def default_selector_def get_profile_def sample_profile_def sample_core_def empty_targets_def
      spawn_server_def raised_by_def op_return_def op_get_def op_put_def eval_nat_numeral connect_gdb_def gdb_write_def gdb_send_def)

lemma sample_gdb_leaks:
  "\<exists>st'. gdb_start (sample_gdb (Some ''no gdb'')) sample_selector None fresh_gdb = (Inl (BackendFailed ''no gdb''), st')
     \<and> gb_sessions st' = [] \<and> gb_running st' = [0]"
  by (simp add: gdb_start_def sample_gdb_def sample_gdb_executable op_bind_def op_lift_def rcatch_def gdb_ask_def
      fresh_gdb_def jlink_device_def sample_selector_def default_selector_def get_profile_def sample_profile_def sample_core_def empty_targets_def
      spawn_server_def raised_by_def op_return_def op_raise_def op_get_def op_put_def eval_nat_numeral connect_gdb_def)

lemma sample_gdb_reachable: "gdb_reachable h fresh_gdb" "gdb_reachable (sample_gdb None) sample_gdb_run"
  unfolding sample_gdb_run_def using gdb_reachable.gdb_fresh [of h] gdb_reachable.gdb_fresh [of "sample_gdb None"]
  by (auto simp: fresh_gdb_def intro: gdb_reachable.gdb_starts)

text \<open>C27: Sessions own their servers. In every state that any sequence of starts, commands, captures and stops can reach, however the
  operating system, the server and GDB answer, a filed session's server is running and no other session has it; and the lines its
  GDB process was sent are the symbols line if the session has an ELF, the connection to the session's port, and after these only
  commands the validation accepts. No server at all is ever sent another kind of line.\<close>

theorem gdb_sessions_owned:
  assumes "gdb_reachable h st" "dict_get (gb_sessions st) sid = Some s"
  shows "gs_server s \<in> set (gb_running st)
    \<and> gs_server s \<notin> gs_server ` {s'. \<exists>other. other \<noteq> sid \<and> dict_get (gb_sessions st) other = Some s'}
    \<and> (\<exists>commands. spoken st (gs_server s) = setup_lines (gs_elf_path s) (gs_gdb_port s) @ commands \<and> list_all accepted_line commands)
    \<and> conversation (spoken st server)"
proof -
  note kept = gdb_reachable_kept [OF assms(1)]
  have "gs_server s \<notin> gs_server ` {s'. \<exists>other. other \<noteq> sid \<and> dict_get (gb_sessions st) other = Some s'}"
    using kept_session(3) [OF kept assms(2)] by force
  with kept_session(1,2) [OF kept assms(2)] kept show ?thesis by (simp add: set_up_as_def gdb_kept_def)
qed

theorem gdb_sessions_owned_witness:
  "0 \<in> set (gb_running sample_gdb_run) \<and> conversation (spoken sample_gdb_run 0)"
  using gdb_sessions_owned [OF sample_gdb_reachable(2) sample_gdb_started(2)] by simp

text \<open>C29: A start that fails. The filed sessions are as before, and at most the server this start created is left running; it can
  be: when GDB itself cannot be started, the start raises and leaves its server running with no session to stop it by.\<close>

theorem gdb_start_failure:
  assumes "gdb_reachable h st" "gdb_start h sel elf st = (Inl e, st')"
  shows "gb_sessions st' = gb_sessions st \<and> gb_running st' \<in> {gb_running st, gb_running st @ [gb_next st]}
    \<and> (case gdb_start (sample_gdb (Some ''no gdb'')) sample_selector None fresh_gdb of (r, left) \<Rightarrow>
         r = Inl (BackendFailed ''no gdb'') \<and> gb_sessions left = [] \<and> gb_running left = [0])"
proof -
  have fresh: "gb_next st \<notin> set (gb_running st)" using kept_below(1) [OF gdb_reachable_kept [OF assms(1)]] by blast
  have "start_failed (gb_sessions st) (gb_running st) (gb_next st) st'"
    by (rule keeps_raises [OF fail_start [OF fresh] _ assms(2)]) (simp add: start_began_def)
  then show ?thesis using sample_gdb_leaks by (auto simp: start_failed_def)
qed

theorem gdb_start_failure_witness:
  "gb_sessions (snd (gdb_start (sample_gdb (Some ''no gdb'')) sample_selector None fresh_gdb)) = gb_sessions fresh_gdb"
proof -
  obtain st' where "gdb_start (sample_gdb (Some ''no gdb'')) sample_selector None fresh_gdb = (Inl (BackendFailed ''no gdb''), st')"
    using sample_gdb_leaks by blast
  from gdb_start_failure [OF sample_gdb_reachable(1) this] this show ?thesis by simp
qed

text \<open>C28: Stopping ends the server. In every reachable state a stop, whatever GDB answers and also when its exit raises, removes the
  session and no other, and ends its server and no other; every remaining session's server is still running.\<close>

theorem gdb_stop_ends_server:
  assumes "gdb_reachable h st" "dict_get (gb_sessions st) sid = Some s" "gdb_stop h sid resume st = (r, st')"
  shows "dict_get (gb_sessions st') = (dict_get (gb_sessions st))(sid := None)
    \<and> set (gb_running st') = set (gb_running st) - {gs_server s}
    \<and> {gs_server t |other t. dict_get (gb_sessions st') other = Some t} \<subseteq> set (gb_running st')
    \<and> (r = Inr () \<or> (\<exists>n msg. gh_exit h n (gs_server s) = Some msg \<and> r = Inl (BackendFailed msg)))"
proof -
  have "gdb_kept st'" using stop_kept [OF gdb_reachable_kept [OF assms(1)], of h sid resume] assms(3) by simp
  then have "{gs_server t |other t. dict_get (gb_sessions st') other = Some t} \<subseteq> set (gb_running st')"
    using kept_session(1) by blast
  moreover have "dict_get (gb_sessions st') = (dict_get (gb_sessions st))(sid := None)" "set (gb_running st') = set (gb_running st) - {gs_server s}"
    "r = Inr () \<or> (\<exists>n msg. gh_exit h n (gs_server s) = Some msg \<and> r = Inl (BackendFailed msg))"
    using assms(2,3) by (auto simp: gdb_stop_state Let_def split: option.splits)
  ultimately show ?thesis by blast
qed

theorem gdb_stop_ends_server_witness:
  "gb_running (snd (gdb_stop (sample_gdb None) (sample_id 9) True sample_gdb_run)) = []"
proof -
  obtain r st' where stop: "gdb_stop (sample_gdb None) (sample_id 9) True sample_gdb_run = (r, st')" by fastforce
  from gdb_stop_ends_server [OF sample_gdb_reachable(2) sample_gdb_started(2) this] stop show ?thesis
    by (simp add: sample_gdb_started)
qed

text \<open>Stopping everything. When no exit of GDB raises, stopping all sessions returns, leaves no session filed, and ends exactly the
  servers that belonged to one.\<close>

theorem gdb_stop_all_ends:
  assumes "\<And>n server. gh_exit h n server = None"
  shows "case gdb_stop_all h st of (r, st') \<Rightarrow> r = Inr () \<and> gb_sessions st' = []
    \<and> set (gb_running st') = set (gb_running st) - {gs_server s |sid s. dict_get (gb_sessions st) sid = Some s}"
proof -
  obtain st' where all: "each (\<lambda>sid. gdb_stop h sid True) (map fst (gb_sessions st)) st = (Inr (), st')"
    "\<forall>k. dict_get (gb_sessions st') k = (if k \<in> set (map fst (gb_sessions st)) then None else dict_get (gb_sessions st) k)"
    "set (gb_running st') = set (gb_running st) - {gs_server s |k s. k \<in> set (map fst (gb_sessions st)) \<and> dict_get (gb_sessions st) k = Some s}"
    using each_stops [where h = h and st = st, OF assms] by blast
  have "gb_sessions st' = []" by (rule dict_get_empty) (use all(2) in \<open>auto simp: dict_get_None\<close>)
  moreover have "k \<in> set (map fst (gb_sessions st)) \<and> dict_get (gb_sessions st) k = Some s \<longleftrightarrow> dict_get (gb_sessions st) k = Some s" for k s
    using dict_get_Some_has [of "gb_sessions st" k s] by auto
  ultimately show ?thesis using all(1,3) by (simp add: gdb_stop_all_def op_bind_def op_get_def)
qed

theorem gdb_stop_all_ends_witness: "gb_sessions (snd (gdb_stop_all (sample_gdb None) sample_gdb_run)) = []"
  using gdb_stop_all_ends [of "sample_gdb None" sample_gdb_run] by (simp add: sample_gdb_def split: prod.splits)

end
