(* ===== verification/Gui_Backend.thy ===== *)
theory Gui_Backend
  imports Runner Profiles
begin

text \<open>
  The GUI backend: \<^verbatim>\<open>backends/gui.py\<close>, SEGGER applications on a virtual display that the backend starts itself when no other
  has been started. The state is the process table with the filed sessions and the process of the display; keys, clicks, screenshots
  and the other observations are runs of external commands. An operation is one step: two launches at the same time are not modelled.
\<close>

subsection \<open>State\<close>

record gui_process =
  gp_application :: string
  gp_pid :: nat
  gp_started_at :: nat

record gui_state =
  gu_table :: process_table
  gu_sessions :: "(string, gui_process) dict"
  gu_xvfb :: "nat option"

type_synonym 'a gui_operation = "(gui_state, 'a) computation"

text \<open>What OpenCV finds: no image, a template larger than the screenshot, or the best score with its place and the template's size.\<close>

datatype match_answer = NotReadable | TemplateLarger | BestMatch rat int int int int

record gui_host =
  gu_run :: run_host
  gu_settings :: settings
  gu_fs :: file_system
  gu_returncode :: "nat \<Rightarrow> nat \<Rightarrow> int option"
  gu_gone :: "nat \<Rightarrow> nat \<Rightarrow> bool"              \<comment> \<open>\<^verbatim>\<open>ProcessLookupError\<close>\<close>
  gu_which :: "nat \<Rightarrow> string \<Rightarrow> string option"
  gu_exists :: "nat \<Rightarrow> string \<Rightarrow> bool"
  gu_printed :: "nat \<Rightarrow> nat \<Rightarrow> string"          \<comment> \<open>what a process that ended had printed, decoded\<close>
  gu_helper :: string                            \<comment> \<open>the path of \<^verbatim>\<open>atspi_snapshot.py\<close>\<close>
  gu_match :: "nat \<Rightarrow> string \<Rightarrow> string \<Rightarrow> match_answer"
  gu_show_float :: "rat \<Rightarrow> string"
  gu_isoformat :: "nat \<Rightarrow> string"

definition ALLOWED_APPLICATIONS :: "string list" where
  "ALLOWED_APPLICATIONS = [''JFlashExe'', ''JFlashLiteExe'', ''JFlashSPIExe'', ''JLinkConfigExe'', ''JLinkGDBServerExe'', ''JLinkLicenseManagerExe'',
     ''JLinkRegistrationExe'', ''JLinkRemoteServerExe'', ''JLinkRTTViewerExe'', ''JLinkSWOViewerExe'', ''JMemExe'', ''JScopeExe'']"

definition in_table :: "'a process_operation \<Rightarrow> 'a gui_operation" where
  "in_table m = (\<lambda>st. case m (gu_table st) of (r, t) \<Rightarrow> (r, st \<lparr> gu_table := t \<rparr>))"

definition gui_ask :: "(nat \<Rightarrow> 'a) \<Rightarrow> 'a gui_operation" where
  "gui_ask f = in_table (pt_ask f)"

text \<open>Reading \<^verbatim>\<open>returncode\<close>: a process that has one has ended.\<close>

definition poll_process :: "gui_host \<Rightarrow> nat \<Rightarrow> int option gui_operation" where
  "poll_process h pid =
     op_bind (gui_ask (\<lambda>n. gu_returncode h n pid)) (\<lambda>rc.
     case rc of None \<Rightarrow> op_return None | Some c \<Rightarrow> op_bind (in_table (ended_process pid)) (\<lambda>_. op_return (Some c)))"

definition find_gui :: "string \<Rightarrow> gui_process gui_operation" where
  "find_gui sid =
     op_bind (op_get (\<lambda>st. dict_get (gu_sessions st) sid)) (\<lambda>s.
     case s of None \<Rightarrow> op_raise (RequestRefused (''unknown GUI session: '' @ sid)) | Some s \<Rightarrow> op_return s)"

definition display_env :: "gui_host \<Rightarrow> (string, string) dict" where
  "display_env h = [(''DISPLAY'', set_display (gu_settings h))]"

definition installed :: "gui_host \<Rightarrow> string \<Rightarrow> string gui_operation" where
  "installed h name =
     op_bind (gui_ask (\<lambda>n. gu_which h n name)) (\<lambda>path.
     case path of None \<Rightarrow> op_raise (BackendFailed (name @ '' is not installed''))
       | Some p \<Rightarrow> if p = [] then op_raise (BackendFailed (name @ '' is not installed'')) else op_return p)"

subsection \<open>The display and the applications\<close>

definition display_number :: "string \<Rightarrow> string" where
  "display_number display = hd (split_on (CHR ''.'') (if str_startswith display '':'' then drop 1 display else display))"

definition start_display :: "gui_host \<Rightarrow> unit gui_operation" where
  "start_display h =
     op_bind (installed h ''Xvfb'') (\<lambda>xvfb.
     op_bind (in_table (spawn_process (gu_run h) \<lparr> sp_argv = [xvfb, set_display (gu_settings h), ''-screen'', ''0'', ''1280x1024x24'', ''-nolisten'', ''tcp''],
       sp_cwd = None, sp_env = rh_environ (gu_run h) \<rparr>)) (\<lambda>pid.
     op_bind (op_put (\<lambda>st. st \<lparr> gu_xvfb := Some pid \<rparr>)) (\<lambda>_.
     op_bind (poll_process h pid) (\<lambda>rc.
     if rc \<noteq> None then op_bind (gui_ask (\<lambda>n. gu_printed h n pid)) (\<lambda>err. op_raise (BackendFailed (''Xvfb failed to start: '' @ err)))
     else op_return ()))))"

definition ensure_display :: "gui_host \<Rightarrow> unit gui_operation" where
  "ensure_display h =
     op_bind (op_get gu_xvfb) (\<lambda>xvfb.
     op_bind (case xvfb of None \<Rightarrow> op_return False | Some pid \<Rightarrow> op_bind (poll_process h pid) (\<lambda>rc. op_return (rc = None))) (\<lambda>running.
     if running then op_return ()
     else
       op_bind (gui_ask (\<lambda>n. gu_exists h n (''/tmp/.X11-unix/X'' @ display_number (set_display (gu_settings h))))) (\<lambda>served.
       if served then op_return () else start_display h)))"

definition gui_launch :: "gui_host \<Rightarrow> string \<Rightarrow> string list \<Rightarrow> string gui_operation" where
  "gui_launch h application args =
     op_bind (op_check (application \<in> set ALLOWED_APPLICATIONS) (RequestRefused (''unsupported GUI application: '' @ application))) (\<lambda>_.
     op_bind (op_lift (rcatch (validate_application_args (gu_settings h) (gu_fs h) args) UnsafeRequest)) (\<lambda>validated.
     op_bind (ensure_display h) (\<lambda>_.
     op_bind (op_lift (rcatch (segger_executable (gu_settings h) (gu_fs h) application) PathFailed)) (\<lambda>executable.
     op_bind (in_table (spawn_process (gu_run h) \<lparr> sp_argv = show_path executable # validated, sp_cwd = Some (set_workspace_root (gu_settings h)),
       sp_env = command_env (gu_run h) (display_env h) \<rparr>)) (\<lambda>pid.
     op_bind (poll_process h pid) (\<lambda>rc.
     case rc of
       Some c \<Rightarrow> op_bind (gui_ask (\<lambda>n. gu_printed h n pid)) (\<lambda>detail.
         op_raise (BackendFailed (application @ '' exited during GUI startup with code '' @ show_int c @ '': '' @ str_strip detail)))
     | None \<Rightarrow>
         op_bind (gui_ask (\<lambda>n. (rh_uuid (gu_run h) n, rh_now (gu_run h) n))) (\<lambda>(sid, now).
         op_bind (op_put (\<lambda>st. st \<lparr> gu_sessions := dict_set (gu_sessions st) sid \<lparr> gp_application = application, gp_pid = pid, gp_started_at = now \<rparr> \<rparr>)) (\<lambda>_.
         op_return sid))))))))"

definition gui_info :: "gui_host \<Rightarrow> string \<Rightarrow> json_object gui_operation" where
  "gui_info h sid =
     op_bind (find_gui sid) (\<lambda>s.
     op_bind (poll_process h (gp_pid s)) (\<lambda>rc.
     op_return [(''session_id'', JStr sid), (''application'', JStr (gp_application s)), (''running'', JBool (rc = None)),
       (''return_code'', json_opt JInt rc), (''pid'', JInt (int (gp_pid s))), (''started_at'', JStr (gu_isoformat h (gp_started_at s))),
       (''display'', JStr (set_display (gu_settings h)))]))"

subsection \<open>Observing\<close>

definition gui_run :: "gui_host \<Rightarrow> string list \<Rightarrow> string \<Rightarrow> (string, string) dict \<Rightarrow> command_result gui_operation" where
  "gui_run h argv backend env = in_table (run_process (gu_run h) argv backend None env StateUnknown StateUnknown)"

definition gui_keys_pressed :: "gui_host \<Rightarrow> string \<Rightarrow> string \<Rightarrow> command_result gui_operation" where
  "gui_keys_pressed h sid pressed =
     op_bind (find_gui sid) (\<lambda>_.
     op_bind (installed h ''xdotool'') (\<lambda>xdotool.
     gui_run h [xdotool, ''key'', ''--clearmodifiers'', pressed] ''segger-gui'' (display_env h)))"

definition gui_clicked :: "gui_host \<Rightarrow> string \<Rightarrow> int \<Rightarrow> int \<Rightarrow> command_result gui_operation" where
  "gui_clicked h sid x y =
     op_bind (find_gui sid) (\<lambda>_.
     op_bind (installed h ''xdotool'') (\<lambda>xdotool.
     gui_run h [xdotool, ''mousemove'', show_int x, show_int y, ''click'', ''1''] ''segger-gui'' (display_env h)))"

definition screenshot_path :: "gui_host \<Rightarrow> string \<Rightarrow> string \<Rightarrow> string" where
  "screenshot_path h sid unique = show_pypath (join_path (set_state_root (gu_settings h))
     \<lparr> path_absolute = False, path_parts = [''screenshots'', sid @ ''-'' @ unique @ ''.png''] \<rparr>)"

definition gui_screenshot_taken :: "gui_host \<Rightarrow> string \<Rightarrow> command_result gui_operation" where
  "gui_screenshot_taken h sid =
     op_bind (find_gui sid) (\<lambda>_.
     op_bind (gui_ask (\<lambda>n. screenshot_path h sid (rh_uuid (gu_run h) n))) (\<lambda>destination.
     op_bind (gui_ask (\<lambda>n. gu_which h n ''scrot'')) (\<lambda>scrot.
     op_bind (case scrot of
         Some (c # cs) \<Rightarrow> op_return [c # cs, destination]
       | _ \<Rightarrow> op_bind (gui_ask (\<lambda>n. gu_which h n ''import'')) (\<lambda>import_tool.
           case import_tool of
             Some (c # cs) \<Rightarrow> op_return [c # cs, ''-window'', ''root'', destination]
           | _ \<Rightarrow> op_raise (BackendFailed ''neither scrot nor ImageMagick import is installed''))) (\<lambda>argv.
     op_bind (gui_run h argv ''segger-gui'' (display_env h)) (\<lambda>r.
     op_bind (if result_ok r then gui_ask (\<lambda>n. gu_exists h n destination) else op_return False) (\<lambda>written.
     op_return (if written then r \<lparr> res_evidence_paths := res_evidence_paths r @ [destination] \<rparr> else r)))))))"

definition gui_ocr_read :: "gui_host \<Rightarrow> string \<Rightarrow> command_result gui_operation" where
  "gui_ocr_read h screenshot =
     op_bind (installed h ''tesseract'') (\<lambda>tesseract. gui_run h [tesseract, screenshot, ''stdout''] ''segger-gui'' [])"

definition accessibility_tree :: "gui_host \<Rightarrow> string \<Rightarrow> command_result gui_operation" where
  "accessibility_tree h sid =
     op_bind (find_gui sid) (\<lambda>_.
     op_bind (gui_ask (\<lambda>n. gu_exists h n (gu_helper h))) (\<lambda>present.
     op_bind (op_check present (BackendFailed ''AT-SPI snapshot helper is missing'')) (\<lambda>_.
     gui_run h [''/usr/bin/python3'', gu_helper h] ''segger-gui-atspi''
       (display_env h @ [(''DBUS_SESSION_BUS_ADDRESS'', case dict_get (rh_environ (gu_run h)) ''DBUS_SESSION_BUS_ADDRESS'' of None \<Rightarrow> [] | Some a \<Rightarrow> a)]))))"

definition image_matched :: "gui_host \<Rightarrow> string \<Rightarrow> string \<Rightarrow> pyfloat \<Rightarrow> command_result gui_operation" where
  "image_matched h sid template threshold =
     op_bind (case threshold of
         Finite q \<Rightarrow> if 0 \<le> q \<and> q \<le> 1 then op_return q else op_raise (RequestRefused ''threshold must be between 0 and 1'')
       | NotFinite \<Rightarrow> op_raise (RequestRefused ''threshold must be between 0 and 1'')) (\<lambda>limit.
     op_bind (gui_screenshot_taken h sid) (\<lambda>capture.
     op_bind (gui_ask (rh_now (gu_run h))) (\<lambda>started.
     if \<not> result_ok capture \<or> res_evidence_paths capture = [] then op_return capture
     else
       let screenshot = last (res_evidence_paths capture) in
       op_bind (gui_ask (\<lambda>n. gu_match h n screenshot template)) (\<lambda>answer.
       case answer of
         NotReadable \<Rightarrow> op_raise (RequestRefused ''screenshot or template is not a readable image'')
       | TemplateLarger \<Rightarrow> op_raise (RequestRefused ''template is larger than the screenshot'')
       | BestMatch score x y width height \<Rightarrow>
           op_bind (gui_ask (\<lambda>n. (rh_now (gu_run h) n, rh_uuid (gu_run h) n))) (\<lambda>(finished, operation_id).
           op_return ((make_result \<lparr> stamp_operation_id = operation_id, stamp_started = started, stamp_finished = finished \<rparr> ''segger-gui-opencv''
             [''match-template'', screenshot, template] 0 [] []
             [(''matched'', JBool (limit \<le> score)), (''score'', JReal (gu_show_float h score)), (''threshold'', JReal (gu_show_float h limit)),
              (''x'', JInt x), (''y'', JInt y), (''width'', JInt width), (''height'', JInt height)])
             \<lparr> res_session_id := Some sid, res_evidence_paths := [screenshot, template] \<rparr>))))))"

subsection \<open>Stopping\<close>

definition gui_stop :: "gui_host \<Rightarrow> string \<Rightarrow> unit gui_operation" where
  "gui_stop h sid =
     op_bind (op_get (\<lambda>st. dict_get (gu_sessions st) sid)) (\<lambda>session.
     op_bind (op_put (\<lambda>st. st \<lparr> gu_sessions := dict_pop (gu_sessions st) sid \<rparr>)) (\<lambda>_.
     case session of
       None \<Rightarrow> op_return ()
     | Some s \<Rightarrow>
         op_bind (poll_process h (gp_pid s)) (\<lambda>rc.
         if rc \<noteq> None then op_return ()
         else
           op_bind (gui_ask (\<lambda>n. gu_gone h n (gp_pid s))) (\<lambda>gone.
           if gone then in_table (ended_process (gp_pid s))
           else op_bind (in_table (end_process (gu_run h) (gp_pid s))) (\<lambda>_. op_return ())))))"

definition stop_display :: "gui_host \<Rightarrow> unit gui_operation" where
  "stop_display h =
     op_bind (op_get gu_xvfb) (\<lambda>xvfb.
     case xvfb of
       None \<Rightarrow> op_return ()
     | Some pid \<Rightarrow>
         op_bind (poll_process h pid) (\<lambda>rc.
         if rc \<noteq> None then op_return ()
         else op_bind (in_table (signal_group pid SIGTERM)) (\<lambda>_. op_bind (in_table (await_end (gu_run h) pid)) (\<lambda>_. op_return ()))))"

definition gui_stop_all :: "gui_host \<Rightarrow> unit gui_operation" where
  "gui_stop_all h =
     op_bind (op_get (\<lambda>st. map fst (gu_sessions st))) (\<lambda>sids.
     op_bind (each (gui_stop h) sids) (\<lambda>_. stop_display h))"

inductive gui_reachable :: "gui_host \<Rightarrow> gui_state \<Rightarrow> bool" for h where
  gui_fresh: "gui_reachable h \<lparr> gu_table = no_processes, gu_sessions = [], gu_xvfb = None \<rparr>"
| gui_launches: "gui_reachable h st \<Longrightarrow> gui_reachable h (snd (gui_launch h application args st))"
| gui_informs: "gui_reachable h st \<Longrightarrow> gui_reachable h (snd (gui_info h sid st))"
| gui_presses: "gui_reachable h st \<Longrightarrow> gui_reachable h (snd (gui_keys_pressed h sid pressed st))"
| gui_clicks: "gui_reachable h st \<Longrightarrow> gui_reachable h (snd (gui_clicked h sid x y st))"
| gui_captures: "gui_reachable h st \<Longrightarrow> gui_reachable h (snd (gui_screenshot_taken h sid st))"
| gui_reads: "gui_reachable h st \<Longrightarrow> gui_reachable h (snd (gui_ocr_read h path st))"
| gui_inspects: "gui_reachable h st \<Longrightarrow> gui_reachable h (snd (accessibility_tree h sid st))"
| gui_matches: "gui_reachable h st \<Longrightarrow> gui_reachable h (snd (image_matched h sid template threshold st))"
| gui_stops: "gui_reachable h st \<Longrightarrow> gui_reachable h (snd (gui_stop h sid st))"
| gui_stops_all: "gui_reachable h st \<Longrightarrow> gui_reachable h (snd (gui_stop_all h st))"

subsection \<open>Steps that start nothing\<close>

definition table_quiet :: "process_table \<Rightarrow> process_table \<Rightarrow> bool" where
  "table_quiet t t' =
     (table_ok t \<longrightarrow> table_ok t' \<and> set (pt_live t') \<subseteq> set (pt_live t) \<and> (\<exists>more. pt_spawned t' = pt_spawned t @ more) \<and> pt_tick t \<le> pt_tick t')"

interpretation tq: path_relation table_quiet
  by unfold_locales (auto simp: table_quiet_def intro: order_trans)

lemma quiet_steps: "over table_quiet (pt_ask f)" "over table_quiet (ended_process pid)" "over table_quiet (signal_group pid sig)"
  by (auto simp: over_def table_quiet_def table_ok_def pt_ask_def ended_process_def signal_group_def op_put_def)

lemma quiet_cancelled: "over table_quiet cancelled"
  by (simp add: cancelled_def tq.over_basic)

lemma quiet_waits: "over table_quiet (wait_process f pid)" "over table_quiet (await_end h pid)" "over table_quiet (end_process h pid)"
proof -
  show wait: "over table_quiet (wait_process f pid)" for f
    unfolding wait_process_def by (intro tq.over_bind quiet_steps) (auto split: waited.split intro: tq.over_bind quiet_steps tq.over_basic quiet_cancelled)
  show await: "over table_quiet (await_end h pid)"
    unfolding await_end_def by (intro tq.over_bind quiet_steps) (auto split: option.split intro: tq.over_bind quiet_steps tq.over_basic quiet_cancelled)
  have kill: "over table_quiet (kill_process h pid)"
    unfolding kill_process_def by (intro tq.over_bind quiet_steps await)
  show "over table_quiet (end_process h pid)"
    unfolding end_process_def by (intro tq.over_bind quiet_steps wait) (auto split: waited.split intro: tq.over_basic kill quiet_cancelled)
qed

text \<open>A run leaves the live processes as they were.\<close>

lemma quiet_run:
  assumes "settles h"
  shows "over table_quiet (run_process h command backend cwd env before after)"
proof (rule overI)
  fix t
  obtain r t' where run: "run_process h command backend cwd env before after t = (r, t')" by fastforce
  show "table_quiet t (snd (run_process h command backend cwd env before after t))"
    using run_process_ends(1) [OF assms _ run] by (auto simp: run run_effect_def table_quiet_def table_ok_def less_SucI)
qed

subsection \<open>The invariant\<close>

text \<open>A session's process was started for it: an allowed application below the installation root, with validated arguments, on the
  configured display.\<close>

definition launched :: "gui_host \<Rightarrow> process_table \<Rightarrow> gui_process \<Rightarrow> bool" where
  "launched h t s =
     (gp_application s \<in> set ALLOWED_APPLICATIONS \<and> gp_pid s < length (pt_spawned t)
      \<and> (\<exists>path args. segger_executable (gu_settings h) (gu_fs h) (gp_application s) = Inr path
           \<and> validate_application_args (gu_settings h) (gu_fs h) args = Inr args
           \<and> pt_spawned t ! gp_pid s = \<lparr> sp_argv = show_path path # args, sp_cwd = Some (set_workspace_root (gu_settings h)),
               sp_env = command_env (gu_run h) (display_env h) \<rparr>))"

definition session_pids :: "gui_state \<Rightarrow> nat set" where
  "session_pids st = {gp_pid s |sid s. dict_get (gu_sessions st) sid = Some s}"

definition sessions_launched :: "gui_host \<Rightarrow> gui_state \<Rightarrow> bool" where
  "sessions_launched h st =
     (table_ok (gu_table st)
      \<and> (\<forall>sid s. dict_get (gu_sessions st) sid = Some s \<longrightarrow>
           launched h (gu_table st) s \<and> sid \<in> rh_uuid (gu_run h) ` {..<pt_tick (gu_table st)}))"

definition gui_kept :: "gui_host \<Rightarrow> gui_state \<Rightarrow> bool" where
  "gui_kept h st = (sessions_launched h st \<and> set (pt_live (gu_table st)) \<subseteq> session_pids st \<union> set_option (gu_xvfb st))"

text \<open>The display's process has ended, or none was started.\<close>

definition display_down :: "gui_host \<Rightarrow> gui_state \<Rightarrow> bool" where
  "display_down h st = (sessions_launched h st \<and> set (pt_live (gu_table st)) \<subseteq> session_pids st)"

text \<open>A process that may be live and has no session yet.\<close>

definition owned_by_launch :: "gui_host \<Rightarrow> nat \<Rightarrow> gui_state \<Rightarrow> bool" where
  "owned_by_launch h pid st =
     (sessions_launched h st \<and> set (pt_live (gu_table st)) \<subseteq> insert pid (session_pids st \<union> set_option (gu_xvfb st)))"

lemma launched_more: "launched h t s \<Longrightarrow> table_quiet t t' \<Longrightarrow> table_ok t \<Longrightarrow> launched h t' s"
  by (auto simp: launched_def table_quiet_def nth_append)

lemma quiet_sessions:
  assumes "table_quiet (gu_table st) t" "sessions_launched h st"
  shows "sessions_launched h (st \<lparr> gu_table := t \<rparr>)" "set (pt_live t) \<subseteq> set (pt_live (gu_table st))"
proof -
  have ok: "table_ok (gu_table st)" using assms(2) by (simp add: sessions_launched_def)
  then have t: "table_ok t" "set (pt_live t) \<subseteq> set (pt_live (gu_table st))" "pt_tick (gu_table st) \<le> pt_tick t"
    using assms(1) by (simp_all add: table_quiet_def)
  have "{..<pt_tick (gu_table st)} \<subseteq> {..<pt_tick t}" using t(3) by auto
  then have "rh_uuid (gu_run h) ` {..<pt_tick (gu_table st)} \<subseteq> rh_uuid (gu_run h) ` {..<pt_tick t}" by (rule image_mono)
  with assms(2) t(1) launched_more [OF _ assms(1) ok] show "sessions_launched h (st \<lparr> gu_table := t \<rparr>)"
    unfolding sessions_launched_def by auto
  show "set (pt_live t) \<subseteq> set (pt_live (gu_table st))" by (rule t(2))
qed

lemma session_pids_table [simp]: "session_pids (st \<lparr> gu_table := t \<rparr>) = session_pids st"
  by (simp add: session_pids_def)

lemma quiet_kept:
  assumes "table_quiet (gu_table st) t"
  shows "gui_kept h st \<Longrightarrow> gui_kept h (st \<lparr> gu_table := t \<rparr>)" "display_down h st \<Longrightarrow> display_down h (st \<lparr> gu_table := t \<rparr>)"
    "owned_by_launch h pid st \<Longrightarrow> owned_by_launch h pid (st \<lparr> gu_table := t \<rparr>)"
  using quiet_sessions [OF assms] unfolding gui_kept_def display_down_def owned_by_launch_def by (auto dest: subset_trans)

lemma display_down_kept: "display_down h st \<Longrightarrow> gui_kept h st"
  by (auto simp: display_down_def gui_kept_def)

lemma keeps_quiet:
  assumes m: "over table_quiet m" and P: "\<And>st t. table_quiet (gu_table st) t \<Longrightarrow> P st \<Longrightarrow> P (st \<lparr> gu_table := t \<rparr>)" and I: "\<And>st. P st \<Longrightarrow> I st"
  shows "keeps I P (in_table m) (\<lambda>_. P)"
proof (rule keepsI)
  fix st st' e x assume "P st"
  then have moved: "P (st \<lparr> gu_table := snd (m (gu_table st)) \<rparr>)" by (rule P [OF overD [OF m]])
  show "I st'" if "in_table m st = (Inl e, st')" using that moved I by (auto simp: in_table_def split: prod.splits)
  show "P st'" if "in_table m st = (Inr x, st')" using that moved by (auto simp: in_table_def split: prod.splits)
qed

text \<open>The three situations of the backend survive every step that starts nothing.\<close>

definition started_as :: "gui_host \<Rightarrow> nat \<Rightarrow> spawned \<Rightarrow> gui_state \<Rightarrow> bool" where
  "started_as h pid p st =
     (owned_by_launch h pid st \<and> pid < length (pt_spawned (gu_table st)) \<and> pt_spawned (gu_table st) ! pid = p)"

lemma quiet_started: "table_quiet (gu_table st) t \<Longrightarrow> started_as h pid p st \<Longrightarrow> started_as h pid p (st \<lparr> gu_table := t \<rparr>)"
  using quiet_kept(3) [of st t h pid] by (auto simp: started_as_def owned_by_launch_def sessions_launched_def table_quiet_def nth_append)

lemma ask_keeps:
  "keeps (gui_kept h) (gui_kept h) (gui_ask f) (\<lambda>_. gui_kept h)" "keeps (gui_kept h) (display_down h) (gui_ask f) (\<lambda>_. display_down h)"
  unfolding gui_ask_def by (rule keeps_quiet; (rule quiet_steps | erule (1) quiet_kept | simp add: display_down_kept))+

lemma installed_keeps:
  "keeps (gui_kept h) (gui_kept h) (installed h name) (\<lambda>_. gui_kept h)" "keeps (gui_kept h) (display_down h) (installed h name) (\<lambda>_. display_down h)"
  unfolding installed_def
  by (rule keeps_bind, rule ask_keeps, auto split: option.split intro!: keeps_return keeps_raise simp: display_down_kept)+

lemma poll_keeps: "keeps (gui_kept h) (gui_kept h) (poll_process h pid) (\<lambda>_. gui_kept h)"
  unfolding poll_process_def
  by (rule keeps_bind, rule ask_keeps)
    (auto split: option.split intro!: keeps_return keeps_bind [OF keeps_quiet [where P = "gui_kept h"]] quiet_steps quiet_kept)

lemma ended_live: "pt_live (snd (ended_process pid t)) = removeAll pid (pt_live t)"
  by (simp add: ended_process_def op_put_def)

lemma poll_display:
  "keeps (gui_kept h) (\<lambda>st. gui_kept h st \<and> gu_xvfb st = Some pid) (poll_process h pid) (\<lambda>rc st. if rc = None then gui_kept h st else display_down h st)"
proof -
  have ask: "keeps (gui_kept h) (\<lambda>st. gui_kept h st \<and> gu_xvfb st = Some pid) (gui_ask f) (\<lambda>_ st. gui_kept h st \<and> gu_xvfb st = Some pid)"
    for f :: "nat \<Rightarrow> int option"
    unfolding gui_ask_def by (rule keeps_quiet) (auto intro: quiet_steps quiet_kept)
  have ended: "keeps (gui_kept h) (\<lambda>st. gui_kept h st \<and> gu_xvfb st = Some pid) (in_table (ended_process pid)) (\<lambda>_. display_down h)"
  proof (rule keepsI)
    fix st st' x assume st: "gui_kept h st \<and> gu_xvfb st = Some pid" and run: "in_table (ended_process pid) st = (Inr x, st')"
    then have st': "st' = st \<lparr> gu_table := snd (ended_process pid (gu_table st)) \<rparr>" by (auto simp: in_table_def split: prod.splits)
    have "sessions_launched h st'"
      unfolding st' by (rule quiet_sessions) (use st overD [OF quiet_steps(2)] in \<open>auto simp: gui_kept_def\<close>)
    moreover have "set (pt_live (gu_table st')) \<subseteq> session_pids st'" using st by (auto simp: st' ended_live gui_kept_def)
    ultimately show "display_down h st'" by (simp add: display_down_def)
  qed (auto simp: in_table_def ended_process_def op_put_def)
  show ?thesis unfolding poll_process_def
    by (rule keeps_bind [OF ask]) (auto split: option.split intro!: keeps_return keeps_bind [OF ended])
qed

lemma ask_started: "keeps I (started_as h pid p) (gui_ask f) (\<lambda>_. started_as h pid p)"
proof (rule keepsI)
  fix st st' x assume "started_as h pid p st" "gui_ask f st = (Inr x, st')"
  then show "started_as h pid p st'"
    using quiet_started [OF overD [OF quiet_steps(1)], of h pid p st f] by (auto simp: gui_ask_def in_table_def split: prod.splits)
qed (auto simp: gui_ask_def in_table_def pt_ask_def)

lemma ended_started: "keeps I (started_as h pid p) (in_table (ended_process pid)) (\<lambda>_. gui_kept h)"
proof (rule keepsI)
  fix st st' x assume st: "started_as h pid p st" and run: "in_table (ended_process pid) st = (Inr x, st')"
  then have st': "st' = st \<lparr> gu_table := snd (ended_process pid (gu_table st)) \<rparr>" by (auto simp: in_table_def split: prod.splits)
  have "sessions_launched h st'"
    unfolding st' by (rule quiet_sessions) (use st overD [OF quiet_steps(2)] in \<open>auto simp: started_as_def owned_by_launch_def\<close>)
  moreover have "set (pt_live (gu_table st')) \<subseteq> session_pids st' \<union> set_option (gu_xvfb st')"
    using st by (auto simp: st' ended_live started_as_def owned_by_launch_def)
  ultimately show "gui_kept h st'" by (simp add: gui_kept_def)
qed (auto simp: in_table_def ended_process_def op_put_def)

lemma poll_started:
  "keeps I (started_as h pid p) (poll_process h pid) (\<lambda>rc st. if rc = None then started_as h pid p st else gui_kept h st)"
  unfolding poll_process_def
  by (rule keeps_bind [OF ask_started]) (auto split: option.split intro!: keeps_return keeps_bind [OF ended_started])

text \<open>Starting a process.\<close>

lemma spawn_table:
  "spawn_process h p t =
     (case rh_spawn h (pt_tick t) p of
        Some msg \<Rightarrow> (Inl (BackendFailed msg), t \<lparr> pt_tick := Suc (pt_tick t) \<rparr>)
      | None \<Rightarrow> (Inr (length (pt_spawned t)), t \<lparr> pt_live := pt_live t @ [length (pt_spawned t)], pt_spawned := pt_spawned t @ [p], pt_tick := Suc (pt_tick t) \<rparr>))"
  by (cases t) (simp add: spawn_process_def op_bind_def pt_ask_def op_return_def op_raise_def op_get_def op_put_def split: option.split)

definition with_process :: "spawned \<Rightarrow> gui_state \<Rightarrow> gui_state" where
  "with_process p st = st \<lparr> gu_table := (gu_table st) \<lparr> pt_live := pt_live (gu_table st) @ [length (pt_spawned (gu_table st))],
     pt_spawned := pt_spawned (gu_table st) @ [p], pt_tick := Suc (pt_tick (gu_table st)) \<rparr> \<rparr>"

lemma sessions_with_process: "sessions_launched h st \<Longrightarrow> sessions_launched h (with_process p st)"
  by (auto simp: sessions_launched_def with_process_def table_ok_def launched_def nth_append lessThan_Suc less_SucI)

lemma spawn_keeps:
  assumes "\<And>st. P st \<Longrightarrow> I st" "\<And>st t. table_quiet (gu_table st) t \<Longrightarrow> P st \<Longrightarrow> P (st \<lparr> gu_table := t \<rparr>)"
  shows "keeps I P (in_table (spawn_process h p)) (\<lambda>pid st'. \<exists>st. P st \<and> pid = length (pt_spawned (gu_table st)) \<and> st' = with_process p st)"
proof (rule keepsI)
  fix st st' e x assume st: "P st"
  have ticked: "table_quiet (gu_table st) (gu_table st \<lparr> pt_tick := Suc (pt_tick (gu_table st)) \<rparr>)"
    by (auto simp: table_quiet_def table_ok_def)
  show "I st'" if "in_table (spawn_process h p) st = (Inl e, st')"
    using that assms(1) [OF assms(2) [OF ticked st]] by (auto simp: in_table_def spawn_table split: option.splits)
  show "\<exists>st. P st \<and> x = length (pt_spawned (gu_table st)) \<and> st' = with_process p st" if "in_table (spawn_process h p) st = (Inr x, st')"
    using that st by (auto simp: in_table_def spawn_table with_process_def split: option.splits)
qed

lemma spawned_for_launch:
  "gui_kept h st \<Longrightarrow> started_as h (length (pt_spawned (gu_table st))) p (with_process p st)"
  using sessions_with_process [of h st p] by (auto simp: gui_kept_def started_as_def owned_by_launch_def with_process_def)

lemma spawned_for_display:
  "display_down h st \<Longrightarrow> gui_kept h (with_process p st \<lparr> gu_xvfb := Some (length (pt_spawned (gu_table st))) \<rparr>)"
  using sessions_with_process [of h st p]
  by (auto simp: display_down_def gui_kept_def with_process_def sessions_launched_def session_pids_def)

lemma start_display_kept: "keeps (gui_kept h) (display_down h) (start_display h) (\<lambda>_. gui_kept h)"
  unfolding start_display_def
  apply (rule keeps_bind [OF installed_keeps(2)])
  apply (rule keeps_bind [OF spawn_keeps [where P = "display_down h"]], erule display_down_kept, erule (1) quiet_kept)
  subgoal for xvfb pid
    apply (rule keeps_bind [where Q = "\<lambda>_ st. gui_kept h st \<and> gu_xvfb st = Some pid"], rule keeps_put)
     apply (auto intro: spawned_for_display)[1]
    apply (rule keeps_bind [OF poll_display])
    apply (auto intro!: keeps_return keeps_raise keeps_bind [OF ask_keeps(2)] simp: display_down_kept)
    done
  done

lemma ensure_display_kept: "keeps (gui_kept h) (gui_kept h) (ensure_display h) (\<lambda>_. gui_kept h)"
  unfolding ensure_display_def
proof (rule keeps_bind [OF keeps_get])
  fix xvfb
  let ?poll = "case xvfb of None \<Rightarrow> op_return False | Some pid \<Rightarrow> op_bind (poll_process h pid) (\<lambda>rc. op_return (rc = None))"
  have poll: "keeps (gui_kept h) (\<lambda>st. xvfb = gu_xvfb st \<and> gui_kept h st) ?poll (\<lambda>running st. if running then gui_kept h st else display_down h st)"
  proof (cases xvfb)
    case None
    then show ?thesis by (auto intro!: keeps_return simp: display_down_def gui_kept_def)
  next
    case (Some pid)
    have "keeps (gui_kept h) (\<lambda>st. gui_kept h st \<and> gu_xvfb st = Some pid) ?poll (\<lambda>running st. if running then gui_kept h st else display_down h st)"
      unfolding Some option.case by (rule keeps_bind [OF poll_display]) (rule keeps_return)
    then show ?thesis by (rule keeps_weaken) (auto simp: Some)
  qed
  show "keeps (gui_kept h) (\<lambda>st. xvfb = gu_xvfb st \<and> gui_kept h st) (op_bind ?poll (\<lambda>running. if running then op_return ()
      else op_bind (gui_ask (\<lambda>n. gu_exists h n (''/tmp/.X11-unix/X'' @ display_number (set_display (gu_settings h)))))
            (\<lambda>served. if served then op_return () else start_display h))) (\<lambda>_. gui_kept h)"
    by (rule keeps_bind [OF poll]) (auto intro!: keeps_return keeps_bind [OF ask_keeps(2)] start_display_kept simp: display_down_kept)
qed

text \<open>Filing a session under a new identifier.\<close>

lemma fresh_session:
  assumes "inj (rh_uuid (gu_run h))"
  shows "keeps I (started_as h pid p) (gui_ask (\<lambda>n. (rh_uuid (gu_run h) n, f n)))
    (\<lambda>(sid, now) st. started_as h pid p st \<and> dict_get (gu_sessions st) sid = None \<and> sid \<in> rh_uuid (gu_run h) ` {..<pt_tick (gu_table st)})"
proof (rule keepsI)
  fix st st' x assume st: "started_as h pid p st" and run: "gui_ask (\<lambda>n. (rh_uuid (gu_run h) n, f n)) st = (Inr x, st')"
  have kept: "started_as h pid p st'" using keeps_returns [OF ask_started st run] .
  have "dict_get (gu_sessions st) (rh_uuid (gu_run h) (pt_tick (gu_table st))) = None"
  proof (cases "dict_get (gu_sessions st) (rh_uuid (gu_run h) (pt_tick (gu_table st)))")
    case (Some s)
    then have "rh_uuid (gu_run h) (pt_tick (gu_table st)) \<in> rh_uuid (gu_run h) ` {..<pt_tick (gu_table st)}"
      using st unfolding started_as_def owned_by_launch_def sessions_launched_def by blast
    then show ?thesis using assms by (simp add: inj_image_mem_iff)
  qed
  then show "(\<lambda>(sid, now) st. started_as h pid p st \<and> dict_get (gu_sessions st) sid = None \<and> sid \<in> rh_uuid (gu_run h) ` {..<pt_tick (gu_table st)}) x st'"
    using kept run by (auto simp: gui_ask_def in_table_def pt_ask_def)
qed (auto simp: gui_ask_def in_table_def pt_ask_def)

lemma gui_session_filed:
  assumes st: "started_as h pid p st" "dict_get (gu_sessions st) sid = None" "sid \<in> rh_uuid (gu_run h) ` {..<pt_tick (gu_table st)}"
    and s: "gp_pid s = pid" "launched h (gu_table st) s"
  shows "gui_kept h (st \<lparr> gu_sessions := dict_set (gu_sessions st) sid s \<rparr>)"
proof -
  let ?st = "st \<lparr> gu_sessions := dict_set (gu_sessions st) sid s \<rparr>"
  have "sessions_launched h ?st" using st s by (auto simp: started_as_def owned_by_launch_def sessions_launched_def)
  moreover have "session_pids st \<subseteq> session_pids ?st" "pid \<in> session_pids ?st"
    using st(2) s(1) by (auto simp: session_pids_def) (metis option.distinct(1))+
  ultimately show ?thesis using st(1) by (auto simp: started_as_def owned_by_launch_def gui_kept_def)
qed

lemma started_launched:
  assumes "started_as h pid \<lparr> sp_argv = show_path path # args, sp_cwd = Some (set_workspace_root (gu_settings h)),
      sp_env = command_env (gu_run h) (display_env h) \<rparr> st"
    "segger_executable (gu_settings h) (gu_fs h) (gp_application s) = Inr path" "validate_application_args (gu_settings h) (gu_fs h) args = Inr args"
    "gp_application s \<in> set ALLOWED_APPLICATIONS" "gp_pid s = pid"
  shows "launched h (gu_table st) s"
  using assms by (auto simp: started_as_def launched_def)

lemma launch_kept:
  assumes "inj (rh_uuid (gu_run h))"
  shows "keeps (gui_kept h) (gui_kept h) (gui_launch h application args) (\<lambda>_. gui_kept h)"
proof -
  let ?K = "gui_kept h"
  let ?p = "\<lambda>path. \<lparr> sp_argv = show_path path # args, sp_cwd = Some (set_workspace_root (gu_settings h)), sp_env = command_env (gu_run h) (display_env h) \<rparr>"
  let ?file = "\<lambda>pid. op_bind (gui_ask (\<lambda>n. (rh_uuid (gu_run h) n, rh_now (gu_run h) n))) (\<lambda>(sid, now).
       op_bind (op_put (\<lambda>st. st \<lparr> gu_sessions := dict_set (gu_sessions st) sid \<lparr> gp_application = application, gp_pid = pid, gp_started_at = now \<rparr> \<rparr>)) (\<lambda>_.
       op_return sid))"
  have filed: "keeps ?K (started_as h pid (?p path)) (?file pid) (\<lambda>_. ?K)"
    if path: "segger_executable (gu_settings h) (gu_fs h) application = Inr path" "validate_application_args (gu_settings h) (gu_fs h) args = Inr args"
      "application \<in> set ALLOWED_APPLICATIONS" for pid path
    by (rule keeps_bind [OF fresh_session [OF assms]])
      (use path in \<open>auto intro!: keeps_bind [OF keeps_put [where Q = "\<lambda>_. ?K"]] keeps_return gui_session_filed started_launched\<close>)
  have spawned: "keeps ?K (\<lambda>st. ?K st) (op_bind (in_table (spawn_process (gu_run h) (?p path))) (\<lambda>pid. op_bind (poll_process h pid) (\<lambda>rc.
      case rc of Some c \<Rightarrow> op_bind (gui_ask (f pid)) (\<lambda>detail. op_raise (g c detail)) | None \<Rightarrow> ?file pid))) (\<lambda>_. ?K)"
    if path: "segger_executable (gu_settings h) (gu_fs h) application = Inr path" "validate_application_args (gu_settings h) (gu_fs h) args = Inr args"
      "application \<in> set ALLOWED_APPLICATIONS" for path and f :: "nat \<Rightarrow> nat \<Rightarrow> string" and g
  proof -
    have start: "keeps ?K ?K (in_table (spawn_process (gu_run h) (?p path))) (\<lambda>pid. started_as h pid (?p path))"
      by (rule keeps_weaken [OF spawn_keeps [where P = ?K]]) (auto intro: quiet_kept spawned_for_launch)
    show ?thesis
      by (rule keeps_bind [OF start], rule keeps_bind [OF poll_started])
        (auto split: option.split intro!: filed path keeps_bind [OF ask_keeps(1)] keeps_raise)
  qed
  show ?thesis
  proof (cases "application \<in> set ALLOWED_APPLICATIONS \<and> validate_application_args (gu_settings h) (gu_fs h) args = Inr args")
    case False
    then consider "application \<notin> set ALLOWED_APPLICATIONS"
      | e where "application \<in> set ALLOWED_APPLICATIONS" "validate_application_args (gu_settings h) (gu_fs h) args = Inl e"
      using application_args_confined [of "gu_settings h" "gu_fs h" args] by (cases "validate_application_args (gu_settings h) (gu_fs h) args") auto
    then have "\<exists>e. gui_launch h application args = op_raise e"
      by cases (auto simp: gui_launch_def op_check_def rcatch_def op_bind_def op_raise_def op_lift_def op_return_def)
    then show ?thesis by (auto intro: keeps_raise)
  next
    case True
    have args: "rcatch (validate_application_args (gu_settings h) (gu_fs h) args) UnsafeRequest = Inr args" using True by (simp add: rcatch_def)
    show ?thesis unfolding gui_launch_def args
      unfolding bind_lift
      by (rule keeps_bind [OF keeps_check], assumption, rule keeps_bind [OF ensure_display_kept], rule keeps_lift_bind, assumption, rule spawned)
        (use True in simp_all)
  qed
qed

text \<open>Observing starts and ends nothing of the backend's own.\<close>

lemma find_keeps: "keeps (gui_kept h) (gui_kept h) (find_gui sid) (\<lambda>_. gui_kept h)"
  by (rule keepsI) (auto simp: find_gui_def op_bind_def op_get_def op_raise_def op_return_def split: option.splits)

lemma run_keeps: "settles (gu_run h) \<Longrightarrow> keeps (gui_kept h) (gui_kept h) (gui_run h argv backend env) (\<lambda>_. gui_kept h)"
  unfolding gui_run_def by (rule keeps_quiet) (auto intro: quiet_run quiet_kept)

lemmas observe_keeps = find_keeps run_keeps installed_keeps(1) ask_keeps(1) poll_keeps

lemma screenshot_keeps:
  assumes "settles (gu_run h)"
  shows "keeps (gui_kept h) (gui_kept h) (gui_screenshot_taken h sid) (\<lambda>_. gui_kept h)"
proof -
  let ?K = "gui_kept h"
  have tool: "keeps ?K ?K (case scrot of Some (c # cs) \<Rightarrow> op_return [c # cs, destination] | _ \<Rightarrow> op_bind (gui_ask f) (\<lambda>import_tool.
        case import_tool of Some (c # cs) \<Rightarrow> op_return (g c cs) | _ \<Rightarrow> op_raise e)) (\<lambda>_. ?K)"
    for scrot destination and f :: "nat \<Rightarrow> string option" and g e
    by (auto split: option.split list.split intro!: keeps_return keeps_raise keeps_bind [OF ask_keeps(1)])
  show ?thesis unfolding gui_screenshot_taken_def
    by (intro keeps_bind [OF find_keeps] keeps_bind [OF ask_keeps(1)] keeps_bind [OF tool] keeps_bind [OF run_keeps [OF assms]] keeps_bind [where Q = "\<lambda>_. ?K"])
      (auto intro!: keeps_return ask_keeps(1))
qed

lemma observing_keeps:
  assumes "settles (gu_run h)"
  shows "keeps (gui_kept h) (gui_kept h) (gui_info h sid) (\<lambda>_. gui_kept h)"
    "keeps (gui_kept h) (gui_kept h) (gui_keys_pressed h sid pressed) (\<lambda>_. gui_kept h)"
    "keeps (gui_kept h) (gui_kept h) (gui_clicked h sid x y) (\<lambda>_. gui_kept h)"
    "keeps (gui_kept h) (gui_kept h) (gui_ocr_read h path) (\<lambda>_. gui_kept h)"
    "keeps (gui_kept h) (gui_kept h) (accessibility_tree h sid) (\<lambda>_. gui_kept h)"
    "keeps (gui_kept h) (gui_kept h) (image_matched h sid template threshold) (\<lambda>_. gui_kept h)"
proof -
  let ?K = "gui_kept h"
  have limit: "keeps ?K ?K (case threshold of Finite q \<Rightarrow> if 0 \<le> q \<and> q \<le> 1 then op_return q else op_raise e | NotFinite \<Rightarrow> op_raise e) (\<lambda>_. ?K)" for e
    by (auto split: pyfloat.split intro!: keeps_return keeps_raise)
  show "keeps ?K ?K (gui_info h sid) (\<lambda>_. ?K)"
    unfolding gui_info_def by (auto intro!: keeps_bind [OF find_keeps] keeps_bind [OF poll_keeps] keeps_return)
  show "keeps ?K ?K (gui_keys_pressed h sid pressed) (\<lambda>_. ?K)"
    unfolding gui_keys_pressed_def by (auto intro!: keeps_bind [OF find_keeps] keeps_bind [OF installed_keeps(1)] run_keeps assms)
  show "keeps ?K ?K (gui_clicked h sid x y) (\<lambda>_. ?K)"
    unfolding gui_clicked_def by (auto intro!: keeps_bind [OF find_keeps] keeps_bind [OF installed_keeps(1)] run_keeps assms)
  show "keeps ?K ?K (gui_ocr_read h path) (\<lambda>_. ?K)"
    unfolding gui_ocr_read_def by (auto intro!: keeps_bind [OF installed_keeps(1)] run_keeps assms)
  show "keeps ?K ?K (accessibility_tree h sid) (\<lambda>_. ?K)"
    unfolding accessibility_tree_def by (auto intro!: keeps_bind [OF find_keeps] keeps_bind [OF ask_keeps(1)] keeps_bind [OF keeps_check] run_keeps assms)
  show "keeps ?K ?K (image_matched h sid template threshold) (\<lambda>_. ?K)"
    unfolding image_matched_def Let_def
    by (rule keeps_bind [OF limit], rule keeps_bind [OF screenshot_keeps [OF assms]], rule keeps_bind [OF ask_keeps(1)])
      (auto split: match_answer.split prod.split intro!: keeps_return keeps_raise keeps_bind [OF ask_keeps(1)])
qed

text \<open>Stopping: the session is gone before its process has ended.\<close>

lemma popped_started:
  assumes "gui_kept h st" "dict_get (gu_sessions st) sid = Some s"
  shows "started_as h (gp_pid s) (pt_spawned (gu_table st) ! gp_pid s) (st \<lparr> gu_sessions := dict_pop (gu_sessions st) sid \<rparr>)"
proof -
  have "session_pids st \<subseteq> insert (gp_pid s) (session_pids (st \<lparr> gu_sessions := dict_pop (gu_sessions st) sid \<rparr>))"
    using assms(2) by (auto simp: session_pids_def) (metis option.inject)
  then show ?thesis
    using assms by (auto simp: started_as_def owned_by_launch_def gui_kept_def sessions_launched_def launched_def split: if_splits)
qed

lemma end_started:
  assumes "settles (gu_run h)"
  shows "keeps I (started_as h pid p) (in_table (end_process (gu_run h) pid)) (\<lambda>_. gui_kept h)"
proof (rule keepsI)
  fix st st' x e
  assume st: "started_as h pid p st"
  obtain y t where e: "end_process (gu_run h) pid (gu_table st) = (Inr y, t)" and t: "ended_after pid (gu_table st) t"
    using end_process_settles [OF assms] by blast
  show "I st'" if "in_table (end_process (gu_run h) pid) st = (Inl e, st')" using that e by (simp add: in_table_def)
  have quiet: "table_quiet (gu_table st) t" using overD [OF quiet_waits(3), of "gu_table st" "gu_run h" pid] e by simp
  have "sessions_launched h (st \<lparr> gu_table := t \<rparr>)"
    by (rule quiet_sessions [OF quiet]) (use st in \<open>simp add: started_as_def owned_by_launch_def\<close>)
  then have "gui_kept h (st \<lparr> gu_table := t \<rparr>)"
    using st t by (auto simp: gui_kept_def ended_after_def started_as_def owned_by_launch_def)
  then show "gui_kept h st'" if "in_table (end_process (gu_run h) pid) st = (Inr x, st')" using that e by (simp add: in_table_def)
qed

lemma stop_started:
  assumes "settles (gu_run h)"
  shows "keeps I (started_as h pid p) (op_bind (poll_process h pid) (\<lambda>rc. if rc \<noteq> None then op_return ()
      else op_bind (gui_ask (\<lambda>n. gu_gone h n pid)) (\<lambda>gone. if gone then in_table (ended_process pid)
        else op_bind (in_table (end_process (gu_run h) pid)) (\<lambda>_. op_return ())))) (\<lambda>_. gui_kept h)"
  by (rule keeps_bind [OF poll_started])
    (auto intro!: keeps_return keeps_bind [OF ask_started] ended_started keeps_bind [OF end_started [OF assms]])

lemma stop_keeps:
  assumes "settles (gu_run h)"
  shows "keeps (\<lambda>_. False) (gui_kept h) (gui_stop h sid) (\<lambda>_. gui_kept h)"
proof (rule keepsI)
  fix st st' e x
  assume kept: "gui_kept h st"
  have "\<exists>st'. gui_stop h sid st = (Inr (), st') \<and> gui_kept h st'"
  proof (cases "dict_get (gu_sessions st) sid")
    case None
    then have "dict_pop (gu_sessions st) sid = gu_sessions st" by (simp add: dict_get_None dict_pop_absent)
    with None kept show ?thesis by (simp add: gui_stop_def op_bind_def op_get_def op_put_def op_return_def)
  next
    case (Some s)
    let ?m = "op_bind (poll_process h (gp_pid s)) (\<lambda>rc. if rc \<noteq> None then op_return ()
      else op_bind (gui_ask (\<lambda>n. gu_gone h n (gp_pid s))) (\<lambda>gone. if gone then in_table (ended_process (gp_pid s))
        else op_bind (in_table (end_process (gu_run h) (gp_pid s))) (\<lambda>_. op_return ())))"
    let ?st = "st \<lparr> gu_sessions := dict_pop (gu_sessions st) sid \<rparr>"
    have run: "gui_stop h sid st = ?m ?st" using Some by (simp add: gui_stop_def op_bind_def op_get_def op_put_def)
    obtain r st' where m: "?m ?st = (r, st')" by fastforce
    note started = popped_started [OF kept Some]
    show ?thesis
    proof (cases r)
      case (Inl e)
      with keeps_raises [OF stop_started [OF assms, of "\<lambda>_. False"] started] m show ?thesis by blast
    next
      case (Inr u)
      with keeps_returns [OF stop_started [OF assms, of "\<lambda>_. False"] started] m run show ?thesis by auto
    qed
  qed
  then show "False" if "gui_stop h sid st = (Inl e, st')" using that by auto
  show "gui_kept h st'" if "gui_stop h sid st = (Inr x, st')"
    using that \<open>\<exists>st'. gui_stop h sid st = (Inr (), st') \<and> gui_kept h st'\<close> by auto
qed

lemma stop_sessions: "gu_sessions (snd (gui_stop h sid st)) = dict_pop (gu_sessions st) sid"
  by (cases "dict_get (gu_sessions st) sid")
    (simp_all add: gui_stop_def op_bind_def op_get_def op_put_def op_return_def poll_process_def gui_ask_def in_table_def pt_ask_def ended_process_def
      split: option.split prod.split sum.split)

lemma each_stop:
  assumes "settles (gu_run h)" "gui_kept h st"
  shows "\<exists>st'. each (gui_stop h) sids st = (Inr (), st') \<and> gui_kept h st'
    \<and> (\<forall>sid. dict_get (gu_sessions st') sid = (if sid \<in> set sids then None else dict_get (gu_sessions st) sid))"
  using assms(2)
proof (induction sids arbitrary: st)
  case (Cons sid sids)
  obtain r st1 where stop: "gui_stop h sid st = (r, st1)" by fastforce
  have r: "r = Inr ()" using keeps_raises [OF stop_keeps [OF assms(1)] Cons.prems] stop by (cases r) auto
  have kept: "gui_kept h st1" using keeps_returns [OF stop_keeps [OF assms(1)] Cons.prems] stop r by auto
  have "dict_get (gu_sessions st1) = (dict_get (gu_sessions st))(sid := None)" using stop_sessions [of h sid st] stop by (simp add: fun_eq_iff)
  with Cons.IH [OF kept] stop r show ?case by (auto simp: op_bind_def)
qed (simp add: op_return_def)

lemma display_stops:
  assumes "settles (gu_run h)" "gui_kept h st" "gu_sessions st = []"
  shows "\<exists>st'. stop_display h st = (Inr (), st') \<and> gu_sessions st' = [] \<and> pt_live (gu_table st') = []"
proof -
  have none: "session_pids st = {}" using assms(3) by (simp add: session_pids_def)
  show ?thesis
  proof (cases "gu_xvfb st")
    case None
    then have "pt_live (gu_table st) = []" using assms(2) none by (simp add: gui_kept_def)
    with None assms(3) show ?thesis by (simp add: stop_display_def op_bind_def op_get_def op_return_def)
  next
    case (Some pid)
    have live: "set (pt_live (gu_table st)) \<subseteq> {pid}" using assms(2) none Some by (simp add: gui_kept_def)
    then have gone: "removeAll pid (pt_live (gu_table st)) = []" by (auto simp: removeAll_filter_not_eq filter_empty_conv)
    obtain out err rc where "rh_awaited (gu_run h) (Suc (pt_tick (gu_table st))) pid = Some (out, err, rc)"
      using assms(1) unfolding settles_def by (metis not_Some_eq prod_cases3)
    then show ?thesis
      using Some assms(3) gone
      by (simp add: stop_display_def op_bind_def op_get_def op_return_def poll_process_def gui_ask_def in_table_def pt_ask_def ended_process_def op_put_def
          signal_group_def await_end_def split: option.split)
  qed
qed

lemma stop_all_clears:
  assumes "settles (gu_run h)" "gui_kept h st"
  shows "\<exists>st'. gui_stop_all h st = (Inr (), st') \<and> gu_sessions st' = [] \<and> pt_live (gu_table st') = []"
proof -
  obtain st' where st': "each (gui_stop h) (map fst (gu_sessions st)) st = (Inr (), st')" "gui_kept h st'"
    "\<forall>sid. dict_get (gu_sessions st') sid = (if sid \<in> set (map fst (gu_sessions st)) then None else dict_get (gu_sessions st) sid)"
    using each_stop [OF assms] by blast
  have "gu_sessions st' = []" by (rule dict_get_empty) (use st'(3) in \<open>auto simp: dict_get_None\<close>)
  from display_stops [OF assms(1) st'(2) this] st'(1) show ?thesis
    by (auto simp: gui_stop_all_def op_bind_def op_get_def)
qed

lemma gui_reachable_kept:
  assumes "gui_reachable h st" "settles (gu_run h)" "inj (rh_uuid (gu_run h))"
  shows "gui_kept h st"
  using assms(1)
proof (induction rule: gui_reachable.induct)
  case gui_fresh
  then show ?case by (simp add: gui_kept_def sessions_launched_def no_processes_def table_ok_def)
next
  case (gui_stops st sid)
  then show ?case
    by (cases "gui_stop h sid st"; cases "fst (gui_stop h sid st)") (auto dest: keeps_raises [OF stop_keeps [OF assms(2)]] keeps_returns [OF stop_keeps [OF assms(2)]])
next
  case (gui_stops_all st)
  from stop_all_clears [OF assms(2) gui_stops_all.IH] show ?case by (auto simp: gui_kept_def sessions_launched_def table_ok_def)
qed (auto intro: keeps_state launch_kept [OF assms(3)] observing_keeps [OF assms(2)] screenshot_keeps [OF assms(2)])

subsection \<open>What callers rely on\<close>

definition no_gui :: gui_state where
  "no_gui = \<lparr> gu_table = no_processes, gu_sessions = [], gu_xvfb = None \<rparr>"

definition sample_gui :: gui_host where
  "sample_gui = \<lparr> gu_run = sample_runner \<lparr> rh_uuid := sample_id \<rparr>, gu_settings = sample_settings, gu_fs = sample_fs,
     gu_returncode = (\<lambda>n pid. None), gu_gone = (\<lambda>n pid. False), gu_which = (\<lambda>n name. Some (''/usr/bin/'' @ name)), gu_exists = (\<lambda>n path. False),
     gu_printed = (\<lambda>n pid. []), gu_helper = ''atspi_snapshot.py'', gu_match = (\<lambda>n a b. NotReadable), gu_show_float = (\<lambda>q. []),
     gu_isoformat = show_nat \<rparr>"

definition sample_gui_run :: gui_state where
  "sample_gui_run = snd (gui_launch sample_gui ''JMemExe'' [] no_gui)"

lemma sample_gui_settles: "settles (gu_run sample_gui)" "inj (rh_uuid (gu_run sample_gui))"
  by (auto simp: sample_gui_def sample_runner_def settles_def inj_def sample_id_def)

lemma sample_gui_reachable: "gui_reachable sample_gui sample_gui_run"
  unfolding sample_gui_run_def using gui_reachable.gui_fresh [of sample_gui] by (auto simp: no_gui_def intro: gui_reachable.gui_launches)

lemma sample_gui_launched:
  "dict_get (gu_sessions sample_gui_run) (sample_id 6) = Some \<lparr> gp_application = ''JMemExe'', gp_pid = 1, gp_started_at = 6 \<rparr>"
  "pt_live (gu_table sample_gui_run) = [0, 1]"
proof -
  have p: "parse_path ''/opt/segger'' = \<lparr> path_absolute = True, path_parts = [''opt'', ''segger''] \<rparr>"
    "parse_path ''JMemExe'' = \<lparr> path_absolute = False, path_parts = [''JMemExe''] \<rparr>"
    by (simp_all add: parse_path_def str_startswith_def)
  have e: "segger_executable sample_settings sample_fs ''JMemExe'' = Inr [''opt'', ''segger'', ''JMemExe'']"
    by (simp add: segger_executable_def sample_settings_def default_settings_def sample_fs_def p join_path_def resolve_root_def below_def within_def)
  have v: "validate_application_args sample_settings sample_fs [] = Inr []" by (simp add: validate_application_args_def)
  show "dict_get (gu_sessions sample_gui_run) (sample_id 6) = Some \<lparr> gp_application = ''JMemExe'', gp_pid = 1, gp_started_at = 6 \<rparr>"
    "pt_live (gu_table sample_gui_run) = [0, 1]"
    by (simp_all add: sample_gui_run_def gui_launch_def ALLOWED_APPLICATIONS_def op_check_def op_bind_def op_return_def op_lift_def rcatch_def v e
        sample_gui_def ensure_display_def op_get_def no_gui_def gui_ask_def in_table_def pt_ask_def no_processes_def start_display_def installed_def
        spawn_table sample_runner_def op_put_def poll_process_def eval_nat_numeral)
qed

text \<open>C32: The GUI's processes are accounted for. In every state that any sequence of launches, observations and stops can reach, every
  process that is still running belongs to a filed session or is the display, and a session's process was started as one of the allowed
  applications below the SEGGER root, in the workspace, on the configured display, with arguments the validation accepts.\<close>

theorem gui_processes_owned:
  assumes "gui_reachable h st" "settles (gu_run h)" "inj (rh_uuid (gu_run h))" "dict_get (gu_sessions st) sid = Some s"
  shows "set (pt_live (gu_table st)) \<subseteq> {gp_pid s' |other s'. dict_get (gu_sessions st) other = Some s'} \<union> set_option (gu_xvfb st)
    \<and> gp_application s \<in> set ALLOWED_APPLICATIONS \<and> gp_pid s < length (pt_spawned (gu_table st))
    \<and> (case pt_spawned (gu_table st) ! gp_pid s of p \<Rightarrow>
         sp_cwd p = Some (set_workspace_root (gu_settings h)) \<and> sp_env p = command_env (gu_run h) (display_env h)
         \<and> (\<exists>path. hd (sp_argv p) = show_path path \<and> segger_executable (gu_settings h) (gu_fs h) (gp_application s) = Inr path)
         \<and> list_all shell_free (tl (sp_argv p))
         \<and> list_all (\<lambda>arg. case argument_operand arg of None \<Rightarrow> True | Some cand \<Rightarrow> confined (gu_settings h) (gu_fs h) cand) (tl (sp_argv p)))"
proof -
  note kept = gui_reachable_kept [OF assms(1-3)]
  have "launched h (gu_table st) s" using kept assms(4) by (auto simp: gui_kept_def sessions_launched_def)
  with kept show ?thesis by (auto simp: gui_kept_def session_pids_def launched_def dest: application_args_confined)
qed

theorem gui_processes_owned_witness:
  "''JMemExe'' \<in> set ALLOWED_APPLICATIONS \<and> 1 < length (pt_spawned (gu_table sample_gui_run))"
  using gui_processes_owned [OF sample_gui_reachable sample_gui_settles sample_gui_launched(1)] by simp



end
