(* ===== verification/Pin_Claims.thy ===== *)
theory Pin_Claims
  imports Bridge_Models Json "HOL-Library.Product_Lexorder"
begin

text \<open>
  Pin ownership: \<^verbatim>\<open>BridgeResourceManager\<close> of \<^verbatim>\<open>resources.py\<close>, the host-side mirror of the firmware's resource manager. The
  state is the owner of each claimed pin; a claim that raises leaves it as it was.
\<close>

type_synonym pin_owners = "(string, string) dict"

record resource_claim =
  claim_owner :: string
  claim_pins :: "string list"

datatype claim_error =
    UnboundedOwner
  | UnsafePin validation_error
  | NoPins
  | RepeatedPin
  | Conflict string

definition conflict_texts :: "pin_owners \<Rightarrow> string \<Rightarrow> string list \<Rightarrow> string list" where
  "conflict_texts owners claimant labels =
     List.map_filter (\<lambda>pin. case dict_get owners pin of
        None \<Rightarrow> None
      | Some other \<Rightarrow> if other \<noteq> claimant then Some (pin @ '' is already owned by '' @ other) else None) labels"

definition claim_resources :: "string \<Rightarrow> string list \<Rightarrow> pin_owners \<Rightarrow> claim_error + resource_claim \<times> pin_owners" where
  "claim_resources claimant pins owners =
     (if claimant = [] \<or> 64 < length claimant then Inl UnboundedOwner
      else
        rbind (rcatch (traverse validate_safe_pin pins) UnsafePin) (\<lambda>labels.
        if labels = [] then Inl NoPins
        else if \<not> distinct labels then Inl RepeatedPin
        else if conflict_texts owners claimant labels \<noteq> [] then Inl (Conflict (join_with ''; '' (conflict_texts owners claimant labels)))
        else Inr (\<lparr> claim_owner = claimant, claim_pins = labels \<rparr>, foldl (\<lambda>o' pin. dict_set o' pin claimant) owners labels)))"

definition release_resources :: "string \<Rightarrow> pin_owners \<Rightarrow> pin_owners" where
  "release_resources claimant owners = foldl dict_pop owners (map fst (filter (\<lambda>(pin, current). current = claimant) owners))"

definition listed_owners :: "pin_owners \<Rightarrow> string list" where
  "listed_owners owners = map (\<lambda>(pin, owner). pin @ '':'' @ owner)
     (sort_key (\<lambda>(pin, owner). (map of_char pin :: nat list, map of_char owner :: nat list)) owners)"

subsection \<open>Ownership\<close>

text \<open>The manager's states: any sequence of claims, refused or not, and releases.\<close>

inductive pins_reachable :: "pin_owners \<Rightarrow> bool" where
  pins_start: "pins_reachable []"
| pins_claimed: "pins_reachable owners \<Longrightarrow> claim_resources claimant pins owners = Inr (c, owners') \<Longrightarrow> pins_reachable owners'"
| pins_released: "pins_reachable owners \<Longrightarrow> pins_reachable (release_resources claimant owners)"

text \<open>The abstract view: who owns a pin.\<close>

definition free_for :: "pin_owners \<Rightarrow> string \<Rightarrow> string \<Rightarrow> bool" where
  "free_for owners claimant pin = (dict_get owners pin = None \<or> dict_get owners pin = Some claimant)"

lemma conflict_texts_Nil: "conflict_texts owners claimant labels = [] \<longleftrightarrow> list_all (free_for owners claimant) labels"
  by (induction labels) (auto simp: conflict_texts_def List.map_filter_simps free_for_def split: option.splits)

lemma claim_sets: "dict_get (foldl (\<lambda>o' pin. dict_set o' pin v) d labels) = (\<lambda>pin. if pin \<in> set labels then Some v else dict_get d pin)"
  by (induction labels arbitrary: d) (auto simp: fun_eq_iff)

lemma claim_keys: "fst ` set (foldl (\<lambda>o' pin. dict_set o' pin v) d labels) = fst ` set d \<union> set labels"
  by (induction labels arbitrary: d) auto

lemma claim_ok: "dict_ok d \<Longrightarrow> dict_ok (foldl (\<lambda>o' pin. dict_set o' pin v) d labels)"
  by (induction labels arbitrary: d) auto

lemma pops: "foldl dict_pop d ks = filter (\<lambda>p. fst p \<notin> set ks) d"
  by (induction ks arbitrary: d) (auto simp: dict_pop_def filter_filter intro: filter_cong)

lemma release_filter:
  assumes "dict_ok owners"
  shows "release_resources claimant owners = filter (\<lambda>(pin, current). current \<noteq> claimant) owners"
proof -
  have "fst p \<notin> set (map fst (filter (\<lambda>(pin, current). current = claimant) owners)) \<longleftrightarrow> snd p \<noteq> claimant" if "p \<in> set owners" for p
  proof
    assume "fst p \<notin> set (map fst (filter (\<lambda>(pin, current). current = claimant) owners))"
    then show "snd p \<noteq> claimant" using that by (cases p) (auto simp: image_iff)
  next
    assume other: "snd p \<noteq> claimant"
    show "fst p \<notin> set (map fst (filter (\<lambda>(pin, current). current = claimant) owners))"
    proof
      assume "fst p \<in> set (map fst (filter (\<lambda>(pin, current). current = claimant) owners))"
      then have "(fst p, claimant) \<in> set owners" by auto
      moreover have "(fst p, snd p) \<in> set owners" using that by simp
      ultimately show False using eq_key_imp_eq_value [OF assms] other by blast
    qed
  qed
  then show ?thesis unfolding release_resources_def pops by (intro filter_cong) auto
qed

lemma release_get:
  assumes "dict_ok owners"
  shows "dict_get (release_resources claimant owners) pin = (if dict_get owners pin = Some claimant then None else dict_get owners pin)"
  unfolding release_filter [OF assms] using assms by (induction owners) (auto simp: map_of_eq_None_iff split: if_splits)

lemma claim_succeeds:
  "claim_resources claimant pins owners = Inr (c, owners') \<longleftrightarrow>
     claimant \<noteq> [] \<and> length claimant \<le> 64 \<and> traverse validate_safe_pin pins = Inr (claim_pins c) \<and> claim_owner c = claimant
     \<and> claim_pins c \<noteq> [] \<and> distinct (claim_pins c) \<and> list_all (free_for owners claimant) (claim_pins c)
     \<and> owners' = foldl (\<lambda>o' pin. dict_set o' pin claimant) owners (claim_pins c)"
  by (cases c) (auto simp: claim_resources_def rbind_eq_Inr rcatch_eq_Inr conflict_texts_Nil split: if_splits)

lemma safe_labels: "traverse validate_safe_pin pins = Inr labels \<Longrightarrow> set labels \<subseteq> set SAFE_GPIO_PINS"
  by (induction pins arbitrary: labels) (auto simp: rbind_eq_Inr validate_safe_pin_def Let_def split: if_splits)

lemma pins_kept: "pins_reachable owners \<Longrightarrow> dict_ok owners \<and> fst ` set owners \<subseteq> set SAFE_GPIO_PINS"
proof (induction rule: pins_reachable.induct)
  case (pins_claimed owners claimant pins c owners')
  then show ?case using safe_labels [of pins "claim_pins c"] by (auto simp: claim_succeeds claim_ok claim_keys)
next
  case (pins_released owners claimant)
  then show ?case by (auto simp: release_filter distinct_map_filter)
qed simp

text \<open>C39: Pin ownership. In every state the manager can reach, the owned pins are safe pins, each with one owner. A claim succeeds just when
  its owner is a bounded name and its pins are valid, not repeated, and each free or already the claimant's; it then gives the claimant
  exactly these pins and touches no other; and releasing afterwards frees exactly the claimant's pins.\<close>

theorem pin_claims_exact:
  assumes "pins_reachable owners"
  shows "distinct (map fst owners) \<and> fst ` set owners \<subseteq> set SAFE_GPIO_PINS
    \<and> (case claim_resources claimant pins owners of
         Inl e \<Rightarrow> claimant = [] \<or> 64 < length claimant \<or> (case traverse validate_safe_pin pins of Inl e \<Rightarrow> True
           | Inr labels \<Rightarrow> labels = [] \<or> \<not> distinct labels \<or> \<not> list_all (free_for owners claimant) labels)
       | Inr (c, owners') \<Rightarrow>
           traverse validate_safe_pin pins = Inr (claim_pins c) \<and> claim_pins c \<noteq> [] \<and> distinct (claim_pins c)
           \<and> list_all (free_for owners claimant) (claim_pins c)
           \<and> dict_get owners' = (\<lambda>pin. if pin \<in> set (claim_pins c) then Some claimant else dict_get owners pin)
           \<and> dict_get (release_resources claimant owners') = (\<lambda>pin. if free_for owners claimant pin \<or> pin \<in> set (claim_pins c) then None else dict_get owners pin))"
proof (cases "claim_resources claimant pins owners")
  case (Inl e)
  then show ?thesis using pins_kept [OF assms]
    by (auto simp: claim_resources_def rbind_def rcatch_def conflict_texts_Nil split: if_splits sum.splits)
next
  case (Inr r)
  obtain c owners' where r: "r = (c, owners')" by fastforce
  note s = Inr [unfolded r claim_succeeds]
  have ok: "dict_ok owners'" using pins_kept [OF assms] s by (simp add: claim_ok)
  have "dict_get owners' = (\<lambda>pin. if pin \<in> set (claim_pins c) then Some claimant else dict_get owners pin)" using s by (simp add: claim_sets)
  moreover from this have "dict_get (release_resources claimant owners')
      = (\<lambda>pin. if free_for owners claimant pin \<or> pin \<in> set (claim_pins c) then None else dict_get owners pin)"
    by (auto simp: release_get [OF ok] free_for_def)
  ultimately show ?thesis using pins_kept [OF assms] s Inr r by simp
qed

theorem pin_claims_exact_witness: "fst ` set [(''D2'', ''spi'')] \<subseteq> set SAFE_GPIO_PINS"
proof -
  have "claim_resources ''spi'' [''d2''] [] = Inr (\<lparr> claim_owner = ''spi'', claim_pins = [''D2''] \<rparr>, [(''D2'', ''spi'')])" by code_simp
  from pin_claims_exact [OF pins_claimed [OF pins_start this]] show ?thesis by blast
qed

end
