(* ===== verification/Discovery.thy ===== *)
theory Discovery
  imports Runner Extensions_Api
begin

text \<open>
  Discovery: \<^verbatim>\<open>discovery.py\<close>, what is attached and installed. A device is what udev reports of it; the file system, the search
  path and the platform are a record of answers that do not change while a manifest is built. The raw surfaces and the names of the
  atomic tools are the source's lists.
\<close>

subsection \<open>Data\<close>

text \<open>An attribute that is missing or cannot be read is \<open>None\<close>; one that is bytes is decoded.\<close>

record udev_device =
  ud_property :: "string \<Rightarrow> string option"
  ud_attribute :: "string \<Rightarrow> string option"
  ud_node :: "string option"
  ud_children :: "string option list"
  ud_sys_path :: string

record usb_device =
  usb_kind :: string
  usb_vendor_id :: string
  usb_product_id :: string
  usb_manufacturer :: "string option"
  usb_product :: "string option"
  usb_serial :: "string option"
  usb_bus :: "string option"
  usb_address :: "string option"
  usb_sys_path :: string
  usb_nodes :: "string list"

record tool_availability =
  ta_name :: string
  ta_state :: capability_state
  ta_path :: "string option"
  ta_version :: "string option"
  ta_reason :: "string option"

record availability =
  av_state :: capability_state
  av_reason :: "string option"
  av_dependencies :: "string list"

record probe_capabilities =
  pc_serial :: string
  pc_model :: string
  pc_usb :: usb_device
  pc_interfaces :: "string list"
  pc_max_swd_khz :: "int option"
  pc_max_swo_khz :: "int option"
  pc_target_power :: "bool option"
  pc_trace :: "string list"

record board_capabilities =
  bc_serial :: "string option"
  bc_model :: string
  bc_target_profile :: "string option"
  bc_mcu :: string
  bc_cores :: "string list"
  bc_usb :: "usb_device option"
  bc_serial_port :: "string option"
  bc_metadata :: json_object

record discovered_manifest =
  cm_host_os :: string
  cm_host_arch :: string
  cm_probes :: "probe_capabilities list"
  cm_boards :: "board_capabilities list"
  cm_tools :: "tool_availability list"
  cm_workflows :: "(string, capability_state) dict"
  cm_details :: "(string, availability) dict"
  cm_features :: "(string, availability) dict"
  cm_raw_surfaces :: "string list"
  cm_atomic_tools :: "string list"
  cm_limitations :: "string list"
  cm_unique_pair :: bool
  cm_probe_serial :: "string option"
  cm_board_serial :: "string option"

record discovery_host =
  dh_settings :: settings
  dh_devices :: "udev_device list"
  dh_which :: "string \<Rightarrow> string option"
  dh_exists :: "pypath \<Rightarrow> bool"
  dh_is_file :: "pypath \<Rightarrow> bool"
  dh_executable :: "pypath \<Rightarrow> bool"
  dh_resolved :: "pypath \<Rightarrow> string"
  dh_by_id :: "string list"                    \<comment> \<open>the entries of \<^verbatim>\<open>/dev/serial/by-id\<close>\<close>
  dh_release_notes :: "string option"           \<comment> \<open>the first 65536 characters, if the file can be read\<close>
  dh_system :: string
  dh_machine :: string
  dh_groups :: "(int \<times> string option) list"    \<comment> \<open>the process's groups, with their names\<close>

text \<open>\<^verbatim>\<open>a or b\<close> on text that may be missing.\<close>

definition text_or :: "string option \<Rightarrow> string option \<Rightarrow> string option" where
  "text_or a b = (if a = None \<or> a = Some [] then b else a)"

definition subpath :: "pypath \<Rightarrow> string list \<Rightarrow> pypath" where
  "subpath base parts = join_path base \<lparr> path_absolute = False, path_parts = parts \<rparr>"

subsection \<open>USB devices\<close>

text \<open>\<^verbatim>\<open>str.zfill\<close> keeps a sign in front.\<close>

definition zfill :: "nat \<Rightarrow> string \<Rightarrow> string" where
  "zfill n s = (let pad = replicate (n - length s) (CHR ''0'') in
     case s of c # cs \<Rightarrow> if c \<in> {CHR ''+'', CHR ''-''} then c # pad @ cs else pad @ s | [] \<Rightarrow> pad)"

definition clean_hex :: "string option \<Rightarrow> string" where
  "clean_hex v = (let s = map char_lower (case v of None \<Rightarrow> [] | Some s \<Rightarrow> s) in
     zfill 4 (if str_startswith s ''0x'' then drop 2 s else s))"

definition device_nodes :: "udev_device \<Rightarrow> string list" where
  "device_nodes d = sorted_names (filter (\<lambda>n. n \<noteq> []) (List.map_filter id (ud_node d # ud_children d)))"

definition attribute :: "udev_device \<Rightarrow> string \<Rightarrow> string option" where
  "attribute d name = map_option str_strip (ud_attribute d name)"

definition usb_of :: "udev_device \<Rightarrow> usb_device" where
  "usb_of d =
     (let vendor = clean_hex (text_or (ud_property d ''ID_VENDOR_ID'') (attribute d ''idVendor'')) in
      \<lparr> usb_kind = (if vendor = ''1366'' then ''jlink'' else ''usb''), usb_vendor_id = vendor,
        usb_product_id = clean_hex (text_or (ud_property d ''ID_MODEL_ID'') (attribute d ''idProduct'')),
        usb_manufacturer = text_or (text_or (ud_property d ''ID_VENDOR_FROM_DATABASE'') (ud_property d ''ID_VENDOR'')) (attribute d ''manufacturer''),
        usb_product = text_or (text_or (ud_property d ''ID_MODEL_FROM_DATABASE'') (ud_property d ''ID_MODEL'')) (attribute d ''product''),
        usb_serial = text_or (ud_property d ''ID_SERIAL_SHORT'') (attribute d ''serial''),
        usb_bus = text_or (ud_property d ''BUSNUM'') (attribute d ''busnum''), usb_address = text_or (ud_property d ''DEVNUM'') (attribute d ''devnum''),
        usb_sys_path = ud_sys_path d, usb_nodes = device_nodes d \<rparr>)"

definition discover_usb_devices :: "discovery_host \<Rightarrow> usb_device list" where
  "discover_usb_devices h = map usb_of (dh_devices h)"

definition TTY_RE :: regex where
  "TTY_RE = re_seq [re_lit ''/dev/tty'', re_alt [re_lit ''ACM'', re_lit ''USB''], re_plus (Chr ascii_digit)]"

fun contains_text :: "string \<Rightarrow> string \<Rightarrow> bool" where
  "contains_text needle [] = (needle = [])"
| "contains_text needle (c # cs) = (str_startswith (c # cs) needle \<or> contains_text needle cs)"

definition serial_port_for_usb :: "discovery_host \<Rightarrow> usb_device \<Rightarrow> string option" where
  "serial_port_for_usb h d =
     (case find (\<lambda>node. re_fullmatch TTY_RE node \<noteq> None) (usb_nodes d) of
        Some node \<Rightarrow>
          (let host_node = subpath (set_host_dev_root (dh_settings h)) (drop 1 (path_parts (parse_path node))) in
           Some (if dh_exists h host_node then show_pypath host_node else node))
      | None \<Rightarrow>
          (case usb_serial d of
             None \<Rightarrow> None
           | Some serial \<Rightarrow>
               if serial = [] \<or> \<not> dh_exists h (parse_path ''/dev/serial/by-id'') then None
               else map_option (\<lambda>name. ''/dev/serial/by-id/'' @ name) (find (contains_text serial) (dh_by_id h))))"

subsection \<open>Tools\<close>

definition ROOT_VERSION_RE :: regex where
  "ROOT_VERSION_RE = re_seq [re_alt [re_lit_i ''V'', re_seq [re_lit_i ''JLink'', re_opt (Chr (\<lambda>c. c \<in> set ''_-'')), re_opt (re_lit_i ''V'')]],
     Grp 1 (Chr ascii_digit), Grp 2 (re_seq [Chr ascii_digit, Chr ascii_digit])]"

definition NOTES_VERSION_RE :: regex where
  "NOTES_VERSION_RE = re_seq [re_lit ''Version'', re_plus (Chr py_isspace), re_lit ''V'',
     Grp 1 (re_seq [digits, re_lit ''.'', digits, re_opt (Chr (\<lambda>c. c \<in> set ''abcdefghijklmnopqrstuvwxyz''))])]"

definition segger_version :: "discovery_host \<Rightarrow> string option" where
  "segger_version h =
     (let parts = path_parts (set_segger_root (dh_settings h)) in
      case re_search ROOT_VERSION_RE (if parts = [] then [] else last parts) of
        Some p \<Rightarrow> Some (group 1 p @ ''.'' @ group 2 p)
      | None \<Rightarrow> Option.bind (dh_release_notes h) (\<lambda>head. map_option (group 1) (re_search NOTES_VERSION_RE head)))"

definition segger_tool :: "discovery_host \<Rightarrow> string \<Rightarrow> tool_availability" where
  "segger_tool h name =
     (let candidate = subpath (set_segger_root (dh_settings h)) [name]; found = dh_is_file h candidate \<and> dh_executable h candidate in
      \<lparr> ta_name = name, ta_state = (if found then Available else Unavailable), ta_path = (if found then Some (dh_resolved h candidate) else None),
        ta_version = (if found then segger_version h else None),
        ta_reason = (if found then None else Some (''not found below '' @ show_pypath (set_segger_root (dh_settings h)))) \<rparr>)"

definition other_tools :: "discovery_host \<Rightarrow> (string \<times> string option) list" where
  "other_tools h =
     (let s = dh_settings h in
      [(''gdb-client'', Some (set_gdb_client s)), (''Xvfb'', dh_which h ''Xvfb''), (''xdotool'', dh_which h ''xdotool''),
       (''tesseract'', dh_which h ''tesseract''), (''scrot'', text_or (dh_which h ''scrot'') (dh_which h ''import'')),
       (''Ozone'', map_option (\<lambda>root. show_pypath (subpath root [''Ozone''])) (set_ozone_root s)),
       (''SystemView'', map_option (\<lambda>root. show_pypath (subpath root [''SystemView''])) (set_systemview_root s))])"

definition other_tool :: "discovery_host \<Rightarrow> string \<Rightarrow> string option \<Rightarrow> tool_availability" where
  "other_tool h name configured =
     (let path = (case configured of
            Some c \<Rightarrow> if c \<noteq> [] \<and> dh_is_file h (parse_path c) then Some c else dh_which h name
          | None \<Rightarrow> dh_which h name);
          found = (path \<noteq> None \<and> path \<noteq> Some []) in
      \<lparr> ta_name = name, ta_state = (if found then Available else Unavailable), ta_path = (if found then path else None), ta_version = None,
        ta_reason = (if found then None else Some ''not installed or not in PATH'') \<rparr>)"

definition discover_tools :: "discovery_host \<Rightarrow> tool_availability list" where
  "discover_tools h = map (segger_tool h) SEGGER_TOOLS @ map (\<lambda>(name, configured). other_tool h name configured) (other_tools h)"

subsection \<open>The manifest\<close>

definition probe_of :: "usb_device \<Rightarrow> string \<Rightarrow> probe_capabilities" where
  "probe_of usb serial =
     (let compact = (usb_product_id usb = ''1020'') in
      \<lparr> pc_serial = serial, pc_model = (if compact then ''SEGGER J-Link (EDU Mini V2 compatible USB identity)'' else ''SEGGER J-Link''),
        pc_usb = usb, pc_interfaces = [''SWD''], pc_max_swd_khz = (if compact then Some 4000 else None),
        pc_max_swo_khz = (if compact then Some 4000 else None), pc_target_power = (if compact then Some False else None),
        pc_trace = [''SWO'', ''RTT''] \<rparr>)"

text \<open>The loop over the devices: a J-Link with a serial is a probe, every other device is offered to the detectors.\<close>

type_synonym board_detector = "handle \<Rightarrow> usb_device \<Rightarrow> board_capabilities option"

fun scan_devices ::
    "board_detector \<Rightarrow> target_registry \<Rightarrow> usb_device list \<Rightarrow> probe_capabilities list \<Rightarrow> board_capabilities list
     \<Rightarrow> profile_error + probe_capabilities list \<times> board_capabilities list" where
  "scan_devices run reg [] probes boards = Inr (probes, boards)"
| "scan_devices run reg (usb # rest) probes boards =
     (case usb_serial usb of
        Some (c # cs) \<Rightarrow>
          if usb_kind usb = ''jlink'' then scan_devices run reg rest (probes @ [probe_of usb (c # cs)]) boards
          else rbind (detect_board run reg usb) (\<lambda>b. scan_devices run reg rest probes (boards @ (case b of None \<Rightarrow> [] | Some b \<Rightarrow> [b])))
      | _ \<Rightarrow> rbind (detect_board run reg usb) (\<lambda>b. scan_devices run reg rest probes (boards @ (case b of None \<Rightarrow> [] | Some b \<Rightarrow> [b]))))"

definition available_tools :: "tool_availability list \<Rightarrow> string set" where
  "available_tools tools = set (map ta_name (filter (\<lambda>t. ta_state t = Available) tools))"

definition available_when :: "bool \<Rightarrow> capability_state" where
  "available_when b = (if b then Available else Unavailable)"

definition tool_state :: "string set \<Rightarrow> string \<Rightarrow> capability_state" where
  "tool_state available name = available_when (name \<in> available)"

definition tools_state :: "string set \<Rightarrow> string set \<Rightarrow> capability_state" where
  "tools_state available names = available_when (names \<subseteq> available)"

definition core_workflow_states ::
    "settings \<Rightarrow> string set \<Rightarrow> probe_capabilities list \<Rightarrow> board_capabilities list \<Rightarrow> (string, capability_state) dict" where
  "core_workflow_states s available probes boards =
     [(''preflight'', Available), (''flash_verify'', tool_state available ''JLinkExe''),
      (''debug'', tools_state available {''JLinkGDBServerCLExe'', ''gdb-client''}),
      (''gui'', if set_enable_gui s then tools_state available {''Xvfb'', ''xdotool''} else Unavailable),
      (''sdk'', Unavailable),
      (''serial'', available_when (list_ex (\<lambda>b. bc_serial_port b \<noteq> None \<and> bc_serial_port b \<noteq> Some []) boards)),
      (''rtt'', tool_state available ''JLinkRTTLoggerExe''),
      (''swo_itm'', available_when (list_ex (\<lambda>p. pc_max_swo_khz p \<noteq> None \<and> pc_max_swo_khz p \<noteq> Some 0) probes)),
      (''backup_restore'', tool_state available ''JLinkExe''), (''firmware_comparison'', tool_state available ''JLinkExe''),
      (''rtt_capture'', tool_state available ''JLinkRTTLoggerExe''), (''validation_report'', Available)]"

text \<open>Looking up a state that is filed. No name is missing: the details below name only workflows of the table above.\<close>

definition state_of :: "(string, capability_state) dict \<Rightarrow> string \<Rightarrow> capability_state" where
  "state_of states name = (case dict_get states name of None \<Rightarrow> Unavailable | Some s \<Rightarrow> s)"

definition detail :: "(string, capability_state) dict \<Rightarrow> string \<Rightarrow> string list \<Rightarrow> string \<Rightarrow> string \<times> availability" where
  "detail states name dependencies reason =
     (name, \<lparr> av_state = state_of states name, av_reason = (if state_of states name = Available then None else Some reason),
              av_dependencies = dependencies \<rparr>)"

definition core_workflow_details :: "(string, capability_state) dict \<Rightarrow> (string, availability) dict" where
  "core_workflow_details w =
     [detail w ''preflight'' [] ''internal workflow unavailable'',
      detail w ''flash_verify'' [''JLinkExe''] ''J-Link Commander is not installed'',
      detail w ''debug'' [''JLinkGDBServerCLExe'', ''gdb-client''] ''J-Link GDB Server and a configured GDB client are required'',
      detail w ''gui'' [''Xvfb'', ''xdotool''] ''GUI is disabled or Xvfb/xdotool is missing'',
      (''sdk'', \<lparr> av_state = Unavailable, av_reason = Some ''No separately licensed J-Link SDK package is mounted'',
                 av_dependencies = [''licensed J-Link SDK mount''] \<rparr>),
      detail w ''serial'' [''registered board serial channel''] ''No registered board with an accessible serial node was discovered'',
      detail w ''rtt'' [''JLinkRTTLoggerExe''] ''J-Link RTT Logger is not installed'',
      detail w ''swo_itm'' [''probe SWO support'', ''SWO wire''] ''No discovered probe reports SWO support'',
      detail w ''backup_restore'' [''JLinkExe''] ''J-Link Commander is not installed'',
      detail w ''firmware_comparison'' [''JLinkExe''] ''J-Link Commander is not installed'',
      detail w ''rtt_capture'' [''JLinkRTTLoggerExe'', ''ELF RTT symbol''] ''RTT Logger or a concrete control-block symbol is unavailable'',
      detail w ''validation_report'' [''persistent state''] ''Persistent state is unavailable'']"

definition feature :: "string \<Rightarrow> capability_state \<Rightarrow> string list \<Rightarrow> bool \<Rightarrow> string \<Rightarrow> string \<times> availability" where
  "feature name state dependencies ok reason =
     (name, \<lparr> av_state = state, av_reason = (if ok then None else Some reason), av_dependencies = dependencies \<rparr>)"

definition core_features ::
    "string set \<Rightarrow> (string, capability_state) dict \<Rightarrow> probe_capabilities list \<Rightarrow> (string, availability) dict" where
  "core_features available w probes =
     (let power = list_ex (\<lambda>p. pc_target_power p = Some True) probes in
      [feature ''target_power'' (available_when power) [] power ''No discovered probe reports target-power support'',
       feature ''etm_trace'' UnknownState [] False ''Trace capability depends on the selected probe and target wiring'',
       feature ''swo_wire'' UnknownState [''physical SWO connection''] False
         ''SWO wiring cannot be inferred from USB discovery; validate by capture'',
       feature ''ozone'' (tool_state available ''Ozone'') [] (''Ozone'' \<in> available) ''Optional Ozone package is not mounted'',
       feature ''systemview'' (tool_state available ''SystemView'') [] (''SystemView'' \<in> available) ''Optional SystemView package is not mounted'',
       feature ''semihosting'' (state_of w ''debug'') [''J-Link GDB Server telnet channel''] (state_of w ''debug'' = Available)
         ''Managed J-Link GDB Server is unavailable'',
       feature ''itm'' (state_of w ''swo_itm'') [''probe SWO support'', ''physical SWO wire''] (state_of w ''swo_itm'' = Available)
         ''Probe SWO support is unavailable''])"

definition RAW_SURFACES :: "string list" where
  "RAW_SURFACES =
    [''J-Link Commander command files'', ''J-Link command strings'', ''GDB/MI and validated monitor commands'',
     ''allowlisted SEGGER application arguments'']"

definition ATOMIC_TOOLS :: "string list" where
  "ATOMIC_TOOLS =
    [''list_jlink_probes'', ''connect_target'', ''disconnect_target'', ''get_probe_information'', ''reset_target'', ''halt_target'',
     ''run_target'', ''step_target'', ''read_memory'', ''write_memory'', ''read_register'', ''write_register'', ''set_breakpoint'',
     ''clear_breakpoint'', ''set_watchpoint'', ''clear_watchpoint'', ''erase_flash'', ''verify_binary'', ''serial_exchange'',
     ''capture_serial'', ''swo_control'', ''start_gdb_session'', ''gdb_command'', ''capture_gdb_channel'', ''exchange_gdb_channel'',
     ''stop_gdb_session'', ''inspect_elf'', ''run_segger_application'', ''launch_segger_gui'', ''gui_session_info'', ''gui_keys'',
     ''gui_click'', ''gui_screenshot'', ''gui_ocr'', ''gui_accessibility_tree'', ''gui_image_match'', ''stop_segger_gui'']"

definition core_limitations :: "probe_capabilities list \<Rightarrow> string list" where
  "core_limitations probes =
     [''Probe capabilities are dynamically constrained by model, firmware, and licenses.'',
      ''Board identity inferred over USB must be confirmed by a registered target profile before writes.'',
      ''Direct J-Link SDK calls are unavailable until a licensed SDK is mounted.'']
     @ (if probes \<noteq> [] \<and> usb_product_id (pc_usb (hd probes)) = ''1020''
        then [''EDU Mini use is restricted to qualifying non-profit educational work.''] else [])"

definition capability_manifest ::
    "discovery_host \<Rightarrow> board_detector \<Rightarrow> target_registry \<Rightarrow> profile_error + discovered_manifest" where
  "capability_manifest h run reg =
     rbind (scan_devices run reg (discover_usb_devices h) [] []) (\<lambda>(probes, boards).
     let tools = discover_tools h; available = available_tools tools;
         w = core_workflow_states (dh_settings h) available probes boards;
         unique = (length probes = 1 \<and> length boards = 1) in
     Inr \<lparr> cm_host_os = dh_system h, cm_host_arch = dh_machine h, cm_probes = probes, cm_boards = boards, cm_tools = tools,
       cm_workflows = w, cm_details = core_workflow_details w, cm_features = core_features available w probes,
       cm_raw_surfaces = RAW_SURFACES, cm_atomic_tools = ATOMIC_TOOLS, cm_limitations = core_limitations probes, cm_unique_pair = unique,
       cm_probe_serial = (if unique then Some (pc_serial (hd probes)) else None),
       cm_board_serial = (if unique then bc_serial (hd boards) else None) \<rparr>)"

definition current_groups :: "discovery_host \<Rightarrow> string list" where
  "current_groups h = sorted_names (map (\<lambda>(gid, name). case name of Some n \<Rightarrow> n | None \<Rightarrow> ''gid:'' @ show_int gid) (dh_groups h))"

subsection \<open>What the manifest says\<close>

text \<open>The devices the manifest should list: the J-Links with a serial, and the others, each with the boards its detectors recognize.\<close>

definition is_probe :: "usb_device \<Rightarrow> bool" where
  "is_probe u = (usb_kind u = ''jlink'' \<and> usb_serial u \<noteq> None \<and> usb_serial u \<noteq> Some [])"

definition recognized :: "board_detector \<Rightarrow> target_registry \<Rightarrow> usb_device \<Rightarrow> board_capabilities list" where
  "recognized run reg u = List.map_filter (\<lambda>p. run (snd p) u) (reg_detectors reg)"

lemma detect_recognized:
  "detect_board run reg u =
     (if length (recognized run reg u) \<le> 1 then Inr (case recognized run reg u of [] \<Rightarrow> None | b # _ \<Rightarrow> Some b) else Inl AmbiguousBoard)"
  by (simp add: detect_board_def recognized_def split: list.split)

lemma scan_step:
  "scan_devices run reg (u # us) probes boards =
     (if is_probe u then scan_devices run reg us (probes @ [probe_of u (the (usb_serial u))]) boards
      else if length (recognized run reg u) \<le> 1 then scan_devices run reg us probes (boards @ recognized run reg u) else Inl AmbiguousBoard)"
proof -
  have "(case (case xs of [] \<Rightarrow> None | b # _ \<Rightarrow> Some b) of None \<Rightarrow> [] | Some b \<Rightarrow> [b]) = xs" if "length xs \<le> 1" for xs :: "board_capabilities list"
    using that by (cases xs; cases "tl xs") auto
  then show ?thesis by (auto simp: is_probe_def detect_recognized rbind_def split: option.split list.split)
qed

lemma scan_devices_exact:
  "scan_devices run reg us probes boards =
     (if list_ex (\<lambda>u. \<not> is_probe u \<and> 1 < length (recognized run reg u)) us then Inl AmbiguousBoard
      else Inr (probes @ map (\<lambda>u. probe_of u (the (usb_serial u))) (filter is_probe us),
                boards @ concat (map (recognized run reg) (filter (\<lambda>u. \<not> is_probe u) us))))"
  by (induction us arbitrary: probes boards) (auto simp: scan_step simp del: scan_devices.simps(2))

lemma manifest_parts:
  assumes "capability_manifest h run reg = Inr m"
  shows "cm_probes m = map (\<lambda>u. probe_of u (the (usb_serial u))) (filter is_probe (discover_usb_devices h))"
    "cm_boards m = concat (map (recognized run reg) (filter (\<lambda>u. \<not> is_probe u) (discover_usb_devices h)))"
    "cm_tools m = discover_tools h" "cm_details m = core_workflow_details (cm_workflows m)"
    "cm_workflows m = core_workflow_states (dh_settings h) (available_tools (cm_tools m)) (cm_probes m) (cm_boards m)"
    "cm_features m = core_features (available_tools (cm_tools m)) (cm_workflows m) (cm_probes m)"
    "cm_unique_pair m = (length (cm_probes m) = 1 \<and> length (cm_boards m) = 1)"
    "cm_probe_serial m = (if cm_unique_pair m then Some (pc_serial (hd (cm_probes m))) else None)"
    "cm_board_serial m = (if cm_unique_pair m then bc_serial (hd (cm_boards m)) else None)"
    "cm_atomic_tools m = ATOMIC_TOOLS"
proof -
  obtain probes boards where scan: "scan_devices run reg (discover_usb_devices h) [] [] = Inr (probes, boards)"
    using assms by (cases "scan_devices run reg (discover_usb_devices h) [] []") (auto simp: capability_manifest_def rbind_def)
  note exact = scan [unfolded scan_devices_exact append_Nil]
  have probes: "map (\<lambda>u. probe_of u (the (usb_serial u))) (filter is_probe (discover_usb_devices h)) = probes"
    "concat (map (recognized run reg) (filter (\<lambda>u. \<not> is_probe u) (discover_usb_devices h))) = boards"
    using exact by (simp_all split: if_splits)
  note m = assms [unfolded capability_manifest_def scan rbind_def sum.case prod.case Let_def sum.inject, symmetric]
  show "cm_probes m = map (\<lambda>u. probe_of u (the (usb_serial u))) (filter is_probe (discover_usb_devices h))"
    "cm_boards m = concat (map (recognized run reg) (filter (\<lambda>u. \<not> is_probe u) (discover_usb_devices h)))"
    unfolding probes by (simp_all only: m discovered_manifest.select_convs)
  show "cm_tools m = discover_tools h" "cm_details m = core_workflow_details (cm_workflows m)"
    "cm_workflows m = core_workflow_states (dh_settings h) (available_tools (cm_tools m)) (cm_probes m) (cm_boards m)"
    "cm_features m = core_features (available_tools (cm_tools m)) (cm_workflows m) (cm_probes m)"
    "cm_unique_pair m = (length (cm_probes m) = 1 \<and> length (cm_boards m) = 1)"
    "cm_probe_serial m = (if cm_unique_pair m then Some (pc_serial (hd (cm_probes m))) else None)"
    "cm_board_serial m = (if cm_unique_pair m then bc_serial (hd (cm_boards m)) else None)"
    "cm_atomic_tools m = ATOMIC_TOOLS"
    by (simp_all only: m discovered_manifest.select_convs)
qed

lemma manifest_fails:
  "(capability_manifest h run reg = Inl e) = (scan_devices run reg (discover_usb_devices h) [] [] = Inl e)"
  by (cases "scan_devices run reg (discover_usb_devices h) [] []") (simp_all add: capability_manifest_def rbind_def Let_def split: prod.split)

text \<open>C34: Discovery is exact. The manifest lists, in the order of the devices, one probe for each J-Link with a serial, with that serial,
  and the board of every other device that a detector recognizes; it fails just when two detectors recognize the same device; and it
  selects a pair just when there is one probe and one board, and then theirs.\<close>

theorem discovery_exact:
  "case capability_manifest h run reg of
     Inl e \<Rightarrow> e = AmbiguousBoard \<and> list_ex (\<lambda>u. \<not> is_probe u \<and> 1 < length (recognized run reg u)) (discover_usb_devices h)
   | Inr m \<Rightarrow>
       \<not> list_ex (\<lambda>u. \<not> is_probe u \<and> 1 < length (recognized run reg u)) (discover_usb_devices h)
       \<and> map (\<lambda>p. (pc_usb p, Some (pc_serial p))) (cm_probes m) = map (\<lambda>u. (u, usb_serial u)) (filter is_probe (discover_usb_devices h))
       \<and> cm_boards m = concat (map (recognized run reg) (filter (\<lambda>u. \<not> is_probe u) (discover_usb_devices h)))
       \<and> cm_unique_pair m = (\<exists>p b. cm_probes m = [p] \<and> cm_boards m = [b] \<and> cm_probe_serial m = Some (pc_serial p) \<and> cm_board_serial m = bc_serial b)
       \<and> (cm_probe_serial m = None) = (\<not> cm_unique_pair m)"
proof (cases "capability_manifest h run reg")
  case (Inl e)
  then have "scan_devices run reg (discover_usb_devices h) [] [] = Inl e" by (simp only: manifest_fails)
  then show ?thesis using Inl by (simp add: scan_devices_exact split: if_splits)
next
  case (Inr m)
  note parts = manifest_parts [OF Inr]
  have "\<not> list_ex (\<lambda>u. \<not> is_probe u \<and> 1 < length (recognized run reg u)) (discover_usb_devices h)"
    using Inr manifest_fails [of h run reg AmbiguousBoard] by (auto simp: scan_devices_exact)
  moreover have "map (\<lambda>p. (pc_usb p, Some (pc_serial p))) (cm_probes m) = map (\<lambda>u. (u, usb_serial u)) (filter is_probe (discover_usb_devices h))"
    unfolding parts(1) by (auto simp: probe_of_def Let_def is_probe_def)
  moreover have "cm_unique_pair m = (\<exists>p b. cm_probes m = [p] \<and> cm_boards m = [b] \<and> cm_probe_serial m = Some (pc_serial p) \<and> cm_board_serial m = bc_serial b)"
    using parts(7-9) by (auto simp: length_Suc_conv)
  ultimately show ?thesis using Inr parts(2,8) by simp
qed

text \<open>A claim of availability is backed: the tool is listed as available.\<close>

definition tool_listed :: "discovered_manifest \<Rightarrow> string \<Rightarrow> bool" where
  "tool_listed m name = (name \<in> ta_name ` {t \<in> set (cm_tools m). ta_state t = Available})"

lemma tool_listed_available: "tool_listed m name = (name \<in> available_tools (cm_tools m))"
  by (auto simp: tool_listed_def available_tools_def)

text \<open>C35: The manifest agrees with itself. Every workflow has a detail with the same state, which gives a reason just when the workflow is
  not available; the workflows that need tools are available exactly when every tool they need is listed as available, and the GUI only
  when it is enabled; a wire or trace capability that discovery cannot know is never claimed.\<close>

theorem manifest_consistent:
  "case capability_manifest h run reg of
     Inl e \<Rightarrow> True
   | Inr m \<Rightarrow>
       map (\<lambda>(name, a). (name, av_state a)) (cm_details m) = cm_workflows m
       \<and> list_all (\<lambda>(name, a). (av_reason a = None) = (av_state a = Available)) (cm_details m @ cm_features m)
       \<and> (dict_get (cm_workflows m) ''flash_verify'' = Some Available) = tool_listed m ''JLinkExe''
       \<and> (dict_get (cm_workflows m) ''debug'' = Some Available) = (tool_listed m ''JLinkGDBServerCLExe'' \<and> tool_listed m ''gdb-client'')
       \<and> (dict_get (cm_workflows m) ''gui'' = Some Available) = (set_enable_gui (dh_settings h) \<and> tool_listed m ''Xvfb'' \<and> tool_listed m ''xdotool'')
       \<and> map_option av_state (dict_get (cm_features m) ''etm_trace'') = Some UnknownState
       \<and> map_option av_state (dict_get (cm_features m) ''swo_wire'') = Some UnknownState"
proof (cases "capability_manifest h run reg")
  case (Inr m)
  note parts = manifest_parts [OF Inr]
  have "map (\<lambda>(name, a). (name, av_state a)) (cm_details m) = cm_workflows m"
    unfolding parts(4,5) by (simp add: core_workflow_details_def detail_def core_workflow_states_def state_of_def)
  moreover have "list_all (\<lambda>(name, a). (av_reason a = None) = (av_state a = Available)) (cm_details m @ cm_features m)"
    unfolding parts(4,6) by (simp add: core_workflow_details_def detail_def core_features_def feature_def Let_def available_when_def tool_state_def)
  ultimately show ?thesis
    unfolding Inr sum.case
    by (simp add: parts(5,6) core_workflow_states_def core_features_def feature_def Let_def tool_state_def tools_state_def available_when_def
        tool_listed_available)
qed simp

end
