(* ===== verification/Doctor.thy ===== *)
theory Doctor
  imports Discovery
begin

text \<open>
  The dependency and permission preflight of \<^verbatim>\<open>doctor.py\<close>: what the host must have, and the access modes of the device nodes.
  A check is its name, its verdict and whether it is required; the texts shown beside a verdict are not modelled.
\<close>

subsection \<open>The host\<close>

record doctor_host =
  dr_discovery :: discovery_host
  dr_in_container :: bool
  dr_cgroup_fsid :: "int option"                 \<comment> \<open>\<^verbatim>\<open>os.statvfs\<close>, \<open>None\<close> when it raises\<close>
  dr_cgroup_controllers :: bool
  dr_command :: "string list \<Rightarrow> int option"       \<comment> \<open>the return code, \<open>None\<close> when it cannot run or times out\<close>
  dr_read_token :: "pypath \<Rightarrow> string option"
  dr_token_env :: "string option"
  dr_is_dir :: "pypath \<Rightarrow> bool"
  dr_access :: "bool \<Rightarrow> pypath \<Rightarrow> bool"          \<comment> \<open>for reading, and for writing too\<close>
  dr_euid :: int
  dr_mode :: "pypath \<Rightarrow> int"
  dr_group :: "pypath \<Rightarrow> string option"          \<comment> \<open>\<open>None\<close> when the group has no name or cannot be read\<close>

definition dr_settings :: "doctor_host \<Rightarrow> settings" where
  "dr_settings d = dh_settings (dr_discovery d)"

definition filesystem_type :: "doctor_host \<Rightarrow> string" where
  "filesystem_type d =
     (case dr_cgroup_fsid d of None \<Rightarrow> ''missing''
      | Some fsid \<Rightarrow> if fsid \<noteq> 0 \<and> dr_cgroup_controllers d then ''cgroup2fs'' else ''unknown'')"

definition command_ok :: "doctor_host \<Rightarrow> string list \<Rightarrow> bool" where
  "command_ok d argv = (dr_command d argv = Some 0)"

definition directory_access :: "doctor_host \<Rightarrow> pypath \<Rightarrow> bool \<Rightarrow> bool" where
  "directory_access d path writing = (dr_is_dir d path \<and> dr_access d writing path)"

definition tool_map :: "tool_availability list \<Rightarrow> (string, tool_availability) dict" where
  "tool_map tools = foldl (\<lambda>m t. dict_set m (ta_name t) t) [] tools"

definition tool_ok :: "(string, tool_availability) dict \<Rightarrow> string \<Rightarrow> bool" where
  "tool_ok tools name = (case dict_get tools name of None \<Rightarrow> False | Some t \<Rightarrow> ta_state t = Available)"

definition tool_version :: "(string, tool_availability) dict \<Rightarrow> string \<Rightarrow> string option" where
  "tool_version tools name = Option.bind (dict_get tools name) ta_version"

subsection \<open>Device nodes\<close>

definition host_visible_device :: "doctor_host \<Rightarrow> pypath \<Rightarrow> pypath" where
  "host_visible_device d path =
     (if dh_exists (dr_discovery d) path \<or> \<not> path_absolute path \<or> take 1 (path_parts path) \<noteq> [''dev''] then path
      else subpath (set_host_dev_root (dr_settings d)) (drop 1 (path_parts path)))"

definition node_group :: "string \<Rightarrow> string" where
  "node_group node = (let parts = path_parts (parse_path node); name = (if parts = [] then [] else last parts) in
     if str_startswith name ''ttyACM'' \<or> str_startswith name ''ttyUSB'' then ''dialout'' else ''plugdev'')"

definition board_entries :: "board_capabilities \<Rightarrow> (string \<times> string) list" where
  "board_entries b = (case bc_usb b of None \<Rightarrow> [] | Some usb \<Rightarrow> map (\<lambda>node. (node, node_group node)) (usb_nodes usb))
     @ (case bc_serial_port b of Some (c # cs) \<Rightarrow> [(c # cs, ''dialout'')] | _ \<Rightarrow> [])"

text \<open>Entries are filed one after another; the last group given to a path stays.\<close>

fun file_entries :: "(string \<Rightarrow> pypath) \<Rightarrow> (pypath, string) dict \<Rightarrow> (string \<times> string) list \<Rightarrow> (pypath, string) dict" where
  "file_entries visible entries [] = entries"
| "file_entries visible entries ((node, expected) # rest) = file_entries visible (dict_set entries (visible node) expected) rest"

definition device_access_entries :: "doctor_host \<Rightarrow> discovered_manifest \<Rightarrow> (pypath \<times> string) list" where
  "device_access_entries d m =
     sort_key (\<lambda>(path, _). map of_char (show_pypath path) :: nat list)
       (file_entries (\<lambda>node. host_visible_device d (parse_path node)) []
         (concat (map (\<lambda>p. map (\<lambda>node. (node, ''plugdev'')) (usb_nodes (pc_usb p))) (cm_probes m)) @ concat (map board_entries (cm_boards m))))"

definition device_group :: "doctor_host \<Rightarrow> pypath \<Rightarrow> string" where
  "device_group d path = (case dr_group d path of None \<Rightarrow> ''unknown'' | Some g \<Rightarrow> g)"

definition device_modes_ok :: "doctor_host \<Rightarrow> discovered_manifest \<Rightarrow> bool" where
  "device_modes_ok d m =
     (device_access_entries d m \<noteq> []
      \<and> list_all (\<lambda>(path, expected). dh_exists (dr_discovery d) path \<and> dr_mode d path = 432 \<and> device_group d path = expected)
          (device_access_entries d m))"

subsection \<open>The report\<close>

definition required_check :: "string \<Rightarrow> bool \<Rightarrow> dependency_check" where
  "required_check name ok = \<lparr> check_name = name, check_ok = ok, check_required = True \<rparr>"

definition core_checks :: "doctor_host \<Rightarrow> discovered_manifest \<Rightarrow> bool \<Rightarrow> dependency_check list" where
  "core_checks d m token =
     (let s = dr_settings d; h = dr_discovery d; tools = tool_map (cm_tools m); groups = current_groups h in
      [required_check ''linux'' (dh_system h = ''Linux''),
       required_check ''x86_64'' (dh_machine h \<in> {''x86_64'', ''amd64''}),
       required_check ''cgroup-v2'' (filesystem_type d = ''cgroup2fs''),
       \<lparr> check_name = ''docker-engine'',
         check_ok = (dr_in_container d \<or> command_ok d [''docker'', ''version'', ''--format'', ''{{.Server.Version}}'']),
         check_required = (\<not> dr_in_container d) \<rparr>,
       \<lparr> check_name = ''docker-compose'', check_ok = (dr_in_container d \<or> command_ok d [''docker'', ''compose'', ''version'']),
         check_required = (\<not> dr_in_container d) \<rparr>,
       required_check ''bearer-token'' token,
       required_check ''segger-root'' (dr_is_dir d (set_segger_root s)),
       required_check ''jlink-commander'' (tool_ok tools ''JLinkExe''),
       required_check ''segger-version-9.62'' (tool_version tools ''JLinkExe'' = Some ''9.62''),
       required_check ''jlink-gdb-server'' (tool_ok tools ''JLinkGDBServerCLExe''),
       required_check ''gdb-client'' (tool_ok tools ''gdb-client''),
       required_check ''workspace'' (directory_access d (set_workspace_root s) True),
       required_check ''state'' (directory_access d (set_state_root s) True),
       required_check ''jlink-attached'' (1 \<le> length (cm_probes m)),
       required_check ''unique-probe'' (length (cm_probes m) = 1),
       required_check ''plugdev-group'' (''plugdev'' \<in> set groups \<or> dr_euid d = 0),
       required_check ''group-device-modes'' (device_modes_ok d m),
       \<lparr> check_name = ''xvfb'', check_ok = tool_ok tools ''Xvfb'', check_required = set_enable_gui s \<rparr>,
       \<lparr> check_name = ''xdotool'', check_ok = tool_ok tools ''xdotool'', check_required = set_enable_gui s \<rparr>])"

datatype doctor_error = ScanFailed profile_error | TokenFailed config_error

definition dependency_report ::
    "doctor_host \<Rightarrow> board_detector \<Rightarrow> target_registry \<Rightarrow> doctor_error + dependency_check list \<times> discovered_manifest" where
  "dependency_report d run reg =
     rbind (rcatch (capability_manifest (dr_discovery d) run reg) ScanFailed) (\<lambda>m.
     rbind (rcatch (bearer_token (dr_settings d) (dr_read_token d) (dr_token_env d) False) TokenFailed) (\<lambda>token.
     Inr (core_checks d m (token \<noteq> None \<and> token \<noteq> Some []), m)))"

subsection \<open>What a good report means\<close>

lemma file_entries_keys: "fst ` set (file_entries f d xs) = fst ` set d \<union> f ` fst ` set xs"
  by (induction f d xs rule: file_entries.induct) auto

lemma file_entries_ok: "dict_ok d \<Longrightarrow> dict_ok (file_entries f d xs)"
  by (induction f d xs rule: file_entries.induct) auto

lemma dict_set_values: "snd ` set (dict_set d k v) \<subseteq> insert v (snd ` set d)"
  by (induction d k v rule: dict_set.induct) auto

lemma file_entries_groups: "snd ` set (file_entries f d xs) \<subseteq> snd ` set d \<union> snd ` set xs"
proof (induction f d xs rule: file_entries.induct)
  case (2 f d n e xs)
  then show ?case using dict_set_values [of d "f n" e] by auto
qed simp

text \<open>The nodes of the probes and boards, as udev and the detectors name them.\<close>

definition manifest_nodes :: "discovered_manifest \<Rightarrow> (string \<times> string) list" where
  "manifest_nodes m = concat (map (\<lambda>p. map (\<lambda>node. (node, ''plugdev'')) (usb_nodes (pc_usb p))) (cm_probes m)) @ concat (map board_entries (cm_boards m))"

lemma node_group_cases: "node_group node = ''plugdev'' \<or> node_group node = ''dialout''"
  by (simp add: node_group_def Let_def)

lemma node_groups: "snd ` set (manifest_nodes m) \<subseteq> {''plugdev'', ''dialout''}"
proof -
  have "set (map snd (board_entries b)) \<subseteq> {''plugdev'', ''dialout''}" for b
    using node_group_cases by (auto simp: board_entries_def split: option.splits list.splits) blast+
  then show ?thesis by (fastforce simp: manifest_nodes_def)
qed

lemma access_entries_sorted:
  "device_access_entries d m = sort_key (\<lambda>(path, _). map of_char (show_pypath path) :: nat list)
     (file_entries (\<lambda>node. host_visible_device d (parse_path node)) [] (manifest_nodes m))"
  by (simp add: device_access_entries_def manifest_nodes_def)

lemma access_entries:
  "set (device_access_entries d m) = set (file_entries (\<lambda>node. host_visible_device d (parse_path node)) [] (manifest_nodes m))"
  by (simp add: access_entries_sorted)

lemma access_entries_distinct: "distinct (map fst (device_access_entries d m))"
  using file_entries_ok [of "[]" "\<lambda>node. host_visible_device d (parse_path node)" "manifest_nodes m"]
  by (simp add: access_entries_sorted distinct_map)

lemma modes_ok_node:
  assumes "device_modes_ok d m" "node \<in> fst ` set (manifest_nodes m)"
  shows "dh_exists (dr_discovery d) (host_visible_device d (parse_path node)) \<and> dr_mode d (host_visible_device d (parse_path node)) = 432
    \<and> device_group d (host_visible_device d (parse_path node)) \<in> {''plugdev'', ''dialout''}"
proof -
  let ?path = "host_visible_device d (parse_path node)"
  let ?entries = "file_entries (\<lambda>node. host_visible_device d (parse_path node)) [] (manifest_nodes m)"
  have "?path \<in> fst ` set ?entries" using assms(2) by (simp add: file_entries_keys)
  then obtain g where g: "(?path, g) \<in> set ?entries" by (auto simp: image_iff)
  have "g \<in> snd ` set ?entries" using imageI [OF g, of snd] by simp
  then have "g \<in> snd ` set (manifest_nodes m)"
    using file_entries_groups [of "\<lambda>node. host_visible_device d (parse_path node)" "[]" "manifest_nodes m"] by auto
  then have "g \<in> {''plugdev'', ''dialout''}" using node_groups [of m] by (rule subsetD [rotated])
  moreover have "dh_exists (dr_discovery d) ?path \<and> dr_mode d ?path = 432 \<and> device_group d ?path = g"
    using bspec [OF conjunct2 [OF assms(1) [unfolded device_modes_ok_def list_all_iff access_entries]] g] by simp
  ultimately show ?thesis by metis
qed

lemma checks_ok:
  assumes "dependency_report_ok checks" "required_check name ok \<in> set checks"
  shows ok
  using assms by (auto simp: dependency_report_ok_def list_all_iff required_check_def)

text \<open>C36: A good report is sound. When every required check of a report is good, there is exactly one probe, J-Link Commander of version
  9.62, the GDB server and the GDB client are listed as available, a bearer token is configured, the workspace and the state root can be
  read and written, and each device node of the probe and the boards, seen through the configured device root, exists with mode 0660 in
  the group plugdev or dialout; and the paths checked are distinct.\<close>

theorem doctor_sound:
  assumes "dependency_report d run reg = Inr (checks, m)" "dependency_report_ok checks"
  shows "(\<exists>p. cm_probes m = [p])
    \<and> tool_ok (tool_map (cm_tools m)) ''JLinkExe'' \<and> tool_version (tool_map (cm_tools m)) ''JLinkExe'' = Some ''9.62''
    \<and> tool_ok (tool_map (cm_tools m)) ''JLinkGDBServerCLExe'' \<and> tool_ok (tool_map (cm_tools m)) ''gdb-client''
    \<and> (\<exists>token. bearer_token (dr_settings d) (dr_read_token d) (dr_token_env d) False = Inr (Some token) \<and> token \<noteq> [])
    \<and> directory_access d (set_workspace_root (dr_settings d)) True \<and> directory_access d (set_state_root (dr_settings d)) True
    \<and> manifest_nodes m \<noteq> [] \<and> distinct (map fst (device_access_entries d m))
    \<and> list_all (\<lambda>node. case host_visible_device d (parse_path node) of path \<Rightarrow>
         dh_exists (dr_discovery d) path \<and> dr_mode d path = 432 \<and> device_group d path \<in> {''plugdev'', ''dialout''}) (map fst (manifest_nodes m))"
proof -
  obtain token where m: "capability_manifest (dr_discovery d) run reg = Inr m"
    and token: "bearer_token (dr_settings d) (dr_read_token d) (dr_token_env d) False = Inr token"
    and checks: "checks = core_checks d m (token \<noteq> None \<and> token \<noteq> Some [])"
    using assms(1) by (auto simp: dependency_report_def rbind_eq_Inr rcatch_eq_Inr)
  note good = checks_ok [OF assms(2)]
  have filed: "required_check ''unique-probe'' (length (cm_probes m) = 1) \<in> set checks"
    "required_check ''bearer-token'' (token \<noteq> None \<and> token \<noteq> Some []) \<in> set checks"
    "required_check ''jlink-commander'' (tool_ok (tool_map (cm_tools m)) ''JLinkExe'') \<in> set checks"
    "required_check ''segger-version-9.62'' (tool_version (tool_map (cm_tools m)) ''JLinkExe'' = Some ''9.62'') \<in> set checks"
    "required_check ''jlink-gdb-server'' (tool_ok (tool_map (cm_tools m)) ''JLinkGDBServerCLExe'') \<in> set checks"
    "required_check ''gdb-client'' (tool_ok (tool_map (cm_tools m)) ''gdb-client'') \<in> set checks"
    "required_check ''workspace'' (directory_access d (set_workspace_root (dr_settings d)) True) \<in> set checks"
    "required_check ''state'' (directory_access d (set_state_root (dr_settings d)) True) \<in> set checks"
    "required_check ''group-device-modes'' (device_modes_ok d m) \<in> set checks"
    by (simp_all add: checks core_checks_def Let_def)
  have modes: "device_modes_ok d m" by (rule good [OF filed(9)])
  have "manifest_nodes m \<noteq> []" using modes by (auto simp: device_modes_ok_def access_entries_sorted)
  moreover note access_entries_distinct
  moreover have "list_all (\<lambda>node. case host_visible_device d (parse_path node) of path \<Rightarrow>
         dh_exists (dr_discovery d) path \<and> dr_mode d path = 432 \<and> device_group d path \<in> {''plugdev'', ''dialout''}) (map fst (manifest_nodes m))"
    using modes_ok_node [OF modes] by (auto simp: list_all_iff)
  moreover have "\<exists>p. cm_probes m = [p]" using good [OF filed(1)] by (auto simp: length_Suc_conv)
  moreover have "\<exists>t. token = Some t \<and> t \<noteq> []" using good [OF filed(2)] by auto
  ultimately show ?thesis using token good [OF filed(3)] good [OF filed(4)] good [OF filed(5)] good [OF filed(6)] good [OF filed(7)] good [OF filed(8)] by auto
qed

definition sample_probe :: udev_device where
  "sample_probe = \<lparr> ud_property = (\<lambda>k. if k = ''ID_SERIAL_SHORT'' then Some ''7'' else None),
     ud_attribute = (\<lambda>k. if k = ''idVendor'' then Some ''1366'' else None), ud_node = Some ''/dev/bus/usb/001/002'', ud_children = [None], ud_sys_path = [] \<rparr>"

definition sample_host :: discovery_host where
  "sample_host = \<lparr> dh_settings = default_settings (parse_path ''/work'') (parse_path ''/opt/V962'') [Some ''/usr/bin/gdb''], dh_devices = [sample_probe],
     dh_which = (\<lambda>name. Some (''/usr/bin/'' @ name)), dh_exists = (\<lambda>p. True), dh_is_file = (\<lambda>p. True), dh_executable = (\<lambda>p. True),
     dh_resolved = (\<lambda>p. []), dh_by_id = [], dh_release_notes = None, dh_system = ''Linux'', dh_machine = ''x86_64'',
     dh_groups = [(46, Some ''plugdev'')] \<rparr>"

definition sample_doctor :: doctor_host where
  "sample_doctor = \<lparr> dr_discovery = sample_host, dr_in_container = True, dr_cgroup_fsid = Some 1, dr_cgroup_controllers = True, dr_command = (\<lambda>argv. None),
     dr_read_token = (\<lambda>p. None), dr_token_env = Some ''t'', dr_is_dir = (\<lambda>p. True), dr_access = (\<lambda>w p. True), dr_euid = 1000,
     dr_mode = (\<lambda>p. 432), dr_group = (\<lambda>p. Some ''plugdev'') \<rparr>"

lemma find_named: "distinct (map f xs) \<Longrightarrow> x \<in> set xs \<Longrightarrow> find (\<lambda>t. f t = f x) (rev xs) = Some x"
proof (induction xs rule: rev_induct)
  case (snoc y xs)
  then show ?case by (auto simp: rev_image_eqI)
qed simp

lemma tool_map_found: "dict_get (tool_map tools) name = find (\<lambda>t. ta_name t = name) (rev tools)"
proof -
  have "dict_get (foldl (\<lambda>m t. dict_set m (ta_name t) t) d tools) name
      = (case find (\<lambda>t. ta_name t = name) (rev tools) of None \<Rightarrow> dict_get d name | Some t \<Rightarrow> Some t)" for d
  proof (induction tools rule: rev_induct)
    case (snoc t tools)
    then show ?case by (simp split: option.split)
  qed simp
  from this [of "[]"] show ?thesis by (simp add: tool_map_def split: option.splits)
qed

lemma sample_version: "segger_version sample_host = Some ''9.62''"
proof -
  have p: "path_parts (parse_path ''/opt/V962'') = [''opt'', ''V962'']" by (simp add: parse_path_def str_startswith_def)
  have "(case re_search ROOT_VERSION_RE ''V962'' of None \<Rightarrow> [] | Some p \<Rightarrow> group 1 p @ ''.'' @ group 2 p) = ''9.62''" by code_simp
  then show ?thesis by (auto simp: segger_version_def sample_host_def default_settings_def p split: option.splits)
qed

lemma sample_found:
  "name \<in> set SEGGER_TOOLS \<Longrightarrow> ta_state (segger_tool sample_host name) = Available"
  "ta_version (segger_tool sample_host name) = Some ''9.62''"
  "ta_name (segger_tool sample_host name) = name" "ta_name (other_tool sample_host name path) = name"
  "ta_state (other_tool sample_host name path) = Available"
  by (simp_all add: segger_tool_def other_tool_def Let_def sample_version) (simp_all add: sample_host_def split: option.split)

lemma find_tool:
  "distinct (map ta_name tools) \<Longrightarrow> t \<in> set tools \<Longrightarrow> dict_get (tool_map tools) (ta_name t) = Some t"
  unfolding tool_map_found by (rule find_named) simp_all

lemma sample_tools:
  "tool_ok (tool_map (discover_tools sample_host)) ''JLinkExe''" "tool_version (tool_map (discover_tools sample_host)) ''JLinkExe'' = Some ''9.62''"
  "tool_ok (tool_map (discover_tools sample_host)) ''JLinkGDBServerCLExe''" "tool_ok (tool_map (discover_tools sample_host)) ''gdb-client''"
  "tool_ok (tool_map (discover_tools sample_host)) ''Xvfb''" "tool_ok (tool_map (discover_tools sample_host)) ''xdotool''"
proof -
  have distinct: "distinct (map ta_name (discover_tools sample_host))"
    by (simp add: discover_tools_def other_tools_def sample_found(3,4) comp_def SEGGER_TOOLS_def Let_def)
  have segger: "dict_get (tool_map (discover_tools sample_host)) name = Some (segger_tool sample_host name)" if "name \<in> set SEGGER_TOOLS" for name
    using find_tool [OF distinct, of "segger_tool sample_host name"] that by (simp add: sample_found(3) discover_tools_def)
  have other: "dict_get (tool_map (discover_tools sample_host)) name = Some (other_tool sample_host name path)"
    if "(name, path) \<in> set (other_tools sample_host)" for name path
    using find_tool [OF distinct, of "other_tool sample_host name path"] that by (force simp: sample_found(4) discover_tools_def)
  have named: "''JLinkExe'' \<in> set SEGGER_TOOLS" "''JLinkGDBServerCLExe'' \<in> set SEGGER_TOOLS" by (simp_all add: SEGGER_TOOLS_def)
  show "tool_ok (tool_map (discover_tools sample_host)) ''JLinkExe''" "tool_version (tool_map (discover_tools sample_host)) ''JLinkExe'' = Some ''9.62''"
    "tool_ok (tool_map (discover_tools sample_host)) ''JLinkGDBServerCLExe''"
    using named by (simp_all add: tool_ok_def tool_version_def segger sample_found)
  have listed: "\<exists>path. (name, path) \<in> set (other_tools sample_host)" if "name \<in> {''gdb-client'', ''Xvfb'', ''xdotool''}" for name
    using that by (auto simp: other_tools_def Let_def)
  show "tool_ok (tool_map (discover_tools sample_host)) ''gdb-client''" "tool_ok (tool_map (discover_tools sample_host)) ''Xvfb''"
    "tool_ok (tool_map (discover_tools sample_host)) ''xdotool''"
    using listed [of "''gdb-client''"] listed [of "''Xvfb''"] listed [of "''xdotool''"]
    by (auto simp: tool_ok_def dest!: other simp: sample_found)
qed

lemma sample_devices: "discover_usb_devices sample_host = [\<lparr> usb_kind = ''jlink'', usb_vendor_id = ''1366'', usb_product_id = ''0000'', usb_manufacturer = None,
   usb_product = None, usb_serial = Some ''7'', usb_bus = None, usb_address = None, usb_sys_path = [], usb_nodes = [''/dev/bus/usb/001/002''] \<rparr>]"
proof -
  have c: "clean_hex (Some ''1366'') = ''1366''" "clean_hex None = ''0000''" "str_strip ''1366'' = ''1366''" by code_simp+
  show ?thesis
    by (simp add: discover_usb_devices_def sample_host_def sample_probe_def usb_of_def text_or_def attribute_def Let_def c device_nodes_def sorted_names_def
        List.map_filter_def)
qed

lemma sample_report:
  "\<exists>checks m. dependency_report sample_doctor (\<lambda>handle u. None) empty_targets = Inr (checks, m) \<and> dependency_report_ok checks"
proof -
  have not_recognized: "capability_manifest sample_host (\<lambda>handle u. None) empty_targets \<noteq> Inl e" for e
    by (simp add: capability_manifest_def scan_devices_exact sample_devices is_probe_def rbind_def Let_def)
  then obtain m where m: "capability_manifest sample_host (\<lambda>handle u. None) empty_targets = Inr m"
    by (cases "capability_manifest sample_host (\<lambda>handle u. None) empty_targets") auto
  note parts = manifest_parts [OF m]
  have probes: "cm_probes m = [probe_of (hd (discover_usb_devices sample_host)) ''7'']" and boards: "cm_boards m = []"
    by (simp_all add: parts(1,2) sample_devices is_probe_def)
  have token: "bearer_token (dr_settings sample_doctor) (dr_read_token sample_doctor) (dr_token_env sample_doctor) False = Inr (Some ''t'')"
  proof -
    have "str_strip ''t'' = ''t''" by code_simp
    then show ?thesis by (simp add: bearer_token_def dr_settings_def sample_doctor_def sample_host_def default_settings_def)
  qed
  have groups: "current_groups sample_host = [''plugdev'']"
    by (simp add: current_groups_def sample_host_def sorted_names_def)
  have "manifest_nodes m = [(''/dev/bus/usb/001/002'', ''plugdev'')]"
    by (simp add: manifest_nodes_def probes boards sample_devices probe_of_def Let_def)
  then have modes: "device_modes_ok sample_doctor m"
    by (simp add: device_modes_ok_def access_entries_sorted sample_doctor_def sample_host_def device_group_def)
  have host: "dr_discovery sample_doctor = sample_host" "set_enable_gui (dr_settings sample_doctor) = True"
    "dh_system sample_host = ''Linux''" "dh_machine sample_host = ''x86_64''"
    by (simp_all add: sample_doctor_def dr_settings_def sample_host_def default_settings_def)
  have rest: "filesystem_type sample_doctor = ''cgroup2fs''" "dr_in_container sample_doctor" "dr_is_dir sample_doctor p" "directory_access sample_doctor p w" for p w
    by (simp_all add: sample_doctor_def filesystem_type_def directory_access_def)
  have "dependency_report_ok (core_checks sample_doctor m True)"
    unfolding core_checks_def Let_def
    by (simp add: dependency_report_ok_def required_check_def parts(3) sample_tools host rest groups modes probes)
  then show ?thesis using m token host(1) by (auto simp: dependency_report_def rcatch_def rbind_def)
qed

theorem doctor_sound_witness:
  "\<exists>checks m. dependency_report sample_doctor (\<lambda>handle u. None) empty_targets = Inr (checks, m) \<and> length (cm_probes m) = 1"
proof -
  obtain checks m where r: "dependency_report sample_doctor (\<lambda>handle u. None) empty_targets = Inr (checks, m)" "dependency_report_ok checks"
    using sample_report by blast
  from doctor_sound [OF r] r(1) show ?thesis by auto
qed

end
