(* ===== verification/Extension_Reports.thy ===== *)
theory Extension_Reports
  imports Bridge_Deploy Doctor
begin

text \<open>
  What the two first-party extensions contribute to discovery and to the doctor: the GIGA board detector, the capability and the
  dependency providers of \<^verbatim>\<open>arduino_giga/extension.py\<close> and \<^verbatim>\<open>giga_protocol_bridge/extension.py\<close>, and the service's doctor, which puts
  the checks together. A detail's text is its reason; registering tools and resources with the MCP server is the loader's business.
\<close>

subsection \<open>The configuration of the GIGA extension\<close>

record giga_config =
  gc_arduino_cli :: string
  gc_data_root :: pypath
  gc_user_root :: pypath
  gc_fqbn :: string
  gc_flash_split :: string

definition default_giga_config :: "file_system \<Rightarrow> (string \<Rightarrow> string option) \<Rightarrow> string \<Rightarrow> config_error + giga_config" where
  "default_giga_config fs which home =
     rbind (first_existing fs [''/opt/arduino/data'', home @ ''/.arduino15'']) (\<lambda>data.
     rbind (first_existing fs [''/opt/arduino/user'', home @ ''/Arduino'']) (\<lambda>user.
     Inr \<lparr> gc_arduino_cli = (case text_or (which ''arduino-cli'') (Some ''/usr/local/bin/arduino-cli'') of None \<Rightarrow> [] | Some cli \<Rightarrow> cli),
           gc_data_root = data, gc_user_root = user, gc_fqbn = ''arduino:mbed_giga:giga'', gc_flash_split = ''75_25'' \<rparr>))"

definition flash_split_ok :: "string \<Rightarrow> bool" where
  "flash_split_ok v = (v \<in> {''100_0'', ''75_25'', ''50_50''})"

subsection \<open>The GIGA extension\<close>

definition giga_metadata :: "string \<Rightarrow> string" where
  "giga_metadata key = (case dict_get (profile_metadata GIGA_R1) key of Some (JStr s) \<Rightarrow> s | _ \<Rightarrow> [])"

definition giga_product_ids :: "json list" where
  "giga_product_ids = (case dict_get (profile_metadata GIGA_R1) ''usb_pids'' of Some (JList ids) \<Rightarrow> ids | _ \<Rightarrow> [])"

definition giga_detect_board :: "discovery_host \<Rightarrow> usb_device \<Rightarrow> board_capabilities option" where
  "giga_detect_board h usb =
     (if usb_vendor_id usb \<noteq> giga_metadata ''usb_vid'' \<or> JStr (usb_product_id usb) \<notin> set giga_product_ids then None
      else Some \<lparr> bc_serial = usb_serial usb, bc_model = profile_display_name GIGA_R1, bc_target_profile = Some (profile_id GIGA_R1),
             bc_mcu = giga_metadata ''mcu'', bc_cores = map fst (profile_cores GIGA_R1), bc_usb = Some usb,
             bc_serial_port = serial_port_for_usb h usb, bc_metadata = [(''fqbn'', JStr (giga_metadata ''fqbn''))] \<rparr>)"

definition giga_tool :: "discovery_host \<Rightarrow> string \<Rightarrow> string \<Rightarrow> tool_availability" where
  "giga_tool h name raw =
     (let path = (if dh_is_file h (parse_path raw) then Some raw else dh_which h raw); found = (path \<noteq> None \<and> path \<noteq> Some []) in
      \<lparr> ta_name = name, ta_state = available_when found, ta_path = (if found then path else None), ta_version = None,
        ta_reason = (if found then None else Some ''not installed or not in PATH'') \<rparr>)"

definition COMPILER_TOOLS :: "string list" where
  "COMPILER_TOOLS = [''arm-none-eabi-gdb'', ''arm-none-eabi-objcopy'', ''arm-none-eabi-objdump'', ''arm-none-eabi-nm'']"

definition giga_extension_tools :: "discovery_host \<Rightarrow> giga_config \<Rightarrow> tool_availability list" where
  "giga_extension_tools h cfg =
     (let tools = [''packages'', ''arduino'', ''tools'']; inside = (\<lambda>parts. show_pypath (subpath (gc_data_root cfg) (tools @ parts))) in
      [giga_tool h ''arduino-cli'' (gc_arduino_cli cfg)]
      @ map (\<lambda>name. giga_tool h name (inside [''arm-none-eabi-gcc'', ''7-2017q4'', ''bin'', name])) COMPILER_TOOLS
      @ [giga_tool h ''openocd'' (inside [''openocd'', ''0.11.0-arduino2'', ''bin'', ''openocd'']),
         giga_tool h ''dfu-util'' (inside [''dfu-util'', ''0.10.0-arduino1'', ''dfu-util'']),
         giga_tool h ''imgtool'' (inside [''imgtool'', ''1.8.0-arduino.2'', ''imgtool''])])"

definition giga_boards :: "board_capabilities list \<Rightarrow> board_capabilities list" where
  "giga_boards boards = filter (\<lambda>b. bc_target_profile b = Some (profile_id GIGA_R1)) boards"

definition giga_workflow_states :: "bool \<Rightarrow> bool \<Rightarrow> bool \<Rightarrow> bool \<Rightarrow> (string, capability_state) dict" where
  "giga_workflow_states build flash debug serial =
     [(''build_firmware'', available_when build), (''dual_core_deploy'', available_when (build \<and> flash)),
      (''hardware_preflight'', available_when flash), (''dual_core_debug_prepare'', available_when flash),
      (''boot_and_observe'', available_when (flash \<and> serial)), (''debug_fixture'', available_when (debug \<and> serial)),
      (''crash_capture'', available_when (debug \<and> serial)),
      (''regression_execution'', available_when (build \<and> flash \<and> debug \<and> serial))]"

text \<open>The text of a detail: empty for an available workflow.\<close>

definition detail_text :: "(string, capability_state) dict \<Rightarrow> string \<Rightarrow> string \<Rightarrow> string \<times> string" where
  "detail_text states name reason = (name, if state_of states name = Available then [] else reason)"

definition GIGA_REASONS :: "(string \<times> string) list" where
  "GIGA_REASONS =
    [(''build_firmware'', ''Arduino CLI is unavailable''),
     (''dual_core_deploy'', ''Commander and Arduino CLI are both required''),
     (''hardware_preflight'', ''J-Link Commander or live target access is unavailable''),
     (''dual_core_debug_prepare'', ''J-Link Commander or live M7 access is unavailable''),
     (''boot_and_observe'', ''Commander and an accessible GIGA serial channel are required''),
     (''debug_fixture'', ''Managed GDB and GIGA serial are both required''),
     (''crash_capture'', ''Managed GDB and the fixture fault trigger are required''),
     (''regression_execution'', ''The complete GIGA build, flash, debug, and observation stack is required'')]"

definition giga_contribution :: "discovery_host \<Rightarrow> giga_config \<Rightarrow> board_capabilities list \<Rightarrow> manifest \<Rightarrow> contribution" where
  "giga_contribution h cfg boards m =
     (let tools = map (\<lambda>t. (ta_name t, ta_state t)) (giga_extension_tools h cfg);
          available = fst ` set (filter (\<lambda>t. snd t = Available) (man_tools m @ tools));
          serial = list_ex (\<lambda>b. bc_serial_port b \<noteq> None \<and> bc_serial_port b \<noteq> Some []) (giga_boards boards);
          w = giga_workflow_states (''arduino-cli'' \<in> available) (''JLinkExe'' \<in> available)
                (''JLinkGDBServerCLExe'' \<in> available \<and> ''gdb-client'' \<in> available) serial in
      \<lparr> con_tools = tools, con_workflows = w,
        con_workflow_details = map (\<lambda>(name, reason). detail_text w name reason) GIGA_REASONS,
        con_features = [], con_limitations = [''The GIGA secondary core may require transient runtime release before debug.''],
        con_raw_surfaces = [], con_atomic_tools = [] \<rparr>)"

text \<open>The newest positive observation of each core in the audit log; \<open>None\<close> when an entry's payload is not readable.\<close>

definition row_target :: "store_env \<Rightarrow> operation_row \<Rightarrow> json option" where
  "row_target env row = map_option (\<lambda>payload. object_get (object_get payload ''result'') ''target_identity'') (json_loads env (row_payload_json row))"

definition observe_target :: "json \<Rightarrow> (string, json_object) dict \<Rightarrow> (string, json_object) dict" where
  "observe_target target seen =
     (case (object_get target ''core'', target) of
        (JStr core, JObj d) \<Rightarrow>
          if object_get target ''target_profile'' = JStr (profile_id GIGA_R1) \<and> core \<noteq> [] \<and> \<not> dict_has seen core
             \<and> json_truthy (object_get target ''cpuid'')
          then dict_set seen core d else seen
      | _ \<Rightarrow> seen)"

fun giga_identities :: "store_env \<Rightarrow> operation_row list \<Rightarrow> (string, json_object) dict \<Rightarrow> (string, json_object) dict option" where
  "giga_identities env [] seen = Some seen"
| "giga_identities env (row # rows) seen =
     (case row_target env row of None \<Rightarrow> None | Some target \<Rightarrow> giga_identities env rows (observe_target target seen))"

definition voltages_ok :: "(string, json_object) dict \<Rightarrow> bool" where
  "voltages_ok identities =
     (let voltages = List.map_filter (\<lambda>(core, d). json_number (lookup d ''target_voltage'')) identities in
      voltages \<noteq> [] \<and> list_all (\<lambda>v. case profile_minimum_voltage GIGA_R1 of Finite least \<Rightarrow> least \<le> v | NotFinite \<Rightarrow> False) voltages)"

definition identity_check :: "(string, json_object) dict \<Rightarrow> string \<times> core_profile \<Rightarrow> dependency_check" where
  "identity_check identities = (\<lambda>(core, profile). required_check (''target-'' @ core @ ''-identity'')
     (parsed_number (case dict_get identities core of None \<Rightarrow> [] | Some d \<Rightarrow> d) ''cpuid'' = core_expected_cpuid profile))"

definition giga_checks ::
    "doctor_host \<Rightarrow> giga_config \<Rightarrow> discovered_manifest \<Rightarrow> (string, json_object) dict \<Rightarrow> dependency_check list" where
  "giga_checks d cfg m identities =
     (let h = dr_discovery d; tools = tool_map (giga_extension_tools h cfg); boards = giga_boards (cm_boards m);
          platform = (\<lambda>parts. dh_is_file h (subpath (gc_data_root cfg) ([''packages'', ''arduino'', ''hardware'', ''mbed_giga'', ''4.6.0''] @ parts))) in
      map (\<lambda>name. required_check name (tool_ok tools name)) (''arduino-cli'' # COMPILER_TOOLS @ [''openocd'', ''dfu-util'', ''imgtool''])
      @ [required_check ''arduino-core-4.6.0'' (platform [''platform.txt'']),
         required_check ''giga-svd-m7'' (platform [''svd'', ''STM32H747_CM7.svd'']),
         required_check ''giga-svd-m4'' (platform [''svd'', ''STM32H747_CM4.svd'']),
         required_check ''giga-bootloader'' (platform [''bootloaders'', ''GIGA'', ''bootloader.hex'']),
         required_check ''giga-attached'' (boards \<noteq> []),
         required_check ''unique-pair'' (length (cm_probes m) = 1 \<and> length boards = 1),
         required_check ''dialout-group'' (''dialout'' \<in> set (current_groups h) \<or> dr_euid d = 0)]
      @ map (identity_check identities) (profile_cores GIGA_R1) @ [required_check ''target-voltage'' (voltages_ok identities)])"

subsection \<open>The bridge extension\<close>

definition HIL_FIXTURES :: "(string \<times> string) list" where
  "HIL_FIXTURES = [(''spi'', ''SPI''), (''i2c'', ''I2C''), (''uart'', ''UART''), (''can'', ''CAN''), (''usb'', ''USB''), (''wifi'', ''WIFI''),
     (''ble'', ''BLE''), (''gpio'', ''GPIO'')]"

definition BRIDGE_REASONS :: "(string \<times> string) list" where
  "BRIDGE_REASONS =
    [(''protocol_bridge_release'', ''The pinned bridge build stack is unavailable''),
     (''protocol_bridge_deploy'', ''Commander, board serial, and a verified release are required''),
     (''protocol_bridge'', ''Positive target identity and an accessible serial channel are required'')]"

definition bridge_contribution :: "manifest \<Rightarrow> contribution" where
  "bridge_contribution m =
     (let base = (\<lambda>name. state_of (man_workflows m) name = Available);
          w = [(''protocol_bridge_release'', available_when (base ''build_firmware'')),
               (''protocol_bridge_deploy'', available_when (base ''flash_verify'' \<and> base ''serial'')),
               (''protocol_bridge'', available_when (base ''flash_verify'' \<and> base ''serial''))] in
      \<lparr> con_tools = [], con_workflows = w,
        con_workflow_details = map (\<lambda>(name, reason). detail_text w name reason) BRIDGE_REASONS,
        con_features = map (\<lambda>(protocol, upper). (''protocol_bridge_hil_'' @ protocol, ''Physical '' @ upper
          @ '' companion fixture presence and wiring cannot be inferred; prove it with the opt-in HIL acceptance suite'')) HIL_FIXTURES,
        con_limitations =
          [''Protocol-bridge exchanges are serialized and are not hard real-time operations.'',
           ''Protocol-bridge payloads are opaque bytes represented as canonical base64 at the MCP boundary.'',
           ''The GIGA Wi-Fi and BLE radios are mutually exclusive at runtime.''],
        con_raw_surfaces = [],
        con_atomic_tools = [''get_protocol_bridge_status'', ''protocol_bridge_control'', ''protocol_bridge_exchange'', ''protocol_bridge_receive''] \<rparr>)"

text \<open>The first line with the key \<^verbatim>\<open>version\<close>; a file that cannot be read has none.\<close>

fun version_line :: "string list \<Rightarrow> string option" where
  "version_line [] = None"
| "version_line (line # rest) =
     (let key = takeWhile (\<lambda>c. c \<noteq> CHR ''='') line in
      if length key < length line \<and> str_strip key = ''version'' then Some (str_strip (drop (length key + 1) line)) else version_line rest)"

definition library_version :: "workflow_env \<Rightarrow> files \<Rightarrow> string list \<Rightarrow> string \<Rightarrow> string option" where
  "library_version we fs user_root name =
     Option.bind (dict_get fs (user_root @ [''libraries'', name, ''library.properties''])) (\<lambda>content. version_line (splitlines [] (we_decode we content)))"

definition LIBRARIES :: "(string \<times> string \<times> string) list" where
  "LIBRARIES = [(''Arduino_USBHostMbed5'', ''arduino_usbhostmbed5'', ''0.3.1''), (''ArduinoBLE'', ''arduinoble'', ''2.1.0''),
     (''Arduino_SpiNINA'', ''arduino_spinina'', ''0.0.2'')]"

definition release_authorized :: "workflow_env \<Rightarrow> files \<Rightarrow> string list \<Rightarrow> bool" where
  "release_authorized we fs fw_root =
     (let release = fw_root @ [''release''] in
      release_checksums_authorize we fs (release @ [''SHA256SUMS''])
        [release @ [''protocol_bridge_m7.hex''], release @ [''protocol_bridge_manifest.json'']])"

definition bridge_checks :: "workflow_env \<Rightarrow> files \<Rightarrow> string list \<Rightarrow> string list \<Rightarrow> dependency_check list" where
  "bridge_checks we fs user_root fw_root =
     map (\<lambda>(name, lower, version). required_check (''arduino-library-'' @ lower @ ''-'' @ version) (library_version we fs user_root name = Some version))
       LIBRARIES
     @ [required_check ''protocol-bridge-release'' (release_authorized we fs fw_root)]"

subsection \<open>The service's reports\<close>

definition reason_text :: "availability \<Rightarrow> string" where
  "reason_text a = (case av_reason a of None \<Rightarrow> [] | Some r \<Rightarrow> r)"

text \<open>What the extensions may add to.\<close>

definition core_manifest :: "discovered_manifest \<Rightarrow> manifest" where
  "core_manifest m = \<lparr> man_tools = map (\<lambda>t. (ta_name t, ta_state t)) (cm_tools m), man_workflows = cm_workflows m,
     man_workflow_details = map (\<lambda>(name, a). (name, reason_text a)) (cm_details m),
     man_features = map (\<lambda>(name, a). (name, reason_text a)) (cm_features m), man_limitations = cm_limitations m,
     man_raw_surfaces = cm_raw_surfaces m, man_atomic_tools = cm_atomic_tools m, man_extensions = [] \<rparr>"

datatype report_error = DiscoveryRefused doctor_error | PayloadUnreadable | MergeRefused extension_error | ChecksRefused extension_error

text \<open>The probe identity of the newest entry with licenses, or of the newest with a serial.\<close>

fun probe_evidence :: "store_env \<Rightarrow> operation_row list \<Rightarrow> json \<Rightarrow> json option" where
  "probe_evidence env [] evidence = Some evidence"
| "probe_evidence env (row # rows) evidence =
     (case row_probe env row of
        None \<Rightarrow> None
      | Some probe \<Rightarrow> probe_evidence env rows
          (if json_truthy (object_get probe ''licenses'') \<and> \<not> json_truthy (object_get evidence ''licenses'')
              \<or> \<not> json_truthy evidence \<and> json_truthy (object_get probe ''serial'') then probe else evidence))"

definition effective_capabilities :: "string option \<Rightarrow> int" where
  "effective_capabilities status =
     (case status of
        None \<Rightarrow> - 1
      | Some text \<Rightarrow> (case find (\<lambda>line. str_startswith line ''CapEff:'') (splitlines [] text) of
          None \<Rightarrow> - 1 | Some line \<Rightarrow> int (hex_value 0 (str_strip (drop 7 line)))))"

definition runtime_checks :: "doctor_host \<Rightarrow> string option \<Rightarrow> json \<Rightarrow> dependency_check list" where
  "runtime_checks d status evidence =
     [required_check ''probe-licenses'' (json_truthy (object_get evidence ''licenses'')),
      required_check ''container-non-root'' (dr_euid d \<noteq> 0),
      required_check ''container-capabilities-dropped'' (effective_capabilities status = 0)]"

definition service_doctor ::
    "doctor_host \<Rightarrow> board_detector \<Rightarrow> (discovered_manifest \<Rightarrow> handle \<Rightarrow> manifest \<Rightarrow> string + contribution)
     \<Rightarrow> (discovered_manifest \<Rightarrow> handle \<Rightarrow> manifest \<Rightarrow> string + dependency_check list) \<Rightarrow> registry \<Rightarrow> store_env \<Rightarrow> operation_row list
     \<Rightarrow> string option \<Rightarrow> report_error + dependency_check list \<times> manifest" where
  "service_doctor d run contribute check reg env rows status =
     rbind (rcatch (dependency_report d run (targets reg)) DiscoveryRefused) (\<lambda>(checks, m).
     rbind (if observations env rows [] = None then Inl PayloadUnreadable else Inr ()) (\<lambda>_.
     rbind (rcatch (merge_capabilities (contribute m) reg (core_manifest m)) MergeRefused) (\<lambda>merged.
     rbind (case probe_evidence env rows (JObj []) of None \<Rightarrow> Inl PayloadUnreadable | Some e \<Rightarrow> Inr e) (\<lambda>evidence.
     rbind (rcatch (dependency_checks (check m) reg merged (checks @ runtime_checks d status evidence)) ChecksRefused) (\<lambda>extension.
     Inr (checks @ extension @ runtime_checks d status evidence, merged))))))"

text \<open>The providers of the two first-party extensions, in the order they are loaded.\<close>

definition first_party_contribution :: "discovery_host \<Rightarrow> giga_config \<Rightarrow> discovered_manifest \<Rightarrow> handle \<Rightarrow> manifest \<Rightarrow> string + contribution" where
  "first_party_contribution h cfg dm p m = Inr (if p = 0 then giga_contribution h cfg (cm_boards dm) m else bridge_contribution m)"

definition first_party_checks ::
    "doctor_host \<Rightarrow> giga_config \<Rightarrow> store_env \<Rightarrow> operation_row list \<Rightarrow> workflow_env \<Rightarrow> files \<Rightarrow> string list \<Rightarrow> string list
     \<Rightarrow> discovered_manifest \<Rightarrow> handle \<Rightarrow> manifest \<Rightarrow> string + dependency_check list" where
  "first_party_checks d cfg env rows we fs user_root fw_root dm p m =
     (if p = 0 then (case giga_identities env rows [] of None \<Rightarrow> Inl ''unreadable payload'' | Some seen \<Rightarrow> Inr (giga_checks d cfg dm seen))
      else Inr (bridge_checks we fs user_root fw_root))"

definition first_party_providers :: "(string \<times> handle) list" where
  "first_party_providers = [(''arduino_giga'', 0), (''giga_protocol_bridge'', 1)]"

subsection \<open>The first-party extensions fit together\<close>

lemma merge_contribution_fits:
  assumes "distinct (map fst (man_tools m @ con_tools c))" "distinct (map fst (man_workflows m @ con_workflows c))"
    "distinct (map fst (man_workflow_details m @ con_workflow_details c))" "distinct (map fst (man_features m @ con_features c))"
    "distinct (man_atomic_tools m @ con_atomic_tools c)"
  shows "merge_contribution c m = Inr (m \<lparr> man_tools := man_tools m @ con_tools c, man_workflows := man_workflows m @ con_workflows c,
     man_workflow_details := man_workflow_details m @ con_workflow_details c, man_features := man_features m @ con_features c,
     man_limitations := man_limitations m @ con_limitations c, man_raw_surfaces := man_raw_surfaces m @ con_raw_surfaces c,
     man_atomic_tools := man_atomic_tools m @ con_atomic_tools c \<rparr>)"
proof -
  have "merge_tools (man_tools m) (con_tools c) = Inr (man_tools m @ con_tools c)"
    "merge_unique kind (man_workflows m) (con_workflows c) = Inr (man_workflows m @ con_workflows c)"
    "merge_unique kind (man_workflow_details m) (con_workflow_details c) = Inr (man_workflow_details m @ con_workflow_details c)"
    "merge_unique kind (man_features m) (con_features c) = Inr (man_features m @ con_features c)"
    "merge_atomic (man_atomic_tools m) (con_atomic_tools c) = Inr (man_atomic_tools m @ con_atomic_tools c)" for kind
    using assms by (auto simp: merge_tools_Inr merge_unique_Inr merge_atomic_Inr)
  then show ?thesis by (simp add: merge_contribution_def rbind_def)
qed

definition TOOL_NAMES :: "string list" where
  "TOOL_NAMES = SEGGER_TOOLS @ [''gdb-client'', ''Xvfb'', ''xdotool'', ''tesseract'', ''scrot'', ''Ozone'', ''SystemView'']"

definition WORKFLOW_NAMES :: "string list" where
  "WORKFLOW_NAMES = [''preflight'', ''flash_verify'', ''debug'', ''gui'', ''sdk'', ''serial'', ''rtt'', ''swo_itm'', ''backup_restore'',
     ''firmware_comparison'', ''rtt_capture'', ''validation_report'']"

lemma segger_tool_name: "ta_name (segger_tool h name) = name"
  by (simp add: segger_tool_def Let_def)

lemma other_tool_name: "ta_name (other_tool h name path) = name"
  by (simp add: other_tool_def Let_def)

lemma core_workflows: "man_workflows (core_manifest m) = cm_workflows m"
  by (simp add: core_manifest_def)

lemma core_names:
  assumes "capability_manifest h run reg = Inr m"
  shows "map fst (man_tools (core_manifest m)) = TOOL_NAMES" "map fst (man_workflows (core_manifest m)) = WORKFLOW_NAMES"
    "map fst (man_workflow_details (core_manifest m)) = WORKFLOW_NAMES"
    "map fst (man_features (core_manifest m)) = [''target_power'', ''etm_trace'', ''swo_wire'', ''ozone'', ''systemview'', ''semihosting'', ''itm'']"
    "man_atomic_tools (core_manifest m) = ATOMIC_TOOLS"
proof -
  note parts = manifest_parts [OF assms]
  show "map fst (man_tools (core_manifest m)) = TOOL_NAMES"
    by (simp add: core_manifest_def parts(3) discover_tools_def TOOL_NAMES_def segger_tool_name other_tools_def other_tool_name Let_def comp_def)
  show "map fst (man_workflows (core_manifest m)) = WORKFLOW_NAMES"
    by (simp add: core_manifest_def parts(5) core_workflow_states_def WORKFLOW_NAMES_def)
  show "map fst (man_workflow_details (core_manifest m)) = WORKFLOW_NAMES"
    by (simp add: core_manifest_def parts(4) core_workflow_details_def detail_def WORKFLOW_NAMES_def)
  show "map fst (man_features (core_manifest m)) = [''target_power'', ''etm_trace'', ''swo_wire'', ''ozone'', ''systemview'', ''semihosting'', ''itm'']"
    by (simp add: core_manifest_def parts(6) core_features_def feature_def Let_def)
  show "man_atomic_tools (core_manifest m) = ATOMIC_TOOLS"
    by (simp add: core_manifest_def parts(10))
qed

definition GIGA_TOOLS :: "string list" where
  "GIGA_TOOLS = ''arduino-cli'' # COMPILER_TOOLS @ [''openocd'', ''dfu-util'', ''imgtool'']"

lemma giga_tool_name: "ta_name (giga_tool h name raw) = name"
  by (simp add: giga_tool_def Let_def)

lemma giga_tool_names: "map ta_name (giga_extension_tools h cfg) = GIGA_TOOLS"
  by (simp add: giga_extension_tools_def GIGA_TOOLS_def giga_tool_name Let_def comp_def)

definition GIGA_WORKFLOWS :: "string list" where
  "GIGA_WORKFLOWS = [''build_firmware'', ''dual_core_deploy'', ''hardware_preflight'', ''dual_core_debug_prepare'', ''boot_and_observe'',
     ''debug_fixture'', ''crash_capture'', ''regression_execution'']"

lemma giga_names:
  "map fst (con_tools (giga_contribution h cfg boards m)) = GIGA_TOOLS"
  "map fst (con_workflows (giga_contribution h cfg boards m)) = GIGA_WORKFLOWS"
  "map fst (con_workflow_details (giga_contribution h cfg boards m)) = GIGA_WORKFLOWS"
  "con_features (giga_contribution h cfg boards m) = []" "con_atomic_tools (giga_contribution h cfg boards m) = []"
proof -
  have "con_tools (giga_contribution h cfg boards m) = map (\<lambda>t. (ta_name t, ta_state t)) (giga_extension_tools h cfg)"
    unfolding giga_contribution_def Let_def by (simp only: contribution.select_convs)
  then show "map fst (con_tools (giga_contribution h cfg boards m)) = GIGA_TOOLS"
    using giga_tool_names [of h cfg] by (simp add: comp_def)
  have "map fst (giga_workflow_states x y z w) = GIGA_WORKFLOWS" for x y z w
    by (simp add: giga_workflow_states_def GIGA_WORKFLOWS_def)
  then show "map fst (con_workflows (giga_contribution h cfg boards m)) = GIGA_WORKFLOWS"
    unfolding giga_contribution_def Let_def by (simp only: contribution.select_convs)
  have "map fst (map (\<lambda>(name, reason). detail_text w name reason) GIGA_REASONS) = GIGA_WORKFLOWS" for w
    by (simp add: GIGA_REASONS_def GIGA_WORKFLOWS_def detail_text_def)
  then show "map fst (con_workflow_details (giga_contribution h cfg boards m)) = GIGA_WORKFLOWS"
    unfolding giga_contribution_def Let_def by (simp only: contribution.select_convs)
  show "con_features (giga_contribution h cfg boards m) = []" "con_atomic_tools (giga_contribution h cfg boards m) = []"
    unfolding giga_contribution_def Let_def by (simp_all only: contribution.select_convs)
qed

definition BRIDGE_WORKFLOWS :: "string list" where
  "BRIDGE_WORKFLOWS = [''protocol_bridge_release'', ''protocol_bridge_deploy'', ''protocol_bridge'']"

lemma bridge_names:
  "con_tools (bridge_contribution m) = []" "map fst (con_workflows (bridge_contribution m)) = BRIDGE_WORKFLOWS"
  "map fst (con_workflow_details (bridge_contribution m)) = BRIDGE_WORKFLOWS"
  "map fst (con_features (bridge_contribution m)) = map (\<lambda>p. ''protocol_bridge_hil_'' @ p) (map fst HIL_FIXTURES)"
  "con_atomic_tools (bridge_contribution m)
    = [''get_protocol_bridge_status'', ''protocol_bridge_control'', ''protocol_bridge_exchange'', ''protocol_bridge_receive'']"
  by (simp_all add: bridge_contribution_def Let_def BRIDGE_WORKFLOWS_def BRIDGE_REASONS_def detail_text_def HIL_FIXTURES_def)

lemma names_distinct:
  "distinct (TOOL_NAMES @ GIGA_TOOLS)" "distinct (WORKFLOW_NAMES @ GIGA_WORKFLOWS @ BRIDGE_WORKFLOWS)" "distinct ATOMIC_TOOLS"
  by (simp_all add: TOOL_NAMES_def SEGGER_TOOLS_def GIGA_TOOLS_def COMPILER_TOOLS_def WORKFLOW_NAMES_def GIGA_WORKFLOWS_def
      BRIDGE_WORKFLOWS_def ATOMIC_TOOLS_def)

definition serial_boards :: "board_capabilities list \<Rightarrow> bool" where
  "serial_boards boards = list_ex (\<lambda>b. bc_serial_port b \<noteq> None \<and> bc_serial_port b \<noteq> Some []) boards"

definition giga_tool_found :: "discovery_host \<Rightarrow> giga_config \<Rightarrow> string \<Rightarrow> bool" where
  "giga_tool_found h cfg name = (name \<in> available_tools (giga_extension_tools h cfg))"

lemma giga_available:
  assumes "capability_manifest h run reg = Inr m"
  shows "name \<in> fst ` set (filter (\<lambda>t. snd t = Available) (man_tools (core_manifest m) @ map (\<lambda>t. (ta_name t, ta_state t)) (giga_extension_tools h cfg)))
    \<longleftrightarrow> tool_listed m name \<or> giga_tool_found h cfg name"
  by (force simp: core_manifest_def tool_listed_available giga_tool_found_def available_tools_def)

lemma tools_apart:
  assumes "capability_manifest h run reg = Inr m"
  shows "tool_listed m name \<Longrightarrow> name \<in> set TOOL_NAMES" "giga_tool_found h cfg name \<Longrightarrow> name \<in> set GIGA_TOOLS"
proof -
  assume "tool_listed m name"
  then have "name \<in> set (map fst (man_tools (core_manifest m)))"
    by (force simp: tool_listed_def core_manifest_def)
  then show "name \<in> set TOOL_NAMES" by (simp only: core_names(1) [OF assms])
next
  assume "giga_tool_found h cfg name"
  then have "name \<in> set (map ta_name (giga_extension_tools h cfg))"
    by (auto simp: giga_tool_found_def available_tools_def)
  then show "name \<in> set GIGA_TOOLS" by (simp only: giga_tool_names)
qed

text \<open>The states the two extensions claim, from the tools and the boards.\<close>

definition claimed_states :: "discovery_host \<Rightarrow> giga_config \<Rightarrow> discovered_manifest \<Rightarrow> (string, capability_state) dict" where
  "claimed_states h cfg m =
     (let cli = giga_tool_found h cfg ''arduino-cli''; commander = tool_listed m ''JLinkExe'';
          gdb = tool_listed m ''JLinkGDBServerCLExe'' \<and> tool_listed m ''gdb-client'' in
      giga_workflow_states cli commander gdb (serial_boards (giga_boards (cm_boards m)))
      @ [(''protocol_bridge_release'', available_when cli),
         (''protocol_bridge_deploy'', available_when (commander \<and> serial_boards (cm_boards m))),
         (''protocol_bridge'', available_when (commander \<and> serial_boards (cm_boards m)))])"

lemma giga_claims:
  assumes "capability_manifest h run reg = Inr m"
  shows "con_workflows (giga_contribution h cfg (cm_boards m) (core_manifest m))
    = giga_workflow_states (giga_tool_found h cfg ''arduino-cli'') (tool_listed m ''JLinkExe'')
        (tool_listed m ''JLinkGDBServerCLExe'' \<and> tool_listed m ''gdb-client'') (serial_boards (giga_boards (cm_boards m)))"
proof -
  have "\<not> tool_listed m ''arduino-cli''" using tools_apart(1) [OF assms, of "''arduino-cli''"] by (auto simp: TOOL_NAMES_def SEGGER_TOOLS_def)
  moreover have "\<not> giga_tool_found h cfg ''JLinkExe''" "\<not> giga_tool_found h cfg ''JLinkGDBServerCLExe''" "\<not> giga_tool_found h cfg ''gdb-client''"
    using tools_apart(2) [OF assms, of cfg] by (auto simp: GIGA_TOOLS_def COMPILER_TOOLS_def)
  ultimately show ?thesis
    unfolding giga_contribution_def Let_def giga_available [OF assms] by (simp add: serial_boards_def)
qed

lemma core_base:
  assumes "capability_manifest h run reg = Inr m"
  shows "state_of (cm_workflows m @ rest) ''flash_verify'' = available_when (tool_listed m ''JLinkExe'')"
    "state_of (cm_workflows m @ rest) ''serial'' = available_when (serial_boards (cm_boards m))"
    "state_of (cm_workflows m @ giga_workflow_states x y z w) ''build_firmware'' = available_when x"
    "(available_when b = Available) = b"
  by (simp_all add: manifest_parts(5) [OF assms] core_workflow_states_def state_of_def tool_state_def tool_listed_available serial_boards_def
      giga_workflow_states_def available_when_def)

text \<open>The details of a contribution, over its states.\<close>

lemma detail_texts:
  "list_all (\<lambda>(name, reason). reason \<noteq> []) reasons
   \<Longrightarrow> list_all (\<lambda>(name, why). (why = []) = (state_of w name = Available)) (map (\<lambda>(name, reason). detail_text w name reason) reasons)"
  by (induction reasons) (auto simp: detail_text_def split: if_splits)

lemma details_of:
  "list_all (\<lambda>(name, why). (why = []) = (state_of (con_workflows (giga_contribution h cfg boards m)) name = Available))
     (con_workflow_details (giga_contribution h cfg boards m))"
  "list_all (\<lambda>(name, why). (why = []) = (state_of (con_workflows (bridge_contribution m)) name = Available)) (con_workflow_details (bridge_contribution m))"
proof -
  have giga: "con_workflow_details (giga_contribution h cfg boards m)
      = map (\<lambda>(name, reason). detail_text (con_workflows (giga_contribution h cfg boards m)) name reason) GIGA_REASONS"
    and bridge: "con_workflow_details (bridge_contribution m)
      = map (\<lambda>(name, reason). detail_text (con_workflows (bridge_contribution m)) name reason) BRIDGE_REASONS"
    by (simp_all add: giga_contribution_def bridge_contribution_def Let_def)
  show "list_all (\<lambda>(name, why). (why = []) = (state_of (con_workflows (giga_contribution h cfg boards m)) name = Available))
     (con_workflow_details (giga_contribution h cfg boards m))"
    unfolding giga by (rule detail_texts) (simp add: GIGA_REASONS_def)
  show "list_all (\<lambda>(name, why). (why = []) = (state_of (con_workflows (bridge_contribution m)) name = Available)) (con_workflow_details (bridge_contribution m))"
    unfolding bridge by (rule detail_texts) (simp add: BRIDGE_REASONS_def)
qed

lemma state_of_append: "state_of (a @ b) name = (if name \<in> fst ` set a then state_of a name else state_of b name)"
proof -
  have "dict_get (a @ b) name = (if name \<in> fst ` set a then dict_get a name else dict_get b name)"
    by (induction a) (auto split: if_splits)
  then show ?thesis by (simp add: state_of_def)
qed

lemma claim_details:
  "list_all (\<lambda>(name, why). (why = []) = (state_of (con_workflows (giga_contribution h cfg boards m) @ con_workflows (bridge_contribution m')) name = Available))
     (con_workflow_details (giga_contribution h cfg boards m) @ con_workflow_details (bridge_contribution m'))"
proof -
  let ?c = "giga_contribution h cfg boards m" and ?b = "bridge_contribution m'"
  have keys: "fst ` set (con_workflow_details ?c) = fst ` set (con_workflows ?c)" "fst ` set (con_workflow_details ?b) = fst ` set (con_workflows ?b)"
    "fst ` set (con_workflows ?c) = set GIGA_WORKFLOWS" "fst ` set (con_workflows ?b) = set BRIDGE_WORKFLOWS"
    using giga_names(2,3) [of h cfg boards m] bridge_names(2,3) [of m'] by (metis set_map)+
  have apart: "set GIGA_WORKFLOWS \<inter> set BRIDGE_WORKFLOWS = {}" using names_distinct(2) by auto
  have "(why = []) = (state_of (con_workflows ?c @ con_workflows ?b) name = Available)" if "(name, why) \<in> set (con_workflow_details ?c)" for name why
  proof -
    have "name \<in> fst ` set (con_workflows ?c)" using that keys(1) by force
    then show ?thesis using details_of(1) [of h cfg boards m] that keys(1) by (auto simp: state_of_append list_all_iff)
  qed
  moreover have "(why = []) = (state_of (con_workflows ?c @ con_workflows ?b) name = Available)" if "(name, why) \<in> set (con_workflow_details ?b)" for name why
  proof -
    have "name \<in> set BRIDGE_WORKFLOWS" using that keys(2,4) by force
    then have "name \<notin> fst ` set (con_workflows ?c)" using apart keys(3) by auto
    then show ?thesis using details_of(2) [of m'] that by (auto simp: state_of_append list_all_iff)
  qed
  ultimately show ?thesis by (auto simp: list_all_iff)
qed

lemma first_party_merge:
  assumes found: "capability_manifest h run reg = Inr m"
  shows "(case merge_capabilities (first_party_contribution h cfg m) (r \<lparr> capability_providers := first_party_providers \<rparr>) (core_manifest m) of
          Inl e \<Rightarrow> False
        | Inr m' \<Rightarrow>
            man_workflows m' = cm_workflows m @ claimed_states h cfg m
            \<and> distinct (map fst (man_workflows m')) \<and> distinct (map fst (man_tools m')) \<and> distinct (man_atomic_tools m')
            \<and> map fst (man_workflow_details m') = map fst (man_workflows m')
            \<and> list_all (\<lambda>(name, why). (why = []) = (state_of (claimed_states h cfg m) name = Available))
                (drop (length (cm_workflows m)) (man_workflow_details m'))
            \<and> man_extensions m' = extension_infos r)"
proof -
  note names = core_names [OF found]
  define c where "c = giga_contribution h cfg (cm_boards m) (core_manifest m)"
  define m1 where "m1 = (core_manifest m) \<lparr> man_tools := man_tools (core_manifest m) @ con_tools c,
     man_workflows := man_workflows (core_manifest m) @ con_workflows c,
     man_workflow_details := man_workflow_details (core_manifest m) @ con_workflow_details c, man_features := man_features (core_manifest m) @ con_features c,
     man_limitations := man_limitations (core_manifest m) @ con_limitations c, man_raw_surfaces := man_raw_surfaces (core_manifest m) @ con_raw_surfaces c,
     man_atomic_tools := man_atomic_tools (core_manifest m) @ con_atomic_tools c \<rparr>"
  define b where "b = bridge_contribution m1"
  have giga: "merge_contribution c (core_manifest m) = Inr m1"
    unfolding m1_def
  proof (rule merge_contribution_fits)
    show "distinct (map fst (man_tools (core_manifest m) @ con_tools c))" using names_distinct(1) by (simp add: names c_def giga_names)
    show "distinct (map fst (man_workflows (core_manifest m) @ con_workflows c))"
      "distinct (map fst (man_workflow_details (core_manifest m) @ con_workflow_details c))"
      using names_distinct(2) by (auto simp: names c_def giga_names)
    show "distinct (map fst (man_features (core_manifest m) @ con_features c))" by (simp add: names c_def giga_names)
    show "distinct (man_atomic_tools (core_manifest m) @ con_atomic_tools c)" using names_distinct(3) by (simp add: names c_def giga_names)
  qed
  have workflows: "man_workflows m1 = cm_workflows m @ giga_workflow_states (giga_tool_found h cfg ''arduino-cli'') (tool_listed m ''JLinkExe'')
        (tool_listed m ''JLinkGDBServerCLExe'' \<and> tool_listed m ''gdb-client'') (serial_boards (giga_boards (cm_boards m)))"
    by (simp add: m1_def c_def giga_claims [OF found] core_workflows)
  have claims: "con_workflows c @ con_workflows b = claimed_states h cfg m"
    by (simp add: b_def bridge_contribution_def Let_def workflows core_base [OF found] c_def giga_claims [OF found] claimed_states_def)
  have fst_m1: "map fst (man_tools m1) = TOOL_NAMES @ GIGA_TOOLS" "map fst (man_workflows m1) = WORKFLOW_NAMES @ GIGA_WORKFLOWS"
    "map fst (man_workflow_details m1) = WORKFLOW_NAMES @ GIGA_WORKFLOWS" "man_features m1 = man_features (core_manifest m)"
    "man_atomic_tools m1 = ATOMIC_TOOLS"
    by (simp_all add: m1_def names c_def giga_names)
  have apart: "distinct (map fst (man_tools m1 @ con_tools b))" "distinct (map fst (man_workflows m1 @ con_workflows b))"
    "distinct (map fst (man_workflow_details m1 @ con_workflow_details b))" "distinct (map fst (man_features m1 @ con_features b))"
    "distinct (man_atomic_tools m1 @ con_atomic_tools b)"
  proof -
    show "distinct (map fst (man_tools m1 @ con_tools b))" using names_distinct(1) by (simp add: fst_m1 b_def bridge_names)
    show "distinct (map fst (man_workflows m1 @ con_workflows b))" "distinct (map fst (man_workflow_details m1 @ con_workflow_details b))"
      using names_distinct(2) by (simp_all add: fst_m1 b_def bridge_names)
    show "distinct (map fst (man_features m1 @ con_features b))" by (simp add: fst_m1 names b_def bridge_names HIL_FIXTURES_def)
    show "distinct (man_atomic_tools m1 @ con_atomic_tools b)" by (simp add: fst_m1 b_def bridge_names ATOMIC_TOOLS_def)
  qed
  note bridge = merge_contribution_fits [OF apart]
  have core: "merge_atomic [] (man_atomic_tools (core_manifest m)) = Inr (man_atomic_tools (core_manifest m))"
    using names_distinct(3) by (simp add: merge_atomic_Inr names)
  have details: "list_all (\<lambda>(name, why). (why = []) = (state_of (claimed_states h cfg m) name = Available)) (con_workflow_details c @ con_workflow_details b)"
    unfolding claims [symmetric] unfolding c_def b_def by (rule claim_details)
  have merged: "merge_capabilities (first_party_contribution h cfg m) (r \<lparr> capability_providers := first_party_providers \<rparr>) (core_manifest m)
    = Inr (m1 \<lparr> man_tools := man_tools m1 @ con_tools b, man_workflows := man_workflows m1 @ con_workflows b,
        man_workflow_details := man_workflow_details m1 @ con_workflow_details b, man_features := man_features m1 @ con_features b,
        man_limitations := man_limitations m1 @ con_limitations b, man_raw_surfaces := man_raw_surfaces m1 @ con_raw_surfaces b,
        man_atomic_tools := man_atomic_tools m1 @ con_atomic_tools b, man_extensions := extension_infos r \<rparr>)"
    by (simp add: merge_capabilities_def core first_party_providers_def first_party_contribution_def rcatch_def rbind_def giga bridge
        c_def [symmetric] b_def [symmetric])
  have "map fst (man_workflow_details m1 @ con_workflow_details b) = map fst (man_workflows m1 @ con_workflows b)"
    by (simp add: fst_m1 b_def bridge_names)
  moreover have "drop (length (cm_workflows m)) (man_workflow_details m1 @ con_workflow_details b) = con_workflow_details c @ con_workflow_details b"
  proof -
    have "length (man_workflow_details (core_manifest m)) = length (cm_workflows m)"
      using arg_cong [OF names(2), of length] arg_cong [OF names(3), of length] by (simp add: core_workflows)
    then show ?thesis by (simp add: m1_def)
  qed
  moreover have "man_workflows m1 @ con_workflows b = cm_workflows m @ claimed_states h cfg m"
    using claims by (simp add: m1_def core_workflows)
  ultimately show ?thesis using apart details unfolding merged sum.case by simp
qed

text \<open>The two first-party extensions fit the core and each other. On every host their contributions merge without a clash of names,
  the merged workflows are the core's followed by exactly the states the tools and the boards justify (a bridge exchange needs Commander
  and a board with a serial port, the bridge release the Arduino CLI, the complete regression all four), every workflow has one detail,
  and a detail of an extension gives a reason just when its workflow is not available.\<close>

theorem first_party_capabilities:
  "case capability_manifest h run reg of
     Inl e \<Rightarrow> True
   | Inr m \<Rightarrow>
       (case merge_capabilities (first_party_contribution h cfg m) (r \<lparr> capability_providers := first_party_providers \<rparr>) (core_manifest m) of
          Inl e \<Rightarrow> False
        | Inr m' \<Rightarrow>
            man_workflows m' = cm_workflows m @ claimed_states h cfg m
            \<and> distinct (map fst (man_workflows m')) \<and> distinct (map fst (man_tools m')) \<and> distinct (man_atomic_tools m')
            \<and> map fst (man_workflow_details m') = map fst (man_workflows m')
            \<and> list_all (\<lambda>(name, why). (why = []) = (state_of (claimed_states h cfg m) name = Available))
                (drop (length (cm_workflows m)) (man_workflow_details m'))
            \<and> man_extensions m' = extension_infos r)"
  using first_party_merge [of h run reg _ cfg r] by (cases "capability_manifest h run reg") (simp_all only: sum.case)

lemma add_checks_fits:
  "distinct (map check_name cs) \<Longrightarrow> check_name ` set cs \<inter> names = {} \<Longrightarrow> add_checks names checks cs = Inr (names \<union> check_name ` set cs, checks @ cs)"
  by (induction names checks cs rule: add_checks.induct) auto

definition readable :: "store_env \<Rightarrow> operation_row list \<Rightarrow> bool" where
  "readable env rows = list_all (\<lambda>row. json_loads env (row_payload_json row) \<noteq> None) rows"

lemma readable_rows:
  "(observations env rows obs = None) = (\<not> readable env rows)"
  "(giga_identities env rows seen = None) = (\<not> readable env rows)"
  "(probe_evidence env rows evidence = None) = (\<not> readable env rows)"
proof -
  show "(observations env rows obs = None) = (\<not> readable env rows)"
    by (induction env rows obs rule: observations.induct) (auto simp: readable_def row_probe_def split: option.splits)
  show "(giga_identities env rows seen = None) = (\<not> readable env rows)"
    by (induction env rows seen rule: giga_identities.induct) (auto simp: readable_def row_target_def split: option.splits)
  show "(probe_evidence env rows evidence = None) = (\<not> readable env rows)"
    by (induction env rows evidence rule: probe_evidence.induct) (auto simp: readable_def row_probe_def split: option.splits)
qed

definition CORE_CHECKS :: "string list" where
  "CORE_CHECKS = [''linux'', ''x86_64'', ''cgroup-v2'', ''docker-engine'', ''docker-compose'', ''bearer-token'', ''segger-root'', ''jlink-commander'',
     ''segger-version-9.62'', ''jlink-gdb-server'', ''gdb-client'', ''workspace'', ''state'', ''jlink-attached'', ''unique-probe'', ''plugdev-group'',
     ''group-device-modes'', ''xvfb'', ''xdotool'']"

definition RUNTIME_CHECKS :: "string list" where
  "RUNTIME_CHECKS = [''probe-licenses'', ''container-non-root'', ''container-capabilities-dropped'']"

definition GIGA_CHECKS :: "string list" where
  "GIGA_CHECKS = GIGA_TOOLS @ [''arduino-core-4.6.0'', ''giga-svd-m7'', ''giga-svd-m4'', ''giga-bootloader'', ''giga-attached'', ''unique-pair'',
     ''dialout-group'', ''target-m7-identity'', ''target-m4-identity'', ''target-voltage'']"

definition BRIDGE_CHECKS :: "string list" where
  "BRIDGE_CHECKS = [''arduino-library-arduino_usbhostmbed5-0.3.1'', ''arduino-library-arduinoble-2.1.0'', ''arduino-library-arduino_spinina-0.0.2'',
     ''protocol-bridge-release'']"

lemma check_names:
  "map check_name (core_checks d m token) = CORE_CHECKS" "map check_name (runtime_checks d status evidence) = RUNTIME_CHECKS"
  "map check_name (giga_checks d cfg m seen) = GIGA_CHECKS" "map check_name (bridge_checks we fs user_root fw_root) = BRIDGE_CHECKS"
  by (simp_all add: core_checks_def runtime_checks_def giga_checks_def bridge_checks_def identity_check_def required_check_def CORE_CHECKS_def
      RUNTIME_CHECKS_def GIGA_CHECKS_def BRIDGE_CHECKS_def GIGA_TOOLS_def COMPILER_TOOLS_def LIBRARIES_def GIGA_R1_def M7_def M4_def Let_def)

lemma check_names_distinct: "distinct ((CORE_CHECKS @ RUNTIME_CHECKS) @ GIGA_CHECKS @ BRIDGE_CHECKS)"
  by (simp add: CORE_CHECKS_def RUNTIME_CHECKS_def GIGA_CHECKS_def BRIDGE_CHECKS_def GIGA_TOOLS_def COMPILER_TOOLS_def)

lemma first_party_dependencies:
  assumes "map check_name existing = CORE_CHECKS @ RUNTIME_CHECKS" "giga_identities env rows [] = Some seen"
  shows "dependency_checks (first_party_checks d cfg env rows we fs user_root fw_root m) (r \<lparr> dependency_providers := first_party_providers \<rparr>) merged existing
    = Inr (giga_checks d cfg m seen @ bridge_checks we fs user_root fw_root)"
proof -
  have names: "check_name ` set existing = set (CORE_CHECKS @ RUNTIME_CHECKS)" "check_name ` set (giga_checks d cfg m seen) = set GIGA_CHECKS"
    "check_name ` set (bridge_checks we fs user_root fw_root) = set BRIDGE_CHECKS"
    using assms(1) check_names(3,4) by (metis set_map)+
  have "add_checks {} [] existing = Inr (check_name ` set existing, existing)"
    using add_checks_fits [of existing "{}" "[]"] check_names_distinct by (auto simp: assms(1))
  moreover have "add_checks (check_name ` set existing) [] (giga_checks d cfg m seen)
      = Inr (check_name ` set existing \<union> set GIGA_CHECKS, giga_checks d cfg m seen)"
    by (subst add_checks_fits) (use check_names_distinct names in \<open>auto simp: check_names\<close>)
  moreover have "add_checks (check_name ` set existing \<union> set GIGA_CHECKS) (giga_checks d cfg m seen) (bridge_checks we fs user_root fw_root)
      = Inr (check_name ` set existing \<union> set GIGA_CHECKS \<union> set BRIDGE_CHECKS, giga_checks d cfg m seen @ bridge_checks we fs user_root fw_root)"
    by (subst add_checks_fits) (use check_names_distinct names in \<open>auto simp: check_names\<close>)
  ultimately show ?thesis
    by (simp add: dependency_checks_def first_party_providers_def first_party_checks_def assms(2) rcatch_def rbind_def)
qed

definition observed_cpuid :: "(string, json_object) dict \<Rightarrow> string \<Rightarrow> int" where
  "observed_cpuid seen core = parsed_number (case dict_get seen core of None \<Rightarrow> [] | Some d \<Rightarrow> d) ''cpuid''"

definition giga_ready :: "doctor_host \<Rightarrow> giga_config \<Rightarrow> discovered_manifest \<Rightarrow> (string, json_object) dict \<Rightarrow> bool" where
  "giga_ready d cfg m seen =
     (list_all (tool_ok (tool_map (giga_extension_tools (dr_discovery d) cfg))) GIGA_TOOLS
      \<and> list_all (\<lambda>parts. dh_is_file (dr_discovery d) (subpath (gc_data_root cfg) ([''packages'', ''arduino'', ''hardware'', ''mbed_giga'', ''4.6.0''] @ parts)))
          [[''platform.txt''], [''svd'', ''STM32H747_CM7.svd''], [''svd'', ''STM32H747_CM4.svd''], [''bootloaders'', ''GIGA'', ''bootloader.hex'']]
      \<and> length (giga_boards (cm_boards m)) = 1 \<and> length (cm_probes m) = 1
      \<and> (''dialout'' \<in> set (current_groups (dr_discovery d)) \<or> dr_euid d = 0)
      \<and> observed_cpuid seen M7 = 0x411FC271 \<and> observed_cpuid seen M4 = 0x410FC241 \<and> voltages_ok seen)"

definition bridge_ready :: "workflow_env \<Rightarrow> files \<Rightarrow> string list \<Rightarrow> string list \<Rightarrow> bool" where
  "bridge_ready we fs user_root fw_root =
     (map (library_version we fs user_root) [''Arduino_USBHostMbed5'', ''ArduinoBLE'', ''Arduino_SpiNINA''] = map Some [''0.3.1'', ''2.1.0'', ''0.0.2'']
      \<and> release_authorized we fs fw_root)"

lemma report_ok_required: "dependency_report_ok (required_check name ok # checks) = (ok \<and> dependency_report_ok checks)"
  by (simp add: dependency_report_ok_def required_check_def)

lemma report_ok_append: "dependency_report_ok (a @ b) = (dependency_report_ok a \<and> dependency_report_ok b)"
  by (simp add: dependency_report_ok_def)

lemma report_ok_Nil: "dependency_report_ok []"
  by (simp add: dependency_report_ok_def)

lemmas verdict_simps = report_ok_required report_ok_append report_ok_Nil

lemma bridge_verdict: "dependency_report_ok (bridge_checks we fs user_root fw_root) = bridge_ready we fs user_root fw_root"
  by (simp add: bridge_checks_def bridge_ready_def LIBRARIES_def verdict_simps)

lemma giga_verdict: "dependency_report_ok (giga_checks d cfg m seen) = giga_ready d cfg m seen"
proof -
  have "length (giga_boards (cm_boards m)) = 1 \<Longrightarrow> giga_boards (cm_boards m) \<noteq> []" by auto
  then show ?thesis
    by (auto simp: giga_checks_def giga_ready_def verdict_simps Let_def GIGA_TOOLS_def COMPILER_TOOLS_def identity_check_def observed_cpuid_def GIGA_R1_def)
qed

lemma doctor_verdict:
  "case service_doctor d run (first_party_contribution (dr_discovery d) cfg) (first_party_checks d cfg env rows we fs user_root fw_root)
     (r \<lparr> capability_providers := first_party_providers, dependency_providers := first_party_providers \<rparr>) env rows status of
     Inl e \<Rightarrow> (case e of DiscoveryRefused x \<Rightarrow> dependency_report d run (targets r) = Inl x | PayloadUnreadable \<Rightarrow> \<not> readable env rows
                | MergeRefused x \<Rightarrow> False | ChecksRefused x \<Rightarrow> False)
   | Inr (checks, merged) \<Rightarrow>
       distinct (map check_name checks) \<and> distinct (map fst (man_workflows merged))
       \<and> (case (dependency_report d run (targets r), giga_identities env rows [], probe_evidence env rows (JObj [])) of
            (Inr (core, m), Some seen, Some evidence) \<Rightarrow>
              man_workflows merged = cm_workflows m @ claimed_states (dr_discovery d) cfg m
              \<and> dependency_report_ok checks =
                  (dependency_report_ok core \<and> giga_ready d cfg m seen \<and> bridge_ready we fs user_root fw_root
                   \<and> json_truthy (object_get evidence ''licenses'') \<and> dr_euid d \<noteq> 0 \<and> effective_capabilities status = 0)
          | _ \<Rightarrow> False)"
proof (cases "dependency_report d run (targets r)")
  case (Inl e)
  then show ?thesis by (simp add: service_doctor_def rcatch_def rbind_def)
next
  case (Inr report)
  obtain core m where report: "report = (core, m)" by (cases report)
  have found: "capability_manifest (dr_discovery d) run (targets r) = Inr m"
    and core: "\<exists>token. core = core_checks d m token"
    using Inr report by (auto simp: dependency_report_def rbind_eq_Inr rcatch_eq_Inr)
  let ?reg = "r \<lparr> capability_providers := first_party_providers, dependency_providers := first_party_providers \<rparr>"
  let ?fill = "first_party_contribution (dr_discovery d) cfg m"
  have fits: "case merge_capabilities ?fill ?reg (core_manifest m) of
      Inl e \<Rightarrow> False | Inr m' \<Rightarrow> man_workflows m' = cm_workflows m @ claimed_states (dr_discovery d) cfg m \<and> distinct (map fst (man_workflows m'))"
  proof -
    have same: "?reg = r \<lparr> dependency_providers := first_party_providers, capability_providers := first_party_providers \<rparr>" by simp
    show ?thesis
      unfolding same using first_party_merge [OF found, of cfg "r \<lparr> dependency_providers := first_party_providers \<rparr>"]
      by (auto split: sum.splits simp del: map_append distinct_append)
  qed
  show ?thesis
  proof (cases "readable env rows")
    case False
    then show ?thesis using Inr report readable_rows(1) by (simp add: service_doctor_def rcatch_def rbind_def)
  next
    case True
    then obtain seen evidence where seen: "giga_identities env rows [] = Some seen" and evidence: "probe_evidence env rows (JObj []) = Some evidence"
      using readable_rows(2) [of env rows "[]"] readable_rows(3) [of env rows "JObj []"] by auto
    obtain merged where merged: "merge_capabilities ?fill ?reg (core_manifest m) = Inr merged"
      using fits by (cases "merge_capabilities ?fill ?reg (core_manifest m)") auto
    obtain token where token: "core = core_checks d m token" using core ..
    let ?runtime = "runtime_checks d status evidence"
    have checks: "dependency_checks (first_party_checks d cfg env rows we fs user_root fw_root m) ?reg merged (core @ ?runtime)
        = Inr (giga_checks d cfg m seen @ bridge_checks we fs user_root fw_root)"
      using first_party_dependencies [OF _ seen, of "core @ ?runtime" d cfg we fs user_root fw_root m "r \<lparr> capability_providers := first_party_providers \<rparr>" merged]
      by (simp add: token check_names)
    have run: "service_doctor d run (first_party_contribution (dr_discovery d) cfg) (first_party_checks d cfg env rows we fs user_root fw_root) ?reg env rows status
        = Inr (core @ (giga_checks d cfg m seen @ bridge_checks we fs user_root fw_root) @ ?runtime, merged)"
      using Inr report True readable_rows(1) [of env rows "[]"] by (simp add: service_doctor_def rcatch_def rbind_def merged evidence checks)
    have "distinct (map check_name (core @ (giga_checks d cfg m seen @ bridge_checks we fs user_root fw_root) @ ?runtime))"
      using check_names_distinct by (auto simp: token check_names)
    moreover have "dependency_report_ok ?runtime
        = (json_truthy (object_get evidence ''licenses'') \<and> dr_euid d \<noteq> 0 \<and> effective_capabilities status = 0)"
      by (simp add: runtime_checks_def verdict_simps)
    moreover have "distinct (map fst (man_workflows merged))" "man_workflows merged = cm_workflows m @ claimed_states (dr_discovery d) cfg m"
      using conjunct2 [OF fits [unfolded merged sum.case]] conjunct1 [OF fits [unfolded merged sum.case]] .
    ultimately show ?thesis
      unfolding run by (simp add: Inr report seen evidence verdict_simps giga_verdict bridge_verdict conj_ac del: map_append distinct_append)
  qed
qed

lemma doctor_accepts:
  "case service_doctor d run (first_party_contribution (dr_discovery d) cfg) (first_party_checks d cfg env rows we fs user_root fw_root)
     (r \<lparr> capability_providers := first_party_providers, dependency_providers := first_party_providers \<rparr>) env rows status of
     Inl e \<Rightarrow> (case e of DiscoveryRefused x \<Rightarrow> dependency_report d run (targets r) = Inl x | PayloadUnreadable \<Rightarrow> \<not> readable env rows
                | MergeRefused x \<Rightarrow> False | ChecksRefused x \<Rightarrow> False)
   | Inr (checks, merged) \<Rightarrow> distinct (map check_name checks) \<and> distinct (map fst (man_workflows merged))"
  (is "case ?doctor of Inl e \<Rightarrow> ?bad e | Inr x \<Rightarrow> ?good x")
proof (cases ?doctor)
  case (Inl e)
  then show ?thesis using doctor_verdict [where d = d and run = run and cfg = cfg and env = env and rows = rows and we = we and fs = fs and user_root = user_root and fw_root = fw_root
      and r = r and status = status] by simp
next
  case (Inr x)
  then show ?thesis using doctor_verdict [where d = d and run = run and cfg = cfg and env = env and rows = rows and we = we and fs = fs and user_root = user_root and fw_root = fw_root
      and r = r and status = status] by (cases x) simp
qed

text \<open>C38: The service's doctor is exact with the two first-party extensions. It fails only when discovery does or an audit entry is
  unreadable, never over the names of the checks; the names of a report are pairwise different; and the report is good exactly when the
  core's checks are, the GIGA stack, its one board, one probe and both observed cores are as pinned, the bridge's libraries and its
  release are, the user is not root, the capabilities are dropped and the licenses were observed.\<close>

theorem first_party_doctor:
  "case service_doctor d run (first_party_contribution (dr_discovery d) cfg) (first_party_checks d cfg env rows we fs user_root fw_root)
     (r \<lparr> capability_providers := first_party_providers, dependency_providers := first_party_providers \<rparr>) env rows status of
     Inl e \<Rightarrow> (case e of DiscoveryRefused x \<Rightarrow> dependency_report d run (targets r) = Inl x | PayloadUnreadable \<Rightarrow> \<not> readable env rows
                | MergeRefused x \<Rightarrow> False | ChecksRefused x \<Rightarrow> False)
   | Inr (checks, merged) \<Rightarrow>
       distinct (map check_name checks)
       \<and> (case (dependency_report d run (targets r), giga_identities env rows [], probe_evidence env rows (JObj [])) of
            (Inr (core, m), Some seen, Some evidence) \<Rightarrow>
              man_workflows merged = cm_workflows m @ claimed_states (dr_discovery d) cfg m
              \<and> dependency_report_ok checks =
                  (dependency_report_ok core \<and> giga_ready d cfg m seen \<and> bridge_ready we fs user_root fw_root
                   \<and> json_truthy (object_get evidence ''licenses'') \<and> dr_euid d \<noteq> 0 \<and> effective_capabilities status = 0)
          | _ \<Rightarrow> False)"
  using doctor_verdict [where d = d and run = run and cfg = cfg and env = env and rows = rows and we = we and fs = fs and user_root = user_root and fw_root = fw_root
      and r = r and status = status] by (auto split: sum.splits report_error.splits)

end
