(* ===== verification/Startup.thy ===== *)
theory Startup
  imports Extension_Reports
begin

text \<open>
  The start of the server with the two first-party extensions: the names \<^verbatim>\<open>server.py\<close> reserves for the core, what
  \<^verbatim>\<open>arduino_giga\<close> and \<^verbatim>\<open>giga_protocol_bridge\<close> register, in their order, and the validation by the service's doctor before the
  extensions stay. A tool's function is a handle; its body is the workflow or service operation of the same name.
\<close>

subsection \<open>The core's names\<close>

definition CORE_RESOURCE_URIS :: "string list" where
  "CORE_RESOURCE_URIS = [''jlink://capabilities'', ''jlink://audit/recent'', ''jlink://sessions'']"

definition CORE_TOOL_NAMES :: "string list" where
  "CORE_TOOL_NAMES =
    [''get_capabilities'', ''dependency_doctor'', ''list_jlink_probes'', ''connect_target'', ''disconnect_target'', ''get_probe_information'',
     ''reset_target'', ''halt_target'', ''run_target'', ''step_target'', ''read_memory'', ''write_memory'', ''read_register'', ''write_register'',
     ''set_breakpoint'', ''clear_breakpoint'', ''set_watchpoint'', ''clear_watchpoint'', ''erase_flash'', ''verify_binary'', ''raw_commander'',
     ''raw_jlink_command_string'', ''run_segger_application'', ''serial_exchange'', ''capture_serial'', ''swo_control'', ''start_gdb_session'',
     ''gdb_command'', ''capture_gdb_channel'', ''exchange_gdb_channel'', ''stop_gdb_session'', ''inspect_elf'', ''flash_and_verify'',
     ''flash_binary'', ''backup_flash'', ''compare_firmware'', ''compare_backup_region'', ''capture_rtt'', ''restore_flash_backup'',
     ''generate_validation_report'', ''launch_segger_gui'', ''gui_keys'', ''gui_click'', ''gui_screenshot'', ''gui_ocr'',
     ''gui_accessibility_tree'', ''gui_session_info'', ''gui_image_match'', ''stop_segger_gui'', ''recent_audit_operations'', ''verify_audit_chain'']"

text \<open>The registry when the extensions are loaded: the core's tools and resources are registered already.\<close>

definition core_registry :: registry where
  "core_registry = \<lparr> targets = empty_targets, extension_infos = [], tool_names = set CORE_TOOL_NAMES, resource_uris = set CORE_RESOURCE_URIS,
     capability_providers = [], dependency_providers = [], services = [], mcp_tools = map (\<lambda>name. (name, 0)) CORE_TOOL_NAMES,
     mcp_resources = map (\<lambda>uri. (uri, 0)) CORE_RESOURCE_URIS \<rparr>"

subsection \<open>What the extensions register\<close>

definition GIGA_TOOL_NAMES :: "string list" where
  "GIGA_TOOL_NAMES = [''build_giga_firmware'', ''validate_giga_fixture'', ''hardware_preflight'', ''prepare_giga_dual_core_debug'',
     ''deploy_dual_core_firmware'', ''boot_and_observe'', ''assert_debug_fixture'', ''capture_controlled_crash'']"

definition giga_registrations :: "registration list" where
  "giga_registrations = [RegisterProfile GIGA_R1, RegisterDetector ''usb'' 0, RegisterCapability 0, RegisterDependency 0,
     PublishService ''workflows'' 0, PublishService ''config'' 1, PublishService ''profile'' 2] @ map (\<lambda>name. RegisterTool name 1) GIGA_TOOL_NAMES"

definition BRIDGE_TOOL_NAMES :: "string list" where
  "BRIDGE_TOOL_NAMES = [''deploy_protocol_bridge'', ''get_protocol_bridge_status'', ''protocol_bridge_control'', ''protocol_bridge_exchange'',
     ''protocol_bridge_receive'', ''build_protocol_bridge_release'']"

definition bridge_registrations :: "registration list" where
  "bridge_registrations = [RegisterCapability 1, RegisterDependency 1, PublishService ''bridge'' 3, PublishService ''workflows'' 4,
     RegisterResource ''jlink://extensions/giga_protocol_bridge/protocols'' 2] @ map (\<lambda>name. RegisterTool name 2) BRIDGE_TOOL_NAMES"

definition giga_context :: extension_context where
  "giga_context = \<lparr> ctx_extension_id = ''arduino_giga'', ctx_dependencies = {}, ctx_rollback = [] \<rparr>"

definition bridge_context :: extension_context where
  "bridge_context = \<lparr> ctx_extension_id = ''giga_protocol_bridge'', ctx_dependencies = {''arduino_giga''}, ctx_rollback = [] \<rparr>"

text \<open>The bridge first asks for the GIGA extension's services.\<close>

definition bridge_register :: "(string \<Rightarrow> bool) \<Rightarrow> registry \<Rightarrow> extension_error option \<times> extension_context \<times> registry" where
  "bridge_register rejects reg =
     (case rbind (require_extension_service bridge_context ''arduino_giga'' ''workflows'' reg) (\<lambda>_.
           rbind (require_extension_service bridge_context ''arduino_giga'' ''config'' reg) (\<lambda>_.
           require_extension_service bridge_context ''arduino_giga'' ''profile'' reg)) of
        Inl e \<Rightarrow> (Some e, bridge_context, reg)
      | Inr _ \<Rightarrow> run_registrations rejects bridge_context bridge_registrations reg)"

definition first_party_start :: "(string \<Rightarrow> bool) \<Rightarrow> registry \<Rightarrow> extension_error option \<times> registry" where
  "first_party_start rejects reg =
     (case run_registrations rejects giga_context giga_registrations reg of
        (Some e, ctx, reg1) \<Rightarrow> (Some e, reg1)
      | (None, ctx, reg1) \<Rightarrow> (case bridge_register rejects reg1 of (e, ctx', reg2) \<Rightarrow> (e, reg2)))"

subsection \<open>The start\<close>

text \<open>New, pairwise different tool names are registered one after another.\<close>

lemma tools_registered:
  "distinct names \<Longrightarrow> set names \<inter> tool_names reg = {} \<Longrightarrow> set names \<inter> fst ` set (mcp_tools reg) = {} \<Longrightarrow>
   run_registrations (\<lambda>name. False) ctx (map (\<lambda>name. RegisterTool name f) names) reg =
     (None, ctx \<lparr> ctx_rollback := ctx_rollback ctx @ map RemoveTool names \<rparr>,
      reg \<lparr> tool_names := tool_names reg \<union> set names, mcp_tools := mcp_tools reg @ map (\<lambda>name. (name, f)) names \<rparr>)"
proof (induction names arbitrary: ctx reg)
  case (Cons name names)
  have new: "\<not> dict_has (mcp_tools reg) name" using Cons.prems(3) by auto
  show ?case
    using Cons.prems by (simp add: run_registration_def register_tool_def Let_def dict_set_new [OF new] Cons.IH)
qed simp

lemma core_tool_names: "tool_names core_registry = set CORE_TOOL_NAMES" "map fst (mcp_tools core_registry) = CORE_TOOL_NAMES"
  by (simp_all add: core_registry_def comp_def)

lemma tool_names_distinct: "distinct (CORE_TOOL_NAMES @ GIGA_TOOL_NAMES @ BRIDGE_TOOL_NAMES)"
  by (simp add: CORE_TOOL_NAMES_def GIGA_TOOL_NAMES_def BRIDGE_TOOL_NAMES_def)

text \<open>The registry after both extensions.\<close>

definition giga_targets :: target_registry where
  "giga_targets = \<lparr> reg_profiles = [(profile_id GIGA_R1, GIGA_R1)], reg_detectors = [(''arduino_giga:usb'', 0)] \<rparr>"

definition with_giga :: registry where
  "with_giga = core_registry \<lparr> targets := giga_targets, capability_providers := [(''arduino_giga'', 0)], dependency_providers := [(''arduino_giga'', 0)],
     services := [((''arduino_giga'', ''workflows''), 0), ((''arduino_giga'', ''config''), 1), ((''arduino_giga'', ''profile''), 2)],
     tool_names := set CORE_TOOL_NAMES \<union> set GIGA_TOOL_NAMES,
     mcp_tools := map (\<lambda>name. (name, 0)) CORE_TOOL_NAMES @ map (\<lambda>name. (name, 1)) GIGA_TOOL_NAMES \<rparr>"

definition with_both :: registry where
  "with_both = with_giga \<lparr> capability_providers := first_party_providers, dependency_providers := first_party_providers,
     services := services with_giga @ [((''giga_protocol_bridge'', ''bridge''), 3), ((''giga_protocol_bridge'', ''workflows''), 4)],
     resource_uris := insert ''jlink://extensions/giga_protocol_bridge/protocols'' (set CORE_RESOURCE_URIS),
     mcp_resources := mcp_resources core_registry @ [(''jlink://extensions/giga_protocol_bridge/protocols'', 2)],
     tool_names := tool_names with_giga \<union> set BRIDGE_TOOL_NAMES,
     mcp_tools := mcp_tools with_giga @ map (\<lambda>name. (name, 2)) BRIDGE_TOOL_NAMES \<rparr>"

lemma giga_registered: "\<exists>ctx. run_registrations (\<lambda>name. False) giga_context giga_registrations core_registry = (None, ctx, with_giga)"
proof -
  have "set GIGA_TOOL_NAMES \<inter> set CORE_TOOL_NAMES = {}" "distinct GIGA_TOOL_NAMES" using tool_names_distinct by auto
  then show ?thesis
    by (simp add: giga_registrations_def run_registration_def register_target_profile_def register_profile_def register_detector_def
        register_board_detector_def register_capability_provider_def register_dependency_provider_def publish_service_def giga_context_def
        core_registry_def empty_targets_def with_giga_def giga_targets_def tools_registered image_image comp_def Let_def)
qed

lemma bridge_registered: "\<exists>ctx. bridge_register (\<lambda>name. False) with_giga = (None, ctx, with_both)"
proof -
  have "set BRIDGE_TOOL_NAMES \<inter> (set CORE_TOOL_NAMES \<union> set GIGA_TOOL_NAMES) = {}" "distinct BRIDGE_TOOL_NAMES" using tool_names_distinct by auto
  then show ?thesis
    by (simp add: bridge_register_def bridge_registrations_def run_registration_def register_resource_def register_capability_provider_def
        register_dependency_provider_def publish_service_def require_extension_service_def bridge_context_def rbind_def
        core_registry_def CORE_RESOURCE_URIS_def with_giga_def with_both_def first_party_providers_def tools_registered image_Un image_image comp_def Let_def)
qed

lemma started: "first_party_start (\<lambda>name. False) core_registry = (None, with_both)"
  using giga_registered bridge_registered by (auto simp: first_party_start_def)

lemma atomic_tools_registered: "set ATOMIC_TOOLS \<subseteq> set CORE_TOOL_NAMES" "set (con_atomic_tools (bridge_contribution m)) \<subseteq> set BRIDGE_TOOL_NAMES"
  by (simp_all add: ATOMIC_TOOLS_def CORE_TOOL_NAMES_def bridge_names BRIDGE_TOOL_NAMES_def)

text \<open>C37: The server starts with both first-party extensions. On the registry of the core every registration succeeds, the tools are the
  core's followed by the extensions', with pairwise different names that are exactly the reserved ones, the GIGA profile is the only
  target, every atomic tool the capability manifest announces is a registered tool, and the doctor that validates the extensions never
  refuses them: it fails only when the discovery does or an audit entry is unreadable.\<close>

theorem first_party_startup:
  "case first_party_start (\<lambda>name. False) core_registry of (problem, reg) \<Rightarrow>
     problem = None
     \<and> map fst (mcp_tools reg) = CORE_TOOL_NAMES @ GIGA_TOOL_NAMES @ BRIDGE_TOOL_NAMES \<and> distinct (map fst (mcp_tools reg))
     \<and> tool_names reg = set (map fst (mcp_tools reg)) \<and> resource_uris reg = set (map fst (mcp_resources reg))
     \<and> reg_profiles (targets reg) = [(profile_id GIGA_R1, GIGA_R1)]
     \<and> set (ATOMIC_TOOLS @ con_atomic_tools (bridge_contribution m)) \<subseteq> tool_names reg
     \<and> (case service_doctor d run (first_party_contribution (dr_discovery d) cfg) (first_party_checks d cfg env rows we fs user_root fw_root)
          reg env rows status of
          Inl (DiscoveryRefused x) \<Rightarrow> dependency_report d run (targets reg) = Inl x
        | Inl PayloadUnreadable \<Rightarrow> \<not> readable env rows
        | Inl x \<Rightarrow> False
        | Inr (checks, merged) \<Rightarrow> distinct (map check_name checks) \<and> distinct (map fst (man_workflows merged)))"
proof -
  have same: "with_both = with_both \<lparr> capability_providers := first_party_providers, dependency_providers := first_party_providers \<rparr>"
    by (simp add: with_both_def)
  have tools: "map fst (mcp_tools with_both) = CORE_TOOL_NAMES @ GIGA_TOOL_NAMES @ BRIDGE_TOOL_NAMES"
    "tool_names with_both = set (CORE_TOOL_NAMES @ GIGA_TOOL_NAMES @ BRIDGE_TOOL_NAMES)"
    by (auto simp: with_both_def with_giga_def comp_def)
  have resources: "resource_uris with_both = set (map fst (mcp_resources with_both))"
    by (auto simp: with_both_def with_giga_def core_registry_def image_image)
  have profile: "reg_profiles (targets with_both) = [(profile_id GIGA_R1, GIGA_R1)]"
    by (simp add: with_both_def with_giga_def giga_targets_def)
  note doctor = doctor_accepts [where d = d and run = run and cfg = cfg and env = env and rows = rows and we = we and fs = fs and user_root = user_root and fw_root = fw_root
      and r = with_both and status = status, folded same]
  show ?thesis
    unfolding started prod.case tools resources profile
    using doctor tool_names_distinct atomic_tools_registered(1) atomic_tools_registered(2) [of m]
    by auto
qed

end
