(* ===== verification/Core_Tools.thy ===== *)
theory Core_Tools
  imports Startup Workflow_Promises
begin

text \<open>
  The core's tools: \<^verbatim>\<open>_register_tools\<close> of \<^verbatim>\<open>server.py\<close>, which hands each call to the service or to a workflow, and the annotation
  each tool is registered with. The two tools that only compute a text from the file system or the host, \<^verbatim>\<open>inspect_elf\<close> and
  \<^verbatim>\<open>dependency_doctor\<close>, are left out. Time limits are answers of the runner, and what is typed or clicked is the GUI backend's.
\<close>

subsection \<open>Calls\<close>

datatype target_call =
    ConnectTarget
  | DisconnectTarget
  | ProbeInformation
  | ResetTarget bool "int option"
  | HaltTarget
  | RunTarget
  | StepTarget int
  | ReadMemory int int int
  | WriteMemory int "int list" int
  | ReadRegister string
  | WriteRegister string int
  | SetBreakpoint int
  | ClearBreakpoint int
  | SetWatchpoint int string
  | ClearWatchpoint int
  | EraseFlash "int option" "int option"
  | VerifyBinary string int
  | RawCommander "string list" bool
  | RawCommandString string
  | SwoControl string "int option" int

datatype session_call =
    RunApplication string "string list" bool
  | SerialExchange "string option" int int "string option"
  | CaptureSerial int int "string option"
  | StartGdb "string option"
  | GdbCommand string string
  | CaptureGdbChannel string string int
  | ExchangeGdbChannel string string string int
  | StopGdb string bool
  | LaunchGui string "string list"
  | GuiKeys string
  | GuiClick string
  | GuiScreenshot string
  | GuiOcr string
  | GuiAccessibilityTree string
  | GuiSessionInfo string
  | GuiImageMatch string string
  | StopGui string

datatype workflow_call =
    GetCapabilities
  | ListProbes
  | FlashAndVerify string
  | FlashBinary string int
  | BackupFlash int int
  | CompareFirmware string int
  | CompareBackupRegion string int int int
  | CaptureRtt string int int
  | RestoreBackup string int string
  | GenerateReport string int
  | RecentAudit int
  | VerifyAuditChain

datatype tool_call = TargetTool target_call | SessionTool session_call | WorkflowTool workflow_call

datatype tool_answer =
    CapabilitiesAnswer "probe_info list" "board_info list"
  | CommandAnswer command_result
  | ObjectAnswer json_object
  | StoppedAnswer string
  | BackupAnswer command_result "artifact option"
  | ComparisonAnswer comparison
  | RttAnswer rtt_result
  | RestoreAnswer restore_result
  | ReportAnswer validation_summary
  | AuditAnswer "operation_row list"
  | ChainAnswer bool "chain_error option"

definition answered :: "('a \<Rightarrow> tool_answer) \<Rightarrow> 'a workflow \<Rightarrow> tool_answer workflow" where
  "answered f m = op_bind m (\<lambda>x. op_return (f x))"

definition command_tool :: "workflow_env \<Rightarrow> command_result operation \<Rightarrow> tool_answer workflow" where
  "command_tool we m = answered CommandAnswer (call we m)"

text \<open>The defaults of \<^verbatim>\<open>run_application\<close>: one attempt, without a resume.\<close>

definition plain_application :: "string \<Rightarrow> string list \<Rightarrow> bool \<Rightarrow> application_request" where
  "plain_application name args destructive = \<lparr> app_name = name, app_args = args, app_destructive = destructive, app_resume = False,
     app_settle_ms = 0, app_attempts = 1, app_retry_ms = 0 \<rparr>"

definition image_match_tool :: "service_env \<Rightarrow> string \<Rightarrow> string \<Rightarrow> command_result operation" where
  "image_match_tool env sid template =
     op_bind (op_lift (rcatch (resolve_allowed_path (se_settings env) (se_fs env) template True) PathFailed)) (\<lambda>_. gui_image_match env sid)"

text \<open>The tools that command the target through J-Link Commander.\<close>

definition call_target :: "workflow_env \<Rightarrow> string set \<Rightarrow> device_selector \<Rightarrow> target_call \<Rightarrow> tool_answer workflow" where
  "call_target we given sel c =
     (let env = we_service we; commander = (\<lambda>request. command_tool we (submit env given sel request)) in
      case c of
        ConnectTarget \<Rightarrow> commander (Inr connect_request)
      | DisconnectTarget \<Rightarrow> command_tool we (disconnect env given sel)
      | ProbeInformation \<Rightarrow> commander (Inr probe_info_request)
      | ResetTarget halt kind \<Rightarrow> commander (reset_request halt kind)
      | HaltTarget \<Rightarrow> commander (Inr halt_request)
      | RunTarget \<Rightarrow> commander (Inr go_request)
      | StepTarget many \<Rightarrow> commander (step_request many)
      | ReadMemory address many width \<Rightarrow> commander (read_memory_request address many width)
      | WriteMemory address vals width \<Rightarrow> commander (write_memory_request address vals width)
      | ReadRegister name \<Rightarrow> commander (read_register_request name)
      | WriteRegister name v \<Rightarrow> commander (write_register_request name v)
      | SetBreakpoint address \<Rightarrow> commander (Inr (set_breakpoint_request address))
      | ClearBreakpoint h \<Rightarrow> commander (clear_breakpoint_request h)
      | SetWatchpoint address access \<Rightarrow> commander (set_watchpoint_request address access)
      | ClearWatchpoint h \<Rightarrow> commander (clear_watchpoint_request h)
      | EraseFlash start stop \<Rightarrow> commander (erase_flash_request start stop)
      | VerifyBinary path address \<Rightarrow> commander (verify_binary_request env path address)
      | RawCommander commands destructive \<Rightarrow> commander (Inr (raw_request commands destructive))
      | RawCommandString command \<Rightarrow> commander (command_string_request command)
      | SwoControl action speed_hz capture_ms \<Rightarrow> commander (swo_request action speed_hz capture_ms))"

text \<open>The tools of the other backends: applications, the serial port, GDB and GUI sessions.\<close>

definition call_session :: "workflow_env \<Rightarrow> string set \<Rightarrow> device_selector \<Rightarrow> session_call \<Rightarrow> tool_answer workflow" where
  "call_session we given sel c =
     (let env = we_service we in
      case c of
        RunApplication name args destructive \<Rightarrow> command_tool we (run_application env given sel (plain_application name args destructive))
      | SerialExchange data baudrate duration until \<Rightarrow> command_tool we (serial_exchange env given sel data baudrate duration until)
      | CaptureSerial baudrate duration until \<Rightarrow> command_tool we (serial_exchange env given sel None baudrate duration until)
      | StartGdb elf_path \<Rightarrow> answered ObjectAnswer (call we (start_gdb env given sel elf_path))
      | GdbCommand sid command \<Rightarrow> command_tool we (gdb_command env sid command)
      | CaptureGdbChannel sid channel duration \<Rightarrow> command_tool we (capture_gdb_channel env sid channel duration None)
      | ExchangeGdbChannel sid channel data duration \<Rightarrow> command_tool we (capture_gdb_channel env sid channel duration (Some data))
      | StopGdb sid resume \<Rightarrow> answered (\<lambda>_. StoppedAnswer sid) (call we (stop_gdb env sid resume))
      | LaunchGui application args \<Rightarrow> answered ObjectAnswer (call we (start_gui env given sel application args))
      | GuiKeys sid \<Rightarrow> command_tool we (gui_keys env sid)
      | GuiClick sid \<Rightarrow> command_tool we (gui_click env sid)
      | GuiScreenshot sid \<Rightarrow> command_tool we (gui_screenshot env sid)
      | GuiOcr path \<Rightarrow> command_tool we (gui_ocr env path)
      | GuiAccessibilityTree sid \<Rightarrow> command_tool we (gui_accessibility env sid)
      | GuiSessionInfo sid \<Rightarrow> answered ObjectAnswer (inside (gui_session_info env sid))
      | GuiImageMatch sid template \<Rightarrow> command_tool we (image_match_tool env sid template)
      | StopGui sid \<Rightarrow> answered (\<lambda>_. StoppedAnswer sid) (call we (stop_gui env sid)))"

text \<open>The workflows, and the tools that only ask.\<close>

definition call_workflow :: "workflow_env \<Rightarrow> string set \<Rightarrow> device_selector \<Rightarrow> workflow_call \<Rightarrow> tool_answer workflow" where
  "call_workflow we given sel c =
     (let env = we_service we in
      case c of
        GetCapabilities \<Rightarrow> answered (\<lambda>(probes, boards). CapabilitiesAnswer probes boards) (inside (capabilities env))
      | ListProbes \<Rightarrow> command_tool we (probe_list env)
      | FlashAndVerify path \<Rightarrow> answered CommandAnswer (flash_and_verify we given sel path)
      | FlashBinary path address \<Rightarrow> answered CommandAnswer (flash_binary we given sel path address)
      | BackupFlash address len \<Rightarrow> answered (\<lambda>(r, a). BackupAnswer r a) (backup_flash we given sel address len)
      | CompareFirmware path address \<Rightarrow> answered ComparisonAnswer (compare_firmware we given sel path address)
      | CompareBackupRegion path offset address len \<Rightarrow> answered ComparisonAnswer (compare_backup_region we given sel path offset address len)
      | CaptureRtt elf_path duration channel \<Rightarrow> answered RttAnswer (capture_rtt we given sel elf_path duration channel)
      | RestoreBackup path address expected \<Rightarrow> answered RestoreAnswer (restore_backup we given sel path address expected)
      | GenerateReport title limit \<Rightarrow> answered ReportAnswer (generate_validation_report we title limit)
      | RecentAudit limit \<Rightarrow> answered AuditAnswer
          (inside (op_bind (op_get sv_store) (\<lambda>store. op_lift (rcatch (list_operations limit store) StoreFailed))))
      | VerifyAuditChain \<Rightarrow> answered (\<lambda>store. ChainAnswer (fst (verify_chain (se_store env) store)) (snd (verify_chain (se_store env) store)))
          (inside (op_get sv_store)))"

definition call_tool :: "workflow_env \<Rightarrow> string set \<Rightarrow> device_selector \<Rightarrow> tool_call \<Rightarrow> tool_answer workflow" where
  "call_tool we given sel c =
     (case c of TargetTool t \<Rightarrow> call_target we given sel t | SessionTool x \<Rightarrow> call_session we given sel x
      | WorkflowTool w \<Rightarrow> call_workflow we given sel w)"






subsection \<open>What a read-only tool logs\<close>

text \<open>The log grows by entries that are recorded as not changing the target.\<close>

definition log_quiet :: "service_state \<Rightarrow> service_state \<Rightarrow> bool" where
  "log_quiet st st' \<longleftrightarrow>
     (\<exists>rows. operations (sv_store st') = operations (sv_store st) @ rows \<and> list_all (\<lambda>r. row_destructive r = 0) rows)"

lemma log_quiet_refl: "operations (sv_store st') = operations (sv_store st) \<Longrightarrow> log_quiet st st'"
  by (simp add: log_quiet_def)

























subsection \<open>The exception\<close>

text \<open>The new entries of the log include a resume of the target, recorded as changing it.\<close>

definition resumed :: "service_state \<Rightarrow> service_state \<Rightarrow> bool" where
  "resumed st st' \<longleftrightarrow>
     (\<exists>before row after. operations (sv_store st') = operations (sv_store st) @ before @ row # after
        \<and> row_action row = ''serial_resume'' \<and> row_destructive row = 1)"

lemma resumed_after: "audit_grows env a b \<Longrightarrow> resumed b c \<Longrightarrow> resumed a c"
  unfolding audit_grows_def resumed_def by (metis append_assoc)

lemma resumed_before: "resumed a b \<Longrightarrow> audit_grows env b c \<Longrightarrow> resumed a c"
  unfolding audit_grows_def resumed_def by (metis append_assoc append_Cons)

lemma resumed_log: "operations (sv_store a') = operations (sv_store a) \<Longrightarrow> operations (sv_store b') = operations (sv_store b) \<Longrightarrow> resumed a b = resumed a' b'"
  by (simp add: resumed_def)

lemma resume_logged:
  assumes "resume_after_preflight env sel lid identity ''serial_resume'' st = (Inr r, st')"
  shows "resumed st st'"
proof -
  obtain x st1 y st2 where run: "run_commander env [''Go''] sel st = (Inr x, st1)"
    and logged: "append env y ''serial_resume'' (sel_probe_serial sel) True (Some (commands_request sel [''Go''])) st1 = (Inr (), st2)"
    and "st' = st2"
    using assms by (auto simp: resume_after_preflight_def op_bind_Inr op_check_def op_return_def op_raise_def Let_def split: if_splits)
  moreover have "operations (sv_store st1) = operations (sv_store st)" using run_commander_returns [OF run] by simp
  moreover obtain row where "operations (sv_store st2) = operations (sv_store st1) @ [row]" "row_action row = ''serial_resume''" "row_destructive row = 1"
    using logged by (auto simp: append_def op_bind_def ask_def append_operation_Inr new_row_def Let_def split: sum.splits prod.splits)
  ultimately have "operations (sv_store st') = operations (sv_store st) @ [] @ row # []" by simp
  then show ?thesis using \<open>row_action row = ''serial_resume''\<close> \<open>row_destructive row = 1\<close> unfolding resumed_def by blast
qed

lemma with_lease_log:
  assumes "with_lease env probe owner body st = (Inr x, st')"
  obtains info st1 st2 where "sv_store st1 = sv_store st" "body info st1 = (Inr x, st2)" "sv_store st' = sv_store st2"
proof (cases "reentrant (se_task env) probe (sv_leases st)")
  case (Some info)
  then show ?thesis using assms that [of st info st'] by (simp add: with_lease_def)
next
  case None
  then obtain info st1 where a: "acquire_lease env probe owner st = (Inr info, st1)"
      "op_finally (body info) (release_lease (lease_id info)) st1 = (Inr x, st')"
    using assms by (auto simp: with_lease_def op_bind_Inr)
  have "sv_store st1 = sv_store st"
    using a(1) by (auto simp: acquire_lease_def op_bind_def ask_def split: prod.splits sum.splits)
  then show ?thesis using a(2) that [of st1 info] by (auto simp: op_finally_def release_lease_def split: prod.splits)
qed

lemma gated_serial_resumes:
  assumes "gated_serial env sel owner ''serial_resume'' exch st = (Inr x, st')" "matching_gdb sel st = None" "\<And>port. over (audit_grows env) (exch port)"
  shows "resumed st st'"
proof -
  define rest where "rest = (\<lambda>(identity :: command_result) (lease :: lease_info) (resume :: command_result). op_bind (wait_board (se_polls env) env sel) (\<lambda>port.
      op_bind (exch port) (\<lambda>r. op_return (with_session (lease_id lease) r, res_parsed identity, Some (res_operation_id resume)))))"
  obtain probe where "with_lease env probe owner (\<lambda>lease. op_bind (identity_preflight env sel (lease_id lease)) (\<lambda>identity.
      op_bind (resume_after_preflight env sel (lease_id lease) (res_parsed identity) ''serial_resume'') (rest identity lease))) st = (Inr x, st')"
    using assms(1,2) unfolding rest_def by (auto simp: gated_serial_def op_bind_def op_get_def op_raise_def split: option.splits)
  then obtain info s1 s2 where same: "sv_store s1 = sv_store st" "sv_store st' = sv_store s2"
    and body: "op_bind (identity_preflight env sel (lease_id info)) (\<lambda>identity.
      op_bind (resume_after_preflight env sel (lease_id info) (res_parsed identity) ''serial_resume'') (rest identity info)) s1 = (Inr x, s2)"
    by (rule with_lease_log) blast
  obtain identity s3 resume s4 where preflight: "identity_preflight env sel (lease_id info) s1 = (Inr identity, s3)"
    and resume: "resume_after_preflight env sel (lease_id info) (res_parsed identity) ''serial_resume'' s3 = (Inr resume, s4)"
    and last: "rest identity info resume s4 = (Inr x, s2)"
    using body by (auto simp: op_bind_Inr)
  have "audit_grows env s1 s3" using overD [OF audit.over_preflight [of env sel "lease_id info"], of s1] preflight by simp
  moreover have "resumed s3 s4" by (rule resume_logged [OF resume])
  moreover have "over (audit_grows env) (rest identity info resume)"
    unfolding rest_def by (intro audit.over_bind audit.over_wait_board assms(3) audit.over_basic)
  then have "audit_grows env s4 s2" using overD [of "audit_grows env" "rest identity info resume" s4] last by simp
  ultimately have "resumed s1 s2" by (meson resumed_after resumed_before)
  then show ?thesis using resumed_log [of s1 st s2 st'] same by simp
qed

text \<open>Resolving a selector files no session.\<close>

interpretation unfiled: passing_contract "\<lambda>st st'. sv_gdb_selectors st' = sv_gdb_selectors st" env for env
proof unfold_locales
  show "sv_gdb_selectors (leased_state env serial owner g st) = sv_gdb_selectors st" if g: "\<And>info st. sv_gdb_selectors (g info st) = sv_gdb_selectors st"
    for st serial owner g
  proof -
    have "sv_gdb_selectors (snd (acquire_lease env serial owner st)) = sv_gdb_selectors st"
      by (auto simp: acquire_lease_def op_bind_def ask_def split: prod.splits sum.splits)
    then show ?thesis by (auto simp: leased_state_def release_lease_def g split: option.split prod.split sum.split)
  qed
qed simp_all

text \<open>\<^verbatim>\<open>capture_serial\<close> is annotated as read-only. When no GDB session is open, a capture that returns has resumed the target's core with
  \<^verbatim>\<open>Go\<close> and has recorded that as a change of the target.\<close>

theorem capture_serial_resumes:
  assumes "call_tool we given sel (SessionTool (CaptureSerial baudrate duration until)) ws = (Inr a, ws')" "sv_gdb_selectors (ws_service ws) = []"
  shows "resumed (ws_service ws) (ws_service ws')"
proof -
  let ?env = "we_service we" and ?st = "ws_service ws" and ?exch = "serial_backend_exchange (we_service we) None baudrate duration"
  obtain r where "serial_exchange ?env given sel None baudrate duration until ?st = (Inr r, ws_service ws')"
    using assms(1) by (auto simp: call_tool_def call_session_def Let_def command_tool_def answered_def op_bind_Inr op_return_def call_def split: prod.splits)
  then obtain resolved st1 x st2 e p b where resolve: "resolve_selector_wait ?env given sel ?st = (Inr resolved, st1)"
    and gated: "gated_serial ?env resolved ''serial_exchange'' ''serial_resume'' ?exch st1 = (Inr x, st2)"
    and logged: "append ?env e ''serial_exchange'' p False b st2 = (Inr (), ws_service ws')"
    by (auto simp: serial_exchange_def op_bind_Inr op_return_def Let_def)
  have "sv_gdb_selectors st1 = []"
    using overD [OF unfiled.over_resolve_wait [of ?env given sel], of ?st] resolve assms(2) by simp
  then have "matching_gdb resolved st1 = None" by (simp add: matching_gdb_def)
  moreover have "over (audit_grows ?env) (?exch port)" for port
    unfolding serial_backend_exchange_def by (auto intro!: audit.over_bind audit.over_ask audit.over_basic split: prod.split)
  ultimately have "resumed st1 st2" using gated gated_serial_resumes by blast
  moreover have "audit_grows ?env ?st st1" using overD [OF audit.over_resolve_wait [of ?env given sel], of ?st] resolve by simp
  moreover have "audit_grows ?env st2 (ws_service ws')" using overD [OF audit.over_append [of ?env e "''serial_exchange''" p False b], of st2] logged by simp
  ultimately show ?thesis by (meson resumed_after resumed_before)
qed

end
