(* ===== verification/Spec2Isabelle.thy ===== *)
theory Spec2Isabelle
  imports Wire Bridge_Contract Leases Audit_Store Load_Rollback Http_Gate Service_Gate Service_Requests Bridge_Promises Workflow_Gate
    Gdb_Backend Gui_Backend Pin_Claims Core_Tools
begin

text \<open>
  A verification development of J-Link MCP, a server that lets a client control SEGGER J-Link debug probes over the Model Context
  Protocol, with two extensions of its own: \<^verbatim>\<open>arduino_giga\<close> (workflows for the Arduino GIGA R1) and \<^verbatim>\<open>giga_protocol_bridge\<close> (a firmware
  that bridges SPI, I2C, UART, CAN, USB, Wi-Fi, BLE and GPIO, with its host side). Paths below are relative to \<^verbatim>\<open>src/src/jlink_mcp/\<close> (the core),
  \<^verbatim>\<open>src/extensions/arduino_giga/src/jlink_mcp_arduino_giga/\<close> and \<^verbatim>\<open>src/extensions/giga_protocol_bridge/src/jlink_mcp_giga_protocol_bridge/\<close>.

  \<^bold>\<open>How the program fits together.\<close> An HTTP request passes the bearer token gate and reaches a tool. A tool calls the application service
  or a workflow. The service resolves which probe, board, profile and core are meant, takes the exclusive lease of the probe, identifies
  the target with two reading commands, runs the operation through a backend (Commander, serial port, GDB, GUI, application) and appends
  the result to a hash-chained audit log. Workflows combine operations of the service with files; extensions register profiles, detectors,
  capability and dependency providers, services and tools, and call the service and the workflows from theirs. Accordingly the theories
  build on each other: data and codecs, the stores, the backends, the service, the workflows, the extensions, the start of the server.

  \<^bold>\<open>Which theory models what.\<close>

  \<^item> \<open>Prelude\<close>, \<open>Bytes\<close>, \<open>Pystr\<close>, \<open>Regex\<close>, \<open>Json\<close>, \<open>Operation_Triples\<close>: results as sums, dictionaries as association lists in insertion
    order, byte strings and \<^verbatim>\<open>struct\<close>, the string methods and the part of \<^verbatim>\<open>re\<close>, \<^verbatim>\<open>json.dumps\<close> and \<^verbatim>\<open>base64\<close> (\<open>Base64\<close>) the program uses, and
    triples for operations on a state.
  \<^item> \<open>Crc\<close>, \<open>Cobs\<close>, \<open>Frames\<close>, \<open>Tlv\<close>, \<open>Wire\<close> (\<^verbatim>\<open>wire.py\<close> of the bridge): checksum, stuffing, frames, segmentation, reassembly and typed fields;
    \<open>Bridge_Models\<close>, \<open>Bridge_Request\<close>, \<open>Bridge_Body\<close>, \<open>Bridge_Contract\<close> (\<^verbatim>\<open>models.py\<close> and \<^verbatim>\<open>wire.py\<close>): the requests with their validators and the bodies they
    become, against a reference list of fields; \<open>Pin_Claims\<close> (\<^verbatim>\<open>resources.py\<close>): the owners of the pins.
  \<^item> \<open>Core_Models\<close>, \<open>Profiles\<close>, \<open>Config\<close>, \<open>Security\<close> (\<^verbatim>\<open>models.py\<close>, \<^verbatim>\<open>profiles.py\<close>, \<^verbatim>\<open>config.py\<close>, \<^verbatim>\<open>security.py\<close>): the records of the core, the target registry,
    settings and path confinement, and the validation of raw commands.
  \<^item> \<open>Leases\<close> (\<^verbatim>\<open>leases.py\<close>): the lease manager as steps between suspension points. \<open>Audit_Store\<close> (\<^verbatim>\<open>store.py\<close>): the three tables and the hash chain.
  \<^item> \<open>Commander\<close>, \<open>Serial\<close>, \<open>Runner\<close>, \<open>Gdb_Backend\<close>, \<open>Gui_Backend\<close> (\<^verbatim>\<open>backends/\<close> and \<^verbatim>\<open>runner.py\<close>): every operation of the backends, over the trace of a port,
    the table of running processes, or the filed sessions and servers. \<open>Runner\<close> holds \<^verbatim>\<open>backends/application.py\<close> too.
  \<^item> \<open>Service\<close>, \<open>Service_Ops\<close>, \<open>Service_Sessions\<close> (\<^verbatim>\<open>service.py\<close>): the state \<open>service_state\<close> (leases, store, sessions with their leases and selectors, and as
    ghost state the commands each probe got), selection, identification, every operation. \<open>Service_Contract\<close> holds the locales below;
    \<open>Service_Safety\<close>, \<open>Service_Leases\<close>, \<open>Service_Requests\<close> and \<open>Service_Gate\<close> the invariants and what they give callers.
  \<^item> \<open>Bridge_Backend\<close>, \<open>Bridge_Service\<close>, \<open>Bridge_Promises\<close> (\<^verbatim>\<open>backend.py\<close>, \<^verbatim>\<open>service.py\<close>, \<^verbatim>\<open>profiles.py\<close> of the bridge): one exchange with the device, named secrets, the typed
    requests behind the core's gate.
  \<^item> \<open>Workflows\<close>, \<open>Report\<close>, \<open>Workflow_Promises\<close> (\<^verbatim>\<open>workflows.py\<close>, \<^verbatim>\<open>artifacts.py\<close>): flashing, backup, comparison, restoring, RTT capture and the validation report, over
    the service's state and a map from paths to bytes.
  \<^item> \<open>Giga_Workflows\<close>, \<open>Giga_Debug\<close>, \<open>Giga_Build\<close>, \<open>Giga_Validation\<close>, \<open>Fixture_Elf\<close>, \<open>Giga_Contract\<close>, \<open>Giga_Promises\<close> (\<^verbatim>\<open>workflows.py\<close> and \<^verbatim>\<open>artifacts.py\<close> of the GIGA
    extension): building, finalizing and verifying a fixture, deploying both cores, observation, debug and crash sessions, the complete
    validation. \<open>Bridge_Deploy\<close>, \<open>Deploy_Promises\<close> (\<^verbatim>\<open>workflows.py\<close> of the bridge): release, staging, deployment with rollback.
    \<open>Workflow_Gate\<close>: any sequence of everything the program offers.
  \<^item> \<open>Discovery\<close>, \<open>Doctor\<close> (\<^verbatim>\<open>discovery.py\<close>, \<^verbatim>\<open>doctor.py\<close>): what is attached and installed, and whether it is fit for use.
  \<^item> \<open>Extensions_Api\<close>, \<open>Loader\<close>, \<open>Load_Order\<close>, \<open>Load_Rollback\<close> (\<^verbatim>\<open>extensions/\<close>): the registry and its rollback, the loader.
    \<open>Extension_Reports\<close>: what both extensions contribute (\<^verbatim>\<open>extension.py\<close>, \<^verbatim>\<open>config.py\<close>) and the service's doctor. \<open>Startup\<close>: the start of the
    server with both. \<open>Http_Gate\<close>, \<open>Core_Tools\<close> (\<^verbatim>\<open>server.py\<close>): the token gate, and what every tool of the core calls.

  \<^bold>\<open>Interfaces.\<close> \<open>path_relation\<close>, \<open>passing_contract\<close>, \<open>operation_contract\<close>, \<open>session_contract\<close>, \<open>artifact_contract\<close> and \<open>workflow_contract\<close> say
  what a relation between states must allow for every operation of the service, and every workflow built on it, to stay in it; they are
  interpreted for the growth of the audit log, the gate before every command, the leases, and the entries of read-only tools.
  \<open>undo_log\<close> is the contract of inverse actions, interpreted for the registry; \<open>delimited_codec\<close> that of a codec over a
  delimited stream, interpreted for the frames.

  \<^bold>\<open>What the groups of lemmas show.\<close> Codecs: round trips, exact acceptance, detection of damage. Stores: mutual exclusion of leases, the
  chain of the log verifies and tampering shows. Service: whatever operations run, a command reaches a probe only right after its target was positively
  identified, the leases held are exactly those of open sessions, the log only grows and verifies. Backends: sessions own their
  processes, stopping ends them, a run leaves no process behind. Workflows: a deployment or validation that fails restores the backup;
  only authorized bytes are flashed. Extensions: loading is all or nothing, contributions never shadow, the two first-party extensions
  fit the core and each other. Secrets do not reach the log.

  \<^bold>\<open>Bounds and fuel.\<close> Loops that poll until a deadline take the number of polls the deadline allows (\<open>se_polls\<close> of the service, \<open>gh_polls\<close> of the GDB
  backend) as an argument and raise when it is used up, as the code does; statements hold for every number. \<open>re_findall\<close> runs
  with one more step than the text has characters, and every step but the last consumes one. All other loops are structural or have a
  termination proof (stuffing, typed fields, the load order).

  \<^bold>\<open>Parameters.\<close> SHA-256, time stamps, fresh identifiers, \<^verbatim>\<open>json.loads\<close>, the file system, udev, the operating system, GDB, the J-Link tools, elftools and the device are answers
  in environment records (\<open>service_env\<close>, \<open>workflow_env\<close>, \<open>giga_env\<close>, \<open>discovery_host\<close>, \<open>run_host\<close> and others); an answer
  may depend on the tick at which it is asked, so it may change at any time. Documented facts the code needs of them (identifiers do not
  repeat, decoding inverts encoding) are hypotheses with instances.

  \<^bold>\<open>Not modelled.\<close> An operation of the service is one step: operations interleave between, not inside, their awaits (the lease manager alone is modelled
  between suspension points), and cancellation is modelled in the process runner only. A character is one below 256, so UTF-8
  text beyond that is represented by stand-ins. Time-outs are answers; elapsed time is data. The creation of directories, the texts beside a
  check's verdict, \<^verbatim>\<open>inspect_elf\<close>, the MCP library and the JSON form of its answers, the command line, the stdio
  relay, the accessibility helper process and the reserved SDK backend are left out: they are input and output, or only call libraries.
\<close>

end
